(* ===== verification/Prelude.thy ===== *)
theory Prelude
  imports Main "HOL-Library.Word" "HOL-Library.AList"
begin

text \<open>
  Shared vocabulary of the development: the collections of rewrite rules that the component
  theories fill, the machine types of the Rust sources, monotonic time, and the model of
  \<open>std::collections::HashMap\<close> used by every in-memory registry.

  A \<open>HashMap\<close> is an association list with distinct keys. The position of an entry is the
  (arbitrary) iteration order: statements quantify over all such lists, so they cover every
  order in which the program may meet the entries.
\<close>

named_theorems wf_intros "well-formedness is preserved by the operations"
named_theorems step_defs "the definitions of the single operations of a component"

section \<open>Machine types and time\<close>

type_synonym u8 = "8 word"
type_synonym u16 = "16 word"
type_synonym u32 = "32 word"

text \<open>
  \<open>std::time::Instant\<close> is a number of nanoseconds since an arbitrary epoch of the process.
  \<open>duration_since\<close> and \<open>elapsed\<close> saturate at zero, which is the subtraction of \<open>nat\<close>;
  \<open>Duration::as_secs\<close> truncates to whole seconds.
\<close>

type_synonym instant = nat

definition NANOS :: nat where
  "NANOS = 1000000000"

definition secs :: "nat \<Rightarrow> nat" where
  "secs n = n * NANOS"

definition as_secs :: "nat \<Rightarrow> nat" where
  "as_secs d = d div NANOS"

definition elapsed_secs :: "instant \<Rightarrow> instant \<Rightarrow> nat" where
  "elapsed_secs now t = as_secs (now - t)"

lemma elapsed_secs_self [simp]: "elapsed_secs t t = 0"
  by (simp add: elapsed_secs_def as_secs_def)

lemma elapsed_secs_mono: "now \<le> now' \<Longrightarrow> elapsed_secs now t \<le> elapsed_secs now' t"
  unfolding elapsed_secs_def as_secs_def by (intro div_le_mono diff_le_mono)

lemma elapsed_secs_antimono: "t \<le> t' \<Longrightarrow> elapsed_secs now t' \<le> elapsed_secs now t"
  unfolding elapsed_secs_def as_secs_def by (intro div_le_mono diff_le_mono2)

lemma as_secs_secs [simp]: "as_secs (secs n) = n"
  by (simp add: as_secs_def secs_def NANOS_def)

lemma elapsed_secs_le_iff: "elapsed_secs now t \<le> n \<longleftrightarrow> now - t < secs (Suc n)"
  by (simp add: elapsed_secs_def as_secs_def secs_def NANOS_def less_Suc_eq_le [symmetric]
      div_less_iff_less_mult)

section \<open>Hash maps\<close>

type_synonym ('k, 'v) hmap = "('k \<times> 'v) list"

abbreviation hm_get :: "('k, 'v) hmap \<Rightarrow> 'k \<Rightarrow> 'v option" where
  "hm_get \<equiv> map_of"

abbreviation hm_put :: "'k \<Rightarrow> 'v \<Rightarrow> ('k, 'v) hmap \<Rightarrow> ('k, 'v) hmap" where
  "hm_put \<equiv> AList.update"

abbreviation hm_del :: "'k \<Rightarrow> ('k, 'v) hmap \<Rightarrow> ('k, 'v) hmap" where
  "hm_del \<equiv> AList.delete"

definition hm_has :: "('k, 'v) hmap \<Rightarrow> 'k \<Rightarrow> bool" where
  "hm_has m k \<longleftrightarrow> hm_get m k \<noteq> None"

definition hm_wf :: "('k, 'v) hmap \<Rightarrow> bool" where
  "hm_wf m \<longleftrightarrow> distinct (map fst m)"

text \<open>\<open>HashMap::retain\<close>.\<close>

definition hm_retain :: "('k \<Rightarrow> 'v \<Rightarrow> bool) \<Rightarrow> ('k, 'v) hmap \<Rightarrow> ('k, 'v) hmap" where
  "hm_retain p m = filter (\<lambda>(k, v). p k v) m"

definition hm_vals :: "('k, 'v) hmap \<Rightarrow> 'v list" where
  "hm_vals m = map snd m"

lemma hm_get_put [simp]: "hm_get (hm_put k v m) = (hm_get m)(k \<mapsto> v)"
  by (rule AList.update_conv')

lemma hm_get_del [simp]: "hm_get (hm_del k m) = (hm_get m)(k := None)"
  by (rule AList.delete_conv')

lemma hm_wf_Nil [simp, wf_intros]: "hm_wf []"
  by (simp add: hm_wf_def)

lemma hm_wf_put [wf_intros]: "hm_wf m \<Longrightarrow> hm_wf (hm_put k v m)"
  by (simp add: hm_wf_def AList.distinct_update)

lemma hm_wf_del [wf_intros]: "hm_wf m \<Longrightarrow> hm_wf (hm_del k m)"
  by (simp add: hm_wf_def AList.distinct_delete)

lemma hm_wf_retain [wf_intros]: "hm_wf m \<Longrightarrow> hm_wf (hm_retain p m)"
  unfolding hm_wf_def hm_retain_def by (rule distinct_map_filter)

lemma hm_get_in_set: "hm_wf m \<Longrightarrow> hm_get m k = Some v \<longleftrightarrow> (k, v) \<in> set m"
  by (simp add: hm_wf_def map_of_eq_Some_iff)

lemma hm_get_retain:
  assumes "hm_wf m"
  shows "hm_get (hm_retain p m) k =
    (case hm_get m k of None \<Rightarrow> None | Some v \<Rightarrow> if p k v then Some v else None)"
proof (cases "hm_get m k")
  case None
  then have "k \<notin> fst ` set m" by (simp add: map_of_eq_None_iff)
  then have "hm_get (hm_retain p m) k = None"
    by (auto simp: hm_retain_def map_of_eq_None_iff)
  with None show ?thesis by simp
next
  case (Some v)
  have wf': "hm_wf (hm_retain p m)" using assms by (rule hm_wf_retain)
  from Some have mem: "(k, v) \<in> set m" by (rule map_of_SomeD)
  show ?thesis
  proof (cases "p k v")
    case True
    then have "(k, v) \<in> set (hm_retain p m)" using mem by (simp add: hm_retain_def)
    then have "hm_get (hm_retain p m) k = Some v" using wf' by (simp add: hm_get_in_set)
    with Some True show ?thesis by simp
  next
    case False
    have "hm_get (hm_retain p m) k = None"
    proof (rule ccontr)
      assume "hm_get (hm_retain p m) k \<noteq> None"
      then obtain w where "hm_get (hm_retain p m) k = Some w" by auto
      then have "(k, w) \<in> set m" "p k w" by (auto dest!: map_of_SomeD simp: hm_retain_def)
      moreover have "w = v"
        using assms mem \<open>(k, w) \<in> set m\<close> by (metis hm_get_in_set option.inject)
      ultimately show False using False by simp
    qed
    with Some False show ?thesis by simp
  qed
qed

lemma hm_keys_put: "fst ` set (hm_put k v m) = insert k (fst ` set m)"
  by (induction m) auto

lemma set_hm_put_subset: "set (hm_put k v m) \<subseteq> insert (k, v) (set m)"
  by (induction m) auto

lemma hm_put_mem_same: "hm_wf m \<Longrightarrow> (k, v) \<in> set (hm_put k v m)"
  by (rule map_of_SomeD) (simp add: hm_get_put)

lemma hm_put_absent_append: "hm_get m k = None \<Longrightarrow> hm_put k v m = m @ [(k, v)]"
  by (induction m) (auto split: if_splits)

lemma hm_put_present_length: "hm_get m k \<noteq> None \<Longrightarrow> length (hm_put k v m) = length m"
  by (induction m) (auto split: if_splits)

lemma set_hm_del: "set (hm_del k m) = {x \<in> set m. fst x \<noteq> k}"
  by (auto simp: AList.delete_eq)

lemma hm_has_put [simp]: "hm_has (hm_put k v m) j \<longleftrightarrow> j = k \<or> hm_has m j"
  by (simp add: hm_has_def hm_get_put)

lemma hm_has_del [simp]: "hm_has (hm_del k m) j \<longleftrightarrow> j \<noteq> k \<and> hm_has m j"
  by (simp add: hm_has_def hm_get_del)

lemma length_filter_hm_put_absent:
  "hm_get m k = None \<Longrightarrow>
    length (filter p (hm_vals (hm_put k v m))) = length (filter p (hm_vals m)) + (if p v then 1 else 0)"
  by (simp add: hm_put_absent_append hm_vals_def)

section \<open>List lemmas the components share\<close>

lemma find_Some_set: "List.find p xs = Some x \<Longrightarrow> x \<in> set xs \<and> p x"
  by (auto simp: find_Some_iff)

lemma find_None_all: "List.find p xs = None \<Longrightarrow> x \<in> set xs \<Longrightarrow> \<not> p x"
  by (simp add: find_None_iff)

text \<open>The first element with property \<open>p\<close>, replaced by its image under \<open>f\<close>: the shape of
  \<open>iter_mut().find(..)\<close> followed by an assignment through the reference.\<close>

fun update_first :: "('a \<Rightarrow> bool) \<Rightarrow> ('a \<Rightarrow> 'a) \<Rightarrow> 'a list \<Rightarrow> 'a list" where
  "update_first p f [] = []"
| "update_first p f (x # xs) = (if p x then f x # xs else x # update_first p f xs)"

lemma length_update_first [simp]: "length (update_first p f xs) = length xs"
  by (induction xs) auto

lemma map_update_first: "(\<And>x. g (f x) = g x) \<Longrightarrow> map g (update_first p f xs) = map g xs"
  by (induction xs) auto

lemma update_first_none: "List.find p xs = None \<Longrightarrow> update_first p f xs = xs"
  by (induction xs) (auto split: if_splits)

lemma find_update_first:
  "List.find p xs = Some x \<Longrightarrow> p (f x) \<Longrightarrow> List.find p (update_first p f xs) = Some (f x)"
  by (induction xs) (auto split: if_splits)

lemma update_first_mem:
  "y \<in> set (update_first p f xs) \<Longrightarrow> y \<in> set xs \<or> (\<exists>x. List.find p xs = Some x \<and> y = f x)"
  by (induction xs) (auto split: if_splits)

lemma map_filter_append: "List.map_filter f (xs @ ys) = List.map_filter f xs @ List.map_filter f ys"
  by (simp add: List.map_filter_def)

lemma map_filter_Cons: "List.map_filter f (x # xs) = (case f x of None \<Rightarrow> [] | Some y \<Rightarrow> [y]) @ List.map_filter f xs"
  by (simp add: List.map_filter_def split: option.split)

lemma map_filter_map: "List.map_filter f (map g xs) = List.map_filter (\<lambda>x. f (g x)) xs"
  by (simp add: List.map_filter_def filter_map comp_def)

lemma map_of_all: "map_of xs a = Some m \<Longrightarrow> list_all (\<lambda>(_, x). P x) xs \<Longrightarrow> P m"
  by (drule map_of_SomeD) (auto simp: list_all_iff)

end
