(* ===== verification/RustStr.thy ===== *)
theory RustStr
  imports Prelude
begin

text \<open>
  The parts of Rust's \<open>str\<close> that the program uses. A Rust string is the list of its UTF-8
  bytes (\<open>char\<close> is a byte), so \<open>str::len\<close> is \<open>length\<close>; operations that work on Unicode scalar
  values go through \<open>chars_of\<close>, which groups a leading byte with its continuation bytes.
  Searching for an ASCII character or substring works on bytes, as in the standard library.
\<close>

section \<open>Bytes and characters\<close>

definition byte :: "char \<Rightarrow> nat" where
  "byte c = of_char c"

definition is_ascii :: "char \<Rightarrow> bool" where
  "is_ascii c \<longleftrightarrow> byte c < 128"

definition is_ascii_digit :: "char \<Rightarrow> bool" where
  "is_ascii_digit c \<longleftrightarrow> 48 \<le> byte c \<and> byte c \<le> 57"

definition is_ascii_upper :: "char \<Rightarrow> bool" where
  "is_ascii_upper c \<longleftrightarrow> 65 \<le> byte c \<and> byte c \<le> 90"

definition is_ascii_lower :: "char \<Rightarrow> bool" where
  "is_ascii_lower c \<longleftrightarrow> 97 \<le> byte c \<and> byte c \<le> 122"

definition is_ascii_alphanumeric :: "char \<Rightarrow> bool" where
  "is_ascii_alphanumeric c \<longleftrightarrow> is_ascii_digit c \<or> is_ascii_upper c \<or> is_ascii_lower c"

definition ascii_lower :: "char \<Rightarrow> char" where
  "ascii_lower c = (if is_ascii_upper c then char_of (byte c + 32) else c)"

definition eq_ignore_ascii_case :: "string \<Rightarrow> string \<Rightarrow> bool" where
  "eq_ignore_ascii_case s t \<longleftrightarrow> map ascii_lower s = map ascii_lower t"

text \<open>UTF-8 continuation bytes, and the characters of a string as byte groups.\<close>

definition is_cont :: "char \<Rightarrow> bool" where
  "is_cont c \<longleftrightarrow> 128 \<le> byte c \<and> byte c < 192"

function chars_of :: "string \<Rightarrow> string list" where
  "chars_of [] = []"
| "chars_of (c # cs) =
     (if is_ascii c then [c] # chars_of cs
      else (c # takeWhile is_cont cs) # chars_of (dropWhile is_cont cs))"
  by pat_completeness auto
termination
  by (relation "measure length") (auto simp: le_imp_less_Suc length_dropWhile_le)

lemma concat_chars_of [simp]: "concat (chars_of s) = s"
  by (induction s rule: chars_of.induct) auto

lemma chars_of_shape:
  "ch \<in> set (chars_of s) \<Longrightarrow> \<exists>c cs. ch = c # cs \<and> list_all is_cont cs \<and> (is_ascii c \<longrightarrow> cs = [])"
  by (induction s rule: chars_of.induct) (auto simp: list_all_iff split: if_splits dest: set_takeWhileD)

definition char_count :: "string \<Rightarrow> nat" where
  "char_count s = length (chars_of s)"

lemma char_count_le: "char_count s \<le> length s"
proof (induction s rule: chars_of.induct)
  case (2 c cs)
  then show ?case
    using length_dropWhile_le [of is_cont cs] by (auto simp: char_count_def intro: order_trans)
qed (simp add: char_count_def)

lemma not_cont_ascii: "is_ascii c \<Longrightarrow> \<not> is_cont c"
  by (simp add: is_ascii_def is_cont_def)

lemma chars_of_ascii: "list_all is_ascii s \<Longrightarrow> chars_of s = map (\<lambda>c. [c]) s"
  by (induction s) simp_all

text \<open>\<open>char::is_whitespace\<close>: the code points with the Unicode property White_Space.\<close>

definition bytes :: "nat list \<Rightarrow> string" where
  "bytes ns = map char_of ns"

definition em_dash :: string where
  "em_dash = bytes [226, 128, 148]"

definition ws_chars :: "string list" where
  "ws_chars = map bytes
     ([[9], [10], [11], [12], [13], [32], [194, 133], [194, 160], [225, 154, 128]]
      @ map (\<lambda>n. [226, 128, n]) [128, 129, 130, 131, 132, 133, 134, 135, 136, 137, 138]
      @ [[226, 128, 168], [226, 128, 169], [226, 128, 175], [226, 129, 159], [227, 128, 128]])"

definition is_ws_char :: "string \<Rightarrow> bool" where
  "is_ws_char ch \<longleftrightarrow> ch \<in> set ws_chars"

text \<open>\<open>char::is_control\<close>: U+0000 to U+001F and U+007F to U+009F.\<close>

definition is_control_char :: "string \<Rightarrow> bool" where
  "is_control_char ch \<longleftrightarrow>
     (case ch of
        [c] \<Rightarrow> byte c < 32 \<or> byte c = 127
      | [c, d] \<Rightarrow> byte c = 194 \<and> 128 \<le> byte d \<and> byte d < 160
      | _ \<Rightarrow> False)"

section \<open>Trimming, splitting, searching\<close>

definition trim_start :: "string \<Rightarrow> string" where
  "trim_start s = concat (dropWhile is_ws_char (chars_of s))"

definition trim_end :: "string \<Rightarrow> string" where
  "trim_end s = concat (rev (dropWhile is_ws_char (rev (chars_of s))))"

definition trim :: "string \<Rightarrow> string" where
  "trim s = trim_end (trim_start s)"

definition trim_end_matches :: "char \<Rightarrow> string \<Rightarrow> string" where
  "trim_end_matches c s = rev (dropWhile (\<lambda>x. x = c) (rev s))"

definition trim_start_matches :: "char \<Rightarrow> string \<Rightarrow> string" where
  "trim_start_matches c s = dropWhile (\<lambda>x. x = c) s"

definition trim_matches :: "char \<Rightarrow> string \<Rightarrow> string" where
  "trim_matches c s = trim_end_matches c (trim_start_matches c s)"

fun strip_prefix :: "string \<Rightarrow> string \<Rightarrow> string option" where
  "strip_prefix [] s = Some s"
| "strip_prefix (p # ps) [] = None"
| "strip_prefix (p # ps) (c # cs) = (if p = c then strip_prefix ps cs else None)"

definition starts_with :: "string \<Rightarrow> string \<Rightarrow> bool" where
  "starts_with p s \<longleftrightarrow> strip_prefix p s \<noteq> None"

definition ends_with :: "string \<Rightarrow> string \<Rightarrow> bool" where
  "ends_with p s \<longleftrightarrow> starts_with (rev p) (rev s)"

lemma strip_prefix_Some_iff: "strip_prefix p s = Some r \<longleftrightarrow> s = p @ r"
  by (induction p s rule: strip_prefix.induct) auto

lemma strip_prefix_append [simp]: "strip_prefix p (p @ r) = Some r"
  by (simp add: strip_prefix_Some_iff)

lemma starts_with_iff: "starts_with p s \<longleftrightarrow> (\<exists>r. s = p @ r)"
  by (auto simp: starts_with_def strip_prefix_Some_iff)

fun split_on :: "char \<Rightarrow> string \<Rightarrow> string list" where
  "split_on c [] = [[]]"
| "split_on c (x # xs) =
     (if x = c then [] # split_on c xs
      else (case split_on c xs of [] \<Rightarrow> [[x]] | p # ps \<Rightarrow> (x # p) # ps))"

fun split_once :: "char \<Rightarrow> string \<Rightarrow> (string \<times> string) option" where
  "split_once c [] = None"
| "split_once c (x # xs) =
     (if x = c then Some ([], xs) else map_option (\<lambda>(a, b). (x # a, b)) (split_once c xs))"

definition rsplit_once :: "char \<Rightarrow> string \<Rightarrow> (string \<times> string) option" where
  "rsplit_once c s = map_option (\<lambda>(a, b). (rev b, rev a)) (split_once c (rev s))"

lemma split_on_nonempty [simp]: "split_on c s \<noteq> []"
  by (cases s) (auto split: list.splits)

lemma split_once_Some_iff:
  "split_once c s = Some (a, b) \<longleftrightarrow> s = a @ c # b \<and> c \<notin> set a"
  by (induction c s arbitrary: a b rule: split_once.induct)
     (auto simp: Cons_eq_append_conv split: if_splits)

lemma split_once_None_iff: "split_once c s = None \<longleftrightarrow> c \<notin> set s"
  by (induction s) auto

lemma hd_split_on: "hd (split_on c s) = takeWhile (\<lambda>x. x \<noteq> c) s"
  by (induction s) (auto split: list.splits)

lemma split_on_no_sep: "c \<notin> set s \<Longrightarrow> split_on c s = [s]"
  by (induction s) auto

lemma split_on_append_sep: "c \<notin> set a \<Longrightarrow> split_on c (a @ c # b) = a # split_on c b"
  by (induction a) auto

lemma split_on_no_sep_elem: "p \<in> set (split_on c s) \<Longrightarrow> c \<notin> set p"
  by (induction s arbitrary: p) (auto split: if_splits list.splits)

fun find_str :: "string \<Rightarrow> string \<Rightarrow> nat option" where
  "find_str p [] = (if p = [] then Some 0 else None)"
| "find_str p (c # cs) =
     (if starts_with p (c # cs) then Some 0 else map_option Suc (find_str p cs))"

lemma find_str_bound: "find_str p s = Some i \<Longrightarrow> i + length p \<le> length s"
  by (induction s arbitrary: i) (auto simp: starts_with_iff Cons_eq_append_conv split: if_splits)

definition contains_str :: "string \<Rightarrow> string \<Rightarrow> bool" where
  "contains_str p s \<longleftrightarrow> find_str p s \<noteq> None"

lemma contains_str_iff: "contains_str p s \<longleftrightarrow> (\<exists>a b. s = a @ p @ b)"
proof (induction s)
  case Nil
  then show ?case by (simp add: contains_str_def)
next
  case (Cons c cs)
  have "contains_str p (c # cs) \<longleftrightarrow> starts_with p (c # cs) \<or> contains_str p cs"
    by (simp add: contains_str_def)
  also have "\<dots> \<longleftrightarrow> (\<exists>a b. c # cs = a @ p @ b)"
    using Cons.IH by (auto simp: starts_with_iff Cons_eq_append_conv)
  finally show ?case .
qed

lemma contains_char_iff: "contains_str [c] s \<longleftrightarrow> c \<in> set s"
  by (auto simp: contains_str_iff in_set_conv_decomp)

definition replace_char :: "char \<Rightarrow> string \<Rightarrow> string \<Rightarrow> string" where
  "replace_char c r s = concat (map (\<lambda>x. if x = c then r else [x]) s)"

text \<open>\<open>replacen(pat, to, 1)\<close>: the first occurrence only.\<close>

definition replace_first :: "string \<Rightarrow> string \<Rightarrow> string \<Rightarrow> string" where
  "replace_first pat to s =
     (case find_str pat s of None \<Rightarrow> s | Some i \<Rightarrow> take i s @ to @ drop (i + length pat) s)"

text \<open>\<open>&s[i..j]\<close>, which panics (\<open>None\<close>) when the bounds are crossed, out of range or inside
  a character.\<close>

definition char_boundary :: "string \<Rightarrow> nat \<Rightarrow> bool" where
  "char_boundary s i \<longleftrightarrow> i = length s \<or> (i < length s \<and> \<not> is_cont (s ! i))"

definition str_slice :: "string \<Rightarrow> nat \<Rightarrow> nat \<Rightarrow> string option" where
  "str_slice s i j =
     (if i \<le> j \<and> j \<le> length s \<and> char_boundary s i \<and> char_boundary s j
      then Some (take (j - i) (drop i s)) else None)"

abbreviation NL :: char where "NL \<equiv> CHR 0x0A"
abbreviation CR :: char where "CR \<equiv> CHR 0x0D"
abbreviation TAB :: char where "TAB \<equiv> CHR 0x09"
abbreviation NUL :: char where "NUL \<equiv> CHR 0x00"
abbreviation DQ :: char where "DQ \<equiv> CHR 0x22"
abbreviation SQ :: char where "SQ \<equiv> CHR 0x27"
abbreviation BSL :: char where "BSL \<equiv> CHR 0x5C"

text \<open>\<open>str::lines\<close> and \<open>BufRead::lines\<close>: pieces ended by a newline, each without the newline
  and without one carriage return before it; a last piece without newline is kept as it is.\<close>

definition strip_cr :: "string \<Rightarrow> string" where
  "strip_cr s = (if s \<noteq> [] \<and> last s = CR then butlast s else s)"

definition lines :: "string \<Rightarrow> string list" where
  "lines s =
     (let ps = split_on NL s
      in map strip_cr (butlast ps) @ (if last ps = [] then [] else [last ps]))"

lemma lines_Nil [simp]: "lines [] = []"
  by (simp add: lines_def)

lemma lines_append_NL: "NL \<notin> set a \<Longrightarrow> lines (a @ NL # b) = strip_cr a # lines b"
  by (simp add: lines_def Let_def split_on_append_sep)

fun join :: "string \<Rightarrow> string list \<Rightarrow> string" where
  "join sep [] = []"
| "join sep [x] = x"
| "join sep (x # y # ys) = x @ sep @ join sep (y # ys)"

definition split_whitespace :: "string \<Rightarrow> string list" where
  "split_whitespace s =
     filter (\<lambda>w. w \<noteq> [])
       (foldr (\<lambda>ch acc. if is_ws_char ch then [] # acc
                         else (case acc of [] \<Rightarrow> [ch] | w # ws \<Rightarrow> (ch @ w) # ws))
         (chars_of s) [[]])"

text \<open>\<open>split_once(char::is_whitespace)\<close>.\<close>

definition split_ws_once :: "string \<Rightarrow> (string \<times> string) option" where
  "split_ws_once line =
     (let cs = chars_of line
      in case dropWhile (\<lambda>ch. \<not> is_ws_char ch) cs of
           [] \<Rightarrow> None
         | _ # rest \<Rightarrow> Some (concat (takeWhile (\<lambda>ch. \<not> is_ws_char ch) cs), concat rest))"

text \<open>\<open>split_once\<close> with a pattern of several characters.\<close>

definition split_once_str :: "string \<Rightarrow> string \<Rightarrow> (string \<times> string) option" where
  "split_once_str p s = map_option (\<lambda>i. (take i s, drop (i + length p) s)) (find_str p s)"

section \<open>Numbers\<close>

fun show_nat :: "nat \<Rightarrow> string" where
  "show_nat n = (if n < 10 then [char_of (48 + n)] else show_nat (n div 10) @ [char_of (48 + n mod 10)])"

declare show_nat.simps [simp del]

definition hex_digit :: "nat \<Rightarrow> char" where
  "hex_digit n = (if n < 10 then char_of (48 + n) else char_of (87 + n))"

text \<open>\<open>format!("{b:02x}")\<close> for a byte.\<close>

definition hex2 :: "char \<Rightarrow> string" where
  "hex2 c = [hex_digit (byte c div 16), hex_digit (byte c mod 16)]"

definition digits_val :: "string \<Rightarrow> nat" where
  "digits_val s = foldl (\<lambda>n c. 10 * n + (byte c - 48)) 0 s"

text \<open>\<open>str::parse\<close> for an unsigned integer type with maximum \<open>bound\<close>: an optional plus sign,
  at least one digit, no overflow.\<close>

definition parse_uint :: "nat \<Rightarrow> string \<Rightarrow> nat option" where
  "parse_uint bound s =
     (let ds = (case s of c # cs \<Rightarrow> if c = CHR ''+'' then cs else s | [] \<Rightarrow> [])
      in if ds \<noteq> [] \<and> list_all is_ascii_digit ds \<and> digits_val ds \<le> bound
         then Some (digits_val ds) else None)"

text \<open>\<open>str::parse::<i64>\<close>.\<close>

definition parse_i64 :: "string \<Rightarrow> int option" where
  "parse_i64 s =
     (case s of
        [] \<Rightarrow> None
      | c # cs \<Rightarrow>
          if c = CHR ''-''
          then (if cs \<noteq> [] \<and> list_all is_ascii_digit cs \<and> digits_val cs \<le> 2 ^ 63 then Some (- int (digits_val cs)) else None)
          else map_option int (parse_uint (2 ^ 63 - 1) s))"

abbreviation U64_MAX :: nat where "U64_MAX \<equiv> 2 ^ 64 - 1"
abbreviation U32_MAX :: nat where "U32_MAX \<equiv> 2 ^ 32 - 1"
abbreviation U16_MAX :: nat where "U16_MAX \<equiv> 2 ^ 16 - 1"

section \<open>Facts on trimming\<close>

lemma set_concat_dropWhile: "set (concat (dropWhile p xs)) \<subseteq> set (concat xs)"
  by (induction xs) auto

lemma set_trim_start: "set (trim_start s) \<subseteq> set s"
  using set_concat_dropWhile [of is_ws_char "chars_of s"] by (simp add: trim_start_def)

lemma set_trim_end: "set (trim_end s) \<subseteq> set s"
proof -
  have "set (concat (rev (dropWhile is_ws_char (rev (chars_of s))))) \<subseteq> set (concat (chars_of s))"
    by (auto simp del: concat_chars_of dest!: set_dropWhileD)
  then show ?thesis by (simp add: trim_end_def)
qed

lemma set_trim: "set (trim s) \<subseteq> set s"
  unfolding trim_def using set_trim_end set_trim_start by blast

lemma byte_less_256: "byte c < 256"
  by (simp add: byte_def)

lemma byte_inject [simp]: "byte c = byte d \<longleftrightarrow> c = d"
  by (simp add: byte_def)

section \<open>Facts on searching and slicing\<close>

lemma is_ws_char_single: "is_ws_char [c] \<longleftrightarrow> (9 \<le> byte c \<and> byte c \<le> 13) \<or> byte c = 32"
proof -
  have eq: "char_of n = c \<longleftrightarrow> byte c = n" "c = char_of n \<longleftrightarrow> byte c = n" if "n < 256" for n :: nat
    using that by (auto simp: byte_def of_char_of)
  have "is_ws_char [c] \<longleftrightarrow> byte c \<in> {9, 10, 11, 12, 13, 32}"
    by (auto simp: is_ws_char_def ws_chars_def bytes_def eq)
  then show ?thesis by auto
qed

lemma chars_of_append_ascii: "is_ascii c \<Longrightarrow> chars_of (x @ c # y) = chars_of x @ [c] # chars_of y"
proof (induction x rule: chars_of.induct)
  case (2 a as)
  show ?case
  proof (cases "\<forall>x \<in> set as. is_cont x")
    case True
    then have tw: "takeWhile is_cont as = as" "dropWhile is_cont as = []"
      by (simp_all add: takeWhile_eq_all_conv dropWhile_eq_Nil_conv)
    show ?thesis using 2 True by (simp add: tw takeWhile_append dropWhile_append not_cont_ascii)
  next
    case False
    with 2 show ?thesis by (auto simp: takeWhile_append dropWhile_append)
  qed
qed simp

lemma trim_end_append:
  assumes "is_ascii c" and "\<not> is_ws_char [c]"
  shows "trim_end (x @ c # y) = x @ c # trim_end y"
proof (cases "\<forall>z \<in> set (chars_of y). is_ws_char z")
  case True
  then have dw: "dropWhile is_ws_char (rev (chars_of y)) = []" by (simp add: dropWhile_eq_Nil_conv)
  show ?thesis using True assms by (simp add: dw trim_end_def chars_of_append_ascii dropWhile_append)
next
  case False
  with assms show ?thesis by (auto simp: trim_end_def chars_of_append_ascii dropWhile_append)
qed

lemma trim_start_Cons: "is_ascii c \<Longrightarrow> \<not> is_ws_char [c] \<Longrightarrow> trim_start (c # y) = c # y"
  by (simp add: trim_start_def)

lemma starts_with_append_bound:
  "starts_with p (x @ y) \<Longrightarrow> length p \<le> length x \<Longrightarrow> starts_with p x"
  by (auto simp: starts_with_iff append_eq_append_conv2)

lemma contains_str_Cons: "contains_str p (c # cs) \<longleftrightarrow> starts_with p (c # cs) \<or> contains_str p cs"
  by (simp add: contains_str_def)

lemma find_str_first:
  assumes "p \<noteq> []" and "\<not> contains_str p (a @ butlast p)"
  shows "find_str p (a @ p @ b) = Some (length a)"
  using assms(2)
proof (induction a)
  case Nil
  have "starts_with p (p @ b)" by (simp add: starts_with_iff)
  with assms(1) show ?case by (cases "p @ b") auto
next
  case (Cons c a)
  have "length p \<le> length ((c # a) @ butlast p)" using assms(1) by simp
  moreover have eq: "(c # a) @ p @ b = ((c # a) @ butlast p) @ (last p # b)" using assms(1) by simp
  moreover have "\<not> starts_with p ((c # a) @ butlast p)" "\<not> contains_str p (a @ butlast p)"
    using Cons.prems by (simp_all add: contains_str_Cons)
  ultimately have "\<not> starts_with p ((c # a) @ p @ b)"
    using starts_with_append_bound [of p "(c # a) @ butlast p" "last p # b"] by (simp only:) blast
  with Cons.IH \<open>\<not> contains_str p (a @ butlast p)\<close> show ?case by simp
qed

lemma split_on_append: "split_on c (s @ c # b) = split_on c s @ split_on c b"
  by (induction s) (auto split: list.splits)

lemma split_on_append_last:
  "c \<notin> set m \<Longrightarrow> split_on c (a @ m) = butlast (split_on c a) @ [last (split_on c a) @ m]"
proof (induction a)
  case (Cons x a)
  obtain p ps where "split_on c a = p # ps" by (cases "split_on c a") auto
  with Cons show ?case by (cases ps) auto
qed (simp add: split_on_no_sep)

lemma last_split_on_append: "c \<notin> set m \<Longrightarrow> last (split_on c (a @ m)) = last (split_on c a) @ m"
  by (simp add: split_on_append_last)

text \<open>A pattern that ends in its only separator occurs exactly at the end of a piece.\<close>

lemma contains_before_sep:
  assumes "c \<notin> set m" and "contains_str (m @ [c]) x"
  shows "\<exists>p q. p \<in> set (butlast (split_on c x)) \<and> p = q @ m"
proof -
  obtain a b where x: "x = a @ m @ c # b" using assms(2) by (auto simp: contains_str_iff)
  have "split_on c x = split_on c (a @ m) @ split_on c b"
    using split_on_append [of c "a @ m" b] by (simp add: x)
  then have "last (split_on c (a @ m)) \<in> set (butlast (split_on c x))"
    by (simp add: butlast_append)
  with last_split_on_append [OF assms(1)] show ?thesis by auto
qed

definition utf8_start :: "string \<Rightarrow> bool" where
  "utf8_start s \<longleftrightarrow> (case s of [] \<Rightarrow> True | c # _ \<Rightarrow> \<not> is_cont c)"

lemma utf8_start_simps [simp]:
  "utf8_start []" "utf8_start (c # s) \<longleftrightarrow> \<not> is_cont c"
  by (simp_all add: utf8_start_def)

lemma utf8_start_append: "utf8_start s \<Longrightarrow> utf8_start t \<Longrightarrow> utf8_start (s @ t)"
  by (cases s) simp_all

lemma str_slice_mid:
  assumes "utf8_start (b @ d)" and "utf8_start d"
  shows "str_slice (a @ b @ d) (length a) (length a + length b) = Some b"
proof -
  have "char_boundary (x @ y) (length x)" if "utf8_start y" for x y
    using that by (cases y) (auto simp: char_boundary_def nth_append)
  from this [of "b @ d" a] this [of d "a @ b"] assms show ?thesis by (simp add: str_slice_def)
qed

section \<open>The process environment and bytes that may not be UTF-8\<close>

text \<open>\<open>std::env::var(k).ok()\<close>.\<close>

type_synonym environ = "string \<Rightarrow> string option"

text \<open>\<open>String::from_utf8_lossy\<close>: a valid character is kept, and the longest prefix of a character
  that the standard library gives up on becomes one U+FFFD. \<open>utf8_step\<close> answers how many bytes
  to take, and whether they are a character.\<close>

definition REPLACEMENT :: string where
  "REPLACEMENT = bytes [239, 191, 189]"

definition in_range :: "nat \<Rightarrow> nat \<Rightarrow> string \<Rightarrow> nat \<Rightarrow> bool" where
  "in_range lo hi s i \<longleftrightarrow> i < length s \<and> lo \<le> byte (s ! i) \<and> byte (s ! i) \<le> hi"

definition second_range :: "nat \<Rightarrow> nat \<times> nat" where
  "second_range b =
     (if b = 224 then (160, 191) else if b = 237 then (128, 159)
      else if b = 240 then (144, 191) else if b = 244 then (128, 143) else (128, 191))"

definition utf8_step :: "string \<Rightarrow> nat \<times> bool" where
  "utf8_step s =
     (let b = byte (s ! 0);
          second = in_range (fst (second_range b)) (snd (second_range b)) s 1;
          third = in_range 128 191 s 2; fourth = in_range 128 191 s 3
      in if b < 128 then (1, True)
         else if 194 \<le> b \<and> b \<le> 223 then (if second then (2, True) else (1, False))
         else if 224 \<le> b \<and> b \<le> 239 then
           (if \<not> second then (1, False) else if \<not> third then (2, False) else (3, True))
         else if 240 \<le> b \<and> b \<le> 244 then
           (if \<not> second then (1, False) else if \<not> third then (2, False)
            else if \<not> fourth then (3, False) else (4, True))
         else (1, False))"

lemma utf8_step_pos [simp]: "0 < fst (utf8_step s)"
  by (simp add: utf8_step_def Let_def)

function from_utf8_lossy :: "string \<Rightarrow> string" where
  "from_utf8_lossy [] = []"
| "from_utf8_lossy (c # cs) =
     (let n = fst (utf8_step (c # cs))
      in (if snd (utf8_step (c # cs)) then take n (c # cs) else REPLACEMENT)
         @ from_utf8_lossy (drop (n - 1) cs))"
  by pat_completeness auto
termination
  by (relation "measure length") auto

lemma from_utf8_lossy_ascii: "list_all is_ascii s \<Longrightarrow> from_utf8_lossy s = s"
  by (induction s) (simp_all add: utf8_step_def Let_def is_ascii_def)

section \<open>Patterns of several characters\<close>

text \<open>\<open>str::trim_start_matches\<close> with a string.\<close>

function trim_start_str :: "string \<Rightarrow> string \<Rightarrow> string" where
  "trim_start_str p s = (if p \<noteq> [] \<and> starts_with p s then trim_start_str p (drop (length p) s) else s)"
  by pat_completeness auto
termination
  by (relation "measure (\<lambda>(p, s). length s)") (auto simp: starts_with_iff)

declare trim_start_str.simps [simp del]

definition trim_end_str :: "string \<Rightarrow> string \<Rightarrow> string" where
  "trim_end_str p s = rev (trim_start_str (rev p) (rev s))"

text \<open>\<open>str::split\<close> at each of several characters.\<close>

definition split_chars :: "string \<Rightarrow> string \<Rightarrow> string list" where
  "split_chars seps s = split_on (hd seps) (map (\<lambda>c. if c \<in> set seps then hd seps else c) s)"

text \<open>\<open>str::split\<close> with a separator that is not empty.\<close>

function split_str :: "string \<Rightarrow> string \<Rightarrow> string list" where
  "split_str sep s =
     (case find_str sep s of
        Some i \<Rightarrow> if sep = [] then [s] else take i s # split_str sep (drop (i + length sep) s)
      | None \<Rightarrow> [s])"
  by pat_completeness auto
termination
  by (relation "measure (\<lambda>(sep, s). length s)") (auto dest!: find_str_bound simp: diff_less add_pos_pos intro!: diff_less)

declare split_str.simps [simp del]

end
