(* ===== verification/Json.thy ===== *)
theory Json
  imports RustStr
begin

text \<open>
  \<open>serde_json::Value\<close> as the program uses it. A number is an integer in the range of \<open>i64\<close> or
  \<open>u64\<close>, or a float kept as the text serde printed for it (the modelled code never computes
  with one). An object is an association list; \<open>Map::insert\<close> and \<open>Map::remove\<close> are the
  operations of the hash-map model, because the modelled code never depends on the order of
  the keys.
\<close>

datatype json =
    JNull
  | JBool bool
  | JInt int
  | JFloat string
  | JStr string
  | JArr "json list"
  | JObj "(string \<times> json) list"

type_synonym jmap = "(string \<times> json) list"

text \<open>\<open>Value::get(key)\<close> with a string key: only an object has members.\<close>

fun jget :: "json \<Rightarrow> string \<Rightarrow> json option" where
  "jget (JObj m) k = hm_get m k"
| "jget _ k = None"

fun as_str :: "json \<Rightarrow> string option" where
  "as_str (JStr s) = Some s"
| "as_str _ = None"

fun as_bool :: "json \<Rightarrow> bool option" where
  "as_bool (JBool b) = Some b"
| "as_bool _ = None"

fun as_u64 :: "json \<Rightarrow> nat option" where
  "as_u64 (JInt i) = (if 0 \<le> i \<and> i < 2 ^ 64 then Some (nat i) else None)"
| "as_u64 _ = None"

fun as_array :: "json \<Rightarrow> json list option" where
  "as_array (JArr xs) = Some xs"
| "as_array _ = None"

fun as_object :: "json \<Rightarrow> jmap option" where
  "as_object (JObj m) = Some m"
| "as_object _ = None"

text \<open>\<open>m.get(k).and_then(|v| v.as_str())\<close> and the same on a \<open>Value\<close>.\<close>

definition map_str :: "jmap \<Rightarrow> string \<Rightarrow> string option" where
  "map_str m k = Option.bind (hm_get m k) as_str"

definition jget_str :: "json \<Rightarrow> string \<Rightarrow> string option" where
  "jget_str v k = Option.bind (jget v k) as_str"

definition jget_bool :: "json \<Rightarrow> string \<Rightarrow> bool option" where
  "jget_bool v k = Option.bind (jget v k) as_bool"

definition unwrap_or :: "'a \<Rightarrow> 'a option \<Rightarrow> 'a" where
  "unwrap_or d x = (case x of None \<Rightarrow> d | Some y \<Rightarrow> y)"

lemma unwrap_or_simps [simp]: "unwrap_or d None = d" "unwrap_or d (Some y) = y"
  by (simp_all add: unwrap_or_def)

text \<open>\<open>serde_json::json!\<close> of an \<open>Option<String>\<close>: \<open>null\<close> for \<open>None\<close>.\<close>

definition jopt_str :: "string option \<Rightarrow> json" where
  "jopt_str x = (case x of None \<Rightarrow> JNull | Some s \<Rightarrow> JStr s)"

definition jopt_nat :: "nat option \<Rightarrow> json" where
  "jopt_nat x = (case x of None \<Rightarrow> JNull | Some n \<Rightarrow> JInt (int n))"

lemma jget_str_JObj [simp]: "jget_str (JObj m) k = map_str m k"
  by (simp add: jget_str_def map_str_def)

lemma map_str_put: "map_str (hm_put k (JStr v) m) j = (if j = k then Some v else map_str m j)"
  by (simp add: map_str_def hm_get_put)

lemma map_str_put_other: "j \<noteq> k \<Longrightarrow> map_str (hm_put k v m) j = map_str m j"
  by (simp add: map_str_def hm_get_put)

lemma map_str_del_other: "j \<noteq> k \<Longrightarrow> map_str (hm_del k m) j = map_str m j"
  by (simp add: map_str_def hm_get_del)

end
