(* ===== verification/Protocol.thy ===== *)
theory Protocol
  imports Json
begin

text \<open>
  The wire protocol shared by the gateway and the agents (\<open>protocol/src\<close>): channel ids and
  their validation (\<open>channel.rs\<close>), the messages of a WebSocket frame (\<open>message.rs\<close>) and the
  payload an agent signs (\<open>auth.rs\<close>). A frame's JSON text is decoded by serde; what the source
  adds to that decoding is the validation of every channel id, which is \<open>decode_message\<close>.
\<close>

section \<open>Channel identifiers\<close>

definition MAX_CHANNEL_ID_LEN :: nat where
  "MAX_CHANNEL_ID_LEN = 128"

definition channel_char :: "char \<Rightarrow> bool" where
  "channel_char b \<longleftrightarrow> is_ascii_alphanumeric b \<or> b = CHR ''-'' \<or> b = CHR ''_''"

datatype channel_error = ChannelEmpty | ChannelTooLong | ChannelBadChars

definition channel_id_new :: "string \<Rightarrow> channel_error + string" where
  "channel_id_new s =
     (if s = [] then Inl ChannelEmpty
      else if length s > MAX_CHANNEL_ID_LEN then Inl ChannelTooLong
      else if \<not> list_all channel_char s then Inl ChannelBadChars
      else Inr s)"

definition channel_ok :: "string \<Rightarrow> bool" where
  "channel_ok s \<longleftrightarrow> (case channel_id_new s of Inl _ \<Rightarrow> False | Inr _ \<Rightarrow> True)"

lemma channel_ok_iff:
  "channel_ok s \<longleftrightarrow> s \<noteq> [] \<and> length s \<le> MAX_CHANNEL_ID_LEN \<and> list_all channel_char s"
  by (simp add: channel_ok_def channel_id_new_def)

lemma channel_char_ascii: "channel_char c \<Longrightarrow> is_ascii c"
  by (auto simp: channel_char_def is_ascii_alphanumeric_def is_ascii_digit_def is_ascii_upper_def
      is_ascii_lower_def is_ascii_def byte_def)

section \<open>Messages\<close>

datatype superuser_mode = Require | Try

record open_options =
  payload :: string
  superuser :: "superuser_mode option"
  extra :: jmap

datatype auth_credentials = Basic string string | Token string

record hello =
  h_version :: nat
  h_hostname :: string
  h_agent_version :: string
  h_is_local :: bool
  h_public_key :: "string option"
  h_bootstrap_token :: "string option"
  h_os_id :: "string option"

datatype message =
    Hello hello
  | Challenge string string
  | Challengeresponse string
  | Pending string
  | HelloAck nat "string option"
  | Open string open_options
  | Ready string
  | Data string json
  | Control string string jmap
  | Close string "string option"
  | Auth auth_credentials
  | AuthResult bool "string option" "string option"
  | Ping
  | Pong

definition PROTOCOL_VERSION :: nat where
  "PROTOCOL_VERSION = 2"

fun msg_channel :: "message \<Rightarrow> string option" where
  "msg_channel (Open c _) = Some c"
| "msg_channel (Ready c) = Some c"
| "msg_channel (Data c _) = Some c"
| "msg_channel (Control c _ _) = Some c"
| "msg_channel (Close c _) = Some c"
| "msg_channel _ = None"

text \<open>\<open>Deserialize for ChannelId\<close>: a message whose channel id is not valid does not decode.\<close>

definition decode_message :: "message \<Rightarrow> message option" where
  "decode_message m =
     (case msg_channel m of
        None \<Rightarrow> Some m
      | Some c \<Rightarrow> (case channel_id_new c of Inl _ \<Rightarrow> None | Inr _ \<Rightarrow> Some m))"

definition msg_wf :: "message \<Rightarrow> bool" where
  "msg_wf m \<longleftrightarrow> (\<forall>c. msg_channel m = Some c \<longrightarrow> channel_ok c)"

lemma decode_message_wf: "decode_message m = Some m' \<Longrightarrow> m' = m \<and> msg_wf m"
  by (auto simp: decode_message_def msg_wf_def channel_ok_def split: option.splits sum.splits)

section \<open>The challenge payload\<close>

text \<open>\<open>(n as u16).to_be_bytes()\<close>: the length is truncated to sixteen bits.\<close>

definition u16_be :: "nat \<Rightarrow> string" where
  "u16_be n = (let w = n mod 65536 in [char_of (w div 256), char_of (w mod 256)])"

definition auth_domain :: string where
  "auth_domain = ''tenodera-agent-auth-v1'' @ [NUL]"

definition build_challenge_payload :: "string \<Rightarrow> string \<Rightarrow> string \<Rightarrow> string" where
  "build_challenge_payload nonce_bytes hostname gateway_id =
     auth_domain @ nonce_bytes
     @ u16_be (length hostname) @ hostname
     @ u16_be (length gateway_id) @ gateway_id"

lemma length_u16_be [simp]: "length (u16_be n) = 2"
  by (simp add: u16_be_def Let_def)

lemma u16_be_inject:
  assumes "u16_be m = u16_be n"
  shows "m mod 65536 = n mod 65536"
proof -
  let ?m = "m mod 65536" and ?n = "n mod 65536"
  have small: "?m div 256 < 256" "?n div 256 < 256" by auto
  have "(of_char (char_of (?m div 256)) :: nat) = of_char (char_of (?n div 256))"
    and "(of_char (char_of (?m mod 256)) :: nat) = of_char (char_of (?n mod 256))"
    using assms by (simp_all add: u16_be_def Let_def)
  then have "?m div 256 = ?n div 256" "?m mod 256 = ?n mod 256"
    using small by (simp_all add: of_char_of)
  then show ?thesis by (metis div_mult_mod_eq)
qed

text \<open>
  C6. The signed payload determines what was signed: two payloads are equal exactly when the
  nonce, the hostname and the gateway id are, as long as both nonces have their fixed length
  and both hostnames fit the sixteen-bit length field.
\<close>

theorem challenge_payload_injective:
  assumes "length n = 32" and "length n' = 32"
    and "length h < 65536" and "length h' < 65536"
  shows "build_challenge_payload n h g = build_challenge_payload n' h' g' \<longleftrightarrow>
         n = n' \<and> h = h' \<and> g = g'"
proof
  assume "build_challenge_payload n h g = build_challenge_payload n' h' g'"
  then have "n @ (u16_be (length h) @ h @ u16_be (length g) @ g) =
        n' @ (u16_be (length h') @ h' @ u16_be (length g') @ g')"
    by (simp add: build_challenge_payload_def)
  then have n: "n = n'"
    and "u16_be (length h) @ (h @ u16_be (length g) @ g) =
         u16_be (length h') @ (h' @ u16_be (length g') @ g')"
    using assms(1,2) by (simp_all add: append_eq_append_conv)
  then have len: "u16_be (length h) = u16_be (length h')"
    and rest: "h @ (u16_be (length g) @ g) = h' @ (u16_be (length g') @ g')"
    by (simp_all add: append_eq_append_conv)
  from len have "length h = length h'"
    using u16_be_inject assms(3,4) by fastforce
  with rest have "h = h'" "u16_be (length g) @ g = u16_be (length g') @ g'"
    by (simp_all add: append_eq_append_conv)
  then have "g = g'" by (simp add: append_eq_append_conv)
  with n \<open>h = h'\<close> show "n = n' \<and> h = h' \<and> g = g'" by simp
qed simp

theorem challenge_payload_injective_witness:
  "build_challenge_payload (replicate 32 (CHR ''n'')) ''srv01'' ''gid'' \<noteq>
   build_challenge_payload (replicate 32 (CHR ''n'')) ''srv0'' ''1gid''"
  by (subst challenge_payload_injective) simp_all

end
