(* ===== verification/NetAddr.thy ===== *)
theory NetAddr
  imports RustStr
begin

text \<open>
  \<open>std::net::IpAddr\<close> and \<open>SocketAddr\<close>: the parser and the printer of the standard library, as
  far as the gateway uses them to resolve a client's address behind the reverse proxy.
\<close>

datatype ip_addr =
    V4 u8 u8 u8 u8
  | V6 u16 u16 u16 u16 u16 u16 u16 u16

fun is_loopback :: "ip_addr \<Rightarrow> bool" where
  "is_loopback (V4 a b c d) = (a = 127)"
| "is_loopback (V6 a b c d e f g h) =
     (a = 0 \<and> b = 0 \<and> c = 0 \<and> d = 0 \<and> e = 0 \<and> f = 0 \<and> g = 0 \<and> h = 1)"

section \<open>Parsing\<close>

type_synonym 'a parser = "string \<Rightarrow> ('a \<times> string) option"

definition digit_val :: "nat \<Rightarrow> char \<Rightarrow> nat option" where
  "digit_val radix c =
     (let v = (if is_ascii_digit c then byte c - 48
               else if is_ascii_lower c then byte c - 87
               else if is_ascii_upper c then byte c - 55 else 99)
      in if v < radix then Some v else None)"

definition radix_val :: "nat \<Rightarrow> string \<Rightarrow> nat" where
  "radix_val radix ds = foldl (\<lambda>n c. radix * n + the (digit_val radix c)) 0 ds"

definition read_number :: "nat \<Rightarrow> nat option \<Rightarrow> bool \<Rightarrow> nat \<Rightarrow> nat parser" where
  "read_number radix max_digits allow_zero_prefix bound s =
     (let ds = takeWhile (\<lambda>c. digit_val radix c \<noteq> None) s;
          rest = dropWhile (\<lambda>c. digit_val radix c \<noteq> None) s
      in if ds = [] then None
         else if (case max_digits of None \<Rightarrow> False | Some n \<Rightarrow> n < length ds) then None
         else if \<not> allow_zero_prefix \<and> hd ds = CHR ''0'' \<and> 1 < length ds then None
         else if bound < radix_val radix ds then None
         else Some (radix_val radix ds, rest))"

definition read_char :: "char \<Rightarrow> unit parser" where
  "read_char c s = (case s of [] \<Rightarrow> None | x # xs \<Rightarrow> if x = c then Some ((), xs) else None)"

definition read_separator :: "char \<Rightarrow> nat \<Rightarrow> 'a parser \<Rightarrow> 'a parser" where
  "read_separator sep i p s =
     (if 0 < i then Option.bind (read_char sep s) (\<lambda>(_, r). p r) else p s)"

abbreviation read_octet :: "nat parser" where
  "read_octet \<equiv> read_number 10 (Some 3) False 255"

definition read_ipv4 :: "(nat \<times> nat \<times> nat \<times> nat) parser" where
  "read_ipv4 s =
     Option.bind (read_octet s) (\<lambda>(a, r).
     Option.bind (read_separator CHR ''.'' 1 read_octet r) (\<lambda>(b, r).
     Option.bind (read_separator CHR ''.'' 2 read_octet r) (\<lambda>(c, r).
     Option.bind (read_separator CHR ''.'' 3 read_octet r) (\<lambda>(d, r).
       Some ((a, b, c, d), r)))))"

fun read_groups :: "nat \<Rightarrow> nat \<Rightarrow> string \<Rightarrow> nat list \<times> bool \<times> string" where
  "read_groups 0 i s = ([], False, s)"
| "read_groups (Suc n) i s =
     (case (if 1 \<le> n then read_separator CHR '':'' i read_ipv4 s else None) of
        Some ((a, b, c, d), r) \<Rightarrow> ([256 * a + b, 256 * c + d], True, r)
      | None \<Rightarrow>
          (case read_separator CHR '':'' i (read_number 16 (Some 4) True 65535) s of
             Some (g, r) \<Rightarrow>
               (case read_groups n (Suc i) r of (gs, f, r') \<Rightarrow> (g # gs, f, r'))
           | None \<Rightarrow> ([], False, s)))"

definition read_ipv6 :: "nat list parser" where
  "read_ipv6 s =
     (case read_groups 8 0 s of (hd8, hd_ipv4, r) \<Rightarrow>
        if length hd8 = 8 then Some (hd8, r)
        else if hd_ipv4 then None
        else
          Option.bind (read_char CHR '':'' r) (\<lambda>(_, r).
          Option.bind (read_char CHR '':'' r) (\<lambda>(_, r).
            case read_groups (8 - (length hd8 + 1)) 0 r of (tl7, _, r') \<Rightarrow>
              Some (hd8 @ replicate (8 - length hd8 - length tl7) 0 @ tl7, r'))))"

fun ip_of_segs :: "nat list \<Rightarrow> ip_addr option" where
  "ip_of_segs [a, b, c, d, e, f, g, h] =
     Some (V6 (of_nat a) (of_nat b) (of_nat c) (of_nat d) (of_nat e) (of_nat f) (of_nat g) (of_nat h))"
| "ip_of_segs _ = None"

definition read_ip :: "ip_addr parser" where
  "read_ip s =
     (case read_ipv4 s of
        Some ((a, b, c, d), r) \<Rightarrow> Some (V4 (of_nat a) (of_nat b) (of_nat c) (of_nat d), r)
      | None \<Rightarrow> Option.bind (read_ipv6 s) (\<lambda>(gs, r). map_option (\<lambda>ip. (ip, r)) (ip_of_segs gs)))"

text \<open>\<open>parse\<close> succeeds only when the whole input is consumed.\<close>

definition whole :: "'a parser \<Rightarrow> string \<Rightarrow> 'a option" where
  "whole p s = (case p s of Some (x, []) \<Rightarrow> Some x | _ \<Rightarrow> None)"

definition parse_ip :: "string \<Rightarrow> ip_addr option" where
  "parse_ip s = whole read_ip s"

definition read_port :: "nat parser" where
  "read_port s = Option.bind (read_char CHR '':'' s) (\<lambda>(_, r). read_number 10 None True U16_MAX r)"

definition read_socket :: "(ip_addr \<times> nat) parser" where
  "read_socket s =
     (case Option.bind (read_ipv4 s) (\<lambda>((a, b, c, d), r).
             map_option (\<lambda>(p, r). ((V4 (of_nat a) (of_nat b) (of_nat c) (of_nat d), p), r)) (read_port r)) of
        Some x \<Rightarrow> Some x
      | None \<Rightarrow>
          Option.bind (read_char CHR ''['' s) (\<lambda>(_, r).
          Option.bind (read_ipv6 r) (\<lambda>(gs, r).
          Option.bind (case Option.bind (read_char (CHR ''%'') r)
                              (\<lambda>(_, r). read_number 10 None True U32_MAX r) of
                         Some (_, r') \<Rightarrow> Some r' | None \<Rightarrow> Some r) (\<lambda>r.
          Option.bind (read_char CHR '']'' r) (\<lambda>(_, r).
          Option.bind (read_port r) (\<lambda>(p, r).
            map_option (\<lambda>ip. ((ip, p), r)) (ip_of_segs gs)))))))"

definition parse_socket :: "string \<Rightarrow> (ip_addr \<times> nat) option" where
  "parse_socket s = whole read_socket s"

section \<open>Printing\<close>

fun show_hex :: "nat \<Rightarrow> string" where
  "show_hex n = (if n < 16 then [hex_digit n] else show_hex (n div 16) @ [hex_digit (n mod 16)])"

declare show_hex.simps [simp del]

text \<open>The first longest run of zero segments: scan state is (index, current start, current
  length, longest start, longest length).\<close>

definition zero_span :: "nat list \<Rightarrow> nat \<times> nat" where
  "zero_span gs =
     (case foldl (\<lambda>(i, cs, cl, ls, ll) g.
            if g = 0
            then (let cs' = (if cl = 0 then i else cs); cl' = Suc cl
                  in if ll < cl' then (Suc i, cs', cl', cs', cl') else (Suc i, cs', cl', ls, ll))
            else (Suc i, 0, 0, ls, ll)) (0, 0, 0, 0, 0) gs of
        (_, _, _, ls, ll) \<Rightarrow> (ls, ll))"

definition show_v4 :: "nat list \<Rightarrow> string" where
  "show_v4 os = join ''.'' (map show_nat os)"

fun v6_segs :: "ip_addr \<Rightarrow> nat list" where
  "v6_segs (V6 a b c d e f g h) =
     [unat a, unat b, unat c, unat d, unat e, unat f, unat g, unat h]"
| "v6_segs (V4 a b c d) = []"

definition show_segs :: "nat list \<Rightarrow> string" where
  "show_segs gs =
     (if take 6 gs = [0, 0, 0, 0, 0, 65535]
      then ''::ffff:'' @ show_v4 [gs ! 6 div 256, gs ! 6 mod 256, gs ! 7 div 256, gs ! 7 mod 256]
      else (case zero_span gs of (ls, ll) \<Rightarrow>
        if 1 < ll
        then join '':'' (map show_hex (take ls gs)) @ ''::'' @ join '':'' (map show_hex (drop (ls + ll) gs))
        else join '':'' (map show_hex gs)))"

fun show_ip :: "ip_addr \<Rightarrow> string" where
  "show_ip (V4 a b c d) = show_v4 [unat a, unat b, unat c, unat d]"
| "show_ip (V6 a b c d e f g h) = show_segs (v6_segs (V6 a b c d e f g h))"

text \<open>Evaluation of the parsers on concrete IPv4 text.\<close>

lemma digit_val_digits: "digit_val 10 c = (if is_ascii_digit c then Some (byte c - 48) else None)"
  by (auto simp: digit_val_def Let_def is_ascii_digit_def is_ascii_lower_def is_ascii_upper_def byte_def)

lemmas parse_v4_eval = parse_socket_def parse_ip_def whole_def read_socket_def read_port_def read_ip_def
  read_ipv4_def read_separator_def read_char_def read_number_def digit_val_digits radix_val_def Let_def
  is_ascii_digit_def byte_def

end
