(* ===== verification/ExpiringStore.thy ===== *)
theory ExpiringStore
  imports Prelude
begin

text \<open>
  The contract shared by every store whose entries die of age: the sessions, the bootstrap
  tokens and the failed-login timestamps. The interface is the liveness test of one entry at
  an instant; the law is that an entry which is dead stays dead. Everything the periodic
  cleanups promise follows from it once, here: a sweep removes nothing that a later lookup
  could still accept, and sweeping more often changes nothing.
\<close>

text \<open>A lookup that accepts live entries only.\<close>

definition live_get ::
  "(instant \<Rightarrow> 'e \<Rightarrow> bool) \<Rightarrow> instant \<Rightarrow> ('k, 'e) hmap \<Rightarrow> 'k \<Rightarrow> 'e option" where
  "live_get lv now m k =
     (case hm_get m k of None \<Rightarrow> None | Some e \<Rightarrow> if lv now e then Some e else None)"

definition sweep :: "(instant \<Rightarrow> 'e \<Rightarrow> bool) \<Rightarrow> instant \<Rightarrow> ('k, 'e) hmap \<Rightarrow> ('k, 'e) hmap" where
  "sweep lv now m = hm_retain (\<lambda>_ e. lv now e) m"

lemma live_get_Some: "live_get lv now m k = Some e \<longleftrightarrow> hm_get m k = Some e \<and> lv now e"
  by (auto simp: live_get_def split: option.splits)

lemma hm_wf_sweep [wf_intros]: "hm_wf m \<Longrightarrow> hm_wf (sweep lv now m)"
  by (simp add: sweep_def hm_wf_retain)

locale expiring =
  fixes live :: "instant \<Rightarrow> 'e \<Rightarrow> bool"
  assumes dead_stays_dead: "t \<le> t' \<Longrightarrow> live t' e \<Longrightarrow> live t e"
begin

lemma filter_filter_live: "t \<le> t' \<Longrightarrow> filter (live t') (filter (live t) es) = filter (live t') es"
  by (induction es) (auto dest: dead_stays_dead)

lemma sweep_sweep: "t \<le> t' \<Longrightarrow> sweep live t' (sweep live t m) = sweep live t' m"
  by (auto simp: sweep_def hm_retain_def intro!: filter_cong dest: dead_stays_dead)

lemma live_get_sweep:
  assumes "hm_wf m" and "t \<le> t'"
  shows "live_get live t' (sweep live t m) k = live_get live t' m k"
  using assms by (auto simp: live_get_def sweep_def hm_get_retain dest: dead_stays_dead split: option.splits)

lemma sweep_all_live: "e \<in> set (hm_vals (sweep live t m)) \<Longrightarrow> live t e"
  by (auto simp: sweep_def hm_retain_def hm_vals_def)

lemma length_sweep_le: "length (sweep live t m) \<le> length m"
  by (simp add: sweep_def hm_retain_def)

end

end
