(* ===== verification/RateLimit.thy ===== *)
theory RateLimit
  imports ExpiringStore NetAddr
begin

text \<open>
  The sliding-window limiter of failed logins (\<open>gateway/src/rate_limit.rs\<close>). Each operation
  runs under the mutex, so it is one atomic function of the limiter and of the instant read
  while the lock is held.
\<close>

record limiter =
  attempts :: "(ip_addr, instant list) hmap"
  max_attempts :: nat
  window :: nat

definition limiter_new :: "nat \<Rightarrow> nat \<Rightarrow> limiter" where
  "limiter_new max_att window_secs = \<lparr>attempts = [], max_attempts = max_att, window = secs window_secs\<rparr>"

definition in_window :: "nat \<Rightarrow> instant \<Rightarrow> instant \<Rightarrow> bool" where
  "in_window w now t \<longleftrightarrow> now - t < w"

definition recent :: "limiter \<Rightarrow> instant \<Rightarrow> instant list \<Rightarrow> instant list" where
  "recent rl now stamps = filter (in_window (window rl) now) stamps"

definition is_limited :: "limiter \<Rightarrow> instant \<Rightarrow> ip_addr \<Rightarrow> bool \<times> limiter" where
  "is_limited rl now ip =
     (case hm_get (attempts rl) ip of
        Some stamps \<Rightarrow>
          (let stamps' = recent rl now stamps
           in (max_attempts rl \<le> length stamps', rl\<lparr>attempts := hm_put ip stamps' (attempts rl)\<rparr>))
      | None \<Rightarrow> (False, rl))"

definition check_and_record :: "limiter \<Rightarrow> instant \<Rightarrow> ip_addr \<Rightarrow> bool \<times> limiter" where
  "check_and_record rl now ip =
     (let stamps = recent rl now (case hm_get (attempts rl) ip of Some ts \<Rightarrow> ts | None \<Rightarrow> [])
      in if max_attempts rl \<le> length stamps
         then (True, rl\<lparr>attempts := hm_put ip stamps (attempts rl)\<rparr>)
         else (False, rl\<lparr>attempts := hm_put ip (stamps @ [now]) (attempts rl)\<rparr>))"

definition limiter_cleanup :: "limiter \<Rightarrow> instant \<Rightarrow> limiter" where
  "limiter_cleanup rl now =
     rl\<lparr>attempts :=
         filter (\<lambda>(ip, ts). ts \<noteq> [])
           (map (\<lambda>(ip, ts). (ip, recent rl now ts)) (attempts rl))\<rparr>"

section \<open>The window as a set of live timestamps\<close>

interpretation window_live: expiring "in_window w" for w
  by unfold_locales (auto simp: in_window_def)

text \<open>The abstract view: how many failures of an address are inside the window at an instant.\<close>

definition stored :: "limiter \<Rightarrow> ip_addr \<Rightarrow> instant list" where
  "stored rl ip = (case hm_get (attempts rl) ip of Some ts \<Rightarrow> ts | None \<Rightarrow> [])"

definition failures_at :: "limiter \<Rightarrow> instant \<Rightarrow> ip_addr \<Rightarrow> nat" where
  "failures_at rl now ip = length (recent rl now (stored rl ip))"

definition limiter_wf :: "limiter \<Rightarrow> bool" where
  "limiter_wf rl \<longleftrightarrow> hm_wf (attempts rl) \<and> (\<forall>ip. length (stored rl ip) \<le> max_attempts rl)"

lemma recent_recent:
  "t \<le> t' \<Longrightarrow> recent rl t' (recent rl t ts) = recent rl t' ts"
  unfolding recent_def by (rule window_live.filter_filter_live)

lemma recent_window_cong: "window rl' = window rl \<Longrightarrow> recent rl' = recent rl"
  by (simp add: recent_def fun_eq_iff)

lemma stored_put:
  "stored (rl\<lparr>attempts := hm_put ip ts (attempts rl)\<rparr>) j = (if j = ip then ts else stored rl j)"
  by (simp add: stored_def hm_get_put)

lemma length_recent_le: "length (recent rl now ts) \<le> length ts"
  by (simp add: recent_def)

lemma map_of_map_filter:
  "hm_wf m \<Longrightarrow>
   map_of (filter (\<lambda>(k, v). P v) (map (\<lambda>(k, v). (k, f v)) m)) k =
     (case map_of m k of None \<Rightarrow> None | Some v \<Rightarrow> if P (f v) then Some (f v) else None)"
proof (induction m)
  case (Cons x m)
  obtain a b where x: "x = (a, b)" by (cases x)
  have wf: "hm_wf m" and a: "a \<notin> fst ` set m" using Cons.prems by (auto simp: hm_wf_def x)
  have "map_of m a = None" using a by (simp add: map_of_eq_None_iff)
  then show ?case using Cons.IH [OF wf] by (auto simp: x split: option.splits)
qed simp

lemma stored_cleanup:
  assumes "hm_wf (attempts rl)"
  shows "stored (limiter_cleanup rl now) ip = recent rl now (stored rl ip)"
proof -
  have "map_of (attempts (limiter_cleanup rl now)) ip =
    (case map_of (attempts rl) ip of None \<Rightarrow> None
     | Some v \<Rightarrow> if recent rl now v \<noteq> [] then Some (recent rl now v) else None)"
    using map_of_map_filter [OF assms, of "\<lambda>ts. ts \<noteq> []" "recent rl now" ip]
    by (simp add: limiter_cleanup_def)
  then show ?thesis
    by (auto simp: stored_def recent_def split: option.splits)
qed

lemma hm_wf_cleanup: "hm_wf (attempts rl) \<Longrightarrow> hm_wf (attempts (limiter_cleanup rl now))"
  unfolding limiter_cleanup_def hm_wf_def
  by (auto intro!: distinct_map_filter simp: case_prod_beta' comp_def)

section \<open>Behaviour of the operations\<close>

lemma is_limited_verdict:
  "0 < max_attempts rl \<Longrightarrow> fst (is_limited rl now ip) \<longleftrightarrow> max_attempts rl \<le> failures_at rl now ip"
  by (simp add: is_limited_def failures_at_def stored_def Let_def recent_def split: option.splits)

lemma check_and_record_verdict:
  "fst (check_and_record rl now ip) \<longleftrightarrow> max_attempts rl \<le> failures_at rl now ip"
  by (simp add: check_and_record_def failures_at_def stored_def Let_def)

lemma window_ops [simp]:
  "window (snd (is_limited rl now ip)) = window rl"
  "window (snd (check_and_record rl now ip)) = window rl"
  "window (limiter_cleanup rl now) = window rl"
  "max_attempts (snd (is_limited rl now ip)) = max_attempts rl"
  "max_attempts (snd (check_and_record rl now ip)) = max_attempts rl"
  "max_attempts (limiter_cleanup rl now) = max_attempts rl"
  by (simp_all add: is_limited_def check_and_record_def limiter_cleanup_def Let_def split: option.splits)

lemma limiter_wf_new: "limiter_wf (limiter_new n w)"
  by (simp add: limiter_wf_def limiter_new_def stored_def)

lemma limiter_wf_put:
  assumes "limiter_wf rl" and "length ts \<le> max_attempts rl"
  shows "limiter_wf (rl\<lparr>attempts := hm_put ip ts (attempts rl)\<rparr>)"
  using assms by (auto simp: limiter_wf_def stored_put hm_wf_put)

lemma length_recent_stored: "limiter_wf rl \<Longrightarrow> length (recent rl now (stored rl ip)) \<le> max_attempts rl"
  using length_recent_le [of rl now "stored rl ip"] by (auto simp: limiter_wf_def intro: le_trans)

lemma limiter_wf_is_limited: "limiter_wf rl \<Longrightarrow> limiter_wf (snd (is_limited rl now ip))"
  using length_recent_stored [of rl now ip]
  by (auto simp: is_limited_def stored_def Let_def split: option.splits intro!: limiter_wf_put)

lemma limiter_wf_check: "limiter_wf rl \<Longrightarrow> limiter_wf (snd (check_and_record rl now ip))"
  using length_recent_stored [of rl now ip]
  by (auto simp: check_and_record_def stored_def Let_def split: option.splits intro!: limiter_wf_put)

lemma limiter_wf_cleanup: "limiter_wf rl \<Longrightarrow> limiter_wf (limiter_cleanup rl now)"
  using length_recent_stored [of rl now]
  by (simp add: limiter_wf_def stored_cleanup hm_wf_cleanup)

lemma stored_is_limited:
  "stored (snd (is_limited rl now ip)) j = (if j = ip then recent rl now (stored rl ip) else stored rl j)"
  by (auto simp: is_limited_def stored_put Let_def recent_def stored_def split: option.splits)

lemma recent_ops [simp]:
  "recent (snd (is_limited rl now ip)) = recent rl"
  "recent (snd (check_and_record rl now ip)) = recent rl"
  "recent (limiter_cleanup rl now) = recent rl"
  by (rule recent_window_cong, simp)+

lemma failures_is_limited:
  "now \<le> t \<Longrightarrow> failures_at (snd (is_limited rl now ip)) t j = failures_at rl t j"
  by (simp add: failures_at_def stored_is_limited recent_recent)

lemma failures_cleanup:
  assumes "limiter_wf rl" and "now \<le> t"
  shows "failures_at (limiter_cleanup rl now) t ip = failures_at rl t ip"
proof -
  have "stored (limiter_cleanup rl now) ip = recent rl now (stored rl ip)"
    using assms(1) by (simp add: stored_cleanup limiter_wf_def)
  then show ?thesis
    using recent_recent [OF assms(2), of rl] by (simp add: failures_at_def)
qed

lemma recent_append_now: "0 < window rl \<Longrightarrow> recent rl t (ts @ [t]) = recent rl t ts @ [t]"
  by (simp add: recent_def in_window_def)

section \<open>Refinement of an unbounded history\<close>

text \<open>
  The specification keeps every recorded failure for ever and counts those inside the window.
  The limiter forgets; the theorem says nobody can tell.
\<close>

datatype lim_op = IsLimited ip_addr | CheckRecord ip_addr | Cleanup

fun lim_step :: "limiter \<Rightarrow> instant \<Rightarrow> lim_op \<Rightarrow> bool \<times> limiter" where
  "lim_step rl now (IsLimited ip) = is_limited rl now ip"
| "lim_step rl now (CheckRecord ip) = check_and_record rl now ip"
| "lim_step rl now Cleanup = (False, limiter_cleanup rl now)"

fun lim_run :: "limiter \<Rightarrow> (instant \<times> lim_op) list \<Rightarrow> bool list" where
  "lim_run rl [] = []"
| "lim_run rl ((now, a) # evs) = (case lim_step rl now a of (b, rl') \<Rightarrow> b # lim_run rl' evs)"

type_synonym history = "(instant \<times> ip_addr) list"

definition hist_count :: "nat \<Rightarrow> history \<Rightarrow> instant \<Rightarrow> ip_addr \<Rightarrow> nat" where
  "hist_count w h now ip = length (filter (\<lambda>(t, j). j = ip \<and> in_window w now t) h)"

fun spec_step :: "nat \<Rightarrow> nat \<Rightarrow> history \<Rightarrow> instant \<Rightarrow> lim_op \<Rightarrow> bool \<times> history" where
  "spec_step n w h now (IsLimited ip) = (n \<le> hist_count w h now ip, h)"
| "spec_step n w h now (CheckRecord ip) =
     (if n \<le> hist_count w h now ip then (True, h) else (False, h @ [(now, ip)]))"
| "spec_step n w h now Cleanup = (False, h)"

fun spec_run :: "nat \<Rightarrow> nat \<Rightarrow> history \<Rightarrow> (instant \<times> lim_op) list \<Rightarrow> bool list" where
  "spec_run n w h [] = []"
| "spec_run n w h ((now, a) # evs) = (case spec_step n w h now a of (b, h') \<Rightarrow> b # spec_run n w h' evs)"

definition lim_sim :: "nat \<Rightarrow> nat \<Rightarrow> limiter \<Rightarrow> history \<Rightarrow> instant \<Rightarrow> bool" where
  "lim_sim n w rl h now \<longleftrightarrow>
     limiter_wf rl \<and> max_attempts rl = n \<and> window rl = w \<and>
     (\<forall>t ip. now \<le> t \<longrightarrow> failures_at rl t ip = hist_count w h t ip)"

lemma stored_check:
  "stored (snd (check_and_record rl now ip)) j =
     (if j \<noteq> ip then stored rl j
      else if max_attempts rl \<le> failures_at rl now ip then recent rl now (stored rl ip)
      else recent rl now (stored rl ip) @ [now])"
  by (auto simp: check_and_record_def stored_put Let_def failures_at_def stored_def)

lemma recent_append: "recent rl t (as @ bs) = recent rl t as @ recent rl t bs"
  by (simp add: recent_def)

lemma failures_check:
  assumes "now \<le> t"
  shows "failures_at (snd (check_and_record rl now ip)) t j =
     failures_at rl t j
     + (if j = ip \<and> \<not> fst (check_and_record rl now ip) \<and> in_window (window rl) t now then 1 else 0)"
  using recent_recent [OF assms, of rl]
  by (simp add: failures_at_def stored_check recent_append check_and_record_verdict)
     (simp add: recent_def)

lemma lim_sim_step:
  assumes "lim_sim n w rl h now" and "0 < n" and "now \<le> t"
  shows "fst (lim_step rl t a) = fst (spec_step n w h t a) \<and>
         lim_sim n w (snd (lim_step rl t a)) (snd (spec_step n w h t a)) t"
proof (cases a)
  case (IsLimited ip)
  then show ?thesis
    using assms by (auto simp: lim_sim_def is_limited_verdict limiter_wf_is_limited failures_is_limited)
next
  case (CheckRecord ip)
  then show ?thesis
    using assms
    by (auto simp: lim_sim_def check_and_record_verdict limiter_wf_check failures_check hist_count_def)
next
  case Cleanup
  then show ?thesis
    using assms by (auto simp: lim_sim_def limiter_wf_cleanup failures_cleanup)
qed

lemma lim_sim_run:
  "lim_sim n w rl h now \<Longrightarrow> 0 < n \<Longrightarrow> sorted (now # map fst evs) \<Longrightarrow>
   lim_run rl evs = spec_run n w h evs"
proof (induction evs arbitrary: rl h now)
  case (Cons ev evs)
  obtain t a where ev: "ev = (t, a)" by (cases ev)
  have t: "now \<le> t" "sorted (t # map fst evs)" using Cons.prems(3) by (auto simp: ev)
  note st = lim_sim_step [OF Cons.prems(1,2) t(1), of a]
  show ?case
    using Cons.IH [OF conjunct2 [OF st] Cons.prems(2) t(2)] conjunct1 [OF st]
    by (simp add: ev case_prod_beta)
qed simp

text \<open>
  C15. The limiter is a sliding window: over any sequence of checks, recorded failures and
  cleanups at non-decreasing instants, its answers are those of a limiter that keeps the whole
  history of failures and counts, per address, the ones younger than the window.
\<close>

theorem limiter_refines_history:
  assumes "0 < n" and "sorted (map fst evs)"
  shows "lim_run (limiter_new n w) evs = spec_run n (secs w) [] evs"
proof (rule lim_sim_run [where now = 0])
  show "lim_sim n (secs w) (limiter_new n w) [] 0"
    using limiter_wf_new [of n w]
    by (auto simp: lim_sim_def limiter_new_def failures_at_def stored_def recent_def hist_count_def)
qed (use assms in simp_all)

theorem limiter_refines_history_witness:
  "lim_run (limiter_new 1 300)
     [(0, CheckRecord (V4 1 2 3 4)), (5, IsLimited (V4 1 2 3 4)), (7, Cleanup), (9, IsLimited (V4 9 9 9 9))]
   = [False, True, False, False]"
  by (subst limiter_refines_history)
     (simp_all add: hist_count_def in_window_def secs_def NANOS_def)

end
