(* ===== verification/Sessions.thy ===== *)
theory Sessions
  imports ExpiringStore
begin

text \<open>
  The session store of the gateway (\<open>gateway/src/session.rs\<close>). Every method takes the lock
  once, so it is one atomic function of the store and of the instant it reads. The session id
  is the UUID drawn by \<open>create\<close>, an argument of the model.
\<close>

datatype role = Admin | Readonly

fun role_str :: "role \<Rightarrow> string" where
  "role_str Admin = ''admin''"
| "role_str Readonly = ''readonly''"

record session =
  sess_id :: string
  sess_user :: string
  sess_role :: role
  created_at :: instant
  last_activity :: instant

record session_store =
  sess_inner :: "(string, session) hmap"
  idle_timeout_secs :: nat
  max_lifetime_secs :: nat

definition DEFAULT_MAX_LIFETIME_SECS :: nat where
  "DEFAULT_MAX_LIFETIME_SECS = 4 * 3600"

definition store_new :: "nat \<Rightarrow> session_store" where
  "store_new idle =
     \<lparr>sess_inner = [], idle_timeout_secs = idle, max_lifetime_secs = DEFAULT_MAX_LIFETIME_SECS\<rparr>"

definition session_create ::
  "session_store \<Rightarrow> instant \<Rightarrow> string \<Rightarrow> string \<Rightarrow> role \<Rightarrow> session \<times> session_store" where
  "session_create st now uid user role =
     (let s = \<lparr>sess_id = uid, sess_user = user, sess_role = role, created_at = now, last_activity = now\<rparr>
      in (s, st\<lparr>sess_inner := hm_put uid s (sess_inner st)\<rparr>))"

definition session_get :: "session_store \<Rightarrow> string \<Rightarrow> session option" where
  "session_get st sid = hm_get (sess_inner st) sid"

text \<open>The liveness test that \<open>get_valid\<close> and \<open>reap_expired\<close> share.\<close>

definition session_live :: "nat \<Rightarrow> nat \<Rightarrow> instant \<Rightarrow> session \<Rightarrow> bool" where
  "session_live idle life now s \<longleftrightarrow>
     elapsed_secs now (last_activity s) \<le> idle \<and> elapsed_secs now (created_at s) \<le> life"

abbreviation store_live :: "session_store \<Rightarrow> instant \<Rightarrow> session \<Rightarrow> bool" where
  "store_live st \<equiv> session_live (idle_timeout_secs st) (max_lifetime_secs st)"

definition session_get_valid ::
  "session_store \<Rightarrow> instant \<Rightarrow> string \<Rightarrow> session option \<times> session_store" where
  "session_get_valid st now sid =
     (case hm_get (sess_inner st) sid of
        None \<Rightarrow> (None, st)
      | Some s \<Rightarrow>
          if \<not> store_live st now s
          then (None, st\<lparr>sess_inner := hm_del sid (sess_inner st)\<rparr>)
          else (let s' = s\<lparr>last_activity := now\<rparr>
                in (Some s', st\<lparr>sess_inner := hm_put sid s' (sess_inner st)\<rparr>)))"

definition session_touch :: "session_store \<Rightarrow> instant \<Rightarrow> string \<Rightarrow> session_store" where
  "session_touch st now sid =
     (case hm_get (sess_inner st) sid of
        None \<Rightarrow> st
      | Some s \<Rightarrow> st\<lparr>sess_inner := hm_put sid (s\<lparr>last_activity := now\<rparr>) (sess_inner st)\<rparr>)"

definition session_remove :: "session_store \<Rightarrow> string \<Rightarrow> session_store" where
  "session_remove st sid = st\<lparr>sess_inner := hm_del sid (sess_inner st)\<rparr>"

definition session_count :: "session_store \<Rightarrow> nat" where
  "session_count st = length (sess_inner st)"

definition reap_expired :: "session_store \<Rightarrow> instant \<Rightarrow> nat \<times> session_store" where
  "reap_expired st now =
     (let before = length (sess_inner st);
          m = sweep (store_live st) now (sess_inner st)
      in (before - length m, st\<lparr>sess_inner := m\<rparr>))"

section \<open>Sessions expire: the shared contract\<close>

interpretation sess: expiring "session_live idle life" for idle life
  by unfold_locales (auto simp: session_live_def intro: order_trans [OF elapsed_secs_mono])

lemma get_valid_result:
  "fst (session_get_valid st now sid) =
     map_option (\<lambda>s. s\<lparr>last_activity := now\<rparr>) (live_get (store_live st) now (sess_inner st) sid)"
  by (simp add: session_get_valid_def live_get_def Let_def split: option.splits)

lemma store_params [simp]:
  "idle_timeout_secs (snd (session_create st now uid u r)) = idle_timeout_secs st"
  "max_lifetime_secs (snd (session_create st now uid u r)) = max_lifetime_secs st"
  "idle_timeout_secs (snd (session_get_valid st now sid)) = idle_timeout_secs st"
  "max_lifetime_secs (snd (session_get_valid st now sid)) = max_lifetime_secs st"
  "idle_timeout_secs (session_touch st now sid) = idle_timeout_secs st"
  "max_lifetime_secs (session_touch st now sid) = max_lifetime_secs st"
  "idle_timeout_secs (session_remove st sid) = idle_timeout_secs st"
  "max_lifetime_secs (session_remove st sid) = max_lifetime_secs st"
  "idle_timeout_secs (snd (reap_expired st now)) = idle_timeout_secs st"
  "max_lifetime_secs (snd (reap_expired st now)) = max_lifetime_secs st"
  by (simp_all add: session_create_def session_get_valid_def session_touch_def session_remove_def
      reap_expired_def Let_def split: option.splits)

section \<open>Runs of the store\<close>

datatype sess_op =
    SCreate string string role
  | SGetValid string
  | STouch string
  | SRemove string
  | SReap

fun sess_step :: "session_store \<Rightarrow> instant \<Rightarrow> sess_op \<Rightarrow> session_store" where
  "sess_step st now (SCreate uid u r) = snd (session_create st now uid u r)"
| "sess_step st now (SGetValid sid) = snd (session_get_valid st now sid)"
| "sess_step st now (STouch sid) = session_touch st now sid"
| "sess_step st now (SRemove sid) = session_remove st sid"
| "sess_step st now SReap = snd (reap_expired st now)"

text \<open>A store reachable from the empty one, the log of its operations (latest first) and the
  instant of the latest.\<close>

inductive sess_reach :: "nat \<Rightarrow> session_store \<Rightarrow> (instant \<times> sess_op) list \<Rightarrow> instant \<Rightarrow> bool"
  for idle where
  start: "sess_reach idle (store_new idle) [] 0"
| step: "sess_reach idle st log t \<Longrightarrow> t \<le> now \<Longrightarrow>
    sess_reach idle (sess_step st now a) ((now, a) # log) now"

text \<open>The latest operation of the log that creates or removes a session id.\<close>

fun last_event :: "string \<Rightarrow> (instant \<times> sess_op) list \<Rightarrow> (instant \<times> sess_op) option" where
  "last_event sid [] = None"
| "last_event sid ((t, SCreate uid u r) # log) =
     (if uid = sid then Some (t, SCreate uid u r) else last_event sid log)"
| "last_event sid ((t, SRemove i) # log) =
     (if i = sid then Some (t, SRemove i) else last_event sid log)"
| "last_event sid (_ # log) = last_event sid log"

definition sess_inv :: "nat \<Rightarrow> session_store \<Rightarrow> (instant \<times> sess_op) list \<Rightarrow> instant \<Rightarrow> bool" where
  "sess_inv idle st log t \<longleftrightarrow>
     hm_wf (sess_inner st) \<and> idle_timeout_secs st = idle \<and>
     max_lifetime_secs st = DEFAULT_MAX_LIFETIME_SECS \<and>
     (\<forall>sid s. hm_get (sess_inner st) sid = Some s \<longrightarrow>
        sess_id s = sid \<and> created_at s \<le> last_activity s \<and> last_activity s \<le> t \<and>
        last_event sid log = Some (created_at s, SCreate sid (sess_user s) (sess_role s)))"

lemma sess_inv_D:
  assumes "sess_inv idle st log t" and "hm_get (sess_inner st) sid = Some s"
  shows "sess_id s = sid \<and> created_at s \<le> last_activity s \<and> last_activity s \<le> t \<and>
    last_event sid log = Some (created_at s, SCreate sid (sess_user s) (sess_role s))"
  using assms by (simp add: sess_inv_def)

lemma hm_get_sweep_Some:
  "hm_wf m \<Longrightarrow> hm_get (sweep lv now m) k = Some v \<Longrightarrow> hm_get m k = Some v"
  by (auto simp: sweep_def hm_get_retain split: option.splits if_splits)

lemma sess_inv_step:
  assumes inv: "sess_inv idle st log t" and le: "t \<le> now"
  shows "sess_inv idle (sess_step st now a) ((now, a) # log) now"
proof -
  note D = sess_inv_D [OF inv]
  have wf: "hm_wf (sess_inner st)" using inv by (simp add: sess_inv_def)
  have D': "hm_get (sess_inner st) sid = Some s \<Longrightarrow> last_activity s \<le> now" for sid s
    using D le by (meson order_trans)
  have C: "hm_get (sess_inner st) sid = Some s \<Longrightarrow> created_at s \<le> now" for sid s
    using D le by (meson order_trans)
  show ?thesis
  proof (cases a)
    case (SReap)
    then show ?thesis
      using inv D D' C
      by (auto simp: sess_inv_def reap_expired_def Let_def hm_wf_sweep
          dest!: hm_get_sweep_Some [OF wf])
  qed (use inv D D' C in \<open>auto simp: sess_inv_def session_create_def session_get_valid_def
         session_touch_def session_remove_def Let_def hm_wf_put hm_wf_del
         split: option.splits if_splits intro: order_trans\<close>)
qed

lemma sess_reach_inv: "sess_reach idle st log t \<Longrightarrow> sess_inv idle st log t"
proof (induction rule: sess_reach.induct)
  case start
  show ?case by (simp add: sess_inv_def store_new_def)
next
  case (step st log t now a)
  then show ?case by (blast intro: sess_inv_step)
qed

text \<open>
  C5. Whatever the gateway has done before, a bearer token is accepted only when its latest
  create-or-remove event is the creation of that very session (a logout ends it), the user and
  the role are those fixed at creation, the session is at most four hours old, and its last
  activity is at most the idle timeout ago.
\<close>

theorem session_valid_provenance:
  assumes "sess_reach idle st log t" and "t \<le> now"
    and "fst (session_get_valid st now sid) = Some s"
  shows "sess_id s = sid \<and>
    last_event sid log = Some (created_at s, SCreate sid (sess_user s) (sess_role s)) \<and>
    elapsed_secs now (created_at s) \<le> DEFAULT_MAX_LIFETIME_SECS \<and>
    (\<exists>s0. session_get st sid = Some s0 \<and> elapsed_secs now (last_activity s0) \<le> idle)"
proof -
  have inv: "sess_inv idle st log t" using assms(1) by (rule sess_reach_inv)
  obtain s0 where s0: "hm_get (sess_inner st) sid = Some s0" "store_live st now s0"
    "s = s0\<lparr>last_activity := now\<rparr>"
    using assms(3) by (auto simp: get_valid_result live_get_Some)
  have "idle_timeout_secs st = idle" "max_lifetime_secs st = DEFAULT_MAX_LIFETIME_SECS"
    using inv by (simp_all add: sess_inv_def)
  with sess_inv_D [OF inv s0(1)] s0 show ?thesis
    by (auto simp: session_live_def session_get_def)
qed

definition demo_store :: session_store where
  "demo_store = sess_step (store_new 900) 5 (SCreate ''tok'' ''alice'' Admin)"

lemma demo_store_reach: "sess_reach 900 demo_store [(5, SCreate ''tok'' ''alice'' Admin)] 5"
  unfolding demo_store_def by (rule sess_reach.step [OF sess_reach.start]) simp

theorem session_valid_provenance_witness:
  "\<exists>s. fst (session_get_valid demo_store 7 ''tok'') = Some s \<and>
       sess_user s = ''alice'' \<and> elapsed_secs 7 (created_at s) \<le> DEFAULT_MAX_LIFETIME_SECS"
proof -
  obtain s where s: "fst (session_get_valid demo_store 7 ''tok'') = Some s"
    by (auto simp: demo_store_def session_get_valid_def session_create_def store_new_def
        session_live_def elapsed_secs_def as_secs_def NANOS_def Let_def)
  have le: "(5::nat) \<le> 7" by simp
  from session_valid_provenance [OF demo_store_reach le s] s show ?thesis by auto
qed

text \<open>
  Reaping is invisible: running the reaper at any earlier instant changes no later answer
  of \<open>get_valid\<close>, and every session it keeps is live at that instant.
\<close>

theorem reaper_invisible:
  assumes "sess_reach idle st log t" and "t \<le> now" and "now \<le> now'"
  shows "fst (session_get_valid (snd (reap_expired st now)) now' sid) =
         fst (session_get_valid st now' sid) \<and>
         (\<forall>s. session_get (snd (reap_expired st now)) sid = Some s \<longrightarrow> store_live st now s)"
proof -
  have wf: "hm_wf (sess_inner st)"
    using sess_reach_inv [OF assms(1)] by (simp add: sess_inv_def)
  let ?m = "sweep (store_live st) now (sess_inner st)"
  have inner: "sess_inner (snd (reap_expired st now)) = ?m"
    by (simp add: reap_expired_def Let_def)
  have "\<forall>s. hm_get ?m sid = Some s \<longrightarrow> store_live st now s"
    using wf by (auto simp: sweep_def hm_get_retain split: option.splits if_splits)
  then show ?thesis
    using sess.live_get_sweep [OF wf assms(3)]
    by (simp add: get_valid_result inner session_get_def)
qed

theorem reaper_invisible_witness:
  "fst (session_get_valid (snd (reap_expired demo_store (secs 901))) (secs 902) ''tok'') = None"
proof -
  have le: "(5::nat) \<le> secs 901" "secs 901 \<le> secs 902" by (simp_all add: secs_def NANOS_def)
  have "fst (session_get_valid demo_store (secs 902) ''tok'') = None"
    by (simp add: demo_store_def session_get_valid_def session_create_def store_new_def
        session_live_def elapsed_secs_def as_secs_def NANOS_def Let_def secs_def)
  then show ?thesis
    using reaper_invisible [OF demo_store_reach le, of "''tok''"] by simp
qed

text \<open>
  \<open>touch\<close> does not check expiry: applied to a stored session that has been idle for longer
  than the timeout (but is younger than the lifetime cap), it makes the dead session valid
  again.
\<close>

theorem touch_revives_idle_session:
  assumes "session_get st sid = Some s"
    and "elapsed_secs now (last_activity s) > idle_timeout_secs st"
    and "elapsed_secs now (created_at s) \<le> max_lifetime_secs st"
  shows "fst (session_get_valid st now sid) = None \<and>
         fst (session_get_valid (session_touch st now sid) now sid) = Some (s\<lparr>last_activity := now\<rparr>)"
  using assms
  by (simp add: get_valid_result live_get_def session_live_def session_get_def session_touch_def)

theorem touch_revives_idle_session_witness:
  "fst (session_get_valid demo_store (secs 1000) ''tok'') = None \<and>
   fst (session_get_valid (session_touch demo_store (secs 1000) ''tok'') (secs 1000) ''tok'') \<noteq> None"
proof -
  let ?s = "\<lparr>sess_id = ''tok'', sess_user = ''alice'', sess_role = Admin, created_at = 5, last_activity = 5\<rparr>"
  have "session_get demo_store ''tok'' = Some ?s"
    "elapsed_secs (secs 1000) (last_activity ?s) > idle_timeout_secs demo_store"
    "elapsed_secs (secs 1000) (created_at ?s) \<le> max_lifetime_secs demo_store"
    by (simp_all add: demo_store_def session_get_def session_create_def store_new_def
        elapsed_secs_def as_secs_def NANOS_def Let_def secs_def DEFAULT_MAX_LIFETIME_SECS_def)
  from touch_revives_idle_session [OF this] show ?thesis by simp
qed

section \<open>Runs with and without the reaper\<close>

definition live_at :: "session_store \<Rightarrow> instant \<Rightarrow> string \<Rightarrow> session option" where
  "live_at st now sid = live_get (store_live st) now (sess_inner st) sid"

text \<open>What a run answers, and the run without the reaper's turns. A socket touches its session while it is live:
  \<open>touches_live\<close> follows a run and says so.\<close>

fun sess_answers :: "session_store \<Rightarrow> (instant \<times> sess_op) list \<Rightarrow> session option list" where
  "sess_answers st [] = []"
| "sess_answers st ((now, a) # ops) =
     (case a of SGetValid sid \<Rightarrow> [fst (session_get_valid st now sid)] | _ \<Rightarrow> []) @ sess_answers (sess_step st now a) ops"

definition unreaped :: "(instant \<times> sess_op) list \<Rightarrow> (instant \<times> sess_op) list" where
  "unreaped ops = filter (\<lambda>(_, a). a \<noteq> SReap) ops"

fun touches_live :: "session_store \<Rightarrow> (instant \<times> sess_op) list \<Rightarrow> bool" where
  "touches_live st [] \<longleftrightarrow> True"
| "touches_live st ((now, a) # ops) \<longleftrightarrow>
     (case a of STouch sid \<Rightarrow> live_at st now sid \<noteq> None | _ \<Rightarrow> True) \<and> touches_live (sess_step st now a) ops"

text \<open>Two stores that no lookup from an instant on can tell apart.\<close>

definition same_live :: "instant \<Rightarrow> session_store \<Rightarrow> session_store \<Rightarrow> bool" where
  "same_live t st1 st2 \<longleftrightarrow>
     hm_wf (sess_inner st1) \<and> hm_wf (sess_inner st2) \<and> idle_timeout_secs st1 = idle_timeout_secs st2 \<and>
     max_lifetime_secs st1 = max_lifetime_secs st2 \<and> (\<forall>now sid. t \<le> now \<longrightarrow> live_at st1 now sid = live_at st2 now sid)"

lemma same_live_later: "same_live t st1 st2 \<Longrightarrow> t \<le> t' \<Longrightarrow> same_live t' st1 st2"
  by (auto simp: same_live_def)

lemma hm_wf_step: "hm_wf (sess_inner st) \<Longrightarrow> hm_wf (sess_inner (sess_step st now a))"
  by (cases a) (auto simp: session_create_def session_get_valid_def session_touch_def session_remove_def reap_expired_def
      Let_def hm_wf_put hm_wf_del hm_wf_sweep split: option.splits)

lemma params_step:
  "idle_timeout_secs (sess_step st now a) = idle_timeout_secs st" "max_lifetime_secs (sess_step st now a) = max_lifetime_secs st"
  by (cases a; simp)+

lemma live_at_reap: "hm_wf (sess_inner st) \<Longrightarrow> t \<le> now \<Longrightarrow> live_at (snd (reap_expired st t)) now sid = live_at st now sid"
  by (simp add: live_at_def reap_expired_def Let_def sess.live_get_sweep)

text \<open>Each other operation, on what is live later.\<close>

lemma live_at_step:
  assumes "t \<le> now"
  shows "live_at (snd (session_create st t uid u r)) now sid =
      (let s = \<lparr>sess_id = uid, sess_user = u, sess_role = r, created_at = t, last_activity = t\<rparr>
       in if sid = uid then (if store_live st now s then Some s else None) else live_at st now sid)"
    and "live_at (session_remove st i) now sid = (if sid = i then None else live_at st now sid)"
    and "live_at (snd (session_get_valid st t i)) now sid =
      (if sid = i then Option.bind (live_at st t i) (\<lambda>s. if store_live st now (s\<lparr>last_activity := t\<rparr>) then Some (s\<lparr>last_activity := t\<rparr>) else None)
       else live_at st now sid)"
    and "live_at st t i \<noteq> None \<Longrightarrow> live_at (session_touch st t i) now sid =
      (if sid = i then Option.bind (live_at st t i) (\<lambda>s. if store_live st now (s\<lparr>last_activity := t\<rparr>) then Some (s\<lparr>last_activity := t\<rparr>) else None)
       else live_at st now sid)"
  by (auto simp: live_at_def live_get_def session_create_def session_remove_def session_get_valid_def session_touch_def Let_def
      split: option.splits)

lemma same_live_step:
  assumes "same_live t st1 st2" and "case a of STouch sid \<Rightarrow> live_at st2 t sid \<noteq> None | _ \<Rightarrow> True" and "a \<noteq> SReap"
  shows "same_live t (sess_step st1 t a) (sess_step st2 t a)"
proof -
  from assms(1) have same: "live_at st1 now sid = live_at st2 now sid" if "t \<le> now" for now sid
    using that by (simp add: same_live_def)
  from assms(1) have params: "idle_timeout_secs st1 = idle_timeout_secs st2" "max_lifetime_secs st1 = max_lifetime_secs st2"
    and wf: "hm_wf (sess_inner st1)" "hm_wf (sess_inner st2)" by (simp_all add: same_live_def)
  have "live_at (sess_step st1 t a) now sid = live_at (sess_step st2 t a) now sid" if "t \<le> now" for now sid
    using assms(2,3) by (cases a) (simp_all add: live_at_step [OF that] same [OF that] same [OF order_refl] params Let_def)
  with wf params show ?thesis by (simp add: same_live_def hm_wf_step params_step)
qed

lemma same_live_answers:
  "same_live t st1 st2 \<Longrightarrow> sorted (t # map fst ops) \<Longrightarrow> touches_live st2 (unreaped ops) \<Longrightarrow>
   sess_answers st1 ops = sess_answers st2 (unreaped ops)"
proof (induction ops arbitrary: t st1 st2)
  case (Cons op ops)
  obtain now a where op: "op = (now, a)" by (cases op)
  have now: "same_live now st1 st2" "sorted (now # map fst ops)"
    using Cons.prems(1,2) op same_live_later by auto
  show ?case
  proof (cases "a = SReap")
    case True
    have "same_live now (snd (reap_expired st1 now)) st2"
      using now(1) hm_wf_step [of st1 now SReap] by (simp add: same_live_def live_at_reap)
    from Cons.IH [OF this now(2)] Cons.prems(3) True op show ?thesis by (simp add: unreaped_def)
  next
    case False
    then have un: "unreaped (op # ops) = (now, a) # unreaped ops" by (simp add: unreaped_def op)
    with Cons.prems(3) have t: "case a of STouch sid \<Rightarrow> live_at st2 now sid \<noteq> None | _ \<Rightarrow> True"
      "touches_live (sess_step st2 now a) (unreaped ops)" by simp_all
    have "fst (session_get_valid st1 now sid) = fst (session_get_valid st2 now sid)" for sid
    proof -
      have "live_at st1 now sid = live_at st2 now sid" using now(1) by (simp add: same_live_def)
      then show ?thesis unfolding get_valid_result live_at_def [symmetric] by simp
    qed
    moreover have "sess_answers (sess_step st1 now a) ops = sess_answers (sess_step st2 now a) (unreaped ops)"
      using same_live_step [OF now(1) t(1) False] now(2) t(2) by (rule Cons.IH)
    ultimately show ?thesis unfolding un by (simp add: op split: sess_op.split)
  qed
qed (simp add: unreaped_def)



end
