(* ===== verification/HostsConfig.thy ===== *)
theory HostsConfig
  imports RustStr
begin

text \<open>
  The enrolled hosts on disk (\<open>gateway/src/hosts_config.rs\<close>): \<open>hosts.json\<close>, the stable gateway
  id, and the load-modify-save operations on them. The file is what a later read would see:
  absent or unreadable, unparsable, or a list of entries. Fresh uuids and timestamps are
  arguments; a failing write is an argument too, with whatever it leaves on disk.
\<close>

record host_entry =
  he_id :: string
  he_name :: string
  he_hostname :: string
  he_public_key :: "string option"
  he_added_at :: string
  he_is_local :: bool
  he_display_name :: "string option"
  he_last_seen :: "string option"
  he_os_id :: "string option"

type_synonym hosts = "host_entry list"

datatype hosts_file = Missing | Garbage | Stored hosts

definition hosts_load :: "hosts_file \<Rightarrow> hosts" where
  "hosts_load f = (case f of Stored hs \<Rightarrow> hs | Garbage \<Rightarrow> [] | Missing \<Rightarrow> [])"

datatype io = IoOk | IoErr hosts_file

text \<open>\<open>save\<close>: the new file, or the error and the file it left behind.\<close>

definition hosts_save :: "io \<Rightarrow> hosts \<Rightarrow> bool \<times> hosts_file" where
  "hosts_save w hs = (case w of IoOk \<Rightarrow> (True, Stored hs) | IoErr f \<Rightarrow> (False, f))"

lemma hosts_load_simps [simp]:
  "hosts_load (Stored hs) = hs" "hosts_load Garbage = []" "hosts_load Missing = []"
  by (simp_all add: hosts_load_def)

lemma hosts_save_simps [simp]:
  "hosts_save IoOk hs = (True, Stored hs)" "hosts_save (IoErr f) hs = (False, f)"
  by (simp_all add: hosts_save_def)

section \<open>The gateway id\<close>

text \<open>The gateway-id file (\<open>None\<close>: not readable), and whether the write succeeds.\<close>

definition load_or_create_gateway_id ::
  "string option \<Rightarrow> string \<Rightarrow> bool \<Rightarrow> string option \<times> string option" where
  "load_or_create_gateway_id file uuid write_ok =
     (let found = (case file of None \<Rightarrow> None
                     | Some s \<Rightarrow> if trim s \<noteq> [] then Some (trim s) else None)
      in case found of
           Some s \<Rightarrow> (Some s, file)
         | None \<Rightarrow> if write_ok then (Some uuid, Some uuid) else (None, file))"

section \<open>Operations on the entries\<close>

definition by_id :: "string \<Rightarrow> host_entry \<Rightarrow> bool" where
  "by_id i h \<longleftrightarrow> he_id h = i"

definition update_last_seen :: "hosts_file \<Rightarrow> string \<Rightarrow> string \<Rightarrow> io \<Rightarrow> hosts_file" where
  "update_last_seen f hid now w =
     (let config = hosts_load f
      in case List.find (by_id hid) config of
           None \<Rightarrow> f
         | Some _ \<Rightarrow>
             snd (hosts_save w (update_first (by_id hid) (\<lambda>h. h\<lparr>he_last_seen := Some now\<rparr>) config)))"

definition find_by_pubkey :: "hosts_file \<Rightarrow> string \<Rightarrow> host_entry option" where
  "find_by_pubkey f pk = List.find (\<lambda>h. he_public_key h = Some pk) (hosts_load f)"

definition find_by_hostname :: "hosts_file \<Rightarrow> string \<Rightarrow> host_entry option" where
  "find_by_hostname f hn = List.find (\<lambda>h. he_hostname h = hn) (hosts_load f)"

definition new_host ::
  "string \<Rightarrow> string \<Rightarrow> string \<Rightarrow> string \<Rightarrow> bool \<Rightarrow> string option \<Rightarrow> string option \<Rightarrow> host_entry" where
  "new_host uuid now hn pk loc dn os =
     \<lparr>he_id = uuid, he_name = hn, he_hostname = hn, he_public_key = Some pk, he_added_at = now,
      he_is_local = loc, he_display_name = dn, he_last_seen = None, he_os_id = os\<rparr>"

definition register_host ::
  "hosts_file \<Rightarrow> string \<Rightarrow> string \<Rightarrow> string \<Rightarrow> string \<Rightarrow> bool \<Rightarrow> string option \<Rightarrow> string option \<Rightarrow> io
   \<Rightarrow> host_entry option \<times> hosts_file" where
  "register_host f uuid now hn pk loc dn os w =
     (let entry = new_host uuid now hn pk loc dn os;
          (ok, f') = hosts_save w (hosts_load f @ [entry])
      in (if ok then Some entry else None, f'))"

definition update_os_id :: "hosts_file \<Rightarrow> string \<Rightarrow> string \<Rightarrow> io \<Rightarrow> hosts_file" where
  "update_os_id f hid os w =
     (let config = hosts_load f
      in case List.find (by_id hid) config of
           None \<Rightarrow> f
         | Some h \<Rightarrow>
             if he_os_id h = None
             then snd (hosts_save w (update_first (by_id hid) (\<lambda>h. h\<lparr>he_os_id := Some os\<rparr>) config))
             else f)"

definition replace_pubkey ::
  "hosts_file \<Rightarrow> string \<Rightarrow> string \<Rightarrow> io \<Rightarrow> host_entry option \<times> hosts_file" where
  "replace_pubkey f hid pk w =
     (let config = hosts_load f
      in case List.find (by_id hid) config of
           None \<Rightarrow> (None, f)
         | Some h \<Rightarrow>
             (let g = (\<lambda>h. h\<lparr>he_public_key := Some pk\<rparr>);
                  (ok, f') = hosts_save w (update_first (by_id hid) g config)
              in (if ok then Some (g h) else None, f')))"

lemmas hosts_defs = update_last_seen_def find_by_pubkey_def find_by_hostname_def
  register_host_def update_os_id_def replace_pubkey_def Let_def

section \<open>What an operation may change\<close>

text \<open>The identity of an entry: everything but the key, the last disconnect and the os id.\<close>

definition host_core :: "host_entry \<Rightarrow> host_entry" where
  "host_core h = h\<lparr>he_public_key := None, he_last_seen := None, he_os_id := None\<rparr>"

lemma host_core_updates [simp]:
  "host_core (h\<lparr>he_public_key := x\<rparr>) = host_core h"
  "host_core (h\<lparr>he_last_seen := x\<rparr>) = host_core h"
  "host_core (h\<lparr>he_os_id := x\<rparr>) = host_core h"
  by (simp_all add: host_core_def)

lemma host_core_id: "host_core h = host_core h' \<Longrightarrow> he_id h = he_id h'"
  by (drule arg_cong [where f = he_id]) (simp add: host_core_def)

datatype hosts_op =
    HSeen string string
  | HRegister string string string string bool "string option" "string option"
  | HOsId string string
  | HRekey string string

fun hosts_step :: "hosts_file \<Rightarrow> hosts_op \<Rightarrow> io \<Rightarrow> hosts_file" where
  "hosts_step f (HSeen i now) w = update_last_seen f i now w"
| "hosts_step f (HRegister u now hn pk loc dn os) w = snd (register_host f u now hn pk loc dn os w)"
| "hosts_step f (HOsId i os) w = update_os_id f i os w"
| "hosts_step f (HRekey i pk) w = snd (replace_pubkey f i pk w)"

lemma find_update_first_other:
  assumes "\<And>x. p (g x) \<longleftrightarrow> p x" and "\<And>x. p x \<Longrightarrow> \<not> q x" and "\<And>x. q (g x) \<longleftrightarrow> q x"
  shows "List.find p (update_first q g xs) = List.find p xs"
  using assms by (induction xs) auto

lemma find_by_id_append: "List.find p (xs @ [y]) =
    (case List.find p xs of Some x \<Rightarrow> Some x | None \<Rightarrow> if p y then Some y else None)"
  by (induction xs) auto

lemma by_id_update [simp]:
  "by_id i (h\<lparr>he_public_key := x\<rparr>) = by_id i h" "by_id i (h\<lparr>he_last_seen := y\<rparr>) = by_id i h"
  "by_id i (h\<lparr>he_os_id := z\<rparr>) = by_id i h"
  by (simp_all add: by_id_def)

lemma map_core_step:
  "\<exists>new. map host_core (hosts_load (hosts_step f a IoOk)) = map host_core (hosts_load f) @ new \<and>
     (case a of HRegister u now hn pk loc dn os \<Rightarrow> new = [host_core (new_host u now hn pk loc dn os)]
              | _ \<Rightarrow> new = [])"
  by (cases a) (auto simp: hosts_defs map_update_first split: option.splits)

text \<open>
  The enrolled hosts only grow, and never change identity: after any sequence of
  successful operations the old entries are still there, in their old order, with the same id,
  name, hostname, enrolment time, locality and display name; new entries stand behind them.
\<close>

theorem hosts_keep_identity:
  "\<exists>new. map host_core (hosts_load (foldl (\<lambda>f a. hosts_step f a IoOk) f ops)) =
         map host_core (hosts_load f) @ new"
proof (induction ops arbitrary: f)
  case (Cons a ops)
  obtain new where "map host_core (hosts_load (hosts_step f a IoOk)) = map host_core (hosts_load f) @ new"
    using map_core_step [of f a] by blast
  then show ?case using Cons [of "hosts_step f a IoOk"] by auto
qed simp

definition os_of :: "hosts_file \<Rightarrow> string \<Rightarrow> string option" where
  "os_of f i = Option.bind (List.find (by_id i) (hosts_load f)) he_os_id"

lemma os_of_step:
  assumes "os_of f i = Some os"
  shows "os_of (hosts_step f a IoOk) i = Some os"
proof -
  obtain h where h: "List.find (by_id i) (hosts_load f) = Some h" "he_os_id h = Some os"
    using assms by (auto simp: os_of_def bind_eq_Some_conv)
  have keep: "\<exists>h'. List.find (by_id i) (update_first (by_id j) g (hosts_load f)) = Some h' \<and> he_os_id h' = Some os"
    if "\<And>x. by_id i (g x) = by_id i x" "\<And>x. by_id j (g x) = by_id j x" "j = i \<Longrightarrow> he_os_id (g h) = Some os"
    for g j
  proof (cases "j = i")
    case True
    have "List.find (by_id i) (update_first (by_id i) g (hosts_load f)) = Some (g h)"
      using h(1) find_Some_set [OF h(1)] that by (intro find_update_first) auto
    with True that show ?thesis by simp
  next
    case False
    then show ?thesis
      using h that by (subst find_update_first_other) (auto simp: by_id_def)
  qed
  show ?thesis
    using h by (cases a)
      (auto simp: os_of_def hosts_defs find_by_id_append bind_eq_Some_conv split: option.splits intro!: keep)
qed

text \<open>
  The os id of a host is written once: after any sequence of successful operations it is
  the value it first had.
\<close>

theorem os_id_write_once:
  assumes "os_of f i = Some os"
  shows "os_of (foldl (\<lambda>f a. hosts_step f a IoOk) f ops) i = Some os"
  using assms by (induction ops arbitrary: f) (auto simp: os_of_step)

text \<open>
  A registered or re-keyed host is found again under its key: the entry just returned is
  in the file, and the key is the one given, unless an older entry already claims that key.
\<close>

theorem enrolled_key_found:
  assumes "find_by_pubkey f pk = None"
  shows "(register_host f uuid now hn pk loc dn os IoOk = (Some h, f') \<longrightarrow>
           find_by_pubkey f' pk = Some h \<and> he_hostname h = hn \<and> he_is_local h = loc) \<and>
         (replace_pubkey f hid pk IoOk = (Some h, f') \<longrightarrow>
           find_by_pubkey f' pk = Some h \<and> he_id h = hid)"
proof (intro conjI impI)
  let ?p = "\<lambda>h. he_public_key h = Some pk"
  show "find_by_pubkey f' pk = Some h" "he_hostname h = hn" "he_is_local h = loc"
    if "register_host f uuid now hn pk loc dn os IoOk = (Some h, f')"
    using assms that by (auto simp: hosts_defs new_host_def find_by_id_append)
  have upd: "List.find q xs = Some x \<Longrightarrow> List.find ?p xs = None \<Longrightarrow>
      List.find ?p (update_first q (\<lambda>h. h\<lparr>he_public_key := Some pk\<rparr>) xs) =
        Some (x\<lparr>he_public_key := Some pk\<rparr>)" for q xs x
    by (induction xs) (auto split: if_splits)
  show "find_by_pubkey f' pk = Some h" "he_id h = hid"
    if "replace_pubkey f hid pk IoOk = (Some h, f')"
    using assms that by (auto simp: hosts_defs upd by_id_def dest: find_Some_set split: option.splits)
qed

text \<open>\<open>load\<close> and \<open>save\<close> are separate awaits: the second half of \<open>register_host\<close>, on a
  configuration loaded earlier.\<close>

definition register_commit :: "hosts \<Rightarrow> host_entry \<Rightarrow> io \<Rightarrow> host_entry option \<times> hosts_file" where
  "register_commit config entry w =
     (let (ok, f') = hosts_save w (config @ [entry]) in (if ok then Some entry else None, f'))"

lemma register_host_commit:
  "register_host f u now hn pk loc dn os w =
     register_commit (hosts_load f) (new_host u now hn pk loc dn os) w"
  by (simp add: register_host_def register_commit_def Let_def)

text \<open>
  Two registrations whose load and save interleave lose one host: both report success, but
  the first one's key is no longer enrolled once the second has saved.
\<close>

theorem concurrent_registration_lost:
  assumes "find_by_pubkey f pk1 = None" and "pk1 \<noteq> pk2"
  shows "let config1 = hosts_load f; config2 = hosts_load f;
             (r1, f1) = register_commit config1 (new_host u1 now1 hn1 pk1 l1 d1 o1) IoOk;
             (r2, f2) = register_commit config2 (new_host u2 now2 hn2 pk2 l2 d2 o2) IoOk
         in r1 \<noteq> None \<and> r2 \<noteq> None \<and> find_by_pubkey f1 pk1 = r1 \<and> find_by_pubkey f2 pk1 = None"
  using assms by (auto simp: register_commit_def find_by_pubkey_def find_by_id_append new_host_def Let_def)

section \<open>Witnesses\<close>

definition demo_host :: host_entry where
  "demo_host = new_host ''u1'' ''t0'' ''srv01'' ''pk1'' False None (Some ''debian'')"

theorem os_id_write_once_witness:
  "os_of (hosts_step (Stored [demo_host]) (HOsId ''u1'' ''fedora'') IoOk) ''u1'' = Some ''debian''"
proof -
  have "os_of (Stored [demo_host]) ''u1'' = Some ''debian''"
    by (simp add: os_of_def demo_host_def new_host_def by_id_def)
  from os_id_write_once [OF this, of "[HOsId ''u1'' ''fedora'']"] show ?thesis by simp
qed

theorem enrolled_key_found_witness:
  "find_by_pubkey (Stored [demo_host]) ''pk1'' = Some demo_host"
proof -
  have none: "find_by_pubkey Missing ''pk1'' = None" by (simp add: find_by_pubkey_def)
  have reg: "register_host Missing ''u1'' ''t0'' ''srv01'' ''pk1'' False None (Some ''debian'') IoOk
      = (Some demo_host, Stored [demo_host])"
    by (simp add: register_host_def demo_host_def Let_def)
  show ?thesis
    using enrolled_key_found [OF none, of "''u1''" "''t0''" "''srv01''" False None "Some ''debian''"
        demo_host "Stored [demo_host]"] reg by blast
qed

theorem concurrent_registration_lost_witness:
  "find_by_pubkey (snd (register_commit [] (new_host ''u2'' ''t0'' ''b'' ''pk2'' False None None) IoOk))
     ''pk1'' = None"
  using concurrent_registration_lost [of Missing "''pk1''" "''pk2''" "''u1''" "''t0''" "''a''" False None None
      "''u2''" "''t0''" "''b''" False None None]
  by (simp add: find_by_pubkey_def register_commit_def)

end
