(* ===== verification/AgentCrypto.thy ===== *)
theory AgentCrypto
  imports Protocol
begin

text \<open>
  Signature verification and digests (\<open>gateway/src/agent_auth.rs\<close>). The primitives come from
  crates outside the repository (base64, sha2, ed25519-dalek): they are the fields of a record
  that the definitions take as an argument. What the gateway builds around them, the length
  checks, the payload, the fingerprints and the constant-time comparison, is modelled.
\<close>

record crypto =
  b64_decode :: "string \<Rightarrow> string option"
  b64_encode :: "string \<Rightarrow> string"
  b64_encode_nopad :: "string \<Rightarrow> string"
  sha256 :: "string \<Rightarrow> string"
  vk_from_bytes_ok :: "string \<Rightarrow> bool"
  verify_strict :: "string \<Rightarrow> string \<Rightarrow> string \<Rightarrow> bool"

definition token_digest :: "crypto \<Rightarrow> string \<Rightarrow> string" where
  "token_digest c v = sha256 c v"

definition verify_signature ::
  "crypto \<Rightarrow> string \<Rightarrow> string \<Rightarrow> string \<Rightarrow> string \<Rightarrow> string \<Rightarrow> bool" where
  "verify_signature c pubkey_b64 sig_b64 nonce_bytes hostname gateway_id =
     (case b64_decode c pubkey_b64 of
        None \<Rightarrow> False
      | Some pk \<Rightarrow>
          if length pk \<noteq> 32 then False
          else if \<not> vk_from_bytes_ok c pk then False
          else (case b64_decode c sig_b64 of
                  None \<Rightarrow> False
                | Some sg \<Rightarrow>
                    if length sg \<noteq> 64 then False
                    else verify_strict c pk (build_challenge_payload nonce_bytes hostname gateway_id) sg))"

text \<open>\<open>generate_nonce\<close>, on the 32 bytes of the operating system's generator.\<close>

definition generate_nonce :: "crypto \<Rightarrow> string \<Rightarrow> string \<times> string" where
  "generate_nonce c random32 = (random32, b64_encode c random32)"

definition bytes_to_hex :: "string \<Rightarrow> string" where
  "bytes_to_hex bs = concat (map hex2 bs)"

definition pubkey_fingerprint_hex :: "crypto \<Rightarrow> string \<Rightarrow> string" where
  "pubkey_fingerprint_hex c pk =
     (case b64_decode c pk of Some bs \<Rightarrow> bytes_to_hex (sha256 c bs) | None \<Rightarrow> [])"

definition pubkey_fingerprint_display :: "crypto \<Rightarrow> string \<Rightarrow> string" where
  "pubkey_fingerprint_display c pk =
     (case b64_decode c pk of
        Some bs \<Rightarrow> ''SHA256:'' @ b64_encode_nopad c (sha256 c bs)
      | None \<Rightarrow> ''SHA256:invalid'')"

unbundle bit_operations_syntax

definition u8_of :: "char \<Rightarrow> u8" where
  "u8_of ch = word_of_nat (byte ch)"

definition constant_time_eq :: "string \<Rightarrow> string \<Rightarrow> bool" where
  "constant_time_eq a b =
     (if length a \<noteq> length b then False
      else foldl (\<lambda>diff (x, y). diff OR (u8_of x XOR u8_of y)) 0 (zip a b) = 0)"

lemma u8_of_inject [simp]: "u8_of a = u8_of b \<longleftrightarrow> a = b"
proof
  assume "u8_of a = u8_of b"
  then have "unat (u8_of a) = unat (u8_of b)" by simp
  moreover have "unat (u8_of ch) = byte ch" for ch
    using byte_less_256 [of ch] by (simp add: u8_of_def unat_of_nat)
  ultimately show "a = b" by simp
qed simp

lemma word_or_zero_conv: "(a OR b = 0) \<longleftrightarrow> a = 0 \<and> b = (0 :: u8)"
  by (auto simp: bit_eq_iff bit_or_iff)

lemma word_xor_zero_conv: "a XOR b = 0 \<longleftrightarrow> a = (b :: u8)"
  by (auto simp: bit_eq_iff bit_xor_iff)

lemma fold_diff_zero:
  "foldl (\<lambda>diff (x, y). diff OR (u8_of x XOR u8_of y)) d zs = 0 \<longleftrightarrow>
     d = 0 \<and> list_all (\<lambda>(x, y). x = y) zs"
proof (induction zs arbitrary: d)
  case (Cons z zs)
  obtain x y where z: "z = (x, y)" by (cases z)
  have "d OR (u8_of x XOR u8_of y) = 0 \<longleftrightarrow> d = 0 \<and> x = y"
    by (metis word_or_zero_conv word_xor_zero_conv u8_of_inject)
  with Cons [of "d OR (u8_of x XOR u8_of y)"] show ?case
    by (simp only: z foldl_Cons list.pred_inject prod.case) blast
qed simp

lemma constant_time_eq_simp: "constant_time_eq a b = (a = b)"
proof -
  have "length a = length b \<Longrightarrow> list_all (\<lambda>(x, y). x = y) (zip a b) \<longleftrightarrow> a = b"
    by (induction a b rule: list_induct2) auto
  then show ?thesis by (auto simp: constant_time_eq_def fold_diff_zero)
qed

lemma verify_signature_iff:
  "verify_signature c pk sg n h g \<longleftrightarrow>
     (\<exists>kb sb. b64_decode c pk = Some kb \<and> length kb = 32 \<and> vk_from_bytes_ok c kb \<and>
              b64_decode c sg = Some sb \<and> length sb = 64 \<and>
              verify_strict c kb (build_challenge_payload n h g) sb)"
  by (auto simp: verify_signature_def split: option.splits)

end
