(* ===== verification/Tokens.thy ===== *)
theory Tokens
  imports AgentCrypto ExpiringStore
begin

text \<open>
  Bootstrap tokens (\<open>BootstrapToken\<close> and \<open>BootstrapRegistry\<close> of \<open>gateway/src/agent_auth.rs\<close>):
  secrets an administrator hands to new agents. Only the digest of a token is kept; presenting
  the value consumes one use. The theorems follow the whole life of a token: how often, for
  which host and until when it is accepted.
\<close>

record boot_token =
  bt_id :: string
  bt_value_digest :: string
  bt_single_use :: bool
  bt_use_count :: u32
  bt_max_uses :: "u32 option"
  bt_expires_at :: instant
  bt_bound_hostname :: "string option"
  bt_re_enroll :: bool

type_synonym token_registry = "(string, boot_token) hmap"

definition token_is_expired :: "instant \<Rightarrow> boot_token \<Rightarrow> bool" where
  "token_is_expired now t \<longleftrightarrow> now > bt_expires_at t"

definition token_is_exhausted :: "boot_token \<Rightarrow> bool" where
  "token_is_exhausted t \<longleftrightarrow>
     (if bt_single_use t \<and> bt_use_count t > 0 then True
      else (case bt_max_uses t of Some mx \<Rightarrow> bt_use_count t \<ge> mx | None \<Rightarrow> False))"

definition token_is_valid_for :: "instant \<Rightarrow> boot_token \<Rightarrow> string \<Rightarrow> bool" where
  "token_is_valid_for now t hostname \<longleftrightarrow>
     (if token_is_expired now t \<or> token_is_exhausted t then False
      else (case bt_bound_hostname t of Some bound \<Rightarrow> bound = hostname | None \<Rightarrow> True))"

text \<open>\<open>create\<close>, on a fresh uuid and the base64 of 32 random bytes.\<close>

definition new_token ::
  "crypto \<Rightarrow> instant \<Rightarrow> string \<Rightarrow> string \<Rightarrow> nat \<Rightarrow> bool \<Rightarrow> u32 option \<Rightarrow> string option \<Rightarrow> bool
   \<Rightarrow> boot_token" where
  "new_token c now uuid value ttl single mx bound re =
     \<lparr>bt_id = uuid, bt_value_digest = token_digest c value, bt_single_use = single,
      bt_use_count = 0, bt_max_uses = mx, bt_expires_at = now + ttl,
      bt_bound_hostname = bound, bt_re_enroll = re\<rparr>"

definition token_create ::
  "crypto \<Rightarrow> token_registry \<Rightarrow> instant \<Rightarrow> string \<Rightarrow> string \<Rightarrow> nat \<Rightarrow> bool \<Rightarrow> u32 option
   \<Rightarrow> string option \<Rightarrow> bool \<Rightarrow> (string \<times> string) \<times> token_registry" where
  "token_create c reg now uuid value ttl single mx bound re =
     ((uuid, value), hm_put uuid (new_token c now uuid value ttl single mx bound re) reg)"

definition token_used :: "boot_token \<Rightarrow> boot_token" where
  "token_used t = t\<lparr>bt_use_count := bt_use_count t + 1\<rparr>"

definition presented_token :: "crypto \<Rightarrow> token_registry \<Rightarrow> string \<Rightarrow> (string \<times> boot_token) option" where
  "presented_token c reg value =
     List.find (\<lambda>(k, t). constant_time_eq (bt_value_digest t) (token_digest c value)) reg"

definition validate_and_consume ::
  "crypto \<Rightarrow> token_registry \<Rightarrow> instant \<Rightarrow> string \<Rightarrow> string \<Rightarrow> bool option \<times> token_registry" where
  "validate_and_consume c reg now value hostname =
     (case presented_token c reg value of
        None \<Rightarrow> (None, reg)
      | Some (k, t) \<Rightarrow>
          if \<not> token_is_valid_for now t hostname then (None, reg)
          else (let t' = token_used t;
                    reg' = hm_put k t' reg
                in (Some (bt_re_enroll t),
                    if token_is_exhausted t' then hm_del (bt_id t') reg' else reg')))"

definition token_revoke :: "token_registry \<Rightarrow> string \<Rightarrow> bool \<times> token_registry" where
  "token_revoke reg i = (hm_has reg i, hm_del i reg)"

definition token_cleanup :: "token_registry \<Rightarrow> instant \<Rightarrow> token_registry" where
  "token_cleanup reg now = sweep (\<lambda>now t. \<not> token_is_expired now t) now reg"

definition token_json :: "instant \<Rightarrow> boot_token \<Rightarrow> json" where
  "token_json now t = JObj
     [(''id'', JStr (bt_id t)),
      (''single_use'', JBool (bt_single_use t)),
      (''use_count'', JInt (uint (bt_use_count t))),
      (''max_uses'', jopt_nat (map_option unat (bt_max_uses t))),
      (''expires_in_secs'', JInt (int (as_secs (bt_expires_at t - now)))),
      (''bound_hostname'', jopt_str (bt_bound_hostname t)),
      (''re_enroll'', JBool (bt_re_enroll t)),
      (''expired'', JBool (token_is_expired now t)),
      (''exhausted'', JBool (token_is_exhausted t))]"

definition token_list :: "token_registry \<Rightarrow> instant \<Rightarrow> json list" where
  "token_list reg now = map (token_json now) (hm_vals reg)"

interpretation tok: expiring "\<lambda>now t. \<not> token_is_expired now t"
  by unfold_locales (simp add: token_is_expired_def)

section \<open>Runs of the registry\<close>

text \<open>The log of a run: each token as it was created, and each accepted use.\<close>

datatype token_event = Created boot_token | Used string string instant bool

definition uses :: "string \<Rightarrow> token_event list \<Rightarrow> nat" where
  "uses i log = length (filter (\<lambda>e. case e of Used j _ _ _ \<Rightarrow> j = i | Created _ \<Rightarrow> False) log)"

lemma uses_simps [simp]:
  "uses i [] = 0" "uses i (Created t # log) = uses i log"
  "uses i (Used j h now re # log) = (if j = i then Suc (uses i log) else uses i log)"
  by (simp_all add: uses_def)

text \<open>Uuids of created tokens are fresh (version 4 uuids do not repeat).\<close>

inductive tok_reach :: "crypto \<Rightarrow> token_registry \<Rightarrow> token_event list \<Rightarrow> bool" for c where
  start: "tok_reach c [] []"
| create: "tok_reach c reg log \<Longrightarrow> \<forall>t. Created t \<in> set log \<longrightarrow> bt_id t \<noteq> uuid \<Longrightarrow>
    tok_reach c (snd (token_create c reg now uuid value ttl single mx bound re))
      (Created (new_token c now uuid value ttl single mx bound re) # log)"
| accept: "tok_reach c reg log \<Longrightarrow> presented_token c reg value = Some (k, t) \<Longrightarrow>
    validate_and_consume c reg now value hostname = (Some re, reg') \<Longrightarrow>
    tok_reach c reg' (Used (bt_id t) hostname now re # log)"
| reject: "tok_reach c reg log \<Longrightarrow> validate_and_consume c reg now value hostname = (None, reg') \<Longrightarrow>
    tok_reach c reg' log"
| revoke: "tok_reach c reg log \<Longrightarrow> tok_reach c (snd (token_revoke reg i)) log"
| cleanup: "tok_reach c reg log \<Longrightarrow> tok_reach c (token_cleanup reg now) log"


definition within_limits :: "boot_token \<Rightarrow> nat \<Rightarrow> bool" where
  "within_limits t n \<longleftrightarrow>
     (bt_single_use t \<longrightarrow> n \<le> 1) \<and> (\<forall>m. bt_max_uses t = Some m \<longrightarrow> n \<le> unat m)"

definition use_allowed :: "boot_token \<Rightarrow> string \<Rightarrow> instant \<Rightarrow> bool \<Rightarrow> bool" where
  "use_allowed t h now re \<longleftrightarrow>
     now \<le> bt_expires_at t \<and> (\<forall>b. bt_bound_hostname t = Some b \<longrightarrow> h = b) \<and> re = bt_re_enroll t"

text \<open>A token in the registry is a created one with its counter advanced; the counter is exact
  for every token that has a limit.\<close>

definition token_row :: "token_event list \<Rightarrow> string \<Rightarrow> boot_token \<Rightarrow> bool" where
  "token_row log k t \<longleftrightarrow>
     bt_id t = k \<and> (\<exists>t0. Created t0 \<in> set log \<and> t = t0\<lparr>bt_use_count := bt_use_count t\<rparr>) \<and>
     (bt_single_use t \<or> bt_max_uses t \<noteq> None \<longrightarrow> unat (bt_use_count t) = uses k log)"

definition log_ok :: "token_event list \<Rightarrow> bool" where
  "log_ok log \<longleftrightarrow>
     (\<forall>t t'. Created t \<in> set log \<longrightarrow> Created t' \<in> set log \<longrightarrow> bt_id t = bt_id t' \<longrightarrow> t = t') \<and>
     (\<forall>i h now re. Used i h now re \<in> set log \<longrightarrow>
        (\<exists>t. Created t \<in> set log \<and> bt_id t = i \<and> use_allowed t h now re)) \<and>
     (\<forall>t. Created t \<in> set log \<longrightarrow> within_limits t (uses (bt_id t) log))"

definition tok_inv :: "token_registry \<Rightarrow> token_event list \<Rightarrow> bool" where
  "tok_inv reg log \<longleftrightarrow> hm_wf reg \<and> (\<forall>(k, t) \<in> set reg. token_row log k t) \<and> log_ok log"

lemma uses_zero: "log_ok log \<Longrightarrow> \<forall>t. Created t \<in> set log \<longrightarrow> bt_id t \<noteq> i \<Longrightarrow> uses i log = 0"
  by (force simp: uses_def log_ok_def filter_empty_conv split: token_event.splits)

lemma not_exhausted_count:
  assumes "\<not> token_is_exhausted t" and "bt_single_use t \<or> bt_max_uses t \<noteq> None"
  shows "unat (bt_use_count t + 1) = Suc (unat (bt_use_count t))"
    and "within_limits t (Suc (unat (bt_use_count t)))"
proof -
  have "bt_use_count t \<noteq> - 1"
    using assms by (cases "bt_max_uses t")
      (auto simp: token_is_exhausted_def not_le word_gt_0 split: if_splits)
  then show "unat (bt_use_count t + 1) = Suc (unat (bt_use_count t))"
    by (metis add.commute eq_neg_iff_add_eq_0 unatSuc)
  show "within_limits t (Suc (unat (bt_use_count t)))"
    using assms by (auto simp: token_is_exhausted_def within_limits_def not_le word_less_nat_alt
        Suc_le_eq word_neq_0_conv split: if_splits)
qed

lemma validate_None: "validate_and_consume c reg now v h = (None, reg') \<Longrightarrow> reg' = reg"
  by (auto simp: validate_and_consume_def Let_def split: option.splits prod.splits if_splits)

lemma validate_Some:
  assumes "validate_and_consume c reg now v h = (Some re, reg')"
    and "presented_token c reg v = Some (k, t)"
  shows "token_is_valid_for now t h \<and> re = bt_re_enroll t \<and> (k, t) \<in> set reg \<and>
    bt_value_digest t = token_digest c v \<and>
    set reg' \<subseteq> set (hm_put k (token_used t) reg) \<and> (hm_wf reg \<longrightarrow> hm_wf reg')"
  using assms find_Some_set [OF assms(2) [unfolded presented_token_def]]
  by (auto simp: validate_and_consume_def Let_def constant_time_eq_simp set_hm_del hm_wf_put hm_wf_del
      split: if_splits)

lemma set_hm_put: "hm_wf m \<Longrightarrow> x \<in> set (hm_put k v m) \<longleftrightarrow> x = (k, v) \<or> (x \<in> set m \<and> fst x \<noteq> k)"
proof -
  assume wf: "hm_wf m"
  obtain a b where x: "x = (a, b)" by (cases x)
  show ?thesis
    using hm_get_in_set [OF hm_wf_put [OF wf], of k v a b] hm_get_in_set [OF wf, of a b]
    by (auto simp: x split: if_splits)
qed

lemma token_row_other:
  "token_row log k t \<Longrightarrow> j \<noteq> k \<Longrightarrow> token_row (Used j h now re # log) k t"
  by (auto simp: token_row_def)

lemma token_used_sel [simp]:
  "bt_id (token_used t) = bt_id t" "bt_single_use (token_used t) = bt_single_use t"
  "bt_max_uses (token_used t) = bt_max_uses t"
  "bt_use_count (token_used t) = bt_use_count t + 1"
  by (simp_all add: token_used_def)

lemma tok_inv_accept:
  assumes inv: "tok_inv reg log" and mem: "(k, t) \<in> set reg"
    and valid: "token_is_valid_for now t h"
    and sub: "set reg' \<subseteq> set (hm_put k (token_used t) reg)" and wf': "hm_wf reg'"
  shows "tok_inv reg' (Used (bt_id t) h now (bt_re_enroll t) # log)" (is "tok_inv reg' ?log")
proof -
  from inv have wf: "hm_wf reg" and rows: "\<And>k t. (k, t) \<in> set reg \<Longrightarrow> token_row log k t"
    and ok: "log_ok log" by (auto simp: tok_inv_def)
  from rows [OF mem] obtain t0 where k: "bt_id t = k" and t0: "Created t0 \<in> set log"
    and eq: "t = t0\<lparr>bt_use_count := bt_use_count t\<rparr>"
    and cnt: "bt_single_use t \<or> bt_max_uses t \<noteq> None \<Longrightarrow> unat (bt_use_count t) = uses k log"
    by (auto simp: token_row_def)
  have fields: "bt_id t0 = k" "bt_single_use t0 = bt_single_use t" "bt_max_uses t0 = bt_max_uses t"
    "bt_expires_at t0 = bt_expires_at t" "bt_bound_hostname t0 = bt_bound_hostname t"
    "bt_re_enroll t0 = bt_re_enroll t"
    using k arg_cong [OF eq, of bt_id] arg_cong [OF eq, of bt_single_use]
      arg_cong [OF eq, of bt_max_uses] arg_cong [OF eq, of bt_expires_at]
      arg_cong [OF eq, of bt_bound_hostname] arg_cong [OF eq, of bt_re_enroll] by simp_all
  have nex: "\<not> token_is_exhausted t" and allowed: "use_allowed t0 h now (bt_re_enroll t)"
    using valid fields by (auto simp: token_is_valid_for_def token_is_expired_def use_allowed_def
        split: if_splits option.splits)
  have lim: "within_limits t0 (Suc (uses k log))"
    using not_exhausted_count(2) [OF nex] cnt fields by (auto simp: within_limits_def)
  have row: "token_row ?log k (token_used t)"
    unfolding token_row_def
  proof (intro conjI impI exI)
    show "bt_id (token_used t) = k" using k by simp
    show "Created t0 \<in> set ?log" using t0 by simp
    show "token_used t = t0\<lparr>bt_use_count := bt_use_count (token_used t)\<rparr>"
      by (subst (1 2) eq) (simp add: token_used_def)
    show "unat (bt_use_count (token_used t)) = uses k ?log"
      if "bt_single_use (token_used t) \<or> bt_max_uses (token_used t) \<noteq> None"
      using that cnt k not_exhausted_count(1) [OF nex] by simp
  qed
  have "token_row ?log a b" if "(a, b) \<in> set reg'" for a b
  proof -
    from that sub have "(a, b) \<in> set (hm_put k (token_used t) reg)" by blast
    then show ?thesis
      using row rows token_row_other [of log a b k] by (auto simp: set_hm_put [OF wf] k)
  qed
  moreover have "log_ok ?log"
    unfolding log_ok_def
  proof (intro conjI allI impI)
    fix a b assume "Created a \<in> set ?log" "Created b \<in> set ?log" "bt_id a = bt_id b"
    then show "a = b" using ok by (simp add: log_ok_def)
  next
    fix i h' now' re' assume "Used i h' now' re' \<in> set ?log"
    then show "\<exists>a. Created a \<in> set ?log \<and> bt_id a = i \<and> use_allowed a h' now' re'"
      using ok t0 allowed k fields(1) by (auto simp: log_ok_def)
  next
    fix a assume a: "Created a \<in> set ?log"
    then show "within_limits a (uses (bt_id a) ?log)"
      using ok t0 lim k fields(1) by (cases "bt_id a = k") (auto simp: log_ok_def)
  qed
  ultimately show ?thesis using wf' by (auto simp: tok_inv_def)
qed

lemma tok_inv_subset:
  "tok_inv reg log \<Longrightarrow> set reg' \<subseteq> set reg \<Longrightarrow> hm_wf reg' \<Longrightarrow> tok_inv reg' log"
  by (auto simp: tok_inv_def)

lemma new_token_sel [simp]:
  "bt_id (new_token c now uuid value ttl single mx bound re) = uuid"
  "bt_use_count (new_token c now uuid value ttl single mx bound re) = 0"
  by (simp_all add: new_token_def)

lemma token_row_create:
  "token_row log k t \<Longrightarrow> token_row (Created t' # log) k t"
  by (auto simp: token_row_def)

lemma tok_inv_create:
  assumes inv: "tok_inv reg log" and fresh: "\<forall>t. Created t \<in> set log \<longrightarrow> bt_id t \<noteq> uuid"
    and t: "bt_id t = uuid" "bt_use_count t = 0"
  shows "tok_inv (hm_put uuid t reg) (Created t # log)"
proof -
  from inv have wf: "hm_wf reg" and rows: "\<And>k t. (k, t) \<in> set reg \<Longrightarrow> token_row log k t"
    and ok: "log_ok log" by (auto simp: tok_inv_def)
  have z: "uses uuid log = 0" by (rule uses_zero [OF ok fresh])
  have "token_row (Created t # log) uuid t"
    using t z unfolding token_row_def by (intro conjI exI [of _ t]) simp_all
  moreover have "log_ok (Created t # log)"
    unfolding log_ok_def
  proof (intro conjI allI impI)
    fix a b assume "Created a \<in> set (Created t # log)" "Created b \<in> set (Created t # log)" "bt_id a = bt_id b"
    then show "a = b" using ok fresh t by (auto simp: log_ok_def)
  next
    fix i h' now' re' assume "Used i h' now' re' \<in> set (Created t # log)"
    then show "\<exists>a. Created a \<in> set (Created t # log) \<and> bt_id a = i \<and> use_allowed a h' now' re'"
      using ok by (simp add: log_ok_def) blast
  next
    fix a assume "Created a \<in> set (Created t # log)"
    then show "within_limits a (uses (bt_id a) (Created t # log))"
      using ok t z by (auto simp: log_ok_def within_limits_def)
  qed
  ultimately show ?thesis
    using rows by (auto simp: tok_inv_def set_hm_put [OF wf] hm_wf_put [OF wf] token_row_create)
qed

lemma tok_reach_inv: "tok_reach c reg log \<Longrightarrow> tok_inv reg log"
proof (induction rule: tok_reach.induct)
  case start
  show ?case by (simp add: tok_inv_def log_ok_def)
next
  case (create reg log uuid now v ttl single mx bound re)
  then show ?case by (simp add: token_create_def tok_inv_create)
next
  case (accept reg log v k t now hostname re reg')
  from validate_Some [OF accept(3,2)] have V: "token_is_valid_for now t hostname"
    "re = bt_re_enroll t" "(k, t) \<in> set reg" "set reg' \<subseteq> set (hm_put k (token_used t) reg)"
    "hm_wf reg'"
    using accept.IH by (auto simp: tok_inv_def)
  show ?case using tok_inv_accept [OF accept.IH V(3,1,4,5)] V(2) by simp
next
  case (reject reg log v now hostname reg')
  then show ?case by (simp add: validate_None [OF reject(2)])
next
  case (revoke reg log i)
  then show ?case
    by (auto simp: token_revoke_def set_hm_del intro!: tok_inv_subset hm_wf_del simp: tok_inv_def)
next
  case (cleanup reg log now)
  then show ?case
    by (auto simp: token_cleanup_def sweep_def hm_retain_def tok_inv_def
        intro!: hm_wf_retain [unfolded hm_retain_def])
qed

text \<open>
  C7. A bootstrap token is worth what its creator allowed, whatever the gateway did since:
  a single-use token is accepted once, a token with a maximum at most that often (its 32-bit
  counter never wraps), each time before its expiry and from the host it is bound to, and the
  answer is always the re-enrolment flag it was created with.
\<close>

theorem token_policy_enforced:
  assumes "tok_reach c reg log" and "Created t \<in> set log"
  shows "within_limits t (uses (bt_id t) log) \<and>
    (\<forall>h now re. Used (bt_id t) h now re \<in> set log \<longrightarrow> use_allowed t h now re)"
  using tok_reach_inv [OF assms(1)] assms(2) unfolding tok_inv_def log_ok_def by metis

definition toy_crypto :: crypto where
  "toy_crypto =
     \<lparr>b64_decode = Some, b64_encode = (\<lambda>s. s), b64_encode_nopad = (\<lambda>s. s), sha256 = (\<lambda>s. s),
      vk_from_bytes_ok = (\<lambda>k. True), verify_strict = (\<lambda>k p s. s = take 64 (p @ replicate 64 NUL))\<rparr>"

definition demo_token :: boot_token where
  "demo_token = new_token toy_crypto 0 ''id1'' ''secret'' (secs 60) True None (Some ''srv01'') False"

lemmas token_eval = demo_token_def new_token_def token_create_def validate_and_consume_def
  presented_token_def constant_time_eq_simp token_digest_def toy_crypto_def token_is_valid_for_def
  token_is_expired_def token_is_exhausted_def token_used_def secs_def NANOS_def Let_def

lemma demo_token_run:
  "tok_reach toy_crypto [] [Used ''id1'' ''srv01'' 5 False, Created demo_token]"
proof -
  have c: "tok_reach toy_crypto [(''id1'', demo_token)] [Created demo_token]"
    using tok_reach.create [OF tok_reach.start, of "''id1''" toy_crypto 0 "''secret''" "secs 60" True
        None "Some ''srv01''" False]
    by (simp add: demo_token_def token_create_def)
  have p: "presented_token toy_crypto [(''id1'', demo_token)] ''secret'' = Some (''id1'', demo_token)"
    by (simp add: token_eval)
  have v: "validate_and_consume toy_crypto [(''id1'', demo_token)] 5 ''secret'' ''srv01'' = (Some False, [])"
    by (simp add: token_eval)
  have "bt_id demo_token = ''id1''" by (simp add: demo_token_def)
  with tok_reach.accept [OF c p v] show ?thesis by simp
qed

theorem token_policy_enforced_witness:
  "within_limits demo_token 1 \<and> use_allowed demo_token ''srv01'' 5 False"
proof -
  have "bt_id demo_token = ''id1''" by (simp add: demo_token_def)
  with token_policy_enforced [OF demo_token_run, of demo_token] show ?thesis by fastforce
qed

lemma fresh_token_accepted':
  assumes "hm_get reg uuid = None"
    and "\<forall>t \<in> set (hm_vals reg). bt_value_digest t \<noteq> token_digest c v"
    and "mx \<noteq> Some 0" and "now' \<le> now + ttl" and "\<forall>b. bound = Some b \<longrightarrow> h = b"
  shows "fst (validate_and_consume c (snd (token_create c reg now uuid v ttl single mx bound re)) now' v h)
    = Some re"
proof -
  let ?t = "new_token c now uuid v ttl single mx bound re"
  have none: "List.find (\<lambda>(k, t). bt_value_digest t = token_digest c v) reg = None"
    using assms(2) by (auto simp: find_None_iff hm_vals_def)
  have dig: "bt_value_digest ?t = token_digest c v" by (simp add: new_token_def)
  have app: "List.find p (xs @ [y]) =
      (case List.find p xs of Some x \<Rightarrow> Some x | None \<Rightarrow> if p y then Some y else None)"
    for p and xs :: "(string \<times> boot_token) list" and y by (induction xs) auto
  have "presented_token c (reg @ [(uuid, ?t)]) v = Some (uuid, ?t)"
    by (simp add: presented_token_def constant_time_eq_simp app none dig)
  moreover have "token_is_valid_for now' ?t h"
    using assms(3-5) by (auto simp: token_is_valid_for_def token_is_expired_def
        token_is_exhausted_def new_token_def word_gt_0 split: option.splits)
  moreover have "bt_re_enroll ?t = re" by (simp add: new_token_def)
  ultimately show ?thesis
    by (simp add: validate_and_consume_def token_create_def hm_put_absent_append [OF assms(1)] Let_def)
qed

text \<open>
  A token works: right after its creation its value is accepted for every host the
  creator allowed until it expires, with the flag it was created with, provided no older token
  has the same digest and it allows at least one use.
\<close>

theorem fresh_token_accepted:
  assumes "hm_get reg uuid = None"
    and "\<forall>t \<in> set (hm_vals reg). bt_value_digest t \<noteq> token_digest c v"
    and "mx \<noteq> Some 0" and "now' \<le> now + ttl" and "\<forall>b. bound = Some b \<longrightarrow> h = b"
  shows "fst (validate_and_consume c (snd (token_create c reg now uuid v ttl single mx bound re)) now' v h)
    = Some re"
  using assms by (rule fresh_token_accepted')

theorem fresh_token_accepted_witness:
  "fst (validate_and_consume toy_crypto
      (snd (token_create toy_crypto [] 0 ''id1'' ''secret'' 60 True None (Some ''srv01'') True)) 5
      ''secret'' ''srv01'') = Some True"
  by (rule fresh_token_accepted) (simp_all add: hm_vals_def)

end
