(* ===== verification/PendingQueue.thy ===== *)
theory PendingQueue
  imports AgentCrypto HostsConfig
begin

text \<open>
  The queue of agents that wait for an administrator (\<open>PendingRegistry\<close> of
  \<open>gateway/src/agent_auth.rs\<close>), keyed by public key. \<open>pe_waiter\<close> is the number of the connection
  that holds the receiving end of the entry's one-shot channel. Which receivers are still
  there when an approval is sent is an argument.
\<close>

definition MAX_PENDING :: nat where "MAX_PENDING = 100"

definition MAX_PENDING_PER_IP :: nat where "MAX_PENDING_PER_IP = 5"

record pending_entry =
  pe_hostname :: string
  pe_pubkey :: string
  pe_fingerprint_hex :: string
  pe_fingerprint_display :: string
  pe_remote_ip :: string
  pe_connected_at :: instant
  pe_os_id :: "string option"
  pe_waiter :: "nat option"

type_synonym pending_registry = "(string, pending_entry) hmap"

definition from_ip :: "string \<Rightarrow> pending_registry \<Rightarrow> nat" where
  "from_ip ip reg = length (filter (\<lambda>e. pe_remote_ip e = ip) (hm_vals reg))"

definition new_pending ::
  "crypto \<Rightarrow> instant \<Rightarrow> string \<Rightarrow> string \<Rightarrow> string \<Rightarrow> string option \<Rightarrow> nat \<Rightarrow> pending_entry" where
  "new_pending c now pk hostname ip os tx =
     \<lparr>pe_hostname = hostname, pe_pubkey = pk,
      pe_fingerprint_hex = pubkey_fingerprint_hex c pk,
      pe_fingerprint_display = pubkey_fingerprint_display c pk,
      pe_remote_ip = ip, pe_connected_at = now, pe_os_id = os, pe_waiter = Some tx\<rparr>"

definition pending_insert ::
  "crypto \<Rightarrow> pending_registry \<Rightarrow> instant \<Rightarrow> string \<Rightarrow> string \<Rightarrow> string \<Rightarrow> string option \<Rightarrow> nat
   \<Rightarrow> bool \<times> pending_registry" where
  "pending_insert c reg now pk hostname ip os tx =
     (let is_new = \<not> hm_has reg pk
      in if length reg \<ge> MAX_PENDING \<and> is_new then (False, reg)
         else if is_new \<and> from_ip ip reg \<ge> MAX_PENDING_PER_IP then (False, reg)
         else (True, hm_put pk (new_pending c now pk hostname ip os tx) reg))"

definition pending_remove :: "pending_registry \<Rightarrow> string \<Rightarrow> pending_registry" where
  "pending_remove reg pk = hm_del pk reg"

definition by_fingerprint :: "pending_registry \<Rightarrow> string \<Rightarrow> pending_entry option" where
  "by_fingerprint reg fp = List.find (\<lambda>e. pe_fingerprint_hex e = fp) (hm_vals reg)"

text \<open>\<open>approve\<close>: the answer, the queue, and what was sent to which waiting connection.\<close>

definition pending_approve ::
  "(nat \<Rightarrow> bool) \<Rightarrow> pending_registry \<Rightarrow> string \<Rightarrow> host_entry
   \<Rightarrow> bool \<times> pending_registry \<times> (nat \<times> host_entry) option" where
  "pending_approve alive reg fp host =
     (case map_option pe_pubkey (by_fingerprint reg fp) of
        None \<Rightarrow> (False, reg, None)
      | Some key \<Rightarrow>
          (case hm_get reg key of
             None \<Rightarrow> (False, hm_del key reg, None)
           | Some e \<Rightarrow>
               (case pe_waiter e of
                  None \<Rightarrow> (False, hm_del key reg, None)
                | Some tx \<Rightarrow>
                    (alive tx, hm_del key reg, if alive tx then Some (tx, host) else None))))"

definition pending_json :: "instant \<Rightarrow> pending_entry \<Rightarrow> json" where
  "pending_json now e = JObj
     [(''hostname'', JStr (pe_hostname e)), (''fingerprint'', JStr (pe_fingerprint_display e)),
      (''fingerprint_hex'', JStr (pe_fingerprint_hex e)), (''remote_ip'', JStr (pe_remote_ip e)),
      (''waiting_secs'', JInt (int (elapsed_secs now (pe_connected_at e))))]"

definition pending_list :: "pending_registry \<Rightarrow> instant \<Rightarrow> json list" where
  "pending_list reg now = map (pending_json now) (hm_vals reg)"

definition hostname_for_fingerprint :: "pending_registry \<Rightarrow> string \<Rightarrow> string option" where
  "hostname_for_fingerprint reg fp = map_option pe_hostname (by_fingerprint reg fp)"

definition pubkey_for_fingerprint :: "pending_registry \<Rightarrow> string \<Rightarrow> string option" where
  "pubkey_for_fingerprint reg fp = map_option pe_pubkey (by_fingerprint reg fp)"

definition entry_for_fingerprint ::
  "pending_registry \<Rightarrow> string \<Rightarrow> (string \<times> string \<times> string \<times> string option) option" where
  "entry_for_fingerprint reg fp =
     map_option (\<lambda>e. (pe_pubkey e, pe_hostname e, pe_remote_ip e, pe_os_id e)) (by_fingerprint reg fp)"

section \<open>Runs of the queue\<close>

datatype pend_op =
    PInsert instant string string string "string option" nat
  | PRemove string
  | PApprove string host_entry

fun pend_step :: "crypto \<Rightarrow> (nat \<Rightarrow> bool) \<Rightarrow> pending_registry \<Rightarrow> pend_op \<Rightarrow> pending_registry" where
  "pend_step c alive reg (PInsert now pk hn ip os tx) = snd (pending_insert c reg now pk hn ip os tx)"
| "pend_step c alive reg (PRemove pk) = pending_remove reg pk"
| "pend_step c alive reg (PApprove fp host) = fst (snd (pending_approve alive reg fp host))"

definition pend_run :: "crypto \<Rightarrow> (nat \<Rightarrow> bool) \<Rightarrow> pend_op list \<Rightarrow> pending_registry" where
  "pend_run c alive ops = foldl (pend_step c alive) [] ops"

text \<open>An insertion that takes over an entry queued from another address.\<close>

definition takeover :: "pending_registry \<Rightarrow> pend_op \<Rightarrow> bool" where
  "takeover reg a \<longleftrightarrow>
     (case a of PInsert _ pk _ ip _ _ \<Rightarrow> (\<exists>e. hm_get reg pk = Some e \<and> pe_remote_ip e \<noteq> ip)
              | _ \<Rightarrow> False)"

fun takeover_free :: "crypto \<Rightarrow> (nat \<Rightarrow> bool) \<Rightarrow> pending_registry \<Rightarrow> pend_op list \<Rightarrow> bool" where
  "takeover_free c alive reg [] \<longleftrightarrow> True"
| "takeover_free c alive reg (a # as) \<longleftrightarrow>
     \<not> takeover reg a \<and> takeover_free c alive (pend_step c alive reg a) as"

definition pend_inv :: "crypto \<Rightarrow> pending_registry \<Rightarrow> bool" where
  "pend_inv c reg \<longleftrightarrow> hm_wf reg \<and> length reg \<le> MAX_PENDING \<and>
     (\<forall>(k, e) \<in> set reg. pe_pubkey e = k \<and> pe_fingerprint_hex e = pubkey_fingerprint_hex c k)"

lemma pending_approve_reg:
  "fst (snd (pending_approve alive reg fp host)) = reg \<or>
   (\<exists>k. fst (snd (pending_approve alive reg fp host)) = hm_del k reg)"
  by (auto simp: pending_approve_def split: option.splits)

lemma pend_inv_del: "pend_inv c reg \<Longrightarrow> pend_inv c (hm_del k reg)"
  using AList.length_delete_le [of k reg]
  by (auto simp: pend_inv_def hm_wf_del set_hm_del)

lemma set_hm_put_elim: "x \<in> set (hm_put k v m) \<Longrightarrow> x = (k, v) \<or> x \<in> set m"
  using set_hm_put_subset [of k v m] by blast

lemma length_hm_put:
  "length (hm_put k v m) = (if hm_has m k then length m else Suc (length m))"
  by (cases "hm_get m k") (simp_all add: hm_has_def hm_put_absent_append hm_put_present_length)

lemma pend_inv_step: "pend_inv c reg \<Longrightarrow> pend_inv c (pend_step c alive reg a)"
proof (cases a)
  case (PInsert now pk hn ip os tx)
  assume inv: "pend_inv c reg"
  then show ?thesis
    by (auto simp: PInsert pending_insert_def pend_inv_def hm_wf_put length_hm_put Let_def new_pending_def
        dest!: set_hm_put_elim)
next
  case (PApprove fp host)
  assume "pend_inv c reg"
  then show ?thesis
    using pending_approve_reg [of alive reg fp host] by (auto simp: PApprove pend_inv_del)
qed (simp add: pend_inv_del pending_remove_def)

lemma pend_inv_run: "pend_inv c reg \<Longrightarrow> pend_inv c (foldl (pend_step c alive) reg ops)"
  by (induction ops arbitrary: reg) (simp_all add: pend_inv_step)

lemma pend_inv_Nil: "pend_inv c []"
  by (simp add: pend_inv_def)

lemma pend_reach_inv: "pend_inv c (pend_run c alive ops)"
  by (simp add: pend_run_def pend_inv_run pend_inv_Nil)

section \<open>Bounds\<close>

lemma count_put_present:
  "hm_get m k = Some e \<Longrightarrow> p e = p v \<Longrightarrow>
    length (filter p (hm_vals (hm_put k v m))) = length (filter p (hm_vals m))"
  by (induction m) (auto simp: hm_vals_def split: if_splits)

lemma count_del: "length (filter p (hm_vals (hm_del k m))) \<le> length (filter p (hm_vals m))"
  by (induction m) (auto simp: hm_vals_def)

lemma from_ip_step:
  assumes "from_ip ip reg \<le> MAX_PENDING_PER_IP" and "\<not> takeover reg a"
  shows "from_ip ip (pend_step c alive reg a) \<le> MAX_PENDING_PER_IP"
proof (cases a)
  case (PInsert now pk hn ip' os tx)
  show ?thesis
  proof (cases "hm_get reg pk")
    case None
    have "from_ip ip (hm_put pk e reg) = from_ip ip reg + (if pe_remote_ip e = ip then 1 else 0)" for e
      unfolding from_ip_def by (rule length_filter_hm_put_absent [OF None])
    then show ?thesis
      using assms(1) None
      by (auto simp: PInsert pending_insert_def Let_def hm_has_def new_pending_def not_le)
  next
    case (Some e)
    then have "pe_remote_ip e = ip'" using assms(2) by (simp add: takeover_def PInsert)
    then have "from_ip ip (hm_put pk (new_pending c now pk hn ip' os tx) reg) = from_ip ip reg"
      unfolding from_ip_def by (intro count_put_present [OF Some]) (simp add: new_pending_def)
    then show ?thesis
      using assms(1) Some by (simp add: PInsert pending_insert_def Let_def hm_has_def)
  qed
next
  case (PRemove pk)
  then show ?thesis
    using assms(1) count_del [of "\<lambda>e. pe_remote_ip e = ip" pk reg]
    by (simp add: pending_remove_def from_ip_def)
next
  case (PApprove fp host)
  then show ?thesis
    using assms(1) pending_approve_reg [of alive reg fp host]
      order_trans [OF count_del [of "\<lambda>e. pe_remote_ip e = ip" _ reg]]
    by (auto simp: from_ip_def)
qed

lemma from_ip_run:
  "from_ip ip reg \<le> MAX_PENDING_PER_IP \<Longrightarrow> takeover_free c alive reg ops \<Longrightarrow>
    from_ip ip (foldl (pend_step c alive) reg ops) \<le> MAX_PENDING_PER_IP"
  by (induction ops arbitrary: reg) (simp_all add: from_ip_step)

text \<open>
  C17. The queue cannot be flooded: it never holds more than a hundred agents, and no address
  holds more than five of them, as long as no key queued from one address is queued again from
  another.
\<close>

theorem pending_queue_bounded:
  "length (pend_run c alive ops) \<le> MAX_PENDING \<and>
   (takeover_free c alive [] ops \<longrightarrow> from_ip ip (pend_run c alive ops) \<le> MAX_PENDING_PER_IP)"
  using pend_reach_inv [of c alive ops] from_ip_run [of ip "[]" c alive ops]
  by (simp add: pend_inv_def pend_run_def from_ip_def hm_vals_def)

definition six_keys :: "pend_op list" where
  "six_keys =
     [PInsert 0 ''k1'' ''h1'' ''10.0.0.1'' None 1, PInsert 0 ''k2'' ''h2'' ''10.0.0.1'' None 2,
      PInsert 0 ''k3'' ''h3'' ''10.0.0.1'' None 3, PInsert 0 ''k4'' ''h4'' ''10.0.0.1'' None 4,
      PInsert 0 ''k5'' ''h5'' ''10.0.0.1'' None 5, PInsert 0 ''k6'' ''h6'' ''10.0.0.2'' None 6,
      PInsert 1 ''k6'' ''h6'' ''10.0.0.1'' None 7]"

text \<open>
  The per-address cap is not an invariant: queueing a sixth key from a second address and
  then again from the first leaves six entries of one address, and the channel of the first
  waiter of that key is gone.
\<close>

theorem per_ip_cap_bypassed:
  "from_ip ''10.0.0.1'' (pend_run c alive six_keys) = Suc MAX_PENDING_PER_IP \<and>
   (\<forall>e \<in> set (hm_vals (pend_run c alive six_keys)). pe_waiter e \<noteq> Some 6)"
  by (simp add: pend_run_def six_keys_def pending_insert_def Let_def hm_has_def from_ip_def
      hm_vals_def MAX_PENDING_def MAX_PENDING_PER_IP_def new_pending_def)

section \<open>Approval\<close>

lemma by_fingerprint_get:
  assumes "pend_inv c reg" and "by_fingerprint reg fp = Some e"
  shows "hm_get reg (pe_pubkey e) = Some e \<and> pe_fingerprint_hex e = fp \<and>
    pubkey_fingerprint_hex c (pe_pubkey e) = fp"
  using assms find_Some_set [OF assms(2) [unfolded by_fingerprint_def]]
  by (auto simp: pend_inv_def hm_vals_def hm_get_in_set)

text \<open>
  An approval reaches the agent the administrator looked at: for a fingerprint the queue
  shows, the entry removed and the connection that receives the host are those of one key, the
  key has that fingerprint, and the answer is whether that connection was still waiting. An
  unknown fingerprint changes nothing.
\<close>

theorem approval_reaches_shown_agent:
  "let reg = pend_run c alive ops in
   case entry_for_fingerprint reg fp of
      None \<Rightarrow> pending_approve al reg fp host = (False, reg, None)
    | Some (pk, hn, ip, os) \<Rightarrow>
        pubkey_fingerprint_hex c pk = fp \<and> pubkey_for_fingerprint reg fp = Some pk \<and>
        hostname_for_fingerprint reg fp = Some hn \<and>
        (\<exists>e. hm_get reg pk = Some e \<and> pe_hostname e = hn \<and> pe_remote_ip e = ip \<and>
             pending_approve al reg fp host =
               (case pe_waiter e of
                  None \<Rightarrow> (False, hm_del pk reg, None)
                | Some tx \<Rightarrow> (al tx, hm_del pk reg, if al tx then Some (tx, host) else None)))"
proof -
  let ?reg = "pend_run c alive ops"
  show ?thesis
  proof (cases "by_fingerprint ?reg fp")
    case None
    then show ?thesis by (simp add: entry_for_fingerprint_def pending_approve_def)
  next
    case (Some e)
    from by_fingerprint_get [OF pend_reach_inv Some] Some show ?thesis
      by (simp add: entry_for_fingerprint_def pubkey_for_fingerprint_def hostname_for_fingerprint_def
          pending_approve_def)
  qed
qed

theorem pending_queue_bounded_witness:
  "\<forall>c. from_ip ''ip'' (pend_run c (\<lambda>_. True) [PInsert 0 ''k'' ''h'' ''ip'' None 9, PRemove ''k''])
     \<le> MAX_PENDING_PER_IP"
proof
  fix c
  have "takeover_free c (\<lambda>_. True) [] [PInsert 0 ''k'' ''h'' ''ip'' None 9, PRemove ''k'']"
    by (simp add: takeover_def)
  with pending_queue_bounded [of c "\<lambda>_. True" "[PInsert 0 ''k'' ''h'' ''ip'' None 9, PRemove ''k'']" "''ip''"]
  show "from_ip ''ip'' (pend_run c (\<lambda>_. True) [PInsert 0 ''k'' ''h'' ''ip'' None 9, PRemove ''k''])
     \<le> MAX_PENDING_PER_IP" by blast
qed

end
