(* ===== verification/Routing.thy ===== *)
theory Routing
  imports Protocol
begin

text \<open>
  Multiplexing several browser sessions over one agent connection
  (\<open>gateway/src/agent_registry.rs\<close>): the session prefix, adding it to a channel id on the way
  to the agent and taking it off on the way back. Slicing a Rust string can panic, which is a
  result of its own here.
\<close>

definition SESSION_PREFIX_LEN :: nat where
  "SESSION_PREFIX_LEN = 8"

definition session_prefix :: "string \<Rightarrow> string" where
  "session_prefix session_id =
     concat (take SESSION_PREFIX_LEN (filter (\<lambda>ch. ch \<noteq> ''-'') (chars_of session_id)))"

definition prefixed :: "string \<Rightarrow> string \<Rightarrow> string" where
  "prefixed prefix channel = prefix @ ''-'' @ channel"

fun prefix_message :: "message \<Rightarrow> string \<Rightarrow> message" where
  "prefix_message (Open ch options) p = Open (prefixed p ch) options"
| "prefix_message (Data ch data) p = Data (prefixed p ch) data"
| "prefix_message (Control ch command ex) p = Control (prefixed p ch) command ex"
| "prefix_message (Close ch problem) p = Close (prefixed p ch) problem"
| "prefix_message other p = other"

datatype strip_result = Panic | NoPrefix | Stripped message string

text \<open>The message with its channel replaced, as the second \<open>match\<close> rebuilds it.\<close>

fun with_channel :: "message \<Rightarrow> string \<Rightarrow> message" where
  "with_channel (Data _ data) ch = Data ch data"
| "with_channel (Control _ command ex) ch = Control ch command ex"
| "with_channel (Close _ problem) ch = Close ch problem"
| "with_channel (Ready _) ch = Ready ch"
| "with_channel other ch = other"

fun reply_channel :: "message \<Rightarrow> string option" where
  "reply_channel (Data ch _) = Some ch"
| "reply_channel (Control ch _ _) = Some ch"
| "reply_channel (Close ch _) = Some ch"
| "reply_channel (Ready ch) = Some ch"
| "reply_channel _ = None"

definition strip_prefix_from_message :: "message \<Rightarrow> strip_result" where
  "strip_prefix_from_message msg =
     (case reply_channel msg of
        None \<Rightarrow> NoPrefix
      | Some channel_str \<Rightarrow>
          if length channel_str \<le> SESSION_PREFIX_LEN + 1 then NoPrefix
          else (case str_slice channel_str 0 SESSION_PREFIX_LEN of
                  None \<Rightarrow> Panic
                | Some prefix \<Rightarrow>
                    if channel_str ! SESSION_PREFIX_LEN \<noteq> CHR ''-'' then NoPrefix
                    else (case str_slice channel_str (SESSION_PREFIX_LEN + 1) (length channel_str) of
                            None \<Rightarrow> Panic
                          | Some original \<Rightarrow>
                              if original = [] then NoPrefix
                              else Stripped (with_channel msg original) prefix)))"

lemma session_prefix_set: "set (session_prefix sid) \<subseteq> set sid"
proof -
  have "set (session_prefix sid) \<subseteq> set (concat (chars_of sid))"
    by (auto simp: session_prefix_def simp del: concat_chars_of dest!: in_set_takeD)
  then show ?thesis by simp
qed

lemma session_prefix_ascii:
  assumes "list_all is_ascii sid"
  shows "session_prefix sid = take SESSION_PREFIX_LEN (filter (\<lambda>c. c \<noteq> CHR ''-'') sid)"
proof -
  have f: "filter (\<lambda>ch. ch \<noteq> ''-'') (map (\<lambda>c. [c]) s) = map (\<lambda>c. [c]) (filter (\<lambda>c. c \<noteq> CHR ''-'') s)"
    for s :: string by (induction s) auto
  have c: "concat (map (\<lambda>c. [c]) s) = s" for s :: string by (induction s) auto
  show ?thesis
    by (simp only: session_prefix_def chars_of_ascii [OF assms] f take_map c)
qed

text \<open>A session id as the gateway generates them: a version 4 uuid in its text form.\<close>

definition is_lower_hex :: "char \<Rightarrow> bool" where
  "is_lower_hex c \<longleftrightarrow> is_ascii_digit c \<or> (97 \<le> byte c \<and> byte c \<le> 102)"

definition uuid_text :: "string \<Rightarrow> bool" where
  "uuid_text s \<longleftrightarrow> length s = 36 \<and>
     (\<forall>i < 36. if i \<in> {8, 13, 18, 23} then s ! i = CHR ''-'' else is_lower_hex (s ! i))"

lemma is_lower_hex_facts: "is_lower_hex c \<Longrightarrow> is_ascii c \<and> c \<noteq> CHR ''-'' \<and> channel_char c"
  by (auto simp: is_lower_hex_def is_ascii_def is_ascii_digit_def channel_char_def
      is_ascii_alphanumeric_def is_ascii_lower_def byte_def)

lemma uuid_prefix:
  assumes "uuid_text s"
  shows "session_prefix s = take 8 s" and "list_all is_lower_hex (take 8 s)"
proof -
  have len: "length s = 36" and chars: "\<And>i :: nat. i < 36 \<Longrightarrow>
      if i \<in> {8, 13, 18, 23} then s ! i = CHR ''-'' else is_lower_hex (s ! i)"
    using assms by (auto simp: uuid_text_def)
  have hex: "is_lower_hex (s ! i)" if "i < 8" for i using chars [of i] that by simp
  show lh: "list_all is_lower_hex (take 8 s)"
    using hex len by (auto simp: list_all_length)
  have asc: "list_all is_ascii s"
    unfolding list_all_length len
  proof (intro allI impI)
    fix i :: nat assume "i < 36"
    with chars [of i] show "is_ascii (s ! i)"
      by (auto simp: is_lower_hex_facts is_ascii_def byte_def split: if_splits dest: is_lower_hex_facts)
  qed
  have "filter (\<lambda>c. c \<noteq> CHR ''-'') (take 8 s) = take 8 s"
    using lh by (auto simp: filter_id_conv list_all_iff dest: is_lower_hex_facts)
  then have "filter (\<lambda>c. c \<noteq> CHR ''-'') s =
      take 8 s @ filter (\<lambda>c. c \<noteq> CHR ''-'') (drop 8 s)"
    by (metis append_take_drop_id filter_append)
  then show "session_prefix s = take 8 s"
    using len by (simp add: session_prefix_ascii [OF asc] SESSION_PREFIX_LEN_def)
qed

section \<open>Round trip and isolation\<close>

definition prefix_ok :: "string \<Rightarrow> bool" where
  "prefix_ok p \<longleftrightarrow> length p = SESSION_PREFIX_LEN \<and> list_all channel_char p"

lemma uuid_prefix_ok: "uuid_text s \<Longrightarrow> prefix_ok (session_prefix s)"
  using uuid_prefix [of s]
  by (auto simp: prefix_ok_def SESSION_PREFIX_LEN_def uuid_text_def list_all_iff is_lower_hex_facts)

lemma char_boundary_ascii: "list_all is_ascii s \<Longrightarrow> i \<le> length s \<Longrightarrow> char_boundary s i"
  by (auto simp: char_boundary_def list_all_length not_cont_ascii)

lemma str_slice_ascii:
  "list_all is_ascii s \<Longrightarrow> i \<le> j \<Longrightarrow> j \<le> length s \<Longrightarrow> str_slice s i j = Some (take (j - i) (drop i s))"
  by (simp add: str_slice_def char_boundary_ascii)

lemma channel_ok_ascii: "channel_ok ch \<Longrightarrow> list_all is_ascii ch"
  by (auto simp: channel_ok_iff list_all_iff channel_char_ascii)

lemma reply_channel_ok: "msg_wf m \<Longrightarrow> reply_channel m = Some ch \<Longrightarrow> channel_ok ch"
  by (cases m) (auto simp: msg_wf_def)

lemma with_channel_same: "reply_channel m = Some ch \<Longrightarrow> with_channel m ch = m"
  by (cases m) auto

text \<open>What stripping does to a message that was decoded from the wire.\<close>

lemma strip_cases:
  assumes "msg_wf m" and "reply_channel m = Some ch"
  shows "strip_prefix_from_message m =
    (if length ch > SESSION_PREFIX_LEN + 1 \<and> ch ! SESSION_PREFIX_LEN = CHR ''-''
     then Stripped (with_channel m (drop (SESSION_PREFIX_LEN + 1) ch)) (take SESSION_PREFIX_LEN ch)
     else NoPrefix)"
proof -
  have asc: "list_all is_ascii ch" by (rule channel_ok_ascii [OF reply_channel_ok [OF assms]])
  show ?thesis
    using assms(2) by (auto simp: strip_prefix_from_message_def str_slice_ascii [OF asc])
qed

lemma prefixed_split:
  assumes "length p = SESSION_PREFIX_LEN" and "ch \<noteq> []"
  shows "Suc SESSION_PREFIX_LEN < length (prefixed p ch)"
    "prefixed p ch ! SESSION_PREFIX_LEN = CHR ''-''"
    "drop (Suc SESSION_PREFIX_LEN) (prefixed p ch) = ch"
    "take SESSION_PREFIX_LEN (prefixed p ch) = p"
  using assms by (auto simp: prefixed_def nth_append)

lemma channel_ok_prefixed:
  "prefix_ok p \<Longrightarrow> channel_ok ch \<Longrightarrow> length ch \<le> MAX_CHANNEL_ID_LEN - (SESSION_PREFIX_LEN + 1)
     \<Longrightarrow> channel_ok (prefixed p ch)"
  by (auto simp: channel_ok_iff prefixed_def prefix_ok_def MAX_CHANNEL_ID_LEN_def
      SESSION_PREFIX_LEN_def channel_char_def)

lemma strip_roundtrip_wf:
  assumes "prefix_ok p" and "msg_wf m" and "reply_channel m = Some ch"
    and "length ch \<le> MAX_CHANNEL_ID_LEN - (SESSION_PREFIX_LEN + 1)"
  shows "decode_message (with_channel m (prefixed p ch)) = Some (with_channel m (prefixed p ch)) \<and>
    strip_prefix_from_message (with_channel m (prefixed p ch)) = Stripped m p"
proof -
  have ch: "channel_ok ch" by (rule reply_channel_ok [OF assms(2,3)])
  have pre: "channel_ok (prefixed p ch)" using assms ch by (simp add: channel_ok_prefixed)
  have "reply_channel (with_channel m (prefixed p ch)) = Some (prefixed p ch)"
    and wf: "msg_wf (with_channel m (prefixed p ch))"
    and "with_channel (with_channel m (prefixed p ch)) ch = m"
    using assms(3) pre by (cases m; simp add: msg_wf_def)+
  then have "strip_prefix_from_message (with_channel m (prefixed p ch)) = Stripped m p"
    using assms(1) ch by (simp add: strip_cases prefixed_split prefix_ok_def channel_ok_iff)
  moreover have "decode_message (with_channel m (prefixed p ch)) = Some (with_channel m (prefixed p ch))"
    using pre assms(3) by (cases m) (auto simp: decode_message_def channel_ok_def split: sum.splits)
  ultimately show ?thesis by simp
qed


text \<open>
  C10. Nothing an agent sends makes the gateway panic or reach a session it does not name: an
  answer is stripped only when its channel is the session's prefix, a dash and a non-empty
  channel, and everything else is dropped.
\<close>

theorem strip_isolates_sessions:
  assumes "decode_message w = Some m"
  shows "strip_prefix_from_message m \<noteq> Panic \<and>
    (\<forall>m' p. strip_prefix_from_message m = Stripped m' p \<longleftrightarrow>
       length p = SESSION_PREFIX_LEN \<and>
       (\<exists>ch. ch \<noteq> [] \<and> reply_channel m' = Some ch \<and> m = with_channel m' (prefixed p ch)))"
proof -
  have wf: "msg_wf m" using decode_message_wf [OF assms] by simp
  show ?thesis
  proof (cases "reply_channel m")
    case None
    then have "with_channel m' ch \<noteq> m" if "reply_channel m' = Some ch'" for m' ch ch'
      using that by (cases m'; cases m) auto
    with None show ?thesis by (auto simp: strip_prefix_from_message_def)
  next
    case (Some c)
    have S: "strip_prefix_from_message m = (if length c > SESSION_PREFIX_LEN + 1 \<and>
        c ! SESSION_PREFIX_LEN = CHR ''-''
       then Stripped (with_channel m (drop (SESSION_PREFIX_LEN + 1) c)) (take SESSION_PREFIX_LEN c)
       else NoPrefix)" by (rule strip_cases [OF wf Some])
    have fwd: "length p = SESSION_PREFIX_LEN \<and>
        (\<exists>ch. ch \<noteq> [] \<and> reply_channel m' = Some ch \<and> m = with_channel m' (prefixed p ch))"
      if "strip_prefix_from_message m = Stripped m' p" for m' p
    proof -
      let ?ch = "drop (SESSION_PREFIX_LEN + 1) c"
      from that S have l: "length c > SESSION_PREFIX_LEN + 1" and d: "c ! SESSION_PREFIX_LEN = CHR ''-''"
        and m': "m' = with_channel m ?ch" and p: "p = take SESSION_PREFIX_LEN c"
        by (auto split: if_splits)
      have "prefixed p ?ch = c"
        using l d id_take_nth_drop [of SESSION_PREFIX_LEN c] by (simp add: prefixed_def p)
      moreover have "reply_channel m' = Some ?ch" "with_channel m' c = m"
        using Some by (simp_all add: m') (cases m; auto)+
      ultimately show ?thesis using l p by (intro conjI exI [of _ ?ch]) auto
    qed
    have bwd: "strip_prefix_from_message m = Stripped m' p"
      if "length p = SESSION_PREFIX_LEN" "ch \<noteq> []" "reply_channel m' = Some ch"
        "m = with_channel m' (prefixed p ch)" for m' p ch
    proof -
      have "c = prefixed p ch" using Some that(3,4) by (cases m') auto
      moreover have "with_channel m ch = m'" using that(3,4) by (cases m') auto
      ultimately show ?thesis using S that(1,2) by (simp add: prefixed_split)
    qed
    have "strip_prefix_from_message m \<noteq> Panic" using S by simp
    moreover have "strip_prefix_from_message m = Stripped m' p \<longleftrightarrow>
       length p = SESSION_PREFIX_LEN \<and>
       (\<exists>ch. ch \<noteq> [] \<and> reply_channel m' = Some ch \<and> m = with_channel m' (prefixed p ch))" for m' p
      using fwd [of m' p] bwd [of p _ m'] by blast
    ultimately show ?thesis by blast
  qed
qed


definition demo_uuid :: string where
  "demo_uuid = ''0a1b2c3d-0000-4000-8000-000000000000''"

lemma demo_uuid_text: "uuid_text demo_uuid"
proof -
  have "\<forall>i \<in> set [0..<36]. if i \<in> {8, 13, 18, 23} then demo_uuid ! i = CHR ''-'' else is_lower_hex (demo_uuid ! i)"
    by (simp add: demo_uuid_def upt_rec is_lower_hex_def is_ascii_digit_def byte_def)
  moreover have "length demo_uuid = 36" by (simp add: demo_uuid_def)
  ultimately show ?thesis by (auto simp: uuid_text_def)
qed


theorem strip_isolates_sessions_witness:
  "strip_prefix_from_message (Data ''short'' JNull) \<noteq> Panic"
proof -
  have "decode_message (Data ''short'' JNull) = Some (Data ''short'' JNull)"
    by (simp add: decode_message_def channel_id_new_def MAX_CHANNEL_ID_LEN_def channel_char_def
        is_ascii_alphanumeric_def is_ascii_lower_def byte_def)
  from strip_isolates_sessions [OF this] show ?thesis by blast
qed

end
