(* ===== verification/Registry.thy ===== *)
theory Registry
  imports Routing
begin

text \<open>
  The connected agents (\<open>AgentRegistry\<close> of \<open>gateway/src/agent_registry.rs\<close>). A connection is
  named by a number; its \<open>Arc\<close>-shared record lives in a heap, because a session or the reader
  task keeps using a connection that the registry no longer lists. A subscriber channel is
  named by a number as well. A message put on a channel is returned as an effect.
\<close>

record agent_conn =
  ac_subscribers :: "(string, nat) hmap"
  ac_remote_ip :: "string option"

record agent_registry =
  rg_inner :: "(string, nat) hmap"
  rg_conns :: "(nat, agent_conn) hmap"

definition registry_new :: agent_registry where
  "registry_new = \<lparr>rg_inner = [], rg_conns = []\<rparr>"

text \<open>\<open>register\<close>, on the new connection \<open>cid\<close>.\<close>

definition registry_register :: "agent_registry \<Rightarrow> nat \<Rightarrow> string \<Rightarrow> string \<Rightarrow> agent_registry" where
  "registry_register rg cid host_id ip =
     rg\<lparr>rg_inner := hm_put host_id cid (rg_inner rg),
        rg_conns := hm_put cid \<lparr>ac_subscribers = [], ac_remote_ip = Some ip\<rparr> (rg_conns rg)\<rparr>"

definition registry_conn :: "agent_registry \<Rightarrow> string \<Rightarrow> (nat \<times> agent_conn) option" where
  "registry_conn rg host_id =
     Option.bind (hm_get (rg_inner rg) host_id)
       (\<lambda>cid. map_option (\<lambda>c. (cid, c)) (hm_get (rg_conns rg) cid))"

definition get_remote_ip :: "agent_registry \<Rightarrow> string \<Rightarrow> string option" where
  "get_remote_ip rg host_id = Option.bind (registry_conn rg host_id) (\<lambda>(_, c). ac_remote_ip c)"

definition registry_unregister :: "agent_registry \<Rightarrow> string \<Rightarrow> agent_registry" where
  "registry_unregister rg host_id = rg\<lparr>rg_inner := hm_del host_id (rg_inner rg)\<rparr>"

definition is_online :: "agent_registry \<Rightarrow> string \<Rightarrow> bool" where
  "is_online rg host_id = hm_has (rg_inner rg) host_id"

definition online_host_ids :: "agent_registry \<Rightarrow> string list" where
  "online_host_ids rg = map fst (rg_inner rg)"

text \<open>A session's weak token on a connection upgrades while the registry holds the connection.\<close>

definition conn_alive :: "agent_registry \<Rightarrow> nat \<Rightarrow> bool" where
  "conn_alive rg cid = (cid \<in> set (hm_vals (rg_inner rg)))"

definition set_subscribers :: "agent_registry \<Rightarrow> nat \<Rightarrow> (string, nat) hmap \<Rightarrow> agent_registry" where
  "set_subscribers rg cid subs =
     (case hm_get (rg_conns rg) cid of
        None \<Rightarrow> rg
      | Some c \<Rightarrow> rg\<lparr>rg_conns := hm_put cid (c\<lparr>ac_subscribers := subs\<rparr>) (rg_conns rg)\<rparr>)"

definition subscribers_of :: "agent_registry \<Rightarrow> nat \<Rightarrow> (string, nat) hmap" where
  "subscribers_of rg cid = (case hm_get (rg_conns rg) cid of None \<Rightarrow> [] | Some c \<Rightarrow> ac_subscribers c)"

text \<open>\<open>connect_session\<close>: the connection and prefix of the proxy, with subscriber \<open>sub\<close>
  receiving what carries the prefix.\<close>

definition connect_session ::
  "agent_registry \<Rightarrow> string \<Rightarrow> string \<Rightarrow> nat \<Rightarrow> ((nat \<times> string) \<times> agent_registry) option" where
  "connect_session rg host_id session_id sub =
     (case registry_conn rg host_id of
        None \<Rightarrow> None
      | Some (cid, c) \<Rightarrow>
          (let prefix = session_prefix session_id
           in Some ((cid, prefix), set_subscribers rg cid (hm_put prefix sub (ac_subscribers c)))))"

text \<open>The proxy task, and the reader task of the agent connection: one agent frame goes to at
  most one subscriber, with its prefix removed.\<close>

definition proxy_send :: "nat \<times> string \<Rightarrow> message \<Rightarrow> nat \<times> message" where
  "proxy_send proxy msg = (fst proxy, prefix_message msg (snd proxy))"

definition deliver :: "agent_registry \<Rightarrow> nat \<Rightarrow> message \<Rightarrow> (nat \<times> message) option" where
  "deliver rg cid wire =
     (case decode_message wire of
        None \<Rightarrow> None
      | Some msg \<Rightarrow>
          (case strip_prefix_from_message msg of
             Stripped m prefix \<Rightarrow> map_option (\<lambda>sub. (sub, m)) (hm_get (subscribers_of rg cid) prefix)
           | NoPrefix \<Rightarrow> None
           | Panic \<Rightarrow> None))"

section \<open>One-shot requests\<close>

text \<open>\<open>execute_rpc\<close>. The environment is the random prefix bytes, and for each of the two waits
  what the subscriber channel yields within five seconds (\<open>None\<close> for the timeout).\<close>

definition rpc_prefix :: "string \<Rightarrow> string" where
  "rpc_prefix raw4 = concat (map hex2 raw4)"

definition rpc_options :: "string \<Rightarrow> open_options" where
  "rpc_options pl = \<lparr>payload = pl, superuser = None, extra = []\<rparr>"

definition execute_rpc ::
  "agent_registry \<Rightarrow> string \<Rightarrow> string \<Rightarrow> json \<Rightarrow> string \<Rightarrow> nat \<Rightarrow> message option \<Rightarrow> message option
   \<Rightarrow> json option \<times> message list \<times> agent_registry" where
  "execute_rpc rg host_id pl request raw4 sub first second =
     (case registry_conn rg host_id of
        None \<Rightarrow> (None, [], rg)
      | Some (cid, c) \<Rightarrow>
          (let prefix = rpc_prefix raw4;
               ch = prefixed prefix ''rpc'';
               subs = hm_put prefix sub (ac_subscribers c);
               rg1 = set_subscribers rg cid subs;
               rg2 = set_subscribers rg cid (hm_del prefix subs);
               sent1 = [Open ch (rpc_options pl)];
               sent2 = sent1 @ [Data ch request]
           in case first of
                None \<Rightarrow> (None, sent1, rg1)
              | Some (Ready _) \<Rightarrow>
                  (case second of
                     None \<Rightarrow> (None, sent2, rg1)
                   | Some resp \<Rightarrow>
                       ((case resp of Data _ d \<Rightarrow> Some d | _ \<Rightarrow> None),
                        sent2 @ [Close ch None], rg2))
              | Some _ \<Rightarrow> (None, sent1, rg2)))"

lemma set_subscribers_get:
  "hm_get (rg_conns rg) cid = Some c \<Longrightarrow> subscribers_of (set_subscribers rg cid subs) cid = subs"
  by (simp add: set_subscribers_def subscribers_of_def)

lemma registry_conn_Some:
  "registry_conn rg h = Some (cid, c) \<longleftrightarrow>
     hm_get (rg_inner rg) h = Some cid \<and> hm_get (rg_conns rg) cid = Some c"
  by (auto simp: registry_conn_def bind_eq_Some_conv)

section \<open>Routing through a connection\<close>

text \<open>
  A session hears its own answers: after a session has connected to an online host, an
  answer the agent gives on one of the session's channels, under the prefix it saw, is
  delivered to that session's subscriber and restores the channel the browser chose.
\<close>

theorem session_answer_delivered:
  assumes "connect_session rg h sid sub = Some ((cid, p), rg')" and "uuid_text sid"
    and "msg_wf m" and "reply_channel m = Some ch"
    and "length ch \<le> MAX_CHANNEL_ID_LEN - (SESSION_PREFIX_LEN + 1)"
  shows "deliver rg' cid (with_channel m (prefixed p ch)) = Some (sub, m)"
proof -
  from assms(1) obtain c where c: "registry_conn rg h = Some (cid, c)" and p: "p = session_prefix sid"
    and rg': "rg' = set_subscribers rg cid (hm_put p sub (ac_subscribers c))"
    by (auto simp: connect_session_def Let_def split: option.splits)
  have "subscribers_of rg' cid = hm_put p sub (ac_subscribers c)"
    using c by (simp add: rg' registry_conn_Some set_subscribers_get)
  moreover have "prefix_ok p" using uuid_prefix_ok [OF assms(2)] by (simp add: p)
  ultimately show ?thesis
    using strip_roundtrip_wf [OF _ assms(3-5), of p] by (simp add: deliver_def)
qed

text \<open>
  Two browser connections of one login share the prefix, so the later one takes over: once
  it has connected to the same host, no frame of the agent reaches the earlier one's
  subscriber through that prefix, and the earlier one's answers go to the later one.
\<close>

theorem same_login_connection_displaced:
  assumes "connect_session rg h sid sub1 = Some ((cid, p), rg1)"
    and "connect_session rg1 h sid sub2 = Some ((cid2, p2), rg2)" and "sub1 \<noteq> sub2"
  shows "cid2 = cid \<and> p2 = p \<and> hm_get (subscribers_of rg2 cid) p = Some sub2"
proof -
  from assms(1) obtain c where c: "registry_conn rg h = Some (cid, c)" and p: "p = session_prefix sid"
    and rg1: "rg1 = set_subscribers rg cid (hm_put p sub1 (ac_subscribers c))"
    by (auto simp: connect_session_def Let_def split: option.splits)
  let ?c1 = "c\<lparr>ac_subscribers := hm_put p sub1 (ac_subscribers c)\<rparr>"
  have c1: "registry_conn rg1 h = Some (cid, ?c1)"
    using c by (simp add: rg1 set_subscribers_def registry_conn_Some)
  with assms(2) have r: "cid2 = cid" "p2 = p"
    "rg2 = set_subscribers rg1 cid (hm_put p sub2 (ac_subscribers ?c1))"
    by (auto simp: connect_session_def Let_def p)
  have "hm_get (rg_conns rg1) cid = Some ?c1" using c1 by (simp add: registry_conn_Some)
  then show ?thesis using r by (simp add: set_subscribers_get)
qed

text \<open>
  A request that times out leaves its subscriber behind: the random prefix stays in the
  connection's table, with its channel, for as long as the agent stays connected; a request
  that is answered, or refused, removes it.
\<close>

theorem rpc_timeout_leaks_subscriber:
  assumes "registry_conn rg h = Some (cid, c)"
  shows "hm_has (subscribers_of (snd (snd (execute_rpc rg h pl req raw sub first second))) cid) (rpc_prefix raw)
    \<longleftrightarrow> first = None \<or> (\<exists>ch. first = Some (Ready ch)) \<and> second = None"
proof -
  have get: "hm_get (rg_conns rg) cid = Some c" using assms by (simp add: registry_conn_Some)
  show ?thesis
  proof (cases first)
    case (Some m)
    then show ?thesis
    proof (cases m)
      case (Ready ch)
      with Some show ?thesis
        by (cases second) (simp_all add: execute_rpc_def Let_def assms set_subscribers_get [OF get])
    qed (simp_all add: execute_rpc_def Let_def assms set_subscribers_get [OF get])
  qed (simp add: execute_rpc_def Let_def assms set_subscribers_get [OF get])
qed

section \<open>Witnesses\<close>

definition demo_registry :: agent_registry where
  "demo_registry = registry_register registry_new 1 ''host1'' ''10.0.0.5''"

lemma demo_registry_conn:
  "registry_conn demo_registry ''host1'' = Some (1, \<lparr>ac_subscribers = [], ac_remote_ip = Some ''10.0.0.5''\<rparr>)"
  by (simp add: demo_registry_def registry_register_def registry_new_def registry_conn_def)

lemma demo_connect:
  "\<exists>rg'. connect_session demo_registry ''host1'' demo_uuid 7 = Some ((1, session_prefix demo_uuid), rg')"
  by (simp add: connect_session_def demo_registry_conn Let_def)

theorem session_answer_delivered_witness:
  "\<exists>rg'. deliver rg' 1 (Ready (prefixed (session_prefix demo_uuid) ''c'')) = Some (7, Ready ''c'')"
proof -
  obtain rg' where c: "connect_session demo_registry ''host1'' demo_uuid 7 = Some ((1, session_prefix demo_uuid), rg')"
    using demo_connect by blast
  have wf: "msg_wf (Ready ''c'')"
    by (simp add: msg_wf_def channel_ok_iff MAX_CHANNEL_ID_LEN_def channel_char_def
        is_ascii_alphanumeric_def is_ascii_lower_def byte_def)
  have "deliver rg' 1 (with_channel (Ready ''c'') (prefixed (session_prefix demo_uuid) ''c'')) = Some (7, Ready ''c'')"
    by (rule session_answer_delivered [OF c demo_uuid_text wf])
       (simp_all add: MAX_CHANNEL_ID_LEN_def SESSION_PREFIX_LEN_def)
  then show ?thesis by auto
qed

theorem same_login_connection_displaced_witness:
  "\<exists>rg2. hm_get (subscribers_of rg2 1) (session_prefix demo_uuid) = Some 8"
proof -
  obtain rg1 where c1: "connect_session demo_registry ''host1'' demo_uuid 7 = Some ((1, session_prefix demo_uuid), rg1)"
    using demo_connect by blast
  have "\<exists>rg2. connect_session rg1 ''host1'' demo_uuid 8 = Some ((1, session_prefix demo_uuid), rg2)"
    using c1 by (auto simp: connect_session_def demo_registry_conn Let_def registry_conn_def
        set_subscribers_def demo_registry_def registry_register_def registry_new_def)
  then obtain rg2 where c2: "connect_session rg1 ''host1'' demo_uuid 8 = Some ((1, session_prefix demo_uuid), rg2)"
    by blast
  have "(7::nat) \<noteq> 8" by simp
  from same_login_connection_displaced [OF c1 c2 this] show ?thesis by blast
qed

theorem rpc_timeout_leaks_subscriber_witness:
  "hm_has (subscribers_of (snd (snd
     (execute_rpc demo_registry ''host1'' ''metrics'' JNull ''abcd'' 9 None None))) 1) (rpc_prefix ''abcd'')"
  using rpc_timeout_leaks_subscriber [OF demo_registry_conn] by blast

end
