(* ===== verification/Enrollment.thy ===== *)
theory Enrollment
  imports Tokens PendingQueue Registry
begin

text \<open>
  The life of an agent connection (\<open>gateway/src/agent_ws.rs\<close>) and the administrator's approval
  (\<open>pending_approve\<close> in \<open>gateway/src/main.rs\<close>): hello, challenge, signature, enrolment decision,
  approval, registration, cleanup. The gateway's shared state is one record; connections are
  numbered. A handler runs from one wait on the network to the next, and the waits of different
  connections interleave freely. \<open>g_log\<close> is a history variable: the code has no such log, and
  no handler reads it.
\<close>

datatype frame = Text "message option" | CloseFrame | OtherFrame | FrameErr

record hello_info =
  hi_hostname :: string
  hi_is_local :: bool
  hi_pubkey :: string
  hi_token :: "string option"
  hi_os_id :: "string option"

section \<open>Reading the handshake\<close>

text \<open>The frames received while waiting for \<open>Hello\<close>; the end of the list is the end of the stream.\<close>

fun await_hello :: "frame list \<Rightarrow> hello_info option" where
  "await_hello [] = None"
| "await_hello (CloseFrame # fs) = None"
| "await_hello (FrameErr # fs) = None"
| "await_hello (OtherFrame # fs) = await_hello fs"
| "await_hello (Text None # fs) = None"
| "await_hello (Text (Some m) # fs) =
     (case decode_message m of
        Some (Hello h) \<Rightarrow>
          if h_version h < 2 then None
          else (case h_public_key h of
                  None \<Rightarrow> None
                | Some pk \<Rightarrow>
                    Some \<lparr>hi_hostname = h_hostname h, hi_is_local = h_is_local h, hi_pubkey = pk,
                          hi_token = h_bootstrap_token h, hi_os_id = h_os_id h\<rparr>)
      | _ \<Rightarrow> None)"

fun recv_challenge_response :: "frame list \<Rightarrow> string option" where
  "recv_challenge_response [] = None"
| "recv_challenge_response (CloseFrame # fs) = None"
| "recv_challenge_response (FrameErr # fs) = None"
| "recv_challenge_response (OtherFrame # fs) = recv_challenge_response fs"
| "recv_challenge_response (Text None # fs) = None"
| "recv_challenge_response (Text (Some m) # fs) =
     (case decode_message m of
        None \<Rightarrow> None
      | Some (Challengeresponse sg) \<Rightarrow> Some sg
      | Some _ \<Rightarrow> recv_challenge_response fs)"

section \<open>State\<close>

datatype phase =
    NoConn
  | AwaitHello
  | AwaitResponse hello_info string
  | AwaitApproval hello_info string string
  | Connected string hello_info string string
  | Closed

datatype event =
    EChallenge nat string
  | EKnownKey nat host_entry
  | EToken nat string bool
  | ELoopback nat string
  | EApprove nat string host_entry

record gateway =
  g_hosts :: hosts_file
  g_tokens :: token_registry
  g_pending :: pending_registry
  g_registry :: agent_registry
  g_phase :: "nat \<Rightarrow> phase"
  g_ip :: "nat \<Rightarrow> string"
  g_mail :: "nat \<Rightarrow> host_entry option"
  g_log :: "event list"

text \<open>What a handler gets from outside: the clock, a fresh uuid, a timestamp, the outcomes of
  its (at most two) file writes, and whether its send on the socket succeeds.\<close>

record env =
  e_now :: instant
  e_uuid :: string
  e_ts :: string
  e_io :: io
  e_io2 :: io
  e_sent :: bool

definition is_loopback_str :: "string \<Rightarrow> bool" where
  "is_loopback_str ip \<longleftrightarrow> ip = ''127.0.0.1'' \<or> ip = ''::1''"

definition logged :: "event \<Rightarrow> gateway \<Rightarrow> gateway" where
  "logged e g = g\<lparr>g_log := e # g_log g\<rparr>"

definition set_phase :: "nat \<Rightarrow> phase \<Rightarrow> gateway \<Rightarrow> gateway" where
  "set_phase cid p g = g\<lparr>g_phase := (g_phase g)(cid := p)\<rparr>"

datatype auth_path = Authenticated host_entry | PendingPath string | Reject

section \<open>The enrolment decision\<close>

definition use_token :: "crypto \<Rightarrow> env \<Rightarrow> nat \<Rightarrow> hello_info \<Rightarrow> gateway \<Rightarrow> bool option \<times> gateway" where
  "use_token c e cid hello g =
     (case hi_token hello of
        None \<Rightarrow> (None, g)
      | Some v \<Rightarrow>
          (let (r, toks) = validate_and_consume c (g_tokens g) (e_now e) v (hi_hostname hello);
               g1 = g\<lparr>g_tokens := toks\<rparr>
           in (case r of None \<Rightarrow> (None, g1)
               | Some re \<Rightarrow> (Some re, logged (EToken cid (hi_hostname hello) re) g1))))"

definition enroll_new :: "env \<Rightarrow> nat \<Rightarrow> hello_info \<Rightarrow> bool \<Rightarrow> gateway \<Rightarrow> auth_path \<times> gateway" where
  "enroll_new e cid hello is_local g =
     (let (r, f) = register_host (g_hosts g) (e_uuid e) (e_ts e) (hi_hostname hello) (hi_pubkey hello)
                     is_local None (hi_os_id hello) (e_io e);
          g1 = g\<lparr>g_hosts := f\<rparr>
      in (case r of Some host \<Rightarrow> (Authenticated host, g1) | None \<Rightarrow> (Reject, g1)))"

definition resolve_auth_path :: "crypto \<Rightarrow> env \<Rightarrow> nat \<Rightarrow> hello_info \<Rightarrow> gateway \<Rightarrow> auth_path \<times> gateway" where
  "resolve_auth_path c e cid hello g =
     (case find_by_pubkey (g_hosts g) (hi_pubkey hello) of
        Some host \<Rightarrow> (Authenticated host, logged (EKnownKey cid host) g)
      | None \<Rightarrow>
          (case find_by_hostname (g_hosts g) (hi_hostname hello) of
             Some existing \<Rightarrow>
               (let (r, g1) = use_token c e cid hello g
                in if r = Some True
                   then (let (u, f) = replace_pubkey (g_hosts g1) (he_id existing) (hi_pubkey hello) (e_io e);
                             g2 = g1\<lparr>g_hosts := f\<rparr>
                         in (case u of
                               Some updated \<Rightarrow>
                                 (Authenticated updated,
                                  g2\<lparr>g_registry := registry_unregister (g_registry g2) (he_id existing)\<rparr>)
                             | None \<Rightarrow> (Reject, g2)))
                   else (Reject, g1))
           | None \<Rightarrow>
               (if hi_token hello \<noteq> None
                then (let (r, g1) = use_token c e cid hello g
                      in (case r of
                            Some _ \<Rightarrow> enroll_new e cid hello (hi_is_local hello) g1
                          | None \<Rightarrow> (PendingPath ''token_invalid'', g1)))
                else if is_loopback_str (g_ip g cid)
                then enroll_new e cid hello True (logged (ELoopback cid (g_ip g cid)) g)
                else (PendingPath ''enrollment_required'', g))))"

section \<open>The handlers\<close>

text \<open>After authentication: fill in a missing os id, acknowledge, register.\<close>

definition finish_auth ::
  "env \<Rightarrow> nat \<Rightarrow> hello_info \<Rightarrow> string \<Rightarrow> string \<Rightarrow> host_entry \<Rightarrow> gateway \<Rightarrow> gateway" where
  "finish_auth e cid hello nonce sg host g =
     (let g1 = (case (he_os_id host, hi_os_id hello) of
                  (None, Some os) \<Rightarrow> g\<lparr>g_hosts := update_os_id (g_hosts g) (he_id host) os (e_io2 e)\<rparr>
                | _ \<Rightarrow> g)
      in if \<not> e_sent e then set_phase cid Closed g1
         else set_phase cid (Connected (he_id host) hello nonce sg)
                (g1\<lparr>g_registry := registry_register (g_registry g1) cid (he_id host) (g_ip g cid)\<rparr>))"

definition on_hello :: "crypto \<Rightarrow> nat \<Rightarrow> frame list \<Rightarrow> string \<Rightarrow> bool \<Rightarrow> gateway \<Rightarrow> gateway" where
  "on_hello c cid frames random32 sent g =
     (case await_hello frames of
        None \<Rightarrow> set_phase cid Closed g
      | Some hello \<Rightarrow>
          (let (nonce, nonce_b64) = generate_nonce c random32
           in if \<not> sent then set_phase cid Closed g
              else set_phase cid (AwaitResponse hello nonce) (logged (EChallenge cid nonce) g)))"

definition on_response ::
  "crypto \<Rightarrow> string \<Rightarrow> env \<Rightarrow> bool \<Rightarrow> nat \<Rightarrow> hello_info \<Rightarrow> string \<Rightarrow> frame list \<Rightarrow> bool \<Rightarrow> gateway
   \<Rightarrow> gateway" where
  "on_response c gid e pending_sent cid hello nonce frames in_time g =
     (case (if in_time then recv_challenge_response frames else None) of
        None \<Rightarrow> set_phase cid Closed g
      | Some sg \<Rightarrow>
          if \<not> verify_signature c (hi_pubkey hello) sg nonce (hi_hostname hello) gid
          then set_phase cid Closed g
          else (case resolve_auth_path c e cid hello g of
                  (Authenticated host, g1) \<Rightarrow> finish_auth e cid hello nonce sg host g1
                | (Reject, g1) \<Rightarrow> set_phase cid Closed g1
                | (PendingPath reason, g1) \<Rightarrow>
                    if \<not> pending_sent then set_phase cid Closed g1
                    else (let (inserted, pend) = pending_insert c (g_pending g1) (e_now e) (hi_pubkey hello)
                                (hi_hostname hello) (g_ip g1 cid) (hi_os_id hello) cid;
                              g2 = g1\<lparr>g_pending := pend\<rparr>
                          in if inserted then set_phase cid (AwaitApproval hello nonce sg) g2
                             else set_phase cid Closed g2)))"

text \<open>One turn of \<open>wait_for_approval\<close> that ends the wait: the approval arrives, or its sender
  is gone, or the socket fails, closes or times out.\<close>

definition give_up :: "nat \<Rightarrow> hello_info \<Rightarrow> gateway \<Rightarrow> gateway" where
  "give_up cid hello g =
     set_phase cid Closed (g\<lparr>g_pending := pending_remove (g_pending g) (hi_pubkey hello)\<rparr>)"

definition on_approval :: "env \<Rightarrow> nat \<Rightarrow> hello_info \<Rightarrow> string \<Rightarrow> string \<Rightarrow> gateway \<Rightarrow> gateway" where
  "on_approval e cid hello nonce sg g =
     (case g_mail g cid of
        Some host \<Rightarrow> finish_auth e cid hello nonce sg host g
      | None \<Rightarrow>
          if \<exists>en \<in> set (hm_vals (g_pending g)). pe_waiter en = Some cid then g
          else give_up cid hello g)"

definition on_disconnect :: "env \<Rightarrow> nat \<Rightarrow> string \<Rightarrow> gateway \<Rightarrow> gateway" where
  "on_disconnect e cid host_id g =
     set_phase cid Closed
       (g\<lparr>g_hosts := update_last_seen (g_hosts g) host_id (e_ts e) (e_io e),
          g_registry := registry_unregister (g_registry g) host_id\<rparr>)"


section \<open>The administrator's approval\<close>

definition save_display_name :: "hosts_file \<Rightarrow> string \<Rightarrow> string option \<Rightarrow> io \<Rightarrow> bool \<times> hosts_file" where
  "save_display_name f hid name w =
     (let config = hosts_load f
      in case List.find (by_id hid) config of
           None \<Rightarrow> (True, f)
         | Some _ \<Rightarrow> hosts_save w (update_first (by_id hid) (\<lambda>h. h\<lparr>he_display_name := name\<rparr>) config))"

definition is_waiting :: "gateway \<Rightarrow> nat \<Rightarrow> bool" where
  "is_waiting g cid = (case g_phase g cid of AwaitApproval _ _ _ \<Rightarrow> True | _ \<Rightarrow> False)"

definition approved_host ::
  "env \<Rightarrow> string \<Rightarrow> string \<Rightarrow> string \<Rightarrow> string option \<Rightarrow> string option \<Rightarrow> gateway
   \<Rightarrow> host_entry option \<times> gateway" where
  "approved_host e pk hn ip os name g =
     (case find_by_hostname (g_hosts g) hn of
        Some existing \<Rightarrow>
          (let (u, f) = replace_pubkey (g_hosts g) (he_id existing) pk (e_io e)
           in (case u of
                 None \<Rightarrow> (None, g\<lparr>g_hosts := f\<rparr>)
               | Some updated \<Rightarrow>
                   if name \<noteq> None
                   then (Some (updated\<lparr>he_display_name := name\<rparr>),
                         g\<lparr>g_hosts := snd (save_display_name f (he_id updated) name (e_io2 e))\<rparr>)
                   else (Some updated, g\<lparr>g_hosts := f\<rparr>)))
      | None \<Rightarrow>
          (let (r, f) = register_host (g_hosts g) (e_uuid e) (e_ts e) hn pk (is_loopback_str ip) name os (e_io e)
           in (r, g\<lparr>g_hosts := f\<rparr>)))"

text \<open>The outcome and the gateway afterwards; the session check of the handler and the
  response are in \<open>GwRest\<close>.\<close>

datatype approve_result = NotPending | RegistrationFailed | Approved string | NoLongerPending

definition approve_agent :: "env \<Rightarrow> string \<Rightarrow> string option \<Rightarrow> gateway \<Rightarrow> approve_result \<times> gateway" where
  "approve_agent e fp name g =
     (case entry_for_fingerprint (g_pending g) fp of
        None \<Rightarrow> (NotPending, g)
      | Some (pk, hn, ip, os) \<Rightarrow>
          (case approved_host e pk hn ip os name g of
             (None, g1) \<Rightarrow> (RegistrationFailed, g1)
           | (Some host, g1) \<Rightarrow>
               (let (ok, pend, sent) = pending_approve (is_waiting g1) (g_pending g1) fp host;
                    g2 = g1\<lparr>g_pending := pend\<rparr>
                in (if ok then Approved (he_id host) else NoLongerPending,
                    (case sent of
                       None \<Rightarrow> g2
                     | Some (cid, h) \<Rightarrow>
                         logged (EApprove cid fp h) (g2\<lparr>g_mail := (g_mail g2)(cid := Some h)\<rparr>))))))"

section \<open>Runs of the gateway\<close>

definition gateway_init :: "hosts_file \<Rightarrow> gateway" where
  "gateway_init f =
     \<lparr>g_hosts = f, g_tokens = [], g_pending = [], g_registry = registry_new,
      g_phase = (\<lambda>_. NoConn), g_ip = (\<lambda>_. []), g_mail = (\<lambda>_. None), g_log = []\<rparr>"

text \<open>Everything that can happen next. Administrators may also edit the host file in any way,
  and the token registry changes by its own operations.\<close>

inductive gw_step :: "crypto \<Rightarrow> string \<Rightarrow> gateway \<Rightarrow> gateway \<Rightarrow> bool" for c gid where
  connect: "g_phase g cid = NoConn \<Longrightarrow>
    gw_step c gid g (set_phase cid AwaitHello (g\<lparr>g_ip := (g_ip g)(cid := ip)\<rparr>))"
| hello: "g_phase g cid = AwaitHello \<Longrightarrow> length random32 = 32 \<Longrightarrow>
    gw_step c gid g (on_hello c cid frames random32 sent g)"
| response: "g_phase g cid = AwaitResponse h nonce \<Longrightarrow>
    gw_step c gid g (on_response c gid e pending_sent cid h nonce frames in_time g)"
| approval: "g_phase g cid = AwaitApproval h nonce sg \<Longrightarrow>
    gw_step c gid g (on_approval e cid h nonce sg g)"
| give_up: "g_phase g cid = AwaitApproval h nonce sg \<Longrightarrow> gw_step c gid g (give_up cid h g)"
| disconnect: "g_phase g cid = Connected hid h nonce sg \<Longrightarrow>
    gw_step c gid g (on_disconnect e cid hid g)"
| approve: "gw_step c gid g (snd (approve_agent e fp name g))"
| tokens: "gw_step c gid g (g\<lparr>g_tokens := toks\<rparr>)"
| hosts: "gw_step c gid g (g\<lparr>g_hosts := f\<rparr>)"
| subscribe: "gw_step c gid g (g\<lparr>g_registry := set_subscribers (g_registry g) cid subs\<rparr>)"

inductive gw_reach :: "crypto \<Rightarrow> string \<Rightarrow> hosts_file \<Rightarrow> gateway \<Rightarrow> bool" for c gid f0 where
  init: "gw_reach c gid f0 (gateway_init f0)"
| step: "gw_reach c gid f0 g \<Longrightarrow> gw_step c gid g g' \<Longrightarrow> gw_reach c gid f0 g'"

inductive_cases gw_step_cases: "gw_step c gid g g'"

section \<open>The invariant\<close>

definition signed :: "crypto \<Rightarrow> string \<Rightarrow> gateway \<Rightarrow> nat \<Rightarrow> hello_info \<Rightarrow> string \<Rightarrow> string \<Rightarrow> bool" where
  "signed c gid g cid h nonce sg \<longleftrightarrow>
     EChallenge cid nonce \<in> set (g_log g) \<and> length nonce = 32 \<and>
     verify_signature c (hi_pubkey h) sg nonce (hi_hostname h) gid"

definition authorised :: "crypto \<Rightarrow> gateway \<Rightarrow> nat \<Rightarrow> string \<Rightarrow> hello_info \<Rightarrow> bool" where
  "authorised c g cid hid h \<longleftrightarrow>
     (\<exists>host. EKnownKey cid host \<in> set (g_log g) \<and> he_id host = hid \<and>
        he_public_key host = Some (hi_pubkey h)) \<or>
     (\<exists>re. EToken cid (hi_hostname h) re \<in> set (g_log g)) \<or>
     (is_loopback_str (g_ip g cid) \<and> ELoopback cid (g_ip g cid) \<in> set (g_log g)) \<or>
     (\<exists>host. EApprove cid (pubkey_fingerprint_hex c (hi_pubkey h)) host \<in> set (g_log g) \<and> he_id host = hid)"

fun phase_ok :: "crypto \<Rightarrow> string \<Rightarrow> gateway \<Rightarrow> nat \<Rightarrow> phase \<Rightarrow> bool" where
  "phase_ok c gid g cid (AwaitResponse h nonce) \<longleftrightarrow>
     g_mail g cid = None \<and> EChallenge cid nonce \<in> set (g_log g) \<and> length nonce = 32"
| "phase_ok c gid g cid (AwaitApproval h nonce sg) \<longleftrightarrow>
     signed c gid g cid h nonce sg \<and>
     (\<forall>host. g_mail g cid = Some host \<longrightarrow>
        EApprove cid (pubkey_fingerprint_hex c (hi_pubkey h)) host \<in> set (g_log g))"
| "phase_ok c gid g cid (Connected hid h nonce sg) \<longleftrightarrow>
     signed c gid g cid h nonce sg \<and> authorised c g cid hid h"
| "phase_ok c gid g cid Closed \<longleftrightarrow> True"
| "phase_ok c gid g cid _ \<longleftrightarrow> g_mail g cid = None"

definition pending_ok :: "crypto \<Rightarrow> gateway \<Rightarrow> bool" where
  "pending_ok c g \<longleftrightarrow> pend_inv c (g_pending g) \<and>
     (\<forall>k en cid. (k, en) \<in> set (g_pending g) \<longrightarrow> pe_waiter en = Some cid \<longrightarrow>
        g_mail g cid = None \<and> (\<exists>h nonce sg. g_phase g cid = AwaitApproval h nonce sg \<and> hi_pubkey h = k))"

definition registry_ok :: "gateway \<Rightarrow> bool" where
  "registry_ok g \<longleftrightarrow>
     (\<forall>hid cid. hm_get (rg_inner (g_registry g)) hid = Some cid \<longrightarrow>
        (\<exists>h nonce sg. g_phase g cid = Connected hid h nonce sg))"

definition gw_inv :: "crypto \<Rightarrow> string \<Rightarrow> gateway \<Rightarrow> bool" where
  "gw_inv c gid g \<longleftrightarrow>
     (\<forall>cid. phase_ok c gid g cid (g_phase g cid)) \<and> pending_ok c g \<and> registry_ok g"

lemma phase_ok_mono:
  assumes "phase_ok c gid g cid p" and "set (g_log g) \<subseteq> set (g_log g')"
    and "g_ip g' cid = g_ip g cid" and "g_mail g' cid = g_mail g cid"
  shows "phase_ok c gid g' cid p"
proof -
  have "authorised c g cid hid h \<Longrightarrow> authorised c g' cid hid h" for hid h
    using assms(2,3) by (fastforce simp: authorised_def)
  then show ?thesis
    using assms by (cases p) (auto simp: signed_def)
qed

text \<open>What the enrolment decision may touch: it never changes phases, addresses, the mail or
  the queue, and only removes from the registry.\<close>

definition shrinks :: "gateway \<Rightarrow> gateway \<Rightarrow> bool" where
  "shrinks g g' \<longleftrightarrow>
     g_phase g' = g_phase g \<and> g_ip g' = g_ip g \<and> g_mail g' = g_mail g \<and> g_pending g' = g_pending g \<and>
     set (g_log g) \<subseteq> set (g_log g') \<and>
     (\<forall>hid cid. hm_get (rg_inner (g_registry g')) hid = Some cid \<longrightarrow>
        hm_get (rg_inner (g_registry g)) hid = Some cid)"

lemma gw_inv_shrinks: "gw_inv c gid g \<Longrightarrow> shrinks g g' \<Longrightarrow> gw_inv c gid g'"
  unfolding gw_inv_def pending_ok_def registry_ok_def shrinks_def
  by (auto intro: phase_ok_mono)

lemma shrinks_refl [simp]: "shrinks g g"
  by (simp add: shrinks_def)

lemma shrinks_trans: "shrinks g g' \<Longrightarrow> shrinks g' g'' \<Longrightarrow> shrinks g g''"
  by (auto simp: shrinks_def)

lemma shrinks_simps [simp]:
  "shrinks g (g'\<lparr>g_hosts := f\<rparr>) \<longleftrightarrow> shrinks g g'"
  "shrinks g (g'\<lparr>g_tokens := t\<rparr>) \<longleftrightarrow> shrinks g g'"
  by (simp_all add: shrinks_def)

lemma shrinks_logged: "shrinks g g' \<Longrightarrow> shrinks g (logged e g')"
  by (auto simp: shrinks_def logged_def)

lemma shrinks_unregister:
  "shrinks g g' \<Longrightarrow> shrinks g (g'\<lparr>g_registry := registry_unregister (g_registry g') h\<rparr>)"
  by (auto simp: shrinks_def registry_unregister_def split: if_splits)

lemma shrinks_unregister_hosts:
  "shrinks g g' \<Longrightarrow>
    shrinks g (g'\<lparr>g_hosts := f, g_registry := registry_unregister (g_registry g') h\<rparr>)"
  by (auto simp: shrinks_def registry_unregister_def split: if_splits)

lemma use_token_effect:
  assumes "use_token c e cid hello g = (r, g1)"
  shows "shrinks g g1 \<and> (\<forall>re. r = Some re \<longrightarrow> EToken cid (hi_hostname hello) re \<in> set (g_log g1))"
  using assms
  by (auto simp: use_token_def Let_def shrinks_logged logged_def split: option.splits prod.splits)
     (auto simp: shrinks_def)

lemma enroll_new_effect:
  assumes "enroll_new e cid hello loc g = (r, g1)"
  shows "\<exists>f. g1 = g\<lparr>g_hosts := f\<rparr>"
  using assms by (auto simp: enroll_new_def Let_def split: option.splits prod.splits)

lemma authorised_hosts [simp]: "authorised c (g\<lparr>g_hosts := f\<rparr>) cid hid h = authorised c g cid hid h"
  by (simp add: authorised_def)

lemma authorised_registry [simp]:
  "authorised c (g\<lparr>g_registry := r\<rparr>) cid hid h = authorised c g cid hid h"
  by (simp add: authorised_def)

lemma resolve_effect:
  assumes "resolve_auth_path c e cid hello g = (r, g1)"
  shows "shrinks g g1 \<and> (\<forall>host. r = Authenticated host \<longrightarrow> authorised c g1 cid (he_id host) hello)"
proof (cases "find_by_pubkey (g_hosts g) (hi_pubkey hello)")
  case (Some host)
  then have "he_public_key host = Some (hi_pubkey hello)"
    by (auto simp: find_by_pubkey_def dest: find_Some_set)
  with Some assms show ?thesis
    by (auto simp: resolve_auth_path_def authorised_def logged_def shrinks_def)
next
  case None
  note pk = None
  obtain ru gu where ut: "use_token c e cid hello g = (ru, gu)" by (cases "use_token c e cid hello g")
  note U = use_token_effect [OF ut]
  have tok: "authorised c gu cid hid hello" if "ru = Some re" for re hid
    using U that by (auto simp: authorised_def)
  have new: "shrinks g' g1 \<and> (\<forall>host. authorised c g1 cid (he_id host) hello)"
    if "enroll_new e cid hello loc g' = (r, g1)" "\<And>hid. authorised c g' cid hid hello" for loc g'
    using enroll_new_effect [OF that(1)] that(2) by auto
  show ?thesis
  proof (cases "find_by_hostname (g_hosts g) (hi_hostname hello)")
    case (Some existing)
    then show ?thesis
      using assms pk U tok
      by (auto simp: resolve_auth_path_def ut Let_def shrinks_unregister_hosts
          split: if_splits option.splits prod.splits)
  next
    case None
    show ?thesis
    proof (cases "hi_token hello")
      case (Some v)
      then show ?thesis
        using assms pk None U tok new [of "hi_is_local hello" gu] shrinks_trans [of g gu g1]
        by (auto simp: resolve_auth_path_def ut split: option.splits)
    next
      case no_tok: None
      let ?g = "logged (ELoopback cid (g_ip g cid)) g"
      have "authorised c ?g cid hid hello" if "is_loopback_str (g_ip g cid)" for hid
        using that by (simp add: authorised_def logged_def)
      then show ?thesis
        using assms pk None no_tok new [of True ?g] shrinks_trans [of g ?g g1]
        by (auto simp: resolve_auth_path_def shrinks_logged split: if_splits)
    qed
  qed
qed

text \<open>Moving one connection to a new phase.\<close>

lemma gw_inv_set_phase:
  assumes inv: "gw_inv c gid g" and p: "phase_ok c gid g cid p"
    and pend: "\<And>k e. (k, e) \<in> set (g_pending g) \<Longrightarrow> pe_waiter e = Some cid \<Longrightarrow>
                \<exists>h nonce sg. p = AwaitApproval h nonce sg \<and> hi_pubkey h = k"
    and reg: "\<And>hid. hm_get (rg_inner (g_registry g)) hid = Some cid \<Longrightarrow>
                \<exists>h nonce sg. p = Connected hid h nonce sg"
  shows "gw_inv c gid (set_phase cid p g)"
proof -
  have ok: "phase_ok c gid (set_phase cid p g) i q" if "phase_ok c gid g i q" for i q
    by (rule phase_ok_mono [OF that]) (simp_all add: set_phase_def)
  have a: "phase_ok c gid (set_phase cid p g) i (g_phase (set_phase cid p g) i)" for i
    using inv p ok by (auto simp: gw_inv_def set_phase_def)
  have b: "pending_ok c (set_phase cid p g)"
    using inv pend by (fastforce simp: gw_inv_def pending_ok_def set_phase_def)
  have d: "registry_ok (set_phase cid p g)"
    using inv reg by (fastforce simp: gw_inv_def registry_ok_def set_phase_def)
  from a b d show ?thesis by (simp add: gw_inv_def)
qed

lemma waiter_no_mail:
  "gw_inv c gid g \<Longrightarrow> (k, e) \<in> set (g_pending g) \<Longrightarrow> pe_waiter e = Some cid \<Longrightarrow> g_mail g cid = None"
  by (simp add: gw_inv_def pending_ok_def)

lemma no_waiter:
  "gw_inv c gid g \<Longrightarrow> (k, e) \<in> set (g_pending g) \<Longrightarrow> pe_waiter e = Some cid \<Longrightarrow>
    \<exists>h nonce sg. g_phase g cid = AwaitApproval h nonce sg \<and> hi_pubkey h = k"
  by (fastforce simp: gw_inv_def pending_ok_def)

lemma no_registration:
  "gw_inv c gid g \<Longrightarrow> hm_get (rg_inner (g_registry g)) hid = Some cid \<Longrightarrow>
    \<exists>h nonce sg. g_phase g cid = Connected hid h nonce sg"
  by (simp add: gw_inv_def registry_ok_def)

lemma phase_inv: "gw_inv c gid g \<Longrightarrow> phase_ok c gid g cid (g_phase g cid)"
  by (simp add: gw_inv_def)

lemma close_idle:
  assumes "gw_inv c gid g" and "\<forall>h n s. g_phase g cid \<noteq> AwaitApproval h n s"
    and "\<forall>hid h n s. g_phase g cid \<noteq> Connected hid h n s"
  shows "gw_inv c gid (set_phase cid Closed g)"
proof (rule gw_inv_set_phase [OF assms(1)])
  show "\<exists>h n s. Closed = AwaitApproval h n s \<and> hi_pubkey h = k"
    if "(k, e) \<in> set (g_pending g)" "pe_waiter e = Some cid" for k e
    using no_waiter [OF assms(1) that] assms(2) by auto
  show "\<exists>h n s. Closed = Connected hid h n s"
    if "hm_get (rg_inner (g_registry g)) hid = Some cid" for hid
    using no_registration [OF assms(1) that] assms(3) by auto
qed simp

lemma shrinks_hosts: "shrinks g (g\<lparr>g_hosts := f\<rparr>)"
  by (simp add: shrinks_def)

lemma register_get:
  "hm_get (rg_inner (registry_register rg cid hid ip)) j =
     (if j = hid then Some cid else hm_get (rg_inner rg) j)"
  by (simp add: registry_register_def)

text \<open>The connection is neither queued nor registered when it finishes authentication.\<close>

lemma finish_auth_inv:
  assumes inv: "gw_inv c gid g"
    and nw: "\<And>k e. (k, e) \<in> set (g_pending g) \<Longrightarrow> pe_waiter e \<noteq> Some cid"
    and nr: "\<And>hid. hm_get (rg_inner (g_registry g)) hid \<noteq> Some cid"
    and s: "signed c gid g cid hello nonce sg" and a: "authorised c g cid (he_id host) hello"
  shows "gw_inv c gid (finish_auth e cid hello nonce sg host g)"
proof -
  obtain f where g1: "(case (he_os_id host, hi_os_id hello) of
        (None, Some os) \<Rightarrow> g\<lparr>g_hosts := update_os_id (g_hosts g) (he_id host) os (e_io2 e)\<rparr>
      | _ \<Rightarrow> g) = g\<lparr>g_hosts := f\<rparr>"
    by (cases "he_os_id host"; cases "hi_os_id hello") (auto intro: that [of "g_hosts g"])
  let ?g1 = "g\<lparr>g_hosts := f\<rparr>"
  have inv1: "gw_inv c gid ?g1" by (rule gw_inv_shrinks [OF inv shrinks_hosts])
  show ?thesis
  proof (cases "e_sent e")
    case False
    then show ?thesis
      unfolding finish_auth_def g1 using nw nr
      by (auto simp: Let_def intro!: gw_inv_set_phase [OF inv1])
  next
    case True
    let ?p = "Connected (he_id host) hello nonce sg"
    have closed: "gw_inv c gid (set_phase cid Closed ?g1)"
      using nw nr by (intro gw_inv_set_phase [OF inv1]) auto
    have pok: "phase_ok c gid ?g1 cid ?p" using s a by (simp add: signed_def)
    have con: "gw_inv c gid (set_phase cid ?p ?g1)"
      using nw nr pok by (intro gw_inv_set_phase [OF inv1]) auto
    let ?g2 = "set_phase cid ?p (?g1\<lparr>g_registry := registry_register (g_registry ?g1) cid (he_id host) (g_ip g cid)\<rparr>)"
    have "phase_ok c gid ?g2 i (g_phase ?g2 i)" for i
    proof -
      have "g_phase ?g2 i = g_phase (set_phase cid ?p ?g1) i" by (simp add: set_phase_def)
      then show ?thesis
        by (simp only:) (rule phase_ok_mono [OF phase_inv [OF con]]; simp add: set_phase_def)
    qed
    moreover have "pending_ok c ?g2" "registry_ok ?g2"
      using con by (auto simp: gw_inv_def pending_ok_def registry_ok_def set_phase_def register_get
          split: if_splits)
    ultimately have "gw_inv c gid ?g2" by (simp add: gw_inv_def)
    then show ?thesis unfolding finish_auth_def g1 using True by (simp add: Let_def)
  qed
qed

lemma on_hello_inv:
  assumes inv: "gw_inv c gid g" and ph: "g_phase g cid = AwaitHello" and len: "length random32 = 32"
  shows "gw_inv c gid (on_hello c cid frames random32 sent g)"
proof -
  have closed: "gw_inv c gid (set_phase cid Closed g)" by (rule close_idle [OF inv]) (simp_all add: ph)
  let ?g = "logged (EChallenge cid random32) g"
  have inv': "gw_inv c gid ?g" by (rule gw_inv_shrinks [OF inv shrinks_logged [OF shrinks_refl]])
  have mail: "g_mail g cid = None" using phase_inv [OF inv, of cid] ph by simp
  have "gw_inv c gid (set_phase cid (AwaitResponse h random32) ?g)" for h
  proof (rule gw_inv_set_phase [OF inv'])
    show "phase_ok c gid ?g cid (AwaitResponse h random32)"
      using mail len by (simp add: logged_def)
    show "\<exists>h' n s. AwaitResponse h random32 = AwaitApproval h' n s \<and> hi_pubkey h' = k"
      if "(k, e) \<in> set (g_pending ?g)" "pe_waiter e = Some cid" for k e
      using no_waiter [OF inv' that] ph by (simp add: logged_def)
    show "\<exists>h' n s. AwaitResponse h random32 = Connected hid h' n s"
      if "hm_get (rg_inner (g_registry ?g)) hid = Some cid" for hid
      using no_registration [OF inv' that] ph by (simp add: logged_def)
  qed
  with closed show ?thesis
    by (simp add: on_hello_def generate_nonce_def split: option.split)
qed

lemma pend_inv_insert:
  "pend_inv c reg \<Longrightarrow> pend_inv c (snd (pending_insert c reg now pk hn ip os tx))"
  using pend_inv_step [of c reg "\<lambda>_. True" "PInsert now pk hn ip os tx"] by simp

lemma pending_insert_mem:
  "pending_insert c reg now pk hn ip os tx = (b, reg') \<Longrightarrow> x \<in> set reg' \<Longrightarrow>
    x \<in> set reg \<or> (b \<and> x = (pk, new_pending c now pk hn ip os tx))"
  by (auto simp: pending_insert_def Let_def dest: set_hm_put_elim split: if_splits)

lemma on_response_inv:
  assumes inv: "gw_inv c gid g" and ph: "g_phase g cid = AwaitResponse h nonce"
  shows "gw_inv c gid (on_response c gid e pending_sent cid h nonce frames in_time g)"
proof -
  have closed: "gw_inv c gid (set_phase cid Closed g)" by (rule close_idle [OF inv]) (simp_all add: ph)
  have P: "g_mail g cid = None" "EChallenge cid nonce \<in> set (g_log g)" "length nonce = 32"
    using phase_inv [OF inv, of cid] ph by simp_all
  show ?thesis
  proof (cases "if in_time then recv_challenge_response frames else None")
    case None
    with closed show ?thesis by (simp add: on_response_def)
  next
    case (Some sg)
    note sig = Some
    show ?thesis
    proof (cases "verify_signature c (hi_pubkey h) sg nonce (hi_hostname h) gid")
      case False
      with closed sig show ?thesis by (simp add: on_response_def)
    next
      case True
      obtain r g1 where R: "resolve_auth_path c e cid h g = (r, g1)"
        by (cases "resolve_auth_path c e cid h g")
      have sh: "shrinks g g1" and au: "\<And>host. r = Authenticated host \<Longrightarrow> authorised c g1 cid (he_id host) h"
        using resolve_effect [OF R] by auto
      have inv1: "gw_inv c gid g1" by (rule gw_inv_shrinks [OF inv sh])
      have ph1: "g_phase g1 cid = AwaitResponse h nonce" and mail1: "g_mail g1 cid = None"
        and s1: "signed c gid g1 cid h nonce sg"
        using sh ph P True by (auto simp: shrinks_def signed_def)
      have nw: "pe_waiter en \<noteq> Some cid" if "(k, en) \<in> set (g_pending g1)" for k en
        using no_waiter [OF inv1 that] ph1 by auto
      have nr: "hm_get (rg_inner (g_registry g1)) hid \<noteq> Some cid" for hid
        using no_registration [OF inv1] ph1 by force
      have closed1: "gw_inv c gid (set_phase cid Closed g1)"
        by (rule close_idle [OF inv1]) (simp_all add: ph1)
      show ?thesis
      proof (cases r)
        case (Authenticated host)
        with finish_auth_inv [OF inv1 nw nr s1 au [OF this]] sig True R show ?thesis
          by (simp add: on_response_def)
      next
        case Reject
        with closed1 sig True R show ?thesis by (simp add: on_response_def)
      next
        case (PendingPath reason)
        obtain b pend where I: "pending_insert c (g_pending g1) (e_now e) (hi_pubkey h) (hi_hostname h)
            (g_ip g1 cid) (hi_os_id h) cid = (b, pend)" by (metis surj_pair)
        have pinv: "pend_inv c pend"
          using pend_inv_insert [of c "g_pending g1" "e_now e" "hi_pubkey h" "hi_hostname h" "g_ip g1 cid" "hi_os_id h" cid]
            inv1 I by (simp add: gw_inv_def pending_ok_def)
        let ?p = "AwaitApproval h nonce sg"
        let ?g2 = "set_phase cid ?p (g1\<lparr>g_pending := pend\<rparr>)"
        have "phase_ok c gid ?g2 i (g_phase ?g2 i)" for i
        proof (cases "i = cid")
          case True
          then show ?thesis using s1 mail1 by (simp add: set_phase_def signed_def)
        next
          case False
          then have "g_phase ?g2 i = g_phase g1 i" by (simp add: set_phase_def)
          then show ?thesis
            by (simp only:) (rule phase_ok_mono [OF phase_inv [OF inv1]]; simp add: set_phase_def)
        qed
        moreover have "pending_ok c ?g2"
          unfolding pending_ok_def
        proof (intro conjI allI impI)
          show "pend_inv c (g_pending ?g2)" using pinv by (simp add: set_phase_def)
          have W: "\<exists>h' n s. g_phase ?g2 w = AwaitApproval h' n s \<and> hi_pubkey h' = k"
            if "(k, en) \<in> set pend" "pe_waiter en = Some w" for k en w
            using pending_insert_mem [OF I that(1)]
          proof
            assume m: "(k, en) \<in> set (g_pending g1)"
            show ?thesis using no_waiter [OF inv1 m that(2)] nw [OF m] that(2) by (auto simp: set_phase_def)
          qed (use that(2) in \<open>auto simp: new_pending_def set_phase_def\<close>)
          have M: "g_mail g1 w = None" if "(k, en) \<in> set pend" "pe_waiter en = Some w" for k en w
            using pending_insert_mem [OF I that(1)] waiter_no_mail [OF inv1 _ that(2)] mail1 that(2)
            by (auto simp: new_pending_def)
          fix k en w
          assume "(k, en) \<in> set (g_pending ?g2)" and w: "pe_waiter en = Some w"
          then have m: "(k, en) \<in> set pend" by (simp add: set_phase_def)
          show "g_mail ?g2 w = None" using M [OF m w] by (simp add: set_phase_def)
          show "\<exists>h' n s. g_phase ?g2 w = AwaitApproval h' n s \<and> hi_pubkey h' = k"
            by (rule W [OF m w])
        qed
        moreover have "registry_ok ?g2"
          using inv1 nr by (auto simp: gw_inv_def registry_ok_def set_phase_def)
        ultimately have g2: "gw_inv c gid ?g2" by (simp add: gw_inv_def)
        have b0: "gw_inv c gid (set_phase cid Closed (g1\<lparr>g_pending := pend\<rparr>))" if "\<not> b"
        proof -
          have "pend = g_pending g1" using I that by (auto simp: pending_insert_def Let_def split: if_splits)
          with closed1 show ?thesis by simp
        qed
        show ?thesis using PendingPath sig True R I g2 b0 closed1
          by (simp add: on_response_def Let_def)
      qed
    qed
  qed
qed

lemma give_up_inv:
  assumes inv: "gw_inv c gid g" and ph: "g_phase g cid = AwaitApproval h nonce sg"
  shows "gw_inv c gid (give_up cid h g)"
proof -
  let ?g = "g\<lparr>g_pending := pending_remove (g_pending g) (hi_pubkey h)\<rparr>"
  have inv': "gw_inv c gid ?g"
  proof -
    have "phase_ok c gid ?g i (g_phase ?g i)" for i
      using phase_inv [OF inv, of i] by (auto intro: phase_ok_mono)
    moreover have "pending_ok c ?g"
      using inv by (auto simp: gw_inv_def pending_ok_def pending_remove_def set_hm_del pend_inv_del)
    moreover have "registry_ok ?g" using inv by (simp add: gw_inv_def registry_ok_def)
    ultimately show ?thesis by (simp add: gw_inv_def)
  qed
  show ?thesis
    unfolding give_up_def
  proof (rule gw_inv_set_phase [OF inv'])
    show "\<exists>h' n s. Closed = AwaitApproval h' n s \<and> hi_pubkey h' = k"
      if "(k, e) \<in> set (g_pending ?g)" "pe_waiter e = Some cid" for k e
      using no_waiter [OF inv, of k e cid] that ph by (auto simp: pending_remove_def set_hm_del)
    show "\<exists>h' n s. Closed = Connected hid h' n s"
      if "hm_get (rg_inner (g_registry ?g)) hid = Some cid" for hid
      using no_registration [OF inv' that] ph by simp
  qed simp
qed

lemma on_approval_inv:
  assumes inv: "gw_inv c gid g" and ph: "g_phase g cid = AwaitApproval h nonce sg"
  shows "gw_inv c gid (on_approval e cid h nonce sg g)"
proof (cases "g_mail g cid")
  case None
  then show ?thesis using inv give_up_inv [OF inv ph] by (simp add: on_approval_def)
next
  case (Some host)
  have s: "signed c gid g cid h nonce sg"
    and a: "EApprove cid (pubkey_fingerprint_hex c (hi_pubkey h)) host \<in> set (g_log g)"
    using phase_inv [OF inv, of cid] ph Some by auto
  then have "authorised c g cid (he_id host) h" by (auto simp: authorised_def)
  moreover have "hm_get (rg_inner (g_registry g)) hid \<noteq> Some cid" for hid
    using no_registration [OF inv] ph by force
  ultimately show ?thesis
    using finish_auth_inv [OF inv _ _ s, of host e] waiter_no_mail [OF inv, of _ _ cid] Some
    by (fastforce simp: on_approval_def)
qed

lemma on_disconnect_inv:
  assumes inv: "gw_inv c gid g" and ph: "g_phase g cid = Connected hid h nonce sg"
  shows "gw_inv c gid (on_disconnect e cid hid g)"
proof -
  let ?g = "g\<lparr>g_hosts := update_last_seen (g_hosts g) hid (e_ts e) (e_io e),
               g_registry := registry_unregister (g_registry g) hid\<rparr>"
  have inv': "gw_inv c gid ?g"
    by (rule gw_inv_shrinks [OF inv shrinks_unregister_hosts [OF shrinks_refl]])
  show ?thesis
    unfolding on_disconnect_def
  proof (rule gw_inv_set_phase [OF inv'])
    show "\<exists>h' n s. Closed = AwaitApproval h' n s \<and> hi_pubkey h' = k"
      if "(k, e) \<in> set (g_pending ?g)" "pe_waiter e = Some cid" for k e
      using no_waiter [OF inv' that] ph by simp
    show "\<exists>h' n s. Closed = Connected hid' h' n s"
      if "hm_get (rg_inner (g_registry ?g)) hid' = Some cid" for hid'
      using no_registration [OF inv, of hid' cid] that ph
      by (auto simp: registry_unregister_def split: if_splits)
  qed simp
qed

lemma approved_host_effect:
  "approved_host e pk hn ip os name g = (r, g1) \<Longrightarrow> \<exists>f. g1 = g\<lparr>g_hosts := f\<rparr>"
  by (auto simp: approved_host_def Let_def split: option.splits prod.splits if_splits)

lemma approve_delivery:
  assumes "pend_inv c reg" and "pending_approve al reg fp host = (ok, pend, sent)"
  shows "(pend = reg \<or> (\<exists>k. pend = hm_del k reg)) \<and>
    (\<forall>cid h. sent = Some (cid, h) \<longrightarrow> h = host \<and> al cid \<and>
       (\<exists>k en. (k, en) \<in> set reg \<and> pe_waiter en = Some cid \<and> pend = hm_del k reg \<and>
               pubkey_fingerprint_hex c k = fp))"
proof (cases "by_fingerprint reg fp")
  case None
  with assms(2) show ?thesis by (simp add: pending_approve_def)
next
  case (Some en)
  note F = by_fingerprint_get [OF assms(1) Some]
  then have "(pe_pubkey en, en) \<in> set reg" by (blast dest: map_of_SomeD)
  then show ?thesis
    using assms(2) Some F by (auto simp: pending_approve_def split: option.splits if_splits)
qed

lemma approve_agent_inv:
  assumes inv: "gw_inv c gid g"
  shows "gw_inv c gid (snd (approve_agent e fp name g))"
proof (cases "entry_for_fingerprint (g_pending g) fp")
  case None
  then show ?thesis using inv by (simp add: approve_agent_def)
next
  case (Some entry)
  obtain pk hn ip os where en: "entry = (pk, hn, ip, os)" by (cases entry)
  obtain r g1 where A: "approved_host e pk hn ip os name g = (r, g1)"
    by (cases "approved_host e pk hn ip os name g")
  then obtain f where g1: "g1 = g\<lparr>g_hosts := f\<rparr>" using approved_host_effect by blast
  have inv1: "gw_inv c gid g1" unfolding g1 by (rule gw_inv_shrinks [OF inv shrinks_hosts])
  show ?thesis
  proof (cases r)
    case None
    then show ?thesis using Some en A inv1 by (simp add: approve_agent_def)
  next
    case host: (Some host)
    obtain ok pend sent where P: "pending_approve (is_waiting g1) (g_pending g1) fp host = (ok, pend, sent)"
      by (metis surj_pair)
    have pi: "pend_inv c (g_pending g1)" using inv1 by (simp add: gw_inv_def pending_ok_def)
    note D = approve_delivery [OF pi P]
    have sub: "set pend \<subseteq> set (g_pending g1)" using D by (auto simp: set_hm_del)
    have pinv: "pend_inv c pend" using D pi by (auto simp: pend_inv_del)
    let ?g2 = "g1\<lparr>g_pending := pend\<rparr>"
    have inv2: "gw_inv c gid ?g2"
    proof -
      have "phase_ok c gid ?g2 i (g_phase ?g2 i)" for i
        using phase_inv [OF inv1, of i] by (auto intro: phase_ok_mono)
      moreover have "pending_ok c ?g2"
        using inv1 sub pinv by (auto simp: gw_inv_def pending_ok_def)
      moreover have "registry_ok ?g2" using inv1 by (simp add: gw_inv_def registry_ok_def)
      ultimately show ?thesis by (simp add: gw_inv_def)
    qed
    show ?thesis
    proof (cases sent)
      case None
      then show ?thesis using Some en A host P inv2 by (simp add: approve_agent_def)
    next
      case (Some s)
      obtain cid h where s: "s = (cid, h)" by (cases s)
      from D Some s obtain k en where K: "(k, en) \<in> set (g_pending g1)" "pe_waiter en = Some cid"
        "pend = hm_del k (g_pending g1)" "pubkey_fingerprint_hex c k = fp" by blast
      from no_waiter [OF inv1 K(1,2)] obtain hl n sg where
        ph: "g_phase g1 cid = AwaitApproval hl n sg" and pk: "hi_pubkey hl = k" by blast
      let ?g3 = "logged (EApprove cid fp h) (?g2\<lparr>g_mail := (g_mail ?g2)(cid := Some h)\<rparr>)"
      have "phase_ok c gid ?g3 i (g_phase ?g3 i)" for i
      proof (cases "i = cid")
        case True
        then show ?thesis
          using phase_inv [OF inv1, of cid] ph pk K(4) by (auto simp: logged_def signed_def)
      next
        case False
        have "g_phase ?g3 i = g_phase ?g2 i" by (simp add: logged_def)
        then show ?thesis
          by (simp only:) (rule phase_ok_mono [OF phase_inv [OF inv2]]; use False in \<open>auto simp: logged_def\<close>)
      qed
      moreover have "pending_ok c ?g3"
        unfolding pending_ok_def
      proof (intro conjI allI impI)
        show "pend_inv c (g_pending ?g3)" using pinv by (simp add: logged_def)
        fix k' en' w assume "(k', en') \<in> set (g_pending ?g3)" and w: "pe_waiter en' = Some w"
        then have m: "(k', en') \<in> set (g_pending g1)" "k' \<noteq> k"
          using K(3) by (auto simp: logged_def set_hm_del)
        show ph': "\<exists>h n s. g_phase ?g3 w = AwaitApproval h n s \<and> hi_pubkey h = k'"
          using no_waiter [OF inv1 m(1) w] by (simp add: logged_def)
        have "w \<noteq> cid" using no_waiter [OF inv1 m(1) w] m(2) ph pk by auto
        then show "g_mail ?g3 w = None"
          using waiter_no_mail [OF inv1 m(1) w] by (simp add: logged_def)
      qed
      moreover have "registry_ok ?g3" using inv2 by (simp add: gw_inv_def registry_ok_def logged_def)
      ultimately have "gw_inv c gid ?g3" by (simp add: gw_inv_def)
      then show ?thesis using \<open>entry_for_fingerprint (g_pending g) fp = Some entry\<close> en A host P Some s
        by (simp add: approve_agent_def)
    qed
  qed
qed

lemma gw_inv_step: "gw_step c gid g g' \<Longrightarrow> gw_inv c gid g \<Longrightarrow> gw_inv c gid g'"
proof (induction rule: gw_step.induct)
  case (connect g cid ip)
  let ?g = "g\<lparr>g_ip := (g_ip g)(cid := ip)\<rparr>"
  have "phase_ok c gid ?g i (g_phase ?g i)" for i
    using phase_inv [OF connect(2), of i] connect(1)
    by (cases "i = cid") (auto intro: phase_ok_mono)
  then have inv': "gw_inv c gid ?g"
    using connect(2) by (simp add: gw_inv_def pending_ok_def registry_ok_def)
  show ?case
  proof (rule gw_inv_set_phase [OF inv'])
    show "phase_ok c gid ?g cid AwaitHello" using phase_inv [OF connect(2), of cid] connect(1) by simp
    show "\<exists>h n s. AwaitHello = AwaitApproval h n s \<and> hi_pubkey h = k"
      if "(k, e) \<in> set (g_pending ?g)" "pe_waiter e = Some cid" for k e
      using no_waiter [OF inv' that] connect(1) by simp
    show "\<exists>h n s. AwaitHello = Connected hid h n s"
      if "hm_get (rg_inner (g_registry ?g)) hid = Some cid" for hid
      using no_registration [OF inv' that] connect(1) by simp
  qed
next
  case (subscribe g cid subs)
  have "rg_inner (set_subscribers rg cid subs) = rg_inner rg" for rg
    by (simp add: set_subscribers_def split: option.splits)
  then have "shrinks g (g\<lparr>g_registry := set_subscribers (g_registry g) cid subs\<rparr>)"
    by (simp add: shrinks_def)
  then show ?case by (rule gw_inv_shrinks [OF subscribe])
qed (auto intro: on_hello_inv on_response_inv on_approval_inv give_up_inv on_disconnect_inv
    approve_agent_inv gw_inv_shrinks)

lemma gw_reach_inv: "gw_reach c gid f0 g \<Longrightarrow> gw_inv c gid g"
proof (induction rule: gw_reach.induct)
  case init
  show ?case
    by (simp add: gw_inv_def gateway_init_def pending_ok_def registry_ok_def registry_new_def pend_inv_Nil)
qed (rule gw_inv_step)

text \<open>
  C2. Only proven and authorised agents are routable. However the steps of all connections,
  administrators and token operations interleave, every host the registry lists belongs to a
  connection that was challenged with a 32-byte nonce of its own, answered with a signature
  that verifies under its key over that nonce, its hostname and this gateway's id, and was
  let in for that host by a stored key equal to its own, by a bootstrap token for its hostname,
  by a loopback address, or by an administrator's approval of its key's fingerprint.
\<close>

theorem registered_agent_authorised:
  assumes "gw_reach c gid f0 g" and "hm_get (rg_inner (g_registry g)) hid = Some cid"
  shows "\<exists>h nonce sg. g_phase g cid = Connected hid h nonce sg \<and>
    EChallenge cid nonce \<in> set (g_log g) \<and> length nonce = 32 \<and>
    verify_signature c (hi_pubkey h) sg nonce (hi_hostname h) gid \<and> authorised c g cid hid h"
proof -
  have inv: "gw_inv c gid g" using assms(1) by (rule gw_reach_inv)
  from no_registration [OF inv assms(2)] obtain h n s where ph: "g_phase g cid = Connected hid h n s"
    by blast
  with phase_inv [OF inv, of cid] show ?thesis by (simp add: signed_def)
qed

section \<open>The ways in and out\<close>

lemma finish_auth_registered:
  "e_sent e \<Longrightarrow>
    is_online (g_registry (finish_auth e cid h nonce sg host g)) (he_id host) \<and>
    hm_get (rg_inner (g_registry (finish_auth e cid h nonce sg host g))) (he_id host) = Some cid \<and>
    get_remote_ip (g_registry (finish_auth e cid h nonce sg host g)) (he_id host) = Some (g_ip g cid)"
  by (simp add: finish_auth_def Let_def set_phase_def registry_register_def is_online_def
      hm_has_def get_remote_ip_def registry_conn_def split: option.split)

lemma on_response_verified:
  assumes "recv_challenge_response frames = Some sg"
    and "verify_signature c (hi_pubkey h) sg nonce (hi_hostname h) gid"
  shows "on_response c gid e ps cid h nonce frames True g =
    (case resolve_auth_path c e cid h g of
       (Authenticated host, g1) \<Rightarrow> finish_auth e cid h nonce sg host g1
     | (Reject, g1) \<Rightarrow> set_phase cid Closed g1
     | (PendingPath reason, g1) \<Rightarrow>
         if \<not> ps then set_phase cid Closed g1
         else (let (inserted, pend) = pending_insert c (g_pending g1) (e_now e) (hi_pubkey h)
                     (hi_hostname h) (g_ip g1 cid) (hi_os_id h) cid;
                   g2 = g1\<lparr>g_pending := pend\<rparr>
               in if inserted then set_phase cid (AwaitApproval h nonce sg) g2
                  else set_phase cid Closed g2))"
  using assms by (simp add: on_response_def)

text \<open>
  C18. An enrolled agent always gets in: whatever name, token or address it comes with, a
  connection that proves possession of an enrolled key is registered for that host, online,
  and labelled with the address it came from.
\<close>

theorem enrolled_key_connects:
  assumes "find_by_pubkey (g_hosts g) (hi_pubkey h) = Some host"
    and "recv_challenge_response frames = Some sg"
    and "verify_signature c (hi_pubkey h) sg nonce (hi_hostname h) gid" and "e_sent e"
  shows "let g' = on_response c gid e ps cid h nonce frames True g in
    hm_get (rg_inner (g_registry g')) (he_id host) = Some cid \<and>
    get_remote_ip (g_registry g') (he_id host) = Some (g_ip g cid) \<and> g_tokens g' = g_tokens g"
proof -
  have toks: "g_tokens (finish_auth e cid h nonce sg host g0) = g_tokens g0" for g0
    by (simp add: finish_auth_def Let_def set_phase_def split: option.split)
  have "resolve_auth_path c e cid h g = (Authenticated host, logged (EKnownKey cid host) g)"
    using assms(1) by (simp add: resolve_auth_path_def)
  then show ?thesis
    using finish_auth_registered [OF assms(4), of cid h nonce sg host "logged (EKnownKey cid host) g"] toks
    by (simp add: on_response_verified [OF assms(2,3)] Let_def) (simp add: logged_def)
qed

text \<open>
  C8. A hostname cannot be hijacked: a connection that presents an unknown key for an enrolled
  hostname is closed and changes no enrolled host, unless it carries a token that the registry
  accepts for that hostname with the re-enrolment flag. A token without the flag is spent
  although the connection is refused.
\<close>

theorem hostname_not_hijacked:
  assumes "find_by_pubkey (g_hosts g) (hi_pubkey h) = None"
    and "find_by_hostname (g_hosts g) (hi_hostname h) = Some existing"
    and "\<forall>v. hi_token h = Some v \<longrightarrow>
           validate_and_consume c (g_tokens g) (e_now e) v (hi_hostname h) = (r v, toks v) \<and> r v \<noteq> Some True"
  shows "g_phase (on_response c gid e ps cid h nonce frames t g) cid = Closed \<and>
    g_hosts (on_response c gid e ps cid h nonce frames t g) = g_hosts g \<and>
    g_registry (on_response c gid e ps cid h nonce frames t g) = g_registry g \<and>
    (\<forall>v sg. hi_token h = Some v \<longrightarrow> t \<longrightarrow> recv_challenge_response frames = Some sg \<longrightarrow>
       verify_signature c (hi_pubkey h) sg nonce (hi_hostname h) gid \<longrightarrow>
       g_tokens (on_response c gid e ps cid h nonce frames t g) = toks v)"
proof -
  obtain ru gu where ut: "use_token c e cid h g = (ru, gu)" by (cases "use_token c e cid h g")
  have U: "ru \<noteq> Some True" "g_hosts gu = g_hosts g" "g_registry gu = g_registry g"
    "\<forall>v. hi_token h = Some v \<longrightarrow> g_tokens gu = toks v"
    using ut assms(3) by (auto simp: use_token_def Let_def logged_def split: option.splits)
  have R: "resolve_auth_path c e cid h g = (Reject, gu)"
    using assms(1,2) U(1) by (simp add: resolve_auth_path_def ut)
  show ?thesis
    using U R by (simp add: on_response_def set_phase_def split: option.split)
qed

text \<open>
  The cleanup of an old connection takes the host offline: when an agent has reconnected
  and its old connection ends afterwards, the registry loses the host although the new
  connection is still up.
\<close>

theorem stale_disconnect_unregisters:
  assumes "g_phase g old = Connected hid h n s" and "g_phase g new = Connected hid h' n' s'" and "new \<noteq> old"
    and "hm_get (rg_inner (g_registry g)) hid = Some new"
  shows "\<not> is_online (g_registry (on_disconnect e old hid g)) hid \<and>
    g_phase (on_disconnect e old hid g) new = Connected hid h' n' s'"
  using assms by (simp add: on_disconnect_def set_phase_def registry_unregister_def is_online_def hm_has_def)

text \<open>
  A second connection that queues the same key evicts the first, and the first then evicts
  the second: once the first waiter notices that its sender is gone, no entry of that key is
  queued, although the second connection still waits.
\<close>

theorem requeue_evicts_both:
  assumes "g_phase g c1 = AwaitApproval h1 n1 s1" and "g_mail g c1 = None" and "c1 \<noteq> c2"
    and "hi_pubkey h1 = pk" and "hm_has (g_pending g) pk"
    and "\<forall>k en. (k, en) \<in> set (hm_del pk (g_pending g)) \<longrightarrow> pe_waiter en \<noteq> Some c1"
    and "hm_wf (g_pending g)"
    and "g' = set_phase c2 (AwaitApproval h2 n2 s2)
           (g\<lparr>g_pending := snd (pending_insert c (g_pending g) now pk hn ip os c2)\<rparr>)"
  shows "\<not> hm_has (g_pending (on_approval e c1 h1 n1 s1 g')) pk \<and>
    g_phase (on_approval e c1 h1 n1 s1 g') c2 = AwaitApproval h2 n2 s2"
proof -
  have ins: "snd (pending_insert c (g_pending g) now pk hn ip os c2) =
      hm_put pk (new_pending c now pk hn ip os c2) (g_pending g)"
    using assms(5) by (simp add: pending_insert_def Let_def)
  have "pe_waiter en \<noteq> Some c1" if "(k, en) \<in> set (g_pending g')" for k en
  proof -
    from that have "(k, en) = (pk, new_pending c now pk hn ip os c2) \<or> ((k, en) \<in> set (g_pending g) \<and> k \<noteq> pk)"
      using set_hm_put [OF assms(7)] by (fastforce simp: assms(8) ins set_phase_def)
    then show ?thesis using assms(3,6) by (auto simp: new_pending_def set_hm_del)
  qed
  then have none: "\<not> (\<exists>en \<in> set (hm_vals (g_pending g')). pe_waiter en = Some c1)"
    by (auto simp: hm_vals_def)
  have "g_mail g' c1 = None" using assms(2) by (simp add: assms(8) set_phase_def)
  with none have "on_approval e c1 h1 n1 s1 g' = give_up c1 h1 g'"
    by (simp add: on_approval_def)
  then show ?thesis
    using assms(3,4) by (simp add: give_up_def set_phase_def pending_remove_def assms(8))
qed

text \<open>
  An approval enrols the key before it knows whether the agent still waits: when a new
  host's queue entry is approved and the file is written, the key is enrolled under the queued
  hostname whatever the answer is, and the answer is an error when the waiter has left.
\<close>

theorem approval_enrols_even_if_gone:
  assumes "entry_for_fingerprint (g_pending g) fp = Some (pk, hn, ip, os)"
    and "find_by_hostname (g_hosts g) hn = None" and "find_by_pubkey (g_hosts g) pk = None"
    and "e_io e = IoOk"
  shows "find_by_pubkey (g_hosts (snd (approve_agent e fp name g))) pk =
      Some (new_host (e_uuid e) (e_ts e) hn pk (is_loopback_str ip) name os) \<and>
    ((\<forall>cid. \<not> is_waiting g cid) \<longrightarrow> fst (approve_agent e fp name g) = NoLongerPending)"
proof -
  let ?host = "new_host (e_uuid e) (e_ts e) hn pk (is_loopback_str ip) name os"
  let ?f = "Stored (hosts_load (g_hosts g) @ [?host])"
  have A: "approved_host e pk hn ip os name g = (Some ?host, g\<lparr>g_hosts := ?f\<rparr>)"
    using assms(2,4) by (simp add: approved_host_def register_host_def Let_def)
  have F: "find_by_pubkey ?f pk = Some ?host"
    using assms(3) by (simp add: find_by_pubkey_def find_by_id_append new_host_def)
  obtain ok pend sent where P: "pending_approve (is_waiting g) (g_pending g) fp ?host = (ok, pend, sent)"
    by (metis surj_pair)
  have w: "is_waiting (g\<lparr>g_hosts := ?f\<rparr>) = is_waiting g" by (simp add: is_waiting_def fun_eq_iff)
  have "fst (approve_agent e fp name g) = NoLongerPending" if "\<forall>cid. \<not> is_waiting g cid"
  proof -
    have "\<not> ok" using P that by (auto simp: pending_approve_def split: option.splits)
    then show ?thesis by (simp add: approve_agent_def assms(1) A w P Let_def)
  qed
  moreover have "g_hosts (snd (approve_agent e fp name g)) = ?f"
    by (simp add: approve_agent_def assms(1) A w P logged_def Let_def split: option.split prod.split)
  ultimately show ?thesis using F by simp
qed

section \<open>Witnesses\<close>

definition demo_pk :: string where "demo_pk = replicate 32 (CHR ''k'')"

definition demo_nonce :: string where "demo_nonce = replicate 32 (CHR ''n'')"

definition demo_enrolled :: host_entry where
  "demo_enrolled = new_host ''u1'' ''t0'' ''srv01'' demo_pk False None (Some ''debian'')"

definition demo_hello :: hello_info where
  "demo_hello = \<lparr>hi_hostname = ''srv01'', hi_is_local = False, hi_pubkey = demo_pk, hi_token = None,
     hi_os_id = None\<rparr>"

definition demo_sig :: string where
  "demo_sig = take 64 (build_challenge_payload demo_nonce ''srv01'' ''gw'' @ replicate 64 NUL)"

definition demo_env :: env where
  "demo_env = \<lparr>e_now = 0, e_uuid = ''u2'', e_ts = ''t1'', e_io = IoOk, e_io2 = IoOk, e_sent = True\<rparr>"

lemma demo_env_sel [simp]: "e_sent demo_env" "e_io demo_env = IoOk"
  by (simp_all add: demo_env_def)

definition demo_frames :: "frame list" where
  "demo_frames = [OtherFrame, Text (Some (Challengeresponse demo_sig))]"

definition demo_hello_frames :: "frame list" where
  "demo_hello_frames = [Text (Some (Hello \<lparr>h_version = 2, h_hostname = ''srv01'', h_agent_version = ''1'',
     h_is_local = False, h_public_key = Some demo_pk, h_bootstrap_token = None, h_os_id = None\<rparr>))]"

lemma demo_verified: "verify_signature toy_crypto demo_pk demo_sig demo_nonce ''srv01'' ''gw''"
  by (simp add: verify_signature_def toy_crypto_def demo_pk_def demo_sig_def)

lemma demo_response: "recv_challenge_response demo_frames = Some demo_sig"
  by (simp add: demo_frames_def decode_message_def)

lemma demo_hello_read: "await_hello demo_hello_frames = Some demo_hello"
  by (simp add: demo_hello_frames_def decode_message_def demo_hello_def)

definition demo_gw1 :: gateway where
  "demo_gw1 = on_hello toy_crypto 1 demo_hello_frames demo_nonce True
     (set_phase 1 AwaitHello ((gateway_init (Stored [demo_enrolled]))
        \<lparr>g_ip := (g_ip (gateway_init (Stored [demo_enrolled])))(1 := ''10.0.0.5'')\<rparr>))"

lemma demo_gw1_facts:
  "gw_reach toy_crypto ''gw'' (Stored [demo_enrolled]) demo_gw1"
  "g_phase demo_gw1 1 = AwaitResponse demo_hello demo_nonce"
  "find_by_pubkey (g_hosts demo_gw1) demo_pk = Some demo_enrolled"
proof -
  let ?g0 = "gateway_init (Stored [demo_enrolled])"
  let ?g1 = "set_phase 1 AwaitHello (?g0\<lparr>g_ip := (g_ip ?g0)(1 := ''10.0.0.5'')\<rparr>)"
  have "gw_reach toy_crypto ''gw'' (Stored [demo_enrolled]) ?g1"
    by (rule gw_reach.step [OF gw_reach.init gw_step.connect]) (simp add: gateway_init_def)
  then show "gw_reach toy_crypto ''gw'' (Stored [demo_enrolled]) demo_gw1"
    unfolding demo_gw1_def
    by (rule gw_reach.step [OF _ gw_step.hello]) (simp_all add: set_phase_def demo_nonce_def)
  show "g_phase demo_gw1 1 = AwaitResponse demo_hello demo_nonce"
    "find_by_pubkey (g_hosts demo_gw1) demo_pk = Some demo_enrolled"
    by (simp_all add: demo_gw1_def on_hello_def demo_hello_read generate_nonce_def set_phase_def
        logged_def gateway_init_def find_by_pubkey_def demo_enrolled_def new_host_def)
qed

definition demo_gw2 :: gateway where
  "demo_gw2 = on_response toy_crypto ''gw'' demo_env True 1 demo_hello demo_nonce demo_frames True demo_gw1"

theorem enrolled_key_connects_witness:
  "hm_get (rg_inner (g_registry demo_gw2)) ''u1'' = Some 1"
proof -
  have "hi_pubkey demo_hello = demo_pk" "hi_hostname demo_hello = ''srv01''" "he_id demo_enrolled = ''u1''"
    by (simp_all add: demo_hello_def demo_enrolled_def new_host_def)
  then show ?thesis
    using enrolled_key_connects [of demo_gw1 demo_hello demo_enrolled demo_frames demo_sig toy_crypto
        demo_nonce "''gw''" demo_env True 1] demo_gw1_facts(3) demo_response demo_verified
    by (simp add: demo_gw2_def Let_def)
qed

lemma demo_gw2_online: "hm_get (rg_inner (g_registry demo_gw2)) ''u1'' = Some 1"
proof -
  have h: "hi_pubkey demo_hello = demo_pk" "hi_hostname demo_hello = ''srv01''" "he_id demo_enrolled = ''u1''"
    by (simp_all add: demo_hello_def demo_enrolled_def new_host_def)
  have "resolve_auth_path toy_crypto demo_env 1 demo_hello demo_gw1 =
      (Authenticated demo_enrolled, logged (EKnownKey 1 demo_enrolled) demo_gw1)"
    using demo_gw1_facts(3) by (simp add: resolve_auth_path_def h)
  then show ?thesis
    using finish_auth_registered [OF demo_env_sel(1), of 1 demo_hello demo_nonce demo_sig demo_enrolled]
    by (simp add: demo_gw2_def on_response_verified [OF demo_response] demo_verified h)
qed

theorem registered_agent_authorised_witness:
  "\<exists>h nonce sg. verify_signature toy_crypto (hi_pubkey h) sg nonce (hi_hostname h) ''gw'' \<and>
     authorised toy_crypto demo_gw2 1 ''u1'' h"
proof -
  have "gw_reach toy_crypto ''gw'' (Stored [demo_enrolled]) demo_gw2"
    unfolding demo_gw2_def
    by (rule gw_reach.step [OF demo_gw1_facts(1) gw_step.response [where g = demo_gw1], OF demo_gw1_facts(2)])
  from registered_agent_authorised [OF this demo_gw2_online] show ?thesis by blast
qed

theorem hostname_not_hijacked_witness:
  "g_hosts (on_response toy_crypto ''gw'' demo_env True 1 (demo_hello\<lparr>hi_pubkey := ''other''\<rparr>) demo_nonce
     demo_frames True demo_gw1) = Stored [demo_enrolled]"
proof -
  have f: "g_hosts demo_gw1 = Stored [demo_enrolled]"
    by (simp add: demo_gw1_def on_hello_def demo_hello_read generate_nonce_def set_phase_def
        logged_def gateway_init_def)
  have a: "find_by_pubkey (g_hosts demo_gw1) (hi_pubkey (demo_hello\<lparr>hi_pubkey := ''other''\<rparr>)) = None"
    by (simp add: f find_by_pubkey_def demo_enrolled_def new_host_def demo_pk_def numeral_eq_Suc)
  have b: "find_by_hostname (g_hosts demo_gw1) (hi_hostname (demo_hello\<lparr>hi_pubkey := ''other''\<rparr>)) = Some demo_enrolled"
    by (simp add: f find_by_hostname_def demo_enrolled_def new_host_def demo_hello_def)
  have "\<forall>v. hi_token (demo_hello\<lparr>hi_pubkey := ''other''\<rparr>) = Some v \<longrightarrow>
      validate_and_consume toy_crypto (g_tokens demo_gw1) (e_now demo_env) v
        (hi_hostname (demo_hello\<lparr>hi_pubkey := ''other''\<rparr>)) = (None, []) \<and> (None :: bool option) \<noteq> Some True"
    by (simp add: demo_hello_def)
  from hostname_not_hijacked [where r = "\<lambda>_. None" and toks = "\<lambda>_. []", OF a b this] f
  show ?thesis by simp
qed

definition two_conns :: gateway where
  "two_conns = (gateway_init (Stored [demo_enrolled]))
     \<lparr>g_phase := (\<lambda>i. if i = 1 \<or> i = 2 then Connected ''u1'' demo_hello demo_nonce demo_sig else NoConn),
      g_registry := registry_register (registry_register registry_new 1 ''u1'' ''ip'') 2 ''u1'' ''ip''\<rparr>"

theorem stale_disconnect_unregisters_witness:
  "is_online (g_registry two_conns) ''u1'' \<and>
   \<not> is_online (g_registry (on_disconnect demo_env 1 ''u1'' two_conns)) ''u1''"
proof -
  have "g_phase two_conns 1 = Connected ''u1'' demo_hello demo_nonce demo_sig"
    "g_phase two_conns 2 = Connected ''u1'' demo_hello demo_nonce demo_sig" "(2::nat) \<noteq> 1"
    "hm_get (rg_inner (g_registry two_conns)) ''u1'' = Some 2"
    by (simp_all add: two_conns_def registry_register_def registry_new_def)
  from stale_disconnect_unregisters [OF this] this(4) show ?thesis
    by (simp add: is_online_def hm_has_def)
qed

definition queued_gw :: gateway where
  "queued_gw = (gateway_init Missing)
     \<lparr>g_phase := (\<lambda>i. if i = 1 then AwaitApproval demo_hello demo_nonce demo_sig else NoConn),
      g_pending := [(demo_pk, new_pending toy_crypto 0 demo_pk ''srv01'' ''ip'' None 1)]\<rparr>"

theorem requeue_evicts_both_witness:
  "\<not> hm_has (g_pending (on_approval demo_env 1 demo_hello demo_nonce demo_sig
     (set_phase 2 (AwaitApproval demo_hello demo_nonce demo_sig)
        (queued_gw\<lparr>g_pending := snd (pending_insert toy_crypto (g_pending queued_gw) 5 demo_pk ''srv01''
            ''ip'' None 2)\<rparr>)))) demo_pk"
proof -
  let ?g' = "set_phase 2 (AwaitApproval demo_hello demo_nonce demo_sig)
        (queued_gw\<lparr>g_pending := snd (pending_insert toy_crypto (g_pending queued_gw) 5 demo_pk ''srv01'' ''ip'' None 2)\<rparr>)"
  have "g_phase queued_gw 1 = AwaitApproval demo_hello demo_nonce demo_sig" "g_mail queued_gw 1 = None"
    "(1::nat) \<noteq> 2" "hi_pubkey demo_hello = demo_pk" "hm_has (g_pending queued_gw) demo_pk"
    "\<forall>k en. (k, en) \<in> set (hm_del demo_pk (g_pending queued_gw)) \<longrightarrow> pe_waiter en \<noteq> Some 1"
    "hm_wf (g_pending queued_gw)"
    by (simp_all add: queued_gw_def gateway_init_def demo_hello_def hm_has_def hm_wf_def)
  from requeue_evicts_both [OF this refl] show ?thesis by blast
qed

theorem approval_enrols_even_if_gone_witness:
  "fst (approve_agent demo_env (pubkey_fingerprint_hex toy_crypto demo_pk) None
     (queued_gw\<lparr>g_phase := (\<lambda>_. Closed)\<rparr>)) = NoLongerPending"
proof -
  let ?g = "queued_gw\<lparr>g_phase := (\<lambda>_. Closed)\<rparr>"
  have "entry_for_fingerprint (g_pending ?g) (pubkey_fingerprint_hex toy_crypto demo_pk) =
      Some (demo_pk, ''srv01'', ''ip'', None)"
    by (simp add: queued_gw_def entry_for_fingerprint_def by_fingerprint_def hm_vals_def new_pending_def)
  moreover have "find_by_hostname (g_hosts ?g) ''srv01'' = None" "find_by_pubkey (g_hosts ?g) demo_pk = None"
    by (simp_all add: queued_gw_def gateway_init_def find_by_hostname_def find_by_pubkey_def)
  moreover have "\<forall>cid. \<not> is_waiting ?g cid" by (simp add: is_waiting_def)
  ultimately show ?thesis
    using approval_enrols_even_if_gone [of ?g "pubkey_fingerprint_hex toy_crypto demo_pk" demo_pk "''srv01''"
        "''ip''" None demo_env None] by simp
qed

end
