(* ===== verification/AuditLog.thy ===== *)
theory AuditLog
  imports Json
begin

text \<open>
  The audit trail: how the gateway (\<open>gateway/src/audit.rs\<close>) and the agent
  (\<open>agent/src/audit.rs\<close>) write a line, and how the agent's \<open>audit.query\<close> handler
  (\<open>agent/src/handlers/audit_query.rs\<close>) reads the file back. Timestamps are arguments.
\<close>

definition AUDIT_LOG :: string where
  "AUDIT_LOG = ''/var/log/tenodera_audit.log''"

section \<open>Writing\<close>

definition gw_sanitize_char :: "string \<Rightarrow> string" where
  "gw_sanitize_char ch =
     (if ch = [NL] then [BSL, CHR ''n''] else if ch = [CR] then [BSL, CHR ''r'']
      else if ch = [TAB] then [BSL, CHR ''t''] else if ch = [NUL] then [BSL, CHR ''0'']
      else if is_control_char ch then concat (map (\<lambda>b. [BSL, CHR ''x''] @ hex2 b) ch)
      else ch)"

definition gw_sanitize :: "string \<Rightarrow> string" where
  "gw_sanitize s = concat (map gw_sanitize_char (chars_of s))"

definition agent_sanitize :: "string \<Rightarrow> string" where
  "agent_sanitize s = replace_char CR [BSL, CHR ''r''] (replace_char NL [BSL, CHR ''n''] s)"

definition audit_body ::
  "string \<Rightarrow> string \<Rightarrow> string \<Rightarrow> string \<Rightarrow> bool \<Rightarrow> string \<Rightarrow> string" where
  "audit_body ts user action target ok details =
     ''['' @ ts @ '']'' @ '' user='' @ user @ '' action='' @ action @ '' target='' @ target
       @ '' result='' @ (if ok then ''ok'' else ''fail'') @ '' details='' @ details"

definition audit_line ::
  "(string \<Rightarrow> string) \<Rightarrow> string \<Rightarrow> string \<Rightarrow> string \<Rightarrow> string \<Rightarrow> bool \<Rightarrow> string \<Rightarrow> string" where
  "audit_line sanitize ts user action target ok details =
     audit_body ts (sanitize user) (sanitize action) (sanitize target) ok (sanitize details) @ [NL]"

text \<open>The contract of a sanitizer, and what it gives: whatever the fields are, one record is one
  line of the file.\<close>

locale sanitizer =
  fixes san :: "string \<Rightarrow> string"
  assumes no_newline: "NL \<notin> set (san s)"
begin

lemma body_no_newline:
  "NL \<notin> set ts \<Longrightarrow> NL \<notin> set (audit_body ts (san u) (san a) (san t) ok (san d))"
  using no_newline by (auto simp: audit_body_def)

lemma one_line:
  assumes "NL \<notin> set ts"
  shows "lines (audit_line san ts u a t ok d @ more) =
    strip_cr (audit_body ts (san u) (san a) (san t) ok (san d)) # lines more"
  using lines_append_NL [OF body_no_newline [OF assms], of u a t ok d more]
  by (simp add: audit_line_def)

end

lemma NL_not_hex: "NL \<notin> set (hex2 b)"
proof -
  have "hex_digit n \<noteq> NL" if "n < 16" for n
  proof -
    have "byte (hex_digit n) \<noteq> 10"
      using that by (auto simp: hex_digit_def byte_def)
    then show ?thesis by (auto simp: byte_def)
  qed
  moreover have "byte b div 16 < 16" "byte b mod 16 < 16" using byte_less_256 [of b] by auto
  ultimately have "hex_digit (byte b div 16) \<noteq> NL" "hex_digit (byte b mod 16) \<noteq> NL" by blast+
  then show ?thesis by (simp add: hex2_def not_sym)
qed

lemma gw_sanitize_char_NL:
  assumes "ch \<in> set (chars_of s)"
  shows "NL \<notin> set (gw_sanitize_char ch)"
proof -
  obtain c cs where ch: "ch = c # cs" and cs: "list_all is_cont cs" "is_ascii c \<longrightarrow> cs = []"
    using chars_of_shape [OF assms] by blast
  have "NL \<notin> set cs" using cs(1) by (auto simp: list_all_iff is_cont_def byte_def)
  then have nl: "NL \<in> set ch \<Longrightarrow> ch = [NL]" using ch cs(2) by (auto simp: is_ascii_def byte_def)
  have "NL \<notin> set (concat (map (\<lambda>b. [BSL, CHR ''x''] @ hex2 b) ch))"
    using NL_not_hex by auto
  then show ?thesis using nl by (auto simp: gw_sanitize_char_def simp del: set_concat)
qed

interpretation gw_audit: sanitizer gw_sanitize
proof unfold_locales
  show "NL \<notin> set (gw_sanitize s)" for s
    using gw_sanitize_char_NL by (auto simp: gw_sanitize_def)
qed

interpretation agent_audit: sanitizer agent_sanitize
  by unfold_locales (auto simp: agent_sanitize_def replace_char_def split: if_splits)

text \<open>
  An audit record cannot be forged by its contents: whatever users, targets and details a
  request carries, each record the gateway or the agent appends is read back as exactly one
  line, in the order written.
\<close>

theorem audit_records_are_lines:
  assumes "\<forall>r \<in> set recs. NL \<notin> set (fst r)" and "san = gw_sanitize \<or> san = agent_sanitize"
  shows "lines (concat (map (\<lambda>(ts, u, a, t, ok, d). audit_line san ts u a t ok d) recs)) =
         map (\<lambda>(ts, u, a, t, ok, d). strip_cr (audit_body ts (san u) (san a) (san t) ok (san d))) recs"
  using assms(1)
proof (induction recs)
  case (Cons r recs)
  obtain ts u a t ok d where r: "r = (ts, u, a, t, ok, d)" by (metis surj_pair)
  show ?case
    using Cons assms(2) by (auto simp: r gw_audit.one_line agent_audit.one_line)
qed simp

section \<open>Reading\<close>

datatype parsed = NoEntry | LinePanic | Entry jmap

definition parse_line :: "string \<Rightarrow> parsed" where
  "parse_line line0 =
     (let line = trim line0
      in if \<not> starts_with ''['' line then NoEntry
         else (case find_str '']'' line of
           None \<Rightarrow> NoEntry
         | Some cl \<Rightarrow>
             (case (str_slice line 1 cl, str_slice line (cl + 1) (length line)) of
                (Some ts, Some rest) \<Rightarrow>
                  (case (find_str ''user='' rest, find_str '' action='' rest, find_str '' target='' rest,
                         find_str '' result='' rest, find_str '' details='' rest) of
                     (Some iu, Some ia, Some it, Some ir, Some idt) \<Rightarrow>
                       (case (str_slice rest (iu + 5) ia, str_slice rest (ia + 8) it,
                              str_slice rest (it + 8) ir, str_slice rest (ir + 8) idt,
                              str_slice rest (idt + 9) (length rest)) of
                          (Some u, Some a, Some t, Some r, Some d) \<Rightarrow>
                            Entry [(''ts'', JStr ts), (''user'', JStr u), (''action'', JStr a),
                                   (''target'', JStr t), (''result'', JStr r), (''details'', JStr d)]
                        | _ \<Rightarrow> LinePanic)
                   | _ \<Rightarrow> NoEntry)
              | _ \<Rightarrow> LinePanic)))"

text \<open>\<open>filter_map(parse_line).take(limit)\<close> is lazy: lines beyond the limit are not parsed.
  \<open>None\<close> is the panic.\<close>

fun take_entries :: "nat \<Rightarrow> string list \<Rightarrow> json list option" where
  "take_entries 0 ls = Some []"
| "take_entries (Suc n) [] = Some []"
| "take_entries (Suc n) (l # ls) =
     (case parse_line l of
        NoEntry \<Rightarrow> take_entries (Suc n) ls
      | LinePanic \<Rightarrow> None
      | Entry e \<Rightarrow> map_option (\<lambda>es. JObj e # es) (take_entries n ls))"

definition read_audit :: "string option \<Rightarrow> nat \<Rightarrow> json option" where
  "read_audit file limit =
     (let content = unwrap_or [] file;
          total = length (filter (\<lambda>l. trim l \<noteq> []) (lines content))
      in map_option (\<lambda>es. JObj [(''entries'', JArr es), (''total'', JInt (int total)),
                                (''path'', JStr AUDIT_LOG)])
           (take_entries limit (rev (lines content))))"

section \<open>Reading back what was written\<close>

abbreviation EQ :: char where "EQ \<equiv> CHR ''=''"

lemma suffix_diff_last: "m \<noteq> [] \<Longrightarrow> last p \<noteq> last m \<Longrightarrow> p \<noteq> q @ m"
  by auto

lemma trim_body:
  assumes "trim_end d = d"
  shows "trim (audit_body ts u a t ok d) = audit_body ts u a t ok d"
proof -
  let ?pre = "''['' @ ts @ '']'' @ '' user='' @ u @ '' action='' @ a @ '' target='' @ t
       @ '' result='' @ (if ok then ''ok'' else ''fail'') @ '' details''"
  have b: "audit_body ts u a t ok d = ?pre @ EQ # d" by (simp add: audit_body_def)
  have ws: "\<not> is_ws_char ''[''" "\<not> is_ws_char [EQ]"
    by (simp_all add: is_ws_char_single byte_def)
  obtain r where r: "audit_body ts u a t ok d = CHR ''['' # r" by (simp add: audit_body_def)
  have "trim_start (audit_body ts u a t ok d) = audit_body ts u a t ok d"
    unfolding r by (rule trim_start_Cons) (use ws in \<open>simp_all add: is_ascii_def byte_def\<close>)
  moreover have "trim_end (?pre @ EQ # d) = ?pre @ EQ # trim_end d"
    by (rule trim_end_append) (use ws in \<open>simp_all add: is_ascii_def byte_def\<close>)
  ultimately show ?thesis using assms by (simp add: trim_def b)
qed

text \<open>The searches for the five markers, in a record whose first three fields have no equals sign.\<close>

definition audit_rest :: "string \<Rightarrow> string \<Rightarrow> string \<Rightarrow> string \<Rightarrow> string \<Rightarrow> string" where
  "audit_rest u a t r d = '' user='' @ u @ '' action='' @ a @ '' target='' @ t @ '' result='' @ r @ '' details='' @ d"

lemma find_marker:
  assumes "EQ \<notin> set m" and "\<And>q w. w \<in> set (butlast (split_on EQ (x @ m))) \<Longrightarrow> w \<noteq> q @ m"
  shows "find_str (m @ [EQ]) (x @ (m @ [EQ]) @ y) = Some (length x)"
proof (rule find_str_first)
  have "\<not> contains_str (m @ [EQ]) (x @ m)"
    using contains_before_sep [OF assms(1)] assms(2) by blast
  then show "\<not> contains_str (m @ [EQ]) (x @ butlast (m @ [EQ]))" by simp
qed simp

lemma split_fields:
  "EQ \<notin> set p \<Longrightarrow> split_on EQ (p @ EQ # x) = p # split_on EQ x"
  by (rule split_on_append_sep)

lemma markers:
  assumes "EQ \<notin> set u" and "EQ \<notin> set a" and "EQ \<notin> set t" and "EQ \<notin> set r"
  shows "find_str ''user='' (audit_rest u a t r d) = Some 1"
    and "find_str '' action='' (audit_rest u a t r d) = Some (length u + 6)"
    and "find_str '' target='' (audit_rest u a t r d) = Some (length u + 6 + (length a + 8))"
    and "find_str '' result='' (audit_rest u a t r d) = Some (length u + 6 + (length a + 8) + (length t + 8))"
    and "find_str '' details='' (audit_rest u a t r d) =
           Some (length u + 6 + (length a + 8) + (length t + 8) + (length r + 8))"
proof -
  let ?x1 = "'' user='' @ u"
  let ?x2 = "?x1 @ '' action='' @ a"
  let ?x3 = "?x2 @ '' target='' @ t"
  let ?x4 = "?x3 @ '' result='' @ r"
  have s1: "split_on EQ (?x1 @ '' action'') = ['' user'', u @ '' action'']"
    using assms by (simp add: split_on_no_sep)
  have s2: "split_on EQ (?x2 @ '' target'') = ['' user'', u @ '' action'', a @ '' target'']"
    using assms split_on_append_sep [of EQ "u @ '' action''" "a @ '' target''"] by (simp add: split_on_no_sep)
  have s3: "split_on EQ (?x3 @ '' result'') = ['' user'', u @ '' action'', a @ '' target'', t @ '' result'']"
    using assms split_on_append_sep [of EQ "u @ '' action''" "a @ '' target='' @ t @ '' result''"]
      split_on_append_sep [of EQ "a @ '' target''" "t @ '' result''"] by (simp add: split_on_no_sep)
  have s4: "split_on EQ (?x4 @ '' details'') =
      ['' user'', u @ '' action'', a @ '' target'', t @ '' result'', r @ '' details'']"
    using assms split_on_append_sep [of EQ "u @ '' action''" "a @ '' target='' @ t @ '' result='' @ r @ '' details''"]
      split_on_append_sep [of EQ "a @ '' target''" "t @ '' result='' @ r @ '' details''"]
      split_on_append_sep [of EQ "t @ '' result''" "r @ '' details''"] by (simp add: split_on_no_sep)
  show "find_str ''user='' (audit_rest u a t r d) = Some 1"
    using find_marker [of "''user''" "'' ''" "u @ '' action='' @ a @ '' target='' @ t @ '' result='' @ r @ '' details='' @ d"]
    by (simp add: audit_rest_def)
  have "w \<noteq> q @ '' action''" if "w \<in> set (butlast (split_on EQ (?x1 @ '' action'')))" for w q
    using that unfolding s1 by (auto intro!: suffix_diff_last)
  then show "find_str '' action='' (audit_rest u a t r d) = Some (length u + 6)"
    using find_marker [of "'' action''" ?x1 "a @ '' target='' @ t @ '' result='' @ r @ '' details='' @ d"]
    by (simp add: audit_rest_def)
  have "w \<noteq> q @ '' target''" if "w \<in> set (butlast (split_on EQ (?x2 @ '' target'')))" for w q
    using that unfolding s2 by (auto intro!: suffix_diff_last)
  then show "find_str '' target='' (audit_rest u a t r d) = Some (length u + 6 + (length a + 8))"
    using find_marker [of "'' target''" ?x2 "t @ '' result='' @ r @ '' details='' @ d"]
    by (simp add: audit_rest_def)
  have "w \<noteq> q @ '' result''" if "w \<in> set (butlast (split_on EQ (?x3 @ '' result'')))" for w q
  proof -
    have "a @ '' target'' \<noteq> q @ '' result''"
      using append_eq_append_conv [of "'' target''" "'' result''" a q] by simp
    moreover have "'' user'' \<noteq> q @ '' result''" "u @ '' action'' \<noteq> q @ '' result''"
      by (rule suffix_diff_last; simp)+
    ultimately show ?thesis using that unfolding s3 by auto
  qed
  then show "find_str '' result='' (audit_rest u a t r d) = Some (length u + 6 + (length a + 8) + (length t + 8))"
    using find_marker [of "'' result''" ?x3 "r @ '' details='' @ d"]
    by (simp add: audit_rest_def)
  have "w \<noteq> q @ '' details''" if "w \<in> set (butlast (split_on EQ (?x4 @ '' details'')))" for w q
    using that unfolding s4 by (auto intro!: suffix_diff_last)
  then show "find_str '' details='' (audit_rest u a t r d) =
           Some (length u + 6 + (length a + 8) + (length t + 8) + (length r + 8))"
    using find_marker [of "'' details''" ?x4 d]
    by (simp add: audit_rest_def)
qed

lemma str_slice_mid': "utf8_start (b @ d) \<Longrightarrow> utf8_start d \<Longrightarrow> i = length a \<Longrightarrow> j = length a + length b \<Longrightarrow>
    str_slice (a @ b @ d) i j = Some b"
  by (simp add: str_slice_mid)

lemma not_cont_markers: "\<not> is_cont (CHR '' '')" "\<not> is_cont (CHR '']'')"
  by (simp_all add: is_cont_def byte_def)

lemma str_slice_cut:
  "utf8_start y \<Longrightarrow> i = length x \<Longrightarrow> j = length x + length y \<Longrightarrow>
    str_slice (x @ y @ CHR '' '' # z) i j = Some y"
  by (intro str_slice_mid' utf8_start_append) (simp_all add: not_cont_markers)

lemma audit_rest_slices:
  assumes "utf8_start u" and "utf8_start a" and "utf8_start t" and "utf8_start r" and "utf8_start d"
  shows "str_slice (audit_rest u a t r d) 6 (length u + 6) = Some u"
    and "str_slice (audit_rest u a t r d) (length u + 6 + 8) (length u + 6 + (length a + 8)) = Some a"
    and "str_slice (audit_rest u a t r d) (length u + 6 + (length a + 8) + 8)
           (length u + 6 + (length a + 8) + (length t + 8)) = Some t"
    and "str_slice (audit_rest u a t r d) (length u + 6 + (length a + 8) + (length t + 8) + 8)
           (length u + 6 + (length a + 8) + (length t + 8) + (length r + 8)) = Some r"
    and "str_slice (audit_rest u a t r d) (length u + 6 + (length a + 8) + (length t + 8) + (length r + 8) + 9)
           (length (audit_rest u a t r d)) = Some d"
proof -
  show "str_slice (audit_rest u a t r d) 6 (length u + 6) = Some u"
    using str_slice_cut [OF assms(1), of 6 "'' user=''" "length u + 6" "''action='' @ a @ '' target='' @ t @ '' result='' @ r @ '' details='' @ d"]
    by (simp add: audit_rest_def)
  show "str_slice (audit_rest u a t r d) (length u + 6 + 8) (length u + 6 + (length a + 8)) = Some a"
    using str_slice_cut [OF assms(2), of "length u + 6 + 8" "'' user='' @ u @ '' action=''" "length u + 6 + (length a + 8)"
        "''target='' @ t @ '' result='' @ r @ '' details='' @ d"]
    by (simp add: audit_rest_def)
  show "str_slice (audit_rest u a t r d) (length u + 6 + (length a + 8) + 8)
           (length u + 6 + (length a + 8) + (length t + 8)) = Some t"
    using str_slice_cut [OF assms(3), of "length u + 6 + (length a + 8) + 8" "'' user='' @ u @ '' action='' @ a @ '' target=''"
        "length u + 6 + (length a + 8) + (length t + 8)" "''result='' @ r @ '' details='' @ d"]
    by (simp add: audit_rest_def)
  show "str_slice (audit_rest u a t r d) (length u + 6 + (length a + 8) + (length t + 8) + 8)
           (length u + 6 + (length a + 8) + (length t + 8) + (length r + 8)) = Some r"
    using str_slice_cut [OF assms(4), of "length u + 6 + (length a + 8) + (length t + 8) + 8"
        "'' user='' @ u @ '' action='' @ a @ '' target='' @ t @ '' result=''"
        "length u + 6 + (length a + 8) + (length t + 8) + (length r + 8)" "''details='' @ d"]
    by (simp add: audit_rest_def)
  show "str_slice (audit_rest u a t r d) (length u + 6 + (length a + 8) + (length t + 8) + (length r + 8) + 9)
           (length (audit_rest u a t r d)) = Some d"
    using str_slice_mid' [of d "[]" "length u + 6 + (length a + 8) + (length t + 8) + (length r + 8) + 9"
        "'' user='' @ u @ '' action='' @ a @ '' target='' @ t @ '' result='' @ r @ '' details=''"
        "length (audit_rest u a t r d)"] assms(5)
    by (simp add: audit_rest_def)
qed

lemma parse_line_at:
  assumes "trim line = line" and "starts_with ''['' line" and "find_str '']'' line = Some cl"
    and "str_slice line 1 cl = Some ts" and "str_slice line (cl + 1) (length line) = Some rest"
    and "find_str ''user='' rest = Some iu" and "find_str '' action='' rest = Some ia"
    and "find_str '' target='' rest = Some it" and "find_str '' result='' rest = Some ir"
    and "find_str '' details='' rest = Some idt"
    and "str_slice rest (iu + 5) ia = Some u" and "str_slice rest (ia + 8) it = Some a"
    and "str_slice rest (it + 8) ir = Some t" and "str_slice rest (ir + 8) idt = Some r"
    and "str_slice rest (idt + 9) (length rest) = Some d"
  shows "parse_line line = Entry [(''ts'', JStr ts), (''user'', JStr u), (''action'', JStr a),
    (''target'', JStr t), (''result'', JStr r), (''details'', JStr d)]"
  unfolding parse_line_def assms(1) Let_def by (simp only: assms option.case prod.case if_False not_True_eq_False)

text \<open>
  C19. The audit view shows what was recorded: a line whose user, action and target contain no
  equals sign is read back into exactly the fields it was written from, whatever its details,
  provided the details carry no white space at their end (which the reader trims).
\<close>

theorem audit_line_roundtrip:
  assumes "CHR '']'' \<notin> set ts" and "EQ \<notin> set u" and "EQ \<notin> set a" and "EQ \<notin> set t"
    and "\<forall>s \<in> {ts, u, a, t, d}. utf8_start s" and "trim_end d = d"
  shows "parse_line (audit_body ts u a t ok d) =
    Entry [(''ts'', JStr ts), (''user'', JStr u), (''action'', JStr a), (''target'', JStr t),
           (''result'', JStr (if ok then ''ok'' else ''fail'')), (''details'', JStr d)]"
proof -
  let ?r = "if ok then ''ok'' else ''fail''"
  let ?rest = "audit_rest u a t ?r d"
  have body: "audit_body ts u a t ok d = ''['' @ ts @ '']'' @ ?rest"
    by (simp add: audit_body_def audit_rest_def)
  have r: "EQ \<notin> set ?r" "utf8_start ?r" by (simp_all add: is_cont_def byte_def)
  have cl: "find_str '']'' (''['' @ ts @ '']'' @ ?rest) = Some (1 + length ts)"
  proof -
    have "\<not> contains_str '']'' ((''['' @ ts) @ butlast '']'')" using assms(1) by (simp add: contains_char_iff)
    from find_str_first [OF _ this, of ?rest] show ?thesis by (simp del: find_str.simps)
  qed
  have ur: "utf8_start ?rest" by (simp add: audit_rest_def not_cont_markers)
  have s1: "str_slice (''['' @ ts @ '']'' @ ?rest) 1 (1 + length ts) = Some ts"
    using assms(5) not_cont_markers
    by (intro str_slice_mid' utf8_start_append) (simp_all add: audit_rest_def)
  have s2: "str_slice (''['' @ ts @ '']'' @ ?rest) (1 + length ts + 1)
      (length (''['' @ ts @ '']'' @ ?rest)) = Some ?rest"
    using ur str_slice_mid' [of ?rest "[]" "1 + length ts + 1" "''['' @ ts @ '']''"] by simp
  have u: "utf8_start u" "utf8_start a" "utf8_start t" "utf8_start d" using assms(5) by simp_all
  have tr: "trim (''['' @ ts @ '']'' @ ?rest) = ''['' @ ts @ '']'' @ ?rest"
    using trim_body [OF assms(6)] body by metis
  have st: "starts_with ''['' (''['' @ ts @ '']'' @ ?rest)" by (simp add: starts_with_iff)
  have s6: "str_slice ?rest (1 + 5) (length u + 6) = Some u"
    using audit_rest_slices(1) [OF u(1-3) r(2) u(4)] by simp
  show ?thesis
    unfolding body
    by (rule parse_line_at [OF tr st cl s1 s2 markers [OF assms(2-4) r(1)] s6
          audit_rest_slices(2-5) [OF u(1-3) r(2) u(4)]])
qed

theorem audit_line_roundtrip_witness:
  "parse_line (audit_body ''2026-07-17T19:14:00Z'' ''alice'' ''pkg.install'' ''nginx'' True ''ip=1'') =
    Entry [(''ts'', JStr ''2026-07-17T19:14:00Z''), (''user'', JStr ''alice''), (''action'', JStr ''pkg.install''),
           (''target'', JStr ''nginx''), (''result'', JStr ''ok''), (''details'', JStr ''ip=1'')]"
proof -
  have "trim_end ''ip=1'' = ''ip=1''"
    by (simp add: trim_end_def is_ascii_def byte_def is_ws_char_single)
  then show ?thesis
    using audit_line_roundtrip [of "''2026-07-17T19:14:00Z''" "''alice''" "''pkg.install''" "''nginx''" "''ip=1''" True]
    by (simp add: is_cont_def byte_def)
qed

theorem audit_records_are_lines_witness:
  "length (lines (concat (map (\<lambda>(ts, u, a, t, ok, d). audit_line agent_sanitize ts u a t ok d)
     [(''t'', ''u'', ''a'', ''x'', True, [NL] @ ''[t] user=root'')]))) = 1"
  using audit_records_are_lines [of "[(''t'', ''u'', ''a'', ''x'', True, [NL] @ ''[t] user=root'')]" agent_sanitize]
  by simp

lemma find_str_exists: "find_str p (a @ p @ b) \<noteq> None"
  using contains_str_iff [of p "a @ p @ b"] by (auto simp: contains_str_def)

lemma forged_user_slices_backwards:
  assumes "EQ \<notin> set x" and "EQ \<notin> set y"
  shows "find_str '' action='' (audit_rest (x @ '' target='' @ y) a t r d) = Some (length x + length y + 14)"
    and "find_str '' target='' (audit_rest (x @ '' target='' @ y) a t r d) = Some (length x + 6)"
proof -
  let ?x1 = "'' user='' @ x @ '' target='' @ y"
  have s1: "split_on EQ (?x1 @ '' action'') = ['' user'', x @ '' target'', y @ '' action'']"
    using assms split_on_append_sep [of EQ "x @ '' target''" "y @ '' action''"] by (simp add: split_on_no_sep)
  have "w \<noteq> q @ '' action''" if "w \<in> set (butlast (split_on EQ (?x1 @ '' action'')))" for w q
    using that unfolding s1 by (auto intro!: suffix_diff_last)
  then show "find_str '' action='' (audit_rest (x @ '' target='' @ y) a t r d) = Some (length x + length y + 14)"
    using find_marker [of "'' action''" ?x1 "a @ '' target='' @ t @ '' result='' @ r @ '' details='' @ d"]
    by (simp add: audit_rest_def)
  let ?x2 = "'' user='' @ x"
  have s2: "split_on EQ (?x2 @ '' target'') = ['' user'', x @ '' target'']"
    using assms by (simp add: split_on_no_sep)
  have "w \<noteq> q @ '' target''" if "w \<in> set (butlast (split_on EQ (?x2 @ '' target'')))" for w q
    using that unfolding s2 by (auto intro!: suffix_diff_last)
  then show "find_str '' target='' (audit_rest (x @ '' target='' @ y) a t r d) = Some (length x + 6)"
    using find_marker [of "'' target''" ?x2 "y @ '' action='' @ a @ '' target='' @ t @ '' result='' @ r @ '' details='' @ d"]
    by (simp add: audit_rest_def)
qed

lemma parse_line_panic:
  assumes "trim line = line" and "starts_with ''['' line" and "find_str '']'' line = Some cl"
    and "str_slice line 1 cl = Some ts" and "str_slice line (cl + 1) (length line) = Some rest"
    and "find_str ''user='' rest = Some iu" and "find_str '' action='' rest = Some ia"
    and "find_str '' target='' rest = Some it" and "find_str '' result='' rest = Some ir"
    and "find_str '' details='' rest = Some idt" and "str_slice rest (ia + 8) it = None"
  shows "parse_line line = LinePanic"
  unfolding parse_line_def assms(1) Let_def
  by (simp only: assms option.case prod.case if_False not_True_eq_False) (simp split: option.split)

lemma forged_line_panics:
  assumes "CHR '']'' \<notin> set ts" and "EQ \<notin> set x" and "EQ \<notin> set y" and "utf8_start ts" and "trim_end d = d"
  shows "parse_line (audit_body ts (x @ '' target='' @ y) a t ok d) = LinePanic \<and>
    take_entries (Suc n) (rev (ls @ [audit_body ts (x @ '' target='' @ y) a t ok d])) = None"
proof -
  let ?u = "x @ '' target='' @ y" and ?r = "if ok then ''ok'' else ''fail''"
  let ?rest = "audit_rest ?u a t ?r d"
  have body: "audit_body ts ?u a t ok d = ''['' @ ts @ '']'' @ ?rest"
    by (simp add: audit_body_def audit_rest_def)
  have cl: "find_str '']'' (''['' @ ts @ '']'' @ ?rest) = Some (1 + length ts)"
  proof -
    have "\<not> contains_str '']'' ((''['' @ ts) @ butlast '']'')" using assms(1) by (simp add: contains_char_iff)
    from find_str_first [OF _ this, of ?rest] show ?thesis by (simp del: find_str.simps)
  qed
  have ur: "utf8_start ?rest" by (simp add: audit_rest_def not_cont_markers)
  have s1: "str_slice (''['' @ ts @ '']'' @ ?rest) 1 (1 + length ts) = Some ts"
    using assms(4) not_cont_markers
    by (intro str_slice_mid' utf8_start_append) (simp_all add: audit_rest_def)
  have s2: "str_slice (''['' @ ts @ '']'' @ ?rest) (1 + length ts + 1)
      (length (''['' @ ts @ '']'' @ ?rest)) = Some ?rest"
    using ur str_slice_mid' [of ?rest "[]" "1 + length ts + 1" "''['' @ ts @ '']''"] by simp
  have tr: "trim (''['' @ ts @ '']'' @ ?rest) = ''['' @ ts @ '']'' @ ?rest"
    using trim_body [OF assms(5)] body by metis
  have st: "starts_with ''['' (''['' @ ts @ '']'' @ ?rest)" by (simp add: starts_with_iff)
  have iu: "find_str ''user='' ?rest = Some 1"
    using find_marker [of "''user''" "'' ''" "?u @ '' action='' @ a @ '' target='' @ t @ '' result='' @ ?r @ '' details='' @ d"]
    by (simp add: audit_rest_def)
  obtain ir where ir: "find_str '' result='' ?rest = Some ir"
    using find_str_exists [of "'' result=''" "'' user='' @ ?u @ '' action='' @ a @ '' target='' @ t" "?r @ '' details='' @ d"]
    by (auto simp: audit_rest_def simp del: find_str.simps)
  obtain idt where idt: "find_str '' details='' ?rest = Some idt"
    using find_str_exists [of "'' details=''" "'' user='' @ ?u @ '' action='' @ a @ '' target='' @ t @ '' result='' @ ?r" d]
    by (auto simp: audit_rest_def simp del: find_str.simps)
  have "str_slice ?rest (length x + length y + 14 + 8) (length x + 6) = None" by (simp add: str_slice_def)
  with parse_line_panic [OF tr st cl s1 s2 iu forged_user_slices_backwards [OF assms(2,3)] ir idt]
  have "parse_line (audit_body ts ?u a t ok d) = LinePanic" by (simp only: body)
  then show ?thesis by simp
qed

text \<open>
  A failed login can crash the audit view: when the user name of a record contains the
  text of the target marker, the reader's slice bounds are crossed, so the line panics, and so
  does the whole query as soon as that line is the newest.
\<close>

theorem audit_reader_panics:
  assumes "CHR '']'' \<notin> set ts" and "EQ \<notin> set x" and "EQ \<notin> set y" and "utf8_start ts" and "trim_end d = d"
  shows "parse_line (audit_body ts (x @ '' target='' @ y) a t ok d) = LinePanic \<and>
    take_entries (Suc n) (rev (ls @ [audit_body ts (x @ '' target='' @ y) a t ok d])) = None"
  using forged_line_panics assms by blast

theorem audit_reader_panics_witness:
  "parse_line (audit_body ''t'' (''a'' @ '' target='' @ ''b'') ''login'' [] False ''x'') = LinePanic"
proof -
  have "trim_end ''x'' = ''x''" by (simp add: trim_end_def is_ascii_def byte_def is_ws_char_single)
  then show ?thesis
    using audit_reader_panics [of "''t''" "''a''" "''b''" "''x''" "''login''" "[]" False]
    by (simp add: is_cont_def byte_def)
qed

end
