(* ===== verification/Http.thy ===== *)
theory Http
  imports Json
begin

text \<open>
  What the gateway reads from and writes to HTTP headers: the same-origin checks of
  \<open>gateway/src/security_headers.rs\<close> and of the WebSocket upgrade in \<open>gateway/src/ws.rs\<close>, and
  the security headers on responses. Header names are in lower case, as \<open>HeaderMap\<close> keeps them;
  \<open>to_str\<close> fails on a value that is not visible ASCII.
\<close>

type_synonym headers = "(string \<times> string) list"

definition visible_ascii :: "char \<Rightarrow> bool" where
  "visible_ascii c \<longleftrightarrow> (32 \<le> byte c \<and> byte c < 127) \<or> byte c = 9"

text \<open>\<open>headers.get(name).and_then(|v| v.to_str().ok())\<close>.\<close>

definition header_str :: "headers \<Rightarrow> string \<Rightarrow> string option" where
  "header_str hs name =
     (case map_of hs name of None \<Rightarrow> None | Some v \<Rightarrow> if list_all visible_ascii v then Some v else None)"

definition has_header :: "headers \<Rightarrow> string \<Rightarrow> bool" where
  "has_header hs name \<longleftrightarrow> map_of hs name \<noteq> None"

section \<open>Same-origin checks\<close>

definition strip_scheme :: "string \<Rightarrow> string" where
  "strip_scheme s =
     (case strip_prefix ''https://'' s of
        Some r \<Rightarrow> r
      | None \<Rightarrow> (case strip_prefix ''http://'' s of Some r \<Rightarrow> r | None \<Rightarrow> s))"

definition origin_matches_host :: "string \<Rightarrow> string \<Rightarrow> bool" where
  "origin_matches_host origin host =
     eq_ignore_ascii_case (hd (split_on CHR ''/'' (strip_scheme origin))) host"

datatype http_method = GET | HEAD | OPTIONS | POST | PUT | DELETE | PATCH | OtherMethod

definition is_mutating :: "http_method \<Rightarrow> bool" where
  "is_mutating m = (m = POST \<or> m = PUT \<or> m = DELETE \<or> m = PATCH)"

definition referer_origin :: "string \<Rightarrow> string" where
  "referer_origin r = ''http://'' @ hd (split_on CHR ''/'' (strip_scheme r))"

definition csrf_check_value :: "headers \<Rightarrow> string option" where
  "csrf_check_value hs =
     (case header_str hs ''origin'' of
        Some o' \<Rightarrow> Some o'
      | None \<Rightarrow> map_option referer_origin (header_str hs ''referer''))"

definition csrf_allows :: "http_method \<Rightarrow> headers \<Rightarrow> bool" where
  "csrf_allows m hs =
     (if is_mutating m
      then (case csrf_check_value hs of
              Some v \<Rightarrow> origin_matches_host v (unwrap_or [] (header_str hs ''host''))
            | None \<Rightarrow> False)
      else True)"

definition set_header :: "string \<Rightarrow> string \<Rightarrow> headers \<Rightarrow> headers" where
  "set_header = hm_put"

definition csp_value :: string where
  "csp_value = concat
     [''default-src '', [SQ], ''self'', [SQ], ''; script-src '', [SQ], ''self'', [SQ],
      ''; style-src '', [SQ], ''self'', [SQ], '' '', [SQ], ''unsafe-inline'', [SQ],
      ''; img-src '', [SQ], ''self'', [SQ], '' data:; connect-src '', [SQ], ''self'', [SQ],
      ''; font-src '', [SQ], ''self'', [SQ], ''; frame-ancestors '', [SQ], ''none'', [SQ],
      ''; base-uri '', [SQ], ''self'', [SQ], ''; form-action '', [SQ], ''self'', [SQ]]"

definition decorate :: "bool \<Rightarrow> string \<Rightarrow> headers \<Rightarrow> headers" where
  "decorate tls_active path hs0 =
     (let hs1 = set_header ''x-content-type-options'' ''nosniff'' hs0;
          hs2 = set_header ''x-frame-options'' ''DENY'' hs1;
          hs3 = set_header ''referrer-policy'' ''strict-origin-when-cross-origin'' hs2;
          hs4 = set_header ''content-security-policy'' csp_value hs3;
          hs5 = set_header ''permissions-policy'' ''camera=(), microphone=(), geolocation=(), payment=()'' hs4;
          hs6 = (if tls_active
                 then set_header ''strict-transport-security'' ''max-age=63072000; includeSubDomains'' hs5
                 else hs5)
      in if starts_with ''/api/'' path then set_header ''cache-control'' ''no-store'' hs6 else hs6)"

text \<open>The middleware around any handler: \<open>None\<close> is the 403 without running it.\<close>

definition security_headers ::
  "bool \<Rightarrow> http_method \<Rightarrow> string \<Rightarrow> headers \<Rightarrow> ('s \<Rightarrow> headers \<times> 's) \<Rightarrow> 's \<Rightarrow> headers option \<times> 's" where
  "security_headers tls_active m path hs handler st =
     (if \<not> csrf_allows m hs then (None, st)
      else (let (resp, st') = handler st in (Some (decorate tls_active path resp), st')))"

text \<open>The decision of \<open>ws_upgrade\<close>.\<close>

definition ws_upgrade_allows :: "bool \<Rightarrow> headers \<Rightarrow> bool" where
  "ws_upgrade_allows allow_unencrypted hs =
     (if has_header hs ''origin''
      then origin_matches_host (unwrap_or [] (header_str hs ''origin''))
             (unwrap_or [] (header_str hs ''host''))
      else allow_unencrypted)"

section \<open>What the checks guarantee\<close>

text \<open>The host part of an URL: between the scheme and the next slash.\<close>

definition url_host :: "string \<Rightarrow> string" where
  "url_host u = takeWhile (\<lambda>c. c \<noteq> CHR ''/'') (strip_scheme u)"

lemma origin_matches_host_iff:
  "origin_matches_host o' h \<longleftrightarrow> map ascii_lower (url_host o') = map ascii_lower h"
  by (simp add: origin_matches_host_def hd_split_on url_host_def eq_ignore_ascii_case_def)

lemma takeWhile_idem: "takeWhile P (takeWhile P xs) = takeWhile P xs"
  by (auto simp: takeWhile_eq_all_conv dest: set_takeWhileD)

lemma url_host_referer: "url_host (referer_origin r) = url_host r"
proof -
  have "strip_prefix ''https://'' (''http://'' @ x) = None" for x
    by (cases x) simp_all
  then have "strip_scheme (''http://'' @ x) = x" for x
    unfolding strip_scheme_def by (simp del: append_Cons add: strip_prefix_append)
  then show ?thesis
    by (simp add: url_host_def referer_origin_def hd_split_on takeWhile_idem del: append_Cons)
qed



text \<open>
  A WebSocket upgrade with an \<open>Origin\<close> header succeeds only for the gateway's own host; one
  without the header only when unencrypted development mode is on.
\<close>

theorem ws_upgrade_same_origin:
  "ws_upgrade_allows dev hs =
     (case map_of hs ''origin'' of
        None \<Rightarrow> dev
      | Some v \<Rightarrow> map ascii_lower (if list_all visible_ascii v then url_host v else []) =
                  map ascii_lower (unwrap_or [] (header_str hs ''host'')))"
  by (auto simp: ws_upgrade_allows_def has_header_def header_str_def origin_matches_host_iff
      url_host_def strip_scheme_def split: option.splits)

end
