(* ===== verification/Pam.thy ===== *)
theory Pam
  imports RustStr
begin

text \<open>
  Password authentication: the gateway's side (\<open>gateway/src/pam.rs\<close>), which writes the user and
  the password to the helper's standard input, and the setuid helper
  (\<open>pam-helper/src/main.rs\<close>), which reads them back and asks PAM. PAM itself, the name service
  and sudo are outside the repository: they are arguments.
\<close>

section \<open>The helper\<close>

record pam_backend =
  pam_start :: "string \<Rightarrow> string \<Rightarrow> bool"
  pam_authenticate :: "string \<Rightarrow> string \<Rightarrow> bool"
  pam_acct_mgmt :: "string \<Rightarrow> string \<Rightarrow> bool"

text \<open>The exit code of mode 1 on the given standard input.\<close>

definition pam_auth_mode :: "pam_backend \<Rightarrow> string \<Rightarrow> nat" where
  "pam_auth_mode pam stdin =
     (case lines stdin of
        [] \<Rightarrow> 3
      | user # rest \<Rightarrow>
          if user = [] then 3
          else (case rest of
                  [] \<Rightarrow> 3
                | password # _ \<Rightarrow>
                    if \<not> pam_start pam user password then 4
                    else if \<not> pam_authenticate pam user password then 1
                    else if \<not> pam_acct_mgmt pam user password then 2
                    else 0))"

record sudo_output =
  so_success :: bool
  so_stdout :: string
  so_stderr :: string

text \<open>Mode 2; \<open>sudo\<close> yields \<open>None\<close> when it cannot be run.\<close>

definition check_sudo_mode :: "(string \<Rightarrow> sudo_output option) \<Rightarrow> string \<Rightarrow> nat" where
  "check_sudo_mode sudo user =
     (if user = [] \<or> list_ex (\<lambda>b. b \<in> set [NUL, NL, CHR '' '', CHR '';'', CHR ''&'', CHR ''|'', CHR 0x60, CHR ''$'']) user
      then 3
      else (case sudo user of
              None \<Rightarrow> 4
            | Some out \<Rightarrow>
                if \<not> so_success out \<or> contains_str ''is not allowed'' (so_stdout out)
                   \<or> contains_str ''is not allowed'' (so_stderr out) then 1 else 0))"

definition helper_main ::
  "pam_backend \<Rightarrow> (string \<Rightarrow> sudo_output option) \<Rightarrow> string list \<Rightarrow> string \<Rightarrow> nat" where
  "helper_main pam sudo args stdin =
     (if length args = 3 \<and> args ! 1 = ''--check-sudo'' then check_sudo_mode sudo (args ! 2)
      else pam_auth_mode pam stdin)"

section \<open>The gateway's side\<close>

record pam_result =
  pr_success :: bool
  pr_error :: "string option"

datatype wait_result = Exited "nat option" | WaitErr | WaitTimeout

record helper_env =
  he_spawns :: bool
  he_write_ok :: bool
  he_run :: "string \<Rightarrow> wait_result"

definition pam_fail :: "string \<Rightarrow> pam_result" where
  "pam_fail msg = \<lparr>pr_success = False, pr_error = Some msg\<rparr>"

definition authenticate :: "helper_env \<Rightarrow> string \<Rightarrow> string \<Rightarrow> pam_result" where
  "authenticate h user password =
     (if user = [] \<or> NUL \<in> set user \<or> NL \<in> set user then pam_fail ''invalid username''
      else if NUL \<in> set password \<or> NL \<in> set password then pam_fail ''invalid password''
      else if \<not> he_spawns h then pam_fail ''authentication service unavailable''
      else if \<not> he_write_ok h then pam_fail ''authentication service unavailable''
      else (case he_run h (user @ [NL] @ password @ [NL]) of
              Exited code \<Rightarrow>
                (let code = (case code of None \<Rightarrow> 255 | Some n \<Rightarrow> n)
                 in if code = 0 then \<lparr>pr_success = True, pr_error = None\<rparr>
                    else pam_fail ''authentication failed'')
            | WaitErr \<Rightarrow> pam_fail ''authentication service unavailable''
            | WaitTimeout \<Rightarrow> pam_fail ''authentication timed out''))"

record nss =
  nss_primary_gid :: "string \<Rightarrow> nat option"
  nss_grouplist :: "string \<Rightarrow> nat \<Rightarrow> nat list"
  nss_group_name :: "nat \<Rightarrow> string option"

definition ADMIN_GROUPS :: "string list" where
  "ADMIN_GROUPS = [''sudo'', ''wheel'', ''admin'', ''admins'']"

definition verify_sudo :: "nss \<Rightarrow> string \<Rightarrow> string + unit" where
  "verify_sudo n user =
     (if NUL \<in> set user then Inl ''invalid username''
      else (case nss_primary_gid n user of
              None \<Rightarrow> Inl ''user not found''
            | Some gid \<Rightarrow>
                if list_ex (\<lambda>g. case nss_group_name n g of None \<Rightarrow> False | Some name \<Rightarrow> name \<in> set ADMIN_GROUPS)
                     (nss_grouplist n user gid)
                then Inr ()
                else Inl ''user does not have sudo privileges''))"

section \<open>Composition\<close>

text \<open>The helper as the gateway starts it: no arguments, a process that exits.\<close>

definition installed_helper :: "pam_backend \<Rightarrow> helper_env" where
  "installed_helper pam =
     \<lparr>he_spawns = True, he_write_ok = True,
      he_run = (\<lambda>stdin. Exited (Some (helper_main pam (\<lambda>_. None) [''tenodera-pam-helper''] stdin)))\<rparr>"

definition pam_accepts :: "pam_backend \<Rightarrow> string \<Rightarrow> string \<Rightarrow> bool" where
  "pam_accepts pam u p \<longleftrightarrow> pam_start pam u p \<and> pam_authenticate pam u p \<and> pam_acct_mgmt pam u p"

lemma helper_reads:
  assumes "NL \<notin> set u" and "NL \<notin> set p"
  shows "lines (u @ [NL] @ p @ [NL]) = [strip_cr u, strip_cr p]"
  using lines_append_NL [OF assms(1), of "p @ [NL]"] lines_append_NL [OF assms(2), of "[]"] by simp

text \<open>
  C11. The gateway and the helper agree on the credentials: a login succeeds only for a
  non-empty user name without newline or NUL and such a password, and exactly when PAM accepts
  the two with one trailing carriage return removed from each, so for credentials that do not
  end in one, exactly when PAM accepts them as they were typed.
\<close>

theorem authenticate_iff_pam:
  "pr_success (authenticate (installed_helper pam) u p) \<longleftrightarrow>
     u \<noteq> [] \<and> u \<noteq> [CR] \<and> {NUL, NL} \<inter> (set u \<union> set p) = {} \<and> pam_accepts pam (strip_cr u) (strip_cr p)"
proof (cases "u \<noteq> [] \<and> {NUL, NL} \<inter> (set u \<union> set p) = {}")
  case True
  then have "lines (u @ [NL] @ p @ [NL]) = [strip_cr u, strip_cr p]"
    by (intro helper_reads) auto
  moreover have "strip_cr u = [] \<longleftrightarrow> u = [CR]"
    using True by (cases u rule: rev_cases) (auto simp: strip_cr_def)
  ultimately show ?thesis
    using True by (auto simp: authenticate_def installed_helper_def helper_main_def pam_auth_mode_def
        pam_accepts_def pam_fail_def Let_def)
next
  case False
  then show ?thesis by (auto simp: authenticate_def pam_fail_def)
qed

text \<open>
  The name that PAM checked need not be the name of the session: a user name with a
  trailing carriage return is accepted with the password of the name without it.
\<close>

theorem trailing_cr_authenticates_other_name:
  assumes "pam_accepts pam u p" and "u \<noteq> []" and "{NUL, NL} \<inter> (set u \<union> set p) = {}" and "strip_cr p = p"
  shows "pr_success (authenticate (installed_helper pam) (u @ [CR]) p)"
  using assms by (auto simp: authenticate_iff_pam strip_cr_def)

theorem trailing_cr_authenticates_other_name_witness:
  "pr_success (authenticate (installed_helper
     \<lparr>pam_start = (\<lambda>_ _. True), pam_authenticate = (\<lambda>u p. u = ''alice'' \<and> p = ''pw''),
      pam_acct_mgmt = (\<lambda>_ _. True)\<rparr>) (''alice'' @ [CR]) ''pw'')"
  by (rule trailing_cr_authenticates_other_name) (simp_all add: pam_accepts_def strip_cr_def)

end
