(* ===== verification/GwAuth.thy ===== *)
theory GwAuth
  imports Sessions RateLimit Http Pam
begin

text \<open>
  Who is asking (\<open>gateway/src/auth.rs\<close>): bearer tokens, the session extractors that guard the
  handlers, the client address behind the reverse proxy, login and logout.
\<close>

section \<open>Session extractors\<close>

definition bearer_token :: "headers \<Rightarrow> string option" where
  "bearer_token hs = Option.bind (header_str hs ''authorization'') (strip_prefix ''Bearer '')"

text \<open>A rejected request is its status code.\<close>

definition auth_extract :: "session_store \<Rightarrow> instant \<Rightarrow> headers \<Rightarrow> (nat + session) \<times> session_store" where
  "auth_extract st now hs =
     (case bearer_token hs of
        None \<Rightarrow> (Inl 401, st)
      | Some tok \<Rightarrow>
          (let (s, st') = session_get_valid st now tok
           in ((case s of None \<Rightarrow> Inl 401 | Some s \<Rightarrow> Inr s), st')))"

definition admin_extract :: "session_store \<Rightarrow> instant \<Rightarrow> headers \<Rightarrow> (nat + session) \<times> session_store" where
  "admin_extract st now hs =
     (case auth_extract st now hs of
        (Inl code, st') \<Rightarrow> (Inl code, st')
      | (Inr s, st') \<Rightarrow> if sess_role s \<noteq> Admin then (Inl 403, st') else (Inr s, st'))"

text \<open>\<open>require_admin\<close> of \<open>main.rs\<close>, whose callers answer 401 for every error.\<close>

definition require_admin :: "session_store \<Rightarrow> instant \<Rightarrow> headers \<Rightarrow> bool \<times> session_store" where
  "require_admin st now hs =
     (case bearer_token hs of
        None \<Rightarrow> (False, st)
      | Some tok \<Rightarrow>
          (case session_get_valid st now tok of
             (None, st') \<Rightarrow> (False, st')
           | (Some s, st') \<Rightarrow> (sess_role s = Admin, st')))"

section \<open>The client's address\<close>

definition xff_ip :: "headers \<Rightarrow> ip_addr option" where
  "xff_ip hs = Option.bind (header_str hs ''x-forwarded-for'')
     (\<lambda>v. parse_ip (trim (hd (split_on CHR '','' v))))"

definition xri_ip :: "headers \<Rightarrow> ip_addr option" where
  "xri_ip hs = Option.bind (header_str hs ''x-real-ip'') (\<lambda>v. parse_ip (trim v))"

definition real_client_ip :: "ip_addr \<Rightarrow> headers \<Rightarrow> ip_addr" where
  "real_client_ip peer hs =
     (if \<not> is_loopback peer then peer
      else (case xff_ip hs of Some ip \<Rightarrow> ip
            | None \<Rightarrow> (case xri_ip hs of Some ip \<Rightarrow> ip | None \<Rightarrow> peer)))"

definition host_value_ip :: "string \<Rightarrow> ip_addr option" where
  "host_value_ip raw =
     (let v = trim (hd (split_on CHR '','' raw))
      in case parse_socket v of
           Some (ip, _) \<Rightarrow> Some ip
         | None \<Rightarrow>
             (case parse_ip v of
                Some ip \<Rightarrow> Some ip
              | None \<Rightarrow> Option.bind (rsplit_once CHR '':'' v) (\<lambda>(a, _). parse_ip a)))"

fun host_names_ip :: "headers \<Rightarrow> string list \<Rightarrow> ip_addr option" where
  "host_names_ip hs [] = None"
| "host_names_ip hs (name # names) =
     (case header_str hs name of
        None \<Rightarrow> host_names_ip hs names
      | Some raw \<Rightarrow>
          (case host_value_ip raw of
             Some ip \<Rightarrow> if is_loopback ip then host_names_ip hs names else Some ip
           | None \<Rightarrow> host_names_ip hs names))"

definition host_header_ip :: "headers \<Rightarrow> ip_addr option" where
  "host_header_ip hs = host_names_ip hs [''host'', ''x-forwarded-host'']"

text \<open>The extractor: the peer of the plain listener, or the one the TLS accept loop injects.\<close>

definition client_addr :: "ip_addr option \<Rightarrow> ip_addr option \<Rightarrow> headers \<Rightarrow> nat + ip_addr" where
  "client_addr connect_info extension hs =
     (case connect_info of
        Some p \<Rightarrow> Inr (real_client_ip p hs)
      | None \<Rightarrow> (case extension of Some p \<Rightarrow> Inr (real_client_ip p hs) | None \<Rightarrow> Inl 500))"

section \<open>Logout and login\<close>

definition logout :: "session_store \<Rightarrow> headers \<Rightarrow> string \<Rightarrow> nat \<times> session_store" where
  "logout st hs sid =
     (case bearer_token hs of
        Some t \<Rightarrow> if t = sid then (200, session_remove st sid) else (401, st)
      | None \<Rightarrow> (401, st))"

datatype login_response =
    TooMany
  | BadRequest
  | Denied string
  | LoggedIn string string role

record login_env =
  le_helper :: helper_env
  le_nss :: nss
  le_uuid :: string
  le_t_check :: instant
  le_t_record :: instant
  le_t_create :: instant

text \<open>The part before the wait for PAM.\<close>

definition login_admit :: "limiter \<Rightarrow> instant \<Rightarrow> ip_addr \<Rightarrow> string \<Rightarrow> string \<Rightarrow> login_response option \<times> limiter" where
  "login_admit rl now ip user password =
     (let (limited, rl1) = is_limited rl now ip
      in if limited then (Some TooMany, rl1)
         else if user = [] \<or> password = [] then (Some BadRequest, rl1)
         else (None, rl1))"

definition login_role :: "nss \<Rightarrow> string \<Rightarrow> role" where
  "login_role n user = (case verify_sudo n user of Inr _ \<Rightarrow> Admin | Inl _ \<Rightarrow> Readonly)"

definition login_finish ::
  "login_env \<Rightarrow> session_store \<Rightarrow> limiter \<Rightarrow> ip_addr \<Rightarrow> string \<Rightarrow> string
   \<Rightarrow> login_response \<times> session_store \<times> limiter" where
  "login_finish e st rl ip user password =
     (let result = authenticate (le_helper e) user password
      in if \<not> pr_success result
         then (Denied (case pr_error result of Some m \<Rightarrow> m | None \<Rightarrow> ''authentication failed''),
               st, snd (check_and_record rl (le_t_record e) ip))
         else (let (s, st') = session_create st (le_t_create e) (le_uuid e) user (login_role (le_nss e) user)
               in (LoggedIn (sess_id s) (sess_user s) (sess_role s), st', rl)))"

definition login ::
  "login_env \<Rightarrow> session_store \<Rightarrow> limiter \<Rightarrow> ip_addr \<Rightarrow> string \<Rightarrow> string
   \<Rightarrow> login_response \<times> session_store \<times> limiter" where
  "login e st rl ip user password =
     (case login_admit rl (le_t_check e) ip user password of
        (Some r, rl1) \<Rightarrow> (r, st, rl1)
      | (None, rl1) \<Rightarrow> login_finish e st rl1 ip user password)"

section \<open>Guarantees\<close>

lemma auth_extract_Inr:
  "fst (auth_extract st now hs) = Inr s \<longleftrightarrow>
    (\<exists>tok. bearer_token hs = Some tok \<and> fst (session_get_valid st now tok) = Some s)"
  by (auto simp: auth_extract_def case_prod_beta split: option.splits)

text \<open>
  Guarded handlers run for live sessions only, and administrative ones for administrators
  only: the extractors yield a session exactly when the bearer token names one that is still
  valid, answer 401 when it does not and 403 for a read-only user; an admitted administrator
  was one when the session was created.
\<close>

theorem extractors_guard:
  assumes "sess_reach idle st log t" and "t \<le> now"
  shows "(fst (admin_extract st now hs) = Inr s \<longrightarrow>
            (\<exists>tok. bearer_token hs = Some tok \<and> fst (session_get_valid st now tok) = Some s \<and>
               sess_role s = Admin \<and>
               last_event tok log = Some (created_at s, SCreate tok (sess_user s) Admin))) \<and>
         (fst (admin_extract st now hs) = Inl 403 \<longleftrightarrow>
            (\<exists>s. fst (auth_extract st now hs) = Inr s \<and> sess_role s = Readonly)) \<and>
         (fst (admin_extract st now hs) = Inl 401 \<longleftrightarrow> fst (auth_extract st now hs) = Inl 401) \<and>
         fst (require_admin st now hs) = (\<exists>s. fst (admin_extract st now hs) = Inr s)"
proof -
  have prov: "last_event tok log = Some (created_at s, SCreate tok (sess_user s) (sess_role s))"
    if "fst (session_get_valid st now tok) = Some s" for tok s
  proof -
    from that obtain s0 where s0: "hm_get (sess_inner st) tok = Some s0" "s = s0\<lparr>last_activity := now\<rparr>"
      by (auto simp: get_valid_result live_get_Some)
    with sess_inv_D [OF sess_reach_inv [OF assms(1)] s0(1)] show ?thesis by simp
  qed
  have adm: "fst (admin_extract st now hs) =
      (case fst (auth_extract st now hs) of Inl c \<Rightarrow> Inl c
       | Inr s \<Rightarrow> if sess_role s \<noteq> Admin then Inl 403 else Inr s)"
    by (simp add: admin_extract_def case_prod_beta split: sum.split prod.split)
  have a401: "fst (auth_extract st now hs) = Inl c \<Longrightarrow> c = 401" for c
    by (auto simp: auth_extract_def case_prod_beta split: option.splits)
  have ro: "r \<noteq> Admin \<longleftrightarrow> r = Readonly" for r by (cases r) auto
  have req: "fst (require_admin st now hs) = (\<exists>s. fst (auth_extract st now hs) = Inr s \<and> sess_role s = Admin)"
    by (auto simp: require_admin_def auth_extract_def case_prod_beta split: option.splits prod.splits)
  show ?thesis
  proof (cases "fst (auth_extract st now hs)")
    case (Inl c)
    then have "c = 401" by (rule a401)
    with Inl show ?thesis by (simp add: req adm)
  next
    case (Inr s')
    then obtain tok where tok: "bearer_token hs = Some tok" "fst (session_get_valid st now tok) = Some s'"
      using auth_extract_Inr by blast
    show ?thesis
      using Inr tok prov [OF tok(2)] by (cases "sess_role s'") (auto simp: req adm)
  qed
qed

theorem extractors_guard_witness:
  "fst (admin_extract demo_store 7 [(''authorization'', ''Bearer nope'')]) = Inl 401"
proof -
  have "fst (auth_extract demo_store 7 [(''authorization'', ''Bearer nope'')]) = Inl 401"
    by (simp add: auth_extract_def bearer_token_def header_str_def visible_ascii_def byte_def demo_store_def
        session_create_def session_get_valid_def store_new_def Let_def)
  moreover have le: "(5::nat) \<le> 7" by simp
  ultimately show ?thesis
    using extractors_guard [OF demo_store_reach le, where hs = "[(''authorization'', ''Bearer nope'')]"
        and s = undefined] by metis
qed

text \<open>
  Forwarded addresses are believed only from the local proxy: for any other peer, no
  header changes the address that rate limiting and enrolment use.
\<close>

theorem forwarded_only_from_loopback:
  "(\<not> is_loopback peer \<longrightarrow> real_client_ip peer hs = peer) \<and>
   (real_client_ip peer hs \<noteq> peer \<longrightarrow>
      is_loopback peer \<and>
      (xff_ip hs = Some (real_client_ip peer hs) \<or>
       xff_ip hs = None \<and> xri_ip hs = Some (real_client_ip peer hs)))"
  by (auto simp: real_client_ip_def split: option.splits)

theorem forwarded_only_from_loopback_witness:
  "real_client_ip (V4 10 0 0 9) [(''x-forwarded-for'', ''127.0.0.1'')] = V4 10 0 0 9"
  using forwarded_only_from_loopback [of "V4 10 0 0 9" "[(''x-forwarded-for'', ''127.0.0.1'')]"] by simp

text \<open>A display address never is a loopback one.\<close>

lemma host_names_ip_not_loopback: "host_names_ip hs names = Some ip \<Longrightarrow> \<not> is_loopback ip"
  by (induction names) (auto split: option.splits if_splits)


definition demo_login_env :: login_env where
  "demo_login_env =
     \<lparr>le_helper = installed_helper \<lparr>pam_start = (\<lambda>_ _. True),
        pam_authenticate = (\<lambda>u p. u = ''alice'' \<and> p = ''pw''), pam_acct_mgmt = (\<lambda>_ _. True)\<rparr>,
      le_nss = \<lparr>nss_primary_gid = (\<lambda>_. Some 1000), nss_grouplist = (\<lambda>_ g. [g, 27]),
        nss_group_name = (\<lambda>g. if g = 27 then Some ''sudo'' else None)\<rparr>,
      le_uuid = ''sid'', le_t_check = 0, le_t_record = 1, le_t_create = 2\<rparr>"


text \<open>
  C23. The limiter does not bound guesses made at once: any number of logins of one address that
  are all admitted before the first refusal is recorded reach PAM, although the limit is one
  window's worth of failures.
\<close>

theorem concurrent_logins_unlimited:
  assumes "0 < max_attempts rl" and "failures_at rl now ip < max_attempts rl"
    and "\<forall>(u, p) \<in> set creds. u \<noteq> [] \<and> p \<noteq> []"
  shows "\<exists>rl'. foldl (\<lambda>(admitted, rl) (u, p).
             case login_admit rl now ip u p of
               (None, rl') \<Rightarrow> (admitted + 1, rl') | (Some _, rl') \<Rightarrow> (admitted, rl')) (0, rl) creds
           = (length creds, rl')"
proof -
  have "\<exists>rl'. foldl (\<lambda>(admitted, rl) (u, p).
             case login_admit rl now ip u p of
               (None, rl') \<Rightarrow> (admitted + 1, rl') | (Some _, rl') \<Rightarrow> (admitted, rl')) (n, rl) creds
           = (n + length creds, rl')" for n
    using assms
  proof (induction creds arbitrary: n rl)
    case (Cons c creds)
    obtain u p where c: "c = (u, p)" by (cases c)
    let ?rl1 = "snd (is_limited rl now ip)"
    have adm: "login_admit rl now ip u p = (None, ?rl1)"
      using Cons.prems c is_limited_verdict [OF Cons.prems(1), of now ip]
      by (simp add: login_admit_def Let_def case_prod_beta)
    have "0 < max_attempts ?rl1" "failures_at ?rl1 now ip < max_attempts ?rl1"
      using Cons.prems(1,2) by (simp_all add: failures_is_limited)
    with Cons.IH [of ?rl1 "n + 1"] Cons.prems(3) show ?case by (simp add: c adm)
  qed simp
  from this [of 0] show ?thesis by simp
qed

theorem concurrent_logins_unlimited_witness:
  "\<exists>rl'. foldl (\<lambda>(admitted, rl) (u, p).
      case login_admit rl 0 (V4 10 0 0 1) u p of
        (None, rl') \<Rightarrow> (admitted + 1, rl') | (Some _, rl') \<Rightarrow> (admitted, rl'))
      (0, limiter_new 1 300) [(''root'', ''a''), (''root'', ''b''), (''root'', ''c'')] = (length [(''root'', ''a''), (''root'', ''b''), (''root'', ''c'')], rl')"
  by (rule concurrent_logins_unlimited)
     (simp_all add: limiter_new_def failures_at_def stored_def recent_def)

text \<open>
  Logging out takes one's own session only: the request must carry the session it ends as
  its bearer token; then no later request with it is accepted, and no other session changes.
\<close>

theorem logout_ends_own_session:
  "fst (logout st hs sid) = (if bearer_token hs = Some sid then 200 else 401) \<and>
   session_get (snd (logout st hs sid)) i =
     (if bearer_token hs = Some sid \<and> i = sid then None else session_get st i)"
  by (auto simp: logout_def session_remove_def session_get_def split: option.split)

end
