(* ===== verification/GwConfig.thy ===== *)
theory GwConfig
  imports NetAddr Json
begin

text \<open>
  The gateway's configuration (\<open>gateway/src/config.rs\<close>) and the part of \<open>tls.rs\<close> and of
  \<open>main\<close> that decides whether the listener is encrypted. The environment and the file system
  are arguments.
\<close>

record gw_config =
  bind_addr :: "ip_addr \<times> nat"
  allow_unencrypted :: bool
  idle_timeout :: nat
  max_startups :: nat
  agent_bin :: string
  tls_cert :: "string option"
  tls_key :: "string option"
  external_url :: "string option"

abbreviation USIZE_MAX :: nat where "USIZE_MAX \<equiv> 2 ^ 64 - 1"

definition env_nonempty :: "environ \<Rightarrow> string \<Rightarrow> string option" where
  "env_nonempty env k = (case env k of Some v \<Rightarrow> if v = [] then None else Some v | None \<Rightarrow> None)"

definition config_default :: "environ \<Rightarrow> gw_config" where
  "config_default env =
     \<lparr>bind_addr =
        (case Option.bind (env ''TENODERA_BIND'') parse_socket of
           Some a \<Rightarrow> a
         | None \<Rightarrow>
             (let addr = unwrap_or ''127.0.0.1'' (env ''TENODERA_BIND_ADDR'');
                  port = unwrap_or 9090 (Option.bind (env ''TENODERA_BIND_PORT'') (parse_uint U16_MAX))
              in unwrap_or (V4 127 0 0 1, 9090) (parse_socket (addr @ '':'' @ show_nat port)))),
      allow_unencrypted =
        (case env ''TENODERA_ALLOW_UNENCRYPTED'' of Some v \<Rightarrow> v = ''1'' \<or> v = ''true'' | None \<Rightarrow> False),
      idle_timeout = unwrap_or 900 (Option.bind (env ''TENODERA_IDLE_TIMEOUT'') (parse_uint U64_MAX)),
      max_startups = unwrap_or 20 (map_option (\<lambda>n. max n 1)
                       (Option.bind (env ''TENODERA_MAX_STARTUPS'') (parse_uint USIZE_MAX))),
      agent_bin = unwrap_or ''tenodera-agent'' (env ''TENODERA_AGENT_BIN''),
      tls_cert = env_nonempty env ''TENODERA_TLS_CERT'',
      tls_key = env_nonempty env ''TENODERA_TLS_KEY'',
      external_url = map_option (trim_end_matches CHR ''/'') (env_nonempty env ''TENODERA_EXTERNAL_URL'')\<rparr>"

text \<open>The files the start looks at: what exists and its mode, and what can be opened.\<close>

record gw_fs =
  fs_mode :: "string \<Rightarrow> nat option"
  fs_readable :: "string \<Rightarrow> bool"

definition search_path :: "environ \<Rightarrow> gw_fs \<Rightarrow> string \<Rightarrow> string" where
  "search_path env fs bin =
     (if CHR ''/'' \<in> set bin then bin
      else (case List.find (\<lambda>p. fs_mode fs p \<noteq> None)
                   (map (\<lambda>dir. if dir = [] then bin
                               else if last dir = CHR ''/'' then dir @ bin else dir @ ''/'' @ bin)
                      (split_on CHR '':'' (unwrap_or [] (env ''PATH'')))) of
              Some p \<Rightarrow> p | None \<Rightarrow> bin))"

datatype config_error = AgentNotFound | AgentNotExecutable | CertUnreadable | KeyUnreadable
  | KeyMissing | CertMissing | TlsRequired

definition executable :: "nat \<Rightarrow> bool" where
  "executable mode \<longleftrightarrow> mode div 1 mod 2 = 1 \<or> mode div 8 mod 2 = 1 \<or> mode div 64 mod 2 = 1"

definition config_validate :: "environ \<Rightarrow> gw_fs \<Rightarrow> gw_config \<Rightarrow> config_error + unit" where
  "config_validate env fs cfg =
     (case fs_mode fs (search_path env fs (agent_bin cfg)) of
        None \<Rightarrow> Inl AgentNotFound
      | Some mode \<Rightarrow>
          if \<not> executable mode then Inl AgentNotExecutable
          else (case (tls_cert cfg, tls_key cfg) of
                  (Some cert, Some key) \<Rightarrow>
                    if \<not> fs_readable fs cert then Inl CertUnreadable
                    else if \<not> fs_readable fs key then Inl KeyUnreadable
                    else Inr ()
                | (Some _, None) \<Rightarrow> Inl KeyMissing
                | (None, Some _) \<Rightarrow> Inl CertMissing
                | (None, None) \<Rightarrow> if allow_unencrypted cfg then Inr () else Inl TlsRequired))"

text \<open>\<open>build_acceptor\<close>: \<open>load\<close> stands for reading and parsing the two PEM files.\<close>

datatype listener = TlsListener "ip_addr \<times> nat" | PlainListener "ip_addr \<times> nat"

definition build_acceptor :: "(string \<Rightarrow> string \<Rightarrow> 'a option) \<Rightarrow> gw_config \<Rightarrow> 'a option option" where
  "build_acceptor load cfg =
     (case (tls_cert cfg, tls_key cfg) of
        (Some c, Some k) \<Rightarrow> map_option Some (load c k)
      | _ \<Rightarrow> Some None)"

text \<open>The start-up of \<open>main\<close>: validation, acceptor, and the listener that serves requests;
  \<open>None\<close> when the process exits instead.\<close>

definition gw_start ::
  "environ \<Rightarrow> gw_fs \<Rightarrow> (string \<Rightarrow> string \<Rightarrow> 'a option) \<Rightarrow> listener option" where
  "gw_start env fs load =
     (let cfg = config_default env
      in case config_validate env fs cfg of
           Inl _ \<Rightarrow> None
         | Inr _ \<Rightarrow>
             (case build_acceptor load cfg of
                None \<Rightarrow> None
              | Some (Some _) \<Rightarrow> Some (TlsListener (bind_addr cfg))
              | Some None \<Rightarrow>
                  if \<not> allow_unencrypted cfg then None else Some (PlainListener (bind_addr cfg))))"

lemma gw_start_plain:
  assumes "gw_start env fs load = Some (PlainListener a)"
  shows "allow_unencrypted (config_default env)" and "tls_cert (config_default env) = None"
    and "tls_key (config_default env) = None"
proof -
  let ?cfg = "config_default env"
  have v: "config_validate env fs ?cfg = Inr ()"
    using assms by (auto simp: gw_start_def Let_def split: sum.splits)
  with assms have b: "build_acceptor load ?cfg = Some None" and allow: "allow_unencrypted ?cfg"
    by (auto simp: gw_start_def Let_def split: option.splits if_splits)
  show "allow_unencrypted ?cfg" by (rule allow)
  show "tls_cert ?cfg = None" "tls_key ?cfg = None"
    using v b by (auto simp: config_validate_def build_acceptor_def split: option.splits if_splits)
qed

lemma config_tls_sel:
  "allow_unencrypted (config_default env) =
     (case env ''TENODERA_ALLOW_UNENCRYPTED'' of Some v \<Rightarrow> v = ''1'' \<or> v = ''true'' | None \<Rightarrow> False)"
  "tls_cert (config_default env) = env_nonempty env ''TENODERA_TLS_CERT''"
  "tls_key (config_default env) = env_nonempty env ''TENODERA_TLS_KEY''"
  by (simp_all add: config_default_def)

lemma env_nonempty_None: "env_nonempty env k = None \<longleftrightarrow> env k \<in> {None, Some []}"
  by (auto simp: env_nonempty_def split: option.splits)

text \<open>
  The gateway never serves in clear by accident: it comes up without TLS only when
  unencrypted mode was asked for by the exact values \<open>1\<close> or \<open>true\<close> and no TLS file is
  configured at all; a half-configured TLS stops the start.
\<close>

theorem plaintext_only_on_request:
  assumes "gw_start env fs load = Some (PlainListener a)"
  shows "env ''TENODERA_ALLOW_UNENCRYPTED'' \<in> {Some ''1'', Some ''true''} \<and>
    env ''TENODERA_TLS_CERT'' \<in> {None, Some []} \<and> env ''TENODERA_TLS_KEY'' \<in> {None, Some []}"
  using gw_start_plain [OF assms] unfolding config_tls_sel env_nonempty_None
  by (auto split: option.splits)

definition dev_env :: environ where
  "dev_env k = (if k = ''TENODERA_ALLOW_UNENCRYPTED'' then Some ''1'' else None)"

theorem plaintext_only_on_request_witness:
  "\<exists>a. gw_start dev_env \<lparr>fs_mode = (\<lambda>_. Some 493), fs_readable = (\<lambda>_. False)\<rparr>
         (\<lambda>_ _. None :: unit option) = Some (PlainListener a) \<and>
       dev_env ''TENODERA_TLS_CERT'' \<in> {None, Some []}"
proof -
  have "\<exists>a. gw_start dev_env \<lparr>fs_mode = (\<lambda>_. Some 493), fs_readable = (\<lambda>_. False)\<rparr>
         (\<lambda>_ _. None :: unit option) = Some (PlainListener a)"
    by (simp add: gw_start_def config_validate_def build_acceptor_def config_tls_sel env_nonempty_def
        dev_env_def executable_def Let_def)
  then show ?thesis using plaintext_only_on_request by blast
qed

text \<open>The login limit the configuration allows is never zero.\<close>

lemma max_startups_pos: "0 < max_startups (config_default env)"
  by (simp add: config_default_def unwrap_or_def less_max_iff_disj split: option.split)

text \<open>
  Whatever the environment says, the gateway has a listening address, logins are limited
  by a positive bound, and without any setting it binds the loopback interface on port 9090.
\<close>

theorem config_defaults_safe:
  "0 < max_startups (config_default env) \<and>
   (env ''TENODERA_BIND'' = None \<and> env ''TENODERA_BIND_ADDR'' = None \<and> env ''TENODERA_BIND_PORT'' = None
      \<longrightarrow> bind_addr (config_default env) = (V4 127 0 0 1, 9090)) \<and>
   (env ''TENODERA_ALLOW_UNENCRYPTED'' = None \<longrightarrow> \<not> allow_unencrypted (config_default env))"
proof -
  have "char_of (57::nat) = CHR ''9''" "char_of (48::nat) = CHR ''0''" by code_simp+
  then have "show_nat 9090 = ''9090''" by (simp add: show_nat.simps)
  moreover have "parse_socket (''127.0.0.1'' @ '':'' @ ''9090'') = Some (V4 127 0 0 1, 9090)"
    by (simp add: parse_v4_eval)
  ultimately show ?thesis using max_startups_pos by (simp add: config_default_def)
qed

theorem config_defaults_safe_witness: "bind_addr (config_default (\<lambda>_. None)) = (V4 127 0 0 1, 9090)"
  using config_defaults_safe [of "\<lambda>_. None"] by blast

end
