(* ===== verification/GwRest.thy ===== *)
theory GwRest
  imports Enrollment GwAuth GwConfig
begin

text \<open>
  The gateway's REST interface (the handlers of \<open>gateway/src/main.rs\<close>) over one application
  state: sessions, the enrolment state of \<open>Enrollment\<close>, and the audit records written. A
  response is a status code and a JSON body.
\<close>

record app_state =
  as_config :: gw_config
  as_sessions :: session_store
  as_gw :: gateway
  as_audit :: "(string \<times> string \<times> string \<times> bool \<times> string) list"
  as_started_at :: instant

type_synonym response = "nat \<times> json"

definition audited :: "string \<Rightarrow> string \<Rightarrow> string \<Rightarrow> bool \<Rightarrow> string \<Rightarrow> app_state \<Rightarrow> app_state" where
  "audited user action target ok details st =
     st\<lparr>as_audit := as_audit st @ [(user, action, target, ok, details)]\<rparr>"

definition err_body :: "string \<Rightarrow> json" where
  "err_body msg = JObj [(''error'', JStr msg)]"

text \<open>The check that \<open>token_create\<close> and \<open>pending_approve\<close> write out themselves: a response, or
  the administrator's session; the store may have dropped an expired session.\<close>

definition admin_or_response :: "app_state \<Rightarrow> instant \<Rightarrow> headers \<Rightarrow> (response + session) \<times> app_state" where
  "admin_or_response st now hs =
     (case bearer_token hs of
        None \<Rightarrow> (Inl (401, err_body ''unauthorized''), st)
      | Some tok \<Rightarrow>
          (let (s, ss) = session_get_valid (as_sessions st) now tok;
               st1 = st\<lparr>as_sessions := ss\<rparr>
           in (case s of
                 None \<Rightarrow> (Inl (401, err_body ''unauthorized''), st1)
               | Some s \<Rightarrow> if sess_role s \<noteq> Admin then (Inl (403, err_body ''admin required''), st1)
                           else (Inr s, st1))))"

definition admin_check :: "app_state \<Rightarrow> instant \<Rightarrow> headers \<Rightarrow> bool \<times> app_state" where
  "admin_check st now hs =
     (let (ok, ss) = require_admin (as_sessions st) now hs in (ok, st\<lparr>as_sessions := ss\<rparr>))"

section \<open>Bootstrap tokens\<close>

record create_token_request =
  ct_ttl_secs :: nat
  ct_single_use :: bool
  ct_max_uses :: "u32 option"
  ct_bound_hostname :: "string option"
  ct_re_enroll :: bool

definition clamp :: "nat \<Rightarrow> nat \<Rightarrow> nat \<Rightarrow> nat" where
  "clamp lo hi n = (if n < lo then lo else if n > hi then hi else n)"

definition tls_active :: "gw_config \<Rightarrow> bool" where
  "tls_active cfg \<longleftrightarrow> tls_cert cfg \<noteq> None \<and> tls_key cfg \<noteq> None"

definition request_scheme :: "gw_config \<Rightarrow> headers \<Rightarrow> string" where
  "request_scheme cfg hs =
     (case header_str hs ''x-forwarded-proto'' of
        Some v \<Rightarrow> map ascii_lower (trim (hd (split_on CHR '','' v)))
      | None \<Rightarrow> if tls_active cfg then ''https'' else ''http'')"

definition split_host_port :: "string \<Rightarrow> string \<times> nat option" where
  "split_host_port h =
     (case rsplit_once CHR '':'' h of
        Some (a, p) \<Rightarrow> if a \<noteq> [] then (a, parse_uint U16_MAX p) else (h, None)
      | None \<Rightarrow> (h, None))"

definition host_is_loopback :: "string \<Rightarrow> bool" where
  "host_is_loopback host_only \<longleftrightarrow>
     eq_ignore_ascii_case host_only ''localhost'' \<or>
     (case parse_ip host_only of Some ip \<Rightarrow> is_loopback ip | None \<Rightarrow> False)"

definition via_internal :: "gw_config \<Rightarrow> string \<Rightarrow> bool" where
  "via_internal cfg host_hdr =
     (let (host_only, host_port) = split_host_port host_hdr
      in \<not> tls_active cfg \<and>
         (host_hdr = [] \<or> host_is_loopback host_only \<or> host_port = Some (snd (bind_addr cfg))))"

definition gateway_url :: "gw_config \<Rightarrow> headers \<Rightarrow> string" where
  "gateway_url cfg hs =
     (let host_hdr = unwrap_or [] (header_str hs ''host'')
      in case external_url cfg of
           Some url \<Rightarrow> url
         | None \<Rightarrow> if \<not> via_internal cfg host_hdr
                   then request_scheme cfg hs @ ''://'' @ host_hdr
                   else ''https://<panel-host>'')"

definition AGENT_INSTALLER_URL :: string where
  "AGENT_INSTALLER_URL = ''https://raw.githubusercontent.com/tenodera-io/tenodera/main/tenodera-agent.sh''"

definition install_cmd :: "string \<Rightarrow> string \<Rightarrow> string" where
  "install_cmd url value =
     ''curl -sSL '' @ AGENT_INSTALLER_URL @ '' | sudo bash -s -- --gateway '' @ url
       @ (if starts_with ''https://'' url then '' --insecure'' else []) @ '' --token '' @ value"

definition rest_token_create ::
  "crypto \<Rightarrow> instant \<Rightarrow> string \<Rightarrow> string \<Rightarrow> headers \<Rightarrow> create_token_request \<Rightarrow> app_state
   \<Rightarrow> response \<times> app_state" where
  "rest_token_create c now uuid value hs body st =
     (case admin_or_response st now hs of
        (Inl resp, st1) \<Rightarrow> (resp, st1)
      | (Inr _, st1) \<Rightarrow>
          (let ttl = secs (clamp 60 (86400 * 30) (ct_ttl_secs body));
               ((i, v), toks) = token_create c (g_tokens (as_gw st1)) now uuid value ttl
                 (ct_single_use body) (ct_max_uses body) (ct_bound_hostname body) (ct_re_enroll body);
               url = gateway_url (as_config st1) hs
           in ((200, JObj [(''id'', JStr i), (''token'', JStr v), (''ttl_secs'', JInt (int (ct_ttl_secs body))),
                           (''needs_edit'', JBool (contains_str ''<panel-host>'' url)),
                           (''install_cmd'', JStr (install_cmd url v))]),
               st1\<lparr>as_gw := (as_gw st1)\<lparr>g_tokens := toks\<rparr>\<rparr>)))"

definition rest_token_list :: "instant \<Rightarrow> headers \<Rightarrow> app_state \<Rightarrow> response \<times> app_state" where
  "rest_token_list now hs st =
     (case admin_check st now hs of
        (False, st1) \<Rightarrow> ((401, err_body ''unauthorized''), st1)
      | (True, st1) \<Rightarrow> ((200, JObj [(''tokens'', JArr (token_list (g_tokens (as_gw st1)) now))]), st1))"

definition rest_token_revoke :: "instant \<Rightarrow> headers \<Rightarrow> string \<Rightarrow> app_state \<Rightarrow> response \<times> app_state" where
  "rest_token_revoke now hs i st =
     (case admin_check st now hs of
        (False, st1) \<Rightarrow> ((401, JNull), st1)
      | (True, st1) \<Rightarrow>
          (let (found, toks) = token_revoke (g_tokens (as_gw st1)) i
           in ((if found then 204 else 404, JNull), st1\<lparr>as_gw := (as_gw st1)\<lparr>g_tokens := toks\<rparr>\<rparr>)))"

section \<open>Pending agents\<close>

definition rest_pending_list :: "instant \<Rightarrow> headers \<Rightarrow> app_state \<Rightarrow> response \<times> app_state" where
  "rest_pending_list now hs st =
     (case admin_check st now hs of
        (False, st1) \<Rightarrow> ((401, err_body ''unauthorized''), st1)
      | (True, st1) \<Rightarrow> ((200, JObj [(''pending'', JArr (pending_list (g_pending (as_gw st1)) now))]), st1))"

fun approve_response :: "approve_result \<Rightarrow> response" where
  "approve_response NotPending = (404, err_body ''pending agent not found'')"
| "approve_response RegistrationFailed = (500, err_body ''registration failed'')"
| "approve_response (Approved hid) = (200, JObj [(''approved'', JBool True), (''host_id'', JStr hid)])"
| "approve_response NoLongerPending = (404, err_body ''pending agent not found or already approved'')"

definition rest_pending_approve ::
  "instant \<Rightarrow> env \<Rightarrow> headers \<Rightarrow> string \<Rightarrow> string option option \<Rightarrow> app_state \<Rightarrow> response \<times> app_state" where
  "rest_pending_approve now e hs fp body st =
     (case admin_or_response st now hs of
        (Inl resp, st1) \<Rightarrow> (resp, st1)
      | (Inr _, st1) \<Rightarrow>
          (let (r, gw) = approve_agent e fp (case body of Some n \<Rightarrow> n | None \<Rightarrow> None) (as_gw st1)
           in (approve_response r, st1\<lparr>as_gw := gw\<rparr>)))"

section \<open>Hosts\<close>

text \<open>\<open>host_user_check\<close>; the answers of the agent and the random bytes of the request are
  arguments, as in \<open>execute_rpc\<close>.\<close>

definition rest_host_user_check ::
  "instant \<Rightarrow> headers \<Rightarrow> string \<Rightarrow> string \<Rightarrow> nat \<Rightarrow> message option \<Rightarrow> message option \<Rightarrow> app_state
   \<Rightarrow> response \<times> app_state" where
  "rest_host_user_check now hs hid raw4 sub first second st =
     (case bearer_token hs of
        None \<Rightarrow> ((401, JNull), st)
      | Some tok \<Rightarrow>
          (let (s, ss) = session_get_valid (as_sessions st) now tok;
               st1 = st\<lparr>as_sessions := ss\<rparr>
           in (case s of
                 None \<Rightarrow> ((401, JNull), st1)
               | Some s \<Rightarrow>
                   if \<not> is_online (g_registry (as_gw st1)) hid
                   then ((200, JObj [(''username'', JStr (sess_user s)), (''exists'', JNull),
                                     (''error'', JStr ''host_offline'')]), st1)
                   else (let (r, _, rg) = execute_rpc (g_registry (as_gw st1)) hid ''users.manage''
                               (JObj [(''action'', JStr ''check_exists''), (''username'', JStr (sess_user s))])
                               raw4 sub first second;
                             st2 = st1\<lparr>as_gw := (as_gw st1)\<lparr>g_registry := rg\<rparr>\<rparr>
                         in (case r of
                               Some d \<Rightarrow>
                                 ((200, JObj [(''username'', JStr (sess_user s)),
                                    (''exists'', JBool (unwrap_or False (jget_bool d ''exists'')))]), st2)
                             | None \<Rightarrow>
                                 ((504, JObj [(''username'', JStr (sess_user s)), (''exists'', JNull),
                                              (''error'', JStr ''timeout'')]), st2))))))"

record host_list_entry =
  hl_host :: host_entry
  hl_online :: bool
  hl_remote_ip :: "string option"

definition opt_field :: "string \<Rightarrow> string option \<Rightarrow> jmap" where
  "opt_field k v = (case v of None \<Rightarrow> [] | Some s \<Rightarrow> [(k, JStr s)])"

definition host_list_json :: "host_list_entry \<Rightarrow> json" where
  "host_list_json e =
     (let h = hl_host e
      in JObj ([(''id'', JStr (he_id h)), (''name'', JStr (he_name h)), (''hostname'', JStr (he_hostname h))]
               @ opt_field ''display_name'' (he_display_name h) @ [(''added_at'', JStr (he_added_at h))]
               @ opt_field ''last_seen'' (he_last_seen h)
               @ [(''online'', JBool (hl_online e)), (''is_local'', JBool (he_is_local h))]
               @ opt_field ''remote_ip'' (hl_remote_ip e) @ opt_field ''os_id'' (he_os_id h)))"

definition host_list_entry_of :: "agent_registry \<Rightarrow> string option \<Rightarrow> host_entry \<Rightarrow> host_list_entry" where
  "host_list_entry_of rg browsed h =
     (let online = he_id h \<in> set (online_host_ids rg);
          stored = get_remote_ip rg (he_id h)
      in \<lparr>hl_host = h, hl_online = online,
          hl_remote_ip =
            (if online then (if he_is_local h then (case browsed of Some ip \<Rightarrow> Some ip | None \<Rightarrow> stored) else stored)
             else None)\<rparr>)"

text \<open>\<open>primary\<close> is the host's outbound address, if it has one.\<close>

definition hosts_entries :: "ip_addr option \<Rightarrow> headers \<Rightarrow> app_state \<Rightarrow> host_list_entry list" where
  "hosts_entries primary hs st =
     (let browsed = map_option show_ip (case host_header_ip hs of Some ip \<Rightarrow> Some ip | None \<Rightarrow> primary)
      in sort_key (\<lambda>e. \<not> he_is_local (hl_host e))
           (map (host_list_entry_of (g_registry (as_gw st)) browsed) (hosts_load (g_hosts (as_gw st)))))"

definition rest_hosts_list :: "instant \<Rightarrow> ip_addr option \<Rightarrow> headers \<Rightarrow> app_state \<Rightarrow> response \<times> app_state" where
  "rest_hosts_list now primary hs st =
     (case auth_extract (as_sessions st) now hs of
        (Inl code, ss) \<Rightarrow> ((code, JNull), st\<lparr>as_sessions := ss\<rparr>)
      | (Inr _, ss) \<Rightarrow>
          ((200, JObj [(''hosts'', JArr (map host_list_json (hosts_entries primary hs st)))]),
           st\<lparr>as_sessions := ss\<rparr>))"

definition set_hosts :: "hosts_file \<Rightarrow> app_state \<Rightarrow> app_state" where
  "set_hosts f st = st\<lparr>as_gw := (as_gw st)\<lparr>g_hosts := f\<rparr>\<rparr>"

text \<open>\<open>hosts_remove\<close>, for the administrator and address that the extractors found.\<close>

definition hosts_remove :: "session \<Rightarrow> ip_addr \<Rightarrow> string \<Rightarrow> io \<Rightarrow> app_state \<Rightarrow> nat \<times> app_state" where
  "hosts_remove s ip hid w st =
     (let config = hosts_load (g_hosts (as_gw st));
          config' = filter (\<lambda>h. he_id h \<noteq> hid) config
      in if length config' = length config then (404, st)
         else (let (ok, f) = hosts_save w config';
                   st1 = set_hosts f st
               in if ok then (204, audited (sess_user s) ''host.remove'' hid True (''ip='' @ show_ip ip) st1)
                  else (500, audited (sess_user s) ''host.remove'' hid False ''save failed'' st1)))"

definition MAX_DISPLAY_NAME_LEN :: nat where "MAX_DISPLAY_NAME_LEN = 128"

definition hosts_patch ::
  "session \<Rightarrow> ip_addr \<Rightarrow> string \<Rightarrow> string option \<Rightarrow> io \<Rightarrow> app_state \<Rightarrow> nat \<times> app_state" where
  "hosts_patch s ip hid name w st =
     (case (case name of
              None \<Rightarrow> Some None
            | Some n \<Rightarrow>
                if char_count (trim n) > MAX_DISPLAY_NAME_LEN then None
                else if trim n = [] then Some None else Some (Some (trim n))) of
        None \<Rightarrow> (400, st)
      | Some display_name \<Rightarrow>
          (let config = hosts_load (g_hosts (as_gw st))
           in case List.find (by_id hid) config of
                None \<Rightarrow> (404, st)
              | Some _ \<Rightarrow>
                  (let (ok, f) = hosts_save w
                         (update_first (by_id hid) (\<lambda>h. h\<lparr>he_display_name := display_name\<rparr>) config);
                       st1 = set_hosts f st
                   in if ok then (204, audited (sess_user s) ''host.rename'' hid True (''ip='' @ show_ip ip) st1)
                      else (500, st1))))"

text \<open>The routes of these two, with their extractors in parameter order.\<close>

definition with_admin ::
  "instant \<Rightarrow> headers \<Rightarrow> ip_addr option \<Rightarrow> (session \<Rightarrow> ip_addr \<Rightarrow> app_state \<Rightarrow> nat \<times> app_state)
   \<Rightarrow> app_state \<Rightarrow> response \<times> app_state" where
  "with_admin now hs peer handler st =
     (case admin_extract (as_sessions st) now hs of
        (Inl code, ss) \<Rightarrow> ((code, JNull), st\<lparr>as_sessions := ss\<rparr>)
      | (Inr s, ss) \<Rightarrow>
          (case client_addr peer None hs of
             Inl code \<Rightarrow> ((code, JNull), st\<lparr>as_sessions := ss\<rparr>)
           | Inr ip \<Rightarrow> (let (code, st') = handler s ip (st\<lparr>as_sessions := ss\<rparr>) in ((code, JNull), st'))))"

definition health :: "instant \<Rightarrow> string \<Rightarrow> app_state \<Rightarrow> response" where
  "health now version st =
     (200, JObj [(''status'', JStr ''ok''), (''sessions'', JInt (int (session_count (as_sessions st)))),
                 (''uptime_secs'', JInt (int (elapsed_secs now (as_started_at st)))),
                 (''version'', JStr version)])"

text \<open>\<open>health_ready\<close>, given the mode of the agent binary or the error of reading it.\<close>

definition health_ready :: "gw_config \<Rightarrow> string + nat \<Rightarrow> response" where
  "health_ready cfg meta =
     (let bin = agent_bin cfg;
          (ready, error) = (case meta of
             Inr mode \<Rightarrow> if executable mode then (True, None) else (False, Some (bin @ '' is not executable''))
           | Inl e \<Rightarrow> (False, Some (bin @ '': '' @ e)))
      in (if ready then 200 else 503,
          JObj ([(''ready'', JBool ready), (''agent_bin'', JStr bin)] @ opt_field ''error'' error)))"

section \<open>The routes\<close>

datatype rest_request =
    RTokenCreate string string create_token_request
  | RTokenList
  | RTokenRevoke string
  | RPendingList
  | RPendingApprove env string "string option option"
  | RUserCheck string string nat "message option" "message option"
  | RHostsList "ip_addr option"
  | RHostsRemove string io "ip_addr option"
  | RHostsPatch string "string option" io "ip_addr option"

fun rest_handle :: "crypto \<Rightarrow> instant \<Rightarrow> headers \<Rightarrow> rest_request \<Rightarrow> app_state \<Rightarrow> response \<times> app_state" where
  "rest_handle c now hs (RTokenCreate u v body) st = rest_token_create c now u v hs body st"
| "rest_handle c now hs RTokenList st = rest_token_list now hs st"
| "rest_handle c now hs (RTokenRevoke i) st = rest_token_revoke now hs i st"
| "rest_handle c now hs RPendingList st = rest_pending_list now hs st"
| "rest_handle c now hs (RPendingApprove e fp body) st = rest_pending_approve now e hs fp body st"
| "rest_handle c now hs (RUserCheck hid raw sub a b) st = rest_host_user_check now hs hid raw sub a b st"
| "rest_handle c now hs (RHostsList primary) st = rest_hosts_list now primary hs st"
| "rest_handle c now hs (RHostsRemove hid w peer) st =
     with_admin now hs peer (\<lambda>s ip. hosts_remove s ip hid w) st"
| "rest_handle c now hs (RHostsPatch hid name w peer) st =
     with_admin now hs peer (\<lambda>s ip. hosts_patch s ip hid name w) st"

fun admin_route :: "rest_request \<Rightarrow> bool" where
  "admin_route (RUserCheck _ _ _ _ _) = False"
| "admin_route (RHostsList _) = False"
| "admin_route _ = True"

section \<open>Access control over all routes\<close>

definition same_data :: "app_state \<Rightarrow> app_state \<Rightarrow> bool" where
  "same_data st st' \<longleftrightarrow> as_gw st' = as_gw st \<and> as_audit st' = as_audit st \<and> as_config st' = as_config st"

lemma same_data_sessions [simp]: "same_data st (st\<lparr>as_sessions := ss\<rparr>)"
  by (simp add: same_data_def)

lemma same_data_refl [simp]: "same_data st st"
  by (simp add: same_data_def)

text \<open>The three ways the handlers check a session agree with the extractors.\<close>

lemma admin_or_response_cases:
  "(case fst (admin_extract (as_sessions st) now hs) of
      Inr s \<Rightarrow> fst (admin_or_response st now hs) = Inr s
    | Inl code \<Rightarrow> (\<exists>b. fst (admin_or_response st now hs) = Inl (code, b))) \<and>
   same_data st (snd (admin_or_response st now hs))"
  by (auto simp: admin_or_response_def admin_extract_def auth_extract_def Let_def case_prod_beta
      split: option.splits)

lemma admin_check_cases:
  "fst (admin_check st now hs) = (\<exists>s. fst (admin_extract (as_sessions st) now hs) = Inr s) \<and>
   same_data st (snd (admin_check st now hs))"
  by (auto simp: admin_check_def require_admin_def admin_extract_def auth_extract_def Let_def case_prod_beta
      split: option.splits prod.splits)

lemma admin_extract_fst:
  "fst (admin_extract ss now hs) =
     (case fst (auth_extract ss now hs) of Inl c \<Rightarrow> Inl c
      | Inr s \<Rightarrow> if sess_role s \<noteq> Admin then Inl 403 else Inr s)"
  by (simp add: admin_extract_def case_prod_beta split: sum.split prod.split)

lemma auth_extract_401: "fst (auth_extract ss now hs) = Inl c \<Longrightarrow> c = 401"
  by (auto simp: auth_extract_def case_prod_beta split: option.splits)

lemma admin_route_denied:
  assumes "admin_route r" and "fst (admin_extract (as_sessions st) now hs) = Inl code"
  shows "fst (fst (rest_handle c now hs r st)) \<in> {401, code} \<and> same_data st (snd (rest_handle c now hs r st))"
proof -
  obtain b st1 where A: "admin_or_response st now hs = (Inl (code, b), st1)" "same_data st st1"
    using admin_or_response_cases [of st now hs] assms(2)
    by (cases "admin_or_response st now hs") auto
  obtain st2 where C: "admin_check st now hs = (False, st2)" "same_data st st2"
    using admin_check_cases [of st now hs] assms(2)
    by (cases "admin_check st now hs") auto
  obtain ss where E: "admin_extract (as_sessions st) now hs = (Inl code, ss)"
    using assms(2) by (cases "admin_extract (as_sessions st) now hs") auto
  show ?thesis
    using assms(1) A C E
    by (cases r) (simp_all add: rest_token_create_def rest_token_list_def rest_token_revoke_def
        rest_pending_list_def rest_pending_approve_def with_admin_def)
qed

lemma user_route_denied:
  assumes "\<not> admin_route r" and "fst (auth_extract (as_sessions st) now hs) = Inl 401"
  shows "fst (fst (rest_handle c now hs r st)) = 401 \<and> same_data st (snd (rest_handle c now hs r st))"
proof -
  obtain ss where E: "auth_extract (as_sessions st) now hs = (Inl 401, ss)"
    using assms(2) by (cases "auth_extract (as_sessions st) now hs") auto
  show ?thesis
    using assms E
    by (cases r) (auto simp: rest_host_user_check_def rest_hosts_list_def auth_extract_def Let_def
        case_prod_beta split: option.splits)
qed


definition demo_app :: app_state where
  "demo_app = \<lparr>as_config = config_default (\<lambda>_. None), as_sessions = store_new 900,
     as_gw = gateway_init (Stored [demo_enrolled]), as_audit = [], as_started_at = 0\<rparr>"


section \<open>Effects of the host routes\<close>

text \<open>
  Removing a host removes exactly that host from the file, and nothing else: the agent's
  connection stays in the registry, so the removed host is still online and reachable.
\<close>

theorem removed_host_stays_connected:
  assumes "hosts_remove s ip hid IoOk st = (204, st')"
  shows "hosts_load (g_hosts (as_gw st')) = filter (\<lambda>h. he_id h \<noteq> hid) (hosts_load (g_hosts (as_gw st))) \<and>
    g_registry (as_gw st') = g_registry (as_gw st) \<and>
    is_online (g_registry (as_gw st')) hid = is_online (g_registry (as_gw st)) hid"
  using assms
  by (auto simp: hosts_remove_def Let_def audited_def set_hosts_def split: if_splits)

theorem removed_host_stays_connected_witness:
  "\<exists>st'. hosts_remove \<lparr>sess_id = ''s'', sess_user = ''root'', sess_role = Admin, created_at = 0, last_activity = 0\<rparr>
      (V4 10 0 0 1) ''u1'' IoOk (demo_app\<lparr>as_gw := two_conns\<rparr>) = (204, st') \<and>
    is_online (g_registry (as_gw st')) ''u1'' \<and> hosts_load (g_hosts (as_gw st')) = []"
proof -
  let ?s = "\<lparr>sess_id = ''s'', sess_user = ''root'', sess_role = Admin, created_at = 0, last_activity = 0\<rparr>"
  let ?st = "demo_app\<lparr>as_gw := two_conns\<rparr>"
  have hs: "hosts_load (g_hosts (as_gw ?st)) = [demo_enrolled]" and i: "he_id demo_enrolled = ''u1''"
    by (simp_all add: two_conns_def gateway_init_def demo_enrolled_def new_host_def)
  have on: "is_online (g_registry (as_gw ?st)) ''u1''"
    by (simp add: two_conns_def registry_register_def registry_new_def is_online_def hm_has_def)
  obtain st' where r: "hosts_remove ?s (V4 10 0 0 1) ''u1'' IoOk ?st = (204, st')"
    using hs i by (simp add: hosts_remove_def Let_def)
  from removed_host_stays_connected [OF r] r on hs i show ?thesis by auto
qed

text \<open>
  A renamed host keeps everything but its name: the new display name is the trimmed one, of
  at most 128 characters, or none when it is blank; a longer one, or an unknown host, changes
  nothing.
\<close>

theorem rename_effect:
  "case hosts_patch s ip hid name IoOk st of (code, st') \<Rightarrow>
     (if \<exists>n. name = Some n \<and> char_count (trim n) > MAX_DISPLAY_NAME_LEN then code = 400 \<and> st' = st
      else if List.find (by_id hid) (hosts_load (g_hosts (as_gw st))) = None then code = 404 \<and> st' = st
      else code = 204 \<and>
        hosts_load (g_hosts (as_gw st')) =
          update_first (by_id hid)
            (\<lambda>h. h\<lparr>he_display_name := (case name of None \<Rightarrow> None | Some n \<Rightarrow> if trim n = [] then None else Some (trim n))\<rparr>)
            (hosts_load (g_hosts (as_gw st))) \<and>
        g_registry (as_gw st') = g_registry (as_gw st) \<and> as_sessions st' = as_sessions st)"
  by (auto simp: hosts_patch_def Let_def audited_def set_hosts_def split: option.split)

lemma insort_bool:
  "\<not> f x \<Longrightarrow> \<forall>a \<in> set as. f a \<Longrightarrow> \<forall>b \<in> set bs. \<not> f b \<Longrightarrow>
    insort_key (\<lambda>e. \<not> f e) x (as @ bs) = as @ x # bs"
  by (induction as) (cases bs; simp)+

lemma sort_key_bool: "sort_key (\<lambda>e. \<not> f e) xs = filter f xs @ filter (\<lambda>e. \<not> f e) xs"
proof (induction xs)
  case (Cons x xs)
  show ?case
  proof (cases "f x")
    case True
    then have "insort_key (\<lambda>e. \<not> f e) x ys = x # ys" for ys by (cases ys) simp_all
    with True Cons show ?thesis by simp
  next
    case False
    have "sort_key (\<lambda>e. \<not> f e) (x # xs) = insort_key (\<lambda>e. \<not> f e) x (filter f xs @ filter (\<lambda>e. \<not> f e) xs)"
      by (simp only: Cons sort_key_simps)
    also have "\<dots> = filter f xs @ x # filter (\<lambda>e. \<not> f e) xs"
      by (rule insort_bool [of f x]) (use False in simp_all)
    finally show ?thesis using False by simp
  qed
qed simp

text \<open>
  The host list shows every enrolled host once, those of the panel machine first and each
  group in the order of the file, online exactly when the registry lists it, and an address
  only when online.
\<close>

theorem host_list_order:
  "map hl_host (hosts_entries primary hs st) =
     filter he_is_local (hosts_load (g_hosts (as_gw st))) @
     filter (\<lambda>h. \<not> he_is_local h) (hosts_load (g_hosts (as_gw st))) \<and>
   (\<forall>e \<in> set (hosts_entries primary hs st).
      hl_online e = is_online (g_registry (as_gw st)) (he_id (hl_host e)) \<and>
      (\<not> hl_online e \<longrightarrow> hl_remote_ip e = None))"
proof -
  have h: "hl_host (host_list_entry_of rg b h) = h" for rg b h
    by (simp add: host_list_entry_of_def Let_def)
  have on: "hl_online (host_list_entry_of rg b h) = is_online rg (he_id h)"
    "\<not> hl_online (host_list_entry_of rg b h) \<Longrightarrow> hl_remote_ip (host_list_entry_of rg b h) = None" for rg b h
    by (auto simp: host_list_entry_of_def Let_def online_host_ids_def is_online_def hm_has_def
        map_of_eq_None_iff)
  show ?thesis
    using on by (auto simp: hosts_entries_def Let_def sort_key_bool filter_map comp_def h)
qed

theorem host_list_order_witness:
  "map hl_host (hosts_entries None [] demo_app) = [demo_enrolled] \<and>
   hl_online (hd (hosts_entries None [] demo_app)) = False"
proof -
  let ?es = "hosts_entries None [] demo_app"
  have loaded: "hosts_load (g_hosts (as_gw demo_app)) = [demo_enrolled]"
    by (simp add: demo_app_def gateway_init_def hosts_load_def)
  then have hosts: "map hl_host ?es = [demo_enrolled]"
    using host_list_order [of None "[]" demo_app] by (cases "he_is_local demo_enrolled") auto
  then have "hd ?es \<in> set ?es" by (intro hd_in_set) auto
  then have "hl_online (hd ?es) = is_online (g_registry (as_gw demo_app)) (he_id (hl_host (hd ?es)))"
    using host_list_order [of None "[]" demo_app] by blast
  then show ?thesis
    using hosts by (simp add: demo_app_def gateway_init_def registry_new_def is_online_def hm_has_def)
qed

text \<open>
  The token an administrator creates is the one agents can enrol with: the response carries
  its value; presented for an allowed hostname it is accepted with the requested flag for as
  long as the lifetime lasts, which is the requested one brought into one minute to thirty
  days, while the response still repeats the requested number.
\<close>

theorem created_token_works:
  assumes "fst (admin_extract (as_sessions st) now hs) = Inr s"
    and "rest_token_create c now uuid v hs body st = (resp, st')"
    and "hm_get (g_tokens (as_gw st)) uuid = None"
    and "\<forall>t \<in> set (hm_vals (g_tokens (as_gw st))). bt_value_digest t \<noteq> token_digest c v"
    and "ct_max_uses body \<noteq> Some 0" and "\<forall>b. ct_bound_hostname body = Some b \<longrightarrow> h = b"
    and "now' \<le> now + secs (clamp 60 2592000 (ct_ttl_secs body))"
  shows "fst resp = 200 \<and> jget_str (snd resp) ''token'' = Some v \<and>
    jget (snd resp) ''ttl_secs'' = Some (JInt (int (ct_ttl_secs body))) \<and>
    fst (validate_and_consume c (g_tokens (as_gw st')) now' v h) = Some (ct_re_enroll body)"
proof -
  obtain st1 where A: "admin_or_response st now hs = (Inr s, st1)" "same_data st st1"
    using admin_or_response_cases [of st now hs] assms(1)
    by (cases "admin_or_response st now hs") auto
  then have gw: "as_gw st1 = as_gw st" by (simp add: same_data_def)
  have cl: "clamp 60 (86400 * 30) n = clamp 60 2592000 n" for n by simp
  show ?thesis
    using assms(2) fresh_token_accepted' [OF assms(3,4,5,7,6), of "ct_single_use body" "ct_re_enroll body"]
    by (auto simp: rest_token_create_def A gw Let_def token_create_def jget_str_def)
qed

theorem created_token_works_witness:
  "\<exists>resp st'. rest_token_create toy_crypto 7 ''id9'' ''secret9'' [(''authorization'', ''Bearer tok'')]
      \<lparr>ct_ttl_secs = 5, ct_single_use = True, ct_max_uses = None, ct_bound_hostname = None, ct_re_enroll = False\<rparr>
      (demo_app\<lparr>as_sessions := demo_store\<rparr>) = (resp, st') \<and> fst resp = 200 \<and>
    fst (validate_and_consume toy_crypto (g_tokens (as_gw st')) (secs 60) ''secret9'' ''any'') = Some False"
proof -
  let ?hs = "[(''authorization'', ''Bearer tok'')]" and ?st = "demo_app\<lparr>as_sessions := demo_store\<rparr>"
  let ?b = "\<lparr>ct_ttl_secs = 5, ct_single_use = True, ct_max_uses = None, ct_bound_hostname = None, ct_re_enroll = False\<rparr>"
  have t: "bearer_token ?hs = Some ''tok''"
    by (simp add: bearer_token_def header_str_def visible_ascii_def byte_def)
  have "\<exists>s. fst (auth_extract (as_sessions ?st) 7 ?hs) = Inr s \<and> sess_role s = Admin"
    by (simp add: auth_extract_def t demo_store_def session_create_def session_get_valid_def store_new_def
        session_live_def elapsed_secs_def as_secs_def NANOS_def Let_def)
  then obtain s where s: "fst (admin_extract (as_sessions ?st) 7 ?hs) = Inr s"
    by (auto simp: admin_extract_fst)
  obtain resp st' where r: "rest_token_create toy_crypto 7 ''id9'' ''secret9'' ?hs ?b ?st = (resp, st')"
    by (metis surj_pair)
  have "fst resp = 200 \<and> jget_str (snd resp) ''token'' = Some ''secret9'' \<and>
      jget (snd resp) ''ttl_secs'' = Some (JInt (int (ct_ttl_secs ?b))) \<and>
      fst (validate_and_consume toy_crypto (g_tokens (as_gw st')) (secs 60) ''secret9'' ''any'') = Some (ct_re_enroll ?b)"
    by (rule created_token_works [OF s r])
       (simp_all add: demo_app_def gateway_init_def hm_vals_def clamp_def)
  with r show ?thesis by auto
qed

end
