(* ===== verification/WsClient.thy ===== *)
theory WsClient
  imports Sessions Registry
begin

text \<open>
  A browser's WebSocket (\<open>gateway/src/ws.rs\<close>): the authentication phase, then the select loop
  that opens channels on agents, forwards frames, and watches the session. A sender to an agent
  is named by the number of its connection; whether a send succeeds is an argument, because it
  depends on the proxy task. What a handler sends or logs is its list of effects.
\<close>

definition MAX_CHANNELS_PER_SESSION :: nat where "MAX_CHANNELS_PER_SESSION = 512"

definition MAX_REMOTE_AGENTS :: nat where "MAX_REMOTE_AGENTS = 50"

datatype ws_effect =
    ToClient message
  | ToAgent nat message
  | WsAudit string string bool string
  | CloseSocket

section \<open>Authentication phase\<close>

datatype auth_input = AuthTimeout | AuthText "message option" | AuthCloseFrame | AuthOther | AuthEnd

definition auth_problem :: "string \<Rightarrow> ws_effect" where
  "auth_problem p = ToClient (AuthResult False (Some p) None)"

text \<open>The credentials, or what is sent before the socket is dropped.\<close>

fun await_credentials :: "auth_input list \<Rightarrow> ws_effect list + auth_credentials" where
  "await_credentials [] = Inl []"
| "await_credentials (AuthTimeout # is) = Inl [auth_problem ''auth-timeout'']"
| "await_credentials (AuthEnd # is) = Inl []"
| "await_credentials (AuthCloseFrame # is) = Inl []"
| "await_credentials (AuthOther # is) = await_credentials is"
| "await_credentials (AuthText m # is) =
     (case Option.bind m decode_message of
        Some (Auth c) \<Rightarrow> Inr c
      | _ \<Rightarrow> Inl [auth_problem ''auth-required''])"

record ws_state =
  ws_session :: string
  ws_user :: string
  ws_role :: role
  ws_routes :: "(string, nat) hmap"
  ws_remotes :: "(string, nat) hmap"

definition ws_init :: "string \<Rightarrow> session \<Rightarrow> ws_state" where
  "ws_init token s =
     \<lparr>ws_session = token, ws_user = sess_user s, ws_role = sess_role s, ws_routes = [], ws_remotes = []\<rparr>"

definition ws_authenticate ::
  "auth_input list \<Rightarrow> instant \<Rightarrow> session_store \<Rightarrow> ws_effect list \<times> ws_state option \<times> session_store" where
  "ws_authenticate inputs now ss =
     (case await_credentials inputs of
        Inl out \<Rightarrow> (out, None, ss)
      | Inr (Basic u p) \<Rightarrow> ([auth_problem ''token-scheme-required''], None, ss)
      | Inr (Token tok) \<Rightarrow>
          (case session_get_valid ss now tok of
             (None, ss1) \<Rightarrow> ([auth_problem ''invalid-session''], None, ss1)
           | (Some s, ss1) \<Rightarrow>
               if elapsed_secs now (last_activity s) > idle_timeout_secs ss
               then ([auth_problem ''session-expired''], None, session_remove ss1 tok)
               else ([ToClient (AuthResult True None (Some (sess_user s)))],
                     Some (ws_init tok s), session_touch ss1 now tok)))"

section \<open>Opening channels\<close>

definition refuse :: "string \<Rightarrow> string \<Rightarrow> ws_effect" where
  "refuse ch p = ToClient (Close ch (Some p))"

definition enrich_options :: "string \<Rightarrow> role \<Rightarrow> open_options \<Rightarrow> open_options" where
  "enrich_options user r o' =
     o'\<lparr>extra := hm_put ''_role'' (JStr (role_str r)) (hm_put ''_user'' (JStr user) (hm_del ''host'' (extra o')))\<rparr>"

definition ws_prefix :: "ws_state \<Rightarrow> string" where
  "ws_prefix w = session_prefix (ws_session w)"

text \<open>Forwarding through the proxy of connection \<open>cid\<close>.\<close>

definition to_agent :: "ws_state \<Rightarrow> nat \<Rightarrow> message \<Rightarrow> ws_effect" where
  "to_agent w cid m = ToAgent cid (prefix_message m (ws_prefix w))"

text \<open>The cached sender of a host while its connection is alive, otherwise a new session on the
  host's current connection.\<close>

definition connect_new ::
  "agent_registry \<Rightarrow> ws_state \<Rightarrow> nat \<Rightarrow> string
   \<Rightarrow> (string + nat) \<times> ws_effect list \<times> ws_state \<times> agent_registry" where
  "connect_new rg w sub hid =
     (if length (ws_remotes w) \<ge> MAX_REMOTE_AGENTS then (Inl ''remote-agent-limit-exceeded'', [], w, rg)
      else (case connect_session rg hid (ws_prefix w) sub of
              Some ((cid, _), rg') \<Rightarrow>
                (Inr cid, [WsAudit ''agent_connect'' hid True ''remote agent connected via registry''],
                 w\<lparr>ws_remotes := hm_put hid cid (ws_remotes w)\<rparr>, rg')
            | None \<Rightarrow> (Inl ''host-offline'', [WsAudit ''agent_connect'' hid False ''host offline''], w, rg)))"

definition target_sender ::
  "agent_registry \<Rightarrow> ws_state \<Rightarrow> nat \<Rightarrow> string
   \<Rightarrow> (string + nat) \<times> ws_effect list \<times> ws_state \<times> agent_registry" where
  "target_sender rg w sub hid =
     (case hm_get (ws_remotes w) hid of
        Some cid \<Rightarrow>
          if conn_alive rg cid then (Inr cid, [], w, rg)
          else connect_new rg (w\<lparr>ws_remotes := hm_del hid (ws_remotes w)\<rparr>) sub hid
      | None \<Rightarrow> connect_new rg (w\<lparr>ws_remotes := hm_del hid (ws_remotes w)\<rparr>) sub hid)"

definition ws_open ::
  "(nat \<Rightarrow> bool) \<Rightarrow> agent_registry \<Rightarrow> nat \<Rightarrow> string \<Rightarrow> open_options \<Rightarrow> ws_state
   \<Rightarrow> ws_effect list \<times> ws_state \<times> agent_registry" where
  "ws_open send_ok rg sub ch options w =
     (if length (ws_routes w) \<ge> MAX_CHANNELS_PER_SESSION then ([refuse ch ''channel-limit-exceeded''], w, rg)
      else if length ch > MAX_CHANNEL_ID_LEN - (SESSION_PREFIX_LEN + 1)
      then ([refuse ch ''channel-id-too-long''], w, rg)
      else if hm_has (ws_routes w) ch then ([refuse ch ''duplicate-channel-id''], w, rg)
      else (case map_str (extra options) ''host'' of
              None \<Rightarrow> ([refuse ch ''host-required''], w, rg)
            | Some hid \<Rightarrow>
                (case target_sender rg w sub hid of
                   (Inl problem, audit, w1, rg1) \<Rightarrow> (audit @ [refuse ch problem], w1, rg1)
                 | (Inr cid, audit, w1, rg1) \<Rightarrow>
                     (if send_ok cid
                      then (audit @ [to_agent w cid (Open ch (enrich_options (ws_user w) (ws_role w) options))],
                            w1\<lparr>ws_routes := hm_put ch cid (ws_routes w1)\<rparr>, rg1)
                      else (audit @ [refuse ch ''host-offline''],
                            w1\<lparr>ws_remotes := hm_del hid (ws_remotes w1)\<rparr>, rg1)))))"

text \<open>Any other frame of the browser: data, control and close go where their channel was opened.\<close>

definition client_channel :: "message \<Rightarrow> string option" where
  "client_channel m =
     (case m of Data ch _ \<Rightarrow> Some ch | Close ch _ \<Rightarrow> Some ch | Control ch _ _ \<Rightarrow> Some ch | _ \<Rightarrow> None)"

definition is_close :: "message \<Rightarrow> bool" where
  "is_close m = (case m of Close _ _ \<Rightarrow> True | _ \<Rightarrow> False)"

definition ws_forward :: "(nat \<Rightarrow> bool) \<Rightarrow> message \<Rightarrow> ws_state \<Rightarrow> ws_effect list \<times> ws_state" where
  "ws_forward send_ok m w =
     (case client_channel m of
        None \<Rightarrow> ([], w)
      | Some ch \<Rightarrow>
          (let (out, r1) =
             (case hm_get (ws_routes w) ch of
                None \<Rightarrow> ([], ws_routes w)
              | Some cid \<Rightarrow>
                  if send_ok cid then ([to_agent w cid m], ws_routes w) else ([], hm_del ch (ws_routes w)));
               r2 = (if is_close m then hm_del ch r1 else r1)
           in (out, w\<lparr>ws_routes := r2\<rparr>)))"

section \<open>The loop\<close>

datatype ws_input =
    FromClient "message option"
  | FromAgent message
  | SessionTick

text \<open>One turn: the effects, the state (\<open>None\<close> when the loop ends), registry and sessions. A
  frame from any agent of the session is forwarded as it is; a close also drops the route.\<close>

definition ws_turn ::
  "(nat \<Rightarrow> bool) \<Rightarrow> instant \<Rightarrow> nat \<Rightarrow> ws_input \<Rightarrow> ws_state \<times> agent_registry \<times> session_store
   \<Rightarrow> ws_effect list \<times> (ws_state option \<times> agent_registry \<times> session_store)" where
  "ws_turn send_ok now sub i = (\<lambda>(w, rg, ss).
     (case i of
        FromClient text \<Rightarrow>
          (let ss1 = session_touch ss now (ws_session w)
           in (case Option.bind text decode_message of
                 None \<Rightarrow> ([], Some w, rg, ss1)
               | Some Ping \<Rightarrow> ([ToClient Pong], Some w, rg, ss1)
               | Some (Open ch options) \<Rightarrow>
                   (case ws_open send_ok rg sub ch options w of (out, w1, rg1) \<Rightarrow> (out, Some w1, rg1, ss1))
               | Some m \<Rightarrow> (case ws_forward send_ok m w of (out, w1) \<Rightarrow> (out, Some w1, rg, ss1))))
      | FromAgent m \<Rightarrow>
          ([ToClient m],
           Some (case m of Close ch _ \<Rightarrow> w\<lparr>ws_routes := hm_del ch (ws_routes w)\<rparr> | _ \<Rightarrow> w), rg, ss)
      | SessionTick \<Rightarrow>
          (case session_get ss (ws_session w) of
             None \<Rightarrow> ([WsAudit ''ws_disconnect'' ''websocket'' True ''session invalidated'', CloseSocket], None, rg, ss)
           | Some _ \<Rightarrow> ([], Some w, rg, ss))))"

text \<open>The states of one socket; registry and sessions change freely between its turns.\<close>

inductive ws_reach :: "string \<Rightarrow> session \<Rightarrow> ws_state \<Rightarrow> bool" for tok s where
  start: "ws_reach tok s (ws_init tok s)"
| turn: "ws_reach tok s w \<Longrightarrow> ws_turn send_ok now sub i (w, rg, ss) = (out, Some w', rest) \<Longrightarrow>
    ws_reach tok s w'"

definition route_ok :: "string \<Rightarrow> bool" where
  "route_ok ch \<longleftrightarrow> channel_ok ch \<and> length ch \<le> MAX_CHANNEL_ID_LEN - (SESSION_PREFIX_LEN + 1)"

definition ws_inv :: "string \<Rightarrow> session \<Rightarrow> ws_state \<Rightarrow> bool" where
  "ws_inv tok s w \<longleftrightarrow>
     ws_session w = tok \<and> ws_user w = sess_user s \<and> ws_role w = sess_role s \<and>
     length (ws_routes w) \<le> MAX_CHANNELS_PER_SESSION \<and> length (ws_remotes w) \<le> MAX_REMOTE_AGENTS \<and>
     (\<forall>(ch, cid) \<in> set (ws_routes w). route_ok ch)"

lemma length_hm_del_le: "length (hm_del k m) \<le> length m"
  by (rule AList.length_delete_le)

lemma length_hm_put_le: "length (hm_put k v m) \<le> Suc (length m)"
  by (cases "hm_get m k") (simp_all add: hm_put_absent_append hm_put_present_length)

lemma length_hm_put_lt: "length m < n \<Longrightarrow> length (hm_put k v m) \<le> n"
  using length_hm_put_le [of k v m] by simp

lemma ws_inv_routes:
  "ws_inv tok s w \<Longrightarrow> length rs \<le> length (ws_routes w) \<Longrightarrow> set rs \<subseteq> set (ws_routes w) \<Longrightarrow>
    ws_inv tok s (w\<lparr>ws_routes := rs\<rparr>)"
  by (auto simp: ws_inv_def)

lemma ws_inv_del_route: "ws_inv tok s w \<Longrightarrow> ws_inv tok s (w\<lparr>ws_routes := hm_del ch (ws_routes w)\<rparr>)"
  by (rule ws_inv_routes) (auto simp: length_hm_del_le set_hm_del)

lemma ws_inv_del_remote: "ws_inv tok s w \<Longrightarrow> ws_inv tok s (w\<lparr>ws_remotes := hm_del h (ws_remotes w)\<rparr>)"
  using length_hm_del_le [of h "ws_remotes w"] by (auto simp: ws_inv_def)

lemma connect_new_inv:
  assumes "ws_inv tok s w" and "connect_new rg w sub hid = (r, audit, w1, rg1)"
  shows "ws_inv tok s w1 \<and> ws_routes w1 = ws_routes w \<and> ws_session w1 = ws_session w \<and>
    (\<forall>e \<in> set audit. \<exists>a b c d. e = WsAudit a b c d)"
  using assms
  by (auto simp: connect_new_def ws_inv_def not_le length_hm_put_lt split: if_splits option.splits)

lemma target_sender_inv:
  assumes "ws_inv tok s w" and "target_sender rg w sub hid = (r, audit, w1, rg1)"
  shows "ws_inv tok s w1 \<and> ws_routes w1 = ws_routes w \<and> ws_session w1 = ws_session w \<and>
    (\<forall>e \<in> set audit. \<exists>a b c d. e = WsAudit a b c d)"
proof (cases "\<exists>cid. hm_get (ws_remotes w) hid = Some cid \<and> conn_alive rg cid")
  case True
  with assms show ?thesis by (auto simp: target_sender_def)
next
  case False
  with assms(2) have "connect_new rg (w\<lparr>ws_remotes := hm_del hid (ws_remotes w)\<rparr>) sub hid = (r, audit, w1, rg1)"
    by (auto simp: target_sender_def split: option.splits)
  from connect_new_inv [OF ws_inv_del_remote [OF assms(1)] this] show ?thesis by simp
qed

text \<open>What a frame forwarded to an agent looks like.\<close>

definition sent_ok :: "string \<Rightarrow> session \<Rightarrow> message \<Rightarrow> bool" where
  "sent_ok tok s wire \<longleftrightarrow>
     (\<exists>m ch. wire = prefix_message m (session_prefix tok) \<and> msg_channel m = Some ch \<and> route_ok ch \<and>
        (case m of
           Open _ o' \<Rightarrow> map_str (extra o') ''_user'' = Some (sess_user s) \<and>
                        map_str (extra o') ''_role'' = Some (role_str (sess_role s)) \<and>
                        hm_get (extra o') ''host'' = None
         | Ready _ \<Rightarrow> False
         | _ \<Rightarrow> True))"

lemma sent_ok_message:
  assumes "sent_ok tok s wire"
  shows "\<exists>m ch. wire = prefix_message m (session_prefix tok) \<and> msg_channel m = Some ch \<and> route_ok ch \<and>
    (\<forall>c. m \<noteq> Ready c)"
proof -
  from assms obtain m ch where m: "wire = prefix_message m (session_prefix tok)" "msg_channel m = Some ch"
    "route_ok ch" and c: "case m of
           Open _ o' \<Rightarrow> map_str (extra o') ''_user'' = Some (sess_user s) \<and>
                        map_str (extra o') ''_role'' = Some (role_str (sess_role s)) \<and>
                        hm_get (extra o') ''host'' = None
         | Ready _ \<Rightarrow> False
         | _ \<Rightarrow> True"
    unfolding sent_ok_def by blast
  from c have "\<forall>c. m \<noteq> Ready c" by (cases m) simp_all
  with m show ?thesis by blast
qed

lemma enrich_identity:
  "map_str (extra (enrich_options u r o')) ''_user'' = Some u \<and>
   map_str (extra (enrich_options u r o')) ''_role'' = Some (role_str r) \<and>
   hm_get (extra (enrich_options u r o')) ''host'' = None"
  by (simp add: enrich_options_def map_str_def)

lemma ws_open_inv:
  assumes inv: "ws_inv tok s w" and ch: "channel_ok ch"
    and o': "ws_open send_ok rg sub ch options w = (out, w', rg')"
  shows "ws_inv tok s w' \<and> (\<forall>cid m. ToAgent cid m \<in> set out \<longrightarrow> sent_ok tok s m)"
proof (cases "length (ws_routes w) \<ge> MAX_CHANNELS_PER_SESSION \<or>
    length ch > MAX_CHANNEL_ID_LEN - (SESSION_PREFIX_LEN + 1) \<or> hm_has (ws_routes w) ch \<or>
    map_str (extra options) ''host'' = None")
  case True
  with o' inv show ?thesis by (auto simp: ws_open_def refuse_def split: if_splits)
next
  case False
  then obtain hid where hid: "map_str (extra options) ''host'' = Some hid" by auto
  have rk: "route_ok ch" using False ch by (simp add: route_ok_def)
  obtain r audit w1 rg1 where T: "target_sender rg w sub hid = (r, audit, w1, rg1)"
    by (metis prod_cases4)
  note I = target_sender_inv [OF inv T]
  have aud: "ToAgent cid m \<notin> set audit" for cid m using I by fastforce
  show ?thesis
  proof (cases r)
    case (Inl problem)
    with o' False hid T I aud show ?thesis by (auto simp: ws_open_def refuse_def)
  next
    case (Inr cid)
    have so: "sent_ok tok s (prefix_message (Open ch (enrich_options (ws_user w) (ws_role w) options)) (session_prefix tok))"
      unfolding sent_ok_def
      by (rule exI [of _ "Open ch (enrich_options (ws_user w) (ws_role w) options)"])
         (use inv rk enrich_identity in \<open>auto simp: ws_inv_def\<close>)
    have "ws_inv tok s (w1\<lparr>ws_routes := hm_put ch cid (ws_routes w1)\<rparr>)"
      using I False rk length_hm_put_le [of ch cid "ws_routes w1"] set_hm_put_subset [of ch cid "ws_routes w1"]
      by (fastforce simp: ws_inv_def not_le)
    moreover have "ws_inv tok s (w1\<lparr>ws_remotes := hm_del hid (ws_remotes w1)\<rparr>)"
      using I by (simp add: ws_inv_del_remote)
    ultimately show ?thesis
      using o' False hid T Inr so aud inv
      by (auto simp: ws_open_def refuse_def to_agent_def ws_prefix_def ws_inv_def split: if_splits)
  qed
qed

lemma ws_forward_inv:
  assumes inv: "ws_inv tok s w" and m: "ws_forward send_ok m w = (out, w')"
  shows "ws_inv tok s w' \<and> (\<forall>cid m. ToAgent cid m \<in> set out \<longrightarrow> sent_ok tok s m)"
proof (cases "client_channel m")
  case None
  with m inv show ?thesis by (auto simp: ws_forward_def)
next
  case (Some ch)
  have out: "sent_ok tok s (prefix_message m (ws_prefix w))" if "hm_get (ws_routes w) ch = Some cid" for cid
  proof -
    have "route_ok ch" using inv map_of_SomeD [OF that] by (auto simp: ws_inv_def)
    moreover have "msg_channel m = Some ch" "\<nexists>c o'. m = Open c o'" "\<nexists>c. m = Ready c"
      using Some by (cases m; simp add: client_channel_def)+
    ultimately show ?thesis
      using inv unfolding sent_ok_def
      by (intro exI [of _ m] exI [of _ ch]) (auto simp: ws_prefix_def ws_inv_def split: message.split)
  qed
  have del: "ws_inv tok s (w\<lparr>ws_routes := hm_del ch (ws_routes w)\<rparr>)"
    "ws_inv tok s (w\<lparr>ws_routes := hm_del ch (hm_del ch (ws_routes w))\<rparr>)"
    using ws_inv_del_route [OF inv, of ch] ws_inv_del_route [OF ws_inv_del_route [OF inv, of ch], of ch] by simp_all
  show ?thesis
    using m inv Some out del
    by (auto simp: ws_forward_def Let_def to_agent_def split: option.splits if_splits)
qed

lemma ws_turn_inv:
  assumes inv: "ws_inv tok s w" and t: "ws_turn send_ok now sub i (w, rg, ss) = (out, wo, rest)"
  shows "(\<forall>w'. wo = Some w' \<longrightarrow> ws_inv tok s w') \<and> (\<forall>cid m. ToAgent cid m \<in> set out \<longrightarrow> sent_ok tok s m)"
proof (cases i)
  case (FromClient frame)
  show ?thesis
  proof (cases "Option.bind frame decode_message")
    case None
    with t inv FromClient show ?thesis by (auto simp: ws_turn_def Let_def)
  next
    case (Some m)
    then have wf: "msg_wf m" by (auto simp: bind_eq_Some_conv dest: decode_message_wf)
    show ?thesis
    proof (cases "\<exists>ch o'. m = Open ch o'")
      case True
      then obtain ch o' where m: "m = Open ch o'" by blast
      then have "channel_ok ch" using wf by (simp add: msg_wf_def)
      with ws_open_inv [OF inv this, of send_ok rg sub o'] t inv FromClient Some m show ?thesis
        by (auto simp: ws_turn_def Let_def split: prod.splits)
    next
      case False
      obtain out1 w1 where F: "ws_forward send_ok m w = (out1, w1)" by (cases "ws_forward send_ok m w")
      from ws_forward_inv [OF inv F] t inv FromClient Some False F show ?thesis
        by (cases m) (auto simp: ws_turn_def Let_def)
    qed
  qed
next
  case (FromAgent m)
  with t inv ws_inv_del_route [OF inv] show ?thesis by (auto simp: ws_turn_def split: message.splits)
next
  case SessionTick
  with t inv show ?thesis by (auto simp: ws_turn_def split: option.splits)
qed

lemma ws_reach_inv: "ws_reach tok s w \<Longrightarrow> ws_inv tok s w"
proof (induction rule: ws_reach.induct)
  case start
  show ?case by (simp add: ws_inv_def ws_init_def)
next
  case (turn w send_ok now sub i rg ss out w' rest)
  from ws_turn_inv [OF turn.IH turn.hyps(2)] show ?case by blast
qed

lemma turn_sends:
  assumes "ws_reach tok s w" and "ws_turn send_ok now sub i (w, rg, ss) = (out, rest)" and "ToAgent cid wire \<in> set out"
  shows "sent_ok tok s wire"
proof -
  obtain wo r where "rest = (wo, r)" by (cases rest)
  with ws_turn_inv [OF ws_reach_inv [OF assms(1)], of send_ok now sub i rg ss out wo r] assms(2,3)
  show ?thesis by blast
qed

text \<open>
  C3. An agent learns who is asking from the gateway, never from the browser: whatever frames a
  browser has sent and whatever has happened since, every frame put on an agent connection is
  one on a valid channel of the session, under the session's own prefix, and every channel it
  opens carries the user and the role of the session, with the routing field removed.
\<close>

theorem agent_sees_session_identity:
  assumes "ws_reach tok s w" and "ws_turn send_ok now sub i (w, rg, ss) = (out, rest)"
    and "ToAgent cid wire \<in> set out"
  shows "sent_ok tok s wire"
  using assms by (rule turn_sends)

text \<open>
  What the gateway forwards, an agent can read: every frame of a session with a generated
  id passes the agent's own validation of channel ids.
\<close>

theorem forwarded_frames_decode:
  assumes "sent_ok tok s wire" and "uuid_text tok"
  shows "decode_message wire = Some wire"
proof -
  obtain m ch where m: "wire = prefix_message m (session_prefix tok)" "msg_channel m = Some ch" "route_ok ch"
    and not_ready: "\<forall>c. m \<noteq> Ready c"
    using sent_ok_message [OF assms(1)] by blast
  have "channel_ok (prefixed (session_prefix tok) ch)"
    using m(3) uuid_prefix_ok [OF assms(2)] by (simp add: route_ok_def channel_ok_prefixed)
  with m not_ready show ?thesis
    by (cases m) (auto simp: decode_message_def channel_ok_def split: sum.splits)
qed

text \<open>
  C16. A socket's resources are bounded: it never has more than 512 open channels or 50 agents,
  every open channel leaves room for the prefix, and its user and role stay those of the
  session it authenticated with.
\<close>

theorem socket_bounded:
  assumes "ws_reach tok s w"
  shows "length (ws_routes w) \<le> 512 \<and> length (ws_remotes w) \<le> 50 \<and>
    (\<forall>(ch, cid) \<in> set (ws_routes w). channel_ok ch \<and> length ch \<le> 119) \<and>
    ws_user w = sess_user s \<and> ws_role w = sess_role s"
  using ws_reach_inv [OF assms]
  by (auto simp: ws_inv_def route_ok_def MAX_CHANNELS_PER_SESSION_def MAX_REMOTE_AGENTS_def
      MAX_CHANNEL_ID_LEN_def SESSION_PREFIX_LEN_def)



section \<open>Witnesses\<close>

definition demo_sess :: session where
  "demo_sess = \<lparr>sess_id = demo_uuid, sess_user = ''bob'', sess_role = Readonly, created_at = 0, last_activity = 0\<rparr>"

definition demo_open :: message where
  "demo_open = Open ''cron-1'' \<lparr>payload = ''cron.manage'', superuser = None,
     extra = [(''host'', JStr ''host1''), (''_user'', JStr ''root''), (''_role'', JStr ''admin'')]\<rparr>"

lemma demo_channel_ok: "channel_ok ''cron-1''"
  by (simp add: channel_ok_iff MAX_CHANNEL_ID_LEN_def channel_char_def is_ascii_alphanumeric_def
      is_ascii_lower_def is_ascii_digit_def byte_def)

lemma demo_open_decodes: "decode_message demo_open = Some demo_open"
  using demo_channel_ok by (auto simp: demo_open_def decode_message_def channel_ok_def split: sum.splits)

lemma demo_turn:
  "\<exists>out rest. ws_turn (\<lambda>_. True) 0 7 (FromClient (Some demo_open))
       (ws_init demo_uuid demo_sess, demo_registry, store_new 900) = (out, rest) \<and>
     ToAgent 1 (prefix_message (Open ''cron-1'' (enrich_options ''bob'' Readonly
        \<lparr>payload = ''cron.manage'', superuser = None,
         extra = [(''host'', JStr ''host1''), (''_user'', JStr ''root''), (''_role'', JStr ''admin'')]\<rparr>))
       (session_prefix demo_uuid)) \<in> set out"
proof -
  obtain rg' where c: "connect_session demo_registry ''host1'' (session_prefix demo_uuid) 7 =
      Some ((1, session_prefix (session_prefix demo_uuid)), rg')"
    by (simp add: connect_session_def demo_registry_conn Let_def)
  show ?thesis
    by (simp add: ws_turn_def demo_open_decodes Let_def)
       (simp add: demo_open_def ws_open_def ws_init_def map_str_def target_sender_def connect_new_def
          c ws_prefix_def MAX_CHANNELS_PER_SESSION_def MAX_REMOTE_AGENTS_def MAX_CHANNEL_ID_LEN_def
          SESSION_PREFIX_LEN_def hm_has_def demo_sess_def to_agent_def case_prod_beta)
qed

theorem agent_sees_session_identity_witness:
  "\<exists>wire. sent_ok demo_uuid demo_sess wire"
proof -
  obtain out rest wire where "ws_turn (\<lambda>_. True) 0 7 (FromClient (Some demo_open))
       (ws_init demo_uuid demo_sess, demo_registry, store_new 900) = (out, rest)" "ToAgent 1 wire \<in> set out"
    using demo_turn by blast
  from agent_sees_session_identity [OF ws_reach.start this] show ?thesis by blast
qed

theorem forwarded_frames_decode_witness:
  "decode_message (prefix_message (Data ''cron-1'' JNull) (session_prefix demo_uuid)) =
     Some (prefix_message (Data ''cron-1'' JNull) (session_prefix demo_uuid))"
proof (rule forwarded_frames_decode [OF _ demo_uuid_text])
  show "sent_ok demo_uuid demo_sess (prefix_message (Data ''cron-1'' JNull) (session_prefix demo_uuid))"
    unfolding sent_ok_def
    by (intro exI [of _ "Data ''cron-1'' JNull"] exI [of _ "''cron-1''"])
       (simp add: route_ok_def demo_channel_ok MAX_CHANNEL_ID_LEN_def SESSION_PREFIX_LEN_def)
qed

theorem socket_bounded_witness: "ws_user (ws_init demo_uuid demo_sess) = ''bob''"
  using socket_bounded [OF ws_reach.start, of demo_uuid demo_sess] by (simp add: demo_sess_def)


end
