(* ===== verification/AgentUtil.thy ===== *)
theory AgentUtil
  imports AuditLog AgentCrypto
begin

text \<open>
  The helpers every agent handler uses (\<open>agent/src/util.rs\<close>): limits on a child's time and
  output, the fixed environment, running commands as the session's user, quoting for the shell,
  and the guards on roles and names.

  The operating system is a parameter: a record of functions over a state of any type. What a
  handler did to it is visible in the world's log: every command it tried to start, every file
  it tried to write, and every audit record, in order.
\<close>

section \<open>The host and its world\<close>

record passwd =
  pw_uid :: nat
  pw_gid :: nat
  pw_dir :: string
  pw_shell :: string

text \<open>A command as it is handed to \<open>spawn\<close>. \<open>cm_clean\<close> says whether the agent's environment is
  cleared first; \<open>cm_env\<close> is what is set then. \<open>cm_as\<close> is the identity taken in \<open>pre_exec\<close>
  (\<open>initgroups\<close>, \<open>setgid\<close>, \<open>setuid\<close>); without it the child runs as the agent, which is root.\<close>

record command =
  cm_prog :: string
  cm_args :: "string list"
  cm_clean :: bool
  cm_env :: "(string \<times> string) list"
  cm_as :: "(string \<times> nat \<times> nat) option"
  cm_stdin :: "string option"

text \<open>A child: the results of the reads from its two pipes, whether reading and waiting end
  within the timeout, and what \<open>wait\<close> then returns (an error, or whether it succeeded), with the
  exit code, which a child ended by a signal does not have.\<close>

record child =
  ch_out :: "string option list"
  ch_err :: "string option list"
  ch_in_time :: bool
  ch_wait :: "string + bool"
  ch_code :: "int option"

datatype effect =
    Ran command
  | Wrote string string
  | Removed string
  | Audited string string string bool string

record 'w world =
  w_os :: 'w
  w_log :: "effect list"

record 'w agent_host =
  ah_env :: environ
  ah_passwd :: "string \<Rightarrow> passwd option"
  ah_spawn :: "command \<Rightarrow> 'w \<Rightarrow> (string + child) \<times> 'w"
  ah_read :: "'w \<Rightarrow> string \<Rightarrow> string option"
  ah_write :: "string \<Rightarrow> string \<Rightarrow> 'w \<Rightarrow> string option \<times> 'w"
  ah_exists :: "'w \<Rightarrow> string \<Rightarrow> bool"
  ah_dir :: "'w \<Rightarrow> string \<Rightarrow> string list option"
  ah_uuid :: "'w \<Rightarrow> string"
  ah_now :: "'w \<Rightarrow> string"
  ah_clock :: "'w \<Rightarrow> instant"
  ah_alnum :: "string \<Rightarrow> bool"
  ah_b64 :: "string \<Rightarrow> string"
  ah_canonical :: "'w \<Rightarrow> string \<Rightarrow> string + string"
  ah_is_dir :: "'w \<Rightarrow> string \<Rightarrow> bool"
  ah_parse :: "string \<Rightarrow> json option"
  ah_print :: "json \<Rightarrow> string"
  ah_f64 :: "string \<Rightarrow> nat option"
  ah_lower :: "string \<Rightarrow> string"
  ah_remove :: "string \<Rightarrow> 'w \<Rightarrow> 'w"
  ah_meta :: "'w \<Rightarrow> string \<Rightarrow> (nat \<times> nat) option"

text \<open>\<open>ah_alnum\<close> and \<open>ah_lower\<close> are the Unicode tables of the standard library beyond ASCII,
  \<open>ah_canonical\<close> is \<open>Path::canonicalize\<close> (an error or the resolved path), \<open>ah_parse\<close> and
  \<open>ah_print\<close> are \<open>serde_json\<close>, \<open>ah_b64\<close> is the \<open>base64\<close> crate, \<open>ah_f64\<close> reads a floating-point
  number and truncates it to \<open>u64\<close>, \<open>ah_meta\<close> is \<open>fs::metadata\<close> (size and time of modification).
  \<open>ah_remove\<close> is \<open>remove_file\<close>, whose errors the code ignores.\<close>

text \<open>What the handlers share between calls: the world, and the failure counters of
  \<open>superuser_verify.rs\<close>. A panic in a handler ends the agent's main task.\<close>

record 'w agent_state =
  st_world :: "'w world"
  st_lockout :: "(string, nat \<times> instant) hmap"
  st_crashed :: bool

definition with_world :: "('w world \<Rightarrow> 'a \<times> 'w world) \<Rightarrow> 'w agent_state \<Rightarrow> 'a \<times> 'w agent_state" where
  "with_world f s = (case f (st_world s) of (x, w) \<Rightarrow> (x, s\<lparr>st_world := w\<rparr>))"

definition spawn :: "'w agent_host \<Rightarrow> command \<Rightarrow> 'w world \<Rightarrow> (string + child) \<times> 'w world" where
  "spawn h c w = (case ah_spawn h c (w_os w) of
     (r, os) \<Rightarrow> (r, w\<lparr>w_os := os, w_log := w_log w @ [Ran c]\<rparr>))"

definition write_file :: "'w agent_host \<Rightarrow> string \<Rightarrow> string \<Rightarrow> 'w world \<Rightarrow> string option \<times> 'w world" where
  "write_file h path txt w = (case ah_write h path txt (w_os w) of
     (r, os) \<Rightarrow> (r, w\<lparr>w_os := os, w_log := w_log w @ [Wrote path txt]\<rparr>))"

definition remove_file :: "'w agent_host \<Rightarrow> string \<Rightarrow> 'w world \<Rightarrow> 'w world" where
  "remove_file h path w = w\<lparr>w_os := ah_remove h path (w_os w), w_log := w_log w @ [Removed path]\<rparr>"

definition audit :: "string \<Rightarrow> string \<Rightarrow> string \<Rightarrow> bool \<Rightarrow> string \<Rightarrow> 'w world \<Rightarrow> 'w world" where
  "audit user action target ok details w =
     w\<lparr>w_log := w_log w @ [Audited user action target ok details]\<rparr>"

lemma audit_log [simp]: "w_log (audit u a t ok d w) = w_log w @ [Audited u a t ok d]"
  and audit_os [simp]: "w_os (audit u a t ok d w) = w_os w"
  by (simp_all add: audit_def)

section \<open>Limits\<close>

definition positive_or :: "nat \<Rightarrow> nat option \<Rightarrow> nat" where
  "positive_or d x = (case x of Some n \<Rightarrow> if 0 < n then n else d | None \<Rightarrow> d)"

definition cmd_timeout :: "environ \<Rightarrow> nat" where
  "cmd_timeout ev = positive_or 900 (Option.bind (ev ''TENODERA_CMD_TIMEOUT_SECS'') (parse_uint U64_MAX))"

text \<open>The product is a \<open>usize\<close>, which wraps in a release build.\<close>

definition max_output_bytes :: "environ \<Rightarrow> nat" where
  "max_output_bytes ev =
     (positive_or 4 (Option.bind (ev ''TENODERA_CMD_MAX_OUTPUT_MB'') (parse_uint U64_MAX)) * 1024 * 1024)
       mod 2 ^ 64"

definition harden_env :: "string option \<Rightarrow> (string \<times> string) list" where
  "harden_env home =
     [(''PATH'', ''/usr/sbin:/usr/bin:/sbin:/bin''), (''LANG'', ''C.UTF-8''), (''LC_ALL'', ''C.UTF-8'')]
     @ (case home of None \<Rightarrow> [] | Some d \<Rightarrow> [(''HOME'', d)])"

text \<open>\<open>read_capped\<close>: each element of the list is one \<open>read\<close>, an error or a chunk; an empty chunk
  and the end of the list are the end of the file.\<close>

fun read_capped :: "nat \<Rightarrow> string \<Rightarrow> string option list \<Rightarrow> string \<times> bool" where
  "read_capped cap buf [] = (buf, False)"
| "read_capped cap buf (None # rs) = (buf, False)"
| "read_capped cap buf (Some chunk # rs) =
     (if chunk = [] then (buf, False)
      else if length buf + length chunk > cap then (buf @ take (cap - length buf) chunk, True)
      else read_capped cap (buf @ chunk) rs)"

record capped_output =
  co_success :: bool
  co_stdout :: string
  co_stderr :: string
  co_truncated :: bool
  co_timed_out :: bool

definition wait_capped_with :: "nat \<Rightarrow> child \<Rightarrow> string + capped_output" where
  "wait_capped_with cap ch =
     (let (so, so_cut) = read_capped cap [] (ch_out ch);
          (se, se_cut) = read_capped cap [] (ch_err ch)
      in case ch_wait ch of
           Inl e \<Rightarrow> Inl e
         | Inr ok \<Rightarrow>
             Inr (if ch_in_time ch
                  then \<lparr>co_success = ok, co_stdout = so, co_stderr = se,
                        co_truncated = (so_cut \<or> se_cut), co_timed_out = False\<rparr>
                  else \<lparr>co_success = ok, co_stdout = [], co_stderr = [],
                        co_truncated = False, co_timed_out = True\<rparr>))"

definition wait_capped :: "'w agent_host \<Rightarrow> child \<Rightarrow> string + capped_output" where
  "wait_capped h ch = wait_capped_with (max_output_bytes (ah_env h)) ch"

definition timeout_error :: "environ \<Rightarrow> string" where
  "timeout_error ev = ''command timed out after '' @ show_nat (cmd_timeout ev) @ ''s''"

section \<open>Running commands\<close>

definition plain_command :: "string \<Rightarrow> string list \<Rightarrow> command" where
  "plain_command prog args =
     \<lparr>cm_prog = prog, cm_args = args, cm_clean = True, cm_env = harden_env None, cm_as = None, cm_stdin = None\<rparr>"

definition run_cmd :: "'w agent_host \<Rightarrow> string list \<Rightarrow> 'w world \<Rightarrow> string \<times> 'w world" where
  "run_cmd h args w =
     (case args of
        [] \<Rightarrow> ([], w)
      | cmd # rest \<Rightarrow>
          (case spawn h (plain_command cmd rest) w of
             (Inl e, w1) \<Rightarrow> (''error: '' @ e, w1)
           | (Inr ch, w1) \<Rightarrow>
               ((case wait_capped h ch of
                   Inl e \<Rightarrow> ''error: '' @ e
                 | Inr out \<Rightarrow>
                     if co_timed_out out then ''error: '' @ timeout_error (ah_env h)
                     else (let so = from_utf8_lossy (co_stdout out)
                           in if so = [] then from_utf8_lossy (co_stderr out) else so)), w1)))"

text \<open>\<open>lookup_user\<close>: \<open>CString::new\<close> refuses a name with a NUL, the name service answers the rest.\<close>

definition lookup_user :: "'w agent_host \<Rightarrow> string \<Rightarrow> passwd option" where
  "lookup_user h user = (if NUL \<in> set user then None else ah_passwd h user)"

definition sudo_noise :: "string \<Rightarrow> bool" where
  "sudo_noise l \<longleftrightarrow> contains_str ''[sudo]'' l \<or> contains_str ''password for'' l"

definition clean_sudo_stderr :: "string \<Rightarrow> string" where
  "clean_sudo_stderr err =
     (let clean = trim (join [NL] (filter (\<lambda>l. \<not> sudo_noise l) (lines (from_utf8_lossy err))))
      in if clean = [] then ''command failed'' else clean)"

definition jerror :: "string \<Rightarrow> json" where
  "jerror e = JObj [(''error'', JStr e)]"

definition sudo_command :: "string \<Rightarrow> passwd \<Rightarrow> string \<Rightarrow> string list \<Rightarrow> command" where
  "sudo_command user pw password args =
     \<lparr>cm_prog = ''sudo'', cm_args = [''-S'', ''-k''] @ args, cm_clean = True, cm_env = harden_env None,
      cm_as = Some (user, pw_uid pw, pw_gid pw), cm_stdin = Some (password @ [NL])\<rparr>"

definition sudo_result :: "'w agent_host \<Rightarrow> child \<Rightarrow> json" where
  "sudo_result h ch =
     (case wait_capped h ch of
        Inl e \<Rightarrow> jerror e
      | Inr out \<Rightarrow>
          if co_timed_out out then jerror (timeout_error (ah_env h))
          else if co_success out then
            JObj ([(''ok'', JBool True), (''output'', JStr (trim (from_utf8_lossy (co_stdout out))))]
                  @ (if co_truncated out then [(''truncated'', JBool True)] else []))
          else jerror (clean_sudo_stderr (co_stderr out)))"

definition not_present :: "string \<Rightarrow> string" where
  "not_present user = ''user '' @ [SQ] @ user @ [SQ] @ '' is not present on this host''"

definition sudo_as_user ::
  "'w agent_host \<Rightarrow> string \<Rightarrow> string \<Rightarrow> string list \<Rightarrow> 'w world \<Rightarrow> json \<times> 'w world" where
  "sudo_as_user h user password args w =
     (case lookup_user h user of
        None \<Rightarrow> (jerror (not_present user), w)
      | Some pw \<Rightarrow>
          (case spawn h (sudo_command user pw password args) w of
             (Inl e, w1) \<Rightarrow> (jerror e, w1)
           | (Inr ch, w1) \<Rightarrow> (sudo_result h ch, w1)))"

datatype read_outcome = NoAccount | RanOut bool string string | SpawnFailed string

definition user_command :: "string \<Rightarrow> passwd \<Rightarrow> string \<Rightarrow> string list \<Rightarrow> command" where
  "user_command user pw prog args =
     \<lparr>cm_prog = prog, cm_args = args, cm_clean = True, cm_env = harden_env (Some (pw_dir pw)),
      cm_as = Some (user, pw_uid pw, pw_gid pw), cm_stdin = None\<rparr>"

definition run_cmd_as_user ::
  "'w agent_host \<Rightarrow> string \<Rightarrow> string list \<Rightarrow> 'w world \<Rightarrow> read_outcome \<times> 'w world" where
  "run_cmd_as_user h user args w =
     (case lookup_user h user of
        None \<Rightarrow> (NoAccount, w)
      | Some pw \<Rightarrow>
          (case args of
             [] \<Rightarrow> (SpawnFailed ''no command'', w)
           | prog # rest \<Rightarrow>
               (case spawn h (user_command user pw prog rest) w of
                  (Inl e, w1) \<Rightarrow> (SpawnFailed e, w1)
                | (Inr ch, w1) \<Rightarrow>
                    ((case wait_capped h ch of
                        Inl e \<Rightarrow> SpawnFailed e
                      | Inr out \<Rightarrow>
                          if co_timed_out out then SpawnFailed (timeout_error (ah_env h))
                          else RanOut (co_success out) (co_stdout out) (co_stderr out)), w1))))"

definition sudo_output_as_user ::
  "'w agent_host \<Rightarrow> string \<Rightarrow> string \<Rightarrow> string list \<Rightarrow> 'w world \<Rightarrow> string \<times> 'w world" where
  "sudo_output_as_user h user password args w =
     (case sudo_as_user h user password args w of
        (res, w1) \<Rightarrow>
          ((case jget_str res ''output'' of
              Some out \<Rightarrow> out
            | None \<Rightarrow> ''error: '' @ unwrap_or ''command failed'' (jget_str res ''error'')), w1))"

text \<open>\<open>which\<close> waits without capturing output; only the exit status counts.\<close>

definition which :: "'w agent_host \<Rightarrow> string \<Rightarrow> 'w world \<Rightarrow> bool \<times> 'w world" where
  "which h cmd w =
     (case spawn h (plain_command ''which'' [cmd]) w of
        (Inl e, w1) \<Rightarrow> (False, w1)
      | (Inr ch, w1) \<Rightarrow> (ch_in_time ch \<and> ch_wait ch = Inr True, w1))"

section \<open>Quoting and writing\<close>

definition shell_escape :: "string \<Rightarrow> string" where
  "shell_escape s = [SQ] @ replace_char SQ [SQ, BSL, SQ, SQ] s @ [SQ]"

definition stderr_to_error :: "string \<Rightarrow> json" where
  "stderr_to_error err =
     (let clean = join [NL] (filter (\<lambda>l. \<not> sudo_noise l) (lines (trim (from_utf8_lossy err))))
      in jerror (if clean = [] then ''operation failed'' else clean))"

definition write_script :: "(string \<Rightarrow> string) \<Rightarrow> string list \<Rightarrow> string \<Rightarrow> string" where
  "write_script b64 args txt =
     ''printf '' @ [SQ] @ b64 txt @ [SQ] @ '' | base64 -d | '' @ join '' '' (map shell_escape args)"

definition sudo_stdin_write_as_user ::
  "'w agent_host \<Rightarrow> string \<Rightarrow> string \<Rightarrow> string list \<Rightarrow> string \<Rightarrow> 'w world \<Rightarrow> json \<times> 'w world" where
  "sudo_stdin_write_as_user h user password args txt w =
     (case sudo_as_user h user password [''sh'', ''-c'', write_script (ah_b64 h) args txt] w of
        (res, w1) \<Rightarrow> (if jget res ''ok'' \<noteq> None then JObj [(''ok'', JBool True)] else res, w1))"

section \<open>Guards\<close>

text \<open>\<open>char::is_alphanumeric\<close> beyond ASCII is a Unicode table, a parameter of the host.\<close>

definition is_alphanumeric :: "'w agent_host \<Rightarrow> string \<Rightarrow> bool" where
  "is_alphanumeric h ch = (case ch of [c] \<Rightarrow> is_ascii_alphanumeric c | _ \<Rightarrow> ah_alnum h ch)"

definition is_valid_username :: "'w agent_host \<Rightarrow> string \<Rightarrow> bool" where
  "is_valid_username h user \<longleftrightarrow>
     user \<noteq> [] \<and> length user \<le> 64 \<and> \<not> starts_with ''-'' user \<and>
     list_all (\<lambda>ch. is_alphanumeric h ch \<or> ch = ''_'' \<or> ch = ''-'' \<or> ch = ''.'') (chars_of user)"

definition denied :: json where
  "denied = jerror ''permission denied''"

definition require_admin_role :: "json \<Rightarrow> json option" where
  "require_admin_role data = (if jget_str data ''_role'' = Some ''admin'' then None else Some denied)"

definition extract_string_array :: "json \<Rightarrow> string \<Rightarrow> string list" where
  "extract_string_array data key =
     (case Option.bind (jget data key) as_array of
        None \<Rightarrow> []
      | Some xs \<Rightarrow> List.map_filter as_str xs)"

section \<open>What the helpers guarantee\<close>

text \<open>The bytes a pipe delivers before its end or an error.\<close>

fun stream :: "string option list \<Rightarrow> string" where
  "stream [] = []"
| "stream (None # rs) = []"
| "stream (Some chunk # rs) = (if chunk = [] then [] else chunk @ stream rs)"

lemma read_capped_stream:
  "length buf \<le> cap \<Longrightarrow>
   read_capped cap buf rs = (take cap (buf @ stream rs), cap < length (buf @ stream rs))"
  by (induction cap buf rs rule: read_capped.induct) auto

text \<open>
  A runaway command cannot exhaust the agent: what is kept of a child's output is exactly
  the longest prefix within the cap, on each pipe, and the truncation flag says precisely
  whether something was dropped; a command that overran its time contributes nothing.
\<close>

theorem child_output_capped:
  "wait_capped_with cap ch =
     (case ch_wait ch of
        Inl e \<Rightarrow> Inl e
      | Inr ok \<Rightarrow>
          Inr (if ch_in_time ch
               then \<lparr>co_success = ok, co_stdout = take cap (stream (ch_out ch)),
                     co_stderr = take cap (stream (ch_err ch)),
                     co_truncated = (cap < length (stream (ch_out ch)) \<or> cap < length (stream (ch_err ch))),
                     co_timed_out = False\<rparr>
               else \<lparr>co_success = ok, co_stdout = [], co_stderr = [],
                     co_truncated = False, co_timed_out = True\<rparr>))"
  by (simp add: wait_capped_with_def read_capped_stream split: sum.split)

text \<open>What a helper leaves in the log.\<close>

lemma spawn_log: "spawn h c w = (r, w1) \<Longrightarrow> w_log w1 = w_log w @ [Ran c]"
  by (auto simp: spawn_def split: prod.splits)

lemma write_file_log: "write_file h p t w = (r, w1) \<Longrightarrow> w_log w1 = w_log w @ [Wrote p t]"
  by (auto simp: write_file_def split: prod.splits)

definition sudo_log :: "'w agent_host \<Rightarrow> string \<Rightarrow> string \<Rightarrow> string list \<Rightarrow> effect list" where
  "sudo_log h user password args =
     (case lookup_user h user of None \<Rightarrow> [] | Some pw \<Rightarrow> [Ran (sudo_command user pw password args)])"

lemma sudo_as_user_log:
  "w_log (snd (sudo_as_user h user password args w)) = w_log w @ sudo_log h user password args"
  using spawn_log [of h _ w] by (auto simp: sudo_as_user_def sudo_log_def split: option.splits prod.splits sum.splits)

lemma sudo_stdin_write_log:
  "w_log (snd (sudo_stdin_write_as_user h user password args txt w)) =
   w_log w @ sudo_log h user password [''sh'', ''-c'', write_script (ah_b64 h) args txt]"
  using sudo_as_user_log [of h user password "[''sh'', ''-c'', write_script (ah_b64 h) args txt]" w]
  by (auto simp: sudo_stdin_write_as_user_def split: prod.splits)

text \<open>The agent acts as the user only: every command a set of effects contains that is not a plain
  read-only one was started under the identity of \<open>user\<close>.\<close>

fun runs_as :: "string \<Rightarrow> effect \<Rightarrow> bool" where
  "runs_as user (Ran c) \<longleftrightarrow> (\<exists>uid gid. cm_as c = Some (user, uid, gid))"
| "runs_as user (Wrote _ _) \<longleftrightarrow> False"
| "runs_as user (Removed _) \<longleftrightarrow> False"
| "runs_as user (Audited u _ _ _ _) \<longleftrightarrow> u = user"

lemma sudo_log_runs_as: "e \<in> set (sudo_log h user password args) \<Longrightarrow> runs_as user e"
  by (auto simp: sudo_log_def sudo_command_def split: option.splits)

section \<open>The shell's reading of a script\<close>

text \<open>The part of POSIX word splitting the scripts use: blanks separate words, single quotes keep
  everything up to the next one, a backslash keeps the next character, a bar separates the
  commands of a pipeline. Every other special character is outside this fragment.\<close>

datatype sh_token = Word string | Bar

definition sh_special :: "char \<Rightarrow> bool" where
  "sh_special c \<longleftrightarrow> c \<in> set ''&;<>()$`*?[#~!{}'' \<or> c = DQ \<or> c = NL"

lemma split_once_length: "split_once c s = Some (a, b) \<Longrightarrow> length b < length s"
  by (simp add: split_once_Some_iff)

definition emit :: "string option \<Rightarrow> sh_token list" where
  "emit cur = (case cur of None \<Rightarrow> [] | Some w \<Rightarrow> [Word w])"

function sh_lex :: "string option \<Rightarrow> string \<Rightarrow> sh_token list option" where
  "sh_lex cur [] = Some (emit cur)"
| "sh_lex cur (c # cs) =
     (if c = SQ then
        (case split_once SQ cs of
           None \<Rightarrow> None
         | Some (q, rest) \<Rightarrow> sh_lex (Some (unwrap_or [] cur @ q)) rest)
      else if c = BSL then
        (case cs of [] \<Rightarrow> None | d # ds \<Rightarrow> sh_lex (Some (unwrap_or [] cur @ [d])) ds)
      else if c = CHR '' '' \<or> c = TAB then map_option (\<lambda>ts. emit cur @ ts) (sh_lex None cs)
      else if c = CHR ''|'' then map_option (\<lambda>ts. emit cur @ Bar # ts) (sh_lex None cs)
      else if sh_special c then None
      else sh_lex (Some (unwrap_or [] cur @ [c])) cs)"
  by pat_completeness auto
termination
  by (relation "measure (\<lambda>(cur, s). length s)") (auto dest: split_once_length)

lemma sh_lex_quoted:
  assumes "SQ \<notin> set q"
  shows "sh_lex cur (SQ # q @ SQ # rest) = sh_lex (Some (unwrap_or [] cur @ q)) rest"
proof -
  have "split_once SQ (q @ SQ # rest) = Some (q, rest)"
    using assms by (simp add: split_once_Some_iff)
  then show ?thesis by simp
qed

lemma sh_lex_blank: "sh_lex cur (CHR '' '' # cs) = map_option (\<lambda>ts. emit cur @ ts) (sh_lex None cs)"
  by simp

lemma sh_lex_plain:
  assumes "list_all (\<lambda>c. c \<noteq> SQ \<and> c \<noteq> BSL \<and> c \<noteq> CHR '' '' \<and> c \<noteq> TAB \<and> c \<noteq> CHR ''|'' \<and> \<not> sh_special c) s"
    and "s \<noteq> [] \<or> cur \<noteq> None"
  shows "sh_lex cur (s @ rest) = sh_lex (Some (unwrap_or [] cur @ s)) rest"
  using assms by (induction s arbitrary: cur) (auto simp: unwrap_or_def split: option.splits)

lemma replace_char_Cons:
  "replace_char c r (x # xs) = (if x = c then r else [x]) @ replace_char c r xs"
  by (simp add: replace_char_def)

text \<open>Inside the quotes that \<open>shell_escape\<close> opens, the shell reads the string back.\<close>

lemma sh_lex_escape_body:
  "SQ \<notin> set p \<Longrightarrow>
   sh_lex cur (SQ # p @ replace_char SQ [SQ, BSL, SQ, SQ] s @ SQ # rest) =
   sh_lex (Some (unwrap_or [] cur @ p @ s)) rest"
proof (induction s arbitrary: cur p)
  case Nil
  then show ?case using sh_lex_quoted [of p cur rest] by (simp add: replace_char_def)
next
  case (Cons x xs)
  let ?R = "replace_char SQ [SQ, BSL, SQ, SQ] xs @ SQ # rest"
  show ?case
  proof (cases "x = SQ")
    case True
    have "sh_lex cur (SQ # p @ SQ # BSL # SQ # SQ # ?R) =
          sh_lex (Some (unwrap_or [] cur @ p)) (BSL # SQ # SQ # ?R)"
      by (rule sh_lex_quoted [OF Cons.prems])
    also have "\<dots> = sh_lex (Some (unwrap_or [] cur @ p @ [SQ])) (SQ # [] @ ?R)" by simp
    also have "\<dots> = sh_lex (Some (unwrap_or [] cur @ p @ [SQ] @ xs)) rest"
      using Cons.IH [of "[]" "Some (unwrap_or [] cur @ p @ [SQ])"] by simp
    finally show ?thesis using True by (simp add: replace_char_Cons)
  next
    case False
    then have "SQ \<notin> set (p @ [x])" using Cons.prems by simp
    from Cons.IH [OF this, of cur] show ?thesis using False by (simp add: replace_char_Cons)
  qed
qed

lemma sh_lex_escape:
  "sh_lex cur (shell_escape s @ rest) = sh_lex (Some (unwrap_or [] cur @ s)) rest"
  using sh_lex_escape_body [of "[]" cur s rest] by (simp add: shell_escape_def)

lemma sh_lex_args:
  "args \<noteq> [] \<Longrightarrow> sh_lex None (join '' '' (map shell_escape args)) = Some (map Word args)"
proof (induction args rule: induct_list012)
  case (2 x)
  then show ?case using sh_lex_escape [of None x "[]"] by (simp add: emit_def)
next
  case (3 x y zs)
  then show ?case using sh_lex_escape [of None x "CHR '' '' # join '' '' (map shell_escape (y # zs))"]
    by (simp add: emit_def)
qed simp

text \<open>The commands of a pipeline, each as its words.\<close>

fun split_bars :: "sh_token list \<Rightarrow> string list list" where
  "split_bars [] = [[]]"
| "split_bars (Bar # ts) = [] # split_bars ts"
| "split_bars (Word w # ts) = (case split_bars ts of [] \<Rightarrow> [[w]] | p # ps \<Rightarrow> (w # p) # ps)"

definition sh_pipeline :: "string \<Rightarrow> string list list option" where
  "sh_pipeline s = map_option split_bars (sh_lex None s)"

lemma split_bars_words: "split_bars (map Word args) = [args]"
  by (induction args) auto

text \<open>The alphabet of standard base64.\<close>

definition b64_char :: "char \<Rightarrow> bool" where
  "b64_char c \<longleftrightarrow> is_ascii_alphanumeric c \<or> c \<in> {CHR ''+'', CHR ''/'', CHR ''=''}"

lemma b64_char_plain: "b64_char c \<Longrightarrow> c \<noteq> SQ \<and> c \<noteq> BSL \<and> c \<noteq> CHR ''%'' \<and> c \<noteq> CHR ''-''"
  by (auto simp: b64_char_def is_ascii_alphanumeric_def is_ascii_digit_def is_ascii_upper_def
      is_ascii_lower_def byte_def)

lemma write_script_reads:
  assumes "\<forall>c \<in> set (b64 txt). b64_char c" and "args \<noteq> []"
  shows "sh_pipeline (write_script b64 args txt) = Some [[''printf'', b64 txt], [''base64'', ''-d''], args]"
proof -
  let ?rest = "'' | base64 -d | '' @ join '' '' (map shell_escape args)"
  have quoted: "SQ \<notin> set (b64 txt)" using assms(1) b64_char_plain by blast
  have "write_script b64 args txt = ''printf'' @ CHR '' '' # SQ # b64 txt @ SQ # ?rest"
    by (simp add: write_script_def)
  then have "sh_lex None (write_script b64 args txt) =
        map_option (\<lambda>ts. emit (Some ''printf'') @ ts) (sh_lex None (SQ # b64 txt @ SQ # ?rest))"
    using sh_lex_plain [of "''printf''" None "CHR '' '' # SQ # b64 txt @ SQ # ?rest"]
      sh_lex_blank [of "Some ''printf''" "SQ # b64 txt @ SQ # ?rest"]
    by (simp add: sh_special_def del: sh_lex.simps)
  also have "sh_lex None (SQ # b64 txt @ SQ # ?rest) = sh_lex (Some (b64 txt)) ?rest"
    using sh_lex_quoted [OF quoted, of None ?rest] by simp
  also have "\<dots> = Some (Word (b64 txt) # Bar # Word ''base64'' # Word ''-d'' # Bar # map Word args)"
    using sh_lex_args [OF assms(2)] by (simp add: sh_special_def emit_def)
  finally show "sh_pipeline (write_script b64 args txt) = Some [[''printf'', b64 txt], [''base64'', ''-d''], args]"
    by (simp add: sh_pipeline_def emit_def split_bars_words)
qed

text \<open>
  No argument can break out of the script that writes a file: whatever bytes the arguments
  and the content hold, the shell reads the script as a pipeline of three commands, whose
  first prints the base64 text (which \<open>printf\<close> takes literally, because its alphabet has no
  format or escape character) and whose last is exactly the given command, word for word.
\<close>

theorem write_script_exact:
  assumes "\<forall>c \<in> set (b64 txt). b64_char c" and "args \<noteq> []"
  shows "sh_pipeline (write_script b64 args txt) = Some [[''printf'', b64 txt], [''base64'', ''-d''], args]
    \<and> CHR ''%'' \<notin> set (b64 txt) \<and> BSL \<notin> set (b64 txt)"
  using write_script_reads [of b64 "txt" args] assms b64_char_plain by blast

theorem write_script_exact_witness:
  "sh_pipeline (write_script (\<lambda>s. ''aGk='') [''tee'', ''a'' @ [SQ] @ '';rm''] ''hi'') =
   Some [[''printf'', ''aGk=''], [''base64'', ''-d''], [''tee'', ''a'' @ [SQ] @ '';rm'']]"
  using write_script_exact [of "\<lambda>s. ''aGk=''" "''hi''" "[''tee'', ''a'' @ [SQ] @ '';rm'']"]
  by (simp add: b64_char_def is_ascii_alphanumeric_def is_ascii_digit_def is_ascii_upper_def
      is_ascii_lower_def byte_def)

section \<open>A concrete host\<close>

definition toy_host :: "nat agent_host" where
  "toy_host =
     \<lparr>ah_env = (\<lambda>_. None),
      ah_passwd = (\<lambda>u. if u = ''alice''
         then Some \<lparr>pw_uid = 1000, pw_gid = 1000, pw_dir = ''/home/alice'', pw_shell = ''/bin/bash''\<rparr> else None),
      ah_spawn = (\<lambda>c n. (Inr \<lparr>ch_out = [], ch_err = [], ch_in_time = True, ch_wait = Inr True, ch_code = Some 0\<rparr>, n + 1)),
      ah_read = (\<lambda>_ _. None), ah_write = (\<lambda>_ _ n. (None, n + 1)), ah_exists = (\<lambda>_ _. True),
      ah_dir = (\<lambda>_ _. None), ah_uuid = (\<lambda>_. ''u''), ah_now = (\<lambda>_. ''t''), ah_clock = (\<lambda>n. n),
      ah_alnum = (\<lambda>_. False), ah_b64 = (\<lambda>_. ''eA==''),
      ah_canonical = (\<lambda>_ p. Inr p), ah_is_dir = (\<lambda>_ _. False), ah_parse = (\<lambda>_. None),
      ah_print = (\<lambda>_. ''{}''), ah_f64 = (\<lambda>_. None), ah_lower = (\<lambda>s. s), ah_remove = (\<lambda>_ n. n + 1), ah_meta = (\<lambda>_ _. None)\<rparr>"

definition toy_alice :: passwd where
  "toy_alice = \<lparr>pw_uid = 1000, pw_gid = 1000, pw_dir = ''/home/alice'', pw_shell = ''/bin/bash''\<rparr>"

lemma toy_lookup: "lookup_user toy_host ''alice'' = Some toy_alice"
  by (simp add: lookup_user_def toy_host_def toy_alice_def)

lemma alice_valid: "is_valid_username toy_host ''alice''"
  by code_simp

lemma trim_Nil [simp]: "trim [] = []"
  by (simp add: trim_def trim_start_def trim_end_def)

lemma toy_sudo:
  "sudo_as_user toy_host ''alice'' password args w =
     (JObj [(''ok'', JBool True), (''output'', JStr (trim (from_utf8_lossy [])))],
      w\<lparr>w_os := w_os w + 1, w_log := w_log w @ [Ran (sudo_command ''alice'' toy_alice password args)]\<rparr>)"
proof -
  have "ah_spawn toy_host c n =
      (Inr \<lparr>ch_out = [], ch_err = [], ch_in_time = True, ch_wait = Inr True, ch_code = Some 0\<rparr>, n + 1)" for c n
    by (simp add: toy_host_def)
  then show ?thesis
    by (simp add: sudo_as_user_def toy_lookup spawn_def sudo_result_def wait_capped_def wait_capped_with_def)
qed

definition toy_state :: "nat agent_state" where
  "toy_state = \<lparr>st_world = \<lparr>w_os = 0, w_log = []\<rparr>, st_lockout = [], st_crashed = False\<rparr>"

section \<open>Fields of a request\<close>

text \<open>\<open>data.get(k).and_then(|v| v.as_str()).unwrap_or("")\<close> and the like.\<close>

definition str_field :: "json \<Rightarrow> string \<Rightarrow> string" where
  "str_field data k = unwrap_or [] (jget_str data k)"

definition bool_field :: "bool \<Rightarrow> json \<Rightarrow> string \<Rightarrow> bool" where
  "bool_field d data k = unwrap_or d (jget_bool data k)"

definition nat_field :: "json \<Rightarrow> string \<Rightarrow> nat option" where
  "nat_field data k = Option.bind (jget data k) as_u64"

definition has_error :: "json \<Rightarrow> bool" where
  "has_error r \<longleftrightarrow> jget r ''error'' \<noteq> None"

lemma has_error_jerror [simp]: "has_error (jerror e)"
  by (simp add: has_error_def jerror_def)

definition array_field :: "json \<Rightarrow> string \<Rightarrow> json list" where
  "array_field data k = unwrap_or [] (Option.bind (jget data k) as_array)"

text \<open>The member under the first of the keys that is there; then its text, if it is one.\<close>

definition first_text :: "string list \<Rightarrow> json \<Rightarrow> string" where
  "first_text ks c =
     (case List.map_filter (jget c) ks of [] \<Rightarrow> [] | v # _ \<Rightarrow> unwrap_or [] (as_str v))"

text \<open>\<open>is_alphanumeric() || others.contains(c)\<close> for all characters of a text.\<close>

definition chars_within :: "'w agent_host \<Rightarrow> string \<Rightarrow> string \<Rightarrow> bool" where
  "chars_within h others s \<longleftrightarrow> list_all (\<lambda>ch. is_alphanumeric h ch \<or> ch \<in> (\<lambda>c. [c]) ` set others) (chars_of s)"

end
