(* ===== verification/TextFacts.thy ===== *)
theory TextFacts
  imports RustStr
begin

text \<open>
  Facts on the text functions of \<open>RustStr\<close> that several components share: trimming, the words of
  a line, and the lines of a joined text.
\<close>

section \<open>Trimming and lines\<close>

lemma trim_end_of_trimmed:
  assumes "trim s = s"
  shows "trim_end s = s"
proof -
  have "s = concat (takeWhile is_ws_char (chars_of s)) @ trim_start s"
    by (simp add: trim_start_def flip: concat_append)
  then have a: "length (trim_start s) \<le> length s" by (metis le_add2 length_append)
  have "trim_start s = trim_end (trim_start s) @ concat (rev (takeWhile is_ws_char (rev (chars_of (trim_start s)))))"
    unfolding trim_end_def
    by (metis concat_append concat_chars_of rev_append rev_rev_ident takeWhile_dropWhile_id)
  with assms a have "trim_start s = s" by (metis append_Nil2 append_eq_conv_conj le_antisym length_append nat_le_iff_add take_all_iff trim_def)
  with assms show ?thesis by (simp add: trim_def)
qed

lemma split_on_chars: "p \<in> set (split_on c s) \<Longrightarrow> set p \<subseteq> set s"
  by (induction s arbitrary: p) (auto split: list.splits if_splits, blast+)

lemma lines_chars: "l \<in> set (lines s) \<Longrightarrow> set l \<subseteq> set s"
proof -
  have strip: "set (strip_cr x) \<subseteq> set x" for x by (auto simp: strip_cr_def dest: in_set_butlastD)
  assume "l \<in> set (lines s)"
  then consider p where "p \<in> set (split_on NL s)" "l = strip_cr p" | "l \<in> set (split_on NL s)"
    by (auto simp: lines_def Let_def split: if_splits dest: in_set_butlastD)
  then show ?thesis
    by cases (use strip split_on_chars in blast)+
qed

lemma lines_of_lines:
  assumes "\<forall>l \<in> set ls. NL \<notin> set l \<and> CR \<notin> set l" and "ls \<noteq> []"
  shows "lines (join [NL] ls @ [NL]) = ls"
  using assms
proof (induction ls rule: induct_list012)
  case (2 x)
  then show ?case using lines_append_NL [of x "[]"] by (auto simp: strip_cr_def dest: last_in_set)
next
  case (3 x y zs)
  then have "strip_cr x = x" by (auto simp: strip_cr_def dest: last_in_set)
  with 3 show ?case using lines_append_NL [of x "join [NL] (y # zs) @ [NL]"] by simp
qed simp

lemma lines_of_NL_free: "NL \<notin> set s \<Longrightarrow> lines s = (if s = [] then [] else [s])"
  by (simp add: lines_def split_on_no_sep)

lemma lines_NL_free: "l \<in> set (lines s) \<Longrightarrow> NL \<notin> set l"
proof -
  have strip: "set (strip_cr x) \<subseteq> set x" for x by (auto simp: strip_cr_def dest: in_set_butlastD)
  have pieces: "NL \<notin> set p" if "p \<in> set (split_on NL s)" for p
    using that by (rule split_on_no_sep_elem)
  assume "l \<in> set (lines s)"
  then consider p where "p \<in> set (butlast (split_on NL s))" "l = strip_cr p" | "l = last (split_on NL s)"
    by (auto simp: lines_def Let_def split: if_splits)
  then show ?thesis
  proof cases
    case 1
    then show ?thesis using pieces [OF in_set_butlastD] strip by blast
  next
    case 2
    then show ?thesis using pieces [OF last_in_set [OF split_on_nonempty]] by simp
  qed
qed

text \<open>Without the condition on carriage returns, each line loses one at its end.\<close>

lemma lines_of_joined:
  assumes "\<forall>l \<in> set ls. NL \<notin> set l" and "ls \<noteq> []"
  shows "lines (join [NL] ls @ [NL]) = map strip_cr ls"
  using assms
proof (induction ls rule: induct_list012)
  case (2 x)
  then show ?case using lines_append_NL [of x "[]"] by auto
next
  case (3 x y zs)
  then show ?case using lines_append_NL [of x "join [NL] (y # zs) @ [NL]"] by simp
qed simp

section \<open>Words\<close>

text \<open>\<open>split_whitespace\<close> on the characters of its text.\<close>

definition word_step :: "string \<Rightarrow> string list \<Rightarrow> string list" where
  "word_step ch acc = (if is_ws_char ch then [] # acc
     else (case acc of [] \<Rightarrow> [ch] | w # ws \<Rightarrow> (ch @ w) # ws))"

definition words_of :: "string list \<Rightarrow> string list" where
  "words_of chs = filter (\<lambda>w. w \<noteq> []) (foldr word_step chs [[]])"

lemma split_whitespace_words: "split_whitespace s = words_of (chars_of s)"
  by (simp add: split_whitespace_def words_of_def word_step_def [abs_def])

lemma split_whitespace_Nil [simp]: "split_whitespace [] = []"
  by (simp add: split_whitespace_words words_of_def)

lemma foldr_word_step: "foldr word_step chs (w # ws) = foldr word_step chs [w] @ ws \<and> foldr word_step chs [w] \<noteq> []"
  by (induction chs) (auto simp: word_step_def split: list.splits)

lemma foldr_word_step_ws: "\<forall>ch \<in> set chs. is_ws_char ch \<Longrightarrow> \<exists>ws. foldr word_step chs [[]] = [] # ws \<and> set ws \<subseteq> {[]}"
  by (induction chs) (auto simp: word_step_def)

lemma words_of_ws_append:
  assumes "\<forall>ch \<in> set ys. is_ws_char ch"
  shows "words_of (xs @ ys) = words_of xs"
proof -
  obtain ws where ws: "foldr word_step ys [[]] = [] # ws" "set ws \<subseteq> {[]}"
    using foldr_word_step_ws [OF assms] by blast
  then have "filter (\<lambda>w. w \<noteq> []) ws = []" by (auto simp: filter_empty_conv)
  with ws foldr_word_step [of xs "[]" ws] show ?thesis by (simp add: words_of_def)
qed

lemma words_of_Cons_ws: "is_ws_char ch \<Longrightarrow> words_of (ch # xs) = words_of xs"
  by (simp add: words_of_def word_step_def)

lemma words_of_dropWhile_ws: "words_of (dropWhile is_ws_char xs) = words_of xs"
  by (induction xs) (simp_all add: words_of_Cons_ws)

lemma words_of_trailing: "words_of (rev (dropWhile is_ws_char (rev xs))) = words_of xs"
proof -
  have "xs = rev (dropWhile is_ws_char (rev xs)) @ rev (takeWhile is_ws_char (rev xs))"
    by (metis rev_append rev_rev_ident takeWhile_dropWhile_id)
  then show ?thesis
    by (metis (no_types, lifting) set_rev set_takeWhileD words_of_ws_append)
qed

text \<open>A word of plain characters and a blank before the rest.\<close>

definition plain_word :: "string \<Rightarrow> bool" where
  "plain_word w \<longleftrightarrow> w \<noteq> [] \<and> list_all (\<lambda>c. is_ascii c \<and> \<not> is_ws_char [c]) w"

lemma foldr_word_step_plain:
  "list_all (\<lambda>c. is_ascii c \<and> \<not> is_ws_char [c]) w \<Longrightarrow> foldr word_step (map (\<lambda>c. [c]) w) (v # ws) = (w @ v) # ws"
  by (induction w) (auto simp: word_step_def)

lemma chars_of_plain_append:
  "list_all is_ascii w \<Longrightarrow> chars_of (w @ s) = map (\<lambda>c. [c]) w @ chars_of s"
  by (induction w) simp_all

lemma plain_word_ascii: "plain_word w \<Longrightarrow> list_all is_ascii w"
  by (auto simp: plain_word_def list_all_iff)

lemma split_whitespace_plain: "plain_word w \<Longrightarrow> split_whitespace w = [w]"
  using foldr_word_step_plain [of w "[]" "[]"]
  by (auto simp: split_whitespace_words words_of_def chars_of_ascii plain_word_ascii plain_word_def)

lemma split_whitespace_blank_Cons:
  assumes "plain_word w"
  shows "split_whitespace (w @ CHR '' '' # s) = w # split_whitespace s"
proof -
  have "is_ascii CHR '' ''" "is_ws_char '' ''" by (simp_all add: is_ascii_def is_ws_char_single byte_def)
  moreover obtain v ws where "foldr word_step (chars_of s) [[]] = v # ws"
    using foldr_word_step [of "chars_of s" "[]" "[]"] by (metis list.exhaust)
  ultimately show ?thesis
    using assms foldr_word_step_plain [of w "[]" "v # ws"]
    by (simp add: split_whitespace_words words_of_def chars_of_plain_append plain_word_ascii word_step_def plain_word_def)
qed

lemma split_whitespace_solid:
  assumes "\<And>ch. ch \<in> set (chars_of s) \<Longrightarrow> \<not> is_ws_char ch" and "s \<noteq> []"
  shows "split_whitespace s = [s]"
proof -
  have "foldr word_step chs [v] = [concat chs @ v]" if "\<forall>ch \<in> set chs. \<not> is_ws_char ch" for chs v
    using that by (induction chs) (simp_all add: word_step_def)
  then have "foldr word_step (chars_of s) [[]] = [s]" using assms(1) by simp
  with assms(2) show ?thesis by (simp add: split_whitespace_words words_of_def)
qed

text \<open>Trimming does not change the words.\<close>

lemma chars_of_dropWhile: "chars_of (concat (dropWhile p (chars_of s))) = dropWhile p (chars_of s)"
proof (induction s rule: chars_of.induct)
  case (2 c cs)
  then show ?case
    by (cases "is_ascii c")
       (simp_all add: chars_of_append_ascii del: chars_of.simps, simp_all)
qed simp

lemma hd_chars_of: "concat (take n (chars_of (c # cs))) = [] \<or> (\<exists>r. concat (take n (chars_of (c # cs))) = c # r)"
  by (cases n) auto

lemma chars_of_take: "chars_of (concat (take n (chars_of s))) = take n (chars_of s)"
proof (induction s arbitrary: n rule: chars_of.induct)
  case (2 c cs)
  show ?case
  proof (cases "n = 0 \<or> is_ascii c")
    case False
    then obtain m where n: "n = Suc m" by (cases n) auto
    let ?t = "concat (take m (chars_of (dropWhile is_cont cs)))"
    have "?t = [] \<or> (\<exists>d r. ?t = d # r \<and> \<not> is_cont d)"
    proof (cases "dropWhile is_cont cs")
      case (Cons d ds)
      then have "\<not> is_cont d" by (metis hd_dropWhile list.sel(1) neq_Nil_conv)
      with Cons hd_chars_of [of m d ds] show ?thesis by auto
    next
      case Nil
      then show ?thesis by (simp only: chars_of.simps take_Nil) simp
    qed
    then have "takeWhile is_cont ?t = [] \<and> dropWhile is_cont ?t = ?t"
      by (elim disjE exE conjE) (erule ssubst, simp)+
    then have "takeWhile is_cont (takeWhile is_cont cs @ ?t) = takeWhile is_cont cs"
      and "dropWhile is_cont (takeWhile is_cont cs @ ?t) = ?t"
      by (simp_all add: takeWhile_append dropWhile_append del: concat_eq_Nil_conv) (blast dest: set_takeWhileD)+
    with False n 2(2) show ?thesis by simp
  qed (cases n; use 2 in auto)
qed simp

lemma chars_of_trim_end: "chars_of (trim_end s) = rev (dropWhile is_ws_char (rev (chars_of s)))"
proof -
  have "rev (dropWhile is_ws_char (rev (chars_of s))) = take (length (dropWhile is_ws_char (rev (chars_of s)))) (chars_of s)"
    by (metis (no_types, lifting) append_eq_conv_conj length_rev rev_append rev_rev_ident takeWhile_dropWhile_id)
  then show ?thesis by (metis chars_of_take trim_end_def)
qed

lemma chars_of_trim_start: "chars_of (trim_start s) = dropWhile is_ws_char (chars_of s)"
  by (simp add: trim_start_def chars_of_dropWhile)

lemma split_whitespace_trim [simp]: "split_whitespace (trim s) = split_whitespace s"
  by (simp add: split_whitespace_words trim_def chars_of_trim_end chars_of_trim_start words_of_trailing words_of_dropWhile_ws)

lemma split_whitespace_strip_cr [simp]: "split_whitespace (strip_cr s) = split_whitespace s"
proof (cases "s \<noteq> [] \<and> last s = CR")
  case True
  then have s: "s = butlast s @ CR # []" by (metis append_butlast_last_id)
  have "is_ascii CR" "is_ws_char [CR]" by (simp_all add: is_ascii_def is_ws_char_single byte_def)
  then have "split_whitespace (butlast s @ CR # []) = split_whitespace (butlast s)"
    by (simp add: split_whitespace_words chars_of_append_ascii words_of_ws_append)
  with s True show ?thesis by (simp add: strip_cr_def)
next
  case False
  then show ?thesis by (simp only: strip_cr_def if_False)
qed

lemma trimmed_snoc:
  assumes "p c"
  shows "rev (dropWhile p (rev (dropWhile p (xs @ [c])))) = rev (dropWhile p (rev (dropWhile p xs)))"
proof (cases "\<forall>x \<in> set xs. p x")
  case True
  with assms have "\<forall>x \<in> set (xs @ [c]). p x" by simp
  with True have "dropWhile p (xs @ [c]) = []" "dropWhile p xs = []"
    by (blast intro: dropWhile_eq_Nil_conv [THEN iffD2])+
  then show ?thesis by (simp only:)
next
  case False
  then have "dropWhile p (xs @ [c]) = dropWhile p xs @ [c]" by (meson dropWhile_append1)
  with assms show ?thesis by (simp only: rev_append rev.simps append.simps dropWhile.simps if_True)
qed

lemma trim_strip_cr [simp]: "trim (strip_cr s) = trim s"
proof (cases "s \<noteq> [] \<and> last s = CR")
  case True
  then have s: "s = butlast s @ CR # []" by (metis append_butlast_last_id)
  have ws: "is_ascii CR" "is_ws_char [CR]" by (simp_all add: is_ascii_def is_ws_char_single byte_def)
  have eq: "trim t = concat (rev (dropWhile is_ws_char (rev (dropWhile is_ws_char (chars_of t)))))" for t
    by (simp add: trim_def trim_end_def chars_of_trim_start)
  have "trim (butlast s @ CR # []) = trim (butlast s)"
    unfolding eq using ws by (simp only: chars_of_append_ascii chars_of.simps trimmed_snoc)
  with s True show ?thesis by (simp add: strip_cr_def)
next
  case False
  then show ?thesis by (simp only: strip_cr_def if_False)
qed

text \<open>A text that begins with a plain character keeps it when it is trimmed.\<close>

lemma trim_Cons: "is_ascii c \<Longrightarrow> \<not> is_ws_char [c] \<Longrightarrow> trim (c # y) = c # trim_end y"
  using trim_end_append [of c "[]" y] by (simp add: trim_def trim_start_Cons)

section \<open>Pieces and single words\<close>

lemma split_on_join:
  assumes "\<forall>l \<in> set ls. NL \<notin> set l" and "ls \<noteq> []"
  shows "split_on NL (join [NL] ls) = ls"
  using assms
proof (induction ls rule: induct_list012)
  case (3 x y zs)
  then show ?case using split_on_append_sep [of NL x "join [NL] (y # zs)"] by simp
qed (simp_all add: split_on_no_sep)

lemma trim_start_split: "\<exists>ws. trim_start l = trim l @ ws"
  unfolding trim_def trim_end_def
  by (metis concat_append concat_chars_of rev_append rev_rev_ident takeWhile_dropWhile_id)

lemma split_once_append: "split_once c s = Some (a, b) \<Longrightarrow> split_once c (s @ t) = Some (a, b @ t)"
  by (auto simp: split_once_Some_iff)

lemma chars_of_takeWhile: "chars_of (concat (takeWhile p (chars_of s))) = takeWhile p (chars_of s)"
  by (metis chars_of_take takeWhile_eq_take)

lemma trim_solid:
  assumes "\<forall>ch \<in> set (chars_of s). \<not> is_ws_char ch"
  shows "trim s = s"
proof -
  have "dropWhile is_ws_char (chars_of s) = chars_of s" "dropWhile is_ws_char (rev (chars_of s)) = rev (chars_of s)"
    using assms hd_in_set [of "chars_of s"] hd_in_set [of "rev (chars_of s)"] unfolding dropWhile_eq_self_iff
    by (metis rev_is_Nil_conv set_rev)+
  then show ?thesis by (simp add: trim_def trim_end_def chars_of_trim_start)
qed

lemma foldr_word_step_solid:
  "\<forall>ch \<in> set xs. \<not> is_ws_char ch \<Longrightarrow> foldr word_step xs (w # ws) = (concat xs @ w) # ws"
  by (induction xs) (simp_all add: word_step_def)

lemma first_word_ws_once:
  assumes "split_ws_once t = Some (k, v)" and "trim k \<noteq> []"
  shows "\<exists>ws. split_whitespace t = k # ws" and "trim k = k"
proof -
  let ?p = "\<lambda>ch. \<not> is_ws_char ch"
  obtain w rest where r: "dropWhile ?p (chars_of t) = w # rest" and k: "k = concat (takeWhile ?p (chars_of t))"
    using assms(1) by (auto simp: split_ws_once_def Let_def split: list.splits)
  have p: "\<forall>ch \<in> set (takeWhile ?p (chars_of t)). ?p ch" by (blast dest: set_takeWhileD)
  then show trim: "trim k = k" unfolding k by (intro trim_solid) (simp only: chars_of_takeWhile)
  have ws: "is_ws_char w" using r by (simp add: dropWhile_eq_Cons_conv)
  obtain v ws where "foldr word_step rest [[]] = v # ws"
    using foldr_word_step [of rest "[]" "[]"] by (metis list.exhaust)
  with ws have "foldr word_step (w # rest) [[]] = [] # v # ws" by (simp add: word_step_def)
  with foldr_word_step_solid [OF p, of "[]" "v # ws"] r k
  have "foldr word_step (chars_of t) [[]] = k # v # ws"
    by (metis append_Nil2 foldr_append comp_apply takeWhile_dropWhile_id)
  with assms(2) trim show "\<exists>ws. split_whitespace t = k # ws"
    by (simp add: split_whitespace_words words_of_def)
qed

lemma split_whitespace_trim_start: "split_whitespace (trim_start s) = split_whitespace s"
  by (simp add: split_whitespace_words chars_of_trim_start words_of_dropWhile_ws)

lemma single_word:
  assumes "split_ws_once t = None" and "t \<noteq> []"
  shows "split_whitespace t = [t]" and "trim t = t"
proof -
  have "\<forall>ch \<in> set (chars_of t). \<not> is_ws_char ch"
    using assms(1) by (auto simp: split_ws_once_def Let_def dropWhile_eq_Nil_conv split: list.splits)
  with assms(2) show "split_whitespace t = [t]" "trim t = t" by (auto intro: split_whitespace_solid trim_solid)
qed

lemma plain_word_trim: "plain_word w \<Longrightarrow> trim w = w"
  by (rule trim_solid) (auto simp: plain_word_def list_all_iff chars_of_ascii)

lemma trim_end_blank:
  assumes "trim_end v = v"
  shows "trim_end (k @ CHR '' '' # v) = (if v = [] then trim_end k else k @ CHR '' '' # v)"
proof (cases "v = []")
  case True
  then show ?thesis by (simp add: trim_end_def chars_of_append_ascii is_ascii_def is_ws_char_single byte_def)
next
  case False
  have blank: "is_ascii CHR '' ''" by (simp add: is_ascii_def byte_def)
  have "dropWhile is_ws_char (rev (chars_of v)) \<noteq> []"
    using assms False unfolding trim_end_def by (metis concat.simps(1) rev.simps(1))
  then obtain x where "x \<in> set (rev (chars_of v))" "\<not> is_ws_char x" by (auto simp: dropWhile_eq_Nil_conv)
  from dropWhile_append1 [where P = is_ws_char, OF this, of "'' '' # rev (chars_of k)"] False assms blank show ?thesis
    by (simp add: trim_end_def chars_of_append_ascii)
qed

lemma trim_trim [simp]: "trim (trim s) = trim s"
proof -
  let ?X = "dropWhile is_ws_char (chars_of s)"
  let ?Y = "rev (dropWhile is_ws_char (rev ?X))"
  have Y: "chars_of (trim s) = ?Y" by (simp add: trim_def chars_of_trim_end chars_of_trim_start)
  have X: "?X = ?Y @ rev (takeWhile is_ws_char (rev ?X))"
    by (metis rev_append rev_rev_ident takeWhile_dropWhile_id)
  have "dropWhile is_ws_char ?Y = ?Y"
  proof (cases "?Y = []")
    case False
    then have "hd ?Y = hd ?X" "?X \<noteq> []" using X by (metis hd_append2, force)
    then have "\<not> is_ws_char (hd ?Y)" using hd_dropWhile [of is_ws_char "chars_of s"] by simp
    then show ?thesis by (simp only: dropWhile_eq_self_iff) simp
  next
    case True
    then show ?thesis by (metis dropWhile.simps(1))
  qed
  then have "trim (trim s) = concat (rev (dropWhile is_ws_char (rev ?Y)))"
    by (simp add: trim_def [of "trim s"] trim_end_def chars_of_trim_start Y)
  also have "\<dots> = concat ?Y" by simp
  also have "\<dots> = trim s" using Y by (metis concat_chars_of)
  finally show ?thesis .
qed

end
