(* ===== verification/AgentConfig.thy ===== *)
theory AgentConfig
  imports AgentUtil TextFacts
begin

text \<open>
  The agent's settings (\<open>agent/src/config.rs\<close>): the environment file, the variables, the URL of
  the gateway, and the removal of the bootstrap token from the file after enrolment.
\<close>

section \<open>The environment file\<close>

text \<open>One line of \<open>load_env_file\<close>: a key and a value, or nothing.\<close>

definition env_line :: "string \<Rightarrow> (string \<times> string) option" where
  "env_line line0 =
     (let line = trim line0
      in if line = [] \<or> starts_with ''#'' line then None
         else map_option (\<lambda>(key, val). (trim key, trim_matches SQ (trim_matches DQ (trim val))))
                (split_once (CHR ''='') line))"

text \<open>\<open>std::env::set_var\<close> panics on an empty key and on a NUL; the key has no equals sign here.\<close>

definition set_var_panics :: "string \<Rightarrow> string \<Rightarrow> bool" where
  "set_var_panics key val \<longleftrightarrow> key = [] \<or> NUL \<in> set key \<or> NUL \<in> set val"

fun load_lines :: "string list \<Rightarrow> environ \<Rightarrow> environ option" where
  "load_lines [] ev = Some ev"
| "load_lines (l # ls) ev =
     (case env_line l of
        None \<Rightarrow> load_lines ls ev
      | Some (key, val) \<Rightarrow>
          if ev key \<noteq> None then load_lines ls ev
          else if set_var_panics key val then None
          else load_lines ls (ev(key \<mapsto> val)))"

definition load_env_file :: "string option \<Rightarrow> environ \<Rightarrow> environ option" where
  "load_env_file file ev = (case file of None \<Rightarrow> Some ev | Some txt \<Rightarrow> load_lines (lines txt) ev)"

section \<open>Settings\<close>

record agent_config =
  ac_gateway_url :: string
  ac_accept_insecure :: bool
  ac_bootstrap_token :: "string option"
  ac_expected_gateway_id :: "string option"

definition nonempty :: "string option \<Rightarrow> string option" where
  "nonempty x = (case x of Some s \<Rightarrow> if s = [] then None else Some s | None \<Rightarrow> None)"

definition config_of :: "environ \<Rightarrow> agent_config option" where
  "config_of ev =
     map_option (\<lambda>url.
       \<lparr>ac_gateway_url = url,
        ac_accept_insecure =
          (case ev ''TENODERA_AGENT_ACCEPT_INSECURE'' of
             Some v \<Rightarrow> v = ''1'' \<or> eq_ignore_ascii_case v ''true'' | None \<Rightarrow> False),
        ac_bootstrap_token = nonempty (ev ''TENODERA_BOOTSTRAP_TOKEN''),
        ac_expected_gateway_id = nonempty (ev ''TENODERA_GATEWAY_ID'')\<rparr>)
       (ev ''TENODERA_GATEWAY_URL'')"

text \<open>\<open>from_env\<close>: \<open>None\<close> when loading panics, otherwise the settings or the missing URL's error.\<close>

definition from_env :: "string option \<Rightarrow> environ \<Rightarrow> agent_config option option" where
  "from_env file ev = map_option config_of (load_env_file file ev)"

definition agent_ws_url :: "agent_config \<Rightarrow> string" where
  "agent_ws_url c =
     replace_first ''http://'' ''ws://''
       (replace_first ''https://'' ''wss://'' (trim_end_matches (CHR ''/'') (ac_gateway_url c))) @ ''/api/agent''"

definition is_local :: "agent_config \<Rightarrow> bool" where
  "is_local c \<longleftrightarrow> contains_str ''127.0.0.1'' (ac_gateway_url c) \<or>
     contains_str ''localhost'' (ac_gateway_url c) \<or> contains_str ''::1'' (ac_gateway_url c)"

section \<open>Scrubbing the bootstrap token\<close>

definition is_bootstrap_token_line :: "string \<Rightarrow> bool" where
  "is_bootstrap_token_line line =
     (let t = trim_start line;
          t = (case strip_prefix ''export '' t of Some rest \<Rightarrow> trim_start rest | None \<Rightarrow> t)
      in case split_once (CHR ''='') t of
           Some (key, _) \<Rightarrow> trim_end key = ''TENODERA_BOOTSTRAP_TOKEN'' | None \<Rightarrow> False)"

text \<open>What is written back, or \<open>None\<close> when the file is left alone.\<close>

definition scrub_bootstrap_token :: "string option \<Rightarrow> string option" where
  "scrub_bootstrap_token file =
     (case file of
        None \<Rightarrow> None
      | Some txt \<Rightarrow>
          if \<not> list_ex is_bootstrap_token_line (lines txt) then None
          else Some (join [NL] (filter (\<lambda>l. \<not> is_bootstrap_token_line l) (lines txt))
                     @ (if ends_with [NL] txt then [NL] else [])))"

section \<open>What scrubbing leaves\<close>

lemma trim_end_ws: "is_ascii c \<Longrightarrow> is_ws_char [c] \<Longrightarrow> trim_end (x @ [c]) = trim_end x"
  by (simp add: trim_end_def chars_of_append_ascii)

lemma trim_start_append_ws:
  assumes "is_ascii c" and "is_ws_char [c]"
  shows "trim_start (x @ [c]) = (if trim_start x = [] then [] else trim_start x @ [c])"
proof (cases "\<forall>ch \<in> set (chars_of x). is_ws_char ch")
  case True
  then have "dropWhile is_ws_char (chars_of x) = []" by (simp add: dropWhile_eq_Nil_conv)
  then have "trim_start x = []" "trim_start (x @ [c]) = []"
    using assms True by (simp_all only: trim_start_def chars_of_append_ascii) (simp_all add: dropWhile_append)
  then show ?thesis by simp
next
  case False
  then have "dropWhile is_ws_char (chars_of x) \<noteq> []" by (simp add: dropWhile_eq_Nil_conv)
  then have "trim_start x \<noteq> []" using chars_of_trim_start [of x] by (metis chars_of.simps(1))
  moreover have "trim_start (x @ [c]) = trim_start x @ [c]"
    using False assms by (auto simp: trim_start_def chars_of_append_ascii dropWhile_append)
  ultimately show ?thesis by simp
qed

lemma CR_ws: "is_ascii CR" "is_ws_char [CR]"
  by (simp_all add: is_ascii_def is_ws_char_single byte_def)

lemma strip_cr_cases: obtains "strip_cr s = s" | a where "s = a @ [CR]" "strip_cr s = a"
proof (cases "s \<noteq> [] \<and> last s = CR")
  case True
  then have "s = butlast s @ [CR]" by (metis append_butlast_last_id)
  then show thesis using that(2) True by (metis strip_cr_def)
next
  case False
  then show thesis using that(1) by (simp only: strip_cr_def if_False simp_thms)
qed

lemma env_line_strip_cr: "env_line (strip_cr s) = env_line s"
proof (cases s rule: strip_cr_cases)
  case (2 a)
  have "trim (a @ [CR]) = trim a"
    using trim_start_append_ws [OF CR_ws] trim_end_ws [OF CR_ws] by (simp add: trim_def)
  then show ?thesis by (simp add: 2 env_line_def strip_cr_def)
qed simp

lemma env_line_Nil: "env_line [] = None"
  by (simp add: env_line_def trim_def trim_start_def trim_end_def)

text \<open>Joining lines and reading them again changes nothing a reader of trimmed lines can see.\<close>

lemma map_filter_join:
  assumes "\<And>l. f (strip_cr l) = f l" and "f [] = None" and "\<forall>l \<in> set ls. NL \<notin> set l"
  shows "List.map_filter f (lines (join [NL] ls)) = List.map_filter f ls"
    and "List.map_filter f (lines (join [NL] ls @ [NL])) = List.map_filter f ls"
proof -
  have "List.map_filter f (lines (join [NL] ls)) = List.map_filter f ls \<and>
        List.map_filter f (lines (join [NL] ls @ [NL])) = List.map_filter f ls"
    using assms(3)
  proof (induction ls rule: induct_list012)
    case 1
    show ?case using lines_append_NL [of "[]" "[]"] assms(1,2) by (simp add: strip_cr_def map_filter_simps)
  next
    case (2 x)
    then show ?case using lines_append_NL [of x "[]"] assms(1,2)
      by (simp add: lines_of_NL_free map_filter_simps)
  next
    case (3 x y zs)
    then show ?case using lines_append_NL [of x "join [NL] (y # zs)"]
        lines_append_NL [of x "join [NL] (y # zs) @ [NL]"] assms(1)
      by (simp add: map_filter_simps split: option.split)
  qed
  then show "List.map_filter f (lines (join [NL] ls)) = List.map_filter f ls"
    and "List.map_filter f (lines (join [NL] ls @ [NL])) = List.map_filter f ls" by simp_all
qed

lemma trim_end_prefix: obtains q where "s = trim_end s @ q"
proof -
  have "rev (chars_of s) = takeWhile is_ws_char (rev (chars_of s)) @ dropWhile is_ws_char (rev (chars_of s))" by simp
  then have "chars_of s = rev (dropWhile is_ws_char (rev (chars_of s))) @ rev (takeWhile is_ws_char (rev (chars_of s)))"
    by (metis rev_append rev_rev_ident)
  then have "concat (chars_of s) = trim_end s @ concat (rev (takeWhile is_ws_char (rev (chars_of s))))"
    by (metis concat_append trim_end_def)
  then show thesis using that by simp
qed

text \<open>A line that assigns the token, as the loader reads it, is one the scrubber recognises.\<close>

lemma token_assignment_recognised:
  assumes "env_line l = Some (''TENODERA_BOOTSTRAP_TOKEN'', v)"
  shows "is_bootstrap_token_line l"
proof -
  let ?t = "trim_start l"
  obtain key val where sp: "split_once (CHR ''='') (trim l) = Some (key, val)" "trim key = ''TENODERA_BOOTSTRAP_TOKEN''"
    using assms by (auto simp: env_line_def Let_def split: if_splits)
  obtain q where "?t = trim l @ q" using trim_end_prefix [of ?t] by (auto simp: trim_def)
  with sp(1) have t: "split_once (CHR ''='') ?t = Some (key, val @ q)"
    using split_once_append by metis
  then have cs: "chars_of ?t = chars_of key @ [CHR ''=''] # chars_of (val @ q)"
    by (simp add: split_once_Some_iff chars_of_append_ascii is_ascii_def byte_def)
  have "dropWhile is_ws_char (chars_of key) = chars_of key"
  proof (cases "chars_of key")
    case (Cons g gs)
    then have "hd (dropWhile is_ws_char (chars_of l)) = g" "dropWhile is_ws_char (chars_of l) \<noteq> []"
      using cs by (simp_all add: chars_of_trim_start)
    then have "\<not> is_ws_char g" using hd_dropWhile by blast
    then show ?thesis by (simp add: Cons)
  qed simp
  then have "trim_start key = key" by (simp add: trim_start_def)
  with sp(2) have key: "trim_end key = ''TENODERA_BOOTSTRAP_TOKEN''" by (simp add: trim_def)
  then obtain q' where "key = ''TENODERA_BOOTSTRAP_TOKEN'' @ q'" using trim_end_prefix by metis
  then have "strip_prefix ''export '' ?t = None" using t by (simp add: split_once_Some_iff)
  with t key show ?thesis by (simp add: is_bootstrap_token_line_def)
qed

text \<open>
  Scrubbing takes the token and nothing else: the file written back assigns, line by line
  and in the same order, exactly what the lines that do not name the token assigned, and no
  assignment of the token is left for the loader to find.
\<close>

theorem scrub_removes_only_token:
  assumes "scrub_bootstrap_token (Some txt) = Some cleaned"
  shows "List.map_filter env_line (lines cleaned) =
           List.map_filter env_line (filter (\<lambda>l. \<not> is_bootstrap_token_line l) (lines txt))"
    and "(''TENODERA_BOOTSTRAP_TOKEN'', v) \<notin> set (List.map_filter env_line (lines cleaned))"
proof -
  let ?kept = "filter (\<lambda>l. \<not> is_bootstrap_token_line l) (lines txt)"
  have free: "\<forall>l \<in> set ?kept. NL \<notin> set l" using lines_NL_free by auto
  have "cleaned = join [NL] ?kept \<or> cleaned = join [NL] ?kept @ [NL]"
    using assms by (auto simp: scrub_bootstrap_token_def split: if_splits)
  then show eq: "List.map_filter env_line (lines cleaned) = List.map_filter env_line ?kept"
    using map_filter_join [of env_line, OF env_line_strip_cr env_line_Nil free] by blast
  show "(''TENODERA_BOOTSTRAP_TOKEN'', v) \<notin> set (List.map_filter env_line (lines cleaned))"
  proof
    assume "(''TENODERA_BOOTSTRAP_TOKEN'', v) \<in> set (List.map_filter env_line (lines cleaned))"
    then obtain l where "\<not> is_bootstrap_token_line l" "env_line l = Some (''TENODERA_BOOTSTRAP_TOKEN'', v)"
      unfolding eq by (auto simp: List.map_filter_def)
    then show False using token_assignment_recognised by blast
  qed
qed

theorem scrub_removes_only_token_witness:
  "lines (''A=1'' @ [NL]) = [''A=1''] \<and>
   (''TENODERA_BOOTSTRAP_TOKEN'', ''x'') \<notin> set (List.map_filter env_line (lines (''A=1'' @ [NL])))"
proof -
  let ?txt = "''A=1'' @ NL # ''TENODERA_BOOTSTRAP_TOKEN=x'' @ [NL]"
  have ls: "lines ?txt = [''A=1'', ''TENODERA_BOOTSTRAP_TOKEN=x'']"
    using lines_append_NL [of "''A=1''" "''TENODERA_BOOTSTRAP_TOKEN=x'' @ [NL]"]
      lines_append_NL [of "''TENODERA_BOOTSTRAP_TOKEN=x''" "[]"] by (simp add: strip_cr_def)
  have keys: "trim_end ''TENODERA_BOOTSTRAP_TOKEN'' = ''TENODERA_BOOTSTRAP_TOKEN''" "trim_end ''A'' = ''A''"
    using trim_end_append [of "CHR ''N''" "''TENODERA_BOOTSTRAP_TOKE''" "[]"] trim_end_append [of "CHR ''A''" "[]" "[]"]
    by (simp_all add: is_ascii_def is_ws_char_single byte_def trim_end_def)
  have "trim_start ''TENODERA_BOOTSTRAP_TOKEN=x'' = ''TENODERA_BOOTSTRAP_TOKEN=x''" "trim_start ''A=1'' = ''A=1''"
    by (rule trim_start_Cons; simp add: is_ascii_def is_ws_char_single byte_def)+
  then have "is_bootstrap_token_line ''TENODERA_BOOTSTRAP_TOKEN=x''" "\<not> is_bootstrap_token_line ''A=1''"
    by (simp_all add: is_bootstrap_token_line_def keys)
  then have kept: "filter (\<lambda>l. \<not> is_bootstrap_token_line l) (lines ?txt) = [''A=1'']"
    and found: "list_ex is_bootstrap_token_line (lines ?txt)"
    unfolding ls by simp_all
  have "ends_with [NL] ?txt" by (simp add: ends_with_def starts_with_def)
  then have "scrub_bootstrap_token (Some ?txt) = Some (''A=1'' @ [NL])"
    unfolding scrub_bootstrap_token_def
    by (simp only: option.case found kept simp_thms if_True if_False join.simps)
  from scrub_removes_only_token(2) [OF this, of "''x''"] show ?thesis
    using lines_append_NL [of "''A=1''" "[]"] by (simp add: strip_cr_def)
qed

text \<open>
  \<open>is_local\<close> looks for substrings, so a gateway on another machine counts as local when its IPv6
  address happens to contain \<open>::1\<close>, or its name contains \<open>localhost\<close>.
\<close>

lemma remote_gateway_counts_as_local:
  "is_local \<lparr>ac_gateway_url = ''https://[2001:db8::1f]:9090'', ac_accept_insecure = False,
     ac_bootstrap_token = None, ac_expected_gateway_id = None\<rparr>"
  "is_local \<lparr>ac_gateway_url = ''https://localhost.example.org'', ac_accept_insecure = False,
     ac_bootstrap_token = None, ac_expected_gateway_id = None\<rparr>"
  by code_simp+

end
