(* ===== verification/AgentRouter.thy ===== *)
theory AgentRouter
  imports AgentUtil
begin

text \<open>
  The agent's router (\<open>agent/src/router.rs\<close>) and the contract of its handlers
  (\<open>agent/src/handler.rs\<close>). A handler is its payload name, whether it streams, and its two
  functions \<open>open\<close> and \<open>data\<close>, over a state of any type (the host and the handlers' own
  statics). The agent awaits each message before it reads the next, so the functions run one
  after the other. A streaming handler's task runs beside the router: starting and stopping it
  is an output of the router.
\<close>

section \<open>Handlers\<close>

record 's handler =
  hd_payload :: string
  hd_streaming :: bool
  hd_open :: "string \<Rightarrow> open_options \<Rightarrow> 's \<Rightarrow> message list \<times> 's"
  hd_data :: "string \<Rightarrow> json \<Rightarrow> 's \<Rightarrow> message list \<times> 's"

text \<open>The default \<open>data\<close> of the trait: no answer, no effect.\<close>

definition no_data :: "string \<Rightarrow> json \<Rightarrow> 's \<Rightarrow> message list \<times> 's" where
  "no_data ch d s = ([], s)"

text \<open>The three messages of a one-shot answer.\<close>

definition one_shot :: "string \<Rightarrow> json \<Rightarrow> message list" where
  "one_shot ch d = [Ready ch, Data ch d, Close ch None]"

section \<open>The router\<close>

record 's router =
  rt_handlers :: "(string, 's handler) hmap"
  rt_active :: "(string, 's handler) hmap"
  rt_channels :: "(string, 's handler) hmap"
  rt_options :: "(string, open_options) hmap"

datatype stream_task = StartStream string open_options | StopStream string

definition router_new :: "'s router" where
  "router_new = \<lparr>rt_handlers = [], rt_active = [], rt_channels = [], rt_options = []\<rparr>"

definition router_register :: "'s handler \<Rightarrow> 's router \<Rightarrow> 's router" where
  "router_register h r = r\<lparr>rt_handlers := hm_put (hd_payload h) h (rt_handlers r)\<rparr>"

definition register_all :: "'s handler list \<Rightarrow> 's router" where
  "register_all hs = foldl (\<lambda>r h. router_register h r) router_new hs"

text \<open>The payload names of \<open>register_defaults\<close>, in its order.\<close>

definition default_payloads :: "string list" where
  "default_payloads =
     [''system.info'', ''audit.query'', ''system.pubkey'', ''host.config'', ''host.action'', ''system.settings'',
      ''chrony.manage'', ''timesync.manage'', ''systemd.units'', ''systemd.manage'', ''file.list'', ''file.read'',
      ''file.write'', ''file.delete'', ''file.mkdir'', ''journal.query'', ''terminal.pty'', ''disk.usage'',
      ''network.stats'', ''container.manage'', ''storage.stream'', ''storage.manage'', ''storage.du'', ''ssh.manage'',
      ''superuser.verify'', ''networking.stream'', ''networking.manage'', ''packages.manage'', ''security.status'',
      ''security.manage'', ''hardware.info'', ''top.processes'', ''hosts.manage'', ''kdump.info'', ''log.files'',
      ''users.manage'', ''metrics.snapshot'', ''networking.snapshot'', ''storage.snapshot'', ''cron.list'',
      ''cron.manage'', ''systemd.timers'', ''dns.info'', ''dns.manage'', ''dns.lookup'', ''dns.resolved.info'',
      ''dns.resolved.manage'', ''certs.list'', ''certs.manage'', ''certs.selfsigned'', ''certs.letsencrypt'']"

definition closes :: "string \<Rightarrow> message \<Rightarrow> bool" where
  "closes ch m = (case m of Close c _ \<Rightarrow> c = ch | _ \<Rightarrow> False)"

definition inject :: "string \<Rightarrow> open_options \<Rightarrow> jmap \<Rightarrow> jmap" where
  "inject k o' obj = (case hm_get (extra o') k of Some v \<Rightarrow> hm_put k v obj | None \<Rightarrow> obj)"

definition enrich_data :: "open_options option \<Rightarrow> json \<Rightarrow> json" where
  "enrich_data opts data =
     (case opts of
        None \<Rightarrow> data
      | Some o' \<Rightarrow>
          (case as_object data of
             None \<Rightarrow> data
           | Some obj \<Rightarrow> JObj (inject ''_role'' o' (inject ''_user'' o' obj))))"

definition handle_open ::
  "string \<Rightarrow> open_options \<Rightarrow> 's router \<Rightarrow> 's \<Rightarrow> message list \<times> stream_task list \<times> 's router \<times> 's" where
  "handle_open ch options r s =
     (case hm_get (rt_handlers r) (payload options) of
        None \<Rightarrow> ([Close ch (Some (''unknown-payload: '' @ payload options))], [], r, s)
      | Some h \<Rightarrow>
          if hd_streaming h then
            ([], [StartStream ch options],
             r\<lparr>rt_active := hm_put ch h (rt_active r), rt_options := hm_put ch options (rt_options r)\<rparr>, s)
          else
            (let r1 = r\<lparr>rt_channels := hm_put ch h (rt_channels r),
                        rt_options := hm_put ch options (rt_options r)\<rparr>;
                 (msgs, s1) = hd_open h ch options s
             in if list_ex (closes ch) msgs
                then (msgs, [], r1\<lparr>rt_channels := hm_del ch (rt_channels r1),
                                   rt_options := hm_del ch (rt_options r1)\<rparr>, s1)
                else (msgs, [], r1, s1)))"

text \<open>The handler a data message goes to: a streaming one first.\<close>

definition data_handler :: "'s router \<Rightarrow> string \<Rightarrow> 's handler option" where
  "data_handler r ch =
     (case hm_get (rt_active r) ch of Some h \<Rightarrow> Some h | None \<Rightarrow> hm_get (rt_channels r) ch)"

definition handle_data ::
  "string \<Rightarrow> json \<Rightarrow> 's router \<Rightarrow> 's \<Rightarrow> message list \<times> 's" where
  "handle_data ch data r s =
     (case data_handler r ch of
        None \<Rightarrow> ([], s)
      | Some h \<Rightarrow> hd_data h ch (enrich_data (hm_get (rt_options r) ch) data) s)"

definition handle_close :: "string \<Rightarrow> 's router \<Rightarrow> stream_task list \<times> 's router" where
  "handle_close ch r =
     ((if hm_has (rt_active r) ch then [StopStream ch] else []),
      r\<lparr>rt_active := hm_del ch (rt_active r), rt_channels := hm_del ch (rt_channels r),
        rt_options := hm_del ch (rt_options r)\<rparr>)"

definition handle ::
  "message \<Rightarrow> 's router \<Rightarrow> 's \<Rightarrow> message list \<times> stream_task list \<times> 's router \<times> 's" where
  "handle m r s =
     (case m of
        Open ch options \<Rightarrow> handle_open ch options r s
      | Data ch data \<Rightarrow> (case handle_data ch data r s of (out, s1) \<Rightarrow> (out, [], r, s1))
      | Close ch _ \<Rightarrow> (case handle_close ch r of (tasks, r1) \<Rightarrow> ([], tasks, r1, s))
      | Ping \<Rightarrow> ([Pong], [], r, s)
      | _ \<Rightarrow> ([], [], r, s))"

section \<open>Registration\<close>

lemma register_all_get:
  "distinct (map hd_payload hs) \<Longrightarrow> h \<in> set hs \<Longrightarrow> hm_get (rt_handlers (register_all hs)) (hd_payload h) = Some h"
proof (induction hs rule: rev_induct)
  case (snoc x xs)
  have reg: "rt_handlers (register_all (xs @ [x])) = hm_put (hd_payload x) x (rt_handlers (register_all xs))"
    by (simp add: register_all_def router_register_def)
  show ?case
  proof (cases "h = x")
    case False
    then have "h \<in> set xs" "hd_payload h \<noteq> hd_payload x"
      using snoc.prems by (auto, metis image_eqI)
    with snoc reg show ?thesis by simp
  qed (simp add: reg)
qed simp

text \<open>
  No built-in handler shadows another: the payload names of the defaults are all different,
  so after \<open>register_defaults\<close> every one of them is found under its own name.
\<close>

theorem defaults_registered:
  assumes "map hd_payload hs = default_payloads" and "h \<in> set hs"
  shows "hm_get (rt_handlers (register_all hs)) (hd_payload h) = Some h"
proof -
  have "distinct default_payloads" by code_simp
  then show ?thesis using register_all_get assms by metis
qed

section \<open>What a handler is told about the caller\<close>

definition told :: "open_options \<Rightarrow> string option \<times> string option" where
  "told o' = (map_str (extra o') ''_user'', map_str (extra o') ''_role'')"

lemma enrich_data_told:
  assumes "told o' = (Some u, Some r)"
  shows "(jget_str (enrich_data (Some o') d) ''_user'' = Some u \<and> jget_str (enrich_data (Some o') d) ''_role'' = Some r)
    \<or> (as_object d = None \<and> enrich_data (Some o') d = d)"
proof (cases "as_object d")
  case (Some obj)
  from assms obtain vu vr where "hm_get (extra o') ''_user'' = Some vu" "as_str vu = Some u"
    "hm_get (extra o') ''_role'' = Some vr" "as_str vr = Some r"
    by (auto simp: told_def map_str_def bind_eq_Some_conv)
  then show ?thesis using Some by (simp add: enrich_data_def inject_def map_str_def)
qed (simp add: enrich_data_def)

lemma not_object_no_member: "as_object d = None \<Longrightarrow> jget_str d k = None"
  by (cases d) (simp_all add: jget_str_def)

text \<open>The messages a router may meet: every open of a channel carries the identity the channel
  belongs to, and does not reuse the id of a streaming channel that is still active.\<close>

definition fair_message :: "(string \<Rightarrow> string \<times> string) \<Rightarrow> 's router \<Rightarrow> message \<Rightarrow> bool" where
  "fair_message who r m =
     (case m of
        Open ch o' \<Rightarrow> told o' = (Some (fst (who ch)), Some (snd (who ch))) \<and> \<not> hm_has (rt_active r) ch
      | _ \<Rightarrow> True)"

inductive router_reach :: "'s handler list \<Rightarrow> (string \<Rightarrow> string \<times> string) \<Rightarrow> 's router \<Rightarrow> bool"
  for hs who where
  start: "router_reach hs who (register_all hs)"
| step: "router_reach hs who r \<Longrightarrow> fair_message who r m \<Longrightarrow> handle m r s = (out, tasks, r', s') \<Longrightarrow>
    router_reach hs who r'"

text \<open>Whether a channel's entry is in order depends on its own row of the three tables.\<close>

definition row_ok :: "(string \<Rightarrow> string \<times> string) \<Rightarrow> 's router \<Rightarrow> string \<Rightarrow> bool" where
  "row_ok who r ch \<longleftrightarrow>
     data_handler r ch = None \<or>
     map_option told (hm_get (rt_options r) ch) = Some (Some (fst (who ch)), Some (snd (who ch)))"

definition router_inv :: "(string \<Rightarrow> string \<times> string) \<Rightarrow> 's router \<Rightarrow> bool" where
  "router_inv who r \<longleftrightarrow> (\<forall>ch. row_ok who r ch)"

lemma register_all_empty:
  "rt_active (register_all hs) = []" "rt_channels (register_all hs) = []" "rt_options (register_all hs) = []"
  by (induction hs rule: rev_induct) (simp_all add: register_all_def router_new_def router_register_def)

lemma handle_open_cases:
  assumes "handle_open ch o' r s = (out, tasks, r', s')"
  obtains (unknown) "hm_get (rt_handlers r) (payload o') = None" "r' = r" "s' = s" "tasks = []"
      "out = [Close ch (Some (''unknown-payload: '' @ payload o'))]"
  | (stream) h where "hm_get (rt_handlers r) (payload o') = Some h" "hd_streaming h" "out = []" "s' = s"
      "tasks = [StartStream ch o']"
      "r' = r\<lparr>rt_active := hm_put ch h (rt_active r), rt_options := hm_put ch o' (rt_options r)\<rparr>"
  | (freed) h where "hm_get (rt_handlers r) (payload o') = Some h" "\<not> hd_streaming h"
      "hd_open h ch o' s = (out, s')" "list_ex (closes ch) out" "tasks = []"
      "r' = r\<lparr>rt_channels := hm_del ch (hm_put ch h (rt_channels r)),
             rt_options := hm_del ch (hm_put ch o' (rt_options r))\<rparr>"
  | (kept) h where "hm_get (rt_handlers r) (payload o') = Some h" "\<not> hd_streaming h"
      "hd_open h ch o' s = (out, s')" "\<not> list_ex (closes ch) out" "tasks = []"
      "r' = r\<lparr>rt_channels := hm_put ch h (rt_channels r), rt_options := hm_put ch o' (rt_options r)\<rparr>"
  using assms by (auto simp: handle_open_def Let_def split: option.splits if_splits prod.splits)

definition same_row :: "'s router \<Rightarrow> 's router \<Rightarrow> string \<Rightarrow> bool" where
  "same_row r r' ch \<longleftrightarrow>
     hm_get (rt_active r') ch = hm_get (rt_active r) ch \<and>
     hm_get (rt_channels r') ch = hm_get (rt_channels r) ch \<and>
     hm_get (rt_options r') ch = hm_get (rt_options r) ch"

lemma row_ok_cong: "same_row r r' ch \<Longrightarrow> row_ok who r' ch = row_ok who r ch"
  by (auto simp: same_row_def row_ok_def data_handler_def split: option.splits)

lemma router_inv_open:
  assumes inv: "router_inv who r" and fair: "fair_message who r (Open ch o')"
    and h: "handle_open ch o' r s = (out, tasks, r', s')"
  shows "router_inv who r'"
proof -
  have told: "told o' = (Some (fst (who ch)), Some (snd (who ch)))" and idle: "hm_get (rt_active r) ch = None"
    using fair by (auto simp: fair_message_def hm_has_def)
  have "row_ok who r' c" for c
  proof (cases "c = ch")
    case True
    from inv have "row_ok who r ch" by (simp add: router_inv_def)
    with h show ?thesis using idle
      by (cases rule: handle_open_cases) (auto simp: True row_ok_def data_handler_def told)
  next
    case False
    from h have "same_row r r' c"
      by (cases rule: handle_open_cases) (simp_all add: same_row_def False)
    with inv show ?thesis by (simp add: router_inv_def row_ok_cong)
  qed
  then show ?thesis by (simp add: router_inv_def)
qed

lemma router_inv_close: "router_inv who r \<Longrightarrow> router_inv who (snd (handle_close ch r))"
proof -
  assume inv: "router_inv who r"
  have "row_ok who (snd (handle_close ch r)) c" for c
  proof (cases "c = ch")
    case False
    then have "same_row r (snd (handle_close ch r)) c" by (simp add: same_row_def handle_close_def)
    with inv show ?thesis by (simp add: router_inv_def row_ok_cong)
  qed (simp add: row_ok_def data_handler_def handle_close_def)
  then show ?thesis by (simp add: router_inv_def)
qed

lemma handle_cases:
  assumes "handle m r s = (out, tasks, r', s')"
  obtains (opened) ch o' where "m = Open ch o'" "handle_open ch o' r s = (out, tasks, r', s')"
  | (closed) ch p where "m = Close ch p" "r' = snd (handle_close ch r)" "s' = s" "out = []"
  | (other) "r' = r" "tasks = []"
  using assms by (cases m) (auto simp: handle_def split: prod.splits)

lemma router_inv_step:
  assumes "router_inv who r" and "fair_message who r m" and "handle m r s = (out, tasks, r', s')"
  shows "router_inv who r'"
  using assms(3) by (cases rule: handle_cases) (use assms router_inv_open router_inv_close in auto)

lemma router_reach_inv: "router_reach hs who r \<Longrightarrow> router_inv who r"
proof (induction rule: router_reach.induct)
  case start
  then show ?case by (simp add: router_inv_def row_ok_def data_handler_def register_all_empty)
next
  case (step r m s out tasks r' s')
  from router_inv_step [OF step.IH step.hyps(2,3)] show ?case .
qed

text \<open>
  C24. A handler learns the caller from the gateway, not from the message: however channels were
  opened, used and closed before, as long as no open reuses the id of a running stream, the
  data given to a handler is an object that names the channel's own user and role, whatever the
  message itself claimed, or is no object at all, and then names nobody; a data message on a
  channel that is not tracked reaches no handler.
\<close>

theorem data_carries_identity:
  assumes "router_reach hs who r"
  shows "(handle_data ch d r s = ([], s) \<and> data_handler r ch = None) \<or>
    (\<exists>h d'. data_handler r ch = Some h \<and> handle_data ch d r s = hd_data h ch d' s \<and>
      ((jget_str d' ''_user'' = Some (fst (who ch)) \<and> jget_str d' ''_role'' = Some (snd (who ch))) \<or>
       (as_object d = None \<and> d' = d \<and> jget_str d' ''_user'' = None \<and> jget_str d' ''_role'' = None)))"
proof (cases "data_handler r ch")
  case None
  then show ?thesis by (simp add: handle_data_def)
next
  case (Some h)
  from router_reach_inv [OF assms] have "row_ok who r ch" by (simp add: router_inv_def)
  with Some obtain o' where o': "hm_get (rt_options r) ch = Some o'"
    "told o' = (Some (fst (who ch)), Some (snd (who ch)))"
    by (auto simp: row_ok_def)
  from enrich_data_told [OF o'(2), of d] not_object_no_member [of d] Some o'(1) show ?thesis
    by (auto simp: handle_data_def)
qed

section \<open>What the router keeps\<close>

text \<open>
  Reusing the id of a running stream loses the identity: after a one-shot open on that id the
  options are gone while the stream stays, so the next data message reaches the streaming
  handler exactly as the client wrote it, with whatever \<open>_user\<close> and \<open>_role\<close> it claims. (No
  streaming handler of the repository reads them; the gateway refuses the reuse within one
  WebSocket, but not between two of the same login, which share the prefix.)
\<close>

lemma reused_stream_id_loses_identity:
  assumes "hm_get (rt_handlers r) (payload o1) = Some h1" and "hd_streaming h1"
    and "hm_get (rt_handlers r) (payload o2) = Some h2" and "\<not> hd_streaming h2"
    and "list_ex (closes ch) (fst (hd_open h2 ch o2 s))"
    and "r1 = fst (snd (snd (handle (Open ch o1) r s)))"
    and "r2 = fst (snd (snd (handle (Open ch o2) r1 s)))"
  shows "handle_data ch d r2 s2 = hd_data h1 ch d s2"
proof -
  have r1: "r1 = r\<lparr>rt_active := hm_put ch h1 (rt_active r), rt_options := hm_put ch o1 (rt_options r)\<rparr>"
    using assms(1,2,6) by (simp add: handle_def handle_open_def)
  have "hm_get (rt_active r2) ch = Some h1" "hm_get (rt_options r2) ch = None"
    using assms(3-5,7) by (auto simp: handle_def handle_open_def Let_def r1 split: prod.splits)
  then show ?thesis by (simp add: handle_data_def data_handler_def enrich_data_def)
qed

text \<open>
  A stream ends only by a close of its channel: whatever other messages the agent handles,
  a streaming channel stays registered and its task is not stopped. Since the gateway sends no
  close for the channels of a browser connection that ends, the streams of a closed tab (a
  terminal, a metrics stream) run on until the agent's own connection ends.
\<close>

theorem stream_survives_without_close:
  assumes "hm_has (rt_active r) ch" and "\<And>p. m \<noteq> Close ch p" and "handle m r s = (out, tasks, r', s')"
  shows "hm_has (rt_active r') ch \<and> StopStream ch \<notin> set tasks"
  using assms(3)
proof (cases rule: handle_cases)
  case (opened c o')
  from opened(2) show ?thesis
    by (cases rule: handle_open_cases) (use assms(1) in \<open>auto simp: hm_has_def\<close>)
next
  case (closed c p)
  with assms show ?thesis by (auto simp: handle_def handle_close_def hm_has_def)
next
  case other
  with assms(1) show ?thesis by simp
qed

section \<open>Contracts of handlers\<close>

text \<open>A handler that is run by the router itself.\<close>

locale plain_handler =
  fixes h :: "'s handler"
  assumes not_streaming: "\<not> hd_streaming h"

text \<open>A one-shot handler answers with ready, one data message and close, on its own channel. Then
  the router keeps nothing of the channel.\<close>

locale oneshot_handler = plain_handler +
  assumes answers: "\<exists>d. fst (hd_open h ch o' s) = one_shot ch d"
begin

lemma opened:
  assumes "hm_get (rt_handlers r) (payload o') = Some h" and "handle (Open ch o') r s = (out, tasks, r', s')"
  shows "(\<exists>d. out = one_shot ch d) \<and> tasks = [] \<and> s' = snd (hd_open h ch o' s) \<and>
    \<not> hm_has (rt_channels r') ch \<and> \<not> hm_has (rt_options r') ch \<and>
    (\<forall>c. c \<noteq> ch \<longrightarrow> same_row r r' c)"
proof -
  obtain d where d: "fst (hd_open h ch o' s) = one_shot ch d" using answers by blast
  then have "list_ex (closes ch) (fst (hd_open h ch o' s))" by (simp add: one_shot_def closes_def)
  with assms not_streaming d show ?thesis
    by (auto simp: handle_def handle_open_def Let_def hm_has_def same_row_def split: prod.splits)
qed

text \<open>So data never reaches it, on whatever channel.\<close>

lemma closes_itself: "hd_open h ch o' s = (out, s') \<Longrightarrow> list_ex (closes ch) out"
  using answers [of ch o' s] by (auto simp: one_shot_def closes_def)

lemma never_told:
  assumes "router_reach hs who r"
  shows "data_handler r ch \<noteq> Some h"
proof -
  have "\<forall>c. hm_get (rt_active r) c \<noteq> Some h \<and> hm_get (rt_channels r) c \<noteq> Some h"
    using assms
  proof (induction rule: router_reach.induct)
    case start
    then show ?case by (simp add: register_all_empty)
  next
    case (step r m s out tasks r' s')
    from step.hyps(3) show ?case
    proof (cases rule: handle_cases)
      case (opened c o')
      from opened(2) show ?thesis
        by (cases rule: handle_open_cases)
          (use step.IH not_streaming closes_itself in \<open>auto split: if_splits\<close>)
    qed (use step.IH in \<open>auto simp: handle_close_def split: if_splits\<close>)
  qed
  then show ?thesis by (auto simp: data_handler_def split: option.splits)
qed

end

text \<open>A handler that acts for administrators only: any other role is answered with the refusal, and
  nothing happens.\<close>

locale admin_guard = plain_handler +
  assumes refuses: "map_str (extra o') ''_role'' \<noteq> Some ''admin'' \<Longrightarrow> hd_open h ch o' s = (one_shot ch denied, s)"
begin

lemma no_effect_for_others:
  assumes "hm_get (rt_handlers r) (payload o') = Some h" and "map_str (extra o') ''_role'' \<noteq> Some ''admin''"
  shows "\<exists>r'. handle (Open ch o') r s = (one_shot ch denied, [], r', s)"
  using refuses [OF assms(2), of ch s] assms(1) not_streaming
  by (auto simp: handle_def handle_open_def Let_def)

end

locale admin_handler = oneshot_handler + admin_guard

text \<open>An interactive handler: it opens with ready and acts on data messages; an action that only
  reads is for everyone, any other is refused to all but administrators, without effect.\<close>

locale manage_handler = plain_handler h for h :: "'s handler" +
  fixes reads :: "string \<Rightarrow> bool"
  assumes opens: "hd_open h ch o' s = ([Ready ch], s)"
    and refuses: "jget_str d ''_role'' \<noteq> Some ''admin'' \<Longrightarrow> \<not> reads (unwrap_or [] (jget_str d ''action'')) \<Longrightarrow>
      \<exists>m. hd_data h ch d s = ([m], s)"
begin

lemma kept_open:
  assumes "hm_get (rt_handlers r) (payload o') = Some h" and "handle (Open ch o') r s = (out, tasks, r', s')"
  shows "out = [Ready ch] \<and> s' = s \<and> hm_get (rt_channels r') ch = Some h \<and> hm_get (rt_options r') ch = Some o'"
  using assms not_streaming by (auto simp: handle_def handle_open_def Let_def opens closes_def)

text \<open>Injection does not touch the action, so the refusal depends on what the client asked.\<close>

lemma action_kept: "jget_str (enrich_data opts d) ''action'' = jget_str d ''action''"
proof (cases opts)
  case (Some o')
  then show ?thesis
    by (cases d) (auto simp: enrich_data_def inject_def map_str_put_other jget_str_def map_str_def split: option.splits)
qed (simp add: enrich_data_def)

lemma data_no_effect:
  assumes "data_handler r ch = Some h" and "hm_get (rt_options r) ch = Some o'"
    and "told o' = (Some u, Some role)" and "role \<noteq> ''admin''"
    and "\<not> reads (unwrap_or [] (jget_str d ''action''))"
  shows "\<exists>m. handle_data ch d r s = ([m], s)"
proof -
  let ?d = "enrich_data (Some o') d"
  have "jget_str ?d ''_role'' \<noteq> Some ''admin''"
    using enrich_data_told [OF assms(3), of d] not_object_no_member [of d "''_role''"] assms(4) by auto
  moreover have "\<not> reads (unwrap_or [] (jget_str ?d ''action''))" using assms(5) by (simp add: action_kept)
  ultimately show ?thesis using refuses [of ?d ch s] assms(1,2) by (simp add: handle_data_def)
qed

end

section \<open>A concrete router\<close>

definition demo_handler :: "nat handler" where
  "demo_handler = \<lparr>hd_payload = ''demo'', hd_streaming = False,
     hd_open = (\<lambda>ch o' s. ([Ready ch], s)),
     hd_data = (\<lambda>ch d s. ([Data ch (JStr (unwrap_or [] (jget_str d ''_role'')))], s))\<rparr>"

definition demo_stream :: "nat handler" where
  "demo_stream = demo_handler\<lparr>hd_payload := ''stream'', hd_streaming := True\<rparr>"

definition demo_options :: "string \<Rightarrow> open_options" where
  "demo_options p = \<lparr>payload = p, superuser = None,
     extra = [(''_user'', JStr ''alice''), (''_role'', JStr ''readonly'')]\<rparr>"

definition demo_router :: "nat router" where
  "demo_router = fst (snd (snd (handle (Open ''c'' (demo_options ''demo'')) (register_all [demo_handler, demo_stream]) 0)))"

lemma demo_router_step:
  "handle (Open ''c'' (demo_options ''demo'')) (register_all [demo_handler, demo_stream]) 0 =
     ([Ready ''c''], [], demo_router, 0)"
  "data_handler demo_router ''c'' = Some demo_handler"
  by (simp_all add: demo_router_def handle_def handle_open_def register_all_def router_register_def router_new_def
      demo_handler_def demo_stream_def demo_options_def closes_def data_handler_def)

theorem data_carries_identity_witness:
  "fst (handle_data ''c'' (JObj [(''_role'', JStr ''admin'')]) demo_router 0) = [Data ''c'' (JStr ''readonly'')]"
proof -
  let ?who = "\<lambda>_. (''alice'', ''readonly'')"
  have "fair_message ?who (register_all [demo_handler, demo_stream]) (Open ''c'' (demo_options ''demo''))"
    by (simp add: fair_message_def told_def demo_options_def map_str_def hm_has_def register_all_empty)
  then have "router_reach [demo_handler, demo_stream] ?who demo_router"
    using router_reach.start router_reach.step demo_router_step(1) by metis
  from data_carries_identity [OF this, of "''c''" "JObj [(''_role'', JStr ''admin'')]" 0]
  obtain d' where "jget_str d' ''_role'' = Some ''readonly''"
    "handle_data ''c'' (JObj [(''_role'', JStr ''admin'')]) demo_router 0 = hd_data demo_handler ''c'' d' 0"
    by (auto simp: demo_router_step(2))
  then show ?thesis by (simp add: demo_handler_def)
qed

theorem stream_survives_without_close_witness:
  "hm_has (rt_active (fst (snd (snd (handle Ping
     (fst (snd (snd (handle (Open ''t'' (demo_options ''stream'')) demo_router 0)))) 0))))) ''t''"
proof -
  let ?r = "fst (snd (snd (handle (Open ''t'' (demo_options ''stream'')) demo_router 0)))"
  have "hm_has (rt_active ?r) ''t''"
    by (simp add: demo_router_def handle_def handle_open_def register_all_def router_register_def router_new_def
        demo_handler_def demo_stream_def demo_options_def closes_def hm_has_def)
  then show ?thesis
    using stream_survives_without_close [of ?r "''t''" Ping 0] by (simp add: handle_def)
qed

theorem defaults_registered_witness:
  "hm_get (rt_handlers (register_all (map (\<lambda>p. demo_handler\<lparr>hd_payload := p\<rparr>) default_payloads))) ''cron.manage'' =
   Some (demo_handler\<lparr>hd_payload := ''cron.manage''\<rparr>)"
proof -
  let ?hs = "map (\<lambda>p. demo_handler\<lparr>hd_payload := p\<rparr>) default_payloads"
  have "map hd_payload ?hs = default_payloads" by (simp add: comp_def)
  moreover have "demo_handler\<lparr>hd_payload := ''cron.manage''\<rparr> \<in> set ?hs"
    by (simp add: default_payloads_def)
  ultimately show ?thesis using defaults_registered [of ?hs "demo_handler\<lparr>hd_payload := ''cron.manage''\<rparr>"] by simp
qed

end
