(* ===== verification/AgentSession.thy ===== *)
theory AgentSession
  imports AgentConfig AgentRouter
begin

text \<open>
  One connection of the agent to its gateway (\<open>agent/src/main.rs\<close>, \<open>agent/src/identity.rs\<close>): the
  identity, the handshake with its check of the gateway's pinned id, the wait for approval, the
  message loop, and the pauses between connections. What the WebSocket delivers is a list of
  frames; the Ed25519 key is the pair of a public key and a signing function.
\<close>

section \<open>Identity\<close>

record identity =
  id_pub :: string
  id_sign :: "string \<Rightarrow> string"

definition public_key_b64 :: "crypto \<Rightarrow> identity \<Rightarrow> string" where
  "public_key_b64 c i = b64_encode c (id_pub i)"

definition fingerprint :: "crypto \<Rightarrow> identity \<Rightarrow> string" where
  "fingerprint c i = ''SHA256:'' @ b64_encode_nopad c (sha256 c (id_pub i))"

text \<open>\<open>load_or_create\<close>: the key file's bytes if it can be read, the 32 bytes of the generator if it
  answers, and whether creating and writing the new file succeeds. The second component is what
  is written.\<close>

definition load_or_create ::
  "(string \<Rightarrow> identity) \<Rightarrow> string option \<Rightarrow> string option \<Rightarrow> bool \<Rightarrow> identity option \<times> string option" where
  "load_or_create from_bytes file seed create_ok =
     (case file of
        Some bs \<Rightarrow> (if length bs = 32 then Some (from_bytes bs) else None, None)
      | None \<Rightarrow>
          (case seed of
             None \<Rightarrow> (None, None)
           | Some bs \<Rightarrow> if create_ok then (Some (from_bytes bs), Some bs) else (None, None)))"

datatype pin_file = PinMissing | PinUnreadable | PinText string

definition load_gateway_id :: "pin_file \<Rightarrow> unit + string option" where
  "load_gateway_id p =
     (case p of
        PinText s \<Rightarrow> Inr (if trim s = [] then None else Some (trim s))
      | PinMissing \<Rightarrow> Inr None
      | PinUnreadable \<Rightarrow> Inl ())"

definition save_gateway_id :: "bool \<Rightarrow> string \<Rightarrow> pin_file option" where
  "save_gateway_id ok gid = (if ok then Some (PinText gid) else None)"

section \<open>The handshake\<close>

datatype aframe = AText "message option" | APing | AOther | AClose | AErr

datatype session_error =
    Closed | Unexpected | ParseError | WsError | PinError | GatewayMismatch | NotExpectedGateway
  | SaveFailed | BadNonce | BadNonceLength | PingFailed

fun await_challenge :: "aframe list \<Rightarrow> session_error + (string \<times> string) \<times> aframe list" where
  "await_challenge [] = Inl Closed"
| "await_challenge (AText None # fs) = Inl ParseError"
| "await_challenge (AText (Some m) # fs) =
     (case m of Challenge n g \<Rightarrow> Inr ((n, g), fs) | _ \<Rightarrow> Inl Unexpected)"
| "await_challenge (AClose # fs) = Inl Closed"
| "await_challenge (AErr # fs) = Inl WsError"
| "await_challenge (APing # fs) = await_challenge fs"
| "await_challenge (AOther # fs) = await_challenge fs"

text \<open>Trust on first use, both ways: the pinned id must match; without one, the configured id must;
  without that either, whatever answers is pinned.\<close>

definition check_gateway ::
  "string option \<Rightarrow> pin_file \<Rightarrow> bool \<Rightarrow> string \<Rightarrow> session_error + pin_file" where
  "check_gateway expected pin save_ok gid =
     (case load_gateway_id pin of
        Inl _ \<Rightarrow> Inl PinError
      | Inr (Some pinned) \<Rightarrow> if pinned \<noteq> gid then Inl GatewayMismatch else Inr pin
      | Inr None \<Rightarrow>
          if expected \<noteq> None \<and> expected \<noteq> Some gid then Inl NotExpectedGateway
          else (case save_gateway_id save_ok gid of None \<Rightarrow> Inl SaveFailed | Some p \<Rightarrow> Inr p))"

definition sign_challenge ::
  "crypto \<Rightarrow> identity \<Rightarrow> string \<Rightarrow> string \<Rightarrow> string \<Rightarrow> session_error + string" where
  "sign_challenge c i hostname nonce_b64 gid =
     (case b64_decode c nonce_b64 of
        None \<Rightarrow> Inl BadNonce
      | Some nonce \<Rightarrow>
          if length nonce \<noteq> 32 then Inl BadNonceLength
          else Inr (b64_encode c (id_sign i (build_challenge_payload nonce hostname gid))))"

text \<open>The answer to the response: \<open>Some\<close> version, or pending.\<close>

fun await_verdict :: "aframe list \<Rightarrow> session_error + nat option \<times> aframe list" where
  "await_verdict [] = Inl Closed"
| "await_verdict (AText None # fs) = Inl ParseError"
| "await_verdict (AText (Some m) # fs) =
     (case m of HelloAck v _ \<Rightarrow> Inr (Some v, fs) | Pending _ \<Rightarrow> Inr (None, fs) | _ \<Rightarrow> Inl Unexpected)"
| "await_verdict (AClose # fs) = Inl Closed"
| "await_verdict (AErr # fs) = Inl WsError"
| "await_verdict (APing # fs) = await_verdict fs"
| "await_verdict (AOther # fs) = await_verdict fs"

text \<open>\<open>wait_for_approval\<close>: a frame, or a tick of the ping interval and whether its ping was sent.\<close>

datatype wait_event = Arrived aframe | Tick bool

fun wait_for_approval :: "wait_event list \<Rightarrow> session_error + nat \<times> wait_event list" where
  "wait_for_approval [] = Inl Closed"
| "wait_for_approval (Tick ok # es) = (if ok then wait_for_approval es else Inl PingFailed)"
| "wait_for_approval (Arrived (AText (Some (HelloAck v w)))  # es) = Inr (v, es)"
| "wait_for_approval (Arrived AClose # es) = Inl Closed"
| "wait_for_approval (Arrived AErr # es) = Inl WsError"
| "wait_for_approval (Arrived f # es) = wait_for_approval es"

text \<open>Everything up to the message loop: what was sent, the pin afterwards, and the outcome. The
  token is scrubbed exactly after a successful handshake that had one.\<close>

record handshake =
  hs_sent :: "message list"
  hs_pin :: pin_file
  hs_result :: "session_error + nat"
  hs_scrub :: bool

definition hello_message :: "crypto \<Rightarrow> agent_config \<Rightarrow> identity \<Rightarrow> string \<Rightarrow> string \<Rightarrow> string option \<Rightarrow> message" where
  "hello_message c cfg i hostname agent_version os_id =
     Hello \<lparr>h_version = PROTOCOL_VERSION, h_hostname = hostname, h_agent_version = agent_version,
            h_is_local = is_local cfg, h_public_key = Some (public_key_b64 c i),
            h_bootstrap_token = ac_bootstrap_token cfg, h_os_id = os_id\<rparr>"

definition finish_handshake ::
  "agent_config \<Rightarrow> message list \<Rightarrow> pin_file \<Rightarrow> session_error + nat \<Rightarrow> handshake" where
  "finish_handshake cfg sent pin res =
     \<lparr>hs_sent = sent, hs_pin = pin, hs_result = res,
      hs_scrub = (case res of Inl _ \<Rightarrow> False | Inr _ \<Rightarrow> ac_bootstrap_token cfg \<noteq> None)\<rparr>"

definition await_entry :: "aframe list \<Rightarrow> wait_event list \<Rightarrow> session_error + nat" where
  "await_entry frames waiting =
     (case await_verdict frames of
        Inl e \<Rightarrow> Inl e
      | Inr (Some v, _) \<Rightarrow> Inr v
      | Inr (None, _) \<Rightarrow> map_sum id fst (wait_for_approval waiting))"

definition run_handshake ::
  "crypto \<Rightarrow> agent_config \<Rightarrow> identity \<Rightarrow> string \<Rightarrow> message \<Rightarrow> pin_file \<Rightarrow> bool
   \<Rightarrow> aframe list \<Rightarrow> wait_event list \<Rightarrow> handshake" where
  "run_handshake c cfg i hostname hello pin save_ok frames waiting =
     (case await_challenge frames of
        Inl e \<Rightarrow> finish_handshake cfg [hello] pin (Inl e)
      | Inr ((nonce, gid), rest) \<Rightarrow>
          (case check_gateway (ac_expected_gateway_id cfg) pin save_ok gid of
             Inl e \<Rightarrow> finish_handshake cfg [hello] pin (Inl e)
           | Inr pin' \<Rightarrow>
               (case sign_challenge c i hostname nonce gid of
                  Inl e \<Rightarrow> finish_handshake cfg [hello] pin' (Inl e)
                | Inr sig \<Rightarrow>
                    finish_handshake cfg [hello, Challengeresponse sig] pin' (await_entry rest waiting))))"

section \<open>The message loop\<close>

text \<open>Every message goes through the router; the answers and pongs are queued for the writer.\<close>

fun session_loop ::
  "aframe list \<Rightarrow> 's router \<Rightarrow> 's \<Rightarrow> message list \<times> stream_task list \<times> 's router \<times> 's" where
  "session_loop [] r s = ([], [], r, s)"
| "session_loop (AText None # fs) r s = session_loop fs r s"
| "session_loop (AText (Some m) # fs) r s =
     (case handle m r s of
        (out, tasks, r1, s1) \<Rightarrow>
          (case session_loop fs r1 s1 of (out', tasks', r2, s2) \<Rightarrow> (out @ out', tasks @ tasks', r2, s2)))"
| "session_loop (APing # fs) r s = (case session_loop fs r s of (out, rest) \<Rightarrow> (Pong # out, rest))"
| "session_loop (AOther # fs) r s = session_loop fs r s"
| "session_loop (AClose # fs) r s = ([], [], r, s)"
| "session_loop (AErr # fs) r s = ([], [], r, s)"

section \<open>The host\<close>

text \<open>\<open>read_os_id\<close>; \<open>str::to_lowercase\<close> is the Unicode mapping, a parameter.\<close>

fun os_id_of :: "(string \<Rightarrow> string) \<Rightarrow> string list \<Rightarrow> string option" where
  "os_id_of lower [] = None"
| "os_id_of lower (l # ls) =
     (case strip_prefix ''ID='' l of
        Some v \<Rightarrow> Some (lower (trim_matches DQ v))
      | None \<Rightarrow> os_id_of lower ls)"

definition read_os_id :: "(string \<Rightarrow> string) \<Rightarrow> string option \<Rightarrow> string option" where
  "read_os_id lower file = Option.bind file (\<lambda>txt. os_id_of lower (lines txt))"

definition hostname_or_unknown :: "string option \<Rightarrow> string" where
  "hostname_or_unknown h = unwrap_or ''unknown'' h"

text \<open>The pause after a connection that ended well or not: the ceiling in seconds before and after,
  and the random pause in milliseconds that the clock's nanoseconds choose.\<close>

definition backoff_now :: "bool \<Rightarrow> nat \<Rightarrow> nat" where
  "backoff_now ok backoff = (if ok then 1 else backoff)"

definition jitter_ms :: "nat \<Rightarrow> nat \<Rightarrow> nat" where
  "jitter_ms nanos backoff = nanos mod (min (min (backoff * 1000) U64_MAX + 1) U64_MAX)"

definition backoff_next :: "nat \<Rightarrow> nat" where
  "backoff_next backoff = min (backoff * 2) 30"

fun pauses :: "nat \<Rightarrow> (bool \<times> nat) list \<Rightarrow> nat list" where
  "pauses backoff [] = []"
| "pauses backoff ((ok, nanos) # cs) =
     (let b = backoff_now ok backoff in jitter_ms nanos b # pauses (backoff_next b) cs)"

section \<open>Whom the agent signs for\<close>

lemma finish_handshake_sel [simp]:
  "hs_sent (finish_handshake cfg sent pin res) = sent"
  "hs_pin (finish_handshake cfg sent pin res) = pin"
  "hs_result (finish_handshake cfg sent pin res) = res"
  "hs_scrub (finish_handshake cfg sent pin res) \<longleftrightarrow> (\<exists>v. res = Inr v) \<and> ac_bootstrap_token cfg \<noteq> None"
  by (simp_all add: finish_handshake_def split: sum.split)

lemma check_gateway_Inr:
  assumes "check_gateway expected pin save_ok gid = Inr pin'"
  shows "(load_gateway_id pin = Inr (Some gid) \<and> pin' = pin) \<or>
    (load_gateway_id pin = Inr None \<and> pin' = PinText gid \<and> (expected = None \<or> expected = Some gid))"
  using assms by (auto simp: check_gateway_def save_gateway_id_def split: sum.splits option.splits if_splits)

lemma handshake_signed:
  assumes "Challengeresponse sig \<in> set (hs_sent (run_handshake c cfg i hostname hello pin save_ok frames waiting))"
    and "\<And>s. hello \<noteq> Challengeresponse s"
  obtains nonce gid rest pin' where "await_challenge frames = Inr ((nonce, gid), rest)"
    "check_gateway (ac_expected_gateway_id cfg) pin save_ok gid = Inr pin'"
    "sign_challenge c i hostname nonce gid = Inr sig"
    "hs_pin (run_handshake c cfg i hostname hello pin save_ok frames waiting) = pin'"
  using assms by (auto simp: run_handshake_def split: sum.splits prod.splits)

text \<open>
  C25. The agent answers only its own gateway: it sends a response only to a challenge whose
  gateway id equals the pinned one, or, when nothing is pinned yet, the configured one if there
  is one; the response is a signature over a payload that names this id, and the id is pinned
  before it is sent. A pin, once there, is never replaced, however the connection goes.
\<close>

theorem responds_only_to_pinned_gateway:
  assumes "hello = hello_message c cfg i hostname version os_id"
    and "hs = run_handshake c cfg i hostname hello pin save_ok frames waiting"
  shows "(Challengeresponse sig \<in> set (hs_sent hs) \<longrightarrow>
      (\<exists>nonce gid rest nb. await_challenge frames = Inr ((nonce, gid), rest) \<and>
        b64_decode c nonce = Some nb \<and> sig = b64_encode c (id_sign i (build_challenge_payload nb hostname gid)) \<and>
        ((load_gateway_id pin = Inr (Some gid) \<and> hs_pin hs = pin) \<or>
         (load_gateway_id pin = Inr None \<and> hs_pin hs = PinText gid \<and>
            ac_expected_gateway_id cfg \<in> {None, Some gid})))) \<and>
    (\<forall>p. load_gateway_id pin = Inr (Some p) \<longrightarrow> hs_pin hs = pin)"
proof (intro conjI allI impI)
  assume "Challengeresponse sig \<in> set (hs_sent hs)"
  then obtain nonce gid rest pin' where h: "await_challenge frames = Inr ((nonce, gid), rest)"
    "check_gateway (ac_expected_gateway_id cfg) pin save_ok gid = Inr pin'"
    "sign_challenge c i hostname nonce gid = Inr sig" "hs_pin hs = pin'"
    using assms handshake_signed by (metis hello_message_def message.distinct(3))
  moreover obtain nb where "b64_decode c nonce = Some nb"
    "sig = b64_encode c (id_sign i (build_challenge_payload nb hostname gid))"
    using h(3) by (auto simp: sign_challenge_def split: option.splits if_splits)
  ultimately show "\<exists>nonce gid rest nb. await_challenge frames = Inr ((nonce, gid), rest) \<and>
        b64_decode c nonce = Some nb \<and> sig = b64_encode c (id_sign i (build_challenge_payload nb hostname gid)) \<and>
        ((load_gateway_id pin = Inr (Some gid) \<and> hs_pin hs = pin) \<or>
         (load_gateway_id pin = Inr None \<and> hs_pin hs = PinText gid \<and>
            ac_expected_gateway_id cfg \<in> {None, Some gid}))"
    using check_gateway_Inr [OF h(2)] by auto
next
  fix p
  assume "load_gateway_id pin = Inr (Some p)"
  then show "hs_pin hs = pin"
    using assms(2) by (auto simp: run_handshake_def check_gateway_def split: sum.splits prod.splits if_splits)
qed

section \<open>The gateway accepts an honest agent\<close>

text \<open>What the crates promise of a key pair and of base64.\<close>

definition key_pair :: "crypto \<Rightarrow> identity \<Rightarrow> bool" where
  "key_pair c i \<longleftrightarrow> length (id_pub i) = 32 \<and> vk_from_bytes_ok c (id_pub i) \<and>
     (\<forall>p. length (id_sign i p) = 64 \<and> verify_strict c (id_pub i) p (id_sign i p))"

definition b64_lossless :: "crypto \<Rightarrow> bool" where
  "b64_lossless c \<longleftrightarrow> (\<forall>s. b64_decode c (b64_encode c s) = Some s)"

text \<open>
  Agent and gateway agree on the handshake: challenged by its gateway with a fresh nonce, an
  agent that has the gateway pinned, or may pin it, answers with a signature that the gateway's
  own check accepts for the agent's key, the nonce, its hostname and the gateway's id; admitted,
  it ends with the gateway's version.
\<close>

theorem honest_agent_verifies:
  assumes "key_pair c i" and "b64_lossless c" and "length nonce = 32"
    and "check_gateway (ac_expected_gateway_id cfg) pin save_ok gid = Inr pin'"
    and "frames = AText (Some (Challenge (snd (generate_nonce c nonce)) gid)) # AText (Some (HelloAck v w)) # fs"
    and "hs = run_handshake c cfg i hostname hello pin save_ok frames waiting"
  shows "\<exists>sig. hs_sent hs = [hello, Challengeresponse sig] \<and>
    verify_signature c (public_key_b64 c i) sig nonce hostname gid \<and> hs_result hs = Inr v"
proof -
  let ?sig = "b64_encode c (id_sign i (build_challenge_payload nonce hostname gid))"
  have "sign_challenge c i hostname (snd (generate_nonce c nonce)) gid = Inr ?sig"
    using assms(2,3) by (simp add: sign_challenge_def generate_nonce_def b64_lossless_def)
  then have "hs = finish_handshake cfg [hello, Challengeresponse ?sig] pin' (Inr v)"
    using assms(4-6) by (simp add: run_handshake_def await_entry_def)
  moreover have "verify_signature c (public_key_b64 c i) ?sig nonce hostname gid"
    using assms(1,2) by (simp add: verify_signature_def public_key_b64_def key_pair_def b64_lossless_def)
  ultimately show ?thesis by simp
qed

text \<open>
  A fleet comes back gently: after the first connection the pause ceiling is between one and
  thirty seconds whatever happened before, and every pause is within the ceiling.
\<close>

theorem pauses_bounded:
  assumes "1 \<le> backoff" and "backoff \<le> 30"
  shows "list_all (\<lambda>p. p \<le> 30000) (pauses backoff cs)"
  using assms
proof (induction backoff cs rule: pauses.induct)
  case (2 backoff ok nanos cs)
  let ?b = "backoff_now ok backoff"
  have b: "1 \<le> ?b" "?b \<le> 30" using 2(2,3) by (auto simp: backoff_now_def)
  then have "jitter_ms nanos ?b < ?b * 1000 + 1"
    unfolding jitter_ms_def by (intro less_le_trans [OF mod_less_divisor]) auto
  with b have "jitter_ms nanos ?b \<le> 30000" by linarith
  moreover have "list_all (\<lambda>p. p \<le> 30000) (pauses (backoff_next ?b) cs)"
    using 2(1) [OF refl] b by (simp add: backoff_next_def)
  ultimately show ?case by (simp add: Let_def)
qed simp

section \<open>Concrete handshakes\<close>

definition demo_identity :: identity where
  "demo_identity = \<lparr>id_pub = replicate 32 (CHR ''k''), id_sign = (\<lambda>p. take 64 (p @ replicate 64 NUL))\<rparr>"

definition demo_crypto :: crypto where
  "demo_crypto =
     \<lparr>b64_decode = Some, b64_encode = (\<lambda>s. s), b64_encode_nopad = (\<lambda>s. s), sha256 = (\<lambda>s. s),
      vk_from_bytes_ok = (\<lambda>k. True), verify_strict = (\<lambda>k p s. s = take 64 (p @ replicate 64 NUL))\<rparr>"

definition demo_cfg :: agent_config where
  "demo_cfg = \<lparr>ac_gateway_url = ''https://gw:9090'', ac_accept_insecure = False,
     ac_bootstrap_token = None, ac_expected_gateway_id = Some ''gid''\<rparr>"

definition demo_challenge :: "aframe list" where
  "demo_challenge = [AText (Some (Challenge (replicate 32 (CHR ''n'')) ''gid'')), AText (Some (HelloAck 2 None))]"

theorem honest_agent_verifies_witness:
  "hs_result (run_handshake demo_crypto demo_cfg demo_identity ''srv'' Ping PinMissing True demo_challenge []) = Inr 2"
proof -
  let ?n = "replicate 32 (CHR ''n'')"
  have laws: "key_pair demo_crypto demo_identity" "b64_lossless demo_crypto"
    by (simp_all add: key_pair_def demo_crypto_def demo_identity_def b64_lossless_def min_def)
  have pin: "check_gateway (ac_expected_gateway_id demo_cfg) PinMissing True ''gid'' = Inr (PinText ''gid'')"
    by (simp add: check_gateway_def load_gateway_id_def save_gateway_id_def demo_cfg_def)
  have frames: "demo_challenge =
    AText (Some (Challenge (snd (generate_nonce demo_crypto ?n)) ''gid'')) # AText (Some (HelloAck 2 None)) # []"
    by (simp add: demo_challenge_def generate_nonce_def demo_crypto_def)
  have "length ?n = 32" by simp
  from honest_agent_verifies [OF laws this pin frames refl] show ?thesis by blast
qed

theorem responds_only_to_pinned_gateway_witness:
  "hs_pin (run_handshake demo_crypto demo_cfg demo_identity ''srv''
     (hello_message demo_crypto demo_cfg demo_identity ''srv'' ''1'' None) (PinText ''other'') True demo_challenge [])
   = PinText ''other''"
proof -
  have "trim ''other'' = ''other''"
    using trim_start_Cons [of "CHR ''o''" "''ther''"] trim_end_append [of "CHR ''r''" "''othe''" "[]"]
    by (simp add: trim_def is_ascii_def is_ws_char_single byte_def trim_end_def)
  then have "load_gateway_id (PinText ''other'') = Inr (Some ''other'')" by (simp add: load_gateway_id_def)
  then show ?thesis by (rule responds_only_to_pinned_gateway [OF refl refl, THEN conjunct2, rule_format])
qed

theorem pauses_bounded_witness: "list_all (\<lambda>p. p \<le> 30000) (pauses 1 [(False, 7), (False, 123456), (True, 9)])"
  by (rule pauses_bounded) simp_all

end
