(* ===== verification/Superuser.thy ===== *)
theory Superuser
  imports AgentRouter
begin

text \<open>
  \<open>superuser.verify\<close> (\<open>agent/src/handlers/superuser_verify.rs\<close>): the check of a user's sudo
  password, and the counter that locks a user out after six wrong ones within fifteen minutes.
\<close>

type_synonym lockout = "(string, nat \<times> instant) hmap"

definition MAX_ATTEMPTS :: nat where "MAX_ATTEMPTS = 6"

definition LOCKOUT_WINDOW_SECS :: nat where "LOCKOUT_WINDOW_SECS = 15 * 60"

definition is_locked_out :: "instant \<Rightarrow> string \<Rightarrow> lockout \<Rightarrow> bool \<times> lockout" where
  "is_locked_out now user m =
     (case hm_get m user of
        None \<Rightarrow> (False, m)
      | Some (count, since) \<Rightarrow>
          if elapsed_secs now since > LOCKOUT_WINDOW_SECS then (False, hm_del user m)
          else (count \<ge> MAX_ATTEMPTS, m))"

definition record_failure :: "instant \<Rightarrow> string \<Rightarrow> lockout \<Rightarrow> bool \<times> lockout" where
  "record_failure now user m =
     (let (count, since) = unwrap_or (0, now) (hm_get m user);
          (count, since) = (if elapsed_secs now since > LOCKOUT_WINDOW_SECS then (0, now) else (count, since));
          m = hm_put user (count + 1, since) m
      in (count + 1 \<ge> MAX_ATTEMPTS,
          if length m > 50 then hm_retain (\<lambda>_ (_, t). elapsed_secs now t \<le> LOCKOUT_WINDOW_SECS) m else m))"

definition clear_failures :: "string \<Rightarrow> lockout \<Rightarrow> lockout" where
  "clear_failures user m = hm_del user m"

section \<open>The handler\<close>

definition not_ok :: "string \<Rightarrow> json" where
  "not_ok e = JObj [(''ok'', JBool False), (''error'', JStr e)]"

definition verify_verdict :: "json \<Rightarrow> json" where
  "verify_verdict res =
     (if jget res ''ok'' \<noteq> None then JObj [(''ok'', JBool True)]
      else (let err = unwrap_or [] (jget_str res ''error'')
            in if contains_str ''incorrect password'' err \<or> contains_str ''Sorry, try again'' err \<or>
                  contains_str ''Authentication failure'' err
               then not_ok ''incorrect password'' else not_ok ''sudo access denied''))"

definition verify_password ::
  "'w agent_host \<Rightarrow> string \<Rightarrow> string \<Rightarrow> 'w world \<Rightarrow> json \<times> 'w world" where
  "verify_password h user password w =
     (case sudo_as_user h user password [''-v''] w of (res, w1) \<Rightarrow> (verify_verdict res, w1))"

definition opt_str :: "open_options \<Rightarrow> string \<Rightarrow> string" where
  "opt_str o' k = unwrap_or [] (map_str (extra o') k)"

text \<open>A checked password: run \<open>sudo -v\<close>, then clear or count, then record.\<close>

definition check_password ::
  "'w agent_host \<Rightarrow> string \<Rightarrow> string \<Rightarrow> 'w agent_state \<Rightarrow> json \<times> 'w agent_state" where
  "check_password h user password s =
     (let (r, w1) = verify_password h user password (st_world s);
          ok = unwrap_or False (jget_bool r ''ok'');
          now = ah_clock h (w_os w1)
      in (r, s\<lparr>st_world := audit user ''superuser.verify'' [] ok [] w1,
               st_lockout := (if ok then clear_failures user (st_lockout s)
                              else snd (record_failure now user (st_lockout s)))\<rparr>))"

definition verify_answer ::
  "'w agent_host \<Rightarrow> string \<Rightarrow> string \<Rightarrow> 'w agent_state \<Rightarrow> json \<times> 'w agent_state" where
  "verify_answer h user password s =
     (if password = [] then (not_ok ''password required'', s)
      else if user = [] then (not_ok ''no user context'', s)
      else (case is_locked_out (ah_clock h (w_os (st_world s))) user (st_lockout s) of
              (locked, m) \<Rightarrow>
                (let s1 = s\<lparr>st_lockout := m\<rparr>
                 in if locked then (not_ok ''too many failed attempts, try again later'', s1)
                    else check_password h user password s1)))"

definition superuser_verify :: "'w agent_host \<Rightarrow> 'w agent_state handler" where
  "superuser_verify h =
     \<lparr>hd_payload = ''superuser.verify'', hd_streaming = False,
      hd_open = (\<lambda>ch o' s. case verify_answer h (opt_str o' ''_user'') (opt_str o' ''password'') s of
                   (d, s1) \<Rightarrow> (one_shot ch d, s1)),
      hd_data = no_data\<rparr>"

interpretation superuser: oneshot_handler "superuser_verify h"
  by unfold_locales (auto simp: superuser_verify_def split: prod.splits)

section \<open>Lockout\<close>

text \<open>A sequence of attempts: when the lock is looked at and when the result is recorded, by whom,
  and whether the password is right. What counts is how many wrong ones are checked against the
  system.\<close>

type_synonym attempt = "instant \<times> instant \<times> string \<times> bool"

definition attempt_step :: "attempt \<Rightarrow> lockout \<Rightarrow> bool \<times> lockout" where
  "attempt_step a m =
     (case a of (now, later, user, right) \<Rightarrow>
        (case is_locked_out now user m of
           (locked, m1) \<Rightarrow>
             if locked then (False, m1)
             else (True, if right then clear_failures user m1 else snd (record_failure later user m1))))"

fun wrong_checks :: "string \<Rightarrow> lockout \<Rightarrow> attempt list \<Rightarrow> nat" where
  "wrong_checks u m [] = 0"
| "wrong_checks u m (a # as) =
     (case attempt_step a m of
        (checked, m1) \<Rightarrow>
          (if checked \<and> fst (snd (snd a)) = u \<and> \<not> snd (snd (snd a)) then 1 else 0) + wrong_checks u m1 as)"

lemma record_failure_wf: "hm_wf m \<Longrightarrow> hm_wf (snd (record_failure now v m))"
  by (simp add: record_failure_def Let_def split_beta hm_wf_put hm_wf_retain)

lemma record_failure_other:
  assumes "hm_wf m" and "u \<noteq> v" and "\<And>c t. hm_get m u = Some (c, t) \<Longrightarrow> elapsed_secs now t \<le> LOCKOUT_WINDOW_SECS"
  shows "hm_get (snd (record_failure now v m)) u = hm_get m u"
  using assms
  by (auto simp: record_failure_def Let_def split_beta hm_get_retain hm_wf_put split: option.split)

lemma record_failure_own:
  assumes "hm_wf m" and "\<And>c t. hm_get m u = Some (c, t) \<Longrightarrow> elapsed_secs now t \<le> LOCKOUT_WINDOW_SECS"
  shows "hm_get (snd (record_failure now u m)) u =
    Some (case hm_get m u of None \<Rightarrow> (1, now) | Some (c, t) \<Rightarrow> (c + 1, t))"
  using assms
  by (cases "hm_get m u")
     (auto simp: record_failure_def Let_def split_beta hm_get_retain hm_wf_put LOCKOUT_WINDOW_SECS_def)

definition counted :: "string \<Rightarrow> instant \<Rightarrow> nat \<Rightarrow> lockout \<Rightarrow> bool" where
  "counted u t0 n m \<longleftrightarrow> hm_wf m \<and> n \<le> MAX_ATTEMPTS \<and>
     (case hm_get m u of None \<Rightarrow> n = 0 | Some (c, t) \<Rightarrow> c = n \<and> t0 \<le> t)"

lemma counted_other:
  assumes "counted u t0 n m" and "hm_wf m'" and "hm_get m' u = hm_get m u"
  shows "counted u t0 n m'"
  using assms by (simp add: counted_def)

lemma counted_fresh:
  assumes "counted u t0 n m" and "elapsed_secs now t0 \<le> LOCKOUT_WINDOW_SECS" and "hm_get m u = Some (c, t)"
  shows "elapsed_secs now t \<le> LOCKOUT_WINDOW_SECS"
  using assms elapsed_secs_antimono [of t0 t now] by (simp add: counted_def)

lemma is_locked_out_wf: "hm_wf m \<Longrightarrow> hm_wf (snd (is_locked_out now v m))"
  by (simp add: is_locked_out_def hm_wf_del split: option.split prod.split)

lemma is_locked_out_other: "u \<noteq> v \<Longrightarrow> hm_get (snd (is_locked_out now v m)) u = hm_get m u"
  by (simp add: is_locked_out_def split: option.split prod.split)

lemma counted_attempt:
  assumes c: "counted u t0 n m" and t: "t0 \<le> later" "elapsed_secs now t0 \<le> LOCKOUT_WINDOW_SECS"
      "elapsed_secs later t0 \<le> LOCKOUT_WINDOW_SECS"
    and wrong: "v = u \<Longrightarrow> \<not> right" and step: "attempt_step (now, later, v, right) m = (checked, m')"
  shows "counted u t0 (n + (if checked \<and> v = u then 1 else 0)) m'"
proof (cases "v = u")
  case True
  have wf: "hm_wf m" using c by (simp add: counted_def)
  show ?thesis
  proof (cases "hm_get m u")
    case None
    then have "n = 0" "m' = snd (record_failure later u m)" "checked"
      using c step wrong True by (auto simp: counted_def attempt_step_def is_locked_out_def)
    with None t(1) True record_failure_own [OF wf, of u later] record_failure_wf [OF wf] show ?thesis
      by (simp add: counted_def MAX_ATTEMPTS_def)
  next
    case (Some e)
    obtain since where e: "hm_get m u = Some (n, since)" "t0 \<le> since" "n \<le> MAX_ATTEMPTS"
      using c Some by (cases e) (auto simp: counted_def)
    have fresh: "elapsed_secs now since \<le> LOCKOUT_WINDOW_SECS" "elapsed_secs later since \<le> LOCKOUT_WINDOW_SECS"
      using counted_fresh [OF c t(2) e(1)] counted_fresh [OF c t(3) e(1)] by simp_all
    show ?thesis
    proof (cases "n < MAX_ATTEMPTS")
      case True
      then have "m' = snd (record_failure later u m)" "checked"
        using step wrong \<open>v = u\<close> e fresh by (auto simp: attempt_step_def is_locked_out_def)
      then show ?thesis
        using record_failure_own [OF wf, of u later] record_failure_wf [OF wf, of later u] e fresh True \<open>v = u\<close>
        by (simp add: counted_def)
    next
      case False
      then have "m' = m" "\<not> checked"
        using step wrong \<open>v = u\<close> e fresh by (auto simp: attempt_step_def is_locked_out_def)
      with c show ?thesis by simp
    qed
  qed
next
  case False
  obtain locked m1 where lk: "is_locked_out now v m = (locked, m1)" by fastforce
  have wf: "hm_wf m1" using is_locked_out_wf [of m now v] c by (simp add: lk counted_def)
  have get: "hm_get m1 u = hm_get m u" using is_locked_out_other [of u v now m] False by (simp add: lk)
  have c1: "counted u t0 n m1" by (rule counted_other [OF c wf get])
  have "m' \<in> {m1, clear_failures v m1, snd (record_failure later v m1)}"
    using step by (auto simp: attempt_step_def lk split: if_splits)
  moreover have "counted u t0 n (clear_failures v m1)"
    using c1 wf False by (simp add: counted_def clear_failures_def hm_wf_del)
  moreover have "counted u t0 n (snd (record_failure later v m1))"
    using c1 record_failure_wf [OF wf] record_failure_other [OF wf] False counted_fresh [OF c1 t(3)]
    by (intro counted_other [OF c1]) auto
  ultimately show ?thesis using c1 False by auto
qed

lemma wrong_checks_counted:
  assumes "counted u t0 n m" and "list_all (\<lambda>(t, t', v, right). t0 \<le> t \<and> t \<le> t' \<and>
     elapsed_secs t' t0 \<le> LOCKOUT_WINDOW_SECS \<and> (v = u \<longrightarrow> \<not> right)) as"
  shows "n + wrong_checks u m as \<le> MAX_ATTEMPTS"
  using assms
proof (induction as arbitrary: n m)
  case Nil
  then show ?case by (simp add: counted_def)
next
  case (Cons a as)
  obtain t t' v right where a: "a = (t, t', v, right)" by (metis surj_pair)
  have times: "elapsed_secs t t0 \<le> LOCKOUT_WINDOW_SECS" "t0 \<le> t'"
    using Cons.prems(2) elapsed_secs_mono [of t t' t0] by (auto simp: a)
  obtain checked m' where st: "attempt_step a m = (checked, m')" by fastforce
  have "counted u t0 (n + (if checked \<and> v = u then 1 else 0)) m'"
    by (rule counted_attempt [of u t0 n m t' t v right]) (use Cons.prems st times in \<open>auto simp: a\<close>)
  from Cons.IH [OF this] Cons.prems st show ?case by (auto simp: a split: if_splits)
qed



text \<open>The handler performs exactly such an attempt; a refused one runs nothing and records nothing.\<close>

lemma verify_is_attempt:
  assumes "user \<noteq> []" and "password \<noteq> []" and "verify_answer h user password s = (d, s')"
  shows "\<exists>later. (fst (attempt_step (ah_clock h (w_os (st_world s)), later, user, d = JObj [(''ok'', JBool True)]) (st_lockout s))
            \<or> (d = not_ok ''too many failed attempts, try again later'' \<and> st_world s' = st_world s)) \<and>
    st_lockout s' =
      snd (attempt_step (ah_clock h (w_os (st_world s)), later, user, d = JObj [(''ok'', JBool True)]) (st_lockout s))"
proof -
  obtain locked m where lk: "is_locked_out (ah_clock h (w_os (st_world s))) user (st_lockout s) = (locked, m)"
    by fastforce
  show ?thesis
  proof (cases locked)
    case True
    with assms lk show ?thesis by (simp add: verify_answer_def attempt_step_def) auto
  next
    case False
    let ?v = "verify_password h user password (st_world s)"
    have d: "d = fst ?v" and ok: "unwrap_or False (jget_bool d ''ok'') \<longleftrightarrow> d = JObj [(''ok'', JBool True)]"
      using assms lk False
      by (auto simp: verify_answer_def check_password_def Let_def verify_password_def verify_verdict_def
          not_ok_def jget_bool_def split: prod.splits if_splits)
    show ?thesis
      using assms lk False ok
      by (intro exI [of _ "ah_clock h (w_os (snd ?v))"])
         (auto simp: verify_answer_def check_password_def Let_def attempt_step_def split: prod.splits)
  qed
qed

end
