(* ===== verification/Terminal.thy ===== *)
theory Terminal
  imports Superuser
begin

text \<open>
  \<open>terminal.pty\<close> (\<open>agent/src/handlers/terminal_pty.rs\<close>): how the handler decides what to run on
  the pseudo-terminal and under which identity. Theory \<open>TerminalStream\<close> has its life after that.
\<close>

section \<open>What is run\<close>

text \<open>\<open>pt_as = None\<close> is a child that keeps the agent's own identity, root. \<open>pt_env\<close> is what is set on
  top of the agent's environment, which the child inherits.\<close>

record pty_command =
  pt_prog :: string
  pt_argv0 :: string
  pt_args :: "string list"
  pt_cwd :: string
  pt_cols :: nat
  pt_rows :: nat
  pt_as :: "(string \<times> nat \<times> nat) option"
  pt_env :: "(string \<times> string) list"

definition basename :: "string \<Rightarrow> string" where
  "basename p = last (split_on (CHR ''/'') p)"

definition open_pty_cmd ::
  "'w agent_host \<Rightarrow> string \<Rightarrow> string list \<Rightarrow> nat \<Rightarrow> nat \<Rightarrow> string \<Rightarrow> string option \<Rightarrow> pty_command" where
  "open_pty_cmd h program args cols rows cwd run_as_user =
     (let info = Option.bind run_as_user (\<lambda>u. map_option (\<lambda>pw. (u, pw)) (lookup_user h u))
      in \<lparr>pt_prog = program,
          pt_argv0 = (if run_as_user \<noteq> None then ''-'' @ basename program else basename program),
          pt_args = args, pt_cwd = cwd, pt_cols = cols, pt_rows = rows,
          pt_as = map_option (\<lambda>(u, pw). (u, pw_uid pw, pw_gid pw)) info,
          pt_env = (case info of
                      None \<Rightarrow> []
                    | Some (u, pw) \<Rightarrow> [(''HOME'', pw_dir pw), (''USER'', u), (''LOGNAME'', u), (''SHELL'', program)])\<rparr>)"

section \<open>The decision\<close>

definition u16_opt :: "open_options \<Rightarrow> string \<Rightarrow> nat \<Rightarrow> nat" where
  "u16_opt o' k d = unwrap_or d (Option.bind (hm_get (extra o') k) as_u64) mod 2 ^ 16"

definition container_char :: "char \<Rightarrow> bool" where
  "container_char c \<longleftrightarrow> is_ascii_alphanumeric c \<or> c \<in> set ''-_.:/''"

definition container_option :: "open_options \<Rightarrow> string option" where
  "container_option o' =
     (case map_str (extra o') ''container'' of
        Some c \<Rightarrow> if c \<noteq> [] \<and> length c \<le> 128 \<and> list_all container_char c then Some c else None
      | None \<Rightarrow> None)"

definition ALLOWED_SHELLS :: "string list" where
  "ALLOWED_SHELLS = [''/bin/sh'', ''/bin/bash'', ''/bin/zsh'', ''/bin/fish'', ''/usr/bin/sh'', ''/usr/bin/bash'',
     ''/usr/bin/zsh'', ''/usr/bin/fish'']"

definition exec_args :: "string \<Rightarrow> string option \<Rightarrow> string list" where
  "exec_args container requested =
     (case requested of
        Some sh \<Rightarrow> [''exec'', ''-it'', container, sh]
      | None \<Rightarrow> [''exec'', ''-it'', container, ''/bin/sh'', ''-c'',
                 ''exec '' @ [DQ] @ ''$(command -v bash || command -v ash || echo /bin/sh)'' @ [DQ]])"

definition simple_user :: "'w agent_host \<Rightarrow> string \<Rightarrow> bool" where
  "simple_user h u \<longleftrightarrow>
     list_all (\<lambda>ch. is_alphanumeric h ch \<or> ch = ''_'' \<or> ch = ''-'' \<or> ch = ''.'') (chars_of u)"

datatype pty_start = Refused string | Start pty_command

definition container_exec ::
  "'w agent_host \<Rightarrow> string \<Rightarrow> open_options \<Rightarrow> 'w world \<Rightarrow> pty_start \<times> 'w world" where
  "container_exec h container o' w =
     (let user = opt_str o' ''_user'';
          (v, w1) = verify_password h user (opt_str o' ''password'') w
      in if jget_bool v ''ok'' \<noteq> Some True then (Refused ''authentication required'', w1)
         else (let (docker, w2) = which h ''docker'' w1;
                   (podman, w3) = (if docker then (False, w2) else which h ''podman'' w2);
                   rt = (if docker then ''docker'' else ''podman'');
                   requested = (case map_str (extra o') ''shell'' of
                      Some s \<Rightarrow> if s \<in> {''sh'', ''bash'', ''ash'', ''/bin/sh'', ''/bin/bash''} then Some s else None
                    | None \<Rightarrow> None)
               in if \<not> docker \<and> \<not> podman then (Refused ''no container runtime'', w3)
                  else (Start (open_pty_cmd h rt (exec_args container requested) (u16_opt o' ''cols'' 80)
                                 (u16_opt o' ''rows'' 24) ''/'' None),
                        audit user ''container.exec'' (rt @ '' '' @ container @ '' '' @ unwrap_or ''auto'' requested)
                          True [] w3)))"

text \<open>\<open>own_shell\<close> is the answer of \<open>get_user_shell\<close>, the agent's own entry in the name service.\<close>

definition login_shell ::
  "'w agent_host \<Rightarrow> string option \<Rightarrow> open_options \<Rightarrow> 'w world \<Rightarrow> pty_start \<times> 'w world" where
  "login_shell h own_shell o' w =
     (let target = (case map_str (extra o') ''_user'' of
                      Some u \<Rightarrow> if simple_user h u then Some u else None | None \<Rightarrow> None);
          info = Option.bind target (lookup_user h);
          default_shell = (case info of
                             Some pw \<Rightarrow> if pw_shell pw \<noteq> [] then pw_shell pw else unwrap_or ''/bin/sh'' own_shell
                           | None \<Rightarrow> unwrap_or ''/bin/sh'' own_shell);
          shell = unwrap_or default_shell (map_str (extra o') ''shell'');
          cwd = unwrap_or (case info of Some pw \<Rightarrow> pw_dir pw | None \<Rightarrow> ''/tmp'') (map_str (extra o') ''cwd'')
      in if shell \<notin> set ALLOWED_SHELLS then (Refused (''shell not allowed: '' @ shell), w)
         else (Start (open_pty_cmd h shell [] (u16_opt o' ''cols'' 80) (u16_opt o' ''rows'' 24) cwd target),
               audit (unwrap_or ''unknown'' target) ''terminal.open'' (''shell='' @ shell) True [] w))"

definition terminal_start ::
  "'w agent_host \<Rightarrow> string option \<Rightarrow> open_options \<Rightarrow> 'w world \<Rightarrow> pty_start \<times> 'w world" where
  "terminal_start h own_shell o' w =
     (case container_option o' of
        Some container \<Rightarrow> container_exec h container o' w
      | None \<Rightarrow> login_shell h own_shell o' w)"

section \<open>Under which identity\<close>

lemma login_shell_Start:
  assumes "login_shell h own o' w = (Start c, w')"
  obtains target where
    "target = (case map_str (extra o') ''_user'' of Some u \<Rightarrow> if simple_user h u then Some u else None | None \<Rightarrow> None)"
    "pt_prog c \<in> set ALLOWED_SHELLS" "pt_args c = []"
    "pt_as c = Option.bind target (\<lambda>u. map_option (\<lambda>pw. (u, pw_uid pw, pw_gid pw)) (lookup_user h u))"
  using assms
  by (auto simp: login_shell_def Let_def open_pty_cmd_def bind_eq_Some_conv split: if_splits option.splits
      intro!: that)

text \<open>
  A known user gets a shell of their own: without a container option, whatever else the
  client asks for, the only program that is started for a session whose user has a plain name
  and an account on this host is one of the listed shells, without arguments, under that
  account's user and group ids.
\<close>

theorem terminal_runs_as_known_user:
  assumes "map_str (extra o') ''_user'' = Some u" and "simple_user h u" and "lookup_user h u = Some pw"
    and "container_option o' = None" and "terminal_start h own o' w = (Start c, w')"
  shows "pt_as c = Some (u, pw_uid pw, pw_gid pw) \<and> pt_prog c \<in> set ALLOWED_SHELLS \<and> pt_args c = []"
proof -
  have "login_shell h own o' w = (Start c, w')" using assms(4,5) by (simp add: terminal_start_def)
  then show ?thesis by (rule login_shell_Start) (use assms(1-3) in simp)
qed

text \<open>
  C27. Anyone else gets a root shell: when the session's user has no account on the managed host
  (or a name with any character outside letters, digits, underscore, dash and dot, such as the
  at sign of a directory user), no privilege is dropped, and the requested shell runs with the
  agent's own identity, for a read-only session too and without any password.
\<close>

theorem unknown_user_gets_root_shell:
  assumes "map_str (extra o') ''_user'' = Some u" and "\<not> simple_user h u \<or> lookup_user h u = None"
    and "map_str (extra o') ''container'' = None" and "map_str (extra o') ''shell'' = Some sh"
    and "sh \<in> set ALLOWED_SHELLS"
  shows "\<exists>c w'. terminal_start h own o' w = (Start c, w') \<and> pt_prog c = sh \<and> pt_as c = None"
  using assms
  by (auto simp: terminal_start_def container_option_def login_shell_def Let_def open_pty_cmd_def)

text \<open>
  A container is entered only with a sudo password: the runtime is started only after
  \<open>sudo -v\<close> under the session's own account accepted the password, and then for the named
  container only.
\<close>

theorem container_needs_password:
  assumes "container_option o' = Some container" and "terminal_start h own o' w = (Start c, w')"
  shows "fst (verify_password h (opt_str o' ''_user'') (opt_str o' ''password'') w) = JObj [(''ok'', JBool True)] \<and>
    lookup_user h (opt_str o' ''_user'') \<noteq> None \<and>
    pt_prog c \<in> {''docker'', ''podman''} \<and> take 3 (pt_args c) = [''exec'', ''-it'', container]"
proof -
  have start: "container_exec h container o' w = (Start c, w')" using assms by (simp add: terminal_start_def)
  obtain v w1 where v: "verify_password h (opt_str o' ''_user'') (opt_str o' ''password'') w = (v, w1)" by fastforce
  with start have ok: "jget_bool v ''ok'' = Some True" by (auto simp: container_exec_def split: if_splits)
  then have verdict: "v = JObj [(''ok'', JBool True)]" and res: "lookup_user h (opt_str o' ''_user'') \<noteq> None"
    using v by (auto simp: verify_password_def verify_verdict_def not_ok_def jget_bool_def sudo_as_user_def
        jerror_def Let_def split: prod.splits if_splits option.splits)
  from start v ok have "pt_prog c \<in> {''docker'', ''podman''} \<and> take 3 (pt_args c) = [''exec'', ''-it'', container]"
    by (auto simp: container_exec_def Let_def open_pty_cmd_def exec_args_def split: prod.splits if_splits option.splits)
  with verdict res v show ?thesis by simp
qed

section \<open>Concrete sessions\<close>

definition shell_request :: "string \<Rightarrow> open_options" where
  "shell_request u = \<lparr>payload = ''terminal.pty'', superuser = None,
     extra = [(''_user'', JStr u), (''_role'', JStr ''readonly''), (''shell'', JStr ''/bin/sh'')]\<rparr>"

lemma alice_simple: "simple_user h ''alice''"
  by (simp add: simple_user_def is_alphanumeric_def is_ascii_def is_ascii_alphanumeric_def is_ascii_lower_def byte_def)

theorem unknown_user_gets_root_shell_witness:
  "\<exists>c w'. terminal_start toy_host None (shell_request ''mallory'') (st_world toy_state) = (Start c, w') \<and>
     pt_prog c = ''/bin/sh'' \<and> pt_as c = None"
  by (rule unknown_user_gets_root_shell [where u = "''mallory''"])
     (simp_all add: shell_request_def map_str_def lookup_user_def toy_host_def ALLOWED_SHELLS_def)

theorem terminal_runs_as_known_user_witness:
  "case terminal_start toy_host None (shell_request ''alice'') (st_world toy_state) of
     (Start c, w) \<Rightarrow> pt_as c = Some (''alice'', 1000, 1000) | _ \<Rightarrow> False"
proof -
  let ?r = "shell_request ''alice''"
  have req: "map_str (extra ?r) ''_user'' = Some ''alice''" "container_option ?r = None"
    "map_str (extra ?r) ''shell'' = Some ''/bin/sh''"
    by (simp_all add: shell_request_def map_str_def container_option_def)
  have pw: "lookup_user toy_host ''alice'' =
      Some \<lparr>pw_uid = 1000, pw_gid = 1000, pw_dir = ''/home/alice'', pw_shell = ''/bin/bash''\<rparr>"
    by (simp add: lookup_user_def toy_host_def)
  obtain c w where start: "terminal_start toy_host None ?r (st_world toy_state) = (Start c, w)"
    using req pw alice_simple [of toy_host]
    by (simp add: terminal_start_def login_shell_def Let_def ALLOWED_SHELLS_def)
  from terminal_runs_as_known_user [OF req(1) alice_simple pw req(2) start] start show ?thesis by simp
qed

theorem container_needs_password_witness:
  "fst (verify_password toy_host ''alice'' ''pw'' (st_world toy_state)) = JObj [(''ok'', JBool True)]"
proof -
  let ?o = "\<lparr>payload = ''terminal.pty'', superuser = None,
     extra = [(''_user'', JStr ''alice''), (''password'', JStr ''pw''), (''container'', JStr ''web'')]\<rparr>"
  have con: "container_option ?o = Some ''web''"
    by (simp add: container_option_def map_str_def container_char_def is_ascii_alphanumeric_def is_ascii_lower_def byte_def)
  have opts: "opt_str ?o ''_user'' = ''alice''" "opt_str ?o ''password'' = ''pw''"
    by (simp_all add: opt_str_def map_str_def)
  have "\<exists>c w. terminal_start toy_host None ?o (st_world toy_state) = (Start c, w)"
    by (simp add: terminal_start_def con container_exec_def opts verify_password_def sudo_as_user_def lookup_user_def
        toy_host_def spawn_def toy_state_def sudo_result_def wait_capped_def wait_capped_with_def verify_verdict_def
        jget_bool_def which_def Let_def)
  then obtain c w where start: "terminal_start toy_host None ?o (st_world toy_state) = (Start c, w)" by blast
  from container_needs_password [OF con start] show ?thesis unfolding opts by (rule conjunct1)
qed

end
