(* ===== verification/TerminalStream.thy ===== *)
theory TerminalStream
  imports Terminal
begin

text \<open>
  The life of a terminal (\<open>stream\<close> and \<open>data\<close> of \<open>agent/src/handlers/terminal_pty.rs\<close>): the messages its output becomes, and
  the way of the input to the pseudo-terminals of all channels, with the descriptors of the agent's process. When a read
  returns, how much a write takes and which descriptor is free is the kernel's: each is an event.
\<close>

section \<open>Output\<close>

text \<open>What the loop wakes for: bytes read (at most 4096), with whether the message they become is still received; the end
  of the terminal; an error; a descriptor that is not ready after all; the stop signal.\<close>

datatype pty_event = GotBytes string bool | GotEof | ReadFailed | WouldBlock | StopSignal bool

definition output_json :: "string \<Rightarrow> json" where
  "output_json bs = JObj [(''output'', JStr (from_utf8_lossy bs))]"

text \<open>The messages, and whether the loop was left.\<close>

fun pty_loop :: "string \<Rightarrow> pty_event list \<Rightarrow> message list \<times> bool" where
  "pty_loop ch [] = ([], False)"
| "pty_loop ch (GotBytes bs received # evs) =
     (if bs = [] then ([Close ch None], True)
      else if received then (case pty_loop ch evs of (ms, left) \<Rightarrow> (Data ch (output_json bs) # ms, left))
      else ([], True))"
| "pty_loop ch (GotEof # evs) = ([Close ch None], True)"
| "pty_loop ch (ReadFailed # evs) = ([Close ch None], True)"
| "pty_loop ch (WouldBlock # evs) = pty_loop ch evs"
| "pty_loop ch (StopSignal stop # evs) = (if stop then ([Close ch None], True) else pty_loop ch evs)"

text \<open>\<open>stream\<close>: nothing is opened when the start is refused; opening may fail. The router has said \<open>Ready\<close>.\<close>

definition terminal_messages :: "string \<Rightarrow> pty_start \<Rightarrow> string option \<Rightarrow> pty_event list \<Rightarrow> message list" where
  "terminal_messages ch start failed evs =
     Ready ch # (case (start, failed) of
        (Refused problem, _) \<Rightarrow> [Close ch (Some problem)]
      | (Start c, Some e) \<Rightarrow> [Close ch (Some (''pty-error: '' @ e))]
      | (Start c, None) \<Rightarrow> fst (pty_loop ch evs))"

section \<open>Input\<close>

text \<open>What a descriptor of the agent's process leads to.\<close>

datatype target = Pty string | OtherFile string

text \<open>The writers by channel, the open descriptors, the write that a thread of the pool has taken but not made, what each
  target was given, and the sizes set.\<close>

record term_state =
  tm_writers :: "(string, nat) hmap"
  tm_fds :: "(nat, target) hmap"
  tm_pending :: "(nat \<times> string) option"
  tm_got :: "(target \<times> string) list"
  tm_sizes :: "(target \<times> nat \<times> nat) list"

definition term_new :: term_state where
  "term_new = \<lparr>tm_writers = [], tm_fds = [], tm_pending = None, tm_got = [], tm_sizes = []\<rparr>"

text \<open>A terminal opened on a free descriptor; the end of one; data of the client, which the router hands over only when the
  last write is done; the write, of which the terminal takes the first bytes; and a file that another part of the agent opens or closes.\<close>

datatype term_event =
    PtyOpened string nat
  | PtyEnded string
  | PtyData string json
  | PtyWritten nat
  | FileOpened nat string
  | FileClosed nat

definition drop_writer :: "string \<Rightarrow> term_state \<Rightarrow> term_state" where
  "drop_writer ch s =
     (case hm_get (tm_writers s) ch of
        None \<Rightarrow> s
      | Some fd \<Rightarrow> s\<lparr>tm_writers := hm_del ch (tm_writers s), tm_fds := hm_del fd (tm_fds s)\<rparr>)"

definition resized :: "json \<Rightarrow> target \<Rightarrow> (target \<times> nat \<times> nat) list" where
  "resized d t =
     (case jget d ''resize'' of
        None \<Rightarrow> []
      | Some r \<Rightarrow> [(t, unwrap_or 80 (Option.bind (jget r ''cols'') as_u64) mod 2 ^ 16,
                       unwrap_or 24 (Option.bind (jget r ''rows'') as_u64) mod 2 ^ 16)])"

definition pty_data :: "string \<Rightarrow> json \<Rightarrow> term_state \<Rightarrow> term_state" where
  "pty_data ch d s =
     (case hm_get (tm_writers s) ch of
        None \<Rightarrow> s
      | Some fd \<Rightarrow>
          s\<lparr>tm_sizes := tm_sizes s @ (case hm_get (tm_fds s) fd of None \<Rightarrow> [] | Some t \<Rightarrow> resized d t),
            tm_pending := map_option (\<lambda>input. (fd, input)) (jget_str d ''input'')\<rparr>)"

text \<open>None: the event cannot happen in this state.\<close>

definition term_step :: "term_event \<Rightarrow> term_state \<Rightarrow> term_state option" where
  "term_step ev s =
     (case ev of
        PtyOpened ch fd \<Rightarrow>
          if hm_has (tm_fds s) fd then None
          else (let s1 = drop_writer ch s
                in Some (s1\<lparr>tm_writers := hm_put ch fd (tm_writers s1), tm_fds := hm_put fd (Pty ch) (tm_fds s1)\<rparr>))
      | PtyEnded ch \<Rightarrow> Some (drop_writer ch s)
      | PtyData ch d \<Rightarrow> if tm_pending s \<noteq> None then None else Some (pty_data ch d s)
      | PtyWritten n \<Rightarrow>
          (case tm_pending s of
             None \<Rightarrow> None
           | Some (fd, input) \<Rightarrow>
               Some (s\<lparr>tm_pending := None,
                       tm_got := tm_got s @ (case hm_get (tm_fds s) fd of None \<Rightarrow> [] | Some t \<Rightarrow> [(t, take n input)])\<rparr>))
      | FileOpened fd name \<Rightarrow>
          if hm_has (tm_fds s) fd then None else Some (s\<lparr>tm_fds := hm_put fd (OtherFile name) (tm_fds s)\<rparr>)
      | FileClosed fd \<Rightarrow>
          (case hm_get (tm_fds s) fd of
             Some (OtherFile _) \<Rightarrow> Some (s\<lparr>tm_fds := hm_del fd (tm_fds s)\<rparr>)
           | _ \<Rightarrow> None))"

fun term_run :: "term_event list \<Rightarrow> term_state \<Rightarrow> term_state option" where
  "term_run [] s = Some s"
| "term_run (ev # evs) s = Option.bind (term_step ev s) (term_run evs)"

section \<open>Facts\<close>

text \<open>The text of the messages is the text of the terminal when no read ends inside a character.\<close>

fun output_of :: "message list \<Rightarrow> string" where
  "output_of [] = []"
| "output_of (Data _ d # ms) = unwrap_or [] (jget_str d ''output'') @ output_of ms"
| "output_of (_ # ms) = output_of ms"

fun read_of :: "pty_event \<Rightarrow> string" where
  "read_of (GotBytes bs _) = bs"
| "read_of _ = []"

theorem terminal_output_faithful:
  assumes "\<forall>ev \<in> set evs. (\<exists>bs. ev = GotBytes bs True \<and> bs \<noteq> [] \<and> from_utf8_lossy bs = bs) \<or> ev \<in> {WouldBlock, StopSignal False}"
  shows "output_of (fst (pty_loop ch evs)) = concat (map read_of evs)"
  using assms
proof (induction evs)
  case (Cons ev evs)
  from Cons.prems have "(\<exists>bs. ev = GotBytes bs True \<and> bs \<noteq> [] \<and> from_utf8_lossy bs = bs) \<or> ev = WouldBlock \<or> ev = StopSignal False"
    by simp
  moreover have "output_of (fst (pty_loop ch evs)) = concat (map read_of evs)" using Cons by simp
  ultimately show ?case
    by (elim disjE exE conjE) (auto simp: output_json_def jget_str_def unwrap_or_def split: prod.split)
qed simp

text \<open>A character that two reads share is lost: each half becomes a replacement character.\<close>

theorem split_character_garbled:
  "output_of (fst (pty_loop ''ch'' [GotBytes (bytes [195]) True, GotBytes (bytes [169]) True])) = REPLACEMENT @ REPLACEMENT"
  "output_of (fst (pty_loop ''ch'' [GotBytes (bytes [195, 169]) True])) = bytes [195, 169]"
  by code_simp+

text \<open>After the stop signal, the end of the terminal or an error nothing more is said.\<close>

lemma pty_loop_left: "snd (pty_loop ch evs) \<Longrightarrow> pty_loop ch (evs @ rest) = pty_loop ch evs"
  by (induction ch evs rule: pty_loop.induct) (auto split: prod.splits if_splits)

section \<open>Where input goes\<close>

definition writers_open :: "term_state \<Rightarrow> bool" where
  "writers_open s \<longleftrightarrow> (\<forall>ch fd. hm_get (tm_writers s) ch = Some fd \<longrightarrow> hm_get (tm_fds s) fd = Some (Pty ch))"

lemma writers_open_drop: "writers_open s \<Longrightarrow> writers_open (drop_writer ch s)"
  unfolding writers_open_def drop_writer_def
  by (auto split: option.splits) (metis option.inject target.inject(1))

lemma drop_writer_fds: "hm_get (tm_fds s) fd = None \<Longrightarrow> hm_get (tm_fds (drop_writer ch s)) fd = None"
  by (auto simp: drop_writer_def split: option.splits)

lemma writers_open_step:
  assumes "writers_open s" and "term_step ev s = Some s'"
  shows "writers_open s'"
proof (cases ev)
  case (PtyOpened ch fd)
  with assms(2) have fd: "hm_get (tm_fds s) fd = None" by (auto simp: term_step_def hm_has_def split: if_splits)
  have "writers_open (drop_writer ch s)" using assms(1) by (rule writers_open_drop)
  moreover have "hm_get (tm_fds (drop_writer ch s)) fd = None" using fd by (rule drop_writer_fds)
  ultimately show ?thesis using assms(2) PtyOpened
    by (auto simp: term_step_def Let_def writers_open_def split: if_splits)
next
  case (PtyEnded ch)
  with assms show ?thesis by (auto simp: term_step_def writers_open_drop)
next
  case (PtyData ch d)
  with assms show ?thesis by (auto simp: term_step_def pty_data_def writers_open_def split: option.splits if_splits)
next
  case (PtyWritten n)
  with assms show ?thesis by (auto simp: term_step_def writers_open_def split: option.splits)
next
  case (FileOpened fd name)
  with assms show ?thesis by (auto simp: term_step_def writers_open_def hm_has_def split: if_splits)
next
  case (FileClosed fd)
  with assms show ?thesis by (auto simp: term_step_def writers_open_def split: option.splits target.splits)
qed

lemma writers_open_run: "term_run evs s = Some s' \<Longrightarrow> writers_open s \<Longrightarrow> writers_open s'"
  by (induction evs arbitrary: s) (auto simp: bind_eq_Some_conv intro: writers_open_step)

text \<open>
  C39. Input reaches the terminal of its channel: however terminals and other files were opened and closed before, what is
  typed for a channel that has a terminal and is written before anything else happens goes to that channel's own
  pseudo-terminal, in order, as much of it as the terminal takes; and for a channel without a terminal nothing is written at all.
\<close>

theorem input_reaches_its_terminal:
  assumes "term_run evs term_new = Some s" and "tm_pending s = None" and "jget_str d ''input'' = Some input"
  shows "case hm_get (tm_writers s) ch of
      None \<Rightarrow> term_step (PtyData ch d) s = Some s \<and> term_step (PtyWritten n) s = None
    | Some fd \<Rightarrow> map_option tm_got (term_run [PtyData ch d, PtyWritten n] s) = Some (tm_got s @ [(Pty ch, take n input)])"
proof -
  have "writers_open s" using writers_open_run [OF assms(1)] by (simp add: writers_open_def term_new_def)
  then show ?thesis using assms(2,3)
    by (auto simp: term_step_def pty_data_def writers_open_def split: option.split)
qed

theorem input_reaches_its_terminal_witness:
  "map_option tm_got (term_run [PtyData ''b'' (JObj [(''input'', JStr ''ls'')]), PtyWritten 2]
     (the (term_run [PtyOpened ''a'' 7, PtyOpened ''b'' 8] term_new))) = Some [(Pty ''b'', ''ls'')]"
proof -
  obtain s where s: "term_run [PtyOpened ''a'' 7, PtyOpened ''b'' 8] term_new = Some s" "tm_pending s = None"
    "hm_get (tm_writers s) ''b'' = Some 8" "tm_got s = []"
    by (simp add: term_step_def term_new_def drop_writer_def hm_has_def)
  have "jget_str (JObj [(''input'', JStr ''ls'')]) ''input'' = Some ''ls''" by (simp add: jget_str_def)
  from input_reaches_its_terminal [OF s(1,2) this, where ch = "''b''" and n = 2] s show ?thesis by simp
qed

text \<open>
  Input can reach another file: the descriptor of a terminal is used after the lock on the writers is given up, so when
  the terminal ends before the write is made, and another part of the agent gets the same descriptor for a file of its own,
  the keys are written into that file.
\<close>

theorem input_reaches_another_file:
  "\<exists>s. term_run [PtyOpened ''a'' 7, PtyData ''a'' (JObj [(''input'', JStr keys)]), PtyEnded ''a'', FileOpened 7 path, PtyWritten (length keys)]
     term_new = Some s \<and> tm_got s = [(OtherFile path, keys)]"
  by (simp add: term_step_def term_new_def drop_writer_def pty_data_def hm_has_def jget_str_def)

end
