(* ===== verification/Host.thy ===== *)
theory Host
  imports AgentUtil "HOL-Library.State_Monad"
begin

text \<open>
  The handlers of the agent as programs over the host: the state monad of the library over the
  world of \<open>AgentUtil\<close>, its primitive steps, and the logic in which a handler is shown to stay
  within a set of effects. The primitives are the helpers of \<open>agent/src/util.rs\<close> under short
  names, and the reads of files the handlers do themselves.
\<close>

section \<open>Programs\<close>

type_synonym ('w, 'a) act = "('w world, 'a) state"

abbreviation ret :: "'a \<Rightarrow> ('w, 'a) act" where
  "ret \<equiv> State_Monad.return"

definition sudo :: "'w agent_host \<Rightarrow> string \<Rightarrow> string \<Rightarrow> string list \<Rightarrow> ('w, json) act" where
  "sudo h user password args = State (sudo_as_user h user password args)"

definition sudo_write :: "'w agent_host \<Rightarrow> string \<Rightarrow> string \<Rightarrow> string list \<Rightarrow> string \<Rightarrow> ('w, json) act" where
  "sudo_write h user password args txt = State (sudo_stdin_write_as_user h user password args txt)"

definition sudo_text :: "'w agent_host \<Rightarrow> string \<Rightarrow> string \<Rightarrow> string list \<Rightarrow> ('w, string) act" where
  "sudo_text h user password args = State (sudo_output_as_user h user password args)"

definition run :: "'w agent_host \<Rightarrow> string list \<Rightarrow> ('w, string) act" where
  "run h args = State (run_cmd h args)"

definition run_user :: "'w agent_host \<Rightarrow> string \<Rightarrow> string list \<Rightarrow> ('w, read_outcome) act" where
  "run_user h user args = State (run_cmd_as_user h user args)"

definition installed :: "'w agent_host \<Rightarrow> string \<Rightarrow> ('w, bool) act" where
  "installed h cmd = State (which h cmd)"

definition record_audit :: "string \<Rightarrow> string \<Rightarrow> string \<Rightarrow> bool \<Rightarrow> string \<Rightarrow> ('w, unit) act" where
  "record_audit user action target ok details = State (\<lambda>w. ((), audit user action target ok details w))"

text \<open>\<open>tokio::fs::read_to_string\<close> with its error dropped, \<open>Path::exists\<close>, and the names of a
  directory.\<close>

definition read_file :: "'w agent_host \<Rightarrow> string \<Rightarrow> ('w, string option) act" where
  "read_file h path = State (\<lambda>w. (ah_read h (w_os w) path, w))"

definition path_exists :: "'w agent_host \<Rightarrow> string \<Rightarrow> ('w, bool) act" where
  "path_exists h path = State (\<lambda>w. (ah_exists h (w_os w) path, w))"

definition read_dir :: "'w agent_host \<Rightarrow> string \<Rightarrow> ('w, string list option) act" where
  "read_dir h path = State (\<lambda>w. (ah_dir h (w_os w) path, w))"

definition put_file :: "'w agent_host \<Rightarrow> string \<Rightarrow> string \<Rightarrow> ('w, string option) act" where
  "put_file h path txt = State (write_file h path txt)"

definition delete_file :: "'w agent_host \<Rightarrow> string \<Rightarrow> ('w, unit) act" where
  "delete_file h path = State (\<lambda>w. ((), remove_file h path w))"

definition metadata :: "'w agent_host \<Rightarrow> string \<Rightarrow> ('w, (nat \<times> nat) option) act" where
  "metadata h path = State (\<lambda>w. (ah_meta h (w_os w) path, w))"

text \<open>A command started with \<open>tokio::process::Command\<close> directly, past the helpers: it inherits the
  agent's environment, and \<open>output()\<close> waits and reads without a limit. The text of an error of
  the pipes is the operating system's.\<close>

definition raw_command :: "string \<Rightarrow> string list \<Rightarrow> string option \<Rightarrow> command" where
  "raw_command prog args input =
     \<lparr>cm_prog = prog, cm_args = args, cm_clean = False, cm_env = [], cm_as = None, cm_stdin = input\<rparr>"

record cmd_output =
  out_ok :: bool
  out_stdout :: string
  out_stderr :: string

definition pipe_failed :: "string option list \<Rightarrow> bool" where
  "pipe_failed rs \<longleftrightarrow> None \<in> set (takeWhile (\<lambda>r. r \<noteq> Some []) rs)"

definition child_output :: "child \<Rightarrow> string + cmd_output" where
  "child_output ch =
     (case ch_wait ch of
        Inl e \<Rightarrow> Inl e
      | Inr ok \<Rightarrow>
          if pipe_failed (ch_out ch) \<or> pipe_failed (ch_err ch) then Inl ''pipe error''
          else Inr \<lparr>out_ok = ok, out_stdout = stream (ch_out ch), out_stderr = stream (ch_err ch)\<rparr>)"

definition spawn_raw ::
  "'w agent_host \<Rightarrow> string \<Rightarrow> string list \<Rightarrow> string option \<Rightarrow> ('w, string + string + cmd_output) act" where
  "spawn_raw h prog args input =
     State (\<lambda>w. case spawn h (raw_command prog args input) w of
                  (Inl e, w1) \<Rightarrow> (Inl e, w1)
                | (Inr ch, w1) \<Rightarrow> (Inr (child_output ch), w1))"

definition run_raw :: "'w agent_host \<Rightarrow> string \<Rightarrow> string list \<Rightarrow> string option \<Rightarrow> ('w, string + cmd_output) act" where
  "run_raw h prog args input =
     State (\<lambda>w. case spawn h (raw_command prog args input) w of
                  (Inl e, w1) \<Rightarrow> (Inl e, w1)
                | (Inr ch, w1) \<Rightarrow> (child_output ch, w1))"

text \<open>\<open>status()\<close>: the exit code alone.\<close>

definition run_status :: "'w agent_host \<Rightarrow> string \<Rightarrow> string list \<Rightarrow> ('w, int option) act" where
  "run_status h prog args =
     State (\<lambda>w. case spawn h (raw_command prog args None) w of
                  (Inl e, w1) \<Rightarrow> (None, w1)
                | (Inr ch, w1) \<Rightarrow> (case ch_wait ch of Inl _ \<Rightarrow> None | Inr _ \<Rightarrow> ch_code ch, w1))"

definition canonical :: "'w agent_host \<Rightarrow> string \<Rightarrow> ('w, string + string) act" where
  "canonical h path = State (\<lambda>w. (ah_canonical h (w_os w) path, w))"

definition is_directory :: "'w agent_host \<Rightarrow> string \<Rightarrow> ('w, bool) act" where
  "is_directory h path = State (\<lambda>w. (ah_is_dir h (w_os w) path, w))"

text \<open>A program as a step of the agent's state.\<close>

definition in_world :: "('w, 'a) act \<Rightarrow> 'w agent_state \<Rightarrow> 'a \<times> 'w agent_state" where
  "in_world m = with_world (run_state m)"

named_theorems run_simps \<open>running a program\<close>

lemma run_ret [run_simps]: "run_state (ret x) w = (x, w)"
  by (simp add: State_Monad.return_def)

lemma run_bind [run_simps]: "run_state (m \<bind> f) w = (case run_state m w of (x, w1) \<Rightarrow> run_state (f x) w1)"
  by (simp add: State_Monad.bind_def split: prod.splits)

lemma run_primitives [run_simps]:
  "run_state (sudo h user password args) w = sudo_as_user h user password args w"
  "run_state (sudo_write h user password args txt) w = sudo_stdin_write_as_user h user password args txt w"
  "run_state (sudo_text h user password args) w = sudo_output_as_user h user password args w"
  "run_state (run h args) w = run_cmd h args w"
  "run_state (run_user h user args) w = run_cmd_as_user h user args w"
  "run_state (installed h cmd) w = which h cmd w"
  "run_state (record_audit user action target ok details) w = ((), audit user action target ok details w)"
  "run_state (read_file h path) w = (ah_read h (w_os w) path, w)"
  "run_state (path_exists h path) w = (ah_exists h (w_os w) path, w)"
  "run_state (read_dir h path) w = (ah_dir h (w_os w) path, w)"
  "run_state (put_file h path txt) w = write_file h path txt w"
  "run_state (canonical h path) w = (ah_canonical h (w_os w) path, w)"
  "run_state (is_directory h path) w = (ah_is_dir h (w_os w) path, w)"
  by (simp_all add: sudo_def sudo_write_def sudo_text_def run_def run_user_def installed_def record_audit_def
      read_file_def path_exists_def read_dir_def put_file_def canonical_def is_directory_def)

lemma in_world_simps [run_simps]:
  "in_world m s = (fst (run_state m (st_world s)), s\<lparr>st_world := snd (run_state m (st_world s))\<rparr>)"
  by (simp add: in_world_def with_world_def split_beta)

section \<open>The effects of a program\<close>

text \<open>\<open>yields m R\<close>: whatever the host is, running \<open>m\<close> only appends to the log, and \<open>R\<close> relates
  the result to what was appended. \<open>emits P m\<close>: each appended effect satisfies \<open>P\<close>.\<close>

definition yields :: "('w, 'a) act \<Rightarrow> ('a \<Rightarrow> effect list \<Rightarrow> bool) \<Rightarrow> bool" where
  "yields m R \<longleftrightarrow> (\<forall>w. \<exists>es. w_log (snd (run_state m w)) = w_log w @ es \<and> R (fst (run_state m w)) es)"

definition emits :: "(effect \<Rightarrow> bool) \<Rightarrow> ('w, 'a) act \<Rightarrow> bool" where
  "emits P m \<longleftrightarrow> yields m (\<lambda>_ es. list_all P es)"

lemma yieldsI:
  "(\<And>w. \<exists>es. w_log (snd (run_state m w)) = w_log w @ es \<and> R (fst (run_state m w)) es) \<Longrightarrow> yields m R"
  by (simp add: yields_def)

lemma yieldsE:
  assumes "yields m R" and "run_state m w = (x, w1)"
  obtains es where "w_log w1 = w_log w @ es" and "R x es"
  using assms unfolding yields_def by (metis fst_conv snd_conv)

lemma yields_mono: "yields m R \<Longrightarrow> (\<And>x es. R x es \<Longrightarrow> R' x es) \<Longrightarrow> yields m R'"
  unfolding yields_def by blast

lemma yields_ret: "yields (ret x) R \<longleftrightarrow> R x []"
  by (simp add: yields_def run_simps)

lemma yields_bind:
  assumes "yields m R" and "\<And>x es. R x es \<Longrightarrow> yields (f x) (\<lambda>y es'. S y (es @ es'))"
  shows "yields (m \<bind> f) S"
proof (rule yieldsI)
  fix w
  obtain x w1 where x: "run_state m w = (x, w1)" by fastforce
  then obtain es where es: "w_log w1 = w_log w @ es" "R x es" by (rule yieldsE [OF assms(1)])
  obtain y w2 where y: "run_state (f x) w1 = (y, w2)" by fastforce
  then obtain es' where "w_log w2 = w_log w1 @ es'" "S y (es @ es')"
    by (rule yieldsE [OF assms(2) [OF es(2)]])
  with x y es show "\<exists>es. w_log (snd (run_state (m \<bind> f) w)) = w_log w @ es \<and> S (fst (run_state (m \<bind> f) w)) es"
    by (simp add: run_simps)
qed

lemma yields_result: "yields m (\<lambda>x es. R x) \<Longrightarrow> R (fst (run_state m w))"
  unfolding yields_def by blast

lemma emits_log: "emits P m \<Longrightarrow> \<exists>es. w_log (snd (run_state m w)) = w_log w @ es \<and> list_all P es"
  by (simp add: emits_def yields_def)

lemma emits_mono: "emits P m \<Longrightarrow> (\<And>e. P e \<Longrightarrow> Q e) \<Longrightarrow> emits Q m"
  unfolding emits_def by (erule yields_mono) (simp add: list_all_iff)

named_theorems emits_intros \<open>the effects of a composed program\<close>

lemma emits_ret [emits_intros]: "emits P (ret x)"
  by (simp add: emits_def yields_ret)

lemma emits_bind [emits_intros]: "emits P m \<Longrightarrow> (\<And>x. emits P (f x)) \<Longrightarrow> emits P (m \<bind> f)"
  unfolding emits_def by (rule yields_bind, assumption) (auto intro: yields_mono)

lemma emits_bind_result:
  assumes "emits P m" and "\<And>w. R (fst (run_state m w))" and "\<And>x. R x \<Longrightarrow> emits P (f x)"
  shows "emits P (m \<bind> f)"
proof -
  have "yields m (\<lambda>x es. R x \<and> list_all P es)"
    using assms(1,2) unfolding emits_def yields_def by blast
  then show ?thesis
    unfolding emits_def by (rule yields_bind) (use assms(3) in \<open>auto simp: emits_def intro: yields_mono\<close>)
qed

lemma emits_if [emits_intros]: "(b \<Longrightarrow> emits P m) \<Longrightarrow> (\<not> b \<Longrightarrow> emits P m') \<Longrightarrow> emits P (if b then m else m')"
  by simp

lemma emits_option [emits_intros]:
  "(x = None \<Longrightarrow> emits P m) \<Longrightarrow> (\<And>y. x = Some y \<Longrightarrow> emits P (f y)) \<Longrightarrow>
   emits P (case x of None \<Rightarrow> m | Some y \<Rightarrow> f y)"
  by (cases x) auto

lemma emits_prod [emits_intros]: "(\<And>a b. x = (a, b) \<Longrightarrow> emits P (f a b)) \<Longrightarrow> emits P (case x of (a, b) \<Rightarrow> f a b)"
  by (cases x) auto

lemma emits_outcome [emits_intros]:
  "(x = NoAccount \<Longrightarrow> emits P m) \<Longrightarrow> (\<And>a b c. x = RanOut a b c \<Longrightarrow> emits P (f a b c)) \<Longrightarrow>
   (\<And>e. x = SpawnFailed e \<Longrightarrow> emits P (g e)) \<Longrightarrow>
   emits P (case x of NoAccount \<Rightarrow> m | RanOut a b c \<Rightarrow> f a b c | SpawnFailed e \<Rightarrow> g e)"
  by (cases x) auto

lemma emits_sum [emits_intros]:
  "(\<And>y. x = Inl y \<Longrightarrow> emits P (f y)) \<Longrightarrow> (\<And>y. x = Inr y \<Longrightarrow> emits P (g y)) \<Longrightarrow>
   emits P (case x of Inl y \<Rightarrow> f y | Inr y \<Rightarrow> g y)"
  by (cases x) auto

lemma emits_list [emits_intros]:
  "(x = [] \<Longrightarrow> emits P m) \<Longrightarrow> (\<And>y ys. x = y # ys \<Longrightarrow> emits P (f y ys)) \<Longrightarrow>
   emits P (case x of [] \<Rightarrow> m | y # ys \<Rightarrow> f y ys)"
  by (cases x) auto

lemma emits_Let [emits_intros]: "(\<And>y. y = x \<Longrightarrow> emits P (f y)) \<Longrightarrow> emits P (let y = x in f y)"
  by simp

text \<open>A loop over a list that collects its results.\<close>

fun act_map :: "('b \<Rightarrow> ('w, 'a) act) \<Rightarrow> 'b list \<Rightarrow> ('w, 'a list) act" where
  "act_map f [] = ret []"
| "act_map f (x # xs) = do { y \<leftarrow> f x; ys \<leftarrow> act_map f xs; ret (y # ys) }"

lemma emits_act_map [emits_intros]: "(\<And>x. x \<in> set xs \<Longrightarrow> emits P (f x)) \<Longrightarrow> emits P (act_map f xs)"
  by (induction xs) (auto intro!: emits_intros)

text \<open>\<open>tokio::time::timeout\<close>: a step that was started stays done, but when it ends too late its result
  is not seen and nothing after it is started.\<close>

definition read_clock :: "'w agent_host \<Rightarrow> ('w, instant) act" where
  "read_clock h = State (\<lambda>w. (ah_clock h (w_os w), w))"

definition by_deadline ::
  "'w agent_host \<Rightarrow> instant \<Rightarrow> 'b \<Rightarrow> ('w, 'a) act \<Rightarrow> ('a \<Rightarrow> ('w, 'b) act) \<Rightarrow> ('w, 'b) act" where
  "by_deadline h deadline late m k = do {
     x \<leftarrow> m;
     t \<leftarrow> read_clock h;
     if t \<ge> deadline then ret late else k x }"

definition timed :: "'w agent_host \<Rightarrow> nat \<Rightarrow> ('w, 'a) act \<Rightarrow> ('w, 'a option) act" where
  "timed h limit m = do { t \<leftarrow> read_clock h; by_deadline h (t + secs limit) None m (\<lambda>x. ret (Some x)) }"

section \<open>The effects of the helpers\<close>

lemma emits_sudo [emits_intros]:
  "(\<And>pw. lookup_user h user = Some pw \<Longrightarrow> P (Ran (sudo_command user pw password args))) \<Longrightarrow>
   emits P (sudo h user password args)"
  unfolding emits_def
  by (rule yieldsI, rule exI [of _ "sudo_log h user password args"])
     (simp add: run_simps sudo_as_user_log sudo_log_def split: option.splits)

lemma emits_sudo_write [emits_intros]:
  "(\<And>pw. lookup_user h user = Some pw \<Longrightarrow>
     P (Ran (sudo_command user pw password [''sh'', ''-c'', write_script (ah_b64 h) args txt]))) \<Longrightarrow>
   emits P (sudo_write h user password args txt)"
  unfolding emits_def
  by (rule yieldsI, rule exI [of _ "sudo_log h user password [''sh'', ''-c'', write_script (ah_b64 h) args txt]"])
     (simp add: run_simps sudo_stdin_write_log sudo_log_def split: option.splits)

lemma emits_sudo_text [emits_intros]:
  "(\<And>pw. lookup_user h user = Some pw \<Longrightarrow> P (Ran (sudo_command user pw password args))) \<Longrightarrow>
   emits P (sudo_text h user password args)"
  using sudo_as_user_log [of h user password args] unfolding emits_def
  by (intro yieldsI exI [of _ "sudo_log h user password args"])
     (simp add: run_simps sudo_output_as_user_def sudo_log_def split_beta split: option.splits)

lemma run_cmd_log:
  "w_log (snd (run_cmd h args w)) =
   w_log w @ (case args of [] \<Rightarrow> [] | prog # rest \<Rightarrow> [Ran (plain_command prog rest)])"
  using spawn_log [of h _ w] by (auto simp: run_cmd_def split: list.splits prod.splits sum.splits)

lemma emits_run [emits_intros]: "P (Ran (plain_command (hd args) (tl args))) \<Longrightarrow> emits P (run h args)"
  unfolding emits_def
  by (rule yieldsI, rule exI [of _ "case args of [] \<Rightarrow> [] | prog # rest \<Rightarrow> [Ran (plain_command prog rest)]"])
     (auto simp: run_simps run_cmd_log split: list.splits)

lemma run_cmd_as_user_log:
  "w_log (snd (run_cmd_as_user h user args w)) = w_log w @
     (case (lookup_user h user, args) of
        (Some pw, prog # rest) \<Rightarrow> [Ran (user_command user pw prog rest)] | _ \<Rightarrow> [])"
  using spawn_log [of h _ w]
  by (auto simp: run_cmd_as_user_def split: option.splits list.splits prod.splits sum.splits)

lemma emits_run_user [emits_intros]:
  "(\<And>pw. lookup_user h user = Some pw \<Longrightarrow> P (Ran (user_command user pw (hd args) (tl args)))) \<Longrightarrow>
   emits P (run_user h user args)"
  unfolding emits_def
  by (rule yieldsI, rule exI [of _ "case (lookup_user h user, args) of
        (Some pw, prog # rest) \<Rightarrow> [Ran (user_command user pw prog rest)] | _ \<Rightarrow> []"])
     (auto simp: run_simps run_cmd_as_user_log split: list.splits option.splits)

lemma which_log: "w_log (snd (which h cmd w)) = w_log w @ [Ran (plain_command ''which'' [cmd])]"
  using spawn_log [of h _ w] by (auto simp: which_def split: prod.splits sum.splits)

lemma emits_installed [emits_intros]: "P (Ran (plain_command ''which'' [cmd])) \<Longrightarrow> emits P (installed h cmd)"
  unfolding emits_def
  by (rule yieldsI, rule exI [of _ "[Ran (plain_command ''which'' [cmd])]"]) (simp add: run_simps which_log)

lemma emits_spawn_raw [emits_intros]: "P (Ran (raw_command prog args input)) \<Longrightarrow> emits P (spawn_raw h prog args input)"
  and emits_run_raw [emits_intros]: "P (Ran (raw_command prog args input)) \<Longrightarrow> emits P (run_raw h prog args input)"
  unfolding emits_def
  by (rule yieldsI, rule exI [of _ "[Ran (raw_command prog args input)]"],
      auto simp: run_raw_def spawn_raw_def dest: spawn_log split: prod.splits sum.splits)+

lemma emits_run_status [emits_intros]: "P (Ran (raw_command prog args None)) \<Longrightarrow> emits P (run_status h prog args)"
  unfolding emits_def
  by (rule yieldsI, rule exI [of _ "[Ran (raw_command prog args None)]"])
     (auto simp: run_status_def dest: spawn_log split: prod.splits sum.splits)

lemma emits_record_audit [emits_intros]:
  "P (Audited user action target ok details) \<Longrightarrow> emits P (record_audit user action target ok details)"
  unfolding emits_def
  by (rule yieldsI, rule exI [of _ "[Audited user action target ok details]"]) (simp add: run_simps)

lemma emits_put_file [emits_intros]: "P (Wrote path txt) \<Longrightarrow> emits P (put_file h path txt)"
  unfolding emits_def
  by (rule yieldsI, rule exI [of _ "[Wrote path txt]"])
     (simp add: run_simps write_file_def split: prod.splits)

lemma emits_delete_file [emits_intros]: "P (Removed path) \<Longrightarrow> emits P (delete_file h path)"
  unfolding emits_def delete_file_def
  by (rule yieldsI, rule exI [of _ "[Removed path]"]) (simp add: remove_file_def)

lemma emits_reads [emits_intros]:
  "emits P (metadata h path)" "emits P (read_file h path)" "emits P (path_exists h path)" "emits P (read_dir h path)"
  "emits P (canonical h path)" "emits P (is_directory h path)"
  unfolding emits_def by (auto intro!: yieldsI exI [of _ "[]"] simp: run_simps metadata_def)

text \<open>A step that only looks at the host.\<close>

lemma emits_pure [emits_intros]: "emits P (State (\<lambda>w. (f w, w)))"
  unfolding emits_def by (auto intro!: yieldsI exI [of _ "[]"])

lemma emits_by_deadline [emits_intros]: "emits P m \<Longrightarrow> (\<And>x. emits P (k x)) \<Longrightarrow> emits P (by_deadline h deadline late m k)"
  and emits_read_clock [emits_intros]: "emits P (read_clock h)"
  unfolding by_deadline_def read_clock_def by (intro emits_bind emits_pure emits_ret emits_if; assumption?)+

lemma emits_timed [emits_intros]: "emits P m \<Longrightarrow> emits P (timed h limit m)"
  unfolding timed_def by (intro emits_bind emits_read_clock emits_by_deadline emits_ret)

section \<open>Confinement\<close>

text \<open>What a handler may do for a session: \<open>sudo\<close> as the session's user with arguments that
  \<open>A\<close> admits, commands as that user without \<open>sudo\<close> that \<open>U\<close> admits, commands as the agent
  itself, which is root, that \<open>B\<close> admits, and audit records in the user's name. It writes no file
  itself.\<close>

definition as_agent :: "(string list \<Rightarrow> bool) \<Rightarrow> command \<Rightarrow> bool" where
  "as_agent B c \<longleftrightarrow>
     (\<exists>prog args. (c = plain_command prog args \<or> (\<exists>input. c = raw_command prog args input)) \<and> B (prog # args))"

lemma as_agent_intros: "B (prog # args) \<Longrightarrow> as_agent B (plain_command prog args)"
    "B (prog # args) \<Longrightarrow> as_agent B (raw_command prog args input)"
  by (auto simp: as_agent_def)

lemma as_agent_mono: "as_agent B c \<Longrightarrow> (\<And>a. B a \<Longrightarrow> B' a) \<Longrightarrow> as_agent B' c"
  by (auto simp: as_agent_def)

definition confined ::
  "(string list \<Rightarrow> bool) \<Rightarrow> (string list \<Rightarrow> bool) \<Rightarrow> (string list \<Rightarrow> bool) \<Rightarrow> string \<Rightarrow> string \<Rightarrow> effect \<Rightarrow> bool" where
  "confined A U B user password e =
     (case e of
        Ran c \<Rightarrow>
          (\<exists>pw args. c = sudo_command user pw password args \<and> A args) \<or>
          (\<exists>pw prog args. c = user_command user pw prog args \<and> U (prog # args)) \<or>
          as_agent B c
      | Wrote _ _ \<Rightarrow> False
      | Removed _ \<Rightarrow> False
      | Audited u _ _ _ _ \<Rightarrow> u = user)"

definition nothing :: "string list \<Rightarrow> bool" where
  "nothing args \<longleftrightarrow> False"

lemma confined_sudo: "A args \<Longrightarrow> confined A U B user password (Ran (sudo_command user pw password args))"
  and confined_user: "U (prog # args) \<Longrightarrow> confined A U B user password (Ran (user_command user pw prog args))"
  and confined_plain: "B (prog # args) \<Longrightarrow> confined A U B user password (Ran (plain_command prog args))"
  and confined_raw: "B (prog # args) \<Longrightarrow> confined A U B user password (Ran (raw_command prog args input))"
  and confined_audit: "confined A U B user password (Audited user action target ok details)"
  by (auto simp: confined_def as_agent_intros)

lemmas confined_intros = confined_sudo confined_user confined_plain confined_raw confined_audit

lemma confined_mono:
  "confined A U B user password e \<Longrightarrow> (\<And>a. A a \<Longrightarrow> A' a) \<Longrightarrow> (\<And>a. U a \<Longrightarrow> U' a) \<Longrightarrow> (\<And>a. B a \<Longrightarrow> B' a) \<Longrightarrow>
   confined A' U' B' user password e"
  by (cases e) (simp_all add: confined_def, blast intro: as_agent_mono)

text \<open>The effects of a program that only asks the host.\<close>

definition queries :: "(string list \<Rightarrow> bool) \<Rightarrow> effect \<Rightarrow> bool" where
  "queries B e \<longleftrightarrow> (\<exists>c. e = Ran c \<and> as_agent B c)"

lemma queries_plain [emits_intros]:
  "B (prog # args) \<Longrightarrow> queries B (Ran (plain_command prog args))"
  "B (prog # args) \<Longrightarrow> queries B (Ran (raw_command prog args input))"
  by (auto simp: queries_def as_agent_intros)

lemma queries_confined: "queries B e \<Longrightarrow> confined A U B user password e"
  by (auto simp: queries_def confined_def)

lemma emits_queries: "emits (queries B) m \<Longrightarrow> emits (confined A U B user password) m"
  by (erule emits_mono) (rule queries_confined)

declare confined_intros [emits_intros]

text \<open>The files a handler writes or removes itself.\<close>

definition touches :: "string set \<Rightarrow> effect \<Rightarrow> bool" where
  "touches F e \<longleftrightarrow> (case e of Wrote p _ \<Rightarrow> p \<in> F | Removed p \<Rightarrow> p \<in> F | _ \<Rightarrow> False)"

lemma touches_simps [simp]:
  "touches F (Wrote p txt) \<longleftrightarrow> p \<in> F" "touches F (Removed p) \<longleftrightarrow> p \<in> F" "\<not> touches F (Ran c)"
  "\<not> touches F (Audited u a t ok d)"
  by (simp_all add: touches_def)

lemma touches_mono: "touches F e \<Longrightarrow> F \<subseteq> F' \<Longrightarrow> touches F' e"
  by (auto simp: touches_def split: effect.splits)

section \<open>Shapes the handlers share\<close>

definition ok_json :: json where
  "ok_json = JObj [(''ok'', JBool True)]"

text \<open>An early return with an error.\<close>

definition ensure :: "bool \<Rightarrow> string \<Rightarrow> ('w, json) act \<Rightarrow> ('w, json) act" where
  "ensure b e m = (if b then m else ret (jerror e))"

lemma emits_ensure [emits_intros]: "(b \<Longrightarrow> emits P m) \<Longrightarrow> emits P (ensure b e m)"
  by (simp add: ensure_def emits_ret)

text \<open>A file read as the user: with \<open>sudo\<close> when there is a password, by a command of the user's
  otherwise; None is a file that cannot be read.\<close>

definition as_reader ::
  "'w agent_host \<Rightarrow> string \<Rightarrow> string \<Rightarrow> string list \<Rightarrow> ('w, string option) act" where
  "as_reader h user password args =
     (if password \<noteq> [] then do { r \<leftarrow> sudo h user password args; ret (jget_str r ''output'') }
      else if is_valid_username h user then do {
        out \<leftarrow> run_user h user args;
        ret (case out of RanOut ok so _ \<Rightarrow> if ok then Some (from_utf8_lossy so) else None | _ \<Rightarrow> None) }
      else ret None)"

lemma emits_as_reader:
  assumes "\<And>pw. P (Ran (sudo_command user pw password args))"
    and "\<And>pw. P (Ran (user_command user pw (hd args) (tl args)))"
  shows "emits P (as_reader h user password args)"
  unfolding as_reader_def by (intro emits_if emits_bind emits_ret emits_sudo emits_run_user assms)

definition given :: "string \<Rightarrow> string option \<Rightarrow> string list" where
  "given flag x = (case x of None \<Rightarrow> [] | Some v \<Rightarrow> [flag, v])"

text \<open>The action is echoed where the answer does not name one.\<close>

definition echo_action :: "string \<Rightarrow> json \<Rightarrow> json" where
  "echo_action action r =
     (case as_object r of
        None \<Rightarrow> r
      | Some obj \<Rightarrow>
          if hm_has obj ''action'' \<or> action = [] then r else JObj (hm_put ''action'' (JStr action) obj))"

text \<open>Every changing action is followed by its audit record.\<close>

definition audited_as :: "string \<Rightarrow> string \<Rightarrow> string \<Rightarrow> ('w, json) act \<Rightarrow> ('w, json) act" where
  "audited_as user action target m = do {
     r \<leftarrow> m;
     record_audit user action target (\<not> has_error r) [];
     ret r }"

text \<open>An audited operation: its own effects, then one record that says whether it failed.\<close>

definition audited_result :: "(effect \<Rightarrow> bool) \<Rightarrow> string \<Rightarrow> json \<Rightarrow> effect list \<Rightarrow> bool" where
  "audited_result P user r es \<longleftrightarrow>
     (\<exists>es' action target. es = es' @ [Audited user action target (\<not> has_error r) []] \<and> list_all P es')"

lemma yields_audited:
  assumes "emits P m"
  shows "yields (audited_as user action target m) (audited_result P user)"
proof -
  have rec: "yields (record_audit user action target ok []) (\<lambda>_ es. es = [Audited user action target ok []])" for ok
    by (rule yieldsI) (simp add: run_simps)
  have "yields (do { record_audit user action target (\<not> has_error r) []; ret r }) (\<lambda>x es'. audited_result P user x (es @ es'))"
    if "list_all P es" for r es
    by (rule yields_bind [OF rec]) (use that in \<open>auto simp: yields_ret audited_result_def\<close>)
  then show ?thesis
    unfolding audited_as_def by (rule yields_bind [OF assms [unfolded emits_def]])
qed

lemma emits_audited_result:
  assumes "yields m (audited_result P user)" and "\<And>a t ok. P (Audited user a t ok [])"
  shows "emits P m"
  unfolding emits_def by (rule yields_mono [OF assms(1)]) (auto simp: audited_result_def assms(2))

lemma emits_audited_as [emits_intros]:
  assumes "\<And>ok. P (Audited user action target ok [])" and "emits P m"
  shows "emits P (audited_as user action target m)"
  unfolding audited_as_def by (intro emits_intros assms)

section \<open>The handlers' own \<open>sudo\<close>\<close>

text \<open>\<open>sudo -S\<close> started by the agent itself, that is by root, with the password on its input.\<close>

definition own_sudo :: "string \<Rightarrow> string list \<Rightarrow> command" where
  "own_sudo password args = raw_command ''sudo'' (''-S'' # args) (Some (password @ [NL]))"

definition spawned :: "'w agent_host \<Rightarrow> command \<Rightarrow> (string \<Rightarrow> 'a) \<Rightarrow> (child \<Rightarrow> 'a) \<Rightarrow> ('w, 'a) act" where
  "spawned h c failed done =
     State (\<lambda>w. case spawn h c w of (Inl e, w1) \<Rightarrow> (failed e, w1) | (Inr ch, w1) \<Rightarrow> (done ch, w1))"

lemma emits_spawned: "P (Ran c) \<Longrightarrow> emits P (spawned h c failed done)"
  unfolding emits_def
  by (rule yieldsI, rule exI [of _ "[Ran c]"]) (simp add: spawned_def spawn_def split: prod.splits sum.splits)

text \<open>Its messages, without the prompts.\<close>

definition no_prompts :: "string \<Rightarrow> string" where
  "no_prompts e = join [NL] (filter (\<lambda>l. \<not> contains_str ''[sudo]'' l \<and> \<not> contains_str ''password for'' l) (lines e))"

end
