(* ===== verification/Handlers.thy ===== *)
theory Handlers
  imports Superuser Host
begin

text \<open>
  The shapes of the agent's handlers over programs, above all: one that answers an open with one
  message and closes, and one that stays open and answers each data message. Both satisfy the
  contracts of \<open>AgentRouter\<close> for any program; the contract added here bounds what a handler does
  to the host by the user it acts for.
\<close>

section \<open>Shapes\<close>

definition answering :: "string \<Rightarrow> (open_options \<Rightarrow> ('w, json) act) \<Rightarrow> 'w agent_state handler" where
  "answering name f =
     \<lparr>hd_payload = name, hd_streaming = False,
      hd_open = (\<lambda>ch o' s. case in_world (f o') s of (d, s1) \<Rightarrow> (one_shot ch d, s1)),
      hd_data = no_data\<rparr>"

definition conversing :: "string \<Rightarrow> (json \<Rightarrow> ('w, json) act) \<Rightarrow> 'w agent_state handler" where
  "conversing name f =
     \<lparr>hd_payload = name, hd_streaming = False,
      hd_open = (\<lambda>ch o' s. ([Ready ch], s)),
      hd_data = (\<lambda>ch data s. case in_world (f data) s of (d, s1) \<Rightarrow> ([Data ch d], s1))\<rparr>"

text \<open>A program that may panic (None): a panic in \<open>open\<close> unwinds through the router into the task that
  reads the connection, the agent's main task.\<close>

definition answering_or_panic :: "string \<Rightarrow> (open_options \<Rightarrow> ('w, json option) act) \<Rightarrow> 'w agent_state handler" where
  "answering_or_panic name f =
     \<lparr>hd_payload = name, hd_streaming = False,
      hd_open = (\<lambda>ch o' s. case in_world (f o') s of
                   (Some d, s1) \<Rightarrow> (one_shot ch d, s1)
                 | (None, s1) \<Rightarrow> ([], s1\<lparr>st_crashed := True\<rparr>)),
      hd_data = no_data\<rparr>"

definition conversing_or_panic :: "string \<Rightarrow> (json \<Rightarrow> ('w, json option) act) \<Rightarrow> 'w agent_state handler" where
  "conversing_or_panic name f =
     \<lparr>hd_payload = name, hd_streaming = False,
      hd_open = (\<lambda>ch o' s. ([Ready ch], s)),
      hd_data = (\<lambda>ch data s. case in_world (f data) s of
                   (Some d, s1) \<Rightarrow> ([Data ch d], s1)
                 | (None, s1) \<Rightarrow> ([], s1\<lparr>st_crashed := True\<rparr>))\<rparr>"

text \<open>One that closes with its answer to a data message; one of its kind answers already when it is
  opened, and closes then.\<close>

definition closing ::
  "string \<Rightarrow> (open_options \<Rightarrow> ('w, json option) act) \<Rightarrow> (json \<Rightarrow> ('w, json) act) \<Rightarrow> 'w agent_state handler" where
  "closing name fo f =
     \<lparr>hd_payload = name, hd_streaming = False,
      hd_open = (\<lambda>ch o' s. case in_world (fo o') s of
                   (d, s1) \<Rightarrow> (case d of None \<Rightarrow> [Ready ch] | Some x \<Rightarrow> one_shot ch x, s1)),
      hd_data = (\<lambda>ch data s. case in_world (f data) s of (d, s1) \<Rightarrow> ([Data ch d, Close ch None], s1))\<rparr>"

text \<open>One that tells something when it is opened and then answers each data message.\<close>

definition greeting ::
  "string \<Rightarrow> ('w, json) act \<Rightarrow> (json \<Rightarrow> ('w, json) act) \<Rightarrow> 'w agent_state handler" where
  "greeting name m f =
     \<lparr>hd_payload = name, hd_streaming = False,
      hd_open = (\<lambda>ch o' s. case in_world m s of (d, s1) \<Rightarrow> ([Ready ch, Data ch d], s1)),
      hd_data = (\<lambda>ch data s. case in_world (f data) s of (d, s1) \<Rightarrow> ([Data ch d], s1))\<rparr>"

text \<open>\<open>if let Some(err) = require_admin(...) { err } else { ... }\<close>\<close>

definition admin_only :: "json \<Rightarrow> ('w, json) act \<Rightarrow> ('w, json) act" where
  "admin_only data m = (case require_admin_role data of Some err \<Rightarrow> ret err | None \<Rightarrow> m)"

definition options_json :: "open_options \<Rightarrow> json" where
  "options_json o' = JObj (extra o')"

lemma options_json_fields [simp]:
  "jget_str (options_json o') k = map_str (extra o') k"
  "str_field (options_json o') k = opt_str o' k"
  by (simp_all add: options_json_def str_field_def opt_str_def)

lemma admin_only_cases:
  "admin_only data m = (if jget_str data ''_role'' = Some ''admin'' then m else ret denied)"
  by (simp add: admin_only_def require_admin_role_def)

lemma emits_admin_only [emits_intros]: "emits P m \<Longrightarrow> emits P (admin_only data m)"
  by (simp add: admin_only_cases emits_ret)

lemma shapes_payload [simp]:
  "hd_payload (answering name f) = name" "hd_payload (conversing name g) = name"
  "hd_payload (answering_or_panic name f') = name" "hd_payload (conversing_or_panic name g') = name"
  "hd_payload (closing name fo g) = name" "hd_payload (greeting name m g) = name"
  "\<not> hd_streaming (answering name f)" "\<not> hd_streaming (conversing name g)"
  "\<not> hd_streaming (answering_or_panic name f')" "\<not> hd_streaming (conversing_or_panic name g')"
  "\<not> hd_streaming (closing name fo g)" "\<not> hd_streaming (greeting name m g)"
  by (simp_all add: greeting_def answering_def conversing_def answering_or_panic_def conversing_or_panic_def closing_def)

lemma answering_open:
  "hd_open (answering name f) ch o' s =
     (one_shot ch (fst (run_state (f o') (st_world s))), s\<lparr>st_world := snd (run_state (f o') (st_world s))\<rparr>)"
  by (simp add: answering_def run_simps)

lemma answering_or_panic_open:
  "hd_open (answering_or_panic name f) ch o' s =
     (case fst (run_state (f o') (st_world s)) of
        Some d \<Rightarrow> (one_shot ch d, s\<lparr>st_world := snd (run_state (f o') (st_world s))\<rparr>)
      | None \<Rightarrow> ([], s\<lparr>st_world := snd (run_state (f o') (st_world s)), st_crashed := True\<rparr>))"
  by (simp add: answering_or_panic_def run_simps split: option.split)

lemma answering_or_panic_data: "hd_data (answering_or_panic name f) ch d s = ([], s)"
  by (simp add: answering_or_panic_def no_data_def)

lemma answering_data: "hd_data (answering name f) ch d s = ([], s)"
  by (simp add: answering_def no_data_def)

lemma conversing_open: "hd_open (conversing name f) ch o' s = ([Ready ch], s)"
  by (simp add: conversing_def)

lemma conversing_data:
  "hd_data (conversing name f) ch d s =
     ([Data ch (fst (run_state (f d) (st_world s)))], s\<lparr>st_world := snd (run_state (f d) (st_world s))\<rparr>)"
  by (simp add: conversing_def run_simps)

lemma conversing_or_panic_open: "hd_open (conversing_or_panic name f) ch o' s = ([Ready ch], s)"
  by (simp add: conversing_or_panic_def)

lemma conversing_or_panic_data:
  "hd_data (conversing_or_panic name f) ch d s =
     (case fst (run_state (f d) (st_world s)) of
        Some r \<Rightarrow> ([Data ch r], s\<lparr>st_world := snd (run_state (f d) (st_world s))\<rparr>)
      | None \<Rightarrow> ([], s\<lparr>st_world := snd (run_state (f d) (st_world s)), st_crashed := True\<rparr>))"
  by (simp add: conversing_or_panic_def run_simps split: option.split)

lemma closing_open:
  "hd_open (closing name fo f) ch o' s =
     (case fst (run_state (fo o') (st_world s)) of None \<Rightarrow> [Ready ch] | Some x \<Rightarrow> one_shot ch x,
      s\<lparr>st_world := snd (run_state (fo o') (st_world s))\<rparr>)"
  by (simp add: closing_def run_simps)

lemma closing_data:
  "hd_data (closing name fo f) ch d s =
     ([Data ch (fst (run_state (f d) (st_world s))), Close ch None], s\<lparr>st_world := snd (run_state (f d) (st_world s))\<rparr>)"
  by (simp add: closing_def run_simps)

lemma greeting_open:
  "hd_open (greeting name m f) ch o' s =
     ([Ready ch, Data ch (fst (run_state m (st_world s)))], s\<lparr>st_world := snd (run_state m (st_world s))\<rparr>)"
  by (simp add: greeting_def run_simps)

lemma greeting_data:
  "hd_data (greeting name m f) ch d s =
     ([Data ch (fst (run_state (f d) (st_world s)))], s\<lparr>st_world := snd (run_state (f d) (st_world s))\<rparr>)"
  by (simp add: greeting_def run_simps)

lemmas shape_simps = greeting_open greeting_data closing_open closing_data conversing_or_panic_open conversing_or_panic_data answering_or_panic_open answering_or_panic_data answering_open answering_data conversing_open conversing_data

interpretation answering: oneshot_handler "answering name f"
  by unfold_locales (auto simp: answering_open)

interpretation answering_admin: admin_handler "answering name (\<lambda>o'. admin_only (options_json o') (f o'))"
  by unfold_locales (simp add: answering_open admin_only_cases run_simps)

section \<open>Bounded effects\<close>

text \<open>What a handler does to the host, read as whom it acts for: a command takes the user's own
  identity, or is one the agent may run itself on that user's behalf; audit records name the user;
  no file is written by the agent itself.\<close>

definition acts_as :: "(string \<Rightarrow> string list \<Rightarrow> bool) \<Rightarrow> string \<Rightarrow> effect \<Rightarrow> bool" where
  "acts_as B user e =
     (case e of
        Ran c \<Rightarrow> (\<exists>uid gid. cm_as c = Some (user, uid, gid)) \<or> as_agent (B user) c
      | Wrote _ _ \<Rightarrow> False
      | Removed _ \<Rightarrow> False
      | Audited u _ _ _ _ \<Rightarrow> u = user)"

lemma confined_acts_as: "confined A U (B user) user password e \<Longrightarrow> acts_as B user e"
  by (auto simp: confined_def acts_as_def sudo_command_def user_command_def split: effect.splits)

lemma queries_acts_as: "queries (B user) e \<Longrightarrow> acts_as B user e"
  by (auto simp: queries_def acts_as_def)

lemma acts_as_mono: "acts_as B user e \<Longrightarrow> (\<And>a. B user a \<Longrightarrow> B' user a) \<Longrightarrow> acts_as B' user e"
  by (auto simp: acts_as_def intro: as_agent_mono split: effect.splits)

locale bounded_handler =
  fixes h :: "'w agent_state handler" and P :: "string \<Rightarrow> string \<Rightarrow> effect \<Rightarrow> bool"
  assumes open_effects: "hd_open h ch o' s = (out, s') \<Longrightarrow>
      \<exists>es. w_log (st_world s') = w_log (st_world s) @ es \<and>
        list_all (P (opt_str o' ''_user'') (opt_str o' ''password'')) es"
    and data_effects: "hd_data h ch d s = (out, s') \<Longrightarrow>
      \<exists>es. w_log (st_world s') = w_log (st_world s) @ es \<and>
        list_all (P (str_field d ''_user'') (str_field d ''password'')) es"
begin

text \<open>So a message handled by it acts for the identity the router has for the channel.\<close>

lemma handled_open:
  assumes "hm_get (rt_handlers r) (payload o') = Some h" and "handle (Open ch o') r s = (out, tasks, r', s')"
  shows "\<exists>es. w_log (st_world s') = w_log (st_world s) @ es \<and>
    list_all (P (opt_str o' ''_user'') (opt_str o' ''password'')) es"
proof -
  from assms(2) have "handle_open ch o' r s = (out, tasks, r', s')" by (simp add: handle_def)
  then show ?thesis
    by (cases rule: handle_open_cases) (use assms(1) open_effects in auto)
qed

lemma handled_data:
  assumes "data_handler r ch = Some h" and "handle (Data ch d) r s = (out, tasks, r', s')"
    and "e = enrich_data (hm_get (rt_options r) ch) d"
  shows "\<exists>es. w_log (st_world s') = w_log (st_world s) @ es \<and>
    list_all (P (str_field e ''_user'') (str_field e ''password'')) es"
  using assms data_effects by (auto simp: handle_def handle_data_def split: prod.splits)

end

lemma bounded_answering:
  assumes "\<And>o'. emits (P (opt_str o' ''_user'') (opt_str o' ''password'')) (f o')"
  shows "bounded_handler (answering name f) P"
  using emits_log [OF assms] by unfold_locales (auto simp: shape_simps)

lemma bounded_answering_or_panic:
  assumes "\<And>o'. emits (P (opt_str o' ''_user'') (opt_str o' ''password'')) (f o')"
  shows "bounded_handler (answering_or_panic name f) P"
  using emits_log [OF assms] by unfold_locales (auto simp: shape_simps split: option.splits)

lemma bounded_conversing:
  assumes "\<And>d. emits (P (str_field d ''_user'') (str_field d ''password'')) (f d)"
  shows "bounded_handler (conversing name f) P"
  using emits_log [OF assms] by unfold_locales (auto simp: shape_simps)

lemma bounded_conversing_or_panic:
  assumes "\<And>d. emits (P (str_field d ''_user'') (str_field d ''password'')) (f d)"
  shows "bounded_handler (conversing_or_panic name f) P"
  using emits_log [OF assms] by unfold_locales (auto simp: shape_simps split: option.splits)

lemma bounded_closing:
  assumes "\<And>o'. emits (P (opt_str o' ''_user'') (opt_str o' ''password'')) (fo o')"
    and "\<And>d. emits (P (str_field d ''_user'') (str_field d ''password'')) (f d)"
  shows "bounded_handler (closing name fo f) P"
  using emits_log [OF assms(1)] emits_log [OF assms(2)] by unfold_locales (auto simp: shape_simps)

lemma bounded_greeting:
  assumes "\<And>user password. emits (P user password) m"
    and "\<And>d. emits (P (str_field d ''_user'') (str_field d ''password'')) (f d)"
  shows "bounded_handler (greeting name m f) P"
  using emits_log [OF assms(1)] emits_log [OF assms(2)] by unfold_locales (auto simp: shape_simps)

lemma bounded_mono:
  assumes "bounded_handler h P" and "\<And>u p e. P u p e \<Longrightarrow> P' u p e"
  shows "bounded_handler h P'"
proof -
  have "list_all (P u p) es \<Longrightarrow> list_all (P' u p) es" for u p es
    by (erule list.pred_mono_strong) (rule assms(2))
  with assms(1) show ?thesis unfolding bounded_handler_def by blast
qed

section \<open>Sessions without the admin role\<close>

text \<open>A handler that, for anyone but an administrator, at most asks the host.\<close>

locale reading_handler =
  fixes h :: "'w agent_state handler" and Q :: "effect \<Rightarrow> bool"
  assumes open_reads: "map_str (extra o') ''_role'' \<noteq> Some ''admin'' \<Longrightarrow> hd_open h ch o' s = (out, s') \<Longrightarrow>
      \<exists>es. w_log (st_world s') = w_log (st_world s) @ es \<and> list_all Q es"
    and data_reads: "jget_str d ''_role'' \<noteq> Some ''admin'' \<Longrightarrow> hd_data h ch d s = (out, s') \<Longrightarrow>
      \<exists>es. w_log (st_world s') = w_log (st_world s) @ es \<and> list_all Q es"
begin

lemma read_open:
  assumes "hm_get (rt_handlers r) (payload o') = Some h" and "map_str (extra o') ''_role'' \<noteq> Some ''admin''"
    and "handle (Open ch o') r s = (out, tasks, r', s')"
  shows "\<exists>es. w_log (st_world s') = w_log (st_world s) @ es \<and> list_all Q es"
proof -
  from assms(3) have "handle_open ch o' r s = (out, tasks, r', s')" by (simp add: handle_def)
  then show ?thesis
    by (cases rule: handle_open_cases) (use assms(1,2) open_reads in auto)
qed

lemma read_data:
  assumes "data_handler r ch = Some h" and "handle (Data ch d) r s = (out, tasks, r', s')"
    and "jget_str (enrich_data (hm_get (rt_options r) ch) d) ''_role'' \<noteq> Some ''admin''"
  shows "\<exists>es. w_log (st_world s') = w_log (st_world s) @ es \<and> list_all Q es"
  using assms data_reads by (auto simp: handle_def handle_data_def split: prod.splits)

end

lemma reading_answering:
  assumes "\<And>o'. map_str (extra o') ''_role'' \<noteq> Some ''admin'' \<Longrightarrow> emits Q (f o')"
  shows "reading_handler (answering name f) Q"
  using emits_log [OF assms] by unfold_locales (auto simp: shape_simps)

lemma reading_answering_or_panic:
  assumes "\<And>o'. map_str (extra o') ''_role'' \<noteq> Some ''admin'' \<Longrightarrow> emits Q (f o')"
  shows "reading_handler (answering_or_panic name f) Q"
  using emits_log [OF assms] by unfold_locales (auto simp: shape_simps split: option.splits)

lemma reading_conversing:
  assumes "\<And>d. jget_str d ''_role'' \<noteq> Some ''admin'' \<Longrightarrow> emits Q (f d)"
  shows "reading_handler (conversing name f) Q"
  using emits_log [OF assms] by unfold_locales (auto simp: shape_simps)

lemma reading_conversing_or_panic:
  assumes "\<And>d. jget_str d ''_role'' \<noteq> Some ''admin'' \<Longrightarrow> emits Q (f d)"
  shows "reading_handler (conversing_or_panic name f) Q"
  using emits_log [OF assms] by unfold_locales (auto simp: shape_simps split: option.splits)

lemma reading_closing:
  assumes "\<And>o'. map_str (extra o') ''_role'' \<noteq> Some ''admin'' \<Longrightarrow> emits Q (fo o')"
    and "\<And>d. jget_str d ''_role'' \<noteq> Some ''admin'' \<Longrightarrow> emits Q (f d)"
  shows "reading_handler (closing name fo f) Q"
  using emits_log [OF assms(1)] emits_log [OF assms(2)] by unfold_locales (auto simp: shape_simps)

lemma reading_mono:
  assumes "reading_handler h Q" and "\<And>e. Q e \<Longrightarrow> Q' e"
  shows "reading_handler h Q'"
proof -
  have "list_all Q es \<Longrightarrow> list_all Q' es" for es
    by (erule list.pred_mono_strong) (rule assms(2))
  with assms(1) show ?thesis unfolding reading_handler_def by blast
qed

text \<open>For others than administrators, an operation behind the guard is the refusal.\<close>

lemma emits_refused: "jget_str data ''_role'' \<noteq> Some ''admin'' \<Longrightarrow> emits Q (admin_only data m)"
  by (simp add: admin_only_cases emits_ret)

section \<open>superuser.verify\<close>

lemma check_password_log:
  "\<exists>ok. w_log (st_world (snd (check_password h user password s))) =
     w_log (st_world s) @ sudo_log h user password [''-v''] @ [Audited user ''superuser.verify'' [] ok []]"
  using sudo_as_user_log [of h user password "[''-v'']" "st_world s"]
  by (simp add: check_password_def verify_password_def Let_def split_beta)

lemma verify_answer_log:
  "\<exists>es. w_log (st_world (snd (verify_answer h user password s))) = w_log (st_world s) @ es \<and> list_all (runs_as user) es"
proof -
  obtain locked m where lk: "is_locked_out (ah_clock h (w_os (st_world s))) user (st_lockout s) = (locked, m)"
    by fastforce
  show ?thesis
  proof (cases "password = [] \<or> user = [] \<or> locked")
    case True
    then show ?thesis by (auto simp: verify_answer_def lk)
  next
    case False
    then have "snd (verify_answer h user password s) = snd (check_password h user password (s\<lparr>st_lockout := m\<rparr>))"
      by (simp add: verify_answer_def lk)
    moreover have "list_all (runs_as user) (sudo_log h user password [''-v''])"
      by (simp add: list_all_iff sudo_log_runs_as)
    ultimately show ?thesis
      using check_password_log [of h user password "s\<lparr>st_lockout := m\<rparr>"] by auto
  qed
qed

interpretation superuser_verify: bounded_handler "superuser_verify h" "\<lambda>user _. runs_as user"
proof (unfold_locales, goal_cases)
  case (1 ch o' s out s')
  then have "s' = snd (verify_answer h (opt_str o' ''_user'') (opt_str o' ''password'') s)"
    by (auto simp: superuser_verify_def split: prod.splits)
  then show ?case using verify_answer_log by simp
qed (simp add: superuser_verify_def no_data_def)

end
