(* ===== verification/Paths.thy ===== *)
theory Paths
  imports RustStr
begin

text \<open>
  The parts of \<open>std::path::Path\<close> on Unix that the agent uses: a path by its components, whose
  comparison ignores empty and dot components, and the joining of paths.
\<close>

datatype component = RootDir | CurDir | ParentDir | Normal string

definition components :: "string \<Rightarrow> component list" where
  "components p =
     (let ps = split_on (CHR ''/'') p
      in (if starts_with ''/'' p then [RootDir] else if hd ps = ''.'' then [CurDir] else [])
         @ map (\<lambda>s. if s = ''..'' then ParentDir else Normal s) (filter (\<lambda>s. s \<noteq> [] \<and> s \<noteq> ''.'') ps))"

definition path_parent :: "component list \<Rightarrow> component list option" where
  "path_parent cs = (if cs = [] \<or> last cs = RootDir then None else Some (butlast cs))"

definition path_file_name :: "component list \<Rightarrow> string option" where
  "path_file_name cs = (if cs = [] then None else case last cs of Normal n \<Rightarrow> Some n | _ \<Rightarrow> None)"

definition path_starts_with :: "string \<Rightarrow> string \<Rightarrow> bool" where
  "path_starts_with base p \<longleftrightarrow> take (length (components base)) (components p) = components base"

definition path_join :: "string \<Rightarrow> string \<Rightarrow> string" where
  "path_join base p =
     (if starts_with ''/'' p \<or> base = [] then p
      else if last base = CHR ''/'' then base @ p else base @ ''/'' @ p)"

text \<open>The text of the components up to the last one, as \<open>parent\<close> and \<open>file_name\<close> give it.\<close>

definition component_text :: "component \<Rightarrow> string" where
  "component_text c = (case c of RootDir \<Rightarrow> ''/'' | CurDir \<Rightarrow> ''.'' | ParentDir \<Rightarrow> ''..'' | Normal n \<Rightarrow> n)"

definition path_text :: "component list \<Rightarrow> string" where
  "path_text cs =
     (case cs of RootDir # rest \<Rightarrow> ''/'' @ join ''/'' (map component_text rest)
      | _ \<Rightarrow> join ''/'' (map component_text cs))"

end
