(* ===== verification/Cron.thy ===== *)
theory Cron
  imports Handlers Paths "HOL-Library.List_Lexorder" "HOL-Library.Char_ord"
begin

text \<open>
  \<open>cron.list\<close> and \<open>cron.manage\<close> (\<open>agent/src/handlers/cron.rs\<close>): reading the system's and the
  users' crontabs, and writing them through \<open>sudo\<close> as the session's user.
\<close>

section \<open>Parsing crontabs\<close>

record cron_entry =
  ce_schedule :: string
  ce_user :: string
  ce_command :: string
  ce_comment :: string

definition parse_system_line :: "string \<Rightarrow> string \<Rightarrow> cron_entry option" where
  "parse_system_line line comment =
     (let tokens = split_whitespace line
      in if tokens = [] then None
         else if starts_with ''@'' (tokens ! 0) then
           (if length tokens < 3 then None
            else Some \<lparr>ce_schedule = tokens ! 0, ce_user = tokens ! 1,
                       ce_command = join '' '' (drop 2 tokens), ce_comment = comment\<rparr>)
         else if length tokens < 7 then None
         else Some \<lparr>ce_schedule = join '' '' (take 5 tokens), ce_user = tokens ! 5,
                    ce_command = join '' '' (drop 6 tokens), ce_comment = comment\<rparr>)"

definition parse_user_line :: "string \<Rightarrow> string \<Rightarrow> string \<Rightarrow> cron_entry option" where
  "parse_user_line username line comment =
     (let tokens = split_whitespace line
      in if tokens = [] then None
         else if starts_with ''@'' (tokens ! 0) then
           (if length tokens < 2 then None
            else Some \<lparr>ce_schedule = tokens ! 0, ce_user = username,
                       ce_command = join '' '' (drop 1 tokens), ce_comment = comment\<rparr>)
         else if length tokens < 6 then None
         else Some \<lparr>ce_schedule = join '' '' (take 5 tokens), ce_user = username,
                    ce_command = join '' '' (drop 5 tokens), ce_comment = comment\<rparr>)"

definition is_env_assignment :: "string \<Rightarrow> bool" where
  "is_env_assignment t =
     (case split_once (CHR ''='') t of
        None \<Rightarrow> False
      | Some (before, _) \<Rightarrow> list_all (\<lambda>c. is_ascii_alphanumeric c \<or> c = CHR ''_'') before)"

definition add_comment :: "string \<Rightarrow> string \<Rightarrow> string" where
  "add_comment pending c = (if c = [] then pending else if pending = [] then c else pending @ '' '' @ c)"

text \<open>The loop that both parsers share, over the remaining lines with the pending comment.\<close>

fun parse_crontab :: "(string \<Rightarrow> string \<Rightarrow> cron_entry option) \<Rightarrow> string \<Rightarrow> string list \<Rightarrow> cron_entry list" where
  "parse_crontab parse pending [] = []"
| "parse_crontab parse pending (line # ls) =
     (let t = trim line
      in if starts_with ''#'' t
         then parse_crontab parse (add_comment pending (trim (trim_start_matches (CHR ''#'') t))) ls
         else if t = [] \<or> is_env_assignment t then parse_crontab parse [] ls
         else (case parse t pending of Some e \<Rightarrow> [e] | None \<Rightarrow> []) @ parse_crontab parse [] ls)"

definition parse_system_crontab :: "string \<Rightarrow> cron_entry list" where
  "parse_system_crontab txt = parse_crontab parse_system_line [] (lines txt)"

definition parse_user_crontab :: "string \<Rightarrow> string \<Rightarrow> cron_entry list" where
  "parse_user_crontab txt username = parse_crontab (parse_user_line username) [] (lines txt)"

section \<open>Listing\<close>

record cron_source =
  cs_source :: string
  cs_path :: string
  cs_type :: string
  cs_user :: "string option"
  cs_content :: string
  cs_entries :: "cron_entry list"

definition entry_json :: "cron_entry \<Rightarrow> json" where
  "entry_json e = JObj [(''schedule'', JStr (ce_schedule e)), (''user'', JStr (ce_user e)),
     (''command'', JStr (ce_command e)), (''comment'', JStr (ce_comment e))]"

definition source_json :: "cron_source \<Rightarrow> json" where
  "source_json c = JObj [(''source'', JStr (cs_source c)), (''path'', JStr (cs_path c)),
     (''source_type'', JStr (cs_type c)), (''user'', jopt_str (cs_user c)),
     (''content'', JStr (cs_content c)), (''entries'', JArr (map entry_json (cs_entries c)))]"

definition system_source :: "'w agent_host \<Rightarrow> 'w world \<Rightarrow> string \<Rightarrow> cron_source list" where
  "system_source h w path =
     (case ah_read h (w_os w) path of
        None \<Rightarrow> []
      | Some txt \<Rightarrow> [\<lparr>cs_source = path, cs_path = path, cs_type = ''system_file'', cs_user = None,
                      cs_content = txt, cs_entries = parse_system_crontab txt\<rparr>])"

definition system_sources :: "'w agent_host \<Rightarrow> 'w world \<Rightarrow> cron_source list" where
  "system_sources h w =
     system_source h w ''/etc/crontab'' @
     (case ah_dir h (w_os w) ''/etc/cron.d'' of
        None \<Rightarrow> []
      | Some names \<Rightarrow>
          concat (map (\<lambda>name. system_source h w (''/etc/cron.d/'' @ name))
            (sort (filter (\<lambda>n. \<not> starts_with ''.'' n \<and> \<not> ends_with ''~'' n) names))))"

definition user_crontab :: "string \<Rightarrow> string \<Rightarrow> cron_source list" where
  "user_crontab username txt =
     (if trim txt = [] \<or> starts_with ''no crontab'' (trim_start txt) then []
      else [\<lparr>cs_source = ''crontab:'' @ username, cs_path = [], cs_type = ''user_crontab'',
             cs_user = Some username, cs_content = txt, cs_entries = parse_user_crontab txt username\<rparr>])"

definition get_crontab_users ::
  "'w agent_host \<Rightarrow> string \<Rightarrow> string \<Rightarrow> 'w world \<Rightarrow> string list \<times> 'w world" where
  "get_crontab_users h user password w =
     (case sudo_as_user h user password [''ls'', ''/var/spool/cron/crontabs''] w of
        (res, w1) \<Rightarrow>
          ((case jget_str res ''output'' of
              Some out \<Rightarrow> sort (filter (\<lambda>l. l \<noteq> []) (lines out)) | None \<Rightarrow> []), w1))"

fun read_crontabs ::
  "'w agent_host \<Rightarrow> string \<Rightarrow> string \<Rightarrow> string list \<Rightarrow> 'w world \<Rightarrow> cron_source list \<times> 'w world" where
  "read_crontabs h user password [] w = ([], w)"
| "read_crontabs h user password (u # us) w =
     (let (res, w1) = sudo_as_user h user password [''crontab'', ''-u'', u, ''-l''] w;
          here = (case jget_str res ''output'' of Some txt \<Rightarrow> user_crontab u txt | None \<Rightarrow> []);
          (rest, w2) = read_crontabs h user password us w1
      in (here @ rest, w2))"

definition user_sources :: "'w agent_host \<Rightarrow> string \<Rightarrow> string \<Rightarrow> 'w world \<Rightarrow> cron_source list \<times> 'w world" where
  "user_sources h user password w =
     (if password \<noteq> [] then
        (let (us, w1) = get_crontab_users h user password w in read_crontabs h user password us w1)
      else if is_valid_username h user then
        (case run_cmd_as_user h user [''crontab'', ''-l''] w of
           (RanOut True out _, w1) \<Rightarrow> (user_crontab user (from_utf8_lossy out), w1)
         | (_, w1) \<Rightarrow> ([], w1))
      else ([], w))"

definition list_cron_jobs :: "'w agent_host \<Rightarrow> string \<Rightarrow> string \<Rightarrow> 'w world \<Rightarrow> json \<times> 'w world" where
  "list_cron_jobs h user password w =
     (let (us, w1) = user_sources h user password w
      in (JObj [(''sources'', JArr (map source_json (system_sources h w @ us))),
                (''others_hidden'', JBool (password = []))], w1))"

definition cron_list :: "'w agent_host \<Rightarrow> 'w agent_state handler" where
  "cron_list h =
     \<lparr>hd_payload = ''cron.list'', hd_streaming = False,
      hd_open = (\<lambda>ch o' s. case with_world (list_cron_jobs h (opt_str o' ''_user'') (opt_str o' ''password'')) s of
                   (d, s1) \<Rightarrow> (one_shot ch d, s1)),
      hd_data = no_data\<rparr>"

interpretation cron_list: oneshot_handler "cron_list h"
  by unfold_locales (auto simp: cron_list_def split: prod.splits)

section \<open>Managing\<close>

definition cron_name_char :: "char \<Rightarrow> bool" where
  "cron_name_char c \<longleftrightarrow> is_ascii_alphanumeric c \<or> c \<in> set ''-_.''"

definition is_safe_cron_path :: "string \<Rightarrow> bool" where
  "is_safe_cron_path path =
     (let p = components path
      in if p = [RootDir, Normal ''etc'', Normal ''crontab''] then True
         else path_parent p = Some [RootDir, Normal ''etc'', Normal ''cron.d''] \<and>
              (case path_file_name p of Some name \<Rightarrow> list_all cron_name_char name | None \<Rightarrow> False))"

definition is_safe_username :: "string \<Rightarrow> bool" where
  "is_safe_username name \<longleftrightarrow> name \<noteq> [] \<and> list_all cron_name_char name"

text \<open>The audited write that both actions end with.\<close>

definition audited_write ::
  "'w agent_host \<Rightarrow> string \<Rightarrow> string \<Rightarrow> string list \<Rightarrow> string \<Rightarrow> string \<Rightarrow> string \<Rightarrow> 'w world \<Rightarrow> json \<times> 'w world" where
  "audited_write h user password args txt action target w =
     (case sudo_stdin_write_as_user h user password args txt w of
        (r, w1) \<Rightarrow> (r, audit user action target (unwrap_or False (jget_bool r ''ok'')) [] w1))"

definition cron_action :: "'w agent_host \<Rightarrow> json \<Rightarrow> 'w world \<Rightarrow> json \<times> 'w world" where
  "cron_action h data w =
     (let str = (\<lambda>k. unwrap_or [] (jget_str data k));
          action = str ''action''; user = str ''_user''; password = str ''password''
      in if action = ''set_user_crontab'' then
           (let target = unwrap_or user (jget_str data ''target_user'')
            in if \<not> is_safe_username target then (not_ok ''invalid username'', w)
               else audited_write h user password [''crontab'', ''-u'', target, ''-''] (str ''content'')
                      ''cron.set'' target w)
         else if action = ''write_system_file'' then
           (let path = str ''path''
            in if \<not> is_safe_cron_path path then (not_ok ''invalid path'', w)
               else audited_write h user password [''tee'', path] (str ''content'') ''cron.write'' path w)
         else (not_ok (''unknown action: '' @ action), w))"

definition cron_answer :: "'w agent_host \<Rightarrow> json \<Rightarrow> 'w world \<Rightarrow> json \<times> 'w world" where
  "cron_answer h data w =
     (case require_admin_role data of Some err \<Rightarrow> (err, w) | None \<Rightarrow> cron_action h data w)"

definition cron_manage :: "'w agent_host \<Rightarrow> 'w agent_state handler" where
  "cron_manage h =
     \<lparr>hd_payload = ''cron.manage'', hd_streaming = False,
      hd_open = (\<lambda>ch o' s. case with_world (cron_answer h (JObj (extra o'))) s of (d, s1) \<Rightarrow> (one_shot ch d, s1)),
      hd_data = no_data\<rparr>"

interpretation cron_manage: admin_handler "cron_manage h"
  by unfold_locales
     (auto simp: cron_manage_def cron_answer_def with_world_def require_admin_role_def split: prod.splits)

section \<open>What managing can do\<close>

definition cron_target :: "string list \<Rightarrow> bool" where
  "cron_target args \<longleftrightarrow>
     (\<exists>u. args = [''crontab'', ''-u'', u, ''-''] \<and> is_safe_username u) \<or>
     (\<exists>p. args = [''tee'', p] \<and>
        (components p = [RootDir, Normal ''etc'', Normal ''crontab''] \<or>
         (\<exists>n. components p = [RootDir, Normal ''etc'', Normal ''cron.d'', Normal n] \<and> list_all cron_name_char n)))"

lemma safe_path_target:
  assumes "is_safe_cron_path p"
  shows "cron_target [''tee'', p]"
proof (cases "components p = [RootDir, Normal ''etc'', Normal ''crontab'']")
  case False
  with assms obtain n where dir: "path_parent (components p) = Some [RootDir, Normal ''etc'', Normal ''cron.d'']"
    and n: "path_file_name (components p) = Some n" "list_all cron_name_char n"
    by (auto simp: is_safe_cron_path_def Let_def split: option.splits if_splits)
  from dir have "components p \<noteq> []" "butlast (components p) = [RootDir, Normal ''etc'', Normal ''cron.d'']"
    by (auto simp: path_parent_def split: if_splits)
  moreover have "last (components p) = Normal n"
    using n(1) by (auto simp: path_file_name_def split: if_splits component.splits)
  ultimately have "components p = [RootDir, Normal ''etc'', Normal ''cron.d'', Normal n]"
    by (metis append_butlast_last_id append_Cons append_Nil)
  with n(2) show ?thesis by (auto simp: cron_target_def)
qed (simp add: cron_target_def)

lemma audited_write_log:
  "w_log (snd (audited_write h user password args txt action target w)) =
   w_log w @ sudo_log h user password [''sh'', ''-c'', write_script (ah_b64 h) args txt] @
     [Audited user action target
        (unwrap_or False (jget_bool (fst (sudo_stdin_write_as_user h user password args txt w)) ''ok'')) []]"
  using sudo_stdin_write_log [of h user password args "txt" w]
  by (simp add: audited_write_def split_beta)

text \<open>One action runs nothing, or one script as the session's user, and says so in the audit log.\<close>

definition cron_effects :: "'w agent_host \<Rightarrow> string \<Rightarrow> string \<Rightarrow> effect list \<Rightarrow> bool" where
  "cron_effects h user password es \<longleftrightarrow> es = [] \<or>
     (\<exists>args txt action target ok. cron_target args \<and>
        es = sudo_log h user password [''sh'', ''-c'', write_script (ah_b64 h) args txt] @ [Audited user action target ok []])"

lemma cron_answer_effects:
  "\<exists>es. w_log (snd (cron_answer h data w)) = w_log w @ es \<and>
     cron_effects h (unwrap_or [] (jget_str data ''_user'')) (unwrap_or [] (jget_str data ''password'')) es \<and>
     (jget_str data ''_role'' \<noteq> Some ''admin'' \<longrightarrow> es = [])"
proof (cases "jget_str data ''_role'' = Some ''admin''")
  case True
  have "cron_target [''crontab'', ''-u'', u, ''-'']" if "is_safe_username u" for u
    using that by (simp add: cron_target_def)
  with True show ?thesis
    using safe_path_target
    by (simp add: cron_answer_def require_admin_role_def cron_action_def Let_def audited_write_log cron_effects_def
        split: if_split) blast
qed (simp add: cron_answer_def require_admin_role_def cron_effects_def)


section \<open>What listing can do\<close>

lemma read_crontabs_log:
  "\<exists>es. w_log (snd (read_crontabs h user password us w)) = w_log w @ es \<and> (\<forall>e \<in> set es. runs_as user e)"
proof (induction us arbitrary: w)
  case (Cons u us)
  let ?w1 = "snd (sudo_as_user h user password [''crontab'', ''-u'', u, ''-l''] w)"
  obtain es where es: "w_log (snd (read_crontabs h user password us ?w1)) = w_log ?w1 @ es"
    "\<forall>e \<in> set es. runs_as user e" using Cons by blast
  then show ?case
    using sudo_as_user_log [of h user password "[''crontab'', ''-u'', u, ''-l'']" w] sudo_log_runs_as
    by (auto simp: Let_def split_beta)
qed simp

text \<open>
  Listing shows others' crontabs to whoever may run \<open>sudo\<close>, and to nobody else: every command
  it runs has the session user's own identity; without a password that is at most reading their
  own crontab.
\<close>

theorem cron_list_acts_as_user:
  "\<exists>es. w_log (snd (list_cron_jobs h user password w)) = w_log w @ es \<and> list_all (runs_as user) es \<and>
     (password = [] \<longrightarrow> es = [] \<or>
        (\<exists>pw. lookup_user h user = Some pw \<and> es = [Ran (user_command user pw ''crontab'' [''-l''])]))"
proof (cases "password = []")
  case True
  have "w_log (snd (user_sources h user password w)) =
      (if is_valid_username h user then w_log (snd (run_cmd_as_user h user [''crontab'', ''-l''] w)) else w_log w)"
    using True by (auto simp: user_sources_def split: prod.splits read_outcome.splits bool.splits)
  then show ?thesis
    using run_cmd_as_user_log [of h user "[''crontab'', ''-l'']" w] True
    by (auto simp: list_cron_jobs_def split_beta user_command_def split: option.splits)
next
  case False
  let ?g = "get_crontab_users h user password w"
  have log: "w_log (snd ?g) = w_log w @ sudo_log h user password [''ls'', ''/var/spool/cron/crontabs'']"
    using sudo_as_user_log [of h user password "[''ls'', ''/var/spool/cron/crontabs'']" w]
    by (simp add: get_crontab_users_def split_beta)
  obtain es where "w_log (snd (read_crontabs h user password (fst ?g) (snd ?g))) = w_log (snd ?g) @ es"
    "\<forall>e \<in> set es. runs_as user e" using read_crontabs_log by blast
  with log False show ?thesis
    using sudo_log_runs_as by (auto simp: list_cron_jobs_def user_sources_def split_beta list_all_iff)
qed

text \<open>
  The lockout of the superuser check does not protect the password: listing cron jobs checks
  whatever password it is given with \<open>sudo\<close>, for a read-only session too, without looking at the
  failure counter and without counting.
\<close>

theorem cron_list_ignores_lockout:
  assumes "opt_str o' ''password'' = password" and "password \<noteq> []" and "opt_str o' ''_user'' = user"
    and "lookup_user h user = Some pw" and "hd_open (cron_list h) ch o' s = (out, s')"
  shows "st_lockout s' = st_lockout s \<and>
    Ran (sudo_command user pw password [''ls'', ''/var/spool/cron/crontabs'']) \<in> set (w_log (st_world s'))"
proof -
  let ?w = "st_world s"
  let ?g = "get_crontab_users h user password ?w"
  have s': "s' = s\<lparr>st_world := snd (list_cron_jobs h user password ?w)\<rparr>"
    using assms by (auto simp: cron_list_def with_world_def split: prod.splits)
  have "w_log (snd ?g) = w_log ?w @ [Ran (sudo_command user pw password [''ls'', ''/var/spool/cron/crontabs''])]"
    using sudo_as_user_log [of h user password "[''ls'', ''/var/spool/cron/crontabs'']" ?w] assms(4)
    by (simp add: get_crontab_users_def split_beta sudo_log_def)
  moreover obtain es where "w_log (snd (read_crontabs h user password (fst ?g) (snd ?g))) = w_log (snd ?g) @ es"
    using read_crontabs_log by blast
  ultimately have "Ran (sudo_command user pw password [''ls'', ''/var/spool/cron/crontabs''])
      \<in> set (w_log (snd (list_cron_jobs h user password ?w)))"
    using assms(2) by (simp add: list_cron_jobs_def user_sources_def split_beta)
  then show ?thesis by (simp add: s')
qed

section \<open>Concrete requests\<close>

definition cron_request :: "string \<Rightarrow> open_options" where
  "cron_request role = \<lparr>payload = ''cron.manage'', superuser = None,
     extra = [(''_user'', JStr ''alice''), (''_role'', JStr role), (''password'', JStr ''pw''),
              (''action'', JStr ''set_user_crontab''), (''content'', JStr ''x'')]\<rparr>"

theorem cron_list_ignores_lockout_witness:
  "Ran (sudo_command ''alice'' \<lparr>pw_uid = 1000, pw_gid = 1000, pw_dir = ''/home/alice'', pw_shell = ''/bin/bash''\<rparr> ''pw''
      [''ls'', ''/var/spool/cron/crontabs''])
   \<in> set (w_log (st_world (snd (hd_open (cron_list toy_host) ''c'' (cron_request ''readonly'') toy_state))))"
proof -
  have opts: "opt_str (cron_request ''readonly'') ''password'' = ''pw''" "opt_str (cron_request ''readonly'') ''_user'' = ''alice''"
    by (simp_all add: opt_str_def cron_request_def map_str_def)
  have pw: "lookup_user toy_host ''alice'' =
      Some \<lparr>pw_uid = 1000, pw_gid = 1000, pw_dir = ''/home/alice'', pw_shell = ''/bin/bash''\<rparr>"
    by (simp add: lookup_user_def toy_host_def)
  from cron_list_ignores_lockout [OF opts(1) _ opts(2) pw, of "''c''" toy_state] show ?thesis
    by (metis prod.collapse list.distinct(1))
qed


section \<open>The contracts of a handler\<close>

interpretation cron_list: bounded_handler "cron_list h" "\<lambda>user _. runs_as user"
proof (unfold_locales, goal_cases)
  case (1 ch o' s out s')
  have "st_world s' = snd (list_cron_jobs h (opt_str o' ''_user'') (opt_str o' ''password'') (st_world s))"
    using 1 by (auto simp: cron_list_def with_world_def split: prod.splits)
  then show ?case using cron_list_acts_as_user by metis
qed (simp add: cron_list_def no_data_def)

interpretation cron_manage: bounded_handler "cron_manage h" "\<lambda>user _. runs_as user"
proof (unfold_locales, goal_cases)
  case (1 ch o' s out s')
  have st: "st_world s' = snd (cron_answer h (JObj (extra o')) (st_world s))"
    using 1 by (auto simp: cron_manage_def with_world_def split: prod.splits)
  from cron_answer_effects [of h "JObj (extra o')" "st_world s"] obtain es
    where es: "w_log (st_world s') = w_log (st_world s) @ es"
      "cron_effects h (opt_str o' ''_user'') (opt_str o' ''password'') es"
    by (auto simp: st opt_str_def)
  from es(2) have "list_all (runs_as (opt_str o' ''_user'')) es"
    by (auto simp: cron_effects_def list_all_iff sudo_log_runs_as)
  with es(1) show ?case by blast
qed (simp add: cron_manage_def no_data_def)

lemma cron_answer_refused: "jget_str data ''_role'' \<noteq> Some ''admin'' \<Longrightarrow> cron_answer h data w = (denied, w)"
  by (simp add: cron_answer_def require_admin_role_def)

interpretation cron_manage: reading_handler "cron_manage h" "\<lambda>_. False"
  by unfold_locales (auto simp: cron_manage_def no_data_def with_world_def cron_answer_refused)

end
