(* ===== verification/Users.thy ===== *)
theory Users
  imports Handlers
begin

text \<open>
  \<open>users.manage\<close> (\<open>agent/src/handlers/users.rs\<close>): listing the accounts and groups of the host, and
  creating, changing and deleting them through \<open>sudo\<close> as the session's user.
\<close>

section \<open>Validation\<close>

definition account_char :: "char \<Rightarrow> bool" where
  "account_char c \<longleftrightarrow> is_ascii_lower c \<or> is_ascii_digit c \<or> c = CHR ''_'' \<or> c = CHR ''-''"

definition is_valid_account :: "string \<Rightarrow> bool" where
  "is_valid_account name =
     (case name of
        [] \<Rightarrow> False
      | first # rest \<Rightarrow>
          length name \<le> 32 \<and> (is_ascii_lower first \<or> first = CHR ''_'') \<and>
          list_all account_char (if last name = CHR ''$'' then butlast rest else rest))"

definition is_valid_groupname :: "string \<Rightarrow> bool" where
  "is_valid_groupname name = is_valid_account name"

definition is_valid_path :: "string \<Rightarrow> bool" where
  "is_valid_path path \<longleftrightarrow>
     starts_with ''/'' path \<and> \<not> contains_str ''..'' path \<and> NUL \<notin> set path \<and> length path \<le> 4096"

definition is_valid_gecos :: "string \<Rightarrow> bool" where
  "is_valid_gecos g \<longleftrightarrow>
     length g \<le> 256 \<and> CHR '':'' \<notin> set g \<and> NL \<notin> set g \<and> CR \<notin> set g \<and> NUL \<notin> set g"

section \<open>Reading the account databases\<close>

definition failed_output :: "string \<Rightarrow> bool" where
  "failed_output out \<longleftrightarrow> out = [] \<or> starts_with ''error:'' out"

definition first_field :: "string \<Rightarrow> string" where
  "first_field line = hd (split_on (CHR '':'') line)"

fun add_members :: "string \<Rightarrow> string list \<Rightarrow> (string, string list) hmap \<Rightarrow> (string, string list) hmap" where
  "add_members g [] m = m"
| "add_members g (x # xs) m =
     (let u = trim x
      in add_members g xs (if u = [] then m else hm_put u (unwrap_or [] (hm_get m u) @ [g]) m))"

fun group_map :: "string list \<Rightarrow> (string, string list) hmap \<Rightarrow> (string, string list) hmap" where
  "group_map [] m = m"
| "group_map (line # ls) m =
     (let fields = split_on (CHR '':'') line
      in group_map ls
           (if length fields < 4 \<or> fields ! 3 = [] then m
            else add_members (fields ! 0) (split_on (CHR '','') (fields ! 3)) m))"

definition group_text :: "'w agent_host \<Rightarrow> ('w, string option) act" where
  "group_text h = do {
     out \<leftarrow> run h [''getent'', ''group''];
     if failed_output out then read_file h ''/etc/group'' else ret (Some out) }"

definition build_group_map :: "'w agent_host \<Rightarrow> ('w, (string, string list) hmap) act" where
  "build_group_map h = do { txt \<leftarrow> group_text h; ret (group_map (lines (unwrap_or [] txt)) []) }"

fun lock_map :: "string list \<Rightarrow> (string, bool) hmap \<Rightarrow> (string, bool) hmap" where
  "lock_map [] m = m"
| "lock_map (line # ls) m =
     (let fields = split_on (CHR '':'') line
      in lock_map ls
           (if length fields < 2 then m
            else hm_put (fields ! 0)
                   (starts_with ''!'' (fields ! 1) \<or> fields ! 1 = ''*'' \<or> fields ! 1 = ''!!'') m))"

text \<open>The shadow file is read by the agent itself, which is root.\<close>

definition build_lock_map :: "'w agent_host \<Rightarrow> ('w, (string, bool) hmap) act" where
  "build_lock_map h = do { txt \<leftarrow> read_file h ''/etc/shadow''; ret (lock_map (lines (unwrap_or [] txt)) []) }"

definition weekdays :: "string list" where
  "weekdays = [''Mon '', ''Tue '', ''Wed '', ''Thu '', ''Fri '', ''Sat '', ''Sun '']"

definition find_date_start :: "string \<Rightarrow> nat option" where
  "find_date_start s =
     (case filter (\<lambda>d. find_str d s \<noteq> None) weekdays of [] \<Rightarrow> None | d # _ \<Rightarrow> find_str d s)"

fun lastlog_map :: "string list \<Rightarrow> (string, string) hmap \<Rightarrow> (string, string) hmap" where
  "lastlog_map [] m = m"
| "lastlog_map (line # ls) m =
     lastlog_map ls
       (case split_ws_once line of
          None \<Rightarrow> m
        | Some (a, b) \<Rightarrow>
            (let u = trim a; rest = trim b
             in if contains_str ''**Never logged in**'' rest then hm_put u ''Never'' m
                else (case find_date_start rest of
                        Some pos \<Rightarrow> hm_put u (trim (drop pos rest)) m
                      | None \<Rightarrow> if rest \<noteq> [] then hm_put u rest m else m)))"

definition build_lastlog_map :: "'w agent_host \<Rightarrow> ('w, (string, string) hmap) act" where
  "build_lastlog_map h = do { out \<leftarrow> run h [''lastlog'']; ret (lastlog_map (drop 1 (lines out)) []) }"

definition u32_of :: "string \<Rightarrow> nat" where
  "u32_of s = unwrap_or 0 (parse_uint U32_MAX s)"

definition user_json ::
  "(string, string list) hmap \<Rightarrow> (string, bool) hmap \<Rightarrow> (string, string) hmap \<Rightarrow> (string \<Rightarrow> string)
   \<Rightarrow> string \<Rightarrow> json option" where
  "user_json groups locks lasts src line =
     (let f = split_on (CHR '':'') line; u = f ! 0; uid = u32_of (f ! 2)
      in if length f < 7 then None
         else Some (JObj
           [(''username'', JStr u), (''uid'', JInt (int uid)), (''gid'', JInt (int (u32_of (f ! 3)))),
            (''gecos'', JStr (f ! 4)), (''home'', JStr (f ! 5)), (''shell'', JStr (f ! 6)),
            (''groups'', JArr (map JStr (unwrap_or [] (hm_get groups u)))),
            (''locked'', JBool (unwrap_or False (hm_get locks u))),
            (''system'', JBool (uid < 1000 \<and> uid \<noteq> 0)),
            (''last_login'', JStr (unwrap_or [] (hm_get lasts u))), (''source'', JStr (src u))]))"

definition users_json :: "'w agent_host \<Rightarrow> string \<Rightarrow> (string \<Rightarrow> string) \<Rightarrow> ('w, json) act" where
  "users_json h passwd src = do {
     groups \<leftarrow> build_group_map h;
     locks \<leftarrow> build_lock_map h;
     lasts \<leftarrow> build_lastlog_map h;
     ret (JObj [(''action'', JStr ''list''),
                (''users'', JArr (List.map_filter (user_json groups locks lasts src) (lines passwd)))]) }"

definition list_users_fallback :: "'w agent_host \<Rightarrow> ('w, json) act" where
  "list_users_fallback h = do {
     file \<leftarrow> read_file h ''/etc/passwd'';
     case file of
       None \<Rightarrow> ret (jerror ''read error'')
     | Some txt \<Rightarrow> users_json h txt (\<lambda>_. ''local'') }"

definition list_users :: "'w agent_host \<Rightarrow> ('w, json) act" where
  "list_users h = do {
     all_users \<leftarrow> run h [''getent'', ''passwd''];
     if failed_output all_users then list_users_fallback h
     else do {
       loc \<leftarrow> run h [''getent'', ''passwd'', ''-s'', ''files''];
       users_json h all_users (\<lambda>u. if u \<in> set (map first_field (lines loc)) then ''local'' else ''ldap'') } }"

definition group_json :: "string \<Rightarrow> json option" where
  "group_json line =
     (let f = split_on (CHR '':'') line; gid = u32_of (f ! 2)
      in if length f < 4 then None
         else Some (JObj
           [(''name'', JStr (f ! 0)), (''gid'', JInt (int gid)),
            (''members'', JArr (if f ! 3 = [] then [] else map (\<lambda>m. JStr (trim m)) (split_on (CHR '','') (f ! 3)))),
            (''system'', JBool (gid < 1000 \<and> gid \<noteq> 0))]))"

definition list_groups :: "'w agent_host \<Rightarrow> ('w, json) act" where
  "list_groups h = do {
     groups \<leftarrow> group_text h;
     case groups of
       None \<Rightarrow> ret (jerror ''read error'')
     | Some txt \<Rightarrow>
         ret (JObj [(''action'', JStr ''list_groups''),
                    (''groups'', JArr (List.map_filter group_json (lines txt)))]) }"

definition listed_shells :: "'w agent_host \<Rightarrow> string list \<Rightarrow> ('w, string list) act" where
  "listed_shells h ls = do {
     found \<leftarrow> act_map (path_exists h) ls;
     ret (map fst (filter snd (zip ls found))) }"

definition read_valid_shells :: "'w agent_host \<Rightarrow> ('w, string list) act" where
  "read_valid_shells h = do {
     file \<leftarrow> read_file h ''/etc/shells'';
     listed \<leftarrow> listed_shells h (filter (\<lambda>l. l \<noteq> [] \<and> \<not> starts_with ''#'' l) (map trim (lines (unwrap_or [] file))));
     nologin \<leftarrow> listed_shells h (filter (\<lambda>n. n \<notin> set listed) [''/usr/sbin/nologin'', ''/sbin/nologin'', ''/bin/false'']);
     ret (listed @ nologin) }"

definition list_shells :: "'w agent_host \<Rightarrow> ('w, json) act" where
  "list_shells h = do {
     shells \<leftarrow> read_valid_shells h;
     ret (JObj [(''action'', JStr ''list_shells''), (''shells'', JArr (map JStr shells))]) }"

definition is_valid_shell :: "'w agent_host \<Rightarrow> string \<Rightarrow> ('w, bool) act" where
  "is_valid_shell h shell = do { shells \<leftarrow> read_valid_shells h; ret (shell \<in> set shells) }"

definition check_user_exists :: "'w agent_host \<Rightarrow> string \<Rightarrow> ('w, json) act" where
  "check_user_exists h username =
     (if username = [] \<or> CHR '':'' \<in> set username \<or> NL \<in> set username \<or> length username > 256
      then ret (JObj [(''exists'', JBool False)])
      else do {
        out \<leftarrow> run h [''getent'', ''passwd'', username];
        ret (JObj [(''exists'', JBool (\<not> failed_output out))]) })"

section \<open>Changing accounts\<close>

definition invalid_group :: "string list \<Rightarrow> string option" where
  "invalid_group groups = List.find (\<lambda>g. \<not> is_valid_groupname g) groups"

definition GECOS_ERROR :: string where
  "GECOS_ERROR = ''Invalid full name. Must not contain '' @ [SQ] @ '':'' @ [SQ]
     @ '', newlines, or null bytes, and must be at most 256 characters.''"

definition shell_error :: "string \<Rightarrow> string" where
  "shell_error shell = ''Invalid shell: '' @ shell @ ''. Must be listed in /etc/shells and exist on this host.''"

definition set_password_internal ::
  "'w agent_host \<Rightarrow> string \<Rightarrow> string \<Rightarrow> bool \<Rightarrow> string \<Rightarrow> string \<Rightarrow> ('w, json) act" where
  "set_password_internal h username new_pw force_change user sudo_pw = do {
     r \<leftarrow> sudo_write h user sudo_pw [''chpasswd''] (username @ '':'' @ new_pw @ [NL]);
     if has_error r then ret r
     else if force_change then do {
       c \<leftarrow> sudo h user sudo_pw [''chage'', ''-d'', ''0'', ''--'', username];
       ret (if has_error c then c else ok_json) }
     else ret ok_json }"

definition useradd_args :: "bool \<Rightarrow> string \<Rightarrow> string \<Rightarrow> string \<Rightarrow> string list \<Rightarrow> string \<Rightarrow> string list" where
  "useradd_args create_home gecos home shell groups username =
     [''useradd''] @ (if create_home then [''-m''] else [])
     @ (if gecos = [] then [] else [''-c'', gecos])
     @ (if home = [] then [] else [''-d'', home])
     @ (if shell = [] then [] else [''-s'', shell])
     @ (if groups = [] then [] else [''-G'', join '','' groups])
     @ [''--'', username]"

definition create_user :: "'w agent_host \<Rightarrow> json \<Rightarrow> string \<Rightarrow> string \<Rightarrow> ('w, json) act" where
  "create_user h data user password =
     (let username = str_field data ''username''; gecos = str_field data ''gecos'';
          home = str_field data ''home''; shell = str_field data ''shell'';
          new_password = str_field data ''new_password''; groups = extract_string_array data ''groups''
      in ensure (is_valid_account username)
           ''Invalid username. Must be 1-32 chars, start with lowercase letter or _, contain only lowercase letters, digits, hyphens, underscores.''
         (ensure (gecos = [] \<or> is_valid_gecos gecos) GECOS_ERROR
         (ensure (home = [] \<or> is_valid_path home) ''Invalid home directory path''
         (do {
            shell_ok \<leftarrow> (if shell = [] then ret True else is_valid_shell h shell);
            ensure shell_ok (shell_error shell)
            (case invalid_group groups of
               Some g \<Rightarrow> ret (jerror (''Invalid group name: '' @ g))
             | None \<Rightarrow> do {
                 r \<leftarrow> sudo h user password
                   (useradd_args (bool_field True data ''create_home'') gecos home shell groups username);
                 if has_error r then ret r
                 else if new_password = [] then ret ok_json
                 else do {
                   p \<leftarrow> set_password_internal h username new_password (bool_field False data ''force_change'')
                          user password;
                   ret (if has_error p then p else ok_json) } }) }))))"

section \<open>The other actions\<close>

text \<open>\<open>usermod\<close>: the fields that are present, in the order of the code. A field that is not a
  string (or, for the groups, not an array) counts as absent.\<close>

definition groups_of :: "json \<Rightarrow> string list option" where
  "groups_of data =
     map_option (List.map_filter as_str) (Option.bind (jget data ''groups'') as_array)"

definition usermod_args :: "json \<Rightarrow> string list" where
  "usermod_args data =
     given ''-c'' (jget_str data ''gecos'') @ given ''-s'' (jget_str data ''shell'')
     @ given ''-d'' (jget_str data ''home'')
     @ (if jget_str data ''home'' \<noteq> None \<and> bool_field False data ''move_home'' then [''-m''] else [])
     @ given ''-G'' (map_option (join '','') (groups_of data))"

definition valid_if_given :: "(string \<Rightarrow> bool) \<Rightarrow> string option \<Rightarrow> bool" where
  "valid_if_given valid x = (case x of None \<Rightarrow> True | Some v \<Rightarrow> valid v)"

definition modify_user :: "'w agent_host \<Rightarrow> json \<Rightarrow> string \<Rightarrow> string \<Rightarrow> ('w, json) act" where
  "modify_user h data user password =
     (let username = str_field data ''username''; shell = jget_str data ''shell''
      in ensure (is_valid_account username) ''Invalid username''
         (ensure (valid_if_given is_valid_gecos (jget_str data ''gecos'')) GECOS_ERROR
         (do {
            shell_ok \<leftarrow> (case shell of None \<Rightarrow> ret True | Some s \<Rightarrow> is_valid_shell h s);
            ensure shell_ok (shell_error (unwrap_or [] shell))
            (ensure (valid_if_given is_valid_path (jget_str data ''home'')) ''Invalid home directory path''
            (case invalid_group (unwrap_or [] (groups_of data)) of
               Some g \<Rightarrow> ret (jerror (''Invalid group name: '' @ g))
             | None \<Rightarrow>
                 ensure (usermod_args data \<noteq> []) ''No changes specified''
                   (sudo h user password ([''usermod''] @ usermod_args data @ [''--'', username])))) })))"

definition delete_user :: "'w agent_host \<Rightarrow> string \<Rightarrow> bool \<Rightarrow> string \<Rightarrow> string \<Rightarrow> ('w, json) act" where
  "delete_user h username remove_home user password =
     ensure (is_valid_account username) ''Invalid username''
     (ensure (username \<noteq> ''root'') ''Cannot delete root account''
     (sudo h user password ([''userdel''] @ (if remove_home then [''-r''] else []) @ [''--'', username])))"

definition lock_user :: "'w agent_host \<Rightarrow> string \<Rightarrow> string \<Rightarrow> string \<Rightarrow> ('w, json) act" where
  "lock_user h username user password =
     ensure (is_valid_account username) ''Invalid username''
     (ensure (username \<noteq> ''root'') ''Cannot lock root account''
     (sudo h user password [''usermod'', ''-L'', ''--'', username]))"

definition unlock_user :: "'w agent_host \<Rightarrow> string \<Rightarrow> string \<Rightarrow> string \<Rightarrow> ('w, json) act" where
  "unlock_user h username user password =
     ensure (is_valid_account username) ''Invalid username''
     (sudo h user password [''usermod'', ''-U'', ''--'', username])"

definition set_password ::
  "'w agent_host \<Rightarrow> string \<Rightarrow> string \<Rightarrow> bool \<Rightarrow> string \<Rightarrow> string \<Rightarrow> ('w, json) act" where
  "set_password h username new_pw force_change user sudo_pw =
     ensure (is_valid_account username) ''Invalid username''
     (ensure (new_pw \<noteq> []) ''New password cannot be empty''
     (set_password_internal h username new_pw force_change user sudo_pw))"

definition create_group :: "'w agent_host \<Rightarrow> string \<Rightarrow> nat option \<Rightarrow> string \<Rightarrow> string \<Rightarrow> ('w, json) act" where
  "create_group h name gid user password =
     ensure (is_valid_groupname name)
       ''Invalid group name. Must be 1-32 chars, start with lowercase letter or _, contain only lowercase letters, digits, hyphens, underscores.''
     (sudo h user password ([''groupadd''] @ given ''-g'' (map_option show_nat gid) @ [''--'', name]))"

definition protected_groups :: "string list" where
  "protected_groups = [''root'', ''wheel'', ''sudo'', ''adm'']"

definition delete_group :: "'w agent_host \<Rightarrow> string \<Rightarrow> string \<Rightarrow> string \<Rightarrow> ('w, json) act" where
  "delete_group h name user password =
     ensure (is_valid_groupname name) ''Invalid group name''
     (ensure (name \<notin> set protected_groups) (''Cannot delete system group: '' @ name)
     (sudo h user password [''groupdel'', ''--'', name]))"

section \<open>The handler\<close>

definition users_query :: "'w agent_host \<Rightarrow> string \<Rightarrow> json \<Rightarrow> ('w, json) act option" where
  "users_query h action data =
     (if action = ''list'' then Some (list_users h)
      else if action = ''list_groups'' then Some (list_groups h)
      else if action = ''list_shells'' then Some (list_shells h)
      else if action = ''check_exists'' then Some (check_user_exists h (str_field data ''username''))
      else None)"

definition users_change :: "'w agent_host \<Rightarrow> string \<Rightarrow> json \<Rightarrow> string \<Rightarrow> string \<Rightarrow> ('w, json) act" where
  "users_change h action data user password =
     (let target = str_field data ''username''; name = str_field data ''name''
      in if action = ''create'' then audited_as user ''user.create'' target (create_user h data user password)
         else if action = ''modify'' then audited_as user ''user.modify'' target (modify_user h data user password)
         else if action = ''delete'' then
           audited_as user ''user.delete'' target
             (delete_user h target (bool_field False data ''remove_home'') user password)
         else if action = ''lock'' then audited_as user ''user.lock'' target (lock_user h target user password)
         else if action = ''unlock'' then audited_as user ''user.unlock'' target (unlock_user h target user password)
         else if action = ''set_password'' then
           audited_as user ''user.set_password'' target
             (set_password h target (str_field data ''new_password'') (bool_field False data ''force_change'')
                user password)
         else if action = ''create_group'' then
           audited_as user ''group.create'' name
             (create_group h name (map_option (\<lambda>n. n mod 2 ^ 32) (nat_field data ''gid'')) user password)
         else if action = ''delete_group'' then
           audited_as user ''group.delete'' name (delete_group h name user password)
         else ret (jerror (''unknown action: '' @ action)))"

definition users_reads :: "string \<Rightarrow> bool" where
  "users_reads action \<longleftrightarrow> action \<in> {''list'', ''list_groups'', ''list_shells'', ''check_exists''}"

definition users_answer :: "'w agent_host \<Rightarrow> json \<Rightarrow> ('w, json) act" where
  "users_answer h data =
     (let action = str_field data ''action''; user = str_field data ''_user''; password = str_field data ''password''
      in case (if users_reads action then None else require_admin_role data) of
           Some err \<Rightarrow> ret err
         | None \<Rightarrow> do {
             r \<leftarrow> (case users_query h action data of
                     Some q \<Rightarrow> q
                   | None \<Rightarrow> users_change h action data user password);
             ret (echo_action action r) })"

definition users_manage :: "'w agent_host \<Rightarrow> 'w agent_state handler" where
  "users_manage h = conversing ''users.manage'' (users_answer h)"

interpretation users_manage: manage_handler "users_manage h" users_reads
  by unfold_locales
     (auto simp: users_manage_def shape_simps users_answer_def str_field_def require_admin_role_def run_simps)

section \<open>What it may run\<close>

text \<open>The options of an account command: each is a flag of the code with a checked value.\<close>

fun account_options :: "string list \<Rightarrow> bool" where
  "account_options [] = True"
| "account_options [f] \<longleftrightarrow> f \<in> {''-m'', ''-r'', ''-L'', ''-U''}"
| "account_options (f # v # os) \<longleftrightarrow>
     (if f \<in> {''-m'', ''-r'', ''-L'', ''-U''} then account_options (v # os)
      else ((f = ''-c'' \<and> is_valid_gecos v) \<or> (f = ''-d'' \<and> is_valid_path v) \<or> f = ''-s'' \<or>
            (f = ''-G'' \<and> (\<exists>gs. v = join '','' gs \<and> list_all is_valid_groupname gs))) \<and> account_options os)"

definition users_sudo :: "(string \<Rightarrow> string) \<Rightarrow> string list \<Rightarrow> bool" where
  "users_sudo b64 args \<longleftrightarrow>
     (\<exists>prog opts name. args = [prog] @ opts @ [''--'', name] \<and> is_valid_account name \<and>
        ((prog \<in> {''useradd'', ''usermod''} \<and> account_options opts) \<or>
         (prog = ''userdel'' \<and> opts \<in> {[], [''-r'']} \<and> name \<noteq> ''root'') \<or>
         (prog = ''chage'' \<and> opts = [''-d'', ''0'']) \<or>
         (prog = ''groupadd'' \<and> (opts = [] \<or> (\<exists>gid. opts = [''-g'', show_nat gid] \<and> gid \<le> U32_MAX))) \<or>
         (prog = ''groupdel'' \<and> opts = [] \<and> name \<notin> set protected_groups)) \<and>
        \<not> (prog = ''usermod'' \<and> ''-L'' \<in> set (take 1 opts) \<and> name = ''root'')) \<or>
     (\<exists>name pw. is_valid_account name \<and>
        args = [''sh'', ''-c'', write_script b64 [''chpasswd''] (name @ '':'' @ pw @ [NL])])"

definition users_plain :: "string list \<Rightarrow> bool" where
  "users_plain args \<longleftrightarrow>
     args \<in> {[''getent'', ''passwd''], [''getent'', ''passwd'', ''-s'', ''files''], [''getent'', ''group''], [''lastlog'']} \<or>
     (\<exists>u. args = [''getent'', ''passwd'', u])"

abbreviation users_confined :: "'w agent_host \<Rightarrow> string \<Rightarrow> string \<Rightarrow> effect \<Rightarrow> bool" where
  "users_confined h \<equiv> confined (users_sudo (ah_b64 h)) nothing users_plain"

lemma users_plain_cases [simp]:
  "users_plain [''getent'', ''passwd'']" "users_plain [''getent'', ''passwd'', ''-s'', ''files'']"
  "users_plain [''getent'', ''group'']" "users_plain [''lastlog'']" "users_plain [''getent'', ''passwd'', u]"
  by (simp_all add: users_plain_def)

text \<open>Reading the databases runs plain queries only.\<close>

lemma emits_read_valid_shells [emits_intros]: "emits P (read_valid_shells h)"
  unfolding read_valid_shells_def listed_shells_def by (auto intro!: emits_intros)

lemma emits_is_valid_shell [emits_intros]: "emits P (is_valid_shell h s)"
  unfolding is_valid_shell_def by (auto intro!: emits_intros)

lemma emits_users_query: "users_query h action data = Some q \<Longrightarrow> emits (queries users_plain) q"
  by (auto simp: users_query_def list_users_def list_users_fallback_def users_json_def build_group_map_def
      group_text_def build_lock_map_def build_lastlog_map_def list_groups_def list_shells_def check_user_exists_def
      split: if_splits intro!: emits_intros)

lemma invalid_group_None: "invalid_group gs = None \<longleftrightarrow> list_all is_valid_groupname gs"
  by (auto simp: invalid_group_def find_None_iff list_all_iff)

lemma account_options_useradd:
  assumes "gecos = [] \<or> is_valid_gecos gecos" and "home = [] \<or> is_valid_path home" and "list_all is_valid_groupname groups"
  shows "account_options ((if create_home then [''-m''] else []) @ (if gecos = [] then [] else [''-c'', gecos])
     @ (if home = [] then [] else [''-d'', home]) @ (if shell = [] then [] else [''-s'', shell])
     @ (if groups = [] then [] else [''-G'', join '','' groups]))"
  using assms by (cases create_home; cases "gecos = []"; cases "home = []"; cases "shell = []"; cases "groups = []") auto

lemma account_options_usermod:
  assumes "valid_if_given is_valid_gecos (jget_str data ''gecos'')"
    and "valid_if_given is_valid_path (jget_str data ''home'')"
    and "list_all is_valid_groupname (unwrap_or [] (groups_of data))"
  shows "account_options (usermod_args data)"
proof -
  have groups: "account_options (given ''-G'' (map_option (join '','') (groups_of data)))"
    using assms(3) by (cases "groups_of data") (auto simp: given_def)
  then have "account_options (given ''-d'' (jget_str data ''home'')
     @ (if jget_str data ''home'' \<noteq> None \<and> bool_field False data ''move_home'' then [''-m''] else [])
     @ given ''-G'' (map_option (join '','') (groups_of data)))"
    using assms(2) by (cases "jget_str data ''home''"; cases "groups_of data") (auto simp: given_def valid_if_given_def)
  then show ?thesis
    using assms(1) by (cases "jget_str data ''gecos''"; cases "jget_str data ''shell''")
      (auto simp: usermod_args_def given_def valid_if_given_def)
qed

text \<open>A name that passed the validation has no separator, and does not begin with a dash.\<close>

lemma account_name_chars:
  assumes "is_valid_account name" and "c \<in> set name"
  shows "account_char c \<or> c = CHR ''$''"
proof -
  obtain first rest where name: "name = first # rest" "account_char first"
    using assms(1) by (auto simp: is_valid_account_def account_char_def split: list.splits)
  show ?thesis
  proof (cases "rest \<noteq> [] \<and> last rest = CHR ''$''")
    case True
    then have "set rest = insert (CHR ''$'') (set (butlast rest))"
      by (metis append_butlast_last_id list.simps(15) rotate1.simps(2) set_rotate1)
    with True assms name show ?thesis by (auto simp: is_valid_account_def list_all_iff)
  next
    case False
    with assms name show ?thesis by (auto simp: is_valid_account_def list_all_iff split: if_splits)
  qed
qed

text \<open>Each changing operation stays within its commands.\<close>

lemma users_sudo_account:
  "prog \<in> {''useradd'', ''usermod''} \<Longrightarrow> account_options opts \<Longrightarrow> is_valid_account name \<Longrightarrow>
   \<not> (prog = ''usermod'' \<and> ''-L'' \<in> set (take 1 opts) \<and> name = ''root'') \<Longrightarrow>
   users_sudo b64 ([prog] @ opts @ [''--'', name])"
  unfolding users_sudo_def by blast

lemma users_sudo_chpasswd:
  "is_valid_account name \<Longrightarrow>
   users_sudo b64 [''sh'', ''-c'', write_script b64 [''chpasswd''] (name @ CHR '':'' # pw @ [NL])]"
  unfolding users_sudo_def by auto

lemma emits_set_password_internal:
  "is_valid_account name \<Longrightarrow>
   emits (users_confined h user password) (set_password_internal h name new_pw force user password)"
  unfolding set_password_internal_def
  by (auto intro!: emits_intros users_sudo_chpasswd) (auto simp: users_sudo_def)

lemma users_sudo_useradd:
  assumes "is_valid_account name" and "gecos = [] \<or> is_valid_gecos gecos" and "home = [] \<or> is_valid_path home"
    and "invalid_group groups = None"
  shows "users_sudo b64 (useradd_args create_home gecos home shell groups name)"
  using users_sudo_account [of "''useradd''" "(if create_home then [''-m''] else []) @ (if gecos = [] then [] else [''-c'', gecos])
     @ (if home = [] then [] else [''-d'', home]) @ (if shell = [] then [] else [''-s'', shell])
     @ (if groups = [] then [] else [''-G'', join '','' groups])" name b64]
    account_options_useradd [OF assms(2,3), of groups create_home shell] assms(1,4)
  by (simp add: useradd_args_def invalid_group_None del: append.simps)

lemma emits_create_user: "emits (users_confined h user password) (create_user h data user password)"
  unfolding create_user_def
  by (intro emits_intros emits_set_password_internal users_sudo_useradd) assumption+

lemma usermod_args_no_lock: "''-L'' \<notin> set (take 1 (usermod_args data))"
  by (auto simp: usermod_args_def given_def split: option.splits)

lemma emits_modify_user: "emits (users_confined h user password) (modify_user h data user password)"
  unfolding modify_user_def
  by (auto intro!: emits_intros users_sudo_account account_options_usermod
      simp: usermod_args_no_lock [simplified] invalid_group_None Let_def simp del: append.simps)

lemma emits_delete_user: "emits (users_confined h user password) (delete_user h name remove user password)"
  unfolding delete_user_def by (intro emits_intros) (simp add: users_sudo_def)

lemma emits_lock_user: "emits (users_confined h user password) (lock_user h name user password)"
  unfolding lock_user_def by (intro emits_intros) (auto simp: users_sudo_def)

lemma emits_unlock_user: "emits (users_confined h user password) (unlock_user h name user password)"
  unfolding unlock_user_def by (intro emits_intros) (auto simp: users_sudo_def)

lemma emits_set_password: "emits (users_confined h user password) (set_password h name pw force user password)"
  unfolding set_password_def by (intro emits_intros emits_set_password_internal) assumption

lemma emits_create_group:
  assumes "\<And>g. gid = Some g \<Longrightarrow> g \<le> U32_MAX"
  shows "emits (users_confined h user password) (create_group h name gid user password)"
  unfolding create_group_def using assms
  by (intro emits_intros) (auto simp: users_sudo_def given_def is_valid_groupname_def split: option.splits)

lemma emits_delete_group: "emits (users_confined h user password) (delete_group h name user password)"
  unfolding delete_group_def by (intro emits_intros) (auto simp: users_sudo_def is_valid_groupname_def)

lemma users_change_audited:
  "users_change h action data user password = ret (jerror (''unknown action: '' @ action)) \<or>
   yields (users_change h action data user password) (audited_result (users_confined h user password) user)"
proof -
  have gid: "n mod 2 ^ 32 \<le> U32_MAX" for n :: nat by (simp add: less_Suc_eq_le [symmetric])
  show ?thesis
    unfolding users_change_def Let_def
    by (auto intro!: yields_audited emits_create_user emits_modify_user emits_delete_user emits_lock_user
        emits_unlock_user emits_set_password emits_create_group emits_delete_group gid split: if_split)
qed

lemma emits_users_answer:
  "emits (users_confined h (str_field data ''_user'') (str_field data ''password'')) (users_answer h data)"
proof -
  have change: "emits (users_confined h user password) (users_change h action data user password)" for action user password
    using users_change_audited [of h action data user password]
    by (auto intro: emits_audited_result emits_ret simp: confined_audit simp del: append.simps)
  have "emits (users_confined h user password) q" if "users_query h action data = Some q" for action user password q
    using emits_mono [OF emits_users_query [OF that] queries_confined] .
  with change show ?thesis
    unfolding users_answer_def Let_def by (intro emits_intros) auto
qed

interpretation users_manage_bounded: bounded_handler "users_manage h" "users_confined h"
  unfolding users_manage_def by (rule bounded_conversing) (rule emits_users_answer)

lemma has_error_echo [simp]: "has_error (echo_action a r) = has_error r"
  by (cases r) (auto simp: echo_action_def has_error_def split: if_split)


text \<open>
  A password can change another account's: the new password goes into \<open>chpasswd\<close>'s input
  unchecked, so one with a line break adds lines of its own, each of which sets the password of
  the account it names; the audit record names the first account only.
\<close>

theorem password_sets_other_accounts:
  assumes "is_valid_account name" and "lookup_user h user = Some pw"
  shows "\<exists>input es. lines input = [name @ '':x'', ''root:y''] \<and>
    w_log (snd (run_state (set_password h name (''x'' @ [NL] @ ''root:y'') False user password) w)) =
      w_log w @ [Ran (sudo_command user pw password [''sh'', ''-c'', write_script (ah_b64 h) [''chpasswd''] input])]"
proof -
  let ?input = "name @ '':x'' @ [NL] @ ''root:y'' @ [NL]"
  have NL: "NL \<notin> set name" using account_name_chars [OF assms(1), of NL] by (auto simp: account_char_def byte_def
        is_ascii_lower_def is_ascii_digit_def)
  have "strip_cr (name @ '':x'') = name @ '':x''" by (simp add: strip_cr_def)
  then have "lines ?input = [name @ '':x'', ''root:y'']"
    using NL lines_append_NL [of "name @ '':x''" "''root:y'' @ [NL]"] lines_append_NL [of "''root:y''" "[]"]
    by (simp add: strip_cr_def)
  moreover have "set_password_internal h name (''x'' @ [NL] @ ''root:y'') False user password =
      do { r \<leftarrow> sudo_write h user password [''chpasswd''] ?input; ret (if has_error r then r else ok_json) }"
    by (simp add: set_password_internal_def if_distrib [of ret])
  ultimately show ?thesis
    using assms by (intro exI [of _ ?input]) (simp add: set_password_def ensure_def run_simps split_beta
        sudo_stdin_write_log sudo_log_def)
qed

section \<open>Concrete requests\<close>

definition users_request :: "string \<Rightarrow> json" where
  "users_request role =
     JObj [(''_user'', JStr ''alice''), (''_role'', JStr role), (''password'', JStr ''pw''),
           (''action'', JStr ''delete''), (''username'', JStr ''bob'')]"


theorem password_sets_other_accounts_witness:
  "\<exists>input. lines input = [''bob:x'', ''root:y'']"
proof -
  have name: "is_valid_account ''bob''"
    by (simp add: is_valid_account_def account_char_def is_ascii_lower_def byte_def)
  have pw: "lookup_user toy_host ''alice'' =
      Some \<lparr>pw_uid = 1000, pw_gid = 1000, pw_dir = ''/home/alice'', pw_shell = ''/bin/bash''\<rparr>"
    by (simp add: lookup_user_def toy_host_def)
  from password_sets_other_accounts [OF name pw] show ?thesis by auto
qed

section \<open>Sessions without the admin role\<close>

lemma users_answer_reader:
  assumes "jget_str data ''_role'' \<noteq> Some ''admin''"
  shows "emits (queries users_plain) (users_answer h data)"
proof -
  have "emits (queries users_plain)
      (case users_query h action data of Some q \<Rightarrow> q | None \<Rightarrow> users_change h action data user password)"
    if "users_reads action" for action user password
  proof -
    from that obtain q where q: "users_query h action data = Some q" by (auto simp: users_reads_def users_query_def)
    from emits_users_query [OF q] show ?thesis by (simp add: q)
  qed
  with assms show ?thesis
    by (simp add: users_answer_def Let_def require_admin_role_def emits_ret emits_bind)
qed

interpretation users_manage: reading_handler "users_manage h" "queries users_plain"
  unfolding users_manage_def by (rule reading_conversing) (rule users_answer_reader)

end
