(* ===== verification/Files.thy ===== *)
theory Files
  imports Handlers Paths
begin

text \<open>
  The file handlers (\<open>agent/src/handlers/file_ops.rs\<close>, \<open>file_list.rs\<close>): reading, writing, creating,
  deleting and listing, in two modes. With the sudo password the command runs through \<open>sudo\<close> as
  the session's user; without it the agent, which is root, switches to that user with
  \<open>sudo -n -u\<close> and restricts the path to the user's home directory.
\<close>

section \<open>Shared\<close>

definition PAGE_LINES :: nat where "PAGE_LINES = 200"

definition opt_usize :: "open_options \<Rightarrow> string \<Rightarrow> nat" where
  "opt_usize o' k =
     (case hm_get (extra o') k of
        None \<Rightarrow> 0
      | Some v \<Rightarrow>
          (case as_u64 v of
             Some n \<Rightarrow> n
           | None \<Rightarrow> unwrap_or 0 (Option.bind (as_str v) (parse_uint U64_MAX))))"

definition in_home :: "string \<Rightarrow> string \<Rightarrow> bool" where
  "in_home user p \<longleftrightarrow> path_starts_with (path_join ''/home'' user) p"

definition HOME_ERROR :: string where
  "HOME_ERROR = ''Limited access: restricted to your home directory''"

definition is_text_mime :: "string \<Rightarrow> bool" where
  "is_text_mime mime \<longleftrightarrow>
     starts_with ''text/'' mime \<or> mime = ''inode/x-empty'' \<or>
     mime \<in> set [''application/json'', ''application/xml'', ''application/javascript'', ''application/x-sh'',
       ''application/x-shellscript'', ''application/toml'', ''application/x-yaml'', ''application/x-httpd-php'',
       ''application/x-perl'', ''application/x-ruby'', ''application/x-python''] \<or>
     ends_with ''+xml'' mime \<or> ends_with ''+json'' mime"

definition failed_read :: "string \<Rightarrow> bool" where
  "failed_read out \<longleftrightarrow> starts_with ''error:'' out \<or> contains_str ''Permission denied'' out"

definition read_error :: "string \<Rightarrow> json" where
  "read_error out = jerror (trim (trim_start_str ''error:'' out))"

text \<open>The agent's switch to the user, without a password.\<close>

definition switch_args :: "string \<Rightarrow> string list \<Rightarrow> string list" where
  "switch_args user args = [''-n'', ''-u'', user, ''--''] @ args"

definition run_switched :: "'w agent_host \<Rightarrow> string \<Rightarrow> string list \<Rightarrow> ('w, json) act" where
  "run_switched h user args = do {
     r \<leftarrow> run_raw h ''sudo'' (switch_args user args) None;
     ret (case r of
            Inl e \<Rightarrow> jerror e
          | Inr out \<Rightarrow>
              if out_ok out then ok_json
              else (let msg = trim (from_utf8_lossy (out_stderr out))
                    in jerror (if msg = [] then ''Permission denied'' else msg))) }"

section \<open>Reading\<close>

definition read_text ::
  "'w agent_host \<Rightarrow> string \<Rightarrow> string \<Rightarrow> string list \<Rightarrow> ('w, string) act" where
  "read_text h user password args =
     (if password = [] then run h ([''sudo''] @ switch_args user args) else sudo_text h user password args)"

definition page_range :: "nat \<Rightarrow> string" where
  "page_range offset =
     (let start = (offset + 1) mod 2 ^ 64; stop = (start + PAGE_LINES + (2 ^ 64 - 1)) mod 2 ^ 64
      in show_nat start @ '','' @ show_nat stop @ ''p'')"

definition read_page :: "'w agent_host \<Rightarrow> string \<Rightarrow> string \<Rightarrow> string \<Rightarrow> nat \<Rightarrow> ('w, json) act" where
  "read_page h resolved user password offset = do {
     wc \<leftarrow> read_text h user password [''wc'', ''-l'', ''--'', resolved];
     if failed_read wc then ret (read_error wc)
     else do {
       content \<leftarrow> read_text h user password [''sed'', ''-n'', page_range offset, ''--'', resolved];
       if failed_read content then ret (read_error content)
       else ret (JObj
         [(''path'', JStr resolved), (''content'', JStr content),
          (''total_lines'', JInt (int (unwrap_or 0 (case split_whitespace wc of
             [] \<Rightarrow> None | s # _ \<Rightarrow> parse_uint U64_MAX s)))),
          (''offset'', JInt (int offset)), (''limit'', JInt (int PAGE_LINES))]) } }"

definition read_path :: "'w agent_host \<Rightarrow> string \<Rightarrow> string \<Rightarrow> string \<Rightarrow> nat \<Rightarrow> ('w, json) act" where
  "read_path h path user password offset = do {
     c \<leftarrow> canonical h path;
     case c of
       Inl e \<Rightarrow> ret (jerror ''file not found'')
     | Inr p \<Rightarrow> do {
         mime_out \<leftarrow> run h [''file'', ''-b'', ''--mime-type'', ''--'', from_utf8_lossy p];
         (let mime = trim mime_out
          in if \<not> is_text_mime mime then
               ret (JObj [(''binary'', JBool True), (''mime'', JStr mime), (''path'', JStr (from_utf8_lossy p))])
             else if password = [] \<and> \<not> is_valid_username h user then ret (jerror ''invalid user context'')
             else if password = [] \<and> \<not> in_home user p then ret (jerror HOME_ERROR)
             else read_page h (from_utf8_lossy p) user password offset) } }"

section \<open>Writing\<close>

text \<open>Where a path that need not exist leads: its directory resolved, its name kept; the path as
  given when the directory cannot be resolved.\<close>

definition target_path :: "'w agent_host \<Rightarrow> string \<Rightarrow> ('w, string) act" where
  "target_path h path =
     (case path_parent (components path) of
        None \<Rightarrow> ret path
      | Some parent \<Rightarrow> do {
          c \<leftarrow> canonical h (path_text parent);
          ret (case c of
                 Inl e \<Rightarrow> path
               | Inr dir \<Rightarrow> path_join dir (unwrap_or [] (path_file_name (components path)))) })"

definition home_script :: "(string \<Rightarrow> string) \<Rightarrow> string \<Rightarrow> string \<Rightarrow> string" where
  "home_script b64 path txt =
     ''printf '' @ [SQ] @ b64 txt @ [SQ] @ '' | base64 -d | tee -- '' @ shell_escape path"

definition in_home_only :: "'w agent_host \<Rightarrow> string \<Rightarrow> string \<Rightarrow> ('w, json) act \<Rightarrow> ('w, json) act" where
  "in_home_only h path user m =
     ensure (is_valid_username h user) ''invalid user context''
     (do {
        p \<leftarrow> target_path h path;
        ensure (in_home user p) HOME_ERROR m })"

definition write_as_user :: "'w agent_host \<Rightarrow> string \<Rightarrow> string \<Rightarrow> string \<Rightarrow> ('w, json) act" where
  "write_as_user h path content user =
     in_home_only h path user (run_switched h user [''sh'', ''-c'', home_script (ah_b64 h) path content])"

definition mkdir_as_user :: "'w agent_host \<Rightarrow> string \<Rightarrow> string \<Rightarrow> ('w, json) act" where
  "mkdir_as_user h path user = in_home_only h path user (run_switched h user [''mkdir'', ''--'', path])"

definition rm_args :: "bool \<Rightarrow> string \<Rightarrow> string list" where
  "rm_args dir path = [''rm''] @ (if dir then [''-r''] else []) @ [''--'', path]"

definition delete_as_user :: "'w agent_host \<Rightarrow> string \<Rightarrow> string \<Rightarrow> ('w, json) act" where
  "delete_as_user h path user =
     ensure (is_valid_username h user) ''invalid user context''
     (do {
        c \<leftarrow> canonical h path;
        case c of
          Inl e \<Rightarrow> ret (jerror ''file not found'')
        | Inr p \<Rightarrow>
            ensure (in_home user p) HOME_ERROR
            (do {
               dir \<leftarrow> is_directory h p;
               run_switched h user (rm_args dir path) }) })"

section \<open>Listing\<close>

text \<open>The text of a line from the blank that ends its seventh field.\<close>

fun after_fields :: "nat \<Rightarrow> bool \<Rightarrow> string list \<Rightarrow> string list option" where
  "after_fields k inside [] = None"
| "after_fields k inside (c # cs) =
     (if is_ws_char c then
        (if inside then (if k = 1 then Some (c # cs) else after_fields (k - 1) False cs)
         else after_fields k False cs)
      else after_fields k True cs)"

definition extract_filename :: "string \<Rightarrow> string" where
  "extract_filename line =
     (case after_fields 7 False (chars_of line) of
        None \<Rightarrow> []
      | Some cs \<Rightarrow>
          (let rest = trim_start (concat cs)
           in case find_str '' -> '' rest of Some i \<Rightarrow> take i rest | None \<Rightarrow> rest))"

definition ls_entry :: "string \<Rightarrow> json option" where
  "ls_entry line =
     (let name = extract_filename line; parts = split_whitespace line
      in if name = [] \<or> name = ''.'' \<or> name = ''..'' \<or> length parts < 5 then None
         else Some (JObj
           [(''name'', JStr name),
            (''type'', JStr (if starts_with ''d'' (parts ! 0) then ''directory''
                             else if starts_with ''l'' (parts ! 0) then ''symlink'' else ''file'')),
            (''size'', JInt (int (unwrap_or 0 (parse_uint U64_MAX (parts ! 4))))),
            (''perms'', JStr (parts ! 0)), (''user'', JStr (parts ! 2)), (''group'', JStr (parts ! 3))]))"

definition parse_ls_output :: "string \<Rightarrow> json list" where
  "parse_ls_output out = List.map_filter ls_entry (drop 1 (lines out))"

definition ls_args :: "string \<Rightarrow> string list" where
  "ls_args p = [''ls'', ''-laH'', ''--time-style=long-iso'', ''--'', p]"

definition listing :: "string \<Rightarrow> string \<Rightarrow> json" where
  "listing p out = JObj [(''path'', JStr p), (''entries'', JArr (parse_ls_output out))]"

definition list_as_user :: "'w agent_host \<Rightarrow> string \<Rightarrow> string \<Rightarrow> ('w, json) act" where
  "list_as_user h path user =
     ensure (is_valid_username h user) ''invalid user context''
     (do {
        c \<leftarrow> canonical h path;
        case c of
          Inl e \<Rightarrow> ret (jerror (''cannot resolve path: '' @ e))
        | Inr p \<Rightarrow>
            ensure (in_home user p) HOME_ERROR
            (do {
               out \<leftarrow> run h ([''sudo''] @ switch_args user (ls_args (from_utf8_lossy p)));
               ret (if starts_with ''error:'' out \<or> contains_str ''sudo:'' out \<or> contains_str ''Permission denied'' out
                    then jerror ''Permission denied'' else listing (from_utf8_lossy p) out) }) })"

definition sudo_list_directory :: "'w agent_host \<Rightarrow> string \<Rightarrow> string \<Rightarrow> string \<Rightarrow> ('w, json) act" where
  "sudo_list_directory h path user password = do {
     c \<leftarrow> canonical h path;
     case c of
       Inl e \<Rightarrow> ret (jerror (''cannot resolve path: '' @ e))
     | Inr p \<Rightarrow> do {
         out \<leftarrow> sudo_text h user password (ls_args (from_utf8_lossy p));
         ret (if contains_str ''Permission denied'' out \<or> starts_with ''error:'' out
              then jerror ''Permission denied'' else listing (from_utf8_lossy p) out) } }"

section \<open>The handlers\<close>

definition need_path :: "open_options \<Rightarrow> (string \<Rightarrow> string \<Rightarrow> string \<Rightarrow> ('w, json) act) \<Rightarrow> ('w, json) act" where
  "need_path o' m =
     (if opt_str o' ''path'' = [] then ret (jerror ''path required'')
      else m (opt_str o' ''path'') (opt_str o' ''_user'') (opt_str o' ''password''))"

lemma emits_need_path [emits_intros]:
  "(opt_str o' ''path'' \<noteq> [] \<Longrightarrow> emits P (m (opt_str o' ''path'') (opt_str o' ''_user'') (opt_str o' ''password''))) \<Longrightarrow>
   emits P (need_path o' m)"
  by (simp add: need_path_def emits_ret)

definition file_read :: "'w agent_host \<Rightarrow> 'w agent_state handler" where
  "file_read h = answering ''file.read'' (\<lambda>o'. need_path o' (\<lambda>path user password.
     read_path h path user password (opt_usize o' ''offset'')))"

definition file_write :: "'w agent_host \<Rightarrow> 'w agent_state handler" where
  "file_write h = answering ''file.write'' (\<lambda>o'. need_path o' (\<lambda>path user password.
     if password = [] then write_as_user h path (opt_str o' ''content'') user
     else sudo_write h user password [''tee'', ''--'', path] (opt_str o' ''content'')))"

definition file_mkdir :: "'w agent_host \<Rightarrow> 'w agent_state handler" where
  "file_mkdir h = answering ''file.mkdir'' (\<lambda>o'. need_path o' (\<lambda>path user password.
     if password = [] then mkdir_as_user h path user
     else sudo h user password [''mkdir'', ''--'', path]))"

definition file_delete :: "'w agent_host \<Rightarrow> 'w agent_state handler" where
  "file_delete h = answering ''file.delete'' (\<lambda>o'. need_path o' (\<lambda>path user password.
     if password = [] then delete_as_user h path user
     else do { dir \<leftarrow> is_directory h path; sudo h user password (rm_args dir path) }))"

definition file_list :: "'w agent_host \<Rightarrow> 'w agent_state handler" where
  "file_list h = answering ''file.list'' (\<lambda>o'.
     (let path = unwrap_or ''/'' (map_str (extra o') ''path''); user = opt_str o' ''_user'';
          password = opt_str o' ''password''
      in if password = [] then list_as_user h path user else sudo_list_directory h path user password))"

section \<open>Limited access\<close>

text \<open>What the agent runs for a user who gave no password: the type of a file, as root; and as
  that user, with a valid name, reading and listing below the home directory, and the changes.\<close>

definition limited :: "'w agent_host \<Rightarrow> string \<Rightarrow> string list \<Rightarrow> bool" where
  "limited h user args \<longleftrightarrow>
     (\<exists>p. args = [''file'', ''-b'', ''--mime-type'', ''--'', p]) \<or>
     (is_valid_username h user \<and>
      (\<exists>p. in_home user p \<and>
         (args = ''sudo'' # switch_args user [''wc'', ''-l'', ''--'', from_utf8_lossy p] \<or>
          (\<exists>rg. args = ''sudo'' # switch_args user [''sed'', ''-n'', rg, ''--'', from_utf8_lossy p]) \<or>
          args = ''sudo'' # switch_args user (ls_args (from_utf8_lossy p))) \<or>
       (\<exists>path. (\<exists>txt. args = ''sudo'' # switch_args user [''sh'', ''-c'', home_script (ah_b64 h) path txt]) \<or>
          args = ''sudo'' # switch_args user [''mkdir'', ''--'', path] \<or>
          (\<exists>dir. args = ''sudo'' # switch_args user (rm_args dir path)))))"

lemma emits_run_switched [emits_intros]:
  "P (Ran (raw_command ''sudo'' (switch_args user args) None)) \<Longrightarrow> emits P (run_switched h user args)"
  unfolding run_switched_def by (intro emits_intros)

lemma emits_target_path [emits_intros]: "emits P (target_path h path)"
  unfolding target_path_def by (intro emits_intros)

lemma emits_read_text [emits_intros]:
  assumes "password = [] \<Longrightarrow> P (Ran (plain_command ''sudo'' (switch_args user args)))"
    and "\<And>pw. password \<noteq> [] \<Longrightarrow> P (Ran (sudo_command user pw password args))"
  shows "emits P (read_text h user password args)"
  unfolding read_text_def using assms by (auto intro!: emits_intros)

text \<open>The sudo commands of a user who did give a password.\<close>

definition elevated :: "(string \<Rightarrow> string) \<Rightarrow> string list \<Rightarrow> bool" where
  "elevated b64 args \<longleftrightarrow>
     (\<exists>p. args = [''wc'', ''-l'', ''--'', p] \<or> (\<exists>rg. args = [''sed'', ''-n'', rg, ''--'', p]) \<or>
        args = ls_args p \<or> args = [''mkdir'', ''--'', p] \<or> (\<exists>dir. args = rm_args dir p) \<or>
        (\<exists>txt. args = [''sh'', ''-c'', write_script b64 [''tee'', ''--'', p] txt]))"

abbreviation files_confined :: "'w agent_host \<Rightarrow> string \<Rightarrow> string \<Rightarrow> effect \<Rightarrow> bool" where
  "files_confined h user password \<equiv>
     confined (\<lambda>args. password \<noteq> [] \<and> elevated (ah_b64 h) args) nothing (limited h user) user password"

lemma limited_intros:
  "limited h user [''file'', ''-b'', ''--mime-type'', ''--'', q]"
  "is_valid_username h user \<Longrightarrow> in_home user p \<Longrightarrow>
     limited h user (''sudo'' # switch_args user [''wc'', ''-l'', ''--'', from_utf8_lossy p])"
  "is_valid_username h user \<Longrightarrow> in_home user p \<Longrightarrow>
     limited h user (''sudo'' # switch_args user [''sed'', ''-n'', rg, ''--'', from_utf8_lossy p])"
  "is_valid_username h user \<Longrightarrow> in_home user p \<Longrightarrow> limited h user (''sudo'' # switch_args user (ls_args (from_utf8_lossy p)))"
  "is_valid_username h user \<Longrightarrow>
     limited h user (''sudo'' # switch_args user [''sh'', ''-c'', home_script (ah_b64 h) path txt])"
  "is_valid_username h user \<Longrightarrow> limited h user (''sudo'' # switch_args user [''mkdir'', ''--'', path])"
  "is_valid_username h user \<Longrightarrow> limited h user (''sudo'' # switch_args user (rm_args dir path))"
  by (auto simp: limited_def)

lemma elevated_intros:
  "elevated b64 [''wc'', ''-l'', ''--'', p]" "elevated b64 [''sed'', ''-n'', rg, ''--'', p]"
  "elevated b64 (ls_args p)" "elevated b64 [''mkdir'', ''--'', p]" "elevated b64 (rm_args dir p)"
  "elevated b64 [''sh'', ''-c'', write_script b64 [''tee'', ''--'', p] txt]"
  by (auto simp: elevated_def)

lemma emits_read_path: "emits (files_confined h user password) (read_path h path user password offset)"
  unfolding read_path_def read_page_def
  by (intro emits_intros conjI) (auto simp: elevated_intros intro: limited_intros)

lemma emits_write_as_user: "emits (files_confined h user password) (write_as_user h path content user)"
  and emits_mkdir_as_user: "emits (files_confined h user password) (mkdir_as_user h path user)"
  and emits_delete_as_user: "emits (files_confined h user password) (delete_as_user h path user)"
  and emits_list_as_user: "emits (files_confined h user password) (list_as_user h path user)"
  unfolding write_as_user_def mkdir_as_user_def in_home_only_def delete_as_user_def list_as_user_def
  by (intro emits_intros; auto intro: limited_intros)+

lemma emits_sudo_list:
  "password \<noteq> [] \<Longrightarrow> emits (files_confined h user password) (sudo_list_directory h path user password)"
  unfolding sudo_list_directory_def by (intro emits_intros conjI) (auto simp: elevated_intros)

definition file_handlers :: "'w agent_host \<Rightarrow> 'w agent_state handler list" where
  "file_handlers h = [file_read h, file_write h, file_mkdir h, file_delete h, file_list h]"

lemma file_handlers_emit:
  assumes "f \<in> set (file_handlers h)"
  obtains name m where "f = answering name m"
    and "\<And>o'. emits (files_confined h (opt_str o' ''_user'') (opt_str o' ''password'')) (m o')"
proof -
  have [intro]: "p \<noteq> [] \<Longrightarrow> emits (files_confined h u p) (sudo_write h u p [''tee'', ''--'', path] c)"
    "p \<noteq> [] \<Longrightarrow> emits (files_confined h u p) (sudo h u p [''mkdir'', ''--'', path])"
    "p \<noteq> [] \<Longrightarrow> emits (files_confined h u p) (sudo h u p (rm_args dir path))" for u p path c dir
    by (auto simp: elevated_intros intro!: emits_sudo emits_sudo_write confined_sudo)
  note emits_read_path [intro] emits_write_as_user [intro] emits_mkdir_as_user [intro] emits_delete_as_user [intro]
    emits_list_as_user [intro] emits_sudo_list [intro]
  from assms consider (read) "f = file_read h" | (writing) "f = file_write h" | (mkdir) "f = file_mkdir h"
    | (delete) "f = file_delete h" | (list) "f = file_list h"
    by (auto simp: file_handlers_def)
  then show ?thesis
  proof cases
    case read
    show ?thesis by (rule that [OF trans [OF read file_read_def]])
      (auto simp: Let_def intro!: emits_need_path emits_if emits_bind emits_reads)
  next
    case writing
    show ?thesis by (rule that [OF trans [OF writing file_write_def]])
      (auto simp: Let_def intro!: emits_need_path emits_if emits_bind emits_reads)
  next
    case mkdir
    show ?thesis by (rule that [OF trans [OF mkdir file_mkdir_def]])
      (auto simp: Let_def intro!: emits_need_path emits_if emits_bind emits_reads)
  next
    case delete
    show ?thesis by (rule that [OF trans [OF delete file_delete_def]])
      (auto simp: Let_def intro!: emits_need_path emits_if emits_bind emits_reads)
  next
    case list
    show ?thesis by (rule that [OF trans [OF list file_list_def]], intro emits_Let emits_if)
      (blast intro: emits_list_as_user emits_sudo_list)+
  qed
qed

lemma file_handlers_bounded: "f \<in> set (file_handlers h) \<Longrightarrow> bounded_handler f (files_confined h)"
  by (erule file_handlers_emit) (auto intro: bounded_answering)

interpretation file_read: bounded_handler "file_read h" "files_confined h"
  by (rule file_handlers_bounded) (simp add: file_handlers_def)

interpretation file_write: bounded_handler "file_write h" "files_confined h"
  by (rule file_handlers_bounded) (simp add: file_handlers_def)

interpretation file_mkdir: bounded_handler "file_mkdir h" "files_confined h"
  by (rule file_handlers_bounded) (simp add: file_handlers_def)

interpretation file_delete: bounded_handler "file_delete h" "files_confined h"
  by (rule file_handlers_bounded) (simp add: file_handlers_def)

interpretation file_list: bounded_handler "file_list h" "files_confined h"
  by (rule file_handlers_bounded) (simp add: file_handlers_def)


section \<open>Where changes land\<close>

lemma run_ensure [run_simps]:
  "run_state (ensure b e m) w = (if b then run_state m w else (jerror e, w))"
  by (simp add: ensure_def run_simps)

text \<open>Where a request's path leads: for deletion the resolved path itself, otherwise the resolved
  directory with the name.\<close>

definition leads_to :: "'w agent_host \<Rightarrow> 'w world \<Rightarrow> bool \<Rightarrow> string \<Rightarrow> string option" where
  "leads_to h w existing path =
     (if existing then (case ah_canonical h (w_os w) path of Inl _ \<Rightarrow> None | Inr p \<Rightarrow> Some p)
      else Some (fst (run_state (target_path h path) w)))"

lemma target_path_world [simp]: "snd (run_state (target_path h path) w) = w"
  by (simp add: target_path_def run_simps split: option.splits)

text \<open>
  Without a password changes stay at home: a write, a new directory or a deletion without a
  password has an effect only if the session's user has a valid name and the path leads into
  that user's home directory; otherwise the world is left as it was.
\<close>

theorem limited_changes_at_home:
  assumes "f \<in> {file_write h, file_mkdir h, file_delete h}" and "opt_str o' ''password'' = []"
    and "hd_open f ch o' s = (out, s')" and "st_world s' \<noteq> st_world s"
  shows "is_valid_username h (opt_str o' ''_user'') \<and>
    (\<exists>p. leads_to h (st_world s) (hd_payload f = ''file.delete'') (opt_str o' ''path'') = Some p \<and>
       in_home (opt_str o' ''_user'') p)"
proof -
  from assms(3) have w: "s' = snd (hd_open f ch o' s)" by simp
  from assms(1) consider (writing) "f = file_write h" | (mkdir) "f = file_mkdir h" | (delete) "f = file_delete h" by blast
  then show ?thesis
  proof cases
    case writing
    with assms(2,4) w show ?thesis
      by (auto simp: file_write_def shape_simps need_path_def write_as_user_def in_home_only_def run_simps leads_to_def
          split_beta split: if_splits)
  next
    case mkdir
    with assms(2,4) w show ?thesis
      by (auto simp: file_mkdir_def shape_simps need_path_def mkdir_as_user_def in_home_only_def run_simps leads_to_def
          split_beta split: if_splits)
  next
    case delete
    with assms(2,4) w show ?thesis
      by (auto simp: file_delete_def shape_simps need_path_def delete_as_user_def run_simps leads_to_def
          split: if_splits sum.splits)
  qed
qed

text \<open>The script of a limited write is read as the pipeline it is meant to be, whatever the path.\<close>

lemma home_script_reads:
  assumes "\<forall>c \<in> set (b64 txt). b64_char c"
  shows "sh_pipeline (home_script b64 path txt) = Some [[''printf'', b64 txt], [''base64'', ''-d''], [''tee'', ''--'', path]]"
proof -
  let ?rest = "'' | base64 -d | tee -- '' @ shell_escape path"
  have quoted: "SQ \<notin> set (b64 txt)" using assms b64_char_plain by blast
  have "home_script b64 path txt = ''printf'' @ CHR '' '' # SQ # b64 txt @ SQ # ?rest"
    by (simp add: home_script_def)
  then have "sh_lex None (home_script b64 path txt) =
        map_option (\<lambda>ts. emit (Some ''printf'') @ ts) (sh_lex None (SQ # b64 txt @ SQ # ?rest))"
    using sh_lex_plain [of "''printf''" None "CHR '' '' # SQ # b64 txt @ SQ # ?rest"]
      sh_lex_blank [of "Some ''printf''" "SQ # b64 txt @ SQ # ?rest"]
    by (simp add: sh_special_def del: sh_lex.simps)
  also have "sh_lex None (SQ # b64 txt @ SQ # ?rest) = sh_lex (Some (b64 txt)) ?rest"
    using sh_lex_quoted [OF quoted, of None ?rest] by simp
  also have "\<dots> = Some [Word (b64 txt), Bar, Word ''base64'', Word ''-d'', Bar, Word ''tee'', Word ''--'', Word path]"
    using sh_lex_escape [of None path "[]"] by (simp add: sh_special_def emit_def)
  finally show ?thesis by (simp add: sh_pipeline_def emit_def)
qed

section \<open>What a read tells\<close>

text \<open>
  The type of any file is told to anyone: before it looks at the user, the password or the home
  directory, reading asks \<open>file\<close>, as root, and when the type is not a text type the answer names
  the resolved path and the type, whatever the permissions of the file are.
\<close>

theorem file_type_disclosed:
  assumes "opt_str o' ''path'' \<noteq> []" and "ah_canonical h (w_os (st_world s)) (opt_str o' ''path'') = Inr p"
    and "mime = trim (fst (run_cmd h [''file'', ''-b'', ''--mime-type'', ''--'', from_utf8_lossy p] (st_world s)))"
    and "\<not> is_text_mime mime"
  shows "fst (hd_open (file_read h) ch o' s) =
    one_shot ch (JObj [(''binary'', JBool True), (''mime'', JStr mime), (''path'', JStr (from_utf8_lossy p))])"
  using assms by (simp add: file_read_def shape_simps need_path_def read_path_def run_simps split_beta Let_def)

text \<open>A name with an arrow in it is cut by the listing, so what the interface then deletes or opens
  is another file.\<close>

lemma listing_cuts_arrow:
  "extract_filename ''-rw-r--r-- 1 a a 0 2025-01-01 10:00 x -> y'' = ''x''"
  by (simp add: extract_filename_def is_ascii_def is_ws_char_single byte_def trim_start_def Let_def starts_with_def)

section \<open>Concrete requests\<close>

definition file_request :: "string \<Rightarrow> open_options" where
  "file_request path = \<lparr>payload = ''file.delete'', superuser = None,
     extra = [(''_user'', JStr ''alice''), (''path'', JStr path)]\<rparr>"

lemma file_request_fields [simp]:
  "opt_str (file_request path) ''path'' = path" "opt_str (file_request path) ''_user'' = ''alice''"
  "opt_str (file_request path) ''password'' = []"
  by (simp_all add: file_request_def opt_str_def map_str_def)


lemma toy_delete:
  "st_world (snd (hd_open (file_delete toy_host) ''c'' (file_request ''/home/alice/x'') toy_state)) \<noteq> st_world toy_state"
proof -
  have "in_home ''alice'' ''/home/alice/x''" by code_simp
  then show ?thesis
    using alice_valid
    by (simp add: file_delete_def shape_simps need_path_def delete_as_user_def run_simps toy_state_def)
       (simp add: toy_host_def run_switched_def run_raw_def spawn_def run_simps)
qed

theorem limited_changes_at_home_witness:
  "is_valid_username toy_host ''alice''"
  using limited_changes_at_home [of "file_delete toy_host" toy_host "file_request ''/home/alice/x''" "''c''" toy_state,
      OF _ _ prod.collapse [symmetric] toy_delete]
  by simp

theorem file_type_disclosed_witness:
  "\<exists>mime. fst (hd_open (file_read toy_host) ''c'' (file_request ''/root/.ssh/id'') toy_state) =
    one_shot ''c'' (JObj [(''binary'', JBool True), (''mime'', JStr mime), (''path'', JStr ''/root/.ssh/id'')])"
proof -
  have "ah_canonical toy_host (w_os (st_world toy_state)) (opt_str (file_request ''/root/.ssh/id'') ''path'') = Inr ''/root/.ssh/id''"
    by (simp add: toy_host_def)
  moreover have "trim (fst (run_cmd toy_host (''file'' # args) (st_world toy_state))) = []" for args
    by (simp add: run_cmd_def spawn_def split_beta)
       (simp add: toy_host_def wait_capped_def wait_capped_with_def Let_def trim_def trim_start_def trim_end_def)
  moreover have "from_utf8_lossy ''/root/.ssh/id'' = ''/root/.ssh/id''" by code_simp
  moreover have "\<not> is_text_mime []" by code_simp
  ultimately show ?thesis
    using file_type_disclosed [of "file_request ''/root/.ssh/id''" toy_host toy_state "''/root/.ssh/id''" "[]" "''c''"] by auto
qed

end
