(* ===== verification/Services.thy ===== *)
theory Services
  imports Handlers
begin

text \<open>
  The handlers on systemd and its journal: \<open>systemd.units\<close> and \<open>systemd.manage\<close>
  (\<open>agent/src/handlers/systemd_units.rs\<close>), \<open>systemd.timers\<close> (\<open>systemd_timers.rs\<close>) and
  \<open>journal.query\<close> (\<open>journal_query.rs\<close>).
\<close>

section \<open>Units\<close>

definition unit_char :: "'w agent_host \<Rightarrow> string \<Rightarrow> bool" where
  "unit_char h ch \<longleftrightarrow> is_alphanumeric h ch \<or> ch \<in> {''.'', ''@'', ''-'', ''_'', '':''}"

definition is_valid_unit_name :: "'w agent_host \<Rightarrow> string \<Rightarrow> bool" where
  "is_valid_unit_name h name \<longleftrightarrow>
     name \<noteq> [] \<and> length name \<le> 256 \<and> CHR ''/'' \<notin> set name \<and> BSL \<notin> set name \<and>
     \<not> contains_str ''..'' name \<and> list_all (unit_char h) (chars_of name)"

definition list_units :: "'w agent_host \<Rightarrow> ('w, json) act" where
  "list_units h = do {
     r \<leftarrow> run_raw h ''systemctl'' [''list-units'', ''--type=service'', ''--all'', ''--output=json'', ''--no-pager''] None;
     ret (case r of
            Inl e \<Rightarrow> JArr []
          | Inr out \<Rightarrow> if out_ok out then unwrap_or (JArr []) (ah_parse h (out_stdout out)) else JArr []) }"

definition systemctl_action :: "'w agent_host \<Rightarrow> string \<Rightarrow> string \<Rightarrow> string \<Rightarrow> string \<Rightarrow> ('w, json) act" where
  "systemctl_action h action unit user password = do {
     res \<leftarrow> sudo h user password [''systemctl'', action, ''--'', unit];
     ret (if jget res ''ok'' \<noteq> None then ok_json
          else not_ok (unwrap_or ''command failed'' (jget_str res ''error''))) }"

definition raw_text :: "string + cmd_output \<Rightarrow> string option" where
  "raw_text r = (case r of Inl e \<Rightarrow> None | Inr out \<Rightarrow> Some (trim (from_utf8_lossy (out_stdout out))))"

definition status_text :: "string + cmd_output \<Rightarrow> string" where
  "status_text r =
     (case r of
        Inl e \<Rightarrow> []
      | Inr out \<Rightarrow>
          (let err = from_utf8_lossy (out_stderr out)
           in trim_end (from_utf8_lossy (out_stdout out) @ (if trim err = [] then [] else err))))"

definition unit_status :: "'w agent_host \<Rightarrow> string \<Rightarrow> ('w, json) act" where
  "unit_status h unit = do {
     active \<leftarrow> run_raw h ''systemctl'' [''is-active'', ''--'', unit] None;
     enabled \<leftarrow> run_raw h ''systemctl'' [''is-enabled'', ''--'', unit] None;
     details \<leftarrow> run_raw h ''systemctl'' [''status'', ''--no-pager'', ''--lines=15'', ''--'', unit] None;
     ret (JObj
       [(''active'', JStr (unwrap_or ''unknown'' (raw_text active))),
        (''enabled'', JStr (unwrap_or ''unknown'' (raw_text enabled))),
        (''details'', JStr (status_text details))]) }"

definition systemd_changes :: "string \<Rightarrow> bool" where
  "systemd_changes action \<longleftrightarrow> action \<in> {''start'', ''stop'', ''restart'', ''enable'', ''disable'', ''reload''}"

definition systemd_change ::
  "'w agent_host \<Rightarrow> string \<Rightarrow> string \<Rightarrow> string \<Rightarrow> string \<Rightarrow> ('w, json) act" where
  "systemd_change h action unit user password =
     (if unit = [] then ret (not_ok ''no unit specified'')
      else if \<not> is_valid_unit_name h unit then ret (not_ok ''invalid unit name'')
      else if password = [] then ret (not_ok ''password required'')
      else do {
        r \<leftarrow> systemctl_action h action unit user password;
        record_audit user action unit (unwrap_or False (jget_bool r ''ok'')) [];
        ret r })"

definition systemd_response :: "string \<Rightarrow> string \<Rightarrow> json \<Rightarrow> json" where
  "systemd_response action unit d =
     JObj [(''type'', JStr ''response''), (''action'', JStr action), (''unit'', JStr unit), (''data'', d)]"

definition systemd_answer :: "'w agent_host \<Rightarrow> json \<Rightarrow> ('w, json) act" where
  "systemd_answer h data =
     (let action = str_field data ''action''; unit = str_field data ''unit'';
          password = str_field data ''password''; user = str_field data ''_user''
      in do {
        result \<leftarrow>
          (if systemd_changes action then
             (case require_admin_role data of Some err \<Rightarrow> ret err
              | None \<Rightarrow> systemd_change h action unit user password)
           else if action = ''status'' then
             (if unit = [] then ret (not_ok ''no unit specified'')
              else if \<not> is_valid_unit_name h unit then ret (not_ok ''invalid unit name'')
              else unit_status h unit)
           else if action = ''list'' then do {
             units \<leftarrow> list_units h;
             ret (JObj [(''type'', JStr ''list''), (''data'', units)]) }
           else ret (not_ok (''unknown action: '' @ action)));
        ret (systemd_response action unit result) })"

definition systemd_units :: "'w agent_host \<Rightarrow> 'w agent_state handler" where
  "systemd_units h = answering ''systemd.units'' (\<lambda>_. list_units h)"

definition systemd_manage :: "'w agent_host \<Rightarrow> 'w agent_state handler" where
  "systemd_manage h = conversing ''systemd.manage'' (systemd_answer h)"

interpretation systemd_manage: manage_handler "systemd_manage h" "\<lambda>a. \<not> systemd_changes a"
  by unfold_locales
     (auto simp: systemd_manage_def shape_simps systemd_answer_def str_field_def require_admin_role_def run_simps)

section \<open>Timers\<close>

definition timer_fields :: "string list" where
  "timer_fields = [''Id'', ''ActiveState'', ''SubState'', ''Description'', ''NextElapseUSecRealtime'',
     ''LastTriggerUSec'', ''UnitFileState'', ''Triggers'']"

definition normalise_ts :: "string \<Rightarrow> string" where
  "normalise_ts raw =
     (let s = trim raw
      in if s = [] \<or> s = ''n/a'' then ''n/a''
         else (case split_once (CHR '' '') s of
                 Some (day, rest) \<Rightarrow>
                   if length day = 3 \<and> list_all (\<lambda>c. is_ascii_upper c \<or> is_ascii_lower c) day then rest else s
               | None \<Rightarrow> s))"

text \<open>The last line for a key counts.\<close>

definition block_value :: "string \<Rightarrow> string \<Rightarrow> string" where
  "block_value block k =
     foldl (\<lambda>acc l. case split_once (CHR ''='') l of Some (k', v) \<Rightarrow> if k' = k then v else acc | None \<Rightarrow> acc)
       [] (lines block)"

definition block_time :: "string \<Rightarrow> string \<Rightarrow> string" where
  "block_time block k =
     foldl (\<lambda>acc l. case split_once (CHR ''='') l of
              Some (k', v) \<Rightarrow> if k' = k then normalise_ts v else acc | None \<Rightarrow> acc)
       [] (lines block)"

definition parse_timer_block :: "string \<Rightarrow> json" where
  "parse_timer_block block = JObj
     [(''unit'', JStr (block_value block ''Id'')), (''active'', JStr (block_value block ''ActiveState'')),
      (''sub'', JStr (block_value block ''SubState'')), (''description'', JStr (block_value block ''Description'')),
      (''next'', JStr (block_time block ''NextElapseUSecRealtime'')),
      (''last'', JStr (block_time block ''LastTriggerUSec'')),
      (''enabled'', JStr (block_value block ''UnitFileState'')),
      (''triggers'', JStr (block_value block ''Triggers''))]"

definition timer_names :: "string \<Rightarrow> string list" where
  "timer_names out =
     filter (ends_with ''.timer'') (List.map_filter (\<lambda>l. case split_whitespace l of [] \<Rightarrow> None | w # _ \<Rightarrow> Some w) (lines out))"

definition list_timers :: "'w agent_host \<Rightarrow> ('w, json) act" where
  "list_timers h = do {
     names_out \<leftarrow> run_raw h ''systemctl''
       [''list-units'', ''--type=timer'', ''--all'', ''--plain'', ''--no-legend'', ''--no-pager''] None;
     (let names = (case names_out of
                     Inl e \<Rightarrow> []
                   | Inr out \<Rightarrow> if out_ok out then timer_names (from_utf8_lossy (out_stdout out)) else [])
      in if names = [] then ret (JArr [])
         else do {
           details \<leftarrow> run_raw h ''systemctl''
             ([''show'', ''--property='' @ join '','' timer_fields] @ names) None;
           ret (case details of
                  Inl e \<Rightarrow> JArr []
                | Inr out \<Rightarrow>
                    JArr (filter (\<lambda>v. unwrap_or [] (jget_str v ''unit'') \<noteq> [])
                      (map parse_timer_block
                        (filter (\<lambda>b. trim b \<noteq> []) (split_str [NL, NL] (from_utf8_lossy (out_stdout out))))))) }) }"

definition systemd_timers :: "'w agent_host \<Rightarrow> 'w agent_state handler" where
  "systemd_timers h = answering ''systemd.timers'' (\<lambda>_. list_timers h)"

section \<open>The journal\<close>

definition journal_priorities :: "string list" where
  "journal_priorities = [''0'', ''1'', ''2'', ''3'', ''4'', ''5'', ''6'', ''7'', ''emerg'', ''alert'', ''crit'',
     ''err'', ''warning'', ''notice'', ''info'', ''debug'']"

definition parse_entries :: "'w agent_host \<Rightarrow> string \<Rightarrow> json" where
  "parse_entries h out = JArr (List.map_filter (ah_parse h) (lines out))"

definition journal_args :: "nat \<Rightarrow> string option \<Rightarrow> string option \<Rightarrow> string list" where
  "journal_args n unit priority =
     [''journalctl'', ''--output=json'', ''--no-pager'', ''--lines='' @ show_nat n]
     @ (case unit of None \<Rightarrow> [] | Some u \<Rightarrow> [''--unit='' @ u])
     @ (case priority of None \<Rightarrow> [] | Some p \<Rightarrow> [''--priority='' @ p])"

definition no_entries :: "(string \<times> json) list \<Rightarrow> json" where
  "no_entries extra_fields = JObj ((''entries'', JArr []) # extra_fields)"

definition limited_journal :: "string \<Rightarrow> bool" where
  "limited_journal err \<longleftrightarrow>
     contains_str ''insufficient permissions'' err \<or> contains_str ''No journal files were opened'' err \<or>
     contains_str ''not seeing messages from other users'' err"

definition journal_outcome :: "'w agent_host \<Rightarrow> read_outcome \<Rightarrow> json" where
  "journal_outcome h r =
     (case r of
        NoAccount \<Rightarrow> no_entries [(''restricted'', JBool True), (''reason'', JStr ''no-account'')]
      | SpawnFailed e \<Rightarrow> no_entries [(''error'', JStr e)]
      | RanOut ok so se \<Rightarrow>
          (let entries = parse_entries h (from_utf8_lossy so); err = from_utf8_lossy se
           in JObj ((''entries'', entries) #
                (if limited_journal err then [(''restricted'', JBool True), (''reason'', JStr ''insufficient-group'')]
                 else if ok then [] else [(''error'', JStr (trim err))]))))"

definition query_journal ::
  "'w agent_host \<Rightarrow> nat \<Rightarrow> string option \<Rightarrow> string option \<Rightarrow> string \<Rightarrow> string \<Rightarrow> ('w, json) act" where
  "query_journal h n unit priority user password =
     (if (case unit of None \<Rightarrow> False | Some u \<Rightarrow> \<not> list_all (unit_char h) (chars_of u) \<or> length u > 256)
      then ret (jerror ''invalid unit name'')
      else if (case priority of None \<Rightarrow> False | Some p \<Rightarrow> p \<notin> set journal_priorities)
      then ret (jerror ''invalid priority'')
      else if \<not> is_valid_username h user then ret (jerror ''no session user'')
      else if password \<noteq> [] then do {
        res \<leftarrow> sudo h user password (journal_args n unit priority);
        ret (case jget_str res ''output'' of
               Some out \<Rightarrow> JObj [(''entries'', parse_entries h out)]
             | None \<Rightarrow> no_entries [(''error'', JStr (unwrap_or ''command failed'' (jget_str res ''error'')))]) }
      else do {
        r \<leftarrow> run_user h user (journal_args n unit priority);
        ret (journal_outcome h r) })"

definition journal_query :: "'w agent_host \<Rightarrow> 'w agent_state handler" where
  "journal_query h = answering ''journal.query'' (\<lambda>o'.
     query_journal h (unwrap_or 100 (Option.bind (hm_get (extra o') ''lines'') as_u64))
       (map_str (extra o') ''unit'') (map_str (extra o') ''priority'')
       (opt_str o' ''_user'') (opt_str o' ''password''))"

section \<open>What they may run\<close>

definition services_sudo :: "'w agent_host \<Rightarrow> string list \<Rightarrow> bool" where
  "services_sudo h args \<longleftrightarrow>
     (\<exists>action unit. args = [''systemctl'', action, ''--'', unit] \<and> systemd_changes action \<and> is_valid_unit_name h unit) \<or>
     (\<exists>n unit priority. args = journal_args n unit priority)"

definition services_user :: "string list \<Rightarrow> bool" where
  "services_user args \<longleftrightarrow> (\<exists>n unit priority. args = journal_args n unit priority)"

definition services_plain :: "string list \<Rightarrow> bool" where
  "services_plain args \<longleftrightarrow>
     (\<exists>verb rest. args = ''systemctl'' # verb # rest \<and>
        verb \<in> {''list-units'', ''is-active'', ''is-enabled'', ''status'', ''show''})"

abbreviation services_confined :: "'w agent_host \<Rightarrow> string \<Rightarrow> string \<Rightarrow> effect \<Rightarrow> bool" where
  "services_confined h user password \<equiv>
     confined (\<lambda>args. password \<noteq> [] \<and> services_sudo h args) services_user services_plain user password"

lemma emits_list_units: "emits (services_confined h user password) (list_units h)"
  unfolding list_units_def by (intro emits_intros) (simp add: services_plain_def)

lemma emits_systemd_answer:
  "emits (services_confined h (str_field data ''_user'') (str_field data ''password'')) (systemd_answer h data)"
  unfolding systemd_answer_def systemd_change_def systemctl_action_def unit_status_def Let_def
  by (intro emits_intros emits_list_units) (auto simp: services_plain_def services_sudo_def)

lemma emits_list_timers: "emits (services_confined h user password) (list_timers h)"
  unfolding list_timers_def by (intro emits_intros) (simp_all add: services_plain_def)

lemma journal_args_user: "services_user (hd (journal_args n u p) # tl (journal_args n u p))"
  by (auto simp: services_user_def journal_args_def)

lemma emits_query_journal:
  "emits (services_confined h user password) (query_journal h n unit priority user password)"
  unfolding query_journal_def
  by (intro emits_intros journal_args_user) (simp, unfold services_sudo_def, blast)

interpretation systemd_units: bounded_handler "systemd_units h" "services_confined h"
  unfolding systemd_units_def by (rule bounded_answering) (rule emits_list_units)

interpretation systemd_manage: bounded_handler "systemd_manage h" "services_confined h"
  unfolding systemd_manage_def by (rule bounded_conversing) (rule emits_systemd_answer)

interpretation systemd_timers: bounded_handler "systemd_timers h" "services_confined h"
  unfolding systemd_timers_def by (rule bounded_answering) (rule emits_list_timers)

interpretation journal_query: bounded_handler "journal_query h" "services_confined h"
  unfolding journal_query_def by (rule bounded_answering) (rule emits_query_journal)

section \<open>Sessions without the admin role\<close>

lemma systemd_answer_reader:
  assumes "jget_str data ''_role'' \<noteq> Some ''admin''"
  shows "emits (queries services_plain) (systemd_answer h data)"
proof -
  have "emits (queries services_plain) (list_units h)"
    unfolding list_units_def by (intro emits_intros) (simp add: services_plain_def)
  then show ?thesis
    using assms unfolding systemd_answer_def unit_status_def Let_def require_admin_role_def
    by (intro emits_intros) (simp_all add: services_plain_def emits_ret)
qed

interpretation systemd_manage: reading_handler "systemd_manage h" "queries services_plain"
  unfolding systemd_manage_def by (rule reading_conversing) (rule systemd_answer_reader)

end
