(* ===== verification/HostActions.thy ===== *)
theory HostActions
  imports Handlers TextFacts AgentConfig
begin

text \<open>
  The handlers on the host itself: \<open>host.config\<close> and \<open>host.action\<close>
  (\<open>agent/src/handlers/host_config.rs\<close>), \<open>audit.query\<close> (\<open>audit_query.rs\<close>),
  \<open>system.pubkey\<close> (\<open>system_pubkey.rs\<close>) and \<open>system.info\<close> (\<open>system_info.rs\<close>).
\<close>

section \<open>The host's configuration\<close>

definition agent_cnf :: string where
  "agent_cnf = ''/etc/tenodera/agent.cnf''"

definition role_value :: "string \<Rightarrow> string option" where
  "role_value line0 =
     (let line = trim line0
      in if starts_with ''#'' line \<or> line = [] then None
         else (case split_once (CHR ''='') line of
                 Some (key, val) \<Rightarrow> if eq_ignore_ascii_case (trim key) ''role'' then Some (trim val) else None
               | None \<Rightarrow> None))"

definition role_names :: "string \<Rightarrow> string list" where
  "role_names val =
     filter (\<lambda>s. s \<noteq> []) (map trim (concat (map (split_on (CHR '' '')) (split_on (CHR '','') val))))"

definition roles_of :: "string \<Rightarrow> string list" where
  "roles_of content = remdups_adj (concat (map role_names (List.map_filter role_value (lines content))))"

definition first_word :: "string \<Rightarrow> string option" where
  "first_word s = (case split_whitespace s of [] \<Rightarrow> None | w # _ \<Rightarrow> Some w)"

definition uptime_of :: "'w agent_host \<Rightarrow> string option \<Rightarrow> nat" where
  "uptime_of h file = unwrap_or 0 (Option.bind (Option.bind file first_word) (ah_f64 h))"

definition read_host_config :: "'w agent_host \<Rightarrow> ('w, json) act" where
  "read_host_config h = do {
     hostname \<leftarrow> read_file h ''/etc/hostname'';
     uptime \<leftarrow> read_file h ''/proc/uptime'';
     content \<leftarrow> read_file h agent_cnf;
     ret (JObj
       [(''roles'', JArr (map JStr (case content of None \<Rightarrow> [] | Some c \<Rightarrow> roles_of c))),
        (''hostname'', JStr (trim (unwrap_or [] hostname))),
        (''uptime_secs'', JInt (int (uptime_of h uptime)))]) }"

definition host_config :: "'w agent_host \<Rightarrow> 'w agent_state handler" where
  "host_config h = answering ''host.config'' (\<lambda>_. read_host_config h)"

section \<open>Actions on the host\<close>

definition is_role_line :: "(string \<Rightarrow> string) \<Rightarrow> string \<Rightarrow> bool" where
  "is_role_line lower l \<longleftrightarrow> starts_with ''role='' (lower (trim l))"

definition with_role :: "(string \<Rightarrow> string) \<Rightarrow> string \<Rightarrow> string \<Rightarrow> string" where
  "with_role lower role content =
     join [NL] (filter (\<lambda>l. \<not> is_role_line lower l) (lines content) @ (if role = [] then [] else [''role='' @ role]))
     @ [NL]"

definition set_role :: "'w agent_host \<Rightarrow> json \<Rightarrow> string \<Rightarrow> string \<Rightarrow> ('w, json) act" where
  "set_role h data user password = do {
     content \<leftarrow> read_file h agent_cnf;
     sudo_write h user password [''tee'', agent_cnf]
       (with_role (ah_lower h) (trim (str_field data ''role'')) (unwrap_or [] content)) }"

definition ok_msg :: "string \<Rightarrow> json" where
  "ok_msg m = JObj [(''ok'', JBool True), (''msg'', JStr m)]"

text \<open>An immediate action is audited first and runs beside the answer, which does not wait for it:
  here its command is the last effect.\<close>

definition power_action ::
  "'w agent_host \<Rightarrow> string \<Rightarrow> string \<Rightarrow> string \<Rightarrow> string \<Rightarrow> string \<Rightarrow> string \<Rightarrow> nat \<Rightarrow> ('w, json) act" where
  "power_action h flag cmd audit_name what user password delay =
     (if 0 < delay then do {
        r \<leftarrow> sudo h user password [''shutdown'', flag, ''+'' @ show_nat delay];
        record_audit user audit_name (''+'' @ show_nat delay) (\<not> has_error r) ''scheduled'';
        ret (if has_error r then r
             else ok_msg (what @ '' scheduled in '' @ show_nat delay @ '' min'')) }
      else do {
        record_audit user audit_name [] True [];
        _ \<leftarrow> sudo h user password [cmd];
        ret (ok_msg (what @ '' initiated'')) })"

definition restart_host :: "'w agent_host \<Rightarrow> string \<Rightarrow> string \<Rightarrow> nat \<Rightarrow> ('w, json) act" where
  "restart_host h = power_action h ''-r'' ''reboot'' ''system.reboot'' ''Reboot''"

definition poweroff_host :: "'w agent_host \<Rightarrow> string \<Rightarrow> string \<Rightarrow> nat \<Rightarrow> ('w, json) act" where
  "poweroff_host h = power_action h ''-h'' ''poweroff'' ''system.poweroff'' ''Shutdown''"

definition cancel_shutdown :: "'w agent_host \<Rightarrow> string \<Rightarrow> string \<Rightarrow> ('w, json) act" where
  "cancel_shutdown h user password = do {
     r \<leftarrow> sudo h user password [''shutdown'', ''-c''];
     record_audit user ''system.cancel_shutdown'' [] (\<not> has_error r) [];
     ret (if has_error r then r else ok_msg ''Scheduled power action cancelled'') }"

definition host_action_answer :: "'w agent_host \<Rightarrow> open_options \<Rightarrow> ('w, json) act" where
  "host_action_answer h o' =
     (let action = opt_str o' ''action''; user = opt_str o' ''_user''; password = opt_str o' ''password'';
          delay = unwrap_or 0 (Option.bind (hm_get (extra o') ''delay_mins'') as_u64)
      in if action = ''set_role'' then set_role h (options_json o') user password
         else if action = ''restart'' then restart_host h user password delay
         else if action = ''poweroff'' then poweroff_host h user password delay
         else if action = ''cancel_shutdown'' then cancel_shutdown h user password
         else ret (jerror (''unknown action: '' @ action)))"

definition host_action :: "'w agent_host \<Rightarrow> 'w agent_state handler" where
  "host_action h = answering ''host.action'' (\<lambda>o'. admin_only (options_json o') (host_action_answer h o'))"

interpretation host_action: admin_handler "host_action h"
  unfolding host_action_def by unfold_locales

section \<open>The audit log\<close>

definition audit_answer :: "'w agent_host \<Rightarrow> open_options \<Rightarrow> ('w, json option) act" where
  "audit_answer h o' =
     (case require_admin_role (options_json o') of
        Some err \<Rightarrow> ret (Some err)
      | None \<Rightarrow> do {
          file \<leftarrow> read_file h AUDIT_LOG;
          ret (read_audit file (min (unwrap_or 500 (Option.bind (hm_get (extra o') ''limit'') as_u64)) 5000)) })"

definition audit_query :: "'w agent_host \<Rightarrow> 'w agent_state handler" where
  "audit_query h = answering_or_panic ''audit.query'' (audit_answer h)"

interpretation audit_query: admin_guard "audit_query h"
  by unfold_locales (auto simp: audit_query_def shape_simps audit_answer_def require_admin_role_def run_simps)

section \<open>Facts about the system\<close>

definition pubkey_answer :: "'w agent_host \<Rightarrow> ('w, json) act" where
  "pubkey_answer h =
     (let path = unwrap_or ''/etc/tenodera/id_ed25519'' (ah_env h ''TENODERA_SSH_KEY'') @ ''.pub''
      in do {
        file \<leftarrow> read_file h path;
        (let key = trim (unwrap_or [] file)
         in ret (if key = [] then not_ok (''public key not found at '' @ path)
                 else JObj [(''ok'', JBool True), (''pubkey'', JStr key)])) })"

definition system_pubkey :: "'w agent_host \<Rightarrow> 'w agent_state handler" where
  "system_pubkey h = answering ''system.pubkey'' (\<lambda>_. pubkey_answer h)"

fun os_release :: "(string \<Rightarrow> string) \<Rightarrow> string list \<Rightarrow> jmap \<Rightarrow> jmap" where
  "os_release lower [] m = m"
| "os_release lower (l # ls) m =
     os_release lower ls
       (case split_once (CHR ''='') l of
          Some (key, val) \<Rightarrow> hm_put (lower key) (JStr (trim_matches DQ val)) m
        | None \<Rightarrow> m)"

text \<open>\<open>String::from_utf8\<close> refuses what is not UTF-8; a text is UTF-8 exactly when decoding it
  replaces nothing.\<close>

definition date_text :: "string + cmd_output \<Rightarrow> string" where
  "date_text r =
     (case r of
        Inl e \<Rightarrow> []
      | Inr out \<Rightarrow> if from_utf8_lossy (out_stdout out) = out_stdout out then trim (out_stdout out) else [])"

text \<open>\<open>now\<close> is the number of seconds since the epoch, \<open>hostname\<close> the name the kernel gives.\<close>

definition system_info_answer :: "'w agent_host \<Rightarrow> ('w \<Rightarrow> nat) \<Rightarrow> string option \<Rightarrow> ('w, json) act" where
  "system_info_answer h now hostname = do {
     release \<leftarrow> read_file h ''/etc/os-release'';
     uptime \<leftarrow> read_file h ''/proc/uptime'';
     t \<leftarrow> State (\<lambda>w. (now (w_os w), w));
     boot \<leftarrow> run_raw h ''date'' [''-d'', ''@'' @ show_nat (t - uptime_of h uptime), ''+%Y-%m-%d %H:%M:%S''] None;
     time \<leftarrow> run_raw h ''date'' [''+%Y-%m-%d %H:%M:%S''] None;
     tz \<leftarrow> run_raw h ''date'' [''+%Z''] None;
     ret (JObj
       [(''hostname'', JStr (unwrap_or ''unknown'' hostname)),
        (''os'', JObj (os_release (ah_lower h) (lines (unwrap_or [] release)) [])),
        (''uptime_secs'', JInt (int (uptime_of h uptime))), (''boot_time'', JStr (date_text boot)),
        (''host_time'', JStr (date_text time)), (''host_tz'', JStr (date_text tz))]) }"

definition system_info :: "'w agent_host \<Rightarrow> ('w \<Rightarrow> nat) \<Rightarrow> string option \<Rightarrow> 'w agent_state handler" where
  "system_info h now hostname = answering ''system.info'' (\<lambda>_. system_info_answer h now hostname)"

section \<open>What they may run\<close>

definition host_sudo :: "(string \<Rightarrow> string) \<Rightarrow> string list \<Rightarrow> bool" where
  "host_sudo b64 args \<longleftrightarrow>
     args \<in> {[''reboot''], [''poweroff''], [''shutdown'', ''-c'']} \<or>
     (\<exists>flag n. flag \<in> {''-r'', ''-h''} \<and> args = [''shutdown'', flag, ''+'' @ show_nat n]) \<or>
     (\<exists>txt. args = [''sh'', ''-c'', write_script b64 [''tee'', agent_cnf] txt])"

definition host_plain :: "string list \<Rightarrow> bool" where
  "host_plain args \<longleftrightarrow> args \<noteq> [] \<and> hd args = ''date''"

abbreviation host_confined :: "'w agent_host \<Rightarrow> string \<Rightarrow> string \<Rightarrow> effect \<Rightarrow> bool" where
  "host_confined h \<equiv> confined (host_sudo (ah_b64 h)) nothing host_plain"

lemma emits_host_action:
  "emits (host_confined h (opt_str o' ''_user'') (opt_str o' ''password'')) (host_action_answer h o')"
  unfolding host_action_answer_def set_role_def restart_host_def poweroff_host_def power_action_def
    cancel_shutdown_def Let_def
  by (intro emits_intros) (auto simp: host_sudo_def)

lemma emits_system_info: "emits (queries host_plain) (system_info_answer h now hostname)"
  unfolding system_info_answer_def
  by (intro emits_intros emits_pure) (auto simp: host_plain_def)

interpretation host_action_bounded: bounded_handler "host_action h" "host_confined h"
  unfolding host_action_def by (intro bounded_answering emits_admin_only emits_host_action)

interpretation host_config: bounded_handler "host_config h" "host_confined h"
  unfolding host_config_def read_host_config_def by (intro bounded_answering emits_intros)

interpretation system_pubkey: bounded_handler "system_pubkey h" "host_confined h"
  unfolding system_pubkey_def pubkey_answer_def by (intro bounded_answering emits_intros)

interpretation system_info: bounded_handler "system_info h now hostname" "host_confined h"
  unfolding system_info_def by (intro bounded_answering emits_mono [OF emits_system_info] queries_confined)

interpretation audit_query_bounded: bounded_handler "audit_query h" "host_confined h"
  unfolding audit_query_def audit_answer_def by (intro bounded_answering_or_panic emits_intros)

section \<open>The role that is read back\<close>

text \<open>
  The role that is set is the role that is read: after \<open>set_role\<close> has rewritten the file, the
  roles shown are exactly those of the new value, provided every line that counts as a role is
  one \<open>set_role\<close> replaces (no blank before its equals sign), and the value has no line break.
\<close>

theorem set_role_roundtrip:
  assumes "role \<noteq> []" and "trim role = role" and "NL \<notin> set role" and "CR \<notin> set role" and "CR \<notin> set content"
    and "\<And>l. l \<in> set (lines content) \<Longrightarrow> role_value l \<noteq> None \<Longrightarrow> is_role_line lower l"
  shows "roles_of (with_role lower role content) = remdups_adj (role_names role)"
proof -
  let ?kept = "filter (\<lambda>l. \<not> is_role_line lower l) (lines content)"
  have CR: "CR \<notin> set l" if "l \<in> set (lines content)" for l
    using lines_chars [OF that] assms(5) by blast
  have "lines (with_role lower role content) = ?kept @ [''role='' @ role]"
    using assms(1,3,4) CR lines_NL_free lines_of_lines [of "?kept @ [''role='' @ role]"]
    by (auto simp: with_role_def)
  moreover have "List.map_filter role_value ?kept = []"
    using assms(6) by (auto simp: map_filter_def filter_empty_conv)
  moreover have "role_value (''role='' @ role) = Some role"
  proof -
    have "trim_end (''role'' @ CHR ''='' # role) = ''role='' @ role"
      using trim_end_append [of "CHR ''=''" "''role''" role] trim_end_of_trimmed [OF assms(2)]
      by (simp add: is_ascii_def is_ws_char_single byte_def)
    then have "trim (''role='' @ role) = ''role='' @ role"
      by (simp add: trim_def trim_start_Cons is_ascii_def is_ws_char_single byte_def)
    moreover have "trim ''role'' = ''role''"
      by (simp add: trim_def trim_start_def trim_end_def is_ascii_def is_ws_char_single byte_def)
    ultimately show ?thesis using assms(2)
      by (simp add: role_value_def starts_with_def eq_ignore_ascii_case_def)
  qed
  ultimately show ?thesis by (simp add: roles_of_def map_filter_def)
qed

text \<open>A role line with a blank before its equals sign is read as a role and not replaced.\<close>

lemma role_with_blank_survives:
  "role_value ''role = db'' = Some ''db''" "\<not> is_role_line (\<lambda>s. s) ''role = db''"
  by (simp_all add: role_value_def is_role_line_def trim_def trim_start_def trim_end_def is_ascii_def
      is_ws_char_single byte_def starts_with_def eq_ignore_ascii_case_def ascii_lower_def is_ascii_upper_def)

section \<open>The audit view\<close>

text \<open>
  One failed login can take a host offline: when the newest line of the audit log is a record
  whose user name holds the text of the target marker, an administrator who opens the audit view
  makes the reader panic in the agent's main task, so the request is never answered and the
  agent is down.
\<close>

theorem audit_query_crashes_agent:
  assumes "map_str (extra o') ''_role'' = Some ''admin''"
    and "ah_read h (w_os (st_world s)) AUDIT_LOG = Some content"
    and "lines content = ls @ [audit_body ts (x @ '' target='' @ y) a t ok d]"
    and "CHR '']'' \<notin> set ts" and "EQ \<notin> set x" and "EQ \<notin> set y" and "utf8_start ts" and "trim_end d = d"
    and "Option.bind (hm_get (extra o') ''limit'') as_u64 \<noteq> Some 0"
  shows "hd_open (audit_query h) ch o' s = ([], s\<lparr>st_crashed := True\<rparr>)"
proof -
  obtain n where n: "min (unwrap_or 500 (Option.bind (hm_get (extra o') ''limit'') as_u64)) 5000 = Suc n"
    using assms(9) by (cases "Option.bind (hm_get (extra o') ''limit'') as_u64") (auto simp: unwrap_or_def dest: not0_implies_Suc gr0_implies_Suc)
  have "take_entries (Suc n) (rev (lines content)) = None"
    using forged_line_panics [OF assms(4-8)] assms(3) by metis
  then have "read_audit (Some content) (Suc n) = None" by (simp add: read_audit_def Let_def)
  then show ?thesis using assms(1,2) by (simp add: audit_query_def shape_simps audit_answer_def require_admin_role_def run_simps n)
qed

section \<open>Concrete requests\<close>

definition audit_host :: "nat agent_host" where
  "audit_host = toy_host\<lparr>ah_read := (\<lambda>_ p. if p = AUDIT_LOG
     then Some (audit_body ''t'' ''a target=b'' ''login'' [] False ''x'') else None)\<rparr>"

definition audit_request :: "open_options" where
  "audit_request = \<lparr>payload = ''audit.query'', superuser = None, extra = [(''_role'', JStr ''admin'')]\<rparr>"

theorem audit_query_crashes_agent_witness:
  "st_crashed (snd (hd_open (audit_query audit_host) ''c'' audit_request toy_state))"
proof -
  let ?line = "audit_body ''t'' (''a'' @ '' target='' @ ''b'') ''login'' [] False ''x''"
  have "lines ?line = [] @ [?line]"
    by (subst lines_of_NL_free) (simp_all add: audit_body_def)
  moreover have "ah_read audit_host (w_os (st_world toy_state)) AUDIT_LOG = Some ?line"
    by (simp add: audit_host_def)
  moreover have "map_str (extra audit_request) ''_role'' = Some ''admin''" "hm_get (extra audit_request) ''limit'' = None"
    by (simp_all add: audit_request_def map_str_def)
  moreover have "trim_end ''x'' = ''x''" by (simp add: trim_end_def is_ascii_def byte_def is_ws_char_single)
  ultimately show ?thesis
    using audit_query_crashes_agent [of audit_request audit_host toy_state ?line "[]" "''t''" "''a''" "''b''"
        "''login''" "[]" False "''x''" "''c''"]
    by (simp add: is_cont_def byte_def)
qed

theorem set_role_roundtrip_witness:
  "roles_of (with_role (\<lambda>s. s) ''db'' []) = remdups_adj (role_names ''db'')"
proof -
  have "trim ''db'' = ''db''"
    by (simp add: trim_def trim_start_def trim_end_def is_ascii_def is_ws_char_single byte_def)
  then show ?thesis using set_role_roundtrip [of "''db''" "[]" "\<lambda>s. s"] by simp
qed

section \<open>Sessions without the admin role\<close>

interpretation host_action: reading_handler "host_action h" "\<lambda>_. False"
  unfolding host_action_def by (rule reading_answering) (intro emits_refused, simp)

interpretation audit_query: reading_handler "audit_query h" "\<lambda>_. False"
  unfolding audit_query_def audit_answer_def by (intro reading_answering_or_panic emits_intros)

end
