(* ===== verification/SshHosts.thy ===== *)
theory SshHosts
  imports Handlers
begin

text \<open>
  \<open>hosts.manage\<close> (\<open>agent/src/handlers/hosts.rs\<close>): the list of SSH hosts the agent keeps in
  \<open>/etc/tenodera/hosts.json\<close>, and the scan of a host's key. The text of the file is
  \<open>serde_json\<close>'s: its reader and writer are parameters.
\<close>

section \<open>The file\<close>

record ssh_entry =
  se_id :: string
  se_name :: string
  se_address :: string
  se_user :: string
  se_port :: nat
  se_added_at :: string
  se_host_key :: string

record codec =
  cd_read :: "string \<Rightarrow> ssh_entry list option"
  cd_write :: "ssh_entry list \<Rightarrow> string"

definition hosts_path :: string where
  "hosts_path = ''/etc/tenodera/hosts.json''"

definition load_config :: "'w agent_host \<Rightarrow> codec \<Rightarrow> ('w, ssh_entry list) act" where
  "load_config h cd = do {
     file \<leftarrow> read_file h hosts_path;
     ret (unwrap_or [] (Option.bind file (cd_read cd))) }"

text \<open>\<open>root\<close> is \<open>geteuid() == 0\<close>. None is success, Some the error.\<close>

definition save_config :: "'w agent_host \<Rightarrow> codec \<Rightarrow> bool \<Rightarrow> ssh_entry list \<Rightarrow> ('w, string option) act" where
  "save_config h cd root hosts =
     (if root then put_file h hosts_path (cd_write cd hosts)
      else do {
        r \<leftarrow> spawn_raw h ''sudo'' [''-n'', ''tee'', hosts_path] (Some (cd_write cd hosts));
        ret (case r of
               Inl e \<Rightarrow> Some (''sudo tee: '' @ e)
             | Inr (Inl e) \<Rightarrow> Some e
             | Inr (Inr out) \<Rightarrow>
                 if out_ok out then None
                 else (let err = trim (from_utf8_lossy (out_stderr out))
                       in Some (if err = [] then ''permission denied writing hosts.json'' else err))) })"

section \<open>Actions\<close>

definition ssh_entry_json :: "ssh_entry \<Rightarrow> json" where
  "ssh_entry_json e = JObj
     [(''id'', JStr (se_id e)), (''name'', JStr (se_name e)), (''address'', JStr (se_address e)),
      (''user'', JStr (se_user e)), (''ssh_port'', JInt (int (se_port e))), (''added_at'', JStr (se_added_at e)),
      (''host_key'', JStr (se_host_key e))]"

definition action_failed :: "string \<Rightarrow> string \<Rightarrow> json" where
  "action_failed action e = JObj [(''action'', JStr action), (''ok'', JBool False), (''error'', JStr e)]"

definition action_done :: "string \<Rightarrow> (string \<times> json) list \<Rightarrow> json" where
  "action_done action more_fields = JObj ([(''action'', JStr action), (''ok'', JBool True)] @ more_fields)"

definition saved :: "string \<Rightarrow> (string \<times> json) list \<Rightarrow> string option \<Rightarrow> json" where
  "saved action more_fields r = (case r of None \<Rightarrow> action_done action more_fields | Some e \<Rightarrow> action_failed action e)"

definition action_list :: "'w agent_host \<Rightarrow> codec \<Rightarrow> ('w, json) act" where
  "action_list h cd = do {
     hosts \<leftarrow> load_config h cd;
     ret (JObj [(''action'', JStr ''list''), (''hosts'', JArr (map ssh_entry_json hosts))]) }"

definition action_add ::
  "'w agent_host \<Rightarrow> codec \<Rightarrow> bool \<Rightarrow> string \<Rightarrow> string \<Rightarrow> string \<Rightarrow> nat \<Rightarrow> string \<Rightarrow> ('w, json) act" where
  "action_add h cd root name address user port host_key =
     (if name = [] \<or> address = [] then ret (action_failed ''add'' ''name and address are required'')
      else do {
        hosts \<leftarrow> load_config h cd;
        new_id \<leftarrow> State (\<lambda>w. (ah_uuid h (w_os w), w));
        now \<leftarrow> State (\<lambda>w. (ah_now h (w_os w), w));
        r \<leftarrow> save_config h cd root (hosts @ [\<lparr>se_id = new_id, se_name = name, se_address = address,
               se_user = user, se_port = port, se_added_at = now, se_host_key = host_key\<rparr>]);
        ret (saved ''add'' [(''id'', JStr new_id)] r) })"

definition edited :: "string \<Rightarrow> string \<Rightarrow> string \<Rightarrow> nat \<Rightarrow> string \<Rightarrow> ssh_entry \<Rightarrow> ssh_entry" where
  "edited name address user port host_key e =
     e\<lparr>se_name := name, se_address := address, se_user := user, se_port := port,
       se_host_key := (if host_key = [] then se_host_key e else host_key)\<rparr>"

definition action_edit ::
  "'w agent_host \<Rightarrow> codec \<Rightarrow> bool \<Rightarrow> string \<Rightarrow> string \<Rightarrow> string \<Rightarrow> string \<Rightarrow> nat \<Rightarrow> string \<Rightarrow> ('w, json) act" where
  "action_edit h cd root eid name address user port host_key =
     (if eid = [] \<or> name = [] \<or> address = [] then ret (action_failed ''edit'' ''id, name and address are required'')
      else do {
        hosts \<leftarrow> load_config h cd;
        if eid \<notin> se_id ` set hosts then ret (action_failed ''edit'' ''host not found'')
        else do {
          r \<leftarrow> save_config h cd root
                 (update_first (\<lambda>e. se_id e = eid) (edited name address user port host_key) hosts);
          ret (saved ''edit'' [] r) } })"

definition action_remove :: "'w agent_host \<Rightarrow> codec \<Rightarrow> bool \<Rightarrow> string \<Rightarrow> ('w, json) act" where
  "action_remove h cd root eid = do {
     hosts \<leftarrow> load_config h cd;
     (let kept = filter (\<lambda>e. se_id e \<noteq> eid) hosts
      in if length kept = length hosts then ret (action_failed ''remove'' ''host not found'')
         else do {
           r \<leftarrow> save_config h cd root kept;
           ret (saved ''remove'' [] r) }) }"

section \<open>Scanning a key\<close>

definition address_char :: "'w agent_host \<Rightarrow> string \<Rightarrow> bool" where
  "address_char h ch \<longleftrightarrow> is_alphanumeric h ch \<or> ch \<in> {''.'', ''-'', '':'', ''['', '']''}"

definition preferred_key :: "string list \<Rightarrow> string" where
  "preferred_key ls =
     (case List.map_filter (\<lambda>alg. List.find (contains_str alg) ls)
             [''ssh-ed25519'', ''ecdsa-sha2-nistp256'', ''ssh-rsa''] of
        l # _ \<Rightarrow> l
      | [] \<Rightarrow> hd ls)"

definition action_keyscan :: "'w agent_host \<Rightarrow> string \<Rightarrow> nat \<Rightarrow> ('w, json) act" where
  "action_keyscan h address port =
     (if address = [] then ret (action_failed ''keyscan'' ''address is required'')
      else if \<not> list_all (address_char h) (chars_of address) then ret (action_failed ''keyscan'' ''invalid address'')
      else do {
        scan \<leftarrow> run_raw h ''ssh-keyscan'' [''-p'', show_nat port, ''-T'', ''5'', ''--'', address] None;
        case scan of
          Inl e \<Rightarrow> ret (action_failed ''keyscan'' (''ssh-keyscan failed: '' @ e))
        | Inr out \<Rightarrow>
            (let ls = filter (\<lambda>l. \<not> starts_with ''#'' l \<and> l \<noteq> []) (lines (from_utf8_lossy (out_stdout out)))
             in if ls = [] then
                  ret (action_failed ''keyscan''
                    (''no host keys found (is SSH running on '' @ address @ '':'' @ show_nat port @ ''?): ''
                     @ from_utf8_lossy (out_stderr out)))
                else do {
                  fp \<leftarrow> run_raw h ''ssh-keygen'' [''-l'', ''-f'', ''-''] (Some (preferred_key ls @ [NL]));
                  ret (action_done ''keyscan''
                    [(''host_key'', JStr (preferred_key ls)),
                     (''fingerprint'', JStr (case fp of Inl e \<Rightarrow> [] | Inr o' \<Rightarrow> trim (from_utf8_lossy (out_stdout o'))))]) }) })"

section \<open>The handler\<close>

definition hosts_reads :: "string \<Rightarrow> bool" where
  "hosts_reads action \<longleftrightarrow> action \<in> {''list'', ''keyscan''}"

definition port_field :: "json \<Rightarrow> nat" where
  "port_field data = unwrap_or 22 (nat_field data ''ssh_port'') mod 2 ^ 16"

definition audited_ok :: "string \<Rightarrow> string \<Rightarrow> string \<Rightarrow> string \<Rightarrow> ('w, json) act \<Rightarrow> ('w, json) act" where
  "audited_ok user action target details m = do {
     r \<leftarrow> m;
     record_audit user action target (unwrap_or False (jget_bool r ''ok'')) details;
     ret r }"

definition ssh_hosts_action :: "'w agent_host \<Rightarrow> codec \<Rightarrow> bool \<Rightarrow> json \<Rightarrow> ('w, json) act" where
  "ssh_hosts_action h cd root data =
     (let action = str_field data ''action''; who = str_field data ''_user'';
          name = str_field data ''name''; address = str_field data ''address''; user = str_field data ''user'';
          host_key = str_field data ''host_key''; eid = str_field data ''id''
      in if action = ''list'' then action_list h cd
         else if action = ''keyscan'' then action_keyscan h address (port_field data)
         else if action = ''add'' then
           audited_ok who ''host.add'' address name (action_add h cd root name address user (port_field data) host_key)
         else if action = ''edit'' then
           audited_ok who ''host.edit'' address name
             (action_edit h cd root eid name address user (port_field data) host_key)
         else if action = ''remove'' then
           audited_ok who ''host.remove'' eid [] (action_remove h cd root eid)
         else ret (JObj [(''action'', JStr action), (''error'', JStr ''unknown action'')]))"

definition ssh_hosts_answer :: "'w agent_host \<Rightarrow> codec \<Rightarrow> bool \<Rightarrow> json \<Rightarrow> ('w, json) act" where
  "ssh_hosts_answer h cd root data =
     (case (if hosts_reads (str_field data ''action'') then None else require_admin_role data) of
        Some err \<Rightarrow> ret err
      | None \<Rightarrow> ssh_hosts_action h cd root data)"

definition hosts_manage :: "'w agent_host \<Rightarrow> codec \<Rightarrow> bool \<Rightarrow> 'w agent_state handler" where
  "hosts_manage h cd root = conversing ''hosts.manage'' (ssh_hosts_answer h cd root)"

interpretation hosts_manage: manage_handler "hosts_manage h cd root" hosts_reads
  by unfold_locales
     (auto simp: hosts_manage_def shape_simps ssh_hosts_answer_def str_field_def require_admin_role_def run_simps)

section \<open>What it may do\<close>

definition hosts_plain :: "string list \<Rightarrow> bool" where
  "hosts_plain args \<longleftrightarrow>
     (\<exists>port address. args = [''ssh-keyscan'', ''-p'', show_nat port, ''-T'', ''5'', ''--'', address]) \<or>
     args = [''ssh-keygen'', ''-l'', ''-f'', ''-''] \<or> args = [''sudo'', ''-n'', ''tee'', hosts_path]"

text \<open>Unlike the other handlers this one writes a file itself, and only that one.\<close>

definition hosts_confined :: "string \<Rightarrow> string \<Rightarrow> effect \<Rightarrow> bool" where
  "hosts_confined user password e =
     (case e of Wrote p _ \<Rightarrow> p = hosts_path | _ \<Rightarrow> confined nothing nothing hosts_plain user password e)"

lemma hosts_confined_intros [emits_intros]:
  "hosts_plain (prog # args) \<Longrightarrow> hosts_confined user password (Ran (raw_command prog args input))"
  "hosts_confined user password (Audited user action target ok details)"
  "hosts_confined user password (Wrote hosts_path txt)"
  by (simp_all add: hosts_confined_def confined_intros)

lemma emits_save_config [emits_intros]: "emits (hosts_confined user password) (save_config h cd root hosts)"
  unfolding save_config_def by (intro emits_intros) (simp add: hosts_plain_def)

lemma emits_ssh_hosts:
  "emits (hosts_confined (str_field data ''_user'') (str_field data ''password'')) (ssh_hosts_answer h cd root data)"
  unfolding ssh_hosts_answer_def ssh_hosts_action_def audited_ok_def action_list_def action_keyscan_def
    action_add_def action_edit_def action_remove_def load_config_def Let_def
  by (intro emits_intros) (auto simp: hosts_plain_def)

interpretation hosts_manage_bounded: bounded_handler "hosts_manage h cd root" hosts_confined
  unfolding hosts_manage_def by (rule bounded_conversing) (rule emits_ssh_hosts)

section \<open>What is stored\<close>

definition stored :: "'w agent_host \<Rightarrow> codec \<Rightarrow> 'w world \<Rightarrow> ssh_entry list" where
  "stored h cd w = unwrap_or [] (Option.bind (ah_read h (w_os w) hosts_path) (cd_read cd))"

text \<open>What the file system and the JSON library promise: a file that was written is read back, and
  a list that was printed is parsed.\<close>

definition files_kept :: "'w agent_host \<Rightarrow> bool" where
  "files_kept h \<longleftrightarrow> (\<forall>p t w w'. ah_write h p t w = (None, w') \<longrightarrow> ah_read h w' p = Some t)"

definition text_kept :: "codec \<Rightarrow> ssh_entry list \<Rightarrow> bool" where
  "text_kept cd hosts \<longleftrightarrow> cd_read cd (cd_write cd hosts) = Some hosts"

lemma run_load_config [run_simps]: "run_state (load_config h cd) w = (stored h cd w, w)"
  by (simp add: load_config_def stored_def run_simps)

lemma save_config_stored:
  assumes "files_kept h" and "text_kept cd hosts" and "run_state (save_config h cd True hosts) w = (None, w')"
  shows "stored h cd w' = hosts"
proof -
  obtain os' where w: "ah_write h hosts_path (cd_write cd hosts) (w_os w) = (None, os')" "w_os w' = os'"
    using assms(3) by (auto simp: save_config_def run_simps write_file_def split: prod.splits)
  then have "ah_read h (w_os w') hosts_path = Some (cd_write cd hosts)"
    using assms(1) by (auto simp: files_kept_def)
  then show ?thesis using assms(2) by (simp add: stored_def text_kept_def)
qed

lemma saved_ok: "jget_bool (saved action fs r) ''ok'' = Some True \<longleftrightarrow> r = None"
  by (cases r) (simp_all add: saved_def action_done_def action_failed_def jget_bool_def)

lemma action_failed_ok [simp]: "jget_bool (action_failed action e) ''ok'' = Some False"
  by (simp add: action_failed_def jget_bool_def)

text \<open>The list after a change that succeeded, from the list before.\<close>

definition hosts_after :: "'w agent_host \<Rightarrow> json \<Rightarrow> 'w \<Rightarrow> ssh_entry list \<Rightarrow> ssh_entry list" where
  "hosts_after h data os hosts =
     (let name = str_field data ''name''; address = str_field data ''address''; user = str_field data ''user'';
          host_key = str_field data ''host_key''; eid = str_field data ''id''
      in if str_field data ''action'' = ''add'' then
           hosts @ [\<lparr>se_id = ah_uuid h os, se_name = name, se_address = address, se_user = user,
                     se_port = port_field data, se_added_at = ah_now h os, se_host_key = host_key\<rparr>]
         else if str_field data ''action'' = ''edit'' then
           update_first (\<lambda>e. se_id e = eid) (edited name address user (port_field data) host_key) hosts
         else filter (\<lambda>e. se_id e \<noteq> eid) hosts)"

text \<open>
  A change to the host list that is reported as done is what the next reading returns: adding
  appends an entry with a fresh id, editing changes the first entry with the id and keeps its key
  when none is given, removing drops every entry with the id, each on the list that was stored
  before, assuming that written files are read back and printed lists are parsed.
\<close>

theorem host_changes_persist:
  assumes "files_kept h" and "text_kept cd (hosts_after h data (w_os w) (stored h cd w))"
    and "str_field data ''action'' \<in> {''add'', ''edit'', ''remove''}"
    and "run_state (ssh_hosts_action h cd True data) w = (r, w')" and "jget_bool r ''ok'' = Some True"
  shows "stored h cd w' = hosts_after h data (w_os w) (stored h cd w)"
proof -
  note kept = save_config_stored [OF assms(1)]
  have same: "stored h cd (audit u a t ok d x) = stored h cd x" for u a t ok d x by (simp add: stored_def)
  from assms(3) consider "str_field data ''action'' = ''add''" | "str_field data ''action'' = ''edit''"
    | "str_field data ''action'' = ''remove''" by blast
  then show ?thesis
    by cases
      (use assms(2,4,5) in \<open>auto simp: ssh_hosts_action_def Let_def audited_ok_def action_add_def action_edit_def
         action_remove_def run_simps hosts_after_def saved_ok same split: if_splits prod.splits dest!: kept [rotated]\<close>)
qed

text \<open>Ids stay distinct as long as the generator does not repeat one.\<close>

lemma host_ids_distinct:
  assumes "distinct (map se_id hosts)" and "ah_uuid h os \<notin> se_id ` set hosts"
  shows "distinct (map se_id (hosts_after h data os hosts))"
proof -
  have "map se_id (update_first p (edited n a u p' k) hosts) = map se_id hosts" for p n a u p' k
    by (induction hosts) (auto simp: edited_def)
  with assms show ?thesis by (auto simp: hosts_after_def Let_def distinct_map_filter)
qed

section \<open>A concrete host list\<close>

definition store_host :: "(string \<Rightarrow> string option) agent_host" where
  "store_host =
     \<lparr>ah_env = (\<lambda>_. None), ah_passwd = (\<lambda>_. None), ah_spawn = (\<lambda>c w. (Inl ''no process'', w)),
      ah_read = (\<lambda>w p. w p), ah_write = (\<lambda>p t w. (None, w(p \<mapsto> t))), ah_exists = (\<lambda>_ _. True),
      ah_dir = (\<lambda>_ _. None), ah_uuid = (\<lambda>_. ''u1''), ah_now = (\<lambda>_. ''t''), ah_clock = (\<lambda>_. 0),
      ah_alnum = (\<lambda>_. False), ah_b64 = (\<lambda>_. []), ah_canonical = (\<lambda>_ p. Inr p), ah_is_dir = (\<lambda>_ _. False),
      ah_parse = (\<lambda>_. None), ah_print = (\<lambda>_. []), ah_f64 = (\<lambda>_. None), ah_lower = (\<lambda>s. s),
      ah_remove = (\<lambda>p w. w(p := None)), ah_meta = (\<lambda>_ _. None)\<rparr>"

definition bob_codec :: codec where
  "bob_codec = \<lparr>cd_read = (\<lambda>_. Some [\<lparr>se_id = ''u1'', se_name = ''bob'', se_address = ''10.0.0.2'', se_user = [],
     se_port = 22, se_added_at = ''t'', se_host_key = []\<rparr>]), cd_write = (\<lambda>_. ''{}'')\<rparr>"

definition bob_request :: json where
  "bob_request = JObj [(''action'', JStr ''add''), (''name'', JStr ''bob''), (''address'', JStr ''10.0.0.2'')]"

theorem host_changes_persist_witness:
  "map se_name (stored store_host bob_codec
     (snd (run_state (ssh_hosts_action store_host bob_codec True bob_request) \<lparr>w_os = Map.empty, w_log = []\<rparr>))) = [''bob'']"
proof -
  let ?w = "\<lparr>w_os = Map.empty, w_log = []\<rparr> :: (string \<Rightarrow> string option) world"
  let ?m = "ssh_hosts_action store_host bob_codec True bob_request"
  have field: "str_field bob_request ''action'' = ''add''" "str_field bob_request ''name'' = ''bob''"
    "str_field bob_request ''address'' = ''10.0.0.2''" "str_field bob_request ''user'' = []"
    "str_field bob_request ''host_key'' = []" "port_field bob_request = 22"
    by (simp_all add: bob_request_def str_field_def map_str_def port_field_def nat_field_def)
  have empty: "stored store_host bob_codec ?w = []" by (simp add: stored_def store_host_def)
  have after: "hosts_after store_host bob_request (w_os ?w) (stored store_host bob_codec ?w) = the (cd_read bob_codec [])"
    by (simp add: hosts_after_def field empty) (simp add: store_host_def bob_codec_def)
  have "text_kept bob_codec (the (cd_read bob_codec []))" by (simp add: text_kept_def bob_codec_def)
  moreover have "files_kept store_host" by (simp add: files_kept_def store_host_def)
  moreover have "jget_bool (fst (run_state ?m ?w)) ''ok'' = Some True"
  proof -
    have "ah_write store_host p t os = (None, os(p \<mapsto> t))" for p t os by (simp add: store_host_def)
    then show ?thesis
      by (simp add: ssh_hosts_action_def field audited_ok_def action_add_def run_simps save_config_def split_beta
          saved_ok write_file_def Let_def)
  qed
  ultimately have "stored store_host bob_codec (snd (run_state ?m ?w)) = the (cd_read bob_codec [])"
    using host_changes_persist [of store_host bob_codec bob_request ?w "fst (run_state ?m ?w)" "snd (run_state ?m ?w)"]
      field(1) after by simp
  then show ?thesis by (simp add: bob_codec_def)
qed

section \<open>Sessions without the admin role\<close>

definition scan_plain :: "string list \<Rightarrow> bool" where
  "scan_plain args \<longleftrightarrow>
     (\<exists>port address. args = [''ssh-keyscan'', ''-p'', show_nat port, ''-T'', ''5'', ''--'', address]) \<or>
     args = [''ssh-keygen'', ''-l'', ''-f'', ''-'']"

lemma ssh_hosts_reader:
  assumes "jget_str data ''_role'' \<noteq> Some ''admin''"
  shows "emits (queries scan_plain) (ssh_hosts_answer h cd root data)"
proof -
  have "emits (queries scan_plain) (action_keyscan h address port)" for address port
    unfolding action_keyscan_def Let_def by (intro emits_intros) (auto simp: scan_plain_def)
  moreover have "emits (queries scan_plain) (action_list h cd)"
    unfolding action_list_def load_config_def by (intro emits_intros)
  ultimately have "emits (queries scan_plain) (ssh_hosts_action h cd root data)"
    if "hosts_reads (str_field data ''action'')"
    using that by (auto simp: ssh_hosts_action_def Let_def hosts_reads_def)
  with assms show ?thesis
    by (simp add: ssh_hosts_answer_def require_admin_role_def emits_ret)
qed

interpretation hosts_manage: reading_handler "hosts_manage h cd root" "queries scan_plain"
  unfolding hosts_manage_def by (rule reading_conversing) (rule ssh_hosts_reader)

end
