(* ===== verification/Settings.thy ===== *)
theory Settings
  imports Handlers
begin

text \<open>
  \<open>system.settings\<close> (\<open>agent/src/handlers/system_settings.rs\<close>): time, NTP servers, host name, locale
  and keyboard of the host. Reading is for everyone; a change is for administrators and runs
  through \<open>sudo\<close> as the session's user.
\<close>

section \<open>Validation\<close>

definition trimmed_field :: "json \<Rightarrow> string \<Rightarrow> string" where
  "trimmed_field data k = trim (str_field data k)"

definition is_safe_token :: "string \<Rightarrow> bool" where
  "is_safe_token s \<longleftrightarrow>
     s \<noteq> [] \<and> length s \<le> 64 \<and> list_all (\<lambda>c. is_ascii_alphanumeric c \<or> c \<in> set ''-_,.'') s"

definition is_valid_datetime :: "string \<Rightarrow> bool" where
  "is_valid_datetime s \<longleftrightarrow>
     s \<noteq> [] \<and> length s \<le> 25 \<and> list_all (\<lambda>c. is_ascii_digit c \<or> c \<in> set ''-: '') s \<and>
     CHR ''-'' \<in> set s \<and> CHR '':'' \<in> set s"

definition is_valid_hostname :: "string \<Rightarrow> bool" where
  "is_valid_hostname name \<longleftrightarrow>
     name \<noteq> [] \<and> length name \<le> 253 \<and>
     list_all (\<lambda>label. label \<noteq> [] \<and> length label \<le> 63 \<and> hd label \<noteq> CHR ''-'' \<and> last label \<noteq> CHR ''-'' \<and>
         list_all (\<lambda>c. is_ascii_alphanumeric c \<or> c = CHR ''-'') label)
       (split_on (CHR ''.'') name)"

definition is_valid_ntp_host :: "string \<Rightarrow> bool" where
  "is_valid_ntp_host s \<longleftrightarrow>
     s \<noteq> [] \<and> length s \<le> 255 \<and> list_all (\<lambda>c. is_ascii_alphanumeric c \<or> c \<in> set ''-.:'') s"

definition tokenize :: "string \<Rightarrow> string list" where
  "tokenize s =
     filter (\<lambda>t. t \<noteq> []) (map trim
       (foldr (\<lambda>c acc. if c \<in> {CHR '','', CHR '' '', TAB, NL} then [] # acc
                       else (case acc of [] \<Rightarrow> [[c]] | w # ws \<Rightarrow> (c # w) # ws)) s [[]]))"

definition text_lines :: "string \<Rightarrow> string list" where
  "text_lines out = filter (\<lambda>l. l \<noteq> [] \<and> \<not> starts_with ''error:'' l) (map trim (lines out))"

section \<open>Parsing\<close>

fun parse_kv :: "string list \<Rightarrow> (string, string) hmap \<Rightarrow> (string, string) hmap" where
  "parse_kv [] m = m"
| "parse_kv (l # ls) m =
     parse_kv ls (case split_once (CHR ''='') l of Some (k, v) \<Rightarrow> hm_put (trim k) (trim v) m | None \<Rightarrow> m)"

definition kv_of :: "string \<Rightarrow> (string, string) hmap" where
  "kv_of out = parse_kv (lines out) []"

definition kv_text :: "(string, string) hmap \<Rightarrow> string \<Rightarrow> string" where
  "kv_text m k = unwrap_or [] (hm_get m k)"

definition kv_yes :: "(string, string) hmap \<Rightarrow> string \<Rightarrow> bool" where
  "kv_yes m k \<longleftrightarrow> hm_get m k = Some ''yes''"

definition norm_unset :: "string \<Rightarrow> string" where
  "norm_unset s = (let t = trim s in if t = ''n/a'' \<or> t = ''(unset)'' then [] else t)"

record locale_info =
  li_lang :: string
  li_keymap :: string
  li_x11_layout :: string
  li_x11_model :: string
  li_x11_variant :: string

definition locale_default :: locale_info where
  "locale_default = \<lparr>li_lang = [], li_keymap = [], li_x11_layout = [], li_x11_model = [], li_x11_variant = []\<rparr>"

definition localectl_line :: "locale_info \<Rightarrow> string \<Rightarrow> locale_info" where
  "localectl_line info line =
     (let l = trim line
      in case strip_prefix ''System Locale:'' l of
           Some rest \<Rightarrow>
             foldl (\<lambda>i tok. case strip_prefix ''LANG='' tok of Some v \<Rightarrow> i\<lparr>li_lang := v\<rparr> | None \<Rightarrow> i) info
               (split_whitespace rest)
         | None \<Rightarrow>
         (case strip_prefix ''VC Keymap:'' l of
            Some rest \<Rightarrow> info\<lparr>li_keymap := norm_unset rest\<rparr>
          | None \<Rightarrow>
          (case strip_prefix ''X11 Layout:'' l of
             Some rest \<Rightarrow> info\<lparr>li_x11_layout := norm_unset rest\<rparr>
           | None \<Rightarrow>
           (case strip_prefix ''X11 Model:'' l of
              Some rest \<Rightarrow> info\<lparr>li_x11_model := norm_unset rest\<rparr>
            | None \<Rightarrow>
            (case strip_prefix ''X11 Variant:'' l of
               Some rest \<Rightarrow> info\<lparr>li_x11_variant := norm_unset rest\<rparr>
             | None \<Rightarrow> info)))))"

definition parse_localectl :: "string \<Rightarrow> locale_info" where
  "parse_localectl out = foldl localectl_line locale_default (lines out)"

definition hostname_slot :: "string \<Rightarrow> string option" where
  "hostname_slot key = map_of
     [(''static hostname'', ''static''), (''pretty hostname'', ''pretty''), (''transient hostname'', ''transient''),
      (''icon name'', ''icon''), (''chassis'', ''chassis''), (''deployment'', ''deployment''),
      (''location'', ''location'')] key"

fun parse_hostnamectl :: "(string \<Rightarrow> string) \<Rightarrow> string list \<Rightarrow> (string, string) hmap \<Rightarrow> (string, string) hmap" where
  "parse_hostnamectl lower [] m = m"
| "parse_hostnamectl lower (line # ls) m =
     parse_hostnamectl lower ls
       (case split_once (CHR '':'') line of
          None \<Rightarrow> m
        | Some (key, val) \<Rightarrow>
            (let k = lower (trim key); v = norm_unset val
             in case hostname_slot k of
                  None \<Rightarrow> m
                | Some slot \<Rightarrow>
                    hm_put slot
                      (if slot = ''chassis'' then (case split_whitespace v of [] \<Rightarrow> [] | w # _ \<Rightarrow> w) else v) m))"

definition strip_weekday :: "string \<Rightarrow> string" where
  "strip_weekday raw =
     (let s = trim raw
      in case split_once (CHR '' '') s of
           Some (day, rest) \<Rightarrow>
             if length day = 3 \<and> list_all (\<lambda>c. is_ascii_upper c \<or> is_ascii_lower c) day then rest else s
         | None \<Rightarrow> s)"

section \<open>NTP\<close>

fun active_unit :: "'w agent_host \<Rightarrow> string list \<Rightarrow> ('w, string option) act" where
  "active_unit h [] = ret None"
| "active_unit h (u # us) = do {
     out \<leftarrow> run h [''systemctl'', ''is-active'', u];
     if trim out = ''active'' then ret (Some u) else active_unit h us }"

definition ntp_labels :: "(string \<times> string) list" where
  "ntp_labels =
     [(''systemd-timesyncd'', ''systemd-timesyncd''), (''chronyd'', ''chrony''), (''chrony'', ''chrony''),
      (''ntpsec'', ''ntpsec''), (''ntpd'', ''ntpd''), (''ntp'', ''ntpd''), (''openntpd'', ''openntpd''),
      (''ptp4l'', ''ptp4l''), (''phc2sys'', ''phc2sys'')]"

definition ntp_source :: "'w agent_host \<Rightarrow> ('w, string \<times> string) act" where
  "ntp_source h = do {
     unit \<leftarrow> active_unit h (map fst ntp_labels);
     (let service = unwrap_or [] (Option.bind unit (map_of ntp_labels))
      in if service = ''systemd-timesyncd'' then do {
           out \<leftarrow> run h [''timedatectl'', ''show-timesync''];
           ret (service, (case hm_get (kv_of out) ''ServerName'' of
                            Some s \<Rightarrow> s | None \<Rightarrow> kv_text (kv_of out) ''ServerAddress'')) }
         else ret (service, [])) }"

definition chrony_conf_path :: "'w agent_host \<Rightarrow> ('w, string option) act" where
  "chrony_conf_path h = State (\<lambda>w.
     (List.find (ah_exists h (w_os w)) [''/etc/chrony/chrony.conf'', ''/etc/chrony.conf''], w))"

definition is_server_word :: "string list \<Rightarrow> bool" where
  "is_server_word ws =
     (case ws of [] \<Rightarrow> False | w # _ \<Rightarrow> map ascii_lower w = ''server'' \<or> map ascii_lower w = ''pool'')"

definition chrony_server :: "string \<Rightarrow> string option" where
  "chrony_server l =
     (let t = trim l; ws = split_whitespace t
      in if starts_with ''#'' t \<or> starts_with ''!'' t \<or> \<not> is_server_word ws then None
         else (case ws of _ # host # _ \<Rightarrow> Some host | _ \<Rightarrow> None))"

definition parse_chrony_servers :: "string \<Rightarrow> string list" where
  "parse_chrony_servers content = List.map_filter chrony_server (lines content)"

definition drop_blank_end :: "string list \<Rightarrow> string list" where
  "drop_blank_end ls = rev (dropWhile (\<lambda>l. trim l = []) (rev ls))"

text \<open>The new text of \<open>chrony.conf\<close>: what is no server line, without blank lines at its end, and
  then the given lines.\<close>

definition chrony_with :: "string list \<Rightarrow> string \<Rightarrow> string" where
  "chrony_with server_lines content =
     join [NL]
       (drop_blank_end (filter (\<lambda>l. \<not> is_server_word (split_whitespace l)) (lines content))
        @ [''# NTP servers managed by Tenodera''] @ server_lines)
     @ [NL]"

definition set_timesyncd_servers ::
  "'w agent_host \<Rightarrow> string \<Rightarrow> string \<Rightarrow> string list \<Rightarrow> string list \<Rightarrow> ('w, json) act" where
  "set_timesyncd_servers h user password servers fallback =
     (let content = ''# Managed by Tenodera'' @ [NL] @ ''[Time]'' @ [NL] @ ''NTP='' @ join '' '' servers @ [NL]
            @ (if fallback = [] then [] else ''FallbackNTP='' @ join '' '' fallback @ [NL])
      in do {
        mk \<leftarrow> sudo h user password [''mkdir'', ''-p'', ''/etc/systemd/timesyncd.conf.d''];
        if has_error mk then ret mk
        else do {
          w \<leftarrow> sudo_write h user password [''tee'', ''/etc/systemd/timesyncd.conf.d/90-tenodera.conf''] content;
          if has_error w then ret w
          else do {
            r \<leftarrow> sudo h user password [''systemctl'', ''restart'', ''systemd-timesyncd''];
            record_audit user ''system.set_ntp_servers'' (join '','' servers) (\<not> has_error r) ''timesyncd'';
            ret (if has_error r then r else ok_json) } } })"

definition set_chrony_servers :: "'w agent_host \<Rightarrow> string \<Rightarrow> string \<Rightarrow> string list \<Rightarrow> ('w, json) act" where
  "set_chrony_servers h user password servers =
     (if servers = [] then ret (jerror ''provide at least one NTP server'')
      else do {
        p \<leftarrow> chrony_conf_path h;
        case p of
          None \<Rightarrow> ret (jerror ''chrony configuration file not found'')
        | Some path \<Rightarrow> do {
            content \<leftarrow> read_file h path;
            w \<leftarrow> sudo_write h user password [''tee'', path]
                   (chrony_with (map (\<lambda>s. ''server '' @ s @ '' iburst'') servers) (unwrap_or [] content));
            if has_error w then ret w
            else do {
              unit \<leftarrow> active_unit h [''chronyd'', ''chrony''];
              r \<leftarrow> sudo h user password [''systemctl'', ''restart'', unwrap_or ''chronyd'' unit];
              record_audit user ''system.set_ntp_servers'' (join '','' servers) (\<not> has_error r) ''chrony'';
              ret (if has_error r then r else ok_json) } } })"

definition set_ntp_servers :: "'w agent_host \<Rightarrow> json \<Rightarrow> string \<Rightarrow> string \<Rightarrow> ('w, json) act" where
  "set_ntp_servers h data user password =
     (let servers = tokenize (trimmed_field data ''servers''); fallback = tokenize (trimmed_field data ''fallback'')
      in if servers = [] \<and> fallback = [] then ret (jerror ''provide at least one NTP server'')
         else (case List.find (\<lambda>s. \<not> is_valid_ntp_host s) (servers @ fallback) of
                 Some host \<Rightarrow> ret (jerror (''invalid server: '' @ host))
               | None \<Rightarrow> do {
                   src \<leftarrow> ntp_source h;
                   if fst src = ''systemd-timesyncd'' then set_timesyncd_servers h user password servers fallback
                   else if fst src = ''chrony'' then set_chrony_servers h user password servers
                   else if fst src = [] then ret (jerror ''no active NTP service detected'')
                   else ret (jerror (''NTP server editing is not supported for '' @ fst src)) }))"

section \<open>Reading\<close>

definition reboot_reason :: "string \<Rightarrow> string" where
  "reboot_reason pkgs =
     (let n = length (filter (\<lambda>l. trim l \<noteq> []) (lines pkgs))
      in if n = 0 then ''A system update requires a reboot.''
         else show_nat n @ '' updated package(s) require a reboot.'')"

definition reboot_required :: "'w agent_host \<Rightarrow> ('w, bool \<times> string) act" where
  "reboot_required h = do {
     a \<leftarrow> path_exists h ''/run/reboot-required'';
     b \<leftarrow> path_exists h ''/var/run/reboot-required'';
     if a \<or> b then do {
       p \<leftarrow> read_file h ''/run/reboot-required.pkgs'';
       q \<leftarrow> read_file h ''/var/run/reboot-required.pkgs'';
       ret (True, reboot_reason (case p of Some t \<Rightarrow> t | None \<Rightarrow> unwrap_or [] q)) }
     else do {
       present \<leftarrow> installed h ''needs-restarting'';
       if present then do {
         code \<leftarrow> run_status h ''needs-restarting'' [''-r''];
         ret (if code = Some 1 then (True, ''Updated packages require a reboot.'') else (False, [])) }
       else ret (False, []) } }"

definition configured_servers :: "'w agent_host \<Rightarrow> string \<Rightarrow> ('w, string \<times> string) act" where
  "configured_servers h service =
     (if service = ''systemd-timesyncd'' then do {
        out \<leftarrow> run h [''timedatectl'', ''show-timesync''];
        ret (kv_text (kv_of out) ''SystemNTPServers'', kv_text (kv_of out) ''FallbackNTPServers'') }
      else if service = ''chrony'' then do {
        p \<leftarrow> chrony_conf_path h;
        case p of
          None \<Rightarrow> ret ([], [])
        | Some path \<Rightarrow> do {
            content \<leftarrow> read_file h path;
            ret (case content of None \<Rightarrow> [] | Some c \<Rightarrow> join '' '' (parse_chrony_servers c), []) } }
      else ret ([], []))"

definition chassis_names :: "string list" where
  "chassis_names = [''desktop'', ''laptop'', ''convertible'', ''server'', ''tablet'', ''handset'', ''watch'',
     ''embedded'', ''vm'', ''container'']"

definition strings :: "string list \<Rightarrow> json" where
  "strings xs = JArr (map JStr xs)"

definition read_settings :: "'w agent_host \<Rightarrow> ('w, json) act" where
  "read_settings h = do {
     td_out \<leftarrow> run h [''timedatectl'', ''show''];
     local_time \<leftarrow> run h [''date'', ''+%Y-%m-%d %H:%M:%S %Z''];
     utc_time \<leftarrow> run h [''date'', ''-u'', ''+%Y-%m-%d %H:%M:%S''];
     src \<leftarrow> ntp_source h;
     configured \<leftarrow> configured_servers h (fst src);
     reboot \<leftarrow> reboot_required h;
     hn_out \<leftarrow> run h [''hostnamectl'', ''status''];
     (let td = kv_of td_out; hn = parse_hostnamectl (ah_lower h) (lines hn_out) []
      in do {
        static_name \<leftarrow> (if kv_text hn ''static'' \<noteq> [] then ret (kv_text hn ''static'')
                        else do { out \<leftarrow> run h [''hostnamectl'', ''--static'']; ret (trim out) });
        transient_name \<leftarrow> run h [''hostname''];
        loc_out \<leftarrow> run h [''localectl'', ''status''];
        timezones \<leftarrow> run h [''timedatectl'', ''list-timezones''];
        locales \<leftarrow> run h [''localectl'', ''list-locales''];
        keymaps \<leftarrow> run h [''localectl'', ''list-keymaps''];
        layouts \<leftarrow> run h [''localectl'', ''list-x11-keymap-layouts''];
        (let loc = parse_localectl loc_out
         in ret (JObj
           [(''time'', JObj
              [(''timezone'', JStr (kv_text td ''Timezone'')), (''ntp'', JBool (kv_yes td ''NTP'')),
               (''ntp_synced'', JBool (kv_yes td ''NTPSynchronized'')), (''can_ntp'', JBool (kv_yes td ''CanNTP'')),
               (''local_rtc'', JBool (kv_yes td ''LocalRTC'')), (''local_time'', JStr (trim local_time)),
               (''utc_time'', JStr (trim utc_time)),
               (''rtc_time'', JStr (case hm_get td ''RTCTimeUSec'' of None \<Rightarrow> [] | Some s \<Rightarrow> strip_weekday s)),
               (''ntp_service'', JStr (fst src)), (''ntp_server'', JStr (snd src)),
               (''ntp_servers'', JStr (fst configured)), (''ntp_fallback'', JStr (snd configured))]),
            (''reboot_required'', JBool (fst reboot)), (''reboot_reason'', JStr (snd reboot)),
            (''hostname'', JObj
              [(''static'', JStr static_name), (''transient'', JStr (trim transient_name)),
               (''pretty'', JStr (kv_text hn ''pretty'')), (''chassis'', JStr (kv_text hn ''chassis'')),
               (''deployment'', JStr (kv_text hn ''deployment'')), (''location'', JStr (kv_text hn ''location'')),
               (''icon_name'', JStr (kv_text hn ''icon''))]),
            (''locale'', JObj
              [(''lang'', JStr (li_lang loc)), (''keymap'', JStr (li_keymap loc)),
               (''x11_layout'', JStr (li_x11_layout loc)), (''x11_model'', JStr (li_x11_model loc)),
               (''x11_variant'', JStr (li_x11_variant loc))]),
            (''options'', JObj
              [(''timezones'', strings (text_lines timezones)), (''locales'', strings (text_lines locales)),
               (''keymaps'', strings (text_lines keymaps)), (''x11_layouts'', strings (text_lines layouts)),
               (''chassis'', strings chassis_names),
               (''deployments'', strings [''development'', ''integration'', ''staging'', ''production''])])])) }) }"

section \<open>Changing\<close>

text \<open>A value from a list the host gives; without a list any value passes.\<close>

definition from_list ::
  "'w agent_host \<Rightarrow> string list \<Rightarrow> string \<Rightarrow> string \<Rightarrow> ('w, json) act \<Rightarrow> ('w, json) act" where
  "from_list h query what v m = do {
     out \<leftarrow> run h query;
     (if text_lines out \<noteq> [] \<and> v \<notin> set (text_lines out)
      then ret (jerror (''unknown '' @ what @ '': '' @ v)) else m) }"

definition true_false :: "bool \<Rightarrow> string" where
  "true_false b = (if b then ''true'' else ''false'')"

definition settings_change :: "'w agent_host \<Rightarrow> string \<Rightarrow> json \<Rightarrow> string \<Rightarrow> string \<Rightarrow> ('w, json) act" where
  "settings_change h action data user password =
     (let do_it = (\<lambda>name target args. audited_as user name target (sudo h user password args))
      in if action = ''set_timezone'' then
           (let tz = trimmed_field data ''timezone''
            in ensure (tz \<noteq> []) ''timezone is required''
               (from_list h [''timedatectl'', ''list-timezones''] ''timezone'' tz
                 (do_it ''system.set_timezone'' tz [''timedatectl'', ''set-timezone'', tz])))
         else if action = ''set_ntp'' then
           (let arg = true_false (bool_field False data ''enabled'')
            in do_it ''system.set_ntp'' arg [''timedatectl'', ''set-ntp'', arg])
         else if action = ''set_time'' then
           (let ts = trimmed_field data ''time''
            in ensure (is_valid_datetime ts) ''expected time as YYYY-MM-DD HH:MM:SS''
               (do_it ''system.set_time'' ts [''timedatectl'', ''set-time'', ts]))
         else if action = ''set_ntp_servers'' then set_ntp_servers h data user password
         else if action = ''set_local_rtc'' then
           (let arg = true_false (bool_field False data ''enabled'')
            in do_it ''system.set_local_rtc'' arg [''timedatectl'', ''set-local-rtc'', arg])
         else if action = ''set_hostname'' then
           (let name = trimmed_field data ''hostname''
            in ensure (is_valid_hostname name) ''invalid hostname''
               (do_it ''system.set_hostname'' name [''hostnamectl'', ''set-hostname'', name]))
         else if action = ''set_locale'' then
           (let lang = trimmed_field data ''lang''
            in ensure (lang \<noteq> []) ''locale is required''
               (from_list h [''localectl'', ''list-locales''] ''locale'' lang
                 (do_it ''system.set_locale'' lang [''localectl'', ''set-locale'', ''LANG='' @ lang])))
         else if action = ''set_keymap'' then
           (let keymap = trimmed_field data ''keymap''
            in ensure (keymap \<noteq> []) ''keymap is required''
               (from_list h [''localectl'', ''list-keymaps''] ''keymap'' keymap
                 (do_it ''system.set_keymap'' keymap [''localectl'', ''set-keymap'', keymap])))
         else if action = ''set_x11_keymap'' then
           (let layout = trimmed_field data ''x11_layout''; variant = trimmed_field data ''x11_variant''
            in ensure (layout \<noteq> []) ''X11 layout is required''
               (ensure (is_safe_token layout \<and> (variant = [] \<or> is_safe_token variant)) ''invalid layout/variant''
                 (do_it ''system.set_x11_keymap'' (if variant = [] then layout else layout @ '' '' @ variant)
                   ([''localectl'', ''set-x11-keymap'', layout] @ (if variant = [] then [] else [[], variant])))))
         else if action = ''set_pretty_hostname'' then
           (let name = trimmed_field data ''pretty''
            in ensure (length name \<le> 200) ''pretty hostname too long''
               (do_it ''system.set_pretty_hostname'' name [''hostnamectl'', ''set-hostname'', ''--pretty'', name]))
         else if action = ''set_chassis'' then
           (let chassis = trimmed_field data ''chassis''
            in ensure (chassis \<in> set chassis_names) (''invalid chassis: '' @ chassis)
               (do_it ''system.set_chassis'' chassis [''hostnamectl'', ''set-chassis'', chassis]))
         else if action = ''set_deployment'' then
           (let dep = trimmed_field data ''deployment''
            in ensure (dep = [] \<or> is_safe_token dep) ''invalid deployment''
               (do_it ''system.set_deployment'' dep [''hostnamectl'', ''set-deployment'', dep]))
         else if action = ''set_location'' then
           (let loc = trimmed_field data ''location''
            in ensure (length loc \<le> 200) ''location too long''
               (do_it ''system.set_location'' loc [''hostnamectl'', ''set-location'', loc]))
         else ret (jerror (''unknown action: '' @ action)))"

definition settings_answer :: "'w agent_host \<Rightarrow> open_options \<Rightarrow> ('w, json) act" where
  "settings_answer h o' =
     (let action = opt_str o' ''action''
      in if action = [] \<or> action = ''read'' then read_settings h
         else admin_only (options_json o')
           (settings_change h action (options_json o') (opt_str o' ''_user'') (opt_str o' ''password'')))"

definition system_settings :: "'w agent_host \<Rightarrow> 'w agent_state handler" where
  "system_settings h = answering ''system.settings'' (settings_answer h)"

section \<open>What it may run\<close>

definition settings_sudo :: "(string \<Rightarrow> string) \<Rightarrow> string list \<Rightarrow> bool" where
  "settings_sudo b64 args \<longleftrightarrow>
     (\<exists>tool verb rest. args = tool # verb # rest \<and>
        (tool, verb) \<in> {(''timedatectl'', ''set-timezone''), (''timedatectl'', ''set-ntp''), (''timedatectl'', ''set-time''),
          (''timedatectl'', ''set-local-rtc''), (''hostnamectl'', ''set-hostname''), (''hostnamectl'', ''set-chassis''),
          (''hostnamectl'', ''set-deployment''), (''hostnamectl'', ''set-location''), (''localectl'', ''set-locale''),
          (''localectl'', ''set-keymap''), (''localectl'', ''set-x11-keymap'')}) \<or>
     (\<exists>unit. args = [''systemctl'', ''restart'', unit]) \<or>
     args = [''mkdir'', ''-p'', ''/etc/systemd/timesyncd.conf.d''] \<or>
     (\<exists>path txt. args = [''sh'', ''-c'', write_script b64 [''tee'', path] txt] \<and>
        path \<in> {''/etc/systemd/timesyncd.conf.d/90-tenodera.conf'', ''/etc/chrony/chrony.conf'', ''/etc/chrony.conf''})"

definition settings_plain :: "string list \<Rightarrow> bool" where
  "settings_plain args \<longleftrightarrow>
     args \<noteq> [] \<and> (hd args \<in> {''date'', ''hostname'', ''which''} \<or> args = [''needs-restarting'', ''-r''] \<or>
       (\<exists>verb rest. args = hd args # verb # rest \<and>
          (hd args, verb) \<in> {(''timedatectl'', ''show''), (''timedatectl'', ''show-timesync''),
            (''timedatectl'', ''list-timezones''), (''hostnamectl'', ''status''), (''hostnamectl'', ''--static''),
            (''localectl'', ''status''), (''localectl'', ''list-locales''), (''localectl'', ''list-keymaps''),
            (''localectl'', ''list-x11-keymap-layouts''), (''systemctl'', ''is-active'')}))"

abbreviation settings_confined :: "'w agent_host \<Rightarrow> string \<Rightarrow> string \<Rightarrow> effect \<Rightarrow> bool" where
  "settings_confined h \<equiv> confined (settings_sudo (ah_b64 h)) nothing settings_plain"

lemma settings_plain_intros [simp]:
  "settings_plain (''date'' # args)" "settings_plain [''hostname'']" "settings_plain [''which'', cmd]"
  "settings_plain [''needs-restarting'', ''-r'']" "settings_plain (''timedatectl'' # ''show'' # args)"
  "settings_plain (''timedatectl'' # ''show-timesync'' # args)" "settings_plain (''timedatectl'' # ''list-timezones'' # args)"
  "settings_plain (''hostnamectl'' # ''status'' # args)" "settings_plain (''hostnamectl'' # ''--static'' # args)"
  "settings_plain (''localectl'' # ''status'' # args)" "settings_plain (''localectl'' # ''list-locales'' # args)"
  "settings_plain (''localectl'' # ''list-keymaps'' # args)"
  "settings_plain (''localectl'' # ''list-x11-keymap-layouts'' # args)" "settings_plain (''systemctl'' # ''is-active'' # args)"
  by (simp_all add: settings_plain_def)

lemma emits_active_unit [emits_intros]:
  "(\<And>u. u \<in> set us \<Longrightarrow> P (Ran (plain_command ''systemctl'' [''is-active'', u]))) \<Longrightarrow> emits P (active_unit h us)"
  by (induction us) (auto intro!: emits_intros)

lemma emits_ntp_source [emits_intros]: "emits (queries settings_plain) (ntp_source h)"
  unfolding ntp_source_def Let_def by (intro emits_intros) simp_all

lemma emits_chrony_conf_path [emits_intros]: "emits P (chrony_conf_path h)"
  unfolding chrony_conf_path_def by (rule emits_pure)

lemma emits_read_settings: "emits (queries settings_plain) (read_settings h)"
  unfolding read_settings_def configured_servers_def reboot_required_def Let_def
  by (intro emits_intros) simp_all

lemmas emits_read_settings_confined = emits_queries [OF emits_read_settings]
lemmas emits_ntp_source_confined = emits_queries [OF emits_ntp_source]

lemma settings_sudo_intros:
  "settings_sudo b64 (''timedatectl'' # ''set-timezone'' # args)" "settings_sudo b64 (''timedatectl'' # ''set-ntp'' # args)"
  "settings_sudo b64 (''timedatectl'' # ''set-time'' # args)" "settings_sudo b64 (''timedatectl'' # ''set-local-rtc'' # args)"
  "settings_sudo b64 (''hostnamectl'' # ''set-hostname'' # args)" "settings_sudo b64 (''hostnamectl'' # ''set-chassis'' # args)"
  "settings_sudo b64 (''hostnamectl'' # ''set-deployment'' # args)" "settings_sudo b64 (''hostnamectl'' # ''set-location'' # args)"
  "settings_sudo b64 (''localectl'' # ''set-locale'' # args)" "settings_sudo b64 (''localectl'' # ''set-keymap'' # args)"
  "settings_sudo b64 (''localectl'' # ''set-x11-keymap'' # args)"
  "settings_sudo b64 [''systemctl'', ''restart'', unit]"
  "settings_sudo b64 [''mkdir'', ''-p'', ''/etc/systemd/timesyncd.conf.d'']"
  by (auto simp: settings_sudo_def)

lemma settings_sudo_write:
  "path \<in> {''/etc/systemd/timesyncd.conf.d/90-tenodera.conf'', ''/etc/chrony/chrony.conf'', ''/etc/chrony.conf''} \<Longrightarrow>
   settings_sudo b64 [''sh'', ''-c'', write_script b64 [''tee'', path] txt]"
  unfolding settings_sudo_def by blast

text \<open>The configuration file that is found is one of the two.\<close>

definition conf_file :: "string option \<Rightarrow> bool" where
  "conf_file p \<longleftrightarrow> (\<forall>path. p = Some path \<longrightarrow> path \<in> {''/etc/chrony/chrony.conf'', ''/etc/chrony.conf''})"

lemma yields_chrony_conf_path: "yields (chrony_conf_path h) (\<lambda>p es. es = [] \<and> conf_file p)"
  by (rule yieldsI) (auto simp: chrony_conf_path_def conf_file_def)

lemma emits_bind_path [emits_intros]:
  "(\<And>p. conf_file p \<Longrightarrow> emits P (f p)) \<Longrightarrow> emits P (chrony_conf_path h \<bind> f)"
  unfolding emits_def by (rule yields_bind [OF yields_chrony_conf_path]) auto

text \<open>Each command of a change is one of those.\<close>

lemma settings_confined_sudo:
  "settings_sudo (ah_b64 h) args \<Longrightarrow> emits (settings_confined h user password) (sudo h user password args)"
  by (intro emits_sudo confined_sudo)

lemma settings_confined_write:
  "path \<in> {''/etc/systemd/timesyncd.conf.d/90-tenodera.conf'', ''/etc/chrony/chrony.conf'', ''/etc/chrony.conf''} \<Longrightarrow>
   emits (settings_confined h user password) (sudo_write h user password [''tee'', path] txt)"
  by (intro emits_sudo_write confined_sudo settings_sudo_write)

lemma settings_confined_audit:
  "emits (settings_confined h user password) (record_audit user action target ok details)"
  by (intro emits_record_audit confined_audit)

lemmas change_intros = emits_bind emits_if emits_ret emits_option emits_reads settings_confined_sudo
  settings_confined_write settings_confined_audit settings_sudo_intros

lemma emits_set_timesyncd: "emits (settings_confined h user password) (set_timesyncd_servers h user password a b)"
  unfolding set_timesyncd_servers_def Let_def by (intro change_intros) simp

lemma emits_set_chrony: "emits (settings_confined h user password) (set_chrony_servers h user password servers)"
proof -
  have wr: "emits (settings_confined h user password) (sudo_write h user password [''tee'', path] txt)"
    if "conf_file p" "p = Some path" for path p "txt"
    using that by (intro settings_confined_write) (simp add: conf_file_def)
  have unit: "emits (settings_confined h user password) (active_unit h us)" for us
    by (intro emits_active_unit confined_plain settings_plain_intros)
  show ?thesis
    unfolding set_chrony_servers_def
    by (intro emits_if emits_ret emits_bind_path emits_option emits_bind emits_reads unit settings_confined_sudo
        settings_confined_audit settings_sudo_intros; rule wr; assumption)
qed

lemma emits_set_ntp: "emits (settings_confined h user password) (set_ntp_servers h data user password)"
  unfolding set_ntp_servers_def Let_def
  by (intro emits_if emits_ret emits_option emits_bind emits_ntp_source_confined emits_set_timesyncd emits_set_chrony)

lemma emits_from_list:
  "settings_plain query \<Longrightarrow> query \<noteq> [] \<Longrightarrow> emits (settings_confined h user password) m \<Longrightarrow>
   emits (settings_confined h user password) (from_list h query what v m)"
  unfolding from_list_def by (intro emits_bind emits_run emits_if emits_ret confined_plain) simp_all

lemma emits_settings_change:
  "emits (settings_confined h user password) (settings_change h action data user password)"
  unfolding settings_change_def Let_def
  by (intro emits_ensure emits_from_list emits_if emits_audited_as settings_confined_sudo emits_ret emits_set_ntp
        confined_audit settings_sudo_intros settings_plain_intros) (simp_all add: settings_sudo_intros)

interpretation system_settings: bounded_handler "system_settings h" "settings_confined h"
  unfolding system_settings_def settings_answer_def Let_def
  by (rule bounded_answering)
     (intro emits_if emits_read_settings_confined emits_admin_only emits_settings_change)

text \<open>Anyone but an administrator reads.\<close>

interpretation system_settings: reading_handler "system_settings h" "queries settings_plain"
  unfolding system_settings_def settings_answer_def Let_def
  by (rule reading_answering) (intro emits_if emits_read_settings emits_refused, simp)

end
