(* ===== verification/TimeSync.thy ===== *)
theory TimeSync
  imports Settings TextFacts
begin

text \<open>
  The time daemons: \<open>chrony.manage\<close> (\<open>agent/src/handlers/chrony.rs\<close>) with the parsers of
  \<open>chronyc\<close>'s output and the rewriting of \<open>chrony.conf\<close>, and \<open>timesync.manage\<close>
  (\<open>agent/src/handlers/timesync.rs\<close>) for the other daemons.
\<close>

section \<open>The output of chronyc\<close>

definition parse_kv_colon :: "string \<Rightarrow> jmap" where
  "parse_kv_colon out =
     foldl (\<lambda>m line. case split_once (CHR '':'') line of
         None \<Rightarrow> m
       | Some (k, v) \<Rightarrow>
           if trim k \<noteq> [] \<and> \<not> contains_str ''Cannot'' (trim k) then hm_put (trim k) (JStr (trim v)) m else m)
       [] (lines out)"

definition first_num :: "string \<Rightarrow> int" where
  "first_num line = (case split_whitespace line of [] \<Rightarrow> 0 | t # _ \<Rightarrow> unwrap_or 0 (parse_i64 t))"

record activity =
  ac_online :: int
  ac_offline :: int
  ac_unknown :: int

definition activity_line :: "activity \<Rightarrow> string \<Rightarrow> activity" where
  "activity_line a line =
     (if contains_str ''online'' line then a\<lparr>ac_online := first_num line\<rparr>
      else if contains_str ''offline'' line then a\<lparr>ac_offline := first_num line\<rparr>
      else if contains_str ''unknown address'' line then a\<lparr>ac_unknown := first_num line\<rparr>
      else a)"

definition parse_activity :: "string \<Rightarrow> activity" where
  "parse_activity out = foldl activity_line \<lparr>ac_online = 0, ac_offline = 0, ac_unknown = 0\<rparr> (lines out)"

definition activity_json :: "activity \<Rightarrow> json" where
  "activity_json a =
     JObj [(''online'', JInt (ac_online a)), (''offline'', JInt (ac_offline a)), (''unknown'', JInt (ac_unknown a))]"

text \<open>A row of \<open>chronyc sources\<close>: \<open>None\<close> is the panic of the slice \<open>&line[..2]\<close> inside a character.\<close>

definition source_row :: "string \<Rightarrow> json option option" where
  "source_row line =
     (if length line < 3 then Some None
      else (case (str_slice line 0 2, str_slice line 2 (length line)) of
              (Some code, Some rest) \<Rightarrow>
                (let mode = hd (chars_of code);
                     state = (case chars_of code of _ # st # _ \<Rightarrow> st | _ \<Rightarrow> '' '');
                     toks = split_whitespace rest
                 in Some (if mode \<notin> {''^'', ''='', ''#''} \<or> length toks < 5 then None
                          else Some (JObj
                            [(''code'', JStr (trim code)), (''mode'', JStr mode), (''state'', JStr state),
                             (''synced'', JBool (state = ''*'')), (''name'', JStr (toks ! 0)),
                             (''stratum'', JStr (toks ! 1)), (''poll'', JStr (toks ! 2)), (''reach'', JStr (toks ! 3)),
                             (''last_rx'', JStr (toks ! 4)), (''last_sample'', JStr (join '' '' (drop 5 toks)))])))
            | _ \<Rightarrow> None))"

fun source_rows :: "string list \<Rightarrow> json list option" where
  "source_rows [] = Some []"
| "source_rows (l # ls) =
     Option.bind (source_row l) (\<lambda>r. map_option (\<lambda>rs. (case r of None \<Rightarrow> rs | Some j \<Rightarrow> j # rs)) (source_rows ls))"

definition parse_sources :: "string \<Rightarrow> json list option" where
  "parse_sources out = source_rows (lines out)"

record server_entry =
  sv_type :: string
  sv_host :: string
  sv_options :: string

definition server_of :: "string \<Rightarrow> server_entry option" where
  "server_of l =
     (let t = trim l; ws = split_whitespace t
      in if starts_with ''#'' t \<or> starts_with ''!'' t \<or> \<not> is_server_word ws then None
         else (case ws of
                 kw # host # opts \<Rightarrow>
                   Some \<lparr>sv_type = map ascii_lower kw, sv_host = host, sv_options = join '' '' opts\<rparr>
               | _ \<Rightarrow> None))"

definition parse_servers_struct :: "string \<Rightarrow> server_entry list" where
  "parse_servers_struct content = List.map_filter server_of (lines content)"

definition server_json :: "server_entry \<Rightarrow> json" where
  "server_json e =
     JObj [(''type'', JStr (sv_type e)), (''host'', JStr (sv_host e)), (''options'', JStr (sv_options e))]"

section \<open>chrony.manage\<close>

definition is_safe_opt :: "string \<Rightarrow> bool" where
  "is_safe_opt s \<longleftrightarrow>
     s \<noteq> [] \<and> length s \<le> 32 \<and> list_all (\<lambda>c. is_ascii_alphanumeric c \<or> c = CHR ''-'' \<or> c = CHR ''_'') s"

definition chrony_read :: "'w agent_host \<Rightarrow> ('w, json option) act" where
  "chrony_read h = do {
     has_chronyc \<leftarrow> installed h ''chronyc'';
     path \<leftarrow> chrony_conf_path h;
     if \<not> has_chronyc \<and> path = None then ret (Some (JObj [(''available'', JBool False)]))
     else do {
       tracking \<leftarrow> run h [''chronyc'', ''tracking''];
       activity \<leftarrow> run h [''chronyc'', ''activity''];
       sources \<leftarrow> run h [''chronyc'', ''sources''];
       case parse_sources sources of
         None \<Rightarrow> ret None
       | Some rows \<Rightarrow> do {
           raw \<leftarrow> (case path of None \<Rightarrow> ret None | Some p \<Rightarrow> read_file h p);
           ret (Some (JObj
             [(''available'', JBool True), (''config_path'', jopt_str path), (''tracking'', JObj (parse_kv_colon tracking)),
              (''activity'', activity_json (parse_activity activity)), (''sources'', JArr rows),
              (''config_raw'', JStr (unwrap_or [] raw)),
              (''servers'', JArr (map server_json (parse_servers_struct (unwrap_or [] raw))))])) } } }"

definition chrony_units :: "string list" where
  "chrony_units = [''chronyd'', ''chrony'']"

definition restart_chrony :: "'w agent_host \<Rightarrow> string \<Rightarrow> string \<Rightarrow> ('w, json) act" where
  "restart_chrony h user password = do {
     unit \<leftarrow> active_unit h chrony_units;
     sudo h user password [''systemctl'', ''restart'', unwrap_or ''chronyd'' unit] }"

text \<open>An audited step whose result is reported as success or with its error.\<close>

definition reported :: "string \<Rightarrow> string \<Rightarrow> string \<Rightarrow> string \<Rightarrow> ('w, json) act \<Rightarrow> ('w, json) act" where
  "reported user action target details m = do {
     r \<leftarrow> m;
     record_audit user action target (\<not> has_error r) details;
     ret (if has_error r then r else ok_json) }"

definition write_server_lines :: "'w agent_host \<Rightarrow> string \<Rightarrow> string \<Rightarrow> string list \<Rightarrow> ('w, json) act" where
  "write_server_lines h user password lines_out = do {
     p \<leftarrow> chrony_conf_path h;
     case p of
       None \<Rightarrow> ret (jerror ''chrony configuration file not found'')
     | Some path \<Rightarrow> do {
         content \<leftarrow> read_file h path;
         w \<leftarrow> sudo_write h user password [''tee'', path] (chrony_with lines_out (unwrap_or [] content));
         if has_error w then ret w
         else reported user ''chrony.set_servers'' (show_nat (length lines_out) @ '' entries'') []
                (restart_chrony h user password) } }"

definition server_line :: "json \<Rightarrow> string + string" where
  "server_line e =
     (let kind = unwrap_or ''server'' (jget_str e ''type''); host = trim (str_field e ''host'');
          opts = trim (str_field e ''options'')
      in if kind \<noteq> ''server'' \<and> kind \<noteq> ''pool'' then Inl (''invalid type: '' @ kind)
         else if \<not> is_valid_ntp_host host then Inl (''invalid host: '' @ host)
         else (case List.find (\<lambda>t. \<not> is_safe_opt t) (split_whitespace opts) of
                 Some tok \<Rightarrow> Inl (''invalid option: '' @ tok)
               | None \<Rightarrow> Inr (if opts = [] then kind @ '' '' @ host else kind @ '' '' @ host @ '' '' @ opts)))"

fun server_lines :: "json list \<Rightarrow> string + string list" where
  "server_lines [] = Inr []"
| "server_lines (e # es) =
     (case server_line e of
        Inl err \<Rightarrow> Inl err
      | Inr l \<Rightarrow> (case server_lines es of Inl err \<Rightarrow> Inl err | Inr ls \<Rightarrow> Inr (l # ls)))"

definition set_servers :: "'w agent_host \<Rightarrow> json \<Rightarrow> string \<Rightarrow> string \<Rightarrow> ('w, json) act" where
  "set_servers h data user password =
     (case server_lines (unwrap_or [] (Option.bind (jget data ''servers'') as_array)) of
        Inl err \<Rightarrow> ret (jerror err)
      | Inr ls \<Rightarrow>
          if ls = [] then ret (jerror ''provide at least one server or pool'')
          else write_server_lines h user password ls)"

definition normalized :: "string \<Rightarrow> string" where
  "normalized content = (if ends_with [NL] content then content else content @ [NL])"

definition chrony_save :: "'w agent_host \<Rightarrow> json \<Rightarrow> string \<Rightarrow> string \<Rightarrow> ('w, json) act" where
  "chrony_save h data user password =
     (let content = str_field data ''content''
      in if trim content = [] then ret (jerror ''config is empty'')
         else do {
           p \<leftarrow> chrony_conf_path h;
           case p of
             None \<Rightarrow> ret (jerror ''chrony configuration file not found'')
           | Some path \<Rightarrow> do {
               w \<leftarrow> sudo_write h user password [''tee'', path] (normalized content);
               if has_error w then ret w
               else reported user ''chrony.save_config'' path [] (restart_chrony h user password) } })"

definition run_command :: "'w agent_host \<Rightarrow> json \<Rightarrow> string \<Rightarrow> string \<Rightarrow> ('w, json) act" where
  "run_command h data user password =
     (let cmd = str_field data ''cmd''
      in if cmd \<in> {''makestep'', ''online'', ''offline''} then
           reported user ''chrony.command'' cmd [] (sudo h user password [''chronyc'', cmd])
         else if cmd = ''restart'' then
           reported user ''chrony.command'' cmd [] (restart_chrony h user password)
         else ret (jerror (''unknown command: '' @ cmd)))"

definition chrony_apply :: "'w agent_host \<Rightarrow> string \<Rightarrow> json \<Rightarrow> string \<Rightarrow> string \<Rightarrow> ('w, json) act" where
  "chrony_apply h action data user password =
     (if action = ''set_servers'' then set_servers h data user password
      else if action = ''save_config'' then chrony_save h data user password
      else if action = ''command'' then run_command h data user password
      else ret (jerror (''unknown action: '' @ action)))"

definition chrony_answer :: "'w agent_host \<Rightarrow> open_options \<Rightarrow> ('w, json option) act" where
  "chrony_answer h o' =
     (let action = opt_str o' ''action''
      in if action = [] \<or> action = ''status'' then chrony_read h
         else do {
           r \<leftarrow> admin_only (options_json o')
                  (chrony_apply h action (options_json o') (opt_str o' ''_user'') (opt_str o' ''password''));
           ret (Some r) })"

definition chrony_manage :: "'w agent_host \<Rightarrow> 'w agent_state handler" where
  "chrony_manage h = answering_or_panic ''chrony.manage'' (chrony_answer h)"

section \<open>timesync.manage\<close>

datatype status_kind = Cmd "string list" | Journal

record daemon_spec =
  sp_daemon :: string
  sp_label :: string
  sp_units :: "string list"
  sp_status :: status_kind
  sp_status_label :: string
  sp_config_paths :: "string list"
  sp_editable :: bool

definition for_daemon :: "string \<Rightarrow> daemon_spec option" where
  "for_daemon d = map_of
     [(''systemd-timesyncd'',
       \<lparr>sp_daemon = ''systemd-timesyncd'', sp_label = ''systemd-timesyncd'', sp_units = [''systemd-timesyncd''],
        sp_status = Cmd [''timedatectl'', ''timesync-status''], sp_status_label = ''timedatectl timesync-status'',
        sp_config_paths = [''/etc/systemd/timesyncd.conf''], sp_editable = True\<rparr>),
      (''ntpd'',
       \<lparr>sp_daemon = ''ntpd'', sp_label = ''ntpd'', sp_units = [''ntp'', ''ntpd''],
        sp_status = Cmd [''ntpq'', ''-pn''], sp_status_label = ''ntpq -pn'',
        sp_config_paths = [''/etc/ntp.conf''], sp_editable = True\<rparr>),
      (''ntpsec'',
       \<lparr>sp_daemon = ''ntpsec'', sp_label = ''NTPsec'', sp_units = [''ntpsec'', ''ntp''],
        sp_status = Cmd [''ntpq'', ''-pn''], sp_status_label = ''ntpq -pn'',
        sp_config_paths = [''/etc/ntpsec/ntp.conf'', ''/etc/ntp.conf''], sp_editable = True\<rparr>),
      (''openntpd'',
       \<lparr>sp_daemon = ''openntpd'', sp_label = ''OpenNTPD'', sp_units = [''openntpd''],
        sp_status = Cmd [''ntpctl'', ''-s'', ''all''], sp_status_label = ''ntpctl -s all'',
        sp_config_paths = [''/etc/openntpd/ntpd.conf'', ''/etc/ntpd.conf''], sp_editable = True\<rparr>),
      (''ptp4l'',
       \<lparr>sp_daemon = ''ptp4l'', sp_label = ''ptp4l (PTP)'', sp_units = [''ptp4l''],
        sp_status = Journal, sp_status_label = ''Recent journal (ptp4l)'',
        sp_config_paths = [''/etc/linuxptp/ptp4l.conf'', ''/etc/ptp4l.conf''], sp_editable = True\<rparr>),
      (''phc2sys'',
       \<lparr>sp_daemon = ''phc2sys'', sp_label = ''phc2sys (PTP)'', sp_units = [''phc2sys''],
        sp_status = Journal, sp_status_label = ''Recent journal (phc2sys)'',
        sp_config_paths = [''/etc/linuxptp/phc2sys.conf''], sp_editable = False\<rparr>)] d"

definition spec_unit :: "'w agent_host \<Rightarrow> daemon_spec \<Rightarrow> ('w, string) act" where
  "spec_unit h sp = do {
     u \<leftarrow> active_unit h (sp_units sp);
     ret (unwrap_or (hd (sp_units sp)) u) }"

definition spec_config_path :: "'w agent_host \<Rightarrow> daemon_spec \<Rightarrow> ('w, string option) act" where
  "spec_config_path h sp = State (\<lambda>w. (List.find (ah_exists h (w_os w)) (sp_config_paths sp), w))"

definition spec_status :: "'w agent_host \<Rightarrow> daemon_spec \<Rightarrow> string \<Rightarrow> ('w, string) act" where
  "spec_status h sp unit =
     (case sp_status sp of
        Cmd args \<Rightarrow> do {
          present \<leftarrow> installed h (hd args);
          if present then run h args else ret (hd args @ '' is not installed.'') }
      | Journal \<Rightarrow> run h [''journalctl'', ''-u'', unit, ''-n'', ''40'', ''--no-pager'', ''-o'', ''short-iso''])"

definition spec_read :: "'w agent_host \<Rightarrow> daemon_spec \<Rightarrow> ('w, json) act" where
  "spec_read h sp = do {
     unit \<leftarrow> spec_unit h sp;
     active \<leftarrow> run h [''systemctl'', ''is-active'', unit];
     enabled \<leftarrow> run h [''systemctl'', ''is-enabled'', unit];
     status \<leftarrow> spec_status h sp unit;
     path \<leftarrow> spec_config_path h sp;
     raw \<leftarrow> (case path of None \<Rightarrow> ret None | Some p \<Rightarrow> read_file h p);
     ret (JObj
       [(''available'', JBool True), (''daemon'', JStr (sp_daemon sp)), (''label'', JStr (sp_label sp)),
        (''unit'', JStr unit), (''active'', JBool (trim active = ''active'')),
        (''enabled'', JBool (trim enabled = ''enabled'')), (''status_label'', JStr (sp_status_label sp)),
        (''status_text'', JStr (trim_end status)), (''config_path'', jopt_str path),
        (''config_raw'', JStr (unwrap_or [] raw)), (''config_editable'', JBool (sp_editable sp \<and> path \<noteq> None))]) }"

definition spec_save :: "'w agent_host \<Rightarrow> daemon_spec \<Rightarrow> json \<Rightarrow> string \<Rightarrow> string \<Rightarrow> ('w, json) act" where
  "spec_save h sp data user password =
     (let content = str_field data ''content''
      in if \<not> sp_editable sp then ret (jerror (sp_label sp @ '' has no editable config file''))
         else if trim content = [] then ret (jerror ''config is empty'')
         else do {
           p \<leftarrow> spec_config_path h sp;
           case p of
             None \<Rightarrow> ret (jerror ''configuration file not found'')
           | Some path \<Rightarrow> do {
               w \<leftarrow> sudo_write h user password [''tee'', path] (normalized content);
               if has_error w then ret w
               else do {
                 unit \<leftarrow> spec_unit h sp;
                 reported user ''timesync.save_config'' path (sp_daemon sp)
                   (sudo h user password [''systemctl'', ''restart'', unit]) } } })"

definition timesync_apply ::
  "'w agent_host \<Rightarrow> daemon_spec \<Rightarrow> string \<Rightarrow> json \<Rightarrow> string \<Rightarrow> string \<Rightarrow> ('w, json) act" where
  "timesync_apply h sp action data user password =
     (if action = ''restart'' then do {
        unit \<leftarrow> spec_unit h sp;
        reported user ''timesync.restart'' unit (sp_daemon sp) (sudo h user password [''systemctl'', ''restart'', unit]) }
      else if action = ''set_enabled'' then do {
        unit \<leftarrow> spec_unit h sp;
        (let verb = (if bool_field False data ''enabled'' then ''enable'' else ''disable'')
         in reported user ''timesync.set_enabled'' unit verb (sudo h user password [''systemctl'', verb, unit])) }
      else if action = ''save_config'' then spec_save h sp data user password
      else ret (jerror (''unknown action: '' @ action)))"

definition timesync_answer :: "'w agent_host \<Rightarrow> open_options \<Rightarrow> ('w, json) act" where
  "timesync_answer h o' =
     (let daemon = opt_str o' ''daemon''; action = opt_str o' ''action''
      in case for_daemon daemon of
           None \<Rightarrow> ret (JObj [(''available'', JBool False), (''error'', JStr (''unsupported daemon: '' @ daemon))])
         | Some sp \<Rightarrow>
             if action = [] \<or> action = ''status'' then spec_read h sp
             else admin_only (options_json o')
               (timesync_apply h sp action (options_json o') (opt_str o' ''_user'') (opt_str o' ''password'')))"

definition timesync_manage :: "'w agent_host \<Rightarrow> 'w agent_state handler" where
  "timesync_manage h = answering ''timesync.manage'' (timesync_answer h)"

section \<open>What they may run\<close>

definition time_units :: "string list" where
  "time_units = [''chronyd'', ''chrony'', ''systemd-timesyncd'', ''ntp'', ''ntpd'', ''ntpsec'', ''openntpd'', ''ptp4l'', ''phc2sys'']"

definition time_configs :: "string list" where
  "time_configs = [''/etc/chrony/chrony.conf'', ''/etc/chrony.conf'', ''/etc/systemd/timesyncd.conf'', ''/etc/ntp.conf'',
     ''/etc/ntpsec/ntp.conf'', ''/etc/openntpd/ntpd.conf'', ''/etc/ntpd.conf'', ''/etc/linuxptp/ptp4l.conf'', ''/etc/ptp4l.conf'',
     ''/etc/linuxptp/phc2sys.conf'']"

text \<open>Through \<open>sudo\<close>: the three commands of \<open>chronyc\<close>, restarting, enabling and disabling one of the
  time daemons, and writing one of their configuration files.\<close>

definition time_sudo :: "(string \<Rightarrow> string) \<Rightarrow> string list \<Rightarrow> bool" where
  "time_sudo b64 args \<longleftrightarrow>
     (\<exists>cmd. args = [''chronyc'', cmd] \<and> cmd \<in> {''makestep'', ''online'', ''offline''}) \<or>
     (\<exists>verb unit. args = [''systemctl'', verb, unit] \<and> verb \<in> {''restart'', ''enable'', ''disable''} \<and> unit \<in> set time_units) \<or>
     (\<exists>path txt. args = [''sh'', ''-c'', write_script b64 [''tee'', path] txt] \<and> path \<in> set time_configs)"

definition time_plain :: "string list \<Rightarrow> bool" where
  "time_plain args \<longleftrightarrow>
     (\<exists>prog rest. args = prog # rest \<and>
        (prog \<in> {''which'', ''ntpq'', ''ntpctl'', ''journalctl''} \<or>
         (\<exists>verb rest'. rest = verb # rest' \<and>
            (prog, verb) \<in> {(''chronyc'', ''tracking''), (''chronyc'', ''activity''), (''chronyc'', ''sources''),
              (''timedatectl'', ''timesync-status''), (''systemctl'', ''is-active''), (''systemctl'', ''is-enabled'')})))"

abbreviation time_confined :: "'w agent_host \<Rightarrow> string \<Rightarrow> string \<Rightarrow> effect \<Rightarrow> bool" where
  "time_confined h \<equiv> confined (time_sudo (ah_b64 h)) nothing time_plain"

lemma time_plain_intros [simp]:
  "time_plain (''which'' # args)" "time_plain (''ntpq'' # args)" "time_plain (''ntpctl'' # args)"
  "time_plain (''journalctl'' # args)" "time_plain (''chronyc'' # ''tracking'' # args)"
  "time_plain (''chronyc'' # ''activity'' # args)" "time_plain (''chronyc'' # ''sources'' # args)"
  "time_plain (''timedatectl'' # ''timesync-status'' # args)" "time_plain (''systemctl'' # ''is-active'' # args)"
  "time_plain (''systemctl'' # ''is-enabled'' # args)"
  by (simp_all add: time_plain_def)

lemma emits_reported [emits_intros]:
  "(\<And>ok. P (Audited user action target ok details)) \<Longrightarrow> emits P m \<Longrightarrow> emits P (reported user action target details m)"
  unfolding reported_def by (intro emits_intros)

text \<open>The unit a daemon's commands address is one of its own.\<close>

lemma active_unit_result:
  "fst (run_state (active_unit h us) w) = None \<or> (\<exists>u \<in> set us. fst (run_state (active_unit h us) w) = Some u)"
proof (induction us arbitrary: w)
  case (Cons u us)
  obtain out w1 where r: "run_state (run h [''systemctl'', ''is-active'', u]) w = (out, w1)" by fastforce
  show ?case
    using Cons [of w1] by (cases "trim out = ''active''") (simp_all add: run_bind r run_ret del: run_primitives, blast)
qed (simp add: run_ret)

lemma emits_active [emits_intros]:
  "emits (time_confined h user password) (active_unit h us)"
  by (intro emits_active_unit confined_plain time_plain_intros)

lemma emits_bind_unit:
  assumes "\<And>u. u = None \<or> (\<exists>v \<in> set us. u = Some v) \<Longrightarrow> emits (time_confined h user password) (f u)"
  shows "emits (time_confined h user password) (active_unit h us \<bind> f)"
  by (rule emits_bind_result [OF emits_active, where R = "\<lambda>u. u = None \<or> (\<exists>v \<in> set us. u = Some v)"])
     (use active_unit_result assms in auto)

lemma time_sudo_systemctl:
  "verb \<in> {''restart'', ''enable'', ''disable''} \<Longrightarrow> unit \<in> set time_units \<Longrightarrow> time_sudo b64 [''systemctl'', verb, unit]"
  by (auto simp: time_sudo_def)

lemma time_confined_systemctl:
  "verb \<in> {''restart'', ''enable'', ''disable''} \<Longrightarrow> unit \<in> set time_units \<Longrightarrow>
   emits (time_confined h user password) (sudo h user password [''systemctl'', verb, unit])"
  by (intro emits_sudo confined_sudo time_sudo_systemctl)

lemma time_confined_write:
  "path \<in> set time_configs \<Longrightarrow> emits (time_confined h user password) (sudo_write h user password [''tee'', path] txt)"
  by (intro emits_sudo_write confined_sudo) (auto simp: time_sudo_def)

lemma emits_restart_chrony: "emits (time_confined h user password) (restart_chrony h user password)"
  unfolding restart_chrony_def
  by (intro emits_bind_unit time_confined_systemctl) (auto simp: chrony_units_def time_units_def)

lemma emits_conf_path:
  "(\<And>p. conf_file p \<Longrightarrow> emits P (f p)) \<Longrightarrow> emits P (chrony_conf_path h \<bind> f)"
  by (rule emits_bind_path)

lemma conf_file_time: "conf_file (Some p) \<Longrightarrow> p \<in> set time_configs"
  by (auto simp: conf_file_def time_configs_def)

lemmas time_rules = emits_if emits_ret emits_reads emits_reported confined_audit emits_restart_chrony

lemma emits_write_server_lines: "emits (time_confined h user password) (write_server_lines h user password ls)"
  unfolding write_server_lines_def
  by (rule emits_bind_path, rule emits_option, rule emits_ret, rule emits_bind, rule emits_reads,
      rule emits_bind, rule time_confined_write, simp add: conf_file_time, intro time_rules)

lemma emits_chrony_save: "emits (time_confined h user password) (chrony_save h data user password)"
  unfolding chrony_save_def Let_def
  by (rule emits_if, rule emits_ret, rule emits_bind_path, rule emits_option, rule emits_ret,
      rule emits_bind, rule time_confined_write, simp add: conf_file_time, intro time_rules)

lemma emits_run_command: "emits (time_confined h user password) (run_command h data user password)"
  unfolding run_command_def Let_def
  by (intro time_rules emits_sudo confined_sudo) (auto simp: time_sudo_def)

lemma emits_chrony_apply: "emits (time_confined h user password) (chrony_apply h action data user password)"
  unfolding chrony_apply_def set_servers_def
  by (intro emits_if emits_sum emits_ret emits_write_server_lines emits_chrony_save emits_run_command)

lemma emits_chrony_read: "emits (queries time_plain) (chrony_read h)"
  unfolding chrony_read_def by (intro emits_intros) simp_all

interpretation chrony_manage: bounded_handler "chrony_manage h" "time_confined h"
  unfolding chrony_manage_def chrony_answer_def Let_def
  by (rule bounded_answering_or_panic)
     (intro emits_if emits_queries [OF emits_chrony_read] emits_bind emits_admin_only emits_chrony_apply emits_ret)

lemma for_daemon_spec:
  assumes "for_daemon d = Some sp"
  shows "set (sp_units sp) \<subseteq> set time_units" "sp_units sp \<noteq> []" "set (sp_config_paths sp) \<subseteq> set time_configs"
    and "sp_status sp = Cmd args \<Longrightarrow> time_plain args \<and> args \<noteq> []"
  using assms by (auto simp: for_daemon_def time_units_def time_configs_def split: if_splits)

lemma emits_bind_spec_unit:
  assumes "for_daemon d = Some sp" and "\<And>u. u \<in> set time_units \<Longrightarrow> emits (time_confined h user password) (f u)"
  shows "emits (time_confined h user password) (spec_unit h sp \<bind> f)"
proof (rule emits_bind_result [where R = "\<lambda>u. u \<in> set time_units"])
  show "emits (time_confined h user password) (spec_unit h sp)"
    unfolding spec_unit_def by (intro emits_bind emits_active emits_ret)
  show "fst (run_state (spec_unit h sp) w) \<in> set time_units" for w
    using active_unit_result [of h "sp_units sp" w] for_daemon_spec(1,2) [OF assms(1)]
    by (auto simp: spec_unit_def run_simps split_beta dest: hd_in_set)
qed (rule assms(2))

lemma emits_bind_spec_config:
  assumes "for_daemon d = Some sp"
    and "\<And>p. p = None \<or> (\<exists>x \<in> set time_configs. p = Some x) \<Longrightarrow> emits P (f p)"
  shows "emits P (spec_config_path h sp \<bind> f)"
proof (rule emits_bind_result [where R = "\<lambda>p. p = None \<or> (\<exists>x \<in> set time_configs. p = Some x)"])
  show "emits P (spec_config_path h sp)" unfolding spec_config_path_def by (rule emits_pure)
  show "fst (run_state (spec_config_path h sp) w) = None \<or>
      (\<exists>x \<in> set time_configs. fst (run_state (spec_config_path h sp) w) = Some x)" for w
    using for_daemon_spec(3) [OF assms(1)]
    by (cases "List.find (ah_exists h (w_os w)) (sp_config_paths sp)")
       (auto simp: spec_config_path_def dest: find_Some_set)
qed (rule assms(2))

lemma emits_spec_read:
  assumes "for_daemon d = Some sp"
  shows "emits (queries time_plain) (spec_read h sp)"
proof -
  have "emits (queries time_plain) (spec_status h sp unit)" for unit
  proof (cases "sp_status sp")
    case (Cmd args)
    with for_daemon_spec(4) [OF assms Cmd] show ?thesis
      by (simp add: spec_status_def) (intro emits_intros time_plain_intros, simp)
  next
    case Journal
    then show ?thesis by (simp add: spec_status_def) (intro emits_intros, simp)
  qed
  moreover have "emits (queries time_plain) (spec_unit h sp)"
    unfolding spec_unit_def by (intro emits_intros) simp
  moreover have "emits (queries time_plain) (spec_config_path h sp)"
    unfolding spec_config_path_def by (rule emits_pure)
  ultimately show ?thesis
    unfolding spec_read_def by (intro emits_intros) simp_all
qed

lemma emits_timesync_apply:
  assumes "for_daemon d = Some sp"
  shows "emits (time_confined h user password) (timesync_apply h sp action data user password)"
  unfolding timesync_apply_def spec_save_def Let_def
  by (intro emits_if emits_ret emits_bind_spec_unit [OF assms] emits_bind_spec_config [OF assms] emits_reported
        confined_audit time_confined_systemctl emits_option emits_bind time_confined_write) auto

interpretation timesync_manage: bounded_handler "timesync_manage h" "time_confined h"
proof -
  have "emits (time_confined h user password) (spec_read h sp)" if "for_daemon d = Some sp" for d sp user password
    by (rule emits_queries [OF emits_spec_read [OF that]])
  then show "bounded_handler (timesync_manage h) (time_confined h)"
    unfolding timesync_manage_def timesync_answer_def Let_def
    by (intro bounded_answering emits_option emits_ret emits_if emits_admin_only)
       (auto intro: emits_timesync_apply)
qed

section \<open>What is written is read back\<close>

definition requested :: "json \<Rightarrow> server_entry" where
  "requested e =
     \<lparr>sv_type = unwrap_or ''server'' (jget_str e ''type''), sv_host = trim (str_field e ''host''),
      sv_options = join '' '' (split_whitespace (str_field e ''options''))\<rparr>"

lemma ntp_host_plain: "is_valid_ntp_host s \<Longrightarrow> plain_word s \<and> NL \<notin> set s"
proof -
  have "is_ascii c \<and> \<not> is_ws_char [c] \<and> c \<noteq> NL" if "is_ascii_alphanumeric c \<or> c \<in> set ''-.:''" for c
    using that by (auto simp: is_ascii_def is_ws_char_single is_ascii_alphanumeric_def is_ascii_digit_def
        is_ascii_upper_def is_ascii_lower_def byte_def)
  then show "is_valid_ntp_host s \<Longrightarrow> plain_word s \<and> NL \<notin> set s"
    unfolding is_valid_ntp_host_def plain_word_def list_all_iff by blast
qed

lemma kind_word:
  assumes "kind = ''server'' \<or> kind = ''pool''"
  shows "plain_word kind" "NL \<notin> set kind" "is_server_word (kind # ws)" "map ascii_lower kind = kind"
    and "\<not> starts_with ''#'' (trim (kind @ s))" "\<not> starts_with ''!'' (trim (kind @ s))"
  using assms
  by (auto simp: plain_word_def is_ascii_def is_ws_char_single byte_def is_server_word_def ascii_lower_def
      is_ascii_upper_def trim_Cons starts_with_def)

lemma server_line_read:
  assumes "server_line e = Inr l"
  shows "server_of l = Some (requested e)"
    and "NL \<notin> set (str_field e ''options'') \<Longrightarrow> NL \<notin> set l"
proof -
  define kind where "kind = unwrap_or ''server'' (jget_str e ''type'')"
  define host where "host = trim (str_field e ''host'')"
  define opts where "opts = trim (str_field e ''options'')"
  note defs = kind_def [symmetric] host_def [symmetric] opts_def [symmetric]
  have kind: "kind = ''server'' \<or> kind = ''pool''" and host: "is_valid_ntp_host host"
    and l: "l = (if opts = [] then kind @ '' '' @ host else kind @ '' '' @ host @ '' '' @ opts)"
    using assms by (auto simp: server_line_def defs Let_def split: if_splits option.splits)
  have words: "split_whitespace l = kind # host # split_whitespace opts"
    using ntp_host_plain [OF host] kind_word(1) [OF kind]
    by (auto simp: l split_whitespace_blank_Cons split_whitespace_plain)
  have "\<exists>s. l = kind @ s" by (auto simp: l)
  with words kind_word [OF kind] show "server_of l = Some (requested e)"
    by (auto simp: server_of_def requested_def defs) (simp_all add: opts_def)
  show "NL \<notin> set l" if "NL \<notin> set (str_field e ''options'')"
    using that ntp_host_plain [OF host] kind_word(2) [OF kind] set_trim [of "str_field e ''options''"]
    by (auto simp: l opts_def)
qed

lemma server_lines_Inr: "server_lines es = Inr ls \<Longrightarrow> list_all2 (\<lambda>e l. server_line e = Inr l) es ls"
  by (induction es arbitrary: ls) (auto split: sum.splits)

lemma server_of_strip_cr [simp]: "server_of (strip_cr l) = server_of l"
  by (simp add: server_of_def)

lemma servers_of_stripped: "List.map_filter server_of (map strip_cr ls) = List.map_filter server_of ls"
  by (induction ls) (simp_all add: map_filter_simps split: option.split)

lemma map_filter_None: "(\<And>x. x \<in> set xs \<Longrightarrow> f x = None) \<Longrightarrow> List.map_filter f xs = []"
  by (induction xs) (simp_all add: map_filter_simps)

text \<open>
  The servers that are set are the servers shown: whatever \<open>chrony.conf\<close> held before, after
  \<open>set_servers\<close> has rewritten it the parser finds exactly the entries of the request, in their
  order, provided no option text has a line break in it.
\<close>

theorem chrony_servers_roundtrip:
  assumes "server_lines es = Inr ls" and "\<And>e. e \<in> set es \<Longrightarrow> NL \<notin> set (str_field e ''options'')"
  shows "parse_servers_struct (chrony_with ls content) = map requested es"
proof -
  let ?kept = "drop_blank_end (filter (\<lambda>l. \<not> is_server_word (split_whitespace l)) (lines content))"
  let ?all = "?kept @ [''# NTP servers managed by Tenodera''] @ ls"
  note each = server_lines_Inr [OF assms(1)]
  have kept: "l \<in> set (lines content)" "\<not> is_server_word (split_whitespace l)" if "l \<in> set ?kept" for l
    using that by (auto simp: drop_blank_end_def dest!: set_dropWhileD)
  have "NL \<notin> set l" if "l \<in> set ls" for l
    using each that assms(2)
    by (induction rule: list_all2_induct) (auto dest: server_line_read(2))
  then have "\<forall>l \<in> set ?all. NL \<notin> set l"
    using kept(1) lines_NL_free by auto
  then have "lines (chrony_with ls content) = map strip_cr ?all"
    using lines_of_joined [of ?all] by (simp add: chrony_with_def)
  then have "parse_servers_struct (chrony_with ls content) = List.map_filter server_of ?all"
    by (simp only: parse_servers_struct_def servers_of_stripped)
  moreover have "server_of l = None" if "l \<in> set ?kept" for l
    using kept(2) [OF that] by (simp add: server_of_def)
  then have "List.map_filter server_of ?kept = []" by (rule map_filter_None)
  moreover have "server_of ''# NTP servers managed by Tenodera'' = None"
    by (simp add: server_of_def trim_Cons is_ascii_def is_ws_char_single byte_def starts_with_def)
  moreover have "List.map_filter server_of ls = map requested es"
    using each by (induction rule: list_all2_induct) (simp_all add: map_filter_simps server_line_read(1))
  ultimately show ?thesis by (simp add: map_filter_append map_filter_simps)
qed

theorem chrony_servers_roundtrip_witness:
  "parse_servers_struct (chrony_with [''pool a iburst'']
      (''server old'' @ [NL] @ ''driftfile x'' @ [NL])) =
   [\<lparr>sv_type = ''pool'', sv_host = ''a'', sv_options = ''iburst''\<rparr>]"
proof -
  let ?e = "JObj [(''type'', JStr ''pool''), (''host'', JStr ''a''), (''options'', JStr ''iburst'')]"
  have words: "trim ''a'' = ''a''" "trim ''iburst'' = ''iburst''" "split_whitespace ''iburst'' = [''iburst'']"
    by (simp_all add: split_whitespace_plain plain_word_def trim_def trim_start_def trim_end_def is_ascii_def
        is_ws_char_single byte_def)
  have opts: "str_field ?e ''options'' = ''iburst''" "str_field ?e ''host'' = ''a''"
    by (simp_all add: str_field_def map_str_def)
  have "server_lines [?e] = Inr [''pool a iburst'']"
    by (simp add: server_line_def opts words map_str_def is_valid_ntp_host_def is_safe_opt_def
        is_ascii_alphanumeric_def is_ascii_lower_def byte_def)
  from chrony_servers_roundtrip [OF this, of "''server old'' @ [NL] @ ''driftfile x'' @ [NL]"]
  show ?thesis by (simp add: requested_def opts words map_str_def)
qed

text \<open>An option text is checked word by word, and a line break separates words: a checked text can
  hold further directives of \<open>chrony.conf\<close>.\<close>

lemma chrony_options_smuggle_directive:
  defines "e \<equiv> JObj [(''host'', JStr ''a''), (''options'', JStr (''iburst'' @ [NL] @ ''allow''))]"
  shows "server_lines [e] = Inr [''server a iburst'' @ [NL] @ ''allow'']"
    and "lines (chrony_with [''server a iburst'' @ [NL] @ ''allow''] []) =
      [''# NTP servers managed by Tenodera'', ''server a iburst'', ''allow'']"
proof -
  have words: "trim ''a'' = ''a''" "trim (''iburst'' @ [NL] @ ''allow'') = ''iburst'' @ [NL] @ ''allow''"
    "split_whitespace (''iburst'' @ [NL] @ ''allow'') = [''iburst'', ''allow'']"
    by (simp_all add: split_whitespace_words words_of_def word_step_def trim_def trim_start_def trim_end_def is_ascii_def
        is_ws_char_single byte_def)
  have opts: "str_field e ''options'' = ''iburst'' @ [NL] @ ''allow''" "str_field e ''host'' = ''a''"
    "jget_str e ''type'' = None"
    by (simp_all add: str_field_def map_str_def e_def)
  show "server_lines [e] = Inr [''server a iburst'' @ [NL] @ ''allow'']"
    using words by (simp add: server_line_def opts is_valid_ntp_host_def is_safe_opt_def
        is_ascii_alphanumeric_def is_ascii_lower_def byte_def)
  show "lines (chrony_with [''server a iburst'' @ [NL] @ ''allow''] []) =
      [''# NTP servers managed by Tenodera'', ''server a iburst'', ''allow'']"
    by (simp add: chrony_with_def drop_blank_end_def lines_def strip_cr_def Let_def)
qed

section \<open>Sessions without the admin role\<close>

interpretation chrony_manage: reading_handler "chrony_manage h" "queries time_plain"
  unfolding chrony_manage_def chrony_answer_def Let_def
  by (rule reading_answering_or_panic) (intro emits_if emits_chrony_read emits_bind emits_refused emits_ret, simp)

interpretation timesync_manage: reading_handler "timesync_manage h" "queries time_plain"
  unfolding timesync_manage_def timesync_answer_def Let_def
  by (rule reading_answering) (intro emits_option emits_if emits_spec_read emits_refused emits_ret, assumption, simp)

end
