(* ===== verification/SshManage.thy ===== *)
theory SshManage
  imports Settings TextFacts
begin

text \<open>
  \<open>ssh.manage\<close> (\<open>agent/src/handlers/ssh_manage.rs\<close>): the authorized keys of the accounts and the
  configuration of \<open>sshd\<close>.
\<close>

section \<open>Accounts and keys\<close>

definition is_login_line :: "string list \<Rightarrow> json option" where
  "is_login_line f =
     (if length f < 7 then None
      else (let uid = unwrap_or U32_MAX (parse_uint U32_MAX (f ! 2)); shell = f ! 6
            in if (uid = 0 \<or> (1000 \<le> uid \<and> uid \<noteq> 65534)) \<and>
                  shell \<noteq> [] \<and> \<not> ends_with ''nologin'' shell \<and> \<not> ends_with ''false'' shell
               then Some (JObj [(''name'', JStr (f ! 0)), (''uid'', JInt (int uid)), (''home'', JStr (f ! 5))])
               else None))"

definition login_users :: "'w agent_host \<Rightarrow> ('w, json) act" where
  "login_users h = do {
     out \<leftarrow> run h [''getent'', ''passwd''];
     content \<leftarrow> (if trim out = [] then do { f \<leftarrow> read_file h ''/etc/passwd''; ret (unwrap_or [] f) } else ret out);
     ret (JObj [(''users'', JArr (List.map_filter (\<lambda>l. is_login_line (split_on (CHR '':'') l)) (lines content)))]) }"

definition home_of :: "'w agent_host \<Rightarrow> string \<Rightarrow> string option" where
  "home_of h user = map_option pw_dir (lookup_user h user)"

definition authkeys_path :: "'w agent_host \<Rightarrow> string \<Rightarrow> string option" where
  "authkeys_path h user = map_option (\<lambda>d. d @ ''/.ssh/authorized_keys'') (home_of h user)"

definition KEY_PREFIXES :: "string list" where
  "KEY_PREFIXES =
     [''ssh-rsa'', ''ssh-ed25519'', ''ssh-dss'', ''ecdsa-sha2-nistp256'', ''ecdsa-sha2-nistp384'',
      ''ecdsa-sha2-nistp521'', ''sk-ssh-ed25519@openssh.com'', ''sk-ecdsa-sha2-nistp256@openssh.com'']"

text \<open>The preview of a key: \<open>None\<close> where a slice falls inside a character.\<close>

definition key_preview :: "string \<Rightarrow> string option" where
  "key_preview blob =
     (if length blob > 20
      then (case (str_slice blob 0 10, str_slice blob (length blob - 6) (length blob)) of
              (Some a, Some b) \<Rightarrow> Some (a @ bytes [226, 128, 166] @ b)
            | _ \<Rightarrow> None)
      else Some blob)"

text \<open>\<open>parse_key_line\<close>: \<open>None\<close> is its panic, \<open>Some None\<close> a line without a key.\<close>

definition parse_key_line :: "string \<Rightarrow> json option option" where
  "parse_key_line line =
     (let t = trim line; toks = split_whitespace t; i = length (takeWhile (\<lambda>k. k \<notin> set KEY_PREFIXES) toks)
      in if t = [] \<or> starts_with ''#'' t \<or> i \<ge> length toks then Some None
         else (case key_preview (if i + 1 < length toks then toks ! (i + 1) else []) of
                 None \<Rightarrow> None
               | Some preview \<Rightarrow> Some (Some (JObj
                   [(''type'', JStr (toks ! i)), (''comment'', JStr (join '' '' (drop (i + 2) toks))),
                    (''preview'', JStr preview), (''raw'', JStr t)]))))"

fun key_rows :: "string list \<Rightarrow> json list option" where
  "key_rows [] = Some []"
| "key_rows (l # ls) =
     (case parse_key_line l of
        None \<Rightarrow> None
      | Some r \<Rightarrow> map_option (\<lambda>rs. (case r of None \<Rightarrow> rs | Some j \<Rightarrow> j # rs)) (key_rows ls))"

definition list_keys :: "'w agent_host \<Rightarrow> string \<Rightarrow> ('w, json option) act" where
  "list_keys h user =
     (if user = [] \<or> home_of h user = None
      then ret (Some (JObj [(''error'', JStr ''unknown user''), (''keys'', JArr [])]))
      else (let path = unwrap_or [] (authkeys_path h user)
            in do {
              content \<leftarrow> read_file h path;
              ret (map_option
                (\<lambda>keys. JObj [(''user'', JStr user), (''path'', JStr path), (''keys'', JArr keys)])
                (key_rows (lines (unwrap_or [] content)))) }))"

definition key_fingerprint :: "'w agent_host \<Rightarrow> string \<Rightarrow> ('w, string option) act" where
  "key_fingerprint h key = do {
     r \<leftarrow> run_raw h ''ssh-keygen'' [''-l'', ''-f'', ''/dev/stdin''] (Some (key @ [NL]));
     ret (case r of
            Inl e \<Rightarrow> None
          | Inr out \<Rightarrow> if out_ok out then Some (trim (from_utf8_lossy (out_stdout out))) else None) }"

section \<open>Writing keys\<close>

definition just_error :: "json \<Rightarrow> json" where
  "just_error r = JObj [(''error'', unwrap_or JNull (jget r ''error''))]"

text \<open>Both last steps run before either result is looked at.\<close>

definition apply_authkeys ::
  "'w agent_host \<Rightarrow> string \<Rightarrow> string \<Rightarrow> string \<Rightarrow> string \<Rightarrow> nat \<Rightarrow> nat \<Rightarrow> string \<Rightarrow> ('w, json) act" where
  "apply_authkeys h operator password ssh_dir path uid gid content = do {
     mk \<leftarrow> sudo h operator password
       [''install'', ''-d'', ''-m'', ''700'', ''-o'', show_nat uid, ''-g'', show_nat gid, ssh_dir];
     if has_error mk then ret (just_error mk)
     else do {
       w \<leftarrow> sudo_write h operator password [''tee'', path] content;
       if has_error w then ret (just_error w)
       else do {
         own \<leftarrow> sudo h operator password [''chown'', show_nat uid @ '':'' @ show_nat gid, path];
         md \<leftarrow> sudo h operator password [''chmod'', ''600'', path];
         ret (if has_error own then just_error own else if has_error md then just_error md else ok_json) } } }"

definition finish_key :: "string \<Rightarrow> string \<Rightarrow> string \<Rightarrow> json \<Rightarrow> ('w, json) act" where
  "finish_key operator action target res =
     (case jget_str res ''error'' of
        Some err \<Rightarrow> do { record_audit operator action target False err; ret (jerror err) }
      | None \<Rightarrow> do { record_audit operator action target True []; ret ok_json })"

definition write_keys ::
  "'w agent_host \<Rightarrow> string \<Rightarrow> string \<Rightarrow> string \<Rightarrow> string \<Rightarrow> passwd \<Rightarrow> string \<Rightarrow> ('w, json option) act" where
  "write_keys h operator password action user pw content = do {
     res \<leftarrow> apply_authkeys h operator password (pw_dir pw @ ''/.ssh'') (pw_dir pw @ ''/.ssh/authorized_keys'')
              (pw_uid pw) (pw_gid pw) content;
     r \<leftarrow> finish_key operator action user res;
     ret (Some r) }"

text \<open>The checks a new key passes before the file is read: the account exists, some word is a key
  type, and \<open>ssh-keygen\<close> accepts it.\<close>

definition with_new_key ::
  "'w agent_host \<Rightarrow> string \<Rightarrow> string \<Rightarrow> (passwd \<Rightarrow> string \<Rightarrow> ('w, json option) act) \<Rightarrow> ('w, json option) act" where
  "with_new_key h user key k =
     (case lookup_user h user of
        None \<Rightarrow> ret (Some (jerror ''unknown user''))
      | Some pw \<Rightarrow>
          (case parse_key_line key of
             None \<Rightarrow> ret None
           | Some None \<Rightarrow> ret (Some (jerror ''not a recognised SSH public key''))
           | Some (Some _) \<Rightarrow> do {
               fp \<leftarrow> key_fingerprint h key;
               if fp = None then ret (Some (jerror ''invalid SSH public key (ssh-keygen rejected it)''))
               else do {
                 content \<leftarrow> read_file h (pw_dir pw @ ''/.ssh/authorized_keys'');
                 k pw (unwrap_or [] content) } }))"

definition has_line :: "string \<Rightarrow> string \<Rightarrow> bool" where
  "has_line key content \<longleftrightarrow> list_ex (\<lambda>l. trim l = key) (lines content)"

definition with_key :: "string \<Rightarrow> string \<Rightarrow> string" where
  "with_key key existing =
     (if existing \<noteq> [] \<and> \<not> ends_with [NL] existing then existing @ [NL] else existing) @ key @ [NL]"

definition add_key :: "'w agent_host \<Rightarrow> string \<Rightarrow> string \<Rightarrow> string \<Rightarrow> string \<Rightarrow> ('w, json option) act" where
  "add_key h user key0 operator password =
     (let key = trim key0
      in with_new_key h user key (\<lambda>pw existing.
           if has_line key existing then ret (Some (jerror ''key already present''))
           else write_keys h operator password ''ssh.add_key'' user pw (with_key key existing)))"

definition without_key :: "string \<Rightarrow> string \<Rightarrow> string" where
  "without_key key content =
     (let kept = filter (\<lambda>l. trim l \<noteq> key) (lines content)
      in if kept = [] then [] else join [NL] kept @ [NL])"

definition remove_key :: "'w agent_host \<Rightarrow> string \<Rightarrow> string \<Rightarrow> string \<Rightarrow> string \<Rightarrow> ('w, json option) act" where
  "remove_key h user key operator password =
     (case lookup_user h user of
        None \<Rightarrow> ret (Some (jerror ''unknown user''))
      | Some pw \<Rightarrow> do {
          content \<leftarrow> read_file h (pw_dir pw @ ''/.ssh/authorized_keys'');
          write_keys h operator password ''ssh.remove_key'' user pw (without_key (trim key) (unwrap_or [] content)) })"

definition replace_key :: "string \<Rightarrow> string \<Rightarrow> string \<Rightarrow> string" where
  "replace_key old new_key content =
     join [NL] (update_first (\<lambda>l. trim l = old) (\<lambda>_. new_key) (lines content)) @ [NL]"

definition edit_key ::
  "'w agent_host \<Rightarrow> string \<Rightarrow> string \<Rightarrow> string \<Rightarrow> string \<Rightarrow> string \<Rightarrow> ('w, json option) act" where
  "edit_key h user old0 key0 operator password =
     (let old = trim old0; new_key = trim key0
      in with_new_key h user new_key (\<lambda>pw content.
           if \<not> has_line old content then ret (Some (jerror ''original key not found (reload and retry)''))
           else if new_key \<noteq> old \<and> has_line new_key content then ret (Some (jerror ''key already present''))
           else write_keys h operator password ''ssh.edit_key'' user pw (replace_key old new_key content)))"

section \<open>sshd\<close>

definition SSHD_CONFIG :: string where
  "SSHD_CONFIG = ''/etc/ssh/sshd_config''"

definition sshd_check :: string where
  "sshd_check = ''/run/tenodera-sshd-check.conf''"

definition read_sshd :: "'w agent_host \<Rightarrow> ('w, json) act" where
  "read_sshd h = do {
     content \<leftarrow> read_file h SSHD_CONFIG;
     ret (JObj [(''content'', JStr (unwrap_or [] content)), (''path'', JStr SSHD_CONFIG)]) }"

text \<open>Validation of a staged copy: the error of \<open>sshd -t\<close>, if any.\<close>

definition check_sshd :: "'w agent_host \<Rightarrow> string \<Rightarrow> string \<Rightarrow> ('w, string option) act" where
  "check_sshd h operator password = do {
     present \<leftarrow> installed h ''sshd'';
     check \<leftarrow> sudo h operator password [if present then ''sshd'' else ''/usr/sbin/sshd'', ''-t'', ''-f'', sshd_check];
     delete_file h sshd_check;
     ret (jget_str check ''error'') }"

definition apply_sshd :: "'w agent_host \<Rightarrow> string \<Rightarrow> string \<Rightarrow> string \<Rightarrow> ('w, json) act" where
  "apply_sshd h content operator password = do {
     _ \<leftarrow> sudo h operator password [''cp'', SSHD_CONFIG, SSHD_CONFIG @ ''.tenodera.bak''];
     w \<leftarrow> sudo_write h operator password [''tee'', SSHD_CONFIG] content;
     case jget_str w ''error'' of
       Some err \<Rightarrow> do {
         record_audit operator ''ssh.set_sshd'' SSHD_CONFIG False ''write failed'';
         ret (jerror (''failed to write sshd_config: '' @ err)) }
     | None \<Rightarrow> do {
         u \<leftarrow> active_unit h [''sshd'', ''ssh''];
         (let unit = unwrap_or ''sshd'' u
          in do {
            reload \<leftarrow> sudo h operator password [''systemctl'', ''reload'', unit];
            case jget_str reload ''error'' of
              Some err \<Rightarrow> do {
                record_audit operator ''ssh.set_sshd'' SSHD_CONFIG True ''written; reload failed'';
                ret (jerror (''config written but reload failed: '' @ err)) }
            | None \<Rightarrow> do {
                record_audit operator ''ssh.set_sshd'' SSHD_CONFIG True unit;
                ret (JObj [(''ok'', JBool True), (''reloaded'', JStr unit)]) } }) } }"

definition set_sshd :: "'w agent_host \<Rightarrow> string \<Rightarrow> string \<Rightarrow> string \<Rightarrow> ('w, json) act" where
  "set_sshd h content operator password =
     ensure (trim content \<noteq> []) ''config is empty''
     (ensure (length content \<le> 128 * 1024) ''config too large''
     (let normalized = (if ends_with [NL] content then content else content @ [NL])
      in do {
        failed \<leftarrow> put_file h sshd_check normalized;
        case failed of
          Some e \<Rightarrow> ret (jerror (''failed to stage config: '' @ e))
        | None \<Rightarrow> do {
            bad \<leftarrow> check_sshd h operator password;
            case bad of
              Some err \<Rightarrow> do {
                record_audit operator ''ssh.set_sshd'' SSHD_CONFIG False ''validation failed'';
                ret (jerror (''sshd validation failed:'' @ [NL] @ err)) }
            | None \<Rightarrow> apply_sshd h normalized operator password } }))"

section \<open>The handler\<close>

definition answered :: "('w, json) act \<Rightarrow> ('w, json option) act" where
  "answered m = do { r \<leftarrow> m; ret (Some r) }"

definition ssh_change :: "'w agent_host \<Rightarrow> string \<Rightarrow> open_options \<Rightarrow> ('w, json option) act" where
  "ssh_change h action o' =
     (let user = opt_str o' ''user''; key = opt_str o' ''key''; operator = opt_str o' ''_user'';
          password = opt_str o' ''password''
      in if action = ''add_key'' then add_key h user key operator password
         else if action = ''remove_key'' then remove_key h user key operator password
         else if action = ''edit_key'' then edit_key h user (opt_str o' ''old'') key operator password
         else if action = ''set_sshd'' then answered (set_sshd h (opt_str o' ''content'') operator password)
         else ret (Some (jerror (''unknown action: '' @ action))))"

definition ssh_answer :: "'w agent_host \<Rightarrow> open_options \<Rightarrow> ('w, json option) act" where
  "ssh_answer h o' =
     (let action = opt_str o' ''action''
      in if action = ''list_users'' then answered (login_users h)
         else if action = ''list_keys'' then list_keys h (opt_str o' ''user'')
         else if action = ''read_sshd'' then answered (read_sshd h)
         else (case require_admin_role (options_json o') of
                 Some err \<Rightarrow> ret (Some err)
               | None \<Rightarrow> ssh_change h action o'))"

definition ssh_manage :: "'w agent_host \<Rightarrow> 'w agent_state handler" where
  "ssh_manage h = answering_or_panic ''ssh.manage'' (ssh_answer h)"

section \<open>What it may do\<close>

definition ssh_sudo :: "(string \<Rightarrow> string) \<Rightarrow> string list \<Rightarrow> bool" where
  "ssh_sudo b64 args \<longleftrightarrow>
     (\<exists>uid gid d. args = [''install'', ''-d'', ''-m'', ''700'', ''-o'', uid, ''-g'', gid, d @ ''/.ssh'']) \<or>
     (\<exists>owner d. args = [''chown'', owner, d @ ''/.ssh/authorized_keys'']) \<or>
     (\<exists>d. args = [''chmod'', ''600'', d @ ''/.ssh/authorized_keys'']) \<or>
     (\<exists>p txt. args = [''sh'', ''-c'', write_script b64 [''tee'', p] txt] \<and>
        (p = SSHD_CONFIG \<or> (\<exists>d. p = d @ ''/.ssh/authorized_keys''))) \<or>
     (\<exists>bin. args = [bin, ''-t'', ''-f'', sshd_check] \<and> bin \<in> {''sshd'', ''/usr/sbin/sshd''}) \<or>
     args = [''cp'', SSHD_CONFIG, SSHD_CONFIG @ ''.tenodera.bak''] \<or>
     (\<exists>unit. args = [''systemctl'', ''reload'', unit])"

definition ssh_plain :: "string list \<Rightarrow> bool" where
  "ssh_plain args \<longleftrightarrow>
     args \<in> {[''getent'', ''passwd''], [''ssh-keygen'', ''-l'', ''-f'', ''/dev/stdin''], [''which'', ''sshd'']} \<or>
     (\<exists>unit. args = [''systemctl'', ''is-active'', unit])"

definition ssh_confined :: "'w agent_host \<Rightarrow> string \<Rightarrow> string \<Rightarrow> effect \<Rightarrow> bool" where
  "ssh_confined h user password e \<longleftrightarrow>
     touches {sshd_check} e \<or> confined (ssh_sudo (ah_b64 h)) nothing ssh_plain user password e"

lemma ssh_plain_intros [simp]:
  "ssh_plain [''getent'', ''passwd'']" "ssh_plain [''ssh-keygen'', ''-l'', ''-f'', ''/dev/stdin'']"
  "ssh_plain [''which'', ''sshd'']" "ssh_plain [''systemctl'', ''is-active'', unit]"
  by (simp_all add: ssh_plain_def)

lemma ssh_confined_sudo:
  "ssh_sudo (ah_b64 h) args \<Longrightarrow> emits (ssh_confined h user password) (sudo h user password args)"
  by (rule emits_sudo) (simp add: ssh_confined_def confined_sudo)

lemma ssh_confined_write:
  "p = SSHD_CONFIG \<or> (\<exists>d. p = d @ ''/.ssh/authorized_keys'') \<Longrightarrow>
   emits (ssh_confined h user password) (sudo_write h user password [''tee'', p] txt)"
  by (rule emits_sudo_write) (simp add: ssh_confined_def, blast intro: confined_sudo [of "ssh_sudo (ah_b64 h)"]
      intro!: ssh_sudo_def [THEN iffD2])

lemma ssh_confined_plain:
  "ssh_plain (prog # args) \<Longrightarrow> ssh_confined h user password (Ran (plain_command prog args))"
  "ssh_plain (prog # args) \<Longrightarrow> ssh_confined h user password (Ran (raw_command prog args input))"
  "ssh_confined h user password (Audited user action target ok details)"
  by (simp_all add: ssh_confined_def confined_intros)

lemma ssh_sudo_intros:
  "ssh_sudo b64 [''install'', ''-d'', ''-m'', ''700'', ''-o'', uid, ''-g'', gid, d @ ''/.ssh'']"
  "ssh_sudo b64 [''chown'', owner, d @ ''/.ssh/authorized_keys'']"
  "ssh_sudo b64 [''chmod'', ''600'', d @ ''/.ssh/authorized_keys'']"
  "ssh_sudo b64 [''cp'', SSHD_CONFIG, SSHD_CONFIG @ ''.tenodera.bak'']"
  "ssh_sudo b64 [''systemctl'', ''reload'', unit]"
  "ssh_sudo b64 [if present then ''sshd'' else ''/usr/sbin/sshd'', ''-t'', ''-f'', sshd_check]"
  by (auto simp: ssh_sudo_def)

lemmas ssh_rules = emits_bind emits_ret emits_if emits_option emits_reads emits_record_audit emits_installed emits_run_raw
  emits_run emits_active_unit ssh_confined_sudo ssh_confined_plain ssh_sudo_intros

lemma emits_write_keys:
  "emits (ssh_confined h operator password) (write_keys h operator password action user pw content)"
  unfolding write_keys_def apply_authkeys_def finish_key_def
  by (intro ssh_rules ssh_confined_write) blast

lemma emits_with_new_key:
  "(\<And>pw c. emits (ssh_confined h operator password) (k pw c)) \<Longrightarrow>
   emits (ssh_confined h operator password) (with_new_key h user key k)"
  unfolding with_new_key_def key_fingerprint_def by (intro ssh_rules) simp_all

lemma emits_set_sshd: "emits (ssh_confined h operator password) (set_sshd h content operator password)"
proof -
  have stage: "emits (ssh_confined h operator password) (put_file h sshd_check c)" for c
    by (rule emits_put_file) (simp add: ssh_confined_def)
  have drop: "emits (ssh_confined h operator password) (delete_file h sshd_check)"
    by (rule emits_delete_file) (simp add: ssh_confined_def)
  show ?thesis
    unfolding set_sshd_def check_sshd_def apply_sshd_def Let_def
    by (intro emits_ensure stage drop ssh_rules ssh_confined_write) simp_all
qed

lemma emits_ssh_change:
  "emits (ssh_confined h (opt_str o' ''_user'') (opt_str o' ''password'')) (ssh_change h action o')"
  unfolding ssh_change_def add_key_def remove_key_def edit_key_def answered_def Let_def
  by (intro emits_if emits_option emits_bind emits_ret emits_reads emits_with_new_key emits_write_keys emits_set_sshd)

lemma emits_list_users: "emits (queries ssh_plain) (login_users h)"
  unfolding login_users_def by (intro emits_intros) simp

lemma ssh_confined_queries: "emits (queries ssh_plain) m \<Longrightarrow> emits (ssh_confined h user password) m"
  by (erule emits_mono) (auto simp: ssh_confined_def intro: queries_confined)

lemma emits_ssh_reads:
  "emits (queries ssh_plain) (answered (login_users h))" "emits (queries ssh_plain) (list_keys h user)"
  "emits (queries ssh_plain) (answered (read_sshd h))"
  unfolding answered_def list_keys_def read_sshd_def Let_def
  by (intro emits_bind emits_list_users emits_ret emits_if emits_reads)+

interpretation ssh_manage: bounded_handler "ssh_manage h" "ssh_confined h"
  unfolding ssh_manage_def ssh_answer_def Let_def
  by (rule bounded_answering_or_panic)
     (intro emits_if emits_option emits_ret emits_ssh_change ssh_confined_queries emits_ssh_reads)

interpretation ssh_manage: reading_handler "ssh_manage h" "queries ssh_plain"
  unfolding ssh_manage_def ssh_answer_def Let_def require_admin_role_def
  by (rule reading_answering_or_panic)
     (simp add: emits_ssh_reads emits_ret)

section \<open>What an edit of the key file changes\<close>

lemma lines_append: "lines (a @ NL # b) = map strip_cr (split_on NL a) @ lines b"
  by (simp add: lines_def Let_def split_on_append butlast_append)

lemma lines_open_end:
  assumes "a \<noteq> []" and "last a \<noteq> NL"
  shows "map trim (lines a) = map trim (split_on NL a)"
proof -
  have last: "last (split_on NL a) \<noteq> []"
    using assms last_split_on_append [of NL "[last a]" "butlast a"] by simp
  obtain front l where ps: "split_on NL a = front @ [l]" by (metis append_butlast_last_id split_on_nonempty)
  with last have "lines a = map strip_cr front @ [l]" by (simp add: lines_def Let_def)
  then show ?thesis by (simp add: ps comp_def)
qed

lemma ends_with_char: "ends_with [c] s \<longleftrightarrow> s \<noteq> [] \<and> last s = c"
  by (cases s rule: rev_cases) (auto simp: ends_with_def starts_with_def)

lemma lines_with_key:
  assumes "NL \<notin> set key"
  shows "map trim (lines (with_key key existing)) = map trim (lines existing) @ [trim key]"
proof (cases existing rule: rev_cases)
  case Nil
  with assms show ?thesis using lines_append [of key "[]"] by (simp add: with_key_def split_on_no_sep)
next
  case (snoc a c)
  have key: "lines (key @ [NL]) = [strip_cr key]"
    using assms lines_append [of key "[]"] by (simp add: split_on_no_sep)
  show ?thesis
  proof (cases "c = NL")
    case True
    then have "with_key key existing = a @ NL # (key @ [NL])" using snoc by (simp add: with_key_def ends_with_char)
    with True snoc key lines_append [of a "key @ [NL]"] lines_append [of a "[]"] show ?thesis by simp
  next
    case False
    then have "with_key key existing = existing @ NL # (key @ [NL])" using snoc by (simp add: with_key_def ends_with_char)
    with key lines_append [of existing "key @ [NL]"] lines_open_end [of existing] False snoc show ?thesis by simp
  qed
qed

lemma lines_without_key:
  "map trim (lines (without_key key content)) = filter (\<lambda>l. l \<noteq> key) (map trim (lines content))"
proof -
  let ?kept = "filter (\<lambda>l. trim l \<noteq> key) (lines content)"
  have "map trim (lines (without_key key content)) = map trim ?kept"
  proof (cases "?kept = []")
    case False
    moreover have "\<forall>l \<in> set ?kept. NL \<notin> set l" using lines_NL_free by auto
    ultimately have "lines (without_key key content) = map strip_cr ?kept"
      using lines_of_joined [of ?kept] by (simp add: without_key_def)
    then show ?thesis by simp
  qed (simp add: without_key_def)
  then show ?thesis by (simp add: filter_map comp_def)
qed

lemma map_trim_update_first:
  "map trim (update_first (\<lambda>l. trim l = old) (\<lambda>_. new) ls) = update_first (\<lambda>l. l = old) (\<lambda>_. trim new) (map trim ls)"
  by (induction ls) simp_all

lemma lines_replace_key:
  assumes "NL \<notin> set new" and "has_line old content"
  shows "map trim (lines (replace_key old new content)) =
    update_first (\<lambda>l. l = old) (\<lambda>_. trim new) (map trim (lines content))"
proof -
  let ?ls = "update_first (\<lambda>l. trim l = old) (\<lambda>_. new) (lines content)"
  have "lines content \<noteq> []" using assms(2) by (auto simp: has_line_def)
  then have "?ls \<noteq> []" by (metis length_0_conv length_update_first)
  moreover have "\<forall>l \<in> set ?ls. NL \<notin> set l"
    using assms(1) lines_NL_free by (auto dest: update_first_mem)
  ultimately have "lines (replace_key old new content) = map strip_cr ?ls"
    using lines_of_joined [of ?ls] by (simp add: replace_key_def)
  then have "map trim (lines (replace_key old new content)) = map trim ?ls" by (simp add: comp_def)
  then show ?thesis by (simp only: map_trim_update_first)
qed

text \<open>
  C20. An edit of a key file changes the one key it names: adding appends the key after the
  unchanged lines, removing drops exactly the lines of that key, so that removing an added key
  gives the old lines back, and editing replaces the first line of the old key in its place;
  all up to the blanks around a line, for a key of one line.
\<close>

theorem key_edits_exact:
  assumes "trim key = key" and "NL \<notin> set key"
  shows "map trim (lines (with_key key content)) = map trim (lines content) @ [key] \<and>
    map trim (lines (without_key key content)) = filter (\<lambda>l. l \<noteq> key) (map trim (lines content)) \<and>
    (\<not> has_line key content \<longrightarrow>
      map trim (lines (without_key key (with_key key content))) = map trim (lines content)) \<and>
    (has_line old content \<longrightarrow>
      map trim (lines (replace_key old key content)) = update_first (\<lambda>l. l = old) (\<lambda>_. key) (map trim (lines content)))"
proof (intro conjI)
  show "\<not> has_line key content \<longrightarrow>
      map trim (lines (without_key key (with_key key content))) = map trim (lines content)"
    by (auto simp: lines_without_key lines_with_key [OF assms(2)] assms(1) has_line_def list_ex_iff filter_id_conv)
qed (use lines_with_key [OF assms(2)] lines_replace_key [OF assms(2)] assms(1) in \<open>simp_all add: lines_without_key\<close>)

theorem key_edits_exact_witness:
  "map trim (lines (without_key ''k2'' (with_key ''k2'' ''k1''))) = map trim (lines ''k1'')"
proof -
  have t: "trim ''k2'' = ''k2''" "trim ''k1'' = ''k1''"
    by (simp_all add: trim_def trim_start_def trim_end_def is_ascii_def is_ws_char_single byte_def)
  then have "\<not> has_line ''k2'' ''k1''" by (simp add: has_line_def lines_def Let_def)
  with key_edits_exact [OF t(1), of "''k1''"] show ?thesis by simp
qed

section \<open>Keys that stop the agent\<close>

lemma key_rows_panic: "l \<in> set ls \<Longrightarrow> parse_key_line l = None \<Longrightarrow> key_rows ls = None"
  by (induction ls) (auto split: option.split)

text \<open>
  A line in any account's key file can stop the agent: when the key after its type is longer
  than twenty bytes and its tenth byte lies inside a character, listing that account's keys,
  which every session may ask for, panics in the agent's main task; nothing is answered.
\<close>

theorem key_line_crashes_agent:
  assumes "opt_str o' ''action'' = ''list_keys''" and "user = opt_str o' ''user''" and "user \<noteq> []"
    and "lookup_user h user = Some pw"
    and "ah_read h (w_os (st_world s)) (pw_dir pw @ ''/.ssh/authorized_keys'') = Some content"
    and "l \<in> set (lines content)" and "trim l = kt @ '' '' @ blob" and "kt \<in> set KEY_PREFIXES"
    and "split_whitespace blob = [blob]" and "length blob > 20" and "\<not> char_boundary blob 10"
  shows "fst (hd_open (ssh_manage h) ch o' s) = [] \<and> st_crashed (snd (hd_open (ssh_manage h) ch o' s))"
proof -
  have kt: "plain_word kt" "\<not> starts_with ''#'' (kt @ '' '' @ blob)" "kt \<noteq> []"
    using assms(8)
    by (auto simp: KEY_PREFIXES_def plain_word_def is_ascii_def is_ws_char_single byte_def starts_with_def)
  then have "split_whitespace (trim l) = [kt, blob]"
    using assms(7,9) by (simp add: split_whitespace_blank_Cons)
  moreover have "key_preview blob = None" using assms(10,11) by (simp add: key_preview_def str_slice_def)
  ultimately have "parse_key_line l = None"
    using assms(7,8) kt(2,3) by (simp add: parse_key_line_def)
  with assms(6) have "key_rows (lines content) = None" by (rule key_rows_panic)
  then have "run_state (list_keys h user) (st_world s) = (None, st_world s)"
    using assms(3-5) by (simp add: list_keys_def home_of_def authkeys_path_def run_simps Let_def)
  then have "run_state (ssh_answer h o') (st_world s) = (None, st_world s)"
    using assms(1,2) by (simp add: ssh_answer_def)
  then show ?thesis by (simp add: ssh_manage_def answering_or_panic_open)
qed

definition bad_blob :: string where
  "bad_blob = ''AAAAAAAAA'' @ bytes [195, 169] @ ''AAAAAAAAAAAA''"

definition bad_host :: "nat agent_host" where
  "bad_host = toy_host\<lparr>ah_read := (\<lambda>_ _. Some (''ssh-rsa '' @ bad_blob))\<rparr>"

definition keys_request :: open_options where
  "keys_request = \<lparr>payload = ''ssh.manage'', superuser = None,
     extra = [(''action'', JStr ''list_keys''), (''user'', JStr ''alice''), (''_role'', JStr ''readonly'')]\<rparr>"

lemma bad_blob_chars:
  "chars_of bad_blob = map (\<lambda>c. [c]) ''AAAAAAAAA'' @ bytes [195, 169] # map (\<lambda>c. [c]) ''AAAAAAAAAAAA''"
  by (simp add: bad_blob_def bytes_def is_ascii_def is_cont_def byte_def)

lemma bad_char: "\<not> is_ws_char (bytes [195, 169])"
  by (simp add: is_ws_char_def ws_chars_def bytes_def)

theorem key_line_crashes_agent_witness:
  "st_crashed (snd (hd_open (ssh_manage bad_host) ''c'' keys_request toy_state))"
proof -
  have A: "\<not> is_ws_char ''A''" "is_ascii CHR ''A''" by (simp_all add: is_ws_char_single is_ascii_def byte_def)
  have words: "split_whitespace bad_blob = [bad_blob]"
    using A bad_char by (intro split_whitespace_solid) (auto simp: bad_blob_chars, simp add: bad_blob_def)
  have "trim bad_blob = bad_blob"
    unfolding trim_def trim_end_def chars_of_trim_start bad_blob_chars using A bad_char by (simp add: bad_blob_def)
  have no_break: "NL \<notin> set (bytes [195, 169])" by code_simp
  have line: "''ssh-rsa '' @ bad_blob \<in> set (lines (''ssh-rsa '' @ bad_blob))"
    using lines_of_NL_free [of "''ssh-rsa '' @ bad_blob"] no_break by (simp add: bad_blob_def)
  have trimmed: "trim (''ssh-rsa '' @ bad_blob) = ''ssh-rsa'' @ '' '' @ bad_blob"
    using trim_end_append [of "CHR ''A''" "''ssh-rsa AAAAAAAAA'' @ bytes [195, 169] @ ''AAAAAAAAAAA''" "[]"] A
    by (simp add: trim_def trim_start_Cons is_ascii_def is_ws_char_single byte_def bad_blob_def trim_end_def [of "[]"])
  have opts: "opt_str keys_request ''action'' = ''list_keys''" "opt_str keys_request ''user'' = ''alice''"
    by (simp_all add: keys_request_def opt_str_def map_str_def)
  have "lookup_user bad_host ''alice'' =
      Some \<lparr>pw_uid = 1000, pw_gid = 1000, pw_dir = ''/home/alice'', pw_shell = ''/bin/bash''\<rparr>"
    by (simp add: lookup_user_def bad_host_def toy_host_def)
  moreover have "\<not> char_boundary bad_blob 10" "length bad_blob > 20"
    by (simp_all add: char_boundary_def bad_blob_def bytes_def is_cont_def byte_def)
  ultimately show ?thesis
    using key_line_crashes_agent [OF opts(1) opts(2) [symmetric], of bad_host _ toy_state _ _ "''ssh-rsa''" bad_blob]
      trimmed line words by (simp add: bad_host_def KEY_PREFIXES_def)
qed

end
