(* ===== verification/StorageManage.thy ===== *)
theory StorageManage
  imports Settings
begin

text \<open>
  \<open>storage.manage\<close> (\<open>agent/src/handlers/storage_manage.rs\<close>): the list of block devices, mounting and
  unmounting, and \<open>/etc/fstab\<close>.
\<close>

section \<open>Validation\<close>

definition is_abs_path :: "string \<Rightarrow> bool" where
  "is_abs_path p \<longleftrightarrow>
     starts_with ''/'' p \<and> length p \<le> 4096 \<and> NUL \<notin> set p \<and> NL \<notin> set p \<and> \<not> contains_str ''..'' p"

definition is_valid_source :: "string \<Rightarrow> bool" where
  "is_valid_source s \<longleftrightarrow>
     s \<noteq> [] \<and> length s \<le> 4096 \<and> list_all (\<lambda>c. is_ascii_alphanumeric c \<or> c \<in> set ''-_./:='') s"

definition is_token :: "string \<Rightarrow> bool" where
  "is_token s \<longleftrightarrow>
     s \<noteq> [] \<and> length s \<le> 32 \<and> list_all (\<lambda>c. is_ascii_alphanumeric c \<or> c = CHR ''-'' \<or> c = CHR ''_'') s"

definition is_mount_options :: "string \<Rightarrow> bool" where
  "is_mount_options s \<longleftrightarrow>
     s \<noteq> [] \<and> length s \<le> 512 \<and> list_all (\<lambda>c. is_ascii_alphanumeric c \<or> c \<in> set '',=-_.:/'') s"

section \<open>Reading\<close>

lemma jget_size: "jget v k = Some x \<Longrightarrow> size x < size v"
proof (cases v)
  case (JObj m)
  assume "jget v k = Some x"
  with JObj have "(k, x) \<in> set m" by (simp add: map_of_SomeD)
  then have "size x < Suc (size_list (size_prod (\<lambda>x. 0) size) m)"
    by (induction m) auto
  then show ?thesis by (simp add: JObj)
qed auto

lemma as_array_size: "as_array v = Some xs \<Longrightarrow> size_list size xs < size v"
  by (cases v) auto

definition text_of :: "json \<Rightarrow> string \<Rightarrow> json" where
  "text_of d k = JStr (str_field d k)"

definition device_row :: "json \<Rightarrow> json" where
  "device_row d =
     (let mps = List.map_filter as_str (unwrap_or [] (Option.bind (jget d ''mountpoints'') as_array))
      in JObj
        [(''name'', text_of d ''name''), (''path'', text_of d ''path''), (''fstype'', text_of d ''fstype''),
         (''size'', JInt (int (unwrap_or 0 (Option.bind (jget d ''size'') as_u64)))), (''type'', text_of d ''type''),
         (''uuid'', text_of d ''uuid''), (''label'', text_of d ''label''), (''ro'', JBool (bool_field False d ''ro'')),
         (''mountpoint'', jopt_str (List.find (\<lambda>m. m \<noteq> []) mps))])"

definition children_of :: "json \<Rightarrow> json list" where
  "children_of d = unwrap_or [] (Option.bind (jget d ''children'') as_array)"

lemma children_size: "size_list size (children_of d) \<le> size d"
  by (auto simp: children_of_def unwrap_or_def split: option.splits bind_splits
      dest!: jget_size as_array_size)

function flatten :: "json list \<Rightarrow> json list" where
  "flatten [] = []"
| "flatten (d # ds) = device_row d # flatten (children_of d) @ flatten ds"
  by pat_completeness auto
termination
  by (relation "measure (size_list size)") (auto simp: le_imp_less_Suc children_size trans_le_add1)

definition list_block :: "'w agent_host \<Rightarrow> ('w, json) act" where
  "list_block h = do {
     out \<leftarrow> run h [''lsblk'', ''-J'', ''-b'', ''-o'', ''NAME,PATH,FSTYPE,SIZE,MOUNTPOINTS,UUID,LABEL,TYPE,RO''];
     ret (JObj [(''devices'', JArr (flatten
       (unwrap_or [] (Option.bind (jget (unwrap_or (JObj []) (ah_parse h out)) ''blockdevices'') as_array))))]) }"

definition nth_or :: "string \<Rightarrow> string list \<Rightarrow> nat \<Rightarrow> string" where
  "nth_or d xs i = (if i < length xs then xs ! i else d)"

definition fstab_entry :: "string \<Rightarrow> json option" where
  "fstab_entry l =
     (let t = trim l; f = split_whitespace t
      in if t = [] \<or> starts_with ''#'' t \<or> length f < 2 then None
         else Some (JObj
           [(''spec'', JStr (f ! 0)), (''file'', JStr (f ! 1)), (''vfstype'', JStr (nth_or [] f 2)),
            (''options'', JStr (nth_or ''defaults'' f 3)), (''dump'', JStr (nth_or ''0'' f 4)),
            (''pass'', JStr (nth_or ''0'' f 5))]))"

definition fstab_path :: string where
  "fstab_path = ''/etc/fstab''"

definition read_fstab :: "'w agent_host \<Rightarrow> ('w, json) act" where
  "read_fstab h = do {
     f \<leftarrow> read_file h fstab_path;
     (let content = unwrap_or [] f
      in ret (JObj [(''content'', JStr content), (''entries'', JArr (List.map_filter fstab_entry (lines content)))])) }"

section \<open>Changing\<close>

definition outcome_of :: "json \<Rightarrow> json" where
  "outcome_of r = (if has_error r then r else ok_json)"

definition mount_args :: "string \<Rightarrow> string \<Rightarrow> string \<Rightarrow> string \<Rightarrow> string list" where
  "mount_args fstype options source target =
     [''mount''] @ (if fstype = [] then [] else [''-t'', fstype]) @ (if options = [] then [] else [''-o'', options])
     @ [''--'', source, target]"

definition mount_device :: "'w agent_host \<Rightarrow> json \<Rightarrow> string \<Rightarrow> string \<Rightarrow> ('w, json) act" where
  "mount_device h data user password =
     (let source = trimmed_field data ''source''; target = trimmed_field data ''target'';
          fstype = trimmed_field data ''fstype''; options = trimmed_field data ''options''
      in ensure (is_valid_source source) ''invalid source device''
         (ensure (is_abs_path target) ''target must be an absolute path''
         (ensure (fstype = [] \<or> is_token fstype) ''invalid filesystem type''
         (ensure (options = [] \<or> is_mount_options options) ''invalid mount options''
         (do {
            mk \<leftarrow> sudo h user password [''mkdir'', ''-p'', ''--'', target];
            if has_error mk then ret mk
            else do {
              r \<leftarrow> sudo h user password (mount_args fstype options source target);
              record_audit user ''storage.mount'' (source @ '' -> '' @ target) (\<not> has_error r) [];
              ret (outcome_of r) } })))))"

definition unmount_device :: "'w agent_host \<Rightarrow> json \<Rightarrow> string \<Rightarrow> string \<Rightarrow> ('w, json) act" where
  "unmount_device h data user password =
     (let target = trimmed_field data ''target''
      in ensure (is_abs_path target \<or> is_valid_source target) ''invalid target''
         (do {
            r \<leftarrow> sudo h user password [''umount'', ''--'', target];
            record_audit user ''storage.unmount'' target (\<not> has_error r) [];
            ret (outcome_of r) }))"

definition bad_fstab_line :: "string \<Rightarrow> bool" where
  "bad_fstab_line l \<longleftrightarrow> (let t = trim l in t \<noteq> [] \<and> \<not> starts_with ''#'' t \<and> length (split_whitespace t) < 2)"

definition write_fstab :: "'w agent_host \<Rightarrow> json \<Rightarrow> string \<Rightarrow> string \<Rightarrow> ('w, json) act" where
  "write_fstab h data user password =
     (let content = str_field data ''content''
      in ensure (trim content \<noteq> []) ''fstab is empty''
         (ensure (length content \<le> 64 * 1024) ''fstab too large''
         (case List.find bad_fstab_line (lines content) of
            Some l \<Rightarrow> ret (jerror (''invalid fstab line: '' @ trim l))
          | None \<Rightarrow> do {
              _ \<leftarrow> sudo h user password [''cp'', ''-f'', fstab_path, fstab_path @ ''.tenodera.bak''];
              w \<leftarrow> sudo_write h user password [''tee'', fstab_path]
                     (if ends_with [NL] content then content else content @ [NL]);
              record_audit user ''storage.write_fstab'' fstab_path (\<not> has_error w) [];
              ret (outcome_of w) })))"

section \<open>The handler\<close>

definition storage_change :: "'w agent_host \<Rightarrow> string \<Rightarrow> json \<Rightarrow> string \<Rightarrow> string \<Rightarrow> ('w, json) act" where
  "storage_change h action data user password =
     (if action = ''mount'' then mount_device h data user password
      else if action = ''unmount'' then unmount_device h data user password
      else if action = ''write_fstab'' then write_fstab h data user password
      else ret (jerror (''unknown action: '' @ action)))"

definition storage_answer :: "'w agent_host \<Rightarrow> open_options \<Rightarrow> ('w, json) act" where
  "storage_answer h o' =
     (let action = opt_str o' ''action''
      in if action = ''list_block'' then list_block h
         else if action = ''read_fstab'' then read_fstab h
         else admin_only (options_json o')
           (storage_change h action (options_json o') (opt_str o' ''_user'') (opt_str o' ''password'')))"

definition storage_manage :: "'w agent_host \<Rightarrow> 'w agent_state handler" where
  "storage_manage h = answering ''storage.manage'' (storage_answer h)"

section \<open>What it may run\<close>

text \<open>Mounting puts the checked source and target after \<open>--\<close> and the checked options before it.\<close>

definition storage_sudo :: "(string \<Rightarrow> string) \<Rightarrow> string list \<Rightarrow> bool" where
  "storage_sudo b64 args \<longleftrightarrow>
     (\<exists>p. args = [''mkdir'', ''-p'', ''--'', p] \<and> is_abs_path p) \<or>
     (\<exists>fstype options source target. args = mount_args fstype options source target \<and> is_valid_source source \<and>
        is_abs_path target \<and> (fstype = [] \<or> is_token fstype) \<and> (options = [] \<or> is_mount_options options)) \<or>
     (\<exists>p. args = [''umount'', ''--'', p] \<and> (is_abs_path p \<or> is_valid_source p)) \<or>
     args = [''cp'', ''-f'', fstab_path, fstab_path @ ''.tenodera.bak''] \<or>
     (\<exists>txt. args = [''sh'', ''-c'', write_script b64 [''tee'', fstab_path] txt])"

definition storage_plain :: "string list \<Rightarrow> bool" where
  "storage_plain args \<longleftrightarrow> args \<noteq> [] \<and> hd args = ''lsblk''"

abbreviation storage_confined :: "'w agent_host \<Rightarrow> string \<Rightarrow> string \<Rightarrow> effect \<Rightarrow> bool" where
  "storage_confined h \<equiv> confined (storage_sudo (ah_b64 h)) nothing storage_plain"

lemma emits_storage_reads:
  "emits (queries storage_plain) (list_block h)" "emits (queries storage_plain) (read_fstab h)"
  unfolding list_block_def read_fstab_def by (intro emits_intros; simp add: storage_plain_def emits_ret)+

lemma storage_sudo_intros:
  "is_abs_path p \<Longrightarrow> storage_sudo b64 [''mkdir'', ''-p'', ''--'', p]"
  "is_valid_source source \<Longrightarrow> is_abs_path target \<Longrightarrow> fstype = [] \<or> is_token fstype \<Longrightarrow>
     options = [] \<or> is_mount_options options \<Longrightarrow> storage_sudo b64 (mount_args fstype options source target)"
  "is_abs_path p \<or> is_valid_source p \<Longrightarrow> storage_sudo b64 [''umount'', ''--'', p]"
  "storage_sudo b64 [''cp'', ''-f'', fstab_path, fstab_path @ ''.tenodera.bak'']"
  "storage_sudo b64 [''sh'', ''-c'', write_script b64 [''tee'', fstab_path] txt]"
  unfolding storage_sudo_def by blast+

lemma emits_storage_change:
  "emits (storage_confined h user password) (storage_change h action data user password)"
proof -
  have s: "emits (storage_confined h user password) (sudo h user password args)" if "storage_sudo (ah_b64 h) args" for args
    using that by (intro emits_sudo confined_sudo)
  have w: "emits (storage_confined h user password) (sudo_write h user password [''tee'', fstab_path] txt)" for "txt"
    by (intro emits_sudo_write confined_sudo storage_sudo_intros)
  show ?thesis
    unfolding storage_change_def mount_device_def unmount_device_def write_fstab_def Let_def
    by (intro emits_ensure emits_if emits_ret emits_option emits_bind s w emits_record_audit confined_audit
          storage_sudo_intros)
qed

interpretation storage_manage: bounded_handler "storage_manage h" "storage_confined h"
  unfolding storage_manage_def storage_answer_def Let_def
  by (rule bounded_answering)
     (intro emits_if emits_admin_only emits_storage_change emits_queries emits_storage_reads)

interpretation storage_manage: reading_handler "storage_manage h" "queries storage_plain"
  unfolding storage_manage_def storage_answer_def Let_def
  by (rule reading_answering) (intro emits_if emits_storage_reads emits_refused, simp)

end
