(* ===== verification/Security.thy ===== *)
theory Security
  imports Handlers TextFacts "HOL-Library.List_Lexorder" "HOL-Library.Char_ord"
begin

text \<open>
  \<open>security.status\<close> and \<open>security.manage\<close> (\<open>agent/src/handlers/security.rs\<close>): fail2ban, SELinux and
  AppArmor.
\<close>

section \<open>Finding tools\<close>

definition tool_dirs :: "string list" where
  "tool_dirs = [''/usr/sbin'', ''/usr/bin'', ''/sbin'', ''/bin'', ''/usr/local/sbin'', ''/usr/local/bin'']"

definition resolve :: "'w agent_host \<Rightarrow> string \<Rightarrow> ('w, string option) act" where
  "resolve h cmd =
     State (\<lambda>w. (List.find (ah_exists h (w_os w)) (map (\<lambda>d. d @ ''/'' @ cmd) tool_dirs), w))"

definition with_tool ::
  "'w agent_host \<Rightarrow> string \<Rightarrow> json \<Rightarrow> (string \<Rightarrow> ('w, json) act) \<Rightarrow> ('w, json) act" where
  "with_tool h cmd missing k = do {
     p \<leftarrow> resolve h cmd;
     case p of None \<Rightarrow> ret missing | Some bin \<Rightarrow> k bin }"

definition valid_name :: "string \<Rightarrow> bool" where
  "valid_name s \<longleftrightarrow>
     s \<noteq> [] \<and> length s \<le> 128 \<and> list_all (\<lambda>c. is_ascii_alphanumeric c \<or> c \<in> set ''-_.@/:'') s"

definition is_ascii_hexdigit :: "char \<Rightarrow> bool" where
  "is_ascii_hexdigit c \<longleftrightarrow>
     is_ascii_digit c \<or> (65 \<le> byte c \<and> byte c \<le> 70) \<or> (97 \<le> byte c \<and> byte c \<le> 102)"

definition valid_ip :: "string \<Rightarrow> bool" where
  "valid_ip s \<longleftrightarrow> s \<noteq> [] \<and> length s \<le> 64 \<and> list_all (\<lambda>c. is_ascii_hexdigit c \<or> c \<in> set ''.:/'') s"

section \<open>Status\<close>

text \<open>The text after a label.\<close>

definition after_raw :: "string \<Rightarrow> string \<Rightarrow> string option" where
  "after_raw line label = map_option (\<lambda>i. drop (i + length label) line) (find_str label line)"

definition after :: "string \<Rightarrow> string \<Rightarrow> string option" where
  "after line label = map_option trim (after_raw line label)"

record jail =
  jl_banned :: "string list"
  jl_total_banned :: nat
  jl_cur_banned :: nat
  jl_cur_failed :: nat
  jl_total_failed :: nat

definition jail_line :: "jail \<Rightarrow> string \<Rightarrow> jail" where
  "jail_line j line =
     (let num = (\<lambda>v. unwrap_or 0 (parse_uint U64_MAX v))
      in case after line ''Banned IP list:'' of Some v \<Rightarrow> j\<lparr>jl_banned := split_whitespace v\<rparr> | None \<Rightarrow>
        (case after line ''Total banned:'' of Some v \<Rightarrow> j\<lparr>jl_total_banned := num v\<rparr> | None \<Rightarrow>
        (case after line ''Currently banned:'' of Some v \<Rightarrow> j\<lparr>jl_cur_banned := num v\<rparr> | None \<Rightarrow>
        (case after line ''Currently failed:'' of Some v \<Rightarrow> j\<lparr>jl_cur_failed := num v\<rparr> | None \<Rightarrow>
        (case after line ''Total failed:'' of Some v \<Rightarrow> j\<lparr>jl_total_failed := num v\<rparr> | None \<Rightarrow> j)))))"

definition jail_of :: "string \<Rightarrow> jail" where
  "jail_of out =
     foldl jail_line
       \<lparr>jl_banned = [], jl_total_banned = 0, jl_cur_banned = 0, jl_cur_failed = 0, jl_total_failed = 0\<rparr> (lines out)"

definition jail_json :: "string \<Rightarrow> jail \<Rightarrow> json" where
  "jail_json name j =
     JObj [(''name'', JStr name), (''banned_ips'', JArr (map JStr (jl_banned j))),
       (''currently_banned'', JInt (int (jl_cur_banned j))), (''total_banned'', JInt (int (jl_total_banned j))),
       (''currently_failed'', JInt (int (jl_cur_failed j))), (''total_failed'', JInt (int (jl_total_failed j)))]"

definition unavailable :: json where
  "unavailable = JObj [(''available'', JBool False)]"

definition jail_names :: "string \<Rightarrow> string list" where
  "jail_names raw = filter valid_name (filter (\<lambda>s. s \<noteq> []) (map trim (split_on (CHR '','') raw)))"

definition fail2ban_status :: "'w agent_host \<Rightarrow> ('w, json) act" where
  "fail2ban_status h =
     with_tool h ''fail2ban-client'' unavailable (\<lambda>bin. do {
       overview \<leftarrow> run h [bin, ''status''];
       case List.find (contains_str ''Jail list:'') (lines overview) of
         None \<Rightarrow> ret (JObj [(''available'', JBool True), (''active'', JBool False), (''jails'', JArr [])])
       | Some l \<Rightarrow> do {
           jails \<leftarrow> act_map (\<lambda>name. do { out \<leftarrow> run h [bin, ''status'', name]; ret (jail_json name (jail_of out)) })
                      (jail_names (unwrap_or [] (after l ''Jail list:'')));
           ret (JObj [(''available'', JBool True), (''active'', JBool True), (''jails'', JArr jails)]) } })"

definition sestatus_line :: "(string \<Rightarrow> string) \<Rightarrow> string \<times> string \<Rightarrow> string \<Rightarrow> string \<times> string" where
  "sestatus_line lower cp line =
     (case after line ''Mode from config file:'' of Some v \<Rightarrow> (lower v, snd cp) | None \<Rightarrow>
     (case after line ''Loaded policy name:'' of Some v \<Rightarrow> (fst cp, v) | None \<Rightarrow> cp))"

definition selinux_status :: "'w agent_host \<Rightarrow> ('w, json) act" where
  "selinux_status h =
     with_tool h ''getenforce'' unavailable (\<lambda>bin. do {
       current \<leftarrow> run h [bin];
       s \<leftarrow> resolve h ''sestatus'';
       out \<leftarrow> (case s of None \<Rightarrow> ret [] | Some sestatus \<Rightarrow> run h [sestatus]);
       (let cp = foldl (sestatus_line (ah_lower h)) ([], []) (lines out)
        in ret (JObj
          [(''available'', JBool True), (''current'', JStr (ah_lower h (trim current))),
           (''config'', JStr (fst cp)), (''policy'', JStr (snd cp))])) })"

definition boolean_row :: "string \<Rightarrow> json option" where
  "boolean_row line =
     (case split_once_str ''-->'' line of
        None \<Rightarrow> None
      | Some (name, val) \<Rightarrow>
          if valid_name (trim name)
          then Some (JObj [(''name'', JStr (trim name)), (''on'', JBool (trim val = ''on''))]) else None)"

definition selinux_booleans :: "'w agent_host \<Rightarrow> ('w, json) act" where
  "selinux_booleans h =
     with_tool h ''getsebool'' (JObj [(''booleans'', JArr [])]) (\<lambda>bin. do {
       out \<leftarrow> run h [bin, ''-a''];
       ret (JObj [(''booleans'', JArr (List.map_filter boolean_row (lines out)))]) })"

definition first_word_of :: "string \<Rightarrow> string option" where
  "first_word_of l = (case split_whitespace l of [] \<Rightarrow> None | w # _ \<Rightarrow> Some w)"

definition selinux_modules :: "'w agent_host \<Rightarrow> ('w, json) act" where
  "selinux_modules h =
     with_tool h ''semodule'' (JObj [(''modules'', JArr [])]) (\<lambda>bin. do {
       out \<leftarrow> run h [bin, ''-l''];
       ret (JObj [(''modules'', JArr (map JStr (List.map_filter first_word_of (lines out))))]) })"

definition kv_field :: "string \<Rightarrow> string \<Rightarrow> string" where
  "kv_field line key =
     (case after_raw line key of
        None \<Rightarrow> []
      | Some rest \<Rightarrow>
          (case strip_prefix [DQ] rest of
             Some r \<Rightarrow> hd (split_on DQ r)
           | None \<Rightarrow> unwrap_or [] (first_word_of rest)))"

definition between :: "string \<Rightarrow> char \<Rightarrow> char \<Rightarrow> string option" where
  "between s a b =
     (case split_once a s of None \<Rightarrow> None | Some (_, rest) \<Rightarrow> map_option fst (split_once b rest))"

definition denial :: "string \<Rightarrow> json" where
  "denial line =
     JObj [(''time'', JStr (unwrap_or [] (first_word_of line))), (''comm'', JStr (kv_field line ''comm='')),
       (''op'', JStr (trim (unwrap_or [] (between line (CHR ''{'') (CHR ''}''))))),
       (''scontext'', JStr (kv_field line ''scontext='')), (''tcontext'', JStr (kv_field line ''tcontext='')),
       (''tclass'', JStr (kv_field line ''tclass='')), (''permissive'', JStr (kv_field line ''permissive=''))]"

definition selinux_denials :: "'w agent_host \<Rightarrow> ('w, json) act" where
  "selinux_denials h =
     with_tool h ''journalctl'' (JObj [(''denials'', JArr [])]) (\<lambda>bin. do {
       out \<leftarrow> run h [bin, ''-b'', ''--no-pager'', ''-o'', ''short-iso'', ''--grep'', ''avc:.*denied''];
       ret (JObj [(''denials'', JArr (take 200
         (map denial (filter (\<lambda>l. contains_str ''avc:'' l \<and> contains_str ''denied'' l) (rev (lines out))))))]) })"

text \<open>The profiles in the order of the map, which \<open>serde_json\<close> keeps sorted by name.\<close>

definition profiles_of :: "json option \<Rightarrow> (string \<times> string) list" where
  "profiles_of parsed =
     (case Option.bind (Option.bind parsed (\<lambda>v. jget v ''profiles'')) as_object of
        None \<Rightarrow> []
      | Some m \<Rightarrow> sort_key fst (map (\<lambda>(n, v). (n, unwrap_or [] (as_str v))) m))"

definition apparmor_status :: "'w agent_host \<Rightarrow> ('w, json) act" where
  "apparmor_status h =
     with_tool h ''aa-status'' unavailable (\<lambda>bin. do {
       out \<leftarrow> run h [bin, ''--json''];
       complain \<leftarrow> resolve h ''aa-complain'';
       enforce \<leftarrow> resolve h ''aa-enforce'';
       (let ps = profiles_of (ah_parse h (trim out));
            num = (\<lambda>p. JInt (int (length (filter (\<lambda>x. p (snd x)) ps))))
        in ret (JObj
          [(''available'', JBool True), (''can_manage'', JBool (complain \<noteq> None \<and> enforce \<noteq> None)),
           (''enforce'', num (\<lambda>m. m = ''enforce'')), (''complain'', num (\<lambda>m. m = ''complain'')),
           (''other'', num (\<lambda>m. m \<noteq> ''enforce'' \<and> m \<noteq> ''complain'')),
           (''profiles'', JArr (map (\<lambda>(n, m). JObj [(''name'', JStr n), (''mode'', JStr m)]) (take 500 ps)))])) })"

definition security_status_answer :: "'w agent_host \<Rightarrow> open_options \<Rightarrow> ('w, json) act" where
  "security_status_answer h o' =
     (let query = opt_str o' ''query''
      in if query = ''selinux_booleans'' then selinux_booleans h
         else if query = ''selinux_denials'' then selinux_denials h
         else if query = ''selinux_modules'' then selinux_modules h
         else do {
           f \<leftarrow> fail2ban_status h;
           s \<leftarrow> selinux_status h;
           a \<leftarrow> apparmor_status h;
           ret (JObj [(''fail2ban'', f), (''selinux'', s), (''apparmor'', a)]) })"

definition security_status :: "'w agent_host \<Rightarrow> 'w agent_state handler" where
  "security_status h = answering ''security.status'' (security_status_answer h)"

section \<open>Changing\<close>

text \<open>The result of a command, audited: an error is passed on, otherwise its output.\<close>

definition finish :: "string \<Rightarrow> string \<Rightarrow> string \<Rightarrow> string \<Rightarrow> json \<Rightarrow> ('w, json) act" where
  "finish user action target detail res =
     (case jget_str res ''error'' of
        Some err \<Rightarrow> do { record_audit user action target False err; ret (jerror err) }
      | None \<Rightarrow>
          (let out = str_field res ''output''
           in do {
             record_audit user action target True (if detail = [] then out else detail);
             ret (JObj [(''ok'', JBool True), (''output'', JStr out)]) }))"

definition fail2ban_action ::
  "'w agent_host \<Rightarrow> string \<Rightarrow> string \<Rightarrow> string \<Rightarrow> string \<Rightarrow> string \<Rightarrow> ('w, json) act" where
  "fail2ban_action h op jail ip user password =
     with_tool h ''fail2ban-client'' (jerror ''fail2ban is not installed'') (\<lambda>bin.
       ensure (valid_name jail) ''invalid jail name''
       (ensure (valid_ip ip) ''invalid IP address''
       (do {
          res \<leftarrow> sudo h user password [bin, ''set'', jail, op, ip];
          finish user (''security.fail2ban_'' @ op) (jail @ '':'' @ ip) [] res })))"

definition fail2ban_reload :: "'w agent_host \<Rightarrow> string \<Rightarrow> string \<Rightarrow> ('w, json) act" where
  "fail2ban_reload h user password =
     with_tool h ''fail2ban-client'' (jerror ''fail2ban is not installed'') (\<lambda>bin. do {
       res \<leftarrow> sudo h user password [bin, ''reload''];
       finish user ''security.fail2ban_reload'' [] [] res })"

definition selinux_config :: string where
  "selinux_config = ''/etc/selinux/config''"

definition with_selinux_mode :: "string \<Rightarrow> string \<Rightarrow> string" where
  "with_selinux_mode mode content =
     join [NL] (map (\<lambda>l. if starts_with ''SELINUX='' (trim_start l) \<and> \<not> starts_with ''SELINUXTYPE='' (trim_start l)
                        then ''SELINUX='' @ mode else l) (lines content)) @ [NL]"

definition enforce_arg :: "string \<Rightarrow> string option" where
  "enforce_arg mode =
     (if mode = ''enforcing'' then Some ''1'' else if mode = ''permissive'' then Some ''0'' else None)"

text \<open>Persisting: nothing is written, and no error reported, when the file cannot be read.\<close>

definition persist_selinux :: "'w agent_host \<Rightarrow> string \<Rightarrow> string \<Rightarrow> string \<Rightarrow> ('w, string option) act" where
  "persist_selinux h mode user password = do {
     f \<leftarrow> read_file h selinux_config;
     case f of
       None \<Rightarrow> ret None
     | Some content \<Rightarrow> do {
         w \<leftarrow> sudo_write h user password [''tee'', selinux_config] (with_selinux_mode mode content);
         ret (jget_str w ''error'') } }"

definition selinux_setenforce ::
  "'w agent_host \<Rightarrow> string \<Rightarrow> bool \<Rightarrow> string \<Rightarrow> string \<Rightarrow> ('w, json) act" where
  "selinux_setenforce h mode persist user password =
     with_tool h ''setenforce'' (jerror ''SELinux is not available'') (\<lambda>bin.
       case enforce_arg mode of
         None \<Rightarrow> ret (jerror ''mode must be enforcing or permissive'')
       | Some arg \<Rightarrow> do {
           res \<leftarrow> sudo h user password [bin, arg];
           case jget_str res ''error'' of
             Some err \<Rightarrow> do {
               record_audit user ''security.selinux_setenforce'' mode False err;
               ret (jerror err) }
           | None \<Rightarrow> do {
               failed \<leftarrow> (if persist then persist_selinux h mode user password else ret None);
               case failed of
                 Some err \<Rightarrow> do {
                   record_audit user ''security.selinux_setenforce'' mode False err;
                   ret (jerror (''runtime change applied, but persisting failed: '' @ err)) }
               | None \<Rightarrow> do {
                   record_audit user ''security.selinux_setenforce'' mode True
                     (if persist then ''persisted'' else ''runtime'');
                   ret ok_json } } })"

definition selinux_setbool ::
  "'w agent_host \<Rightarrow> string \<Rightarrow> string \<Rightarrow> bool \<Rightarrow> string \<Rightarrow> string \<Rightarrow> ('w, json) act" where
  "selinux_setbool h name v persist user password =
     with_tool h ''setsebool'' (jerror ''setsebool not available'') (\<lambda>bin.
       ensure (valid_name name) ''invalid boolean name''
       (ensure (v = ''on'' \<or> v = ''off'') ''value must be on or off''
       (do {
          res \<leftarrow> sudo h user password ([bin] @ (if persist then [''-P''] else []) @ [name, v]);
          finish user ''security.selinux_setbool'' (name @ ''='' @ v) (if persist then ''persisted'' else ''runtime'') res })))"

text \<open>\<open>restorecon\<close> has a timeout of its own: the command goes on, its result is not seen.\<close>

definition selinux_restorecon :: "'w agent_host \<Rightarrow> string \<Rightarrow> string \<Rightarrow> string \<Rightarrow> ('w, json) act" where
  "selinux_restorecon h path user password =
     with_tool h ''restorecon'' (jerror ''restorecon not available'') (\<lambda>bin.
       ensure (starts_with ''/'' path) ''path must be absolute''
       (do {
          present \<leftarrow> path_exists h path;
          ensure present ''path not found''
          (do {
             r \<leftarrow> timed h 120 (sudo h user password [bin, ''-Rv'', ''--'', path]);
             case r of
               Some res \<Rightarrow> finish user ''security.selinux_restorecon'' path [] res
             | None \<Rightarrow> do {
                 record_audit user ''security.selinux_restorecon'' path False ''timeout'';
                 ret (jerror ''restorecon timed out (still running in background)'') } }) }))"

definition apparmor_tool :: "string \<Rightarrow> string option" where
  "apparmor_tool mode =
     (if mode = ''enforce'' then Some ''aa-enforce'' else if mode = ''complain'' then Some ''aa-complain'' else None)"

definition apparmor_set :: "'w agent_host \<Rightarrow> string \<Rightarrow> string \<Rightarrow> string \<Rightarrow> string \<Rightarrow> ('w, json) act" where
  "apparmor_set h profile mode user password =
     ensure (valid_name profile) ''invalid profile name''
     (case apparmor_tool mode of
        None \<Rightarrow> ret (jerror ''mode must be enforce or complain'')
      | Some tool \<Rightarrow>
          with_tool h tool (jerror ''apparmor-utils is not installed (aa-enforce/aa-complain missing)'') (\<lambda>bin. do {
            res \<leftarrow> sudo h user password [bin, profile];
            finish user ''security.apparmor_set'' (profile @ '':'' @ mode) [] res }))"

definition security_change :: "'w agent_host \<Rightarrow> open_options \<Rightarrow> ('w, json) act" where
  "security_change h o' =
     (let action = opt_str o' ''action''; user = opt_str o' ''_user''; password = opt_str o' ''password'';
          persist = (opt_str o' ''persist'' = ''true'')
      in if action = ''fail2ban_unban'' then
           fail2ban_action h ''unbanip'' (opt_str o' ''jail'') (opt_str o' ''ip'') user password
         else if action = ''fail2ban_ban'' then
           fail2ban_action h ''banip'' (opt_str o' ''jail'') (opt_str o' ''ip'') user password
         else if action = ''fail2ban_reload'' then fail2ban_reload h user password
         else if action = ''selinux_setenforce'' then selinux_setenforce h (opt_str o' ''mode'') persist user password
         else if action = ''apparmor_set'' then
           apparmor_set h (opt_str o' ''profile'') (opt_str o' ''mode'') user password
         else if action = ''selinux_setbool'' then
           selinux_setbool h (opt_str o' ''name'') (opt_str o' ''value'') persist user password
         else if action = ''selinux_restorecon'' then selinux_restorecon h (opt_str o' ''path'') user password
         else ret (jerror (''unknown action: '' @ action)))"

definition security_manage :: "'w agent_host \<Rightarrow> 'w agent_state handler" where
  "security_manage h = answering ''security.manage'' (\<lambda>o'. admin_only (options_json o') (security_change h o'))"

interpretation security_manage: admin_handler "security_manage h"
  unfolding security_manage_def by (rule answering_admin.admin_handler_axioms)

section \<open>What they may run\<close>

text \<open>A tool in one of the fixed directories.\<close>

definition tool_in :: "string set \<Rightarrow> string \<Rightarrow> bool" where
  "tool_in cmds bin \<longleftrightarrow> (\<exists>d \<in> set tool_dirs. \<exists>cmd \<in> cmds. bin = d @ ''/'' @ cmd)"

definition security_sudo :: "(string \<Rightarrow> string) \<Rightarrow> string list \<Rightarrow> bool" where
  "security_sudo b64 args \<longleftrightarrow>
     (\<exists>bin rest. args = bin # rest \<and>
        (tool_in {''fail2ban-client''} bin \<and>
           (rest = [''reload''] \<or> (\<exists>j op ip. rest = [''set'', j, op, ip] \<and> valid_name j \<and> valid_ip ip)) \<or>
         tool_in {''setenforce''} bin \<and> rest \<in> {[''0''], [''1'']} \<or>
         tool_in {''setsebool''} bin \<and> (\<exists>n v p. rest = p @ [n, v] \<and> valid_name n \<and> p \<in> {[], [''-P'']}) \<or>
         tool_in {''restorecon''} bin \<and> (\<exists>p. rest = [''-Rv'', ''--'', p]) \<or>
         tool_in {''aa-enforce'', ''aa-complain''} bin \<and> (\<exists>p. rest = [p] \<and> valid_name p))) \<or>
     (\<exists>txt. args = [''sh'', ''-c'', write_script b64 [''tee'', selinux_config] txt])"

definition security_plain :: "string list \<Rightarrow> bool" where
  "security_plain args \<longleftrightarrow>
     (\<exists>bin rest. args = bin # rest \<and>
        (tool_in {''fail2ban-client''} bin \<and> (rest = [''status''] \<or> (\<exists>j. rest = [''status'', j] \<and> valid_name j)) \<or>
         tool_in {''getenforce'', ''sestatus'', ''getsebool'', ''semodule'', ''journalctl'', ''aa-status''} bin))"

abbreviation security_confined :: "'w agent_host \<Rightarrow> string \<Rightarrow> string \<Rightarrow> effect \<Rightarrow> bool" where
  "security_confined h \<equiv> confined (security_sudo (ah_b64 h)) nothing security_plain"

lemma resolve_result:
  "fst (run_state (resolve h cmd) w) = None \<or> (\<exists>bin. tool_in {cmd} bin \<and> fst (run_state (resolve h cmd) w) = Some bin)"
proof (cases "fst (run_state (resolve h cmd) w)")
  case (Some bin)
  then have "bin \<in> set (map (\<lambda>d. d @ ''/'' @ cmd) tool_dirs)"
    unfolding resolve_def by (simp del: set_map) (drule find_Some_set, simp)
  then show ?thesis using Some by (auto simp: tool_in_def)
qed simp

lemma emits_bind_resolve:
  assumes "\<And>p. p = None \<or> (\<exists>bin. tool_in {cmd} bin \<and> p = Some bin) \<Longrightarrow> emits P (k p)"
  shows "emits P (resolve h cmd \<bind> k)"
  by (rule emits_bind_result [where R = "\<lambda>p. p = None \<or> (\<exists>bin. tool_in {cmd} bin \<and> p = Some bin)"])
     (simp add: resolve_def emits_pure, rule resolve_result, rule assms)

lemma emits_with_tool: "(\<And>bin. tool_in {cmd} bin \<Longrightarrow> emits P (k bin)) \<Longrightarrow> emits P (with_tool h cmd missing k)"
  unfolding with_tool_def by (rule emits_bind_resolve) (auto intro: emits_ret)

lemma tool_in_mono: "tool_in {cmd} bin \<Longrightarrow> cmd \<in> cmds \<Longrightarrow> tool_in cmds bin"
  by (auto simp: tool_in_def)

lemma security_plain_tool:
  assumes "tool_in {cmd} bin"
    and "cmd \<in> {''getenforce'', ''sestatus'', ''getsebool'', ''semodule'', ''journalctl'', ''aa-status''}"
  shows "security_plain (bin # rest)"
  using tool_in_mono [OF assms] by (auto simp: security_plain_def)

lemma security_plain_fail2ban:
  "tool_in {''fail2ban-client''} bin \<Longrightarrow> security_plain [bin, ''status'']"
  "tool_in {''fail2ban-client''} bin \<Longrightarrow> valid_name j \<Longrightarrow> security_plain [bin, ''status'', j]"
  by (auto simp: security_plain_def)

lemma emits_query: "security_plain (bin # rest) \<Longrightarrow> emits (queries security_plain) (run h (bin # rest))"
  by (rule emits_run) (simp add: queries_plain)

lemma emits_fail2ban_status: "emits (queries security_plain) (fail2ban_status h)"
proof -
  have j: "valid_name name" if "name \<in> set (jail_names raw)" for name raw
    using that by (simp add: jail_names_def)
  show ?thesis
    unfolding fail2ban_status_def
    by (intro emits_with_tool emits_bind emits_query security_plain_fail2ban emits_option emits_ret emits_act_map j)
qed

lemma emits_selinux_status: "emits (queries security_plain) (selinux_status h)"
  unfolding selinux_status_def Let_def
  by (rule emits_with_tool, rule emits_bind, rule emits_query, erule security_plain_tool, simp,
      rule emits_bind_resolve, rule emits_bind, rule emits_option, rule emits_ret, rule emits_query,
      auto intro: security_plain_tool emits_ret)

lemma emits_security_lists:
  "emits (queries security_plain) (selinux_booleans h)" "emits (queries security_plain) (selinux_modules h)"
  "emits (queries security_plain) (selinux_denials h)"
  unfolding selinux_booleans_def selinux_modules_def selinux_denials_def
  by (rule emits_with_tool, rule emits_bind, rule emits_query, erule security_plain_tool, simp, rule emits_ret)+

lemma emits_apparmor_status: "emits (queries security_plain) (apparmor_status h)"
  unfolding apparmor_status_def Let_def
  by (rule emits_with_tool, rule emits_bind, rule emits_query, erule security_plain_tool, simp)
     (intro emits_bind_resolve emits_ret)

lemma emits_security_status: "emits (queries security_plain) (security_status_answer h o')"
  unfolding security_status_answer_def Let_def
  by (intro emits_if emits_bind emits_ret emits_security_lists emits_fail2ban_status emits_selinux_status
        emits_apparmor_status)

lemma security_sudo_intros:
  "tool_in {''fail2ban-client''} bin \<Longrightarrow> security_sudo b64 [bin, ''reload'']"
  "tool_in {''fail2ban-client''} bin \<Longrightarrow> valid_name j \<Longrightarrow> valid_ip ip \<Longrightarrow> security_sudo b64 [bin, ''set'', j, op, ip]"
  "tool_in {''setenforce''} bin \<Longrightarrow> enforce_arg mode = Some arg \<Longrightarrow> security_sudo b64 [bin, arg]"
  "tool_in {''setsebool''} bin \<Longrightarrow> valid_name n \<Longrightarrow>
     security_sudo b64 ([bin] @ (if persist then [''-P''] else []) @ [n, v])"
  "tool_in {''restorecon''} bin \<Longrightarrow> security_sudo b64 [bin, ''-Rv'', ''--'', p]"
  "tool_in {tool} bin \<Longrightarrow> apparmor_tool mode = Some tool \<Longrightarrow> valid_name p \<Longrightarrow> security_sudo b64 [bin, p]"
  by (auto simp: security_sudo_def enforce_arg_def apparmor_tool_def split: if_splits
      intro: tool_in_mono [of "''aa-enforce''"] tool_in_mono [of "''aa-complain''"])

lemma security_confined_sudo:
  "security_sudo (ah_b64 h) args \<Longrightarrow> emits (security_confined h user password) (sudo h user password args)"
  by (intro emits_sudo confined_sudo)

lemma emits_finish: "emits (security_confined h user password) (finish user action target detail res)"
  unfolding finish_def Let_def by (intro emits_option emits_bind emits_record_audit confined_audit emits_ret)

lemma emits_persist: "emits (security_confined h user password) (persist_selinux h mode user password)"
  unfolding persist_selinux_def
  by (intro emits_bind emits_reads emits_option emits_ret emits_sudo_write confined_sudo)
     (auto simp: security_sudo_def)

lemmas security_rules = emits_with_tool emits_ensure emits_bind emits_ret emits_if emits_option emits_reads emits_finish
  emits_persist emits_timed emits_record_audit confined_audit security_confined_sudo

lemma emits_security_change:
  "emits (security_confined h (opt_str o' ''_user'') (opt_str o' ''password'')) (security_change h o')"
  unfolding security_change_def fail2ban_action_def fail2ban_reload_def selinux_setenforce_def apparmor_set_def
    selinux_setbool_def selinux_restorecon_def Let_def
  by (intro security_rules; rule security_sudo_intros; assumption)

interpretation security_status: bounded_handler "security_status h" "security_confined h"
  unfolding security_status_def by (rule bounded_answering) (rule emits_queries [OF emits_security_status])

interpretation security_manage: bounded_handler "security_manage h" "security_confined h"
  unfolding security_manage_def by (intro bounded_answering emits_admin_only emits_security_change)

interpretation security_manage: reading_handler "security_manage h" "\<lambda>_. False"
  unfolding security_manage_def by (rule reading_answering) (rule emits_refused, simp)

section \<open>Persisting the SELinux mode\<close>

text \<open>
  Setting the SELinux mode for good reports success without having written anything when the
  configuration cannot be read: the answer is the same as for a written one, and the audit record
  says the mode was persisted.
\<close>

theorem selinux_persist_not_written:
  assumes "\<And>os. ah_read h os selinux_config = None" and "lookup_user h user = Some pw" and "enforce_arg mode = Some arg"
    and "run_state (selinux_setenforce h mode True user password) w = (ok_json, w')"
  shows "\<exists>bin. w_log w' = w_log w @ [Ran (sudo_command user pw password [bin, arg]),
      Audited user ''security.selinux_setenforce'' mode True ''persisted'']"
proof -
  obtain p w0 where p: "run_state (resolve h ''setenforce'') w = (p, w0)" by fastforce
  have w0: "w0 = w" using p by (simp add: resolve_def)
  have ok: "ok_json \<noteq> jerror e" for e by (simp add: ok_json_def jerror_def)
  from assms(4) ok obtain bin where bin: "p = Some bin"
    by (cases p) (auto simp: selinux_setenforce_def with_tool_def run_simps p ok_json_def jerror_def)
  obtain res w1 where res: "sudo_as_user h user password [bin, arg] w = (res, w1)" by fastforce
  have log: "w_log w1 = w_log w @ [Ran (sudo_command user pw password [bin, arg])]"
    using sudo_as_user_log [of h user password "[bin, arg]" w] assms(2) by (simp add: res sudo_log_def)
  have "w_log w' = w_log w1 @ [Audited user ''security.selinux_setenforce'' mode True ''persisted'']"
    using assms(4) ok
    by (cases "jget_str res ''error''")
       (auto simp: selinux_setenforce_def with_tool_def run_simps p w0 bin assms(1,3) res persist_selinux_def
         ok_json_def jerror_def)
  then show ?thesis using log by auto
qed

theorem selinux_persist_not_written_witness:
  "last (w_log (snd (run_state (selinux_setenforce toy_host ''enforcing'' True ''alice'' ''pw'') (st_world toy_state)))) =
   Audited ''alice'' ''security.selinux_setenforce'' ''enforcing'' True ''persisted''"
proof -
  let ?m = "selinux_setenforce toy_host ''enforcing'' True ''alice'' ''pw''"
  have read: "ah_read toy_host os selinux_config = None" for os by (simp add: toy_host_def)
  have mode: "enforce_arg ''enforcing'' = Some ''1''" by (simp add: enforce_arg_def)
  have tool: "fst (run_state (resolve toy_host cmd) w) = Some (''/usr/sbin/'' @ cmd)" for cmd w
    by (simp add: resolve_def tool_dirs_def) (simp add: toy_host_def)
  obtain r w' where run: "run_state ?m (st_world toy_state) = (r, w')" by fastforce
  then have "r = ok_json"
    using tool [of "''setenforce''" "st_world toy_state"]
    by (cases "run_state (resolve toy_host ''setenforce'') (st_world toy_state)")
       (simp add: selinux_setenforce_def with_tool_def run_simps mode toy_sudo persist_selinux_def read map_str_def)
  with run have "run_state ?m (st_world toy_state) = (ok_json, w')" by simp
  from selinux_persist_not_written [OF read toy_lookup mode this] show ?thesis by (auto simp: run)
qed

end
