(* ===== verification/Kdump.thy ===== *)
theory Kdump
  imports Handlers TextFacts "HOL-Library.List_Lexorder" "HOL-Library.Char_ord"
begin

text \<open>
  \<open>kdump.info\<close> (\<open>agent/src/handlers/kdump.rs\<close>): the state of the crash kernel, the crash dumps and the
  settings of \<open>kdump\<close>.
\<close>

section \<open>Settings\<close>

definition is_kdump_key :: "string \<Rightarrow> bool" where
  "is_kdump_key key \<longleftrightarrow> key \<noteq> [] \<and> list_all (\<lambda>c. is_ascii_alphanumeric c \<or> c = CHR ''_'') key"

definition setting_of :: "bool \<Rightarrow> string \<Rightarrow> (string \<times> string) option" where
  "setting_of conf_format line =
     (let t = trim line
      in if t = [] \<or> starts_with ''#'' t then None
         else (case (if conf_format
                     then (case split_ws_once t of Some (k, v) \<Rightarrow> Some (trim k, trim v) | None \<Rightarrow> Some (t, []))
                     else map_option (\<lambda>(k, v). (trim k, trim_matches DQ (trim v))) (split_once (CHR ''='') t)) of
                 None \<Rightarrow> None
               | Some (k, v) \<Rightarrow> if is_kdump_key k then Some (k, v) else None))"

definition parse_kdump_settings :: "bool \<Rightarrow> string \<Rightarrow> (string \<times> string) list" where
  "parse_kdump_settings conf_format content = List.map_filter (setting_of conf_format) (lines content)"

definition settings_json :: "(string \<times> string) list \<Rightarrow> json" where
  "settings_json xs = JArr (map (\<lambda>(k, v). JObj [(''key'', JStr k), (''value'', JStr v)]) xs)"

definition setting_line :: "bool \<Rightarrow> string \<Rightarrow> string \<Rightarrow> string" where
  "setting_line conf_format k v = (if conf_format then k @ '' '' @ v else k @ ''='' @ v)"

definition line_key :: "bool \<Rightarrow> string \<Rightarrow> string option" where
  "line_key conf_format line =
     (let t = trim_start line
      in if starts_with ''#'' t then None
         else if conf_format then (case split_whitespace t of [] \<Rightarrow> None | w # _ \<Rightarrow> Some w)
         else map_option (\<lambda>(k, _). trim k) (split_once (CHR ''='') t))"

definition upsert_setting :: "string \<Rightarrow> string \<Rightarrow> string \<Rightarrow> bool \<Rightarrow> string" where
  "upsert_setting content key v conf_format =
     (let mine = (\<lambda>l. line_key conf_format l = Some key);
          ls = map (\<lambda>l. if mine l then setting_line conf_format key v else l) (lines content)
               @ (if list_ex mine (lines content) then [] else [setting_line conf_format key v])
      in join [NL] ls @ (if ends_with [NL] content then [NL] else []))"

text \<open>The file, its format and its service; \<open>metadata\<close> is asked only whether it succeeds.\<close>

definition kdump_config_target :: "'w agent_host \<Rightarrow> ('w, (string \<times> bool \<times> string) option) act" where
  "kdump_config_target h = do {
     d \<leftarrow> metadata h ''/etc/default/kdump-tools'';
     if d \<noteq> None then ret (Some (''/etc/default/kdump-tools'', False, ''kdump-tools''))
     else do {
       f \<leftarrow> metadata h ''/etc/kdump.conf'';
       ret (if f \<noteq> None then Some (''/etc/kdump.conf'', True, ''kdump'') else None) } }"

definition config_json :: "string \<Rightarrow> string \<Rightarrow> bool \<Rightarrow> bool \<Rightarrow> json" where
  "config_json path content conf_format editable =
     JObj [(''path'', JStr path), (''content'', JStr content),
       (''settings'', settings_json (parse_kdump_settings conf_format content)), (''editable'', JBool editable)]"

definition legacy_kdump_config :: "'w agent_host \<Rightarrow> ('w, json) act" where
  "legacy_kdump_config h = do {
     f \<leftarrow> read_file h ''/etc/kdump/kdump.conf'';
     ret (case f of
            Some content \<Rightarrow> config_json ''/etc/kdump/kdump.conf'' content True False
          | None \<Rightarrow> JObj [(''path'', JNull), (''content'', JNull), (''settings'', JArr []), (''editable'', JBool False)]) }"

definition read_kdump_config :: "'w agent_host \<Rightarrow> ('w, json) act" where
  "read_kdump_config h = do {
     t \<leftarrow> kdump_config_target h;
     case t of
       None \<Rightarrow> legacy_kdump_config h
     | Some (path, conf_format, _) \<Rightarrow> do {
         f \<leftarrow> read_file h path;
         case f of
           Some content \<Rightarrow> ret (config_json path content conf_format True)
         | None \<Rightarrow> legacy_kdump_config h } }"

definition said :: "json \<Rightarrow> string" where
  "said r = unwrap_or [] (Option.bind (case jget r ''output'' of Some v \<Rightarrow> Some v | None \<Rightarrow> jget r ''error'') as_str)"

text \<open>Applying the new settings: whether the test passed, what it said, whether the service restarted.\<close>

definition apply_kdump ::
  "'w agent_host \<Rightarrow> bool \<Rightarrow> string \<Rightarrow> string \<Rightarrow> string \<Rightarrow> ('w, bool \<times> string \<times> bool) act" where
  "apply_kdump h conf_format service user password =
     (if conf_format then do {
        r \<leftarrow> sudo h user password [''kdumpctl'', ''reload''];
        ret (jget r ''ok'' \<noteq> None, said r, jget r ''ok'' \<noteq> None) }
      else do {
        test \<leftarrow> sudo h user password [''kdump-config'', ''test''];
        if jget test ''ok'' \<noteq> None then do {
          r \<leftarrow> sudo h user password [''systemctl'', ''restart'', service];
          ret (True, said test, jget r ''ok'' \<noteq> None) }
        else ret (False, said test, False) })"

definition kdump_set_config :: "'w agent_host \<Rightarrow> open_options \<Rightarrow> string \<Rightarrow> string \<Rightarrow> ('w, json) act" where
  "kdump_set_config h o' user password =
     (let key = opt_str o' ''key''; v = opt_str o' ''value''
      in if \<not> is_kdump_key key then ret (not_ok ''invalid setting key'')
         else if NL \<in> set v then ret (not_ok ''invalid value (newline)'')
         else if password = [] then ret (not_ok ''superuser password required'')
         else do {
           t \<leftarrow> kdump_config_target h;
           case t of
             None \<Rightarrow> ret (not_ok ''no editable kdump config found on this host'')
           | Some (path, conf_format, service) \<Rightarrow> do {
               f \<leftarrow> read_file h path;
               (let current = unwrap_or [] f
                in if current = [] then ret (not_ok ''kdump config not found'')
                   else do {
                     w \<leftarrow> sudo_write h user password [''tee'', path] (upsert_setting current key v conf_format);
                     if jget w ''ok'' = None then ret (not_ok (unwrap_or ''write failed'' (jget_str w ''error'')))
                     else do {
                       r \<leftarrow> apply_kdump h conf_format service user password;
                       record_audit user ''kdump.set_config'' key (fst r) [];
                       ret (JObj
                         [(''ok'', JBool True), (''key'', JStr key), (''value'', JStr v), (''test_ok'', JBool (fst r)),
                          (''test_output'', JStr (fst (snd r))), (''restarted'', JBool (snd (snd r)))]) } }) } })"

section \<open>Status\<close>

definition service_word :: "string + cmd_output \<Rightarrow> string" where
  "service_word r = (case r of Inl _ \<Rightarrow> ''unknown'' | Inr out \<Rightarrow> trim (from_utf8_lossy (out_stdout out)))"

definition collect_kdump_status :: "'w agent_host \<Rightarrow> ('w, json) act" where
  "collect_kdump_status h = do {
     tools \<leftarrow> metadata h ''/usr/sbin/kdump-config'';
     m1 \<leftarrow> metadata h ''/usr/sbin/makedumpfile'';
     m2 \<leftarrow> (if m1 \<noteq> None then ret None else metadata h ''/usr/bin/makedumpfile'');
     (let installed = (tools \<noteq> None); kexec = (m1 \<noteq> None \<or> m2 \<noteq> None);
          service = (if tools \<noteq> None then ''kdump-tools'' else ''kdump'')
      in do {
        active \<leftarrow> run_raw h ''systemctl'' [''is-active'', service] None;
        enabled \<leftarrow> run_raw h ''systemctl'' [''is-enabled'', service] None;
        loaded \<leftarrow> read_file h ''/sys/kernel/kexec_crash_loaded'';
        crash_size \<leftarrow> read_file h ''/sys/kernel/kexec_crash_size'';
        version \<leftarrow> read_file h ''/proc/version'';
        ret (JObj
          [(''installed'', JBool (installed \<or> kexec)), (''service_name'', JStr service),
           (''service_active'', JStr (service_word active)), (''service_enabled'', JStr (service_word enabled)),
           (''crash_kernel_loaded'', JBool (map_option trim loaded = Some ''1'')),
           (''crash_kernel_reserved_bytes'',
              JInt (int (unwrap_or 0 (Option.bind crash_size (\<lambda>s. parse_uint U64_MAX (trim s)))))),
           (''kernel_version'', JStr (case version of None \<Rightarrow> [] | Some s \<Rightarrow>
              (case drop 2 (split_whitespace s) of [] \<Rightarrow> [] | w # _ \<Rightarrow> w))),
           (''kdump_tools'', JBool installed), (''kexec_tools'', JBool kexec)]) }) }"

definition crashkernel_of :: "string \<Rightarrow> string" where
  "crashkernel_of cmdline =
     (case List.find (starts_with ''crashkernel='') (split_whitespace cmdline) of
        None \<Rightarrow> [] | Some s \<Rightarrow> unwrap_or s (strip_prefix ''crashkernel='' s))"

definition read_crashkernel_param :: "'w agent_host \<Rightarrow> ('w, json) act" where
  "read_crashkernel_param h = do {
     f \<leftarrow> read_file h ''/proc/cmdline'';
     (let param = crashkernel_of (unwrap_or [] f)
      in ret (JObj [(''param'', JStr param), (''configured'', JBool (param \<noteq> []))])) }"

section \<open>Dumps\<close>

text \<open>What a directory entry itself is (its metadata without following a link: a directory, its
  size, its time), and the calendar text of the \<open>chrono\<close> crate.\<close>

record 'w dump_fs =
  df_entry :: "'w \<Rightarrow> string \<Rightarrow> (bool \<times> nat \<times> nat option) option"
  df_format :: "nat \<Rightarrow> string option"

definition entry_meta :: "'w dump_fs \<Rightarrow> string \<Rightarrow> ('w, (bool \<times> nat \<times> nat option) option) act" where
  "entry_meta fs path = State (\<lambda>w. (df_entry fs (w_os w) path, w))"

definition file_timestamp :: "'w dump_fs \<Rightarrow> nat option \<Rightarrow> string" where
  "file_timestamp fs t = (case t of None \<Rightarrow> [] | Some s \<Rightarrow> unwrap_or (show_nat s) (df_format fs s))"

record crash_dir =
  cd_files :: "json list"
  cd_total :: nat
  cd_vmcore :: bool
  cd_dmesg :: bool

fun scan_entries ::
  "'w agent_host \<Rightarrow> 'w dump_fs \<Rightarrow> string \<Rightarrow> string list \<Rightarrow> crash_dir \<Rightarrow> ('w, crash_dir) act" where
  "scan_entries h fs dir [] info = ret info"
| "scan_entries h fs dir (name # names) info = do {
     m \<leftarrow> entry_meta fs (dir @ ''/'' @ name);
     scan_entries h fs dir names
       (case m of
          None \<Rightarrow> info
        | Some (_, len, t) \<Rightarrow>
            info\<lparr>cd_total := (cd_total info + len) mod 2 ^ 64,
                 cd_vmcore := cd_vmcore info \<or> starts_with ''vmcore'' name \<or> ends_with ''.core'' name,
                 cd_dmesg := cd_dmesg info \<or> contains_str ''dmesg'' name \<or> ends_with ''.txt'' name \<or> ends_with ''.log'' name,
                 cd_files := cd_files info @ [JObj
                   [(''name'', JStr name), (''path'', JStr (dir @ ''/'' @ name)), (''size_bytes'', JInt (int len)),
                    (''timestamp'', JStr (file_timestamp fs t))]]\<rparr>) }"

definition scan_crash_dir :: "'w agent_host \<Rightarrow> 'w dump_fs \<Rightarrow> string \<Rightarrow> ('w, crash_dir) act" where
  "scan_crash_dir h fs dir = do {
     names \<leftarrow> read_dir h dir;
     scan_entries h fs dir (unwrap_or [] names) \<lparr>cd_files = [], cd_total = 0, cd_vmcore = False, cd_dmesg = False\<rparr> }"

definition is_dump_name :: "string \<Rightarrow> bool" where
  "is_dump_name name \<longleftrightarrow>
     ends_with ''.crash'' name \<or> starts_with ''vmcore'' name \<or> starts_with ''dump.'' name \<or> ends_with ''.dmesg'' name"

definition dump_row ::
  "'w agent_host \<Rightarrow> 'w dump_fs \<Rightarrow> string \<Rightarrow> string \<Rightarrow> ('w, (string \<times> json) option) act" where
  "dump_row h fs dir name =
     (let path = dir @ ''/'' @ name
      in do {
        m \<leftarrow> entry_meta fs path;
        case m of
          None \<Rightarrow> ret None
        | Some (is_dir, len, t) \<Rightarrow>
            (let ts = file_timestamp fs t
             in if is_dir then do {
                  info \<leftarrow> scan_crash_dir h fs path;
                  ret (Some (ts, JObj
                    [(''name'', JStr name), (''path'', JStr path), (''type'', JStr ''directory''),
                     (''size_bytes'', JInt (int (cd_total info))), (''files'', JArr (cd_files info)),
                     (''has_vmcore'', JBool (cd_vmcore info)), (''has_dmesg'', JBool (cd_dmesg info)),
                     (''timestamp'', JStr ts)])) }
                else if is_dump_name name then
                  ret (Some (ts, JObj
                    [(''name'', JStr name), (''path'', JStr path), (''type'', JStr ''file''),
                     (''size_bytes'', JInt (int len)), (''has_vmcore'', JBool (starts_with ''vmcore'' name)),
                     (''has_dmesg'', JBool (ends_with ''.dmesg'' name \<or> ends_with ''.txt'' name)),
                     (''timestamp'', JStr ts)]))
                else ret None) })"

definition dumps_in :: "'w agent_host \<Rightarrow> 'w dump_fs \<Rightarrow> string \<Rightarrow> ('w, (string \<times> json) list) act" where
  "dumps_in h fs dir = do {
     names \<leftarrow> read_dir h dir;
     rows \<leftarrow> act_map (dump_row h fs dir) (unwrap_or [] names);
     ret (List.map_filter (\<lambda>r. r) rows) }"

text \<open>Newest first; equal times keep their order.\<close>

definition newest_first :: "(string \<times> json) list \<Rightarrow> json list" where
  "newest_first rows = map snd (rev (sort_key fst (rev rows)))"

definition list_crash_dumps :: "'w agent_host \<Rightarrow> 'w dump_fs \<Rightarrow> ('w, json) act" where
  "list_crash_dumps h fs = do {
     a \<leftarrow> dumps_in h fs ''/var/crash'';
     b \<leftarrow> dumps_in h fs ''/var/lib/kdump'';
     ret (JArr (newest_first (a @ b))) }"

definition kdump_read_capped :: "'w agent_host \<Rightarrow> string \<Rightarrow> string \<Rightarrow> string \<Rightarrow> ('w, string option) act" where
  "kdump_read_capped h user password path = as_reader h user password [''head'', ''-c'', ''65536'', ''--'', path]"

definition is_valid_dump_path :: "'w agent_host \<Rightarrow> string \<Rightarrow> ('w, bool) act" where
  "is_valid_dump_path h path = do {
     c \<leftarrow> canonical h path;
     ret (case c of
            Inl _ \<Rightarrow> False
          | Inr s \<Rightarrow> starts_with ''/var/crash'' s \<or> starts_with ''/var/lib/kdump'' s) }"

definition dump_content :: "string \<Rightarrow> nat \<Rightarrow> string option \<Rightarrow> json" where
  "dump_content path len content =
     (case content of
        Some c \<Rightarrow> JObj
          [(''ok'', JBool True), (''path'', JStr path), (''size_bytes'', JInt (int len)), (''type'', JStr ''text''),
           (''content'', JStr c)]
      | None \<Rightarrow> JObj
          [(''ok'', JBool False), (''restricted'', JBool True), (''reason'', JStr ''insufficient-perms''),
           (''error'', JStr (''cannot read this crash dump '' @ em_dash @ '' enable superuser mode''))])"

definition read_dump_details :: "'w agent_host \<Rightarrow> string \<Rightarrow> string \<Rightarrow> string \<Rightarrow> ('w, json) act" where
  "read_dump_details h path user password = do {
     valid \<leftarrow> is_valid_dump_path h path;
     if \<not> valid then ret (not_ok ''invalid path'')
     else do {
       m \<leftarrow> metadata h path;
       (let len = (case m of None \<Rightarrow> 0 | Some (n, _) \<Rightarrow> n)
        in if contains_str ''vmcore'' path then
             ret (JObj
               [(''ok'', JBool True), (''path'', JStr path), (''size_bytes'', JInt (int len)), (''type'', JStr ''vmcore''),
                (''note'', JStr (''Use '' @ [SQ] @ ''crash'' @ [SQ] @ '' tool for full analysis''))])
           else do {
             content \<leftarrow> kdump_read_capped h user password path;
             ret (dump_content path len content) }) } }"

definition kdump_find_dmesg :: "'w agent_host \<Rightarrow> string \<Rightarrow> string \<Rightarrow> string \<Rightarrow> ('w, string list) act" where
  "kdump_find_dmesg h user password dir = do {
     out \<leftarrow> as_reader h user password
       [''find'', dir, ''-maxdepth'', ''1'', ''-type'', ''f'', ''-iname'', ''*dmesg*''];
     ret (filter (\<lambda>l. l \<noteq> []) (lines (unwrap_or [] out))) }"

definition dmesg_candidates :: "string \<Rightarrow> string list \<Rightarrow> string list" where
  "dmesg_candidates dir found =
     foldl (\<lambda>cs f. if f \<in> set cs then cs else cs @ [f])
       (map (\<lambda>n. dir @ ''/'' @ n) [''dmesg.txt'', ''dmesg.log'', ''vmcore-dmesg.txt'']) found"

fun first_readable :: "'w agent_host \<Rightarrow> string \<Rightarrow> string \<Rightarrow> string list \<Rightarrow> ('w, json) act" where
  "first_readable h user password [] =
     ret (not_ok ''no readable dmesg log in dump directory (enable superuser mode if you lack access)'')"
| "first_readable h user password (path # paths) = do {
     content \<leftarrow> kdump_read_capped h user password path;
     case content of
       None \<Rightarrow> first_readable h user password paths
     | Some c \<Rightarrow>
         if c = [] then first_readable h user password paths
         else ret (JObj [(''ok'', JBool True), (''path'', JStr path), (''content'', JStr c)]) }"

definition read_dmesg_log :: "'w agent_host \<Rightarrow> string \<Rightarrow> string \<Rightarrow> string \<Rightarrow> ('w, json) act" where
  "read_dmesg_log h dir_path user password = do {
     valid \<leftarrow> is_valid_dump_path h dir_path;
     if \<not> valid then ret (not_ok ''invalid path'')
     else (let dir = trim_end_matches (CHR ''/'') dir_path
           in do {
             found \<leftarrow> kdump_find_dmesg h user password dir;
             first_readable h user password (dmesg_candidates dir found) }) }"

section \<open>The handler\<close>

definition kdump_overview :: "'w agent_host \<Rightarrow> 'w dump_fs \<Rightarrow> ('w, json) act" where
  "kdump_overview h fs = do {
     status \<leftarrow> collect_kdump_status h;
     dumps \<leftarrow> list_crash_dumps h fs;
     config \<leftarrow> read_kdump_config h;
     crashkernel \<leftarrow> read_crashkernel_param h;
     ret (JObj [(''status'', status), (''crashkernel'', crashkernel), (''config'', config), (''dumps'', dumps)]) }"

definition kdump_answer :: "'w agent_host \<Rightarrow> 'w dump_fs \<Rightarrow> open_options \<Rightarrow> ('w, json) act" where
  "kdump_answer h fs o' =
     (let user = opt_str o' ''_user''; password = opt_str o' ''password'';
          action = map_str (extra o') ''action''; path = opt_str o' ''path''
      in if action = Some ''read_dump'' then read_dump_details h path user password
         else if action = Some ''read_dmesg'' then read_dmesg_log h path user password
         else if action = Some ''set_config'' then
           admin_only (options_json o') (kdump_set_config h o' user password)
         else kdump_overview h fs)"

definition kdump_info :: "'w agent_host \<Rightarrow> 'w dump_fs \<Rightarrow> 'w agent_state handler" where
  "kdump_info h fs = answering ''kdump.info'' (kdump_answer h fs)"

section \<open>What it may run\<close>

definition dump_reader :: "string list \<Rightarrow> bool" where
  "dump_reader args \<longleftrightarrow>
     (\<exists>path. args = [''head'', ''-c'', ''65536'', ''--'', path]) \<or>
     (\<exists>dir. args = [''find'', dir, ''-maxdepth'', ''1'', ''-type'', ''f'', ''-iname'', ''*dmesg*''])"

definition kdump_files :: "string list" where
  "kdump_files = [''/etc/default/kdump-tools'', ''/etc/kdump.conf'']"

definition kdump_sudo :: "(string \<Rightarrow> string) \<Rightarrow> string list \<Rightarrow> bool" where
  "kdump_sudo b64 args \<longleftrightarrow>
     dump_reader args \<or>
     args \<in> {[''kdumpctl'', ''reload''], [''kdump-config'', ''test''], [''systemctl'', ''restart'', ''kdump''],
             [''systemctl'', ''restart'', ''kdump-tools'']} \<or>
     (\<exists>path txt. args = [''sh'', ''-c'', write_script b64 [''tee'', path] txt] \<and> path \<in> set kdump_files)"

definition kdump_plain :: "string list \<Rightarrow> bool" where
  "kdump_plain args \<longleftrightarrow>
     (\<exists>op service. args = [''systemctl'', op, service] \<and> op \<in> {''is-active'', ''is-enabled''} \<and>
        service \<in> {''kdump'', ''kdump-tools''})"

abbreviation kdump_confined :: "'w agent_host \<Rightarrow> string \<Rightarrow> string \<Rightarrow> effect \<Rightarrow> bool" where
  "kdump_confined h \<equiv> confined (kdump_sudo (ah_b64 h)) dump_reader kdump_plain"

lemma kdump_sudo_intros:
  "dump_reader args \<Longrightarrow> kdump_sudo b64 args" "kdump_sudo b64 [''kdumpctl'', ''reload'']"
  "kdump_sudo b64 [''kdump-config'', ''test'']"
  by (auto simp: kdump_sudo_def)

lemma dump_reader_intros:
  "dump_reader [''head'', ''-c'', ''65536'', ''--'', path]"
  "dump_reader [''find'', dir, ''-maxdepth'', ''1'', ''-type'', ''f'', ''-iname'', ''*dmesg*'']"
  by (auto simp: dump_reader_def)

lemma emits_dump_reader:
  assumes "dump_reader args" and "args \<noteq> []"
  shows "emits (kdump_confined h user password) (as_reader h user password args)"
  using assms by (intro emits_as_reader confined_sudo confined_user kdump_sudo_intros) simp_all

lemma emits_read_capped: "emits (kdump_confined h user password) (kdump_read_capped h user password path)"
  unfolding kdump_read_capped_def by (intro emits_dump_reader dump_reader_intros) simp

lemma emits_first_readable: "emits (kdump_confined h user password) (first_readable h user password paths)"
  by (induction paths) (auto intro!: emits_ret emits_bind emits_read_capped emits_option emits_if)

lemma emits_dump_reads:
  "emits (kdump_confined h user password) (read_dump_details h path user password)"
  "emits (kdump_confined h user password) (read_dmesg_log h path user password)"
  unfolding read_dump_details_def read_dmesg_log_def is_valid_dump_path_def kdump_find_dmesg_def Let_def
  by (intro emits_bind emits_if emits_ret emits_reads emits_read_capped emits_first_readable emits_dump_reader
        dump_reader_intros; simp)+

text \<open>The file and the service a change reaches are the ones found on the host.\<close>

lemma emits_bind_target:
  assumes "\<And>t. t = None \<or> t \<in> {Some (''/etc/default/kdump-tools'', False, ''kdump-tools''), Some (''/etc/kdump.conf'', True, ''kdump'')} \<Longrightarrow>
      emits P (k t)"
  shows "emits P (kdump_config_target h \<bind> k)"
proof (rule emits_bind_result [where R = "\<lambda>t. t = None \<or>
      t \<in> {Some (''/etc/default/kdump-tools'', False, ''kdump-tools''), Some (''/etc/kdump.conf'', True, ''kdump'')}"])
  show "emits P (kdump_config_target h)"
    unfolding kdump_config_target_def by (intro emits_bind emits_if emits_reads emits_ret)
qed (simp add: kdump_config_target_def run_simps metadata_def, rule assms)

lemma emits_apply_kdump:
  "service \<in> {''kdump'', ''kdump-tools''} \<Longrightarrow>
   emits (kdump_confined h user password) (apply_kdump h conf_format service user password)"
  unfolding apply_kdump_def
  by (intro emits_if emits_bind emits_ret emits_sudo confined_sudo) (auto simp: kdump_sudo_def)

lemma emits_kdump_set_config: "emits (kdump_confined h user password) (kdump_set_config h o' user password)"
proof -
  have tee: "emits (kdump_confined h user password) (sudo_write h user password [''tee'', path] c)"
    if "path \<in> set kdump_files" for path c
    using that by (intro emits_sudo_write confined_sudo) (auto simp: kdump_sudo_def)
  show ?thesis
    unfolding kdump_set_config_def Let_def
    by (intro emits_if emits_ret emits_bind_target emits_option emits_prod emits_bind emits_reads tee
          emits_apply_kdump emits_record_audit confined_audit)
       (auto simp: kdump_files_def)
qed

lemma emits_scan_entries: "emits Q (scan_entries h fs dir names info)"
  by (induction names arbitrary: info) (auto simp: entry_meta_def intro!: emits_ret emits_bind emits_pure)

lemma emits_list_crash_dumps: "emits Q (list_crash_dumps h fs)"
  unfolding list_crash_dumps_def dumps_in_def dump_row_def scan_crash_dir_def entry_meta_def Let_def
  by (intro emits_bind emits_ret emits_reads emits_act_map emits_pure emits_option emits_prod emits_if emits_scan_entries)

lemma emits_kdump_overview: "emits (queries kdump_plain) (kdump_overview h fs)"
proof -
  have "emits (queries kdump_plain) (collect_kdump_status h)"
    unfolding collect_kdump_status_def Let_def
    by (intro emits_bind emits_reads emits_if emits_ret emits_run_raw queries_plain) (auto simp: kdump_plain_def)
  moreover have "emits (queries kdump_plain) (read_kdump_config h)"
    unfolding read_kdump_config_def legacy_kdump_config_def kdump_config_target_def
    by (intro emits_bind emits_reads emits_if emits_ret emits_option emits_prod)
  ultimately show ?thesis
    unfolding kdump_overview_def read_crashkernel_param_def Let_def
    by (intro emits_bind emits_ret emits_reads emits_list_crash_dumps)
qed

interpretation kdump_info: bounded_handler "kdump_info h fs" "kdump_confined h"
  unfolding kdump_info_def kdump_answer_def Let_def
  by (intro bounded_answering emits_if emits_dump_reads emits_admin_only emits_kdump_set_config
        emits_queries [OF emits_kdump_overview])

section \<open>What a change does to the settings\<close>

lemma setting_of_blank [simp]: "setting_of cf [] = None"
  by (simp add: setting_of_def)

lemma setting_of_strip_cr [simp]: "setting_of cf (strip_cr l) = setting_of cf l"
  by (simp add: setting_of_def)

lemma parse_pieces: "parse_kdump_settings cf s = List.map_filter (setting_of cf) (split_on NL s)"
proof -
  obtain front l where ps: "split_on NL s = front @ [l]" by (metis append_butlast_last_id split_on_nonempty)
  have "List.map_filter (setting_of cf) (map strip_cr front) = List.map_filter (setting_of cf) front"
    by (simp add: map_filter_map)
  then show ?thesis
    by (simp add: parse_kdump_settings_def lines_def Let_def ps map_filter_append)
qed

lemma parse_joined:
  assumes "\<forall>l \<in> set ls. NL \<notin> set l" and "ls \<noteq> []"
  shows "parse_kdump_settings cf (join [NL] ls @ (if b then [NL] else [])) = List.map_filter (setting_of cf) ls"
  using split_on_join [OF assms] split_on_append [of NL "join [NL] ls" "[]"]
  by (auto simp: parse_pieces map_filter_append List.map_filter_def [of _ "[[]]"])

text \<open>A line that carries a setting is recognised by its key.\<close>

lemma starts_with_hash: "trim l \<noteq> [] \<Longrightarrow> starts_with ''#'' (trim_start l) = starts_with ''#'' (trim l)"
  using trim_start_split [of l] by (cases "trim l") (auto simp: starts_with_def)

lemma setting_line_key:
  assumes "setting_of cf l = Some (k, v)"
  shows "line_key cf l = Some k"
proof -
  have t: "trim l \<noteq> []" "\<not> starts_with ''#'' (trim_start l)"
    using assms starts_with_hash [of l] by (auto simp: setting_of_def Let_def split: if_splits)
  have key: "is_kdump_key k"
    using assms by (auto simp: setting_of_def Let_def split: if_splits option.splits)
  then have ne: "k \<noteq> []" by (simp add: is_kdump_key_def)
  show ?thesis
  proof (cases cf)
    case True
    have "\<exists>ws. split_whitespace (trim l) = k # ws"
    proof (cases "split_ws_once (trim l)")
      case None
      with True assms t single_word [of "trim l"] show ?thesis
        by (simp add: setting_of_def Let_def split: if_splits)
    next
      case (Some kv)
      then obtain k0 v0 where kv: "split_ws_once (trim l) = Some (k0, v0)" "k = trim k0"
        using True assms t by (cases kv) (auto simp: setting_of_def Let_def split: if_splits)
      with ne first_word_ws_once [OF kv(1)] show ?thesis by simp
    qed
    with True t(2) show ?thesis by (auto simp: line_key_def Let_def split_whitespace_trim_start)
  next
    case False
    then obtain k0 v0 where kv: "split_once CHR ''='' (trim l) = Some (k0, v0)" "k = trim k0"
      using assms t by (auto simp: setting_of_def Let_def split: if_splits option.splits)
    obtain ws where "trim_start l = trim l @ ws" using trim_start_split by blast
    with False t(2) kv split_once_append [OF kv(1), of ws] show ?thesis by (simp add: line_key_def Let_def)
  qed
qed

text \<open>A written setting is read back.\<close>

definition plain_value :: "bool \<Rightarrow> string \<Rightarrow> bool" where
  "plain_value cf v \<longleftrightarrow> trim v = v \<and> (cf \<or> trim_matches DQ v = v)"

lemma kdump_key_chars:
  assumes "is_kdump_key k"
  shows "plain_word k" and "CHR ''='' \<notin> set k" and "NL \<notin> set k" and "\<not> starts_with ''#'' k"
proof -
  have c: "is_ascii c \<and> \<not> is_ws_char [c] \<and> c \<noteq> CHR ''='' \<and> c \<noteq> NL \<and> c \<noteq> CHR ''#''" if "c \<in> set k" for c
    using assms that
    by (auto simp: is_kdump_key_def list_all_iff is_ascii_def is_ws_char_single is_ascii_alphanumeric_def
        is_ascii_digit_def is_ascii_upper_def is_ascii_lower_def byte_def dest!: bspec)
  show "plain_word k" using assms c by (auto simp: plain_word_def is_kdump_key_def list_all_iff)
  show "CHR ''='' \<notin> set k" "NL \<notin> set k" using c by blast+
  show "\<not> starts_with ''#'' k" using c by (cases k) (auto simp: starts_with_def)
qed

lemma setting_of_line:
  assumes "is_kdump_key k" and "plain_value cf v"
  shows "setting_of cf (setting_line cf k v) = Some (k, v)"
proof -
  note k = kdump_key_chars [OF assms(1)]
  obtain c cs where c: "k = c # cs" "is_ascii c" "\<not> is_ws_char [c]" "c \<noteq> CHR ''#''"
    using k(1,4) by (cases k) (auto simp: plain_word_def starts_with_def split: if_splits)
  have ws: "is_ascii CHR '' ''" "is_ws_char '' ''" "is_ascii CHR ''=''" "\<not> is_ws_char ''=''"
    by (simp_all add: is_ascii_def is_ws_char_single byte_def)
  have v: "trim v = v" "trim_end v = v" using assms(2) trim_end_of_trimmed by (auto simp: plain_value_def)
  have ch: "chars_of k = map (\<lambda>c. [c]) k" using k(1) by (simp add: chars_of_ascii plain_word_ascii)
  have solid: "\<forall>x \<in> set k. \<not> is_ws_char [x]" using k(1) by (auto simp: plain_word_def list_all_iff)
  have tw: "takeWhile (\<lambda>ch. \<not> is_ws_char ch) (chars_of k) = chars_of k"
    using solid by (auto simp: takeWhile_eq_all_conv ch)
  have dw: "dropWhile (\<lambda>ch. \<not> is_ws_char ch) (chars_of k) = []"
    using solid by (auto simp: dropWhile_eq_Nil_conv ch)
  show ?thesis
  proof (cases cf)
    case True
    have line: "trim (k @ CHR '' '' # v) = (if v = [] then k else k @ CHR '' '' # v)"
      using c ws(1,2) v(2) plain_word_trim [OF k(1)] trim_end_blank [of v k]
      by (auto simp: trim_def trim_start_Cons)
    have none: "split_ws_once k = None" using dw by (simp add: split_ws_once_def Let_def del: dropWhile_eq_Nil_conv)
    have some: "split_ws_once (k @ CHR '' '' # v) = Some (k, v)"
      using ws(1,2) tw dw solid by (simp add: split_ws_once_def Let_def ch chars_of_append_ascii takeWhile_append dropWhile_append)
    have "\<not> starts_with ''#'' (k @ x)" for x using c by (simp add: starts_with_def)
    from this [of "[]"] this [of "CHR '' '' # v"] show ?thesis
      using True assms(1) line none some c(1) v plain_word_trim [OF k(1)]
      by (auto simp: setting_of_def setting_line_def)
  next
    case False
    have "trim (setting_line cf k v) = k @ CHR ''='' # v"
      using False c trim_end_append [OF ws(3,4), of k v] v(2)
      by (simp add: setting_line_def trim_def trim_start_Cons)
    moreover have "split_once CHR ''='' (k @ CHR ''='' # v) = Some (k, v)" using k(2) by (simp add: split_once_Some_iff)
    ultimately show ?thesis
      using False assms plain_word_trim [OF k(1)] v c by (simp add: setting_of_def plain_value_def starts_with_def)
  qed
qed


lemma parse_upsert:
  assumes "is_kdump_key key" and "NL \<notin> set v"
  shows "parse_kdump_settings cf (upsert_setting content key v cf) =
    List.map_filter (setting_of cf)
      (map (\<lambda>l. if line_key cf l = Some key then setting_line cf key v else l) (lines content)
       @ (if list_ex (\<lambda>l. line_key cf l = Some key) (lines content) then [] else [setting_line cf key v]))"
proof -
  have "NL \<notin> set (setting_line cf key v)"
    using assms(2) kdump_key_chars(3) [OF assms(1)] by (simp add: setting_line_def)
  then show ?thesis
    unfolding upsert_setting_def Let_def
    by (subst parse_joined) (auto simp: list_ex_iff dest: lines_NL_free)
qed

text \<open>
  Changing a setting of \<open>kdump\<close> changes that setting and nothing else, in both formats of the
  file: read back, every line of the key has the new value, there is one, and the settings of
  the other keys are the old ones in the old order; for a value the reader does not strip (no
  blanks around it and, in the shell format, no double quotes).
\<close>

theorem upsert_changes_one_setting:
  assumes "is_kdump_key key" and "NL \<notin> set v" and "plain_value cf v"
  shows "set (filter (\<lambda>kv. fst kv = key) (parse_kdump_settings cf (upsert_setting content key v cf))) = {(key, v)} \<and>
    filter (\<lambda>kv. fst kv \<noteq> key) (parse_kdump_settings cf (upsert_setting content key v cf)) =
    filter (\<lambda>kv. fst kv \<noteq> key) (parse_kdump_settings cf content)"
proof -
  let ?mine = "\<lambda>l. line_key cf l = Some key"
  let ?new = "\<lambda>l. if ?mine l then setting_line cf key v else l"
  have own: "setting_of cf (setting_line cf key v) = Some (key, v)" using assms(1,3) by (rule setting_of_line)
  have key: "?mine l" if "setting_of cf l = Some (key, w)" for l w using setting_line_key [OF that] .
  have rows: "filter (\<lambda>kv. fst kv \<noteq> key) (List.map_filter (setting_of cf) (map ?new ls)) =
      filter (\<lambda>kv. fst kv \<noteq> key) (List.map_filter (setting_of cf) ls)" for ls
    by (induction ls) (auto simp: map_filter_Cons own dest: setting_line_key split: option.split)
  have vals: "w = v" if "(key, w) \<in> set (List.map_filter (setting_of cf) (map ?new ls))" for w ls
    using that key by (induction ls) (auto simp: map_filter_Cons own split: option.splits if_splits)
  have found: "(key, v) \<in> set (List.map_filter (setting_of cf) (map ?new ls))" if "list_ex ?mine ls" for ls
    using that by (induction ls) (auto simp: map_filter_Cons own split: option.split)
  have one: "List.map_filter (setting_of cf) [setting_line cf key v] = [(key, v)]"
    by (simp add: List.map_filter_def own)
  have old: "parse_kdump_settings cf content = List.map_filter (setting_of cf) (lines content)"
    by (simp add: parse_kdump_settings_def)
  note upsert = parse_upsert [OF assms(1,2), of cf content]
  have mine: "set (filter (\<lambda>kv. fst kv = key) (parse_kdump_settings cf (upsert_setting content key v cf))) = {(key, v)}"
    unfolding upsert map_filter_append using found [of "lines content"] vals [of _ "lines content"]
    by (cases "list_ex ?mine (lines content)") (auto simp: one own)
  have others: "filter (\<lambda>kv. fst kv \<noteq> key) (parse_kdump_settings cf (upsert_setting content key v cf)) =
      filter (\<lambda>kv. fst kv \<noteq> key) (parse_kdump_settings cf content)"
    unfolding upsert old map_filter_append filter_append rows
    by (cases "list_ex ?mine (lines content)") (simp_all add: own)
  from mine others show ?thesis ..
qed

theorem upsert_changes_one_setting_witness:
  "set (filter (\<lambda>kv. fst kv = ''K'') (parse_kdump_settings False (upsert_setting ''K=1'' ''K'' ''2'' False))) = {(''K'', ''2'')}"
  by (rule upsert_changes_one_setting [THEN conjunct1])
     (simp_all add: is_kdump_key_def is_ascii_alphanumeric_def is_ascii_upper_def byte_def plain_value_def trim_def
       trim_start_def trim_end_def is_ascii_def is_ws_char_single trim_matches_def trim_end_matches_def
       trim_start_matches_def)

end
