(* ===== verification/Dns.thy ===== *)
theory Dns
  imports Handlers TextFacts
begin

text \<open>
  \<open>dns.info\<close>, \<open>dns.manage\<close>, \<open>dns.lookup\<close>, \<open>dns.resolved.info\<close> and \<open>dns.resolved.manage\<close>
  (\<open>agent/src/handlers/dns.rs\<close>).
\<close>

section \<open>Reading the resolver\<close>

definition resolv_line :: "string list \<times> string list \<Rightarrow> string \<Rightarrow> string list \<times> string list" where
  "resolv_line acc raw =
     (let line = trim raw; servers = fst acc; search = snd acc
      in if starts_with ''#'' line \<or> line = [] then acc
         else (case strip_prefix ''nameserver'' line of
                 Some rest \<Rightarrow> (if trim rest = [] then acc else (servers @ [trim rest], search))
               | None \<Rightarrow>
           (case strip_prefix ''search'' line of
                 Some rest \<Rightarrow> (servers, search @ split_whitespace rest)
               | None \<Rightarrow>
           (case strip_prefix ''domain'' line of
                 Some rest \<Rightarrow>
                   (if trim rest \<noteq> [] \<and> trim rest \<notin> set search then (servers, search @ [trim rest]) else acc)
               | None \<Rightarrow> acc))))"

definition parse_resolv_conf :: "string \<Rightarrow> string list \<times> string list" where
  "parse_resolv_conf content = foldl resolv_line ([], []) (lines content)"

definition jstrs :: "string list \<Rightarrow> json" where
  "jstrs xs = JArr (map JStr xs)"

definition resolved_unit :: string where
  "resolved_unit = ''systemd-resolved''"

definition get_dns_info :: "'w agent_host \<Rightarrow> ('w, json) act" where
  "get_dns_info h = do {
     r \<leftarrow> read_file h ''/etc/resolv.conf'';
     hs \<leftarrow> read_file h ''/etc/hosts'';
     active \<leftarrow> run h [''systemctl'', ''is-active'', resolved_unit];
     (let resolv = unwrap_or [] r; p = parse_resolv_conf resolv
      in ret (JObj
        [(''resolv_conf'', JStr resolv), (''hosts'', JStr (unwrap_or [] hs)), (''servers'', jstrs (fst p)),
         (''search'', jstrs (snd p)), (''resolved_active'', JBool (trim active = ''active''))])) }"

definition dns_info :: "'w agent_host \<Rightarrow> 'w agent_state handler" where
  "dns_info h = answering ''dns.info'' (\<lambda>_. get_dns_info h)"

section \<open>Changing the resolver\<close>

definition try_flush :: "'w agent_host \<Rightarrow> string \<Rightarrow> string \<Rightarrow> string \<Rightarrow> string list \<Rightarrow> ('w, bool) act" where
  "try_flush h tool user password args = do {
     there \<leftarrow> installed h tool;
     if there then do { r \<leftarrow> sudo h user password args; ret (bool_field False r ''ok'') } else ret False }"

definition flush_dns_cache :: "'w agent_host \<Rightarrow> string \<Rightarrow> string \<Rightarrow> ('w, json) act" where
  "flush_dns_cache h user password = do {
     a \<leftarrow> try_flush h ''resolvectl'' user password [''resolvectl'', ''flush-caches''];
     if a then ret ok_json
     else do {
       b \<leftarrow> try_flush h ''nscd'' user password [''systemctl'', ''try-restart'', ''nscd''];
       ret (if b then ok_json else not_ok ''No DNS cache manager found (tried resolvectl, nscd)'') } }"

definition dns_change :: "'w agent_host \<Rightarrow> open_options \<Rightarrow> ('w, json) act" where
  "dns_change h o' =
     (let action = opt_str o' ''action''; user = opt_str o' ''_user''; password = opt_str o' ''password''
      in if action = ''set_resolv_conf'' then
           sudo_write h user password [''tee'', ''/etc/resolv.conf''] (opt_str o' ''content'')
         else if action = ''set_hosts'' then
           sudo_write h user password [''tee'', ''/etc/hosts''] (opt_str o' ''content'')
         else if action = ''flush_cache'' then flush_dns_cache h user password
         else ret (not_ok (''unknown action: '' @ action)))"

definition dns_manage :: "'w agent_host \<Rightarrow> 'w agent_state handler" where
  "dns_manage h = answering ''dns.manage'' (\<lambda>o'. admin_only (options_json o') (dns_change h o'))"

interpretation dns_manage: admin_handler "dns_manage h"
  unfolding dns_manage_def by (rule answering_admin.admin_handler_axioms)

section \<open>Looking up names\<close>

definition is_safe_name :: "string \<Rightarrow> bool" where
  "is_safe_name name \<longleftrightarrow>
     name \<noteq> [] \<and> length name \<le> 253 \<and> list_all (\<lambda>c. is_ascii_alphanumeric c \<or> c \<in> set ''.-_:'') name"

definition ascii_upper :: "char \<Rightarrow> char" where
  "ascii_upper c = (if is_ascii_lower c then char_of (byte c - 32) else c)"

definition record_types :: "string list" where
  "record_types = [''A'', ''AAAA'', ''MX'', ''NS'', ''TXT'', ''CNAME'', ''SOA'', ''PTR'', ''SRV'']"

definition sanitise_qtype :: "string \<Rightarrow> string" where
  "sanitise_qtype t = (if map ascii_upper t \<in> set record_types then map ascii_upper t else ''A'')"

definition lookup_answer :: "bool \<Rightarrow> string \<Rightarrow> json" where
  "lookup_answer ok out = JObj [(''ok'', JBool ok), (''output'', JStr out)]"

definition lookup_late :: json where
  "lookup_late = lookup_answer False ''Lookup timed out (8s). The host may not have external DNS access.''"

text \<open>The tools in the order they are tried.\<close>

definition lookup_tools :: "string \<Rightarrow> string \<Rightarrow> (string \<times> string list) list" where
  "lookup_tools name qtype =
     [(''dig'', [''dig'', ''+short'', ''+time=3'', ''+tries=1'', name, qtype]),
      (''host'', [''host'', ''-t'', qtype, name]),
      (''resolvectl'', [''resolvectl'', ''query'', name]),
      (''nslookup'', [''nslookup'', name])]"

fun try_lookups :: "'w agent_host \<Rightarrow> instant \<Rightarrow> (string \<times> string list) list \<Rightarrow> ('w, json) act" where
  "try_lookups h deadline [] =
     ret (lookup_answer False ''No DNS lookup tool found (dig, host, resolvectl, nslookup)'')"
| "try_lookups h deadline ((tool, args) # rest) =
     by_deadline h deadline lookup_late (installed h tool) (\<lambda>there.
       if there then
         by_deadline h deadline lookup_late (run h args) (\<lambda>out.
           ret (lookup_answer True
             (if tool = ''dig'' \<and> trim out = [] then ''(no records)'' else trim out)))
       else try_lookups h deadline rest)"

definition do_lookup :: "'w agent_host \<Rightarrow> string \<Rightarrow> string \<Rightarrow> ('w, json) act" where
  "do_lookup h name qtype = do {
     t \<leftarrow> read_clock h;
     try_lookups h (t + secs 8) (lookup_tools name (sanitise_qtype qtype)) }"

definition dns_lookup_answer :: "'w agent_host \<Rightarrow> open_options \<Rightarrow> ('w, json) act" where
  "dns_lookup_answer h o' =
     (let name = trim (opt_str o' ''name'');
          qtype = trim (unwrap_or ''A'' (map_str (extra o') ''qtype''))
      in if name = [] then ret (lookup_answer False ''No hostname specified'')
         else if \<not> is_safe_name name then ret (lookup_answer False ''Invalid hostname'')
         else do_lookup h name qtype)"

definition dns_lookup :: "'w agent_host \<Rightarrow> 'w agent_state handler" where
  "dns_lookup h = answering ''dns.lookup'' (dns_lookup_answer h)"

section \<open>systemd-resolved: its status\<close>

record protocols =
  pr_dnssec :: string
  pr_dot :: string
  pr_llmnr :: string
  pr_mdns :: string

definition protocol_token :: "protocols \<Rightarrow> string \<Rightarrow> protocols" where
  "protocol_token p token =
     (case strip_prefix ''DNSSEC='' token of Some v \<Rightarrow> p\<lparr>pr_dnssec := hd (split_on (CHR ''/'') v)\<rparr> | None \<Rightarrow>
     (case strip_prefix ''DNSOverTLS='' token of Some v \<Rightarrow> p\<lparr>pr_dot := v\<rparr> | None \<Rightarrow>
     (case strip_prefix ''LLMNR='' token of Some v \<Rightarrow> p\<lparr>pr_llmnr := v\<rparr> | None \<Rightarrow>
     (case strip_prefix ''MulticastDNS='' token of Some v \<Rightarrow> p\<lparr>pr_mdns := v\<rparr> | None \<Rightarrow>
       if token = ''+LLMNR'' then p\<lparr>pr_llmnr := ''yes''\<rparr>
       else if token = ''-LLMNR'' then p\<lparr>pr_llmnr := ''no''\<rparr>
       else if token = ''+mDNS'' then p\<lparr>pr_mdns := ''yes''\<rparr>
       else if token = ''-mDNS'' then p\<lparr>pr_mdns := ''no''\<rparr>
       else if token = ''+DNSOverTLS'' then p\<lparr>pr_dot := ''yes''\<rparr>
       else if token = ''-DNSOverTLS'' then p\<lparr>pr_dot := ''no''\<rparr>
       else p))))"

definition no_protocols :: protocols where
  "no_protocols = \<lparr>pr_dnssec = [], pr_dot = [], pr_llmnr = [], pr_mdns = []\<rparr>"

definition parse_protocols :: "string \<Rightarrow> protocols" where
  "parse_protocols s = foldl protocol_token no_protocols (split_whitespace s)"

record link_block =
  lk_name :: string
  lk_dns :: string
  lk_servers :: "string list"
  lk_domain :: string

definition no_link :: link_block where
  "no_link = \<lparr>lk_name = [], lk_dns = [], lk_servers = [], lk_domain = []\<rparr>"

definition link_json :: "link_block \<Rightarrow> json" where
  "link_json k =
     JObj [(''name'', JStr (lk_name k)), (''current_dns'', JStr (lk_dns k)), (''dns_servers'', jstrs (lk_servers k)),
       (''dns_domain'', JStr (lk_domain k))]"

record resolved_status =
  rs_mode :: string
  rs_current :: string
  rs_servers :: "string list"
  rs_fallback :: "string list"
  rs_domain :: string
  rs_protocols :: protocols
  rs_links :: "json list"
  rs_in_link :: bool
  rs_link :: link_block
  rs_proto :: string
  rs_in_proto :: bool

definition flush_link :: "resolved_status \<Rightarrow> resolved_status" where
  "flush_link s =
     (if rs_in_link s
      then s\<lparr>rs_links := rs_links s @ (if lk_name (rs_link s) = [] then [] else [link_json (rs_link s)]),
             rs_link := no_link\<rparr>
      else s)"

definition global_value :: "resolved_status \<Rightarrow> string \<Rightarrow> string \<Rightarrow> resolved_status" where
  "global_value s key v =
     (if key = ''resolv.conf mode'' then s\<lparr>rs_mode := v\<rparr>
      else if key = ''Current DNS Server'' then s\<lparr>rs_current := v\<rparr>
      else if key = ''DNS Servers'' then s\<lparr>rs_servers := split_whitespace v\<rparr>
      else if key = ''Fallback DNS Servers'' \<or> key = ''Fallback DNS Server'' then s\<lparr>rs_fallback := split_whitespace v\<rparr>
      else if key = ''DNS Domain'' then s\<lparr>rs_domain := v\<rparr>
      else if key = ''Protocols'' then s\<lparr>rs_proto := v, rs_in_proto := True, rs_protocols := parse_protocols v\<rparr>
      else s)"

definition link_value :: "link_block \<Rightarrow> string \<Rightarrow> string \<Rightarrow> link_block" where
  "link_value k key v =
     (if key = ''Current DNS Server'' then k\<lparr>lk_dns := v\<rparr>
      else if key = ''DNS Servers'' then k\<lparr>lk_servers := split_whitespace v\<rparr>
      else if key = ''DNS Domain'' then k\<lparr>lk_domain := v\<rparr>
      else k)"

text \<open>The name between the parentheses of a line \<open>Link 2 (eth0)\<close>; None is a slice out of range.\<close>

definition link_named :: "resolved_status \<Rightarrow> string \<Rightarrow> resolved_status option" where
  "link_named s line =
     (case (find_str ''('' line, find_str '')'' line) of
        (Some a, Some b) \<Rightarrow>
          map_option (\<lambda>n. s\<lparr>rs_link := (rs_link s)\<lparr>lk_name := n\<rparr>, rs_in_link := True\<rparr>) (str_slice line (a + 1) b)
      | _ \<Rightarrow> Some (s\<lparr>rs_in_link := True\<rparr>))"

definition status_line :: "resolved_status \<Rightarrow> string \<Rightarrow> resolved_status option" where
  "status_line s0 raw =
     (let line = trim_end raw; s = s0\<lparr>rs_in_proto := False\<rparr>
      in if rs_in_proto s0 \<and> starts_with (replicate 20 (CHR '' '')) line \<and> CHR '':'' \<notin> set line
         then Some (s0\<lparr>rs_proto := rs_proto s0 @ '' '' @ trim line\<rparr>)
         else if line = ''Global'' then Some ((flush_link s)\<lparr>rs_in_link := False\<rparr>)
         else if starts_with ''Link '' line then link_named (flush_link s) line
         else (case split_once (CHR '':'') line of
                 None \<Rightarrow> Some s
               | Some (k, v) \<Rightarrow>
                   Some (if rs_in_link s then s\<lparr>rs_link := link_value (rs_link s) (trim k) (trim v)\<rparr>
                         else global_value s (trim k) (trim v))))"

fun status_lines :: "resolved_status \<Rightarrow> string list \<Rightarrow> resolved_status option" where
  "status_lines s [] = Some s"
| "status_lines s (l # ls) = Option.bind (status_line s l) (\<lambda>s'. status_lines s' ls)"

definition or_else_str :: "string \<Rightarrow> string \<Rightarrow> string" where
  "or_else_str a b = (if a = [] then b else a)"

definition final_protocols :: "resolved_status \<Rightarrow> protocols" where
  "final_protocols s =
     (let p = rs_protocols s; q = parse_protocols (rs_proto s)
      in if rs_in_proto s
         then \<lparr>pr_dnssec = or_else_str (pr_dnssec p) (pr_dnssec q), pr_dot = or_else_str (pr_dot p) (pr_dot q),
               pr_llmnr = or_else_str (pr_llmnr p) (pr_llmnr q), pr_mdns = or_else_str (pr_mdns p) (pr_mdns q)\<rparr>
         else p)"

definition resolved_start :: resolved_status where
  "resolved_start =
     \<lparr>rs_mode = [], rs_current = [], rs_servers = [], rs_fallback = [], rs_domain = [], rs_protocols = no_protocols,
      rs_links = [], rs_in_link = False, rs_link = no_link, rs_proto = [], rs_in_proto = False\<rparr>"

definition parse_resolvectl_status :: "string \<Rightarrow> resolved_status option" where
  "parse_resolvectl_status out =
     map_option (\<lambda>s. flush_link (s\<lparr>rs_protocols := final_protocols s\<rparr>)) (status_lines resolved_start (lines out))"

definition stat_of :: "string \<Rightarrow> string \<Rightarrow> nat" where
  "stat_of label out =
     foldl (\<lambda>n l. case strip_prefix label (trim l) of
                    None \<Rightarrow> n
                  | Some rest \<Rightarrow> unwrap_or 0 (parse_uint U64_MAX (replace_char (CHR '','') [] (trim rest))))
       0 (lines out)"

definition parse_resolvectl_stats :: "string \<Rightarrow> nat \<times> nat \<times> nat" where
  "parse_resolvectl_stats out =
     (stat_of ''Total Transactions:'' out, stat_of ''Cache Hits:'' out, stat_of ''Cache Misses:'' out)"

section \<open>systemd-resolved: its configuration\<close>

text \<open>The settings, by their names in requests and answers and in the file.\<close>

definition resolved_fields :: "(string \<times> string) list" where
  "resolved_fields =
     [(''dns'', ''DNS''), (''fallback_dns'', ''FallbackDNS''), (''domains'', ''Domains''), (''dnssec'', ''DNSSEC''),
      (''dns_over_tls'', ''DNSOverTLS''), (''cache'', ''Cache''), (''llmnr'', ''LLMNR''), (''mdns'', ''MulticastDNS'')]"

definition conf_step :: "string \<Rightarrow> string \<Rightarrow> string \<Rightarrow> string" where
  "conf_step key v raw =
     (let line = trim raw
      in if starts_with ''#'' line \<or> starts_with ''['' line \<or> line = [] then v
         else (case split_once (CHR ''='') line of
                 None \<Rightarrow> v
               | Some (k, x) \<Rightarrow> if trim k = key then trim x else v))"

definition conf_value :: "string \<Rightarrow> string \<Rightarrow> string" where
  "conf_value key content = foldl (conf_step key) [] (lines content)"

definition resolved_conf_path :: string where
  "resolved_conf_path = ''/etc/systemd/resolved.conf''"

definition read_resolved_conf :: "'w agent_host \<Rightarrow> ('w, json) act" where
  "read_resolved_conf h = do {
     f \<leftarrow> read_file h resolved_conf_path;
     (let content = unwrap_or [] f
      in do {
        d \<leftarrow> (if content = [] then read_file h ''/usr/lib/systemd/resolved.conf'' else ret None);
        m \<leftarrow> metadata h resolved_conf_path;
        (let effective = (if content = [] then unwrap_or [] d else content)
         in ret (JObj ((''has_user_conf'', JBool (m \<noteq> None)) #
              map (\<lambda>(f, k). (f, JStr (conf_value k effective))) resolved_fields))) }) }"

definition resolved_json :: "bool \<Rightarrow> bool \<Rightarrow> resolved_status \<Rightarrow> nat \<times> nat \<times> nat \<Rightarrow> json \<Rightarrow> json" where
  "resolved_json active has_ctl s stats conf =
     JObj
       [(''active'', JBool active), (''has_resolvectl'', JBool has_ctl), (''mode'', JStr (rs_mode s)),
        (''current_dns'', JStr (rs_current s)), (''dns_servers'', jstrs (rs_servers s)),
        (''fallback_dns'', jstrs (rs_fallback s)), (''dns_domain'', JStr (rs_domain s)),
        (''dnssec'', JStr (pr_dnssec (rs_protocols s))), (''dns_over_tls'', JStr (pr_dot (rs_protocols s))),
        (''llmnr'', JStr (pr_llmnr (rs_protocols s))), (''mdns'', JStr (pr_mdns (rs_protocols s))),
        (''links'', JArr (rs_links s)), (''stat_transactions'', JInt (int (fst stats))),
        (''stat_hits'', JInt (int (fst (snd stats)))), (''stat_misses'', JInt (int (snd (snd stats)))), (''conf'', conf)]"

text \<open>None is the panic of the status parser.\<close>

definition get_resolved_info :: "'w agent_host \<Rightarrow> ('w, json option) act" where
  "get_resolved_info h = do {
     a \<leftarrow> run h [''systemctl'', ''is-active'', resolved_unit];
     has_ctl \<leftarrow> installed h ''resolvectl'';
     (let active = (trim a = ''active''); ask = (active \<and> has_ctl)
      in do {
        status \<leftarrow> (if ask then run h [''resolvectl'', ''status''] else ret []);
        stats \<leftarrow> (if ask then run h [''resolvectl'', ''statistics''] else ret []);
        case parse_resolvectl_status status of
          None \<Rightarrow> ret None
        | Some s \<Rightarrow> do {
            conf \<leftarrow> read_resolved_conf h;
            ret (Some (resolved_json active has_ctl s (parse_resolvectl_stats stats) conf)) } }) }"

definition dns_resolved_info :: "'w agent_host \<Rightarrow> 'w agent_state handler" where
  "dns_resolved_info h = answering_or_panic ''dns.resolved.info'' (\<lambda>_. get_resolved_info h)"

definition resolved_content :: "(string \<Rightarrow> string) \<Rightarrow> string" where
  "resolved_content v =
     join [NL] ([''# Generated by Tenodera Admin Panel'', ''[Resolve]''] @
       map (\<lambda>(f, k). k @ ''='' @ v f) (filter (\<lambda>(f, k). v f \<noteq> []) resolved_fields)) @ [NL]"

definition set_resolved_config :: "'w agent_host \<Rightarrow> open_options \<Rightarrow> string \<Rightarrow> string \<Rightarrow> ('w, json) act" where
  "set_resolved_config h o' user password = do {
     w \<leftarrow> sudo_write h user password [''tee'', resolved_conf_path] (resolved_content (\<lambda>f. trim (opt_str o' f)));
     if \<not> bool_field False w ''ok'' then ret w
     else do {
       r \<leftarrow> sudo h user password [''systemctl'', ''kill'', ''-s'', ''HUP'', resolved_unit];
       if bool_field False r ''ok'' then ret ok_json
       else sudo h user password [''systemctl'', ''restart'', resolved_unit] } }"

definition resolved_change :: "'w agent_host \<Rightarrow> open_options \<Rightarrow> ('w, json) act" where
  "resolved_change h o' =
     (let action = opt_str o' ''action''; user = opt_str o' ''_user''; password = opt_str o' ''password''
      in if action = ''set_config'' then set_resolved_config h o' user password
         else if action \<in> {''restart'', ''start'', ''stop''} then
           sudo h user password [''systemctl'', action, resolved_unit]
         else if action = ''flush_caches'' then do {
           r \<leftarrow> sudo h user password [''resolvectl'', ''flush-caches''];
           ret (if bool_field False r ''ok'' then r
                else not_ok ''flush-caches failed (is systemd-resolved active?)'') }
         else ret (not_ok (''unknown action: '' @ action)))"

definition dns_resolved_manage :: "'w agent_host \<Rightarrow> 'w agent_state handler" where
  "dns_resolved_manage h =
     answering ''dns.resolved.manage'' (\<lambda>o'. admin_only (options_json o') (resolved_change h o'))"

interpretation dns_resolved_manage: admin_handler "dns_resolved_manage h"
  unfolding dns_resolved_manage_def by (rule answering_admin.admin_handler_axioms)

section \<open>What they may run\<close>

definition dns_sudo :: "(string \<Rightarrow> string) \<Rightarrow> string list \<Rightarrow> bool" where
  "dns_sudo b64 args \<longleftrightarrow>
     args \<in> {[''resolvectl'', ''flush-caches''], [''systemctl'', ''try-restart'', ''nscd''],
             [''systemctl'', ''kill'', ''-s'', ''HUP'', resolved_unit]} \<or>
     (\<exists>op \<in> {''restart'', ''start'', ''stop''}. args = [''systemctl'', op, resolved_unit]) \<or>
     (\<exists>path \<in> {''/etc/resolv.conf'', ''/etc/hosts'', resolved_conf_path}. \<exists>txt.
        args = [''sh'', ''-c'', write_script b64 [''tee'', path] txt])"

definition dns_plain :: "string list \<Rightarrow> bool" where
  "dns_plain args \<longleftrightarrow>
     args \<in> {[''systemctl'', ''is-active'', resolved_unit], [''resolvectl'', ''status''], [''resolvectl'', ''statistics'']} \<or>
     (\<exists>tool \<in> {''resolvectl'', ''nscd'', ''dig'', ''host'', ''nslookup''}. args = [''which'', tool]) \<or>
     (\<exists>name qtype. is_safe_name name \<and> qtype \<in> set record_types \<and> args \<in> snd ` set (lookup_tools name qtype))"

abbreviation dns_confined :: "'w agent_host \<Rightarrow> string \<Rightarrow> string \<Rightarrow> effect \<Rightarrow> bool" where
  "dns_confined h \<equiv> confined (dns_sudo (ah_b64 h)) nothing dns_plain"

lemma sanitised_type: "sanitise_qtype t \<in> set record_types"
  by (simp add: sanitise_qtype_def record_types_def)

lemma dns_plain_intros:
  "dns_plain [''systemctl'', ''is-active'', resolved_unit]" "dns_plain [''resolvectl'', ''status'']"
  "dns_plain [''resolvectl'', ''statistics'']" "dns_plain [''which'', ''resolvectl'']" "dns_plain [''which'', ''nscd'']"
  by (auto simp: dns_plain_def)

lemma emits_dns_query: "dns_plain (prog # args) \<Longrightarrow> emits (queries dns_plain) (run h (prog # args))"
  and emits_dns_which: "dns_plain [''which'', tool] \<Longrightarrow> emits (queries dns_plain) (installed h tool)"
  by (rule emits_run emits_installed, simp add: queries_plain)+

lemma emits_dns_info: "emits (queries dns_plain) (get_dns_info h)"
  unfolding get_dns_info_def Let_def
  by (intro emits_bind emits_reads emits_ret emits_dns_query dns_plain_intros)

lemma emits_try_lookups:
  assumes "set tools \<subseteq> set (lookup_tools name qtype)" and "is_safe_name name" and "qtype \<in> set record_types"
  shows "emits (queries dns_plain) (try_lookups h deadline tools)"
  using assms(1)
proof (induction tools)
  case (Cons t ts)
  obtain tool args where t: "t = (tool, args)" by fastforce
  with Cons.prems have mem: "(tool, args) \<in> set (lookup_tools name qtype)" by simp
  then have "dns_plain args" using assms(2,3) by (force simp: dns_plain_def)
  moreover have "dns_plain [''which'', tool]" and "args \<noteq> []" using mem by (auto simp: lookup_tools_def dns_plain_def)
  ultimately show ?case
    using Cons by (cases args) (auto simp: t intro!: emits_by_deadline emits_if emits_ret emits_dns_which emits_dns_query)
qed (simp add: emits_ret)

lemma emits_dns_lookup: "emits (queries dns_plain) (dns_lookup_answer h o')"
  unfolding dns_lookup_answer_def do_lookup_def Let_def
  by (intro emits_if emits_ret emits_bind emits_read_clock)
     (rule emits_try_lookups [OF order_refl _ sanitised_type], simp)

lemma emits_resolved_info: "emits (queries dns_plain) (get_resolved_info h)"
  unfolding get_resolved_info_def read_resolved_conf_def Let_def
  by (intro emits_bind emits_ret emits_if emits_option emits_reads emits_dns_query emits_dns_which dns_plain_intros)

lemma dns_sudo_intros:
  "dns_sudo b64 [''resolvectl'', ''flush-caches'']" "dns_sudo b64 [''systemctl'', ''try-restart'', ''nscd'']"
  "dns_sudo b64 [''systemctl'', ''kill'', ''-s'', ''HUP'', resolved_unit]"
  "dns_sudo b64 [''systemctl'', ''restart'', resolved_unit]"
  "op \<in> {''restart'', ''start'', ''stop''} \<Longrightarrow> dns_sudo b64 [''systemctl'', op, resolved_unit]"
  by (simp_all add: dns_sudo_def)

lemma dns_confined_sudo: "dns_sudo (ah_b64 h) args \<Longrightarrow> emits (dns_confined h user password) (sudo h user password args)"
  by (intro emits_sudo confined_sudo)

lemma dns_confined_write:
  "path \<in> {''/etc/resolv.conf'', ''/etc/hosts'', resolved_conf_path} \<Longrightarrow>
   emits (dns_confined h user password) (sudo_write h user password [''tee'', path] content)"
  by (intro emits_sudo_write confined_sudo) (auto simp: dns_sudo_def)

lemma dns_confined_which:
  "dns_plain [''which'', tool] \<Longrightarrow> emits (dns_confined h user password) (installed h tool)"
  by (rule emits_queries [OF emits_dns_which])

lemma emits_dns_changes:
  "emits (dns_confined h (opt_str o' ''_user'') (opt_str o' ''password'')) (dns_change h o')"
  "emits (dns_confined h (opt_str o' ''_user'') (opt_str o' ''password'')) (resolved_change h o')"
  unfolding dns_change_def resolved_change_def flush_dns_cache_def try_flush_def set_resolved_config_def Let_def
  by (intro emits_if emits_ret emits_bind dns_confined_sudo dns_confined_write dns_confined_which dns_sudo_intros
        dns_plain_intros; simp)+

interpretation dns_info: bounded_handler "dns_info h" "dns_confined h"
  unfolding dns_info_def by (rule bounded_answering) (rule emits_queries [OF emits_dns_info])

interpretation dns_lookup: bounded_handler "dns_lookup h" "dns_confined h"
  unfolding dns_lookup_def by (rule bounded_answering) (rule emits_queries [OF emits_dns_lookup])

interpretation dns_resolved_info: bounded_handler "dns_resolved_info h" "dns_confined h"
  unfolding dns_resolved_info_def by (rule bounded_answering_or_panic) (rule emits_queries [OF emits_resolved_info])

interpretation dns_manage: bounded_handler "dns_manage h" "dns_confined h"
  unfolding dns_manage_def by (intro bounded_answering emits_admin_only emits_dns_changes)

interpretation dns_resolved_manage: bounded_handler "dns_resolved_manage h" "dns_confined h"
  unfolding dns_resolved_manage_def by (intro bounded_answering emits_admin_only emits_dns_changes)

interpretation dns_manage: reading_handler "dns_manage h" "\<lambda>_. False"
  unfolding dns_manage_def by (rule reading_answering) (rule emits_refused, simp)

interpretation dns_resolved_manage: reading_handler "dns_resolved_manage h" "\<lambda>_. False"
  unfolding dns_resolved_manage_def by (rule reading_answering) (rule emits_refused, simp)

section \<open>The written configuration\<close>

lemma conf_step_strip_cr [simp]: "conf_step key v (strip_cr l) = conf_step key v l"
  by (simp add: conf_step_def)

lemma foldl_conf_strip_cr: "foldl (conf_step key) v (map strip_cr ls) = foldl (conf_step key) v ls"
  by (induction ls arbitrary: v) simp_all

text \<open>The names of the settings are plain words.\<close>

definition conf_name :: "string \<Rightarrow> bool" where
  "conf_name k \<longleftrightarrow> plain_word k \<and> CHR ''='' \<notin> set k \<and> NL \<notin> set k \<and> hd k \<noteq> CHR ''#'' \<and> hd k \<noteq> CHR ''[''"

lemma resolved_names: "(f, k) \<in> set resolved_fields \<Longrightarrow> conf_name k"
  by (auto simp: resolved_fields_def conf_name_def plain_word_def is_ascii_def is_ws_char_single byte_def)

lemma conf_step_line:
  assumes "conf_name k" and "trim x = x"
  shows "conf_step key v (k @ ''='' @ x) = (if k = key then x else v)"
proof -
  obtain c cs where c: "k = c # cs" "is_ascii c" "\<not> is_ws_char [c]" "c \<noteq> CHR ''#''" "c \<noteq> CHR ''[''"
    using assms(1) by (cases k) (auto simp: conf_name_def plain_word_def)
  have eq: "is_ascii CHR ''=''" "\<not> is_ws_char ''=''" by (simp_all add: is_ascii_def is_ws_char_single byte_def)
  have "trim (k @ ''='' @ x) = k @ CHR ''='' # x"
    using c trim_end_append [OF eq, of k x] trim_end_of_trimmed [OF assms(2)]
    by (simp add: trim_def trim_start_Cons)
  moreover have "split_once CHR ''='' (k @ CHR ''='' # x) = Some (k, x)"
    using assms(1) by (simp add: split_once_Some_iff conf_name_def)
  ultimately show ?thesis
    using c assms plain_word_trim [of k] by (simp add: conf_step_def conf_name_def starts_with_def)
qed

lemma foldl_conf_lines:
  assumes "\<And>f k. (f, k) \<in> set fs \<Longrightarrow> conf_name k \<and> trim (v f) = v f" and "distinct (map snd fs)"
  shows "foldl (conf_step key) a (map (\<lambda>(f, k). k @ ''='' @ v f) (filter (\<lambda>(f, k). v f \<noteq> []) fs)) =
    (case List.find (\<lambda>(f, k). k = key \<and> v f \<noteq> []) fs of None \<Rightarrow> a | Some (f, _) \<Rightarrow> v f)"
  using assms
proof (induction fs arbitrary: a)
  case (Cons fk fs)
  obtain f k where fk: "fk = (f, k)" by fastforce
  then have line: "conf_step key b (k @ ''='' @ v f) = (if k = key then v f else b)" for b
    using Cons.prems(1) [of f k] by (intro conf_step_line) (simp_all add: fk)
  have "List.find (\<lambda>(f, k). k = key \<and> v f \<noteq> []) fs = None" if "k = key"
    using Cons.prems(2) that by (force simp: fk find_None_iff)
  moreover have "conf_name k' \<and> trim (v f') = v f'" if "(f', k') \<in> set fs" for f' k'
    using Cons.prems(1) [of f' k'] that by simp
  ultimately show ?case using Cons.IH Cons.prems(2) line by (auto simp: fk)
qed simp

lemma find_setting:
  "(f, k) \<in> set fs \<Longrightarrow> distinct (map snd fs) \<Longrightarrow>
   (case List.find (\<lambda>(f, k'). k' = k \<and> v f \<noteq> []) fs of None \<Rightarrow> [] | Some (f, _) \<Rightarrow> v f) = v f"
proof (induction fs)
  case (Cons fk fs)
  obtain g j where fk: "fk = (g, j)" by fastforce
  show ?case
  proof (cases "j = k")
    case True
    have "j' \<noteq> j" if "(g', j') \<in> set fs" for g' j' using Cons.prems(2) that by (force simp: fk)
    then have "(f, k) = (g, j)" "List.find (\<lambda>(f, k'). k' = k \<and> v f \<noteq> []) fs = None"
      using Cons.prems(1) True by (auto simp: fk find_None_iff)
    then show ?thesis by (simp add: fk)
  next
    case False
    with Cons show ?thesis by (simp add: fk)
  qed
qed simp

lemma distinct_settings: "distinct (map snd resolved_fields)"
  by (simp add: resolved_fields_def)

text \<open>
  What is saved for \<open>systemd-resolved\<close> is what is read back: after saving, each of the eight
  settings shown is the text of the request, trimmed, an empty one being left out of the file and
  read as empty, for texts without a line break.
\<close>

theorem resolved_config_roundtrip:
  assumes "(f, k) \<in> set resolved_fields" and "\<And>g. NL \<notin> set (v g)"
  shows "conf_value k (resolved_content (\<lambda>g. trim (v g))) = trim (v f)"
proof -
  let ?v = "\<lambda>g. trim (v g)"
  let ?ls = "map (\<lambda>(f, k). k @ ''='' @ ?v f) (filter (\<lambda>(f, k). ?v f \<noteq> []) resolved_fields)"
  let ?head = "[''# Generated by Tenodera Admin Panel'', ''[Resolve]'']"
  have free: "NL \<notin> set (?v g)" for g using assms(2) set_trim by blast
  have "NL \<notin> set l" if l: "l \<in> set ?ls" for l
  proof -
    obtain g k' where "(g, k') \<in> set resolved_fields" "l = k' @ ''='' @ ?v g" using l by auto
    with resolved_names [of g k'] free show ?thesis by (simp add: conf_name_def)
  qed
  then have "\<forall>l \<in> set (?head @ ?ls). NL \<notin> set l" by (simp only: set_append Un_iff) auto
  then have ls: "lines (resolved_content ?v) = map strip_cr (?head @ ?ls)"
    unfolding resolved_content_def by (rule lines_of_joined) simp
  have head: "foldl (conf_step k) [] ?head = []"
    by (simp add: conf_step_def trim_Cons is_ascii_def is_ws_char_single byte_def starts_with_def)
  have "conf_value k (resolved_content ?v) = foldl (conf_step k) [] ?ls"
    unfolding conf_value_def ls foldl_conf_strip_cr foldl_append head ..
  also have "\<dots> = (case List.find (\<lambda>(f, k'). k' = k \<and> ?v f \<noteq> []) resolved_fields of None \<Rightarrow> [] | Some (f, _) \<Rightarrow> ?v f)"
    by (rule foldl_conf_lines [OF _ distinct_settings]) (simp add: resolved_names)
  also have "\<dots> = ?v f" using assms(1) distinct_settings by (rule find_setting)
  finally show ?thesis .
qed

theorem resolved_config_roundtrip_witness:
  "conf_value ''DNS'' (resolved_content (\<lambda>g. trim (if g = ''dns'' then ''1.1.1.1'' else []))) = trim ''1.1.1.1''"
  using resolved_config_roundtrip [of "''dns''" "''DNS''" "\<lambda>g. if g = ''dns'' then ''1.1.1.1'' else []"]
  by (simp add: resolved_fields_def)

end
