(* ===== verification/LogFiles.thy ===== *)
theory LogFiles
  imports Handlers TextFacts Paths "HOL-Library.List_Lexorder" "HOL-Library.Char_ord"
begin

text \<open>
  \<open>log.files\<close> (\<open>agent/src/handlers/log_files.rs\<close>): listing and reading the files below \<open>/var/log\<close>
  as the session's user. The handler has a way of its own to run commands, and it reads the times
  of log lines by cutting them at fixed bytes.
\<close>

section \<open>Running as the user\<close>

datatype brokered = LogNoAccount | LogRan bool "int option" string string | LogFailed string

definition OUT_CAP :: nat where "OUT_CAP = 64 * 2 ^ 20"

definition ERR_CAP :: nat where "ERR_CAP = 256 * 2 ^ 10"

text \<open>Neither the environment of the agent is cleared nor \<open>-k\<close> given to \<open>sudo\<close>.\<close>

definition brokered_command :: "string \<Rightarrow> passwd \<Rightarrow> string \<Rightarrow> string list \<Rightarrow> command" where
  "brokered_command user pw password args =
     (if password \<noteq> []
      then \<lparr>cm_prog = ''sudo'', cm_args = ''-S'' # args, cm_clean = False, cm_env = [],
            cm_as = Some (user, pw_uid pw, pw_gid pw), cm_stdin = Some (password @ [NL])\<rparr>
      else \<lparr>cm_prog = hd args, cm_args = tl args, cm_clean = False, cm_env = [],
            cm_as = Some (user, pw_uid pw, pw_gid pw), cm_stdin = None\<rparr>)"

definition brokered_result :: "child \<Rightarrow> brokered" where
  "brokered_result ch =
     (if \<not> ch_in_time ch then LogFailed ''read timed out (file too large or unreadable)''
      else (case ch_wait ch of
              Inl e \<Rightarrow> LogFailed e
            | Inr ok \<Rightarrow>
                LogRan ok (ch_code ch) (take OUT_CAP (stream (ch_out ch))) (take ERR_CAP (stream (ch_err ch)))))"

definition broker_output :: "'w agent_host \<Rightarrow> string \<Rightarrow> string \<Rightarrow> string list \<Rightarrow> ('w, brokered) act" where
  "broker_output h user password args = State (\<lambda>w.
     if \<not> is_valid_username h user then (LogFailed ''no session user'', w)
     else (case lookup_user h user of
             None \<Rightarrow> (LogNoAccount, w)
           | Some pw \<Rightarrow>
               if password = [] \<and> args = [] then (LogFailed ''no command'', w)
               else (case spawn h (brokered_command user pw password args) w of
                       (Inl e, w1) \<Rightarrow> (LogFailed e, w1)
                     | (Inr ch, w1) \<Rightarrow> (brokered_result ch, w1))))"

definition clean_stderr :: "string \<Rightarrow> string" where
  "clean_stderr err = trim (join [NL] (filter (\<lambda>l. \<not> sudo_noise l) (lines (from_utf8_lossy err))))"

definition log_read_error :: "string \<Rightarrow> string" where
  "log_read_error err = (if clean_stderr err = [] then ''command failed'' else clean_stderr err)"

definition no_account :: "(string \<times> json) list \<Rightarrow> json" where
  "no_account fs = JObj ([(''restricted'', JBool True), (''reason'', JStr ''no-account'')] @ fs)"

definition no_account_error :: json where
  "no_account_error = no_account [(''ok'', JBool False), (''error'', JStr ''no account on this host'')]"

section \<open>Listing\<close>

definition log_base :: string where
  "log_base = ''/var/log''"

definition is_log_file :: "string \<Rightarrow> bool" where
  "is_log_file name \<longleftrightarrow>
     \<not> (ends_with ''.gz'' name \<or> ends_with ''.xz'' name \<or> ends_with ''.bz2'' name) \<and>
     (ends_with ''.log'' name \<or> ends_with ''.err'' name \<or> ends_with ''.out'' name \<or> contains_str ''.log.'' name \<or>
      name \<in> {''syslog'', ''messages'', ''dmesg'', ''kern.log'', ''auth.log'', ''daemon.log'', ''mail.log'',
              ''mail.err'', ''cron.log''} \<or>
      starts_with ''syslog'' name \<or> starts_with ''messages'' name \<or> starts_with ''secure'' name \<or>
      starts_with ''maillog'' name)"

text \<open>A row of \<open>find\<close>: its path, and the row as it is answered.\<close>

definition log_row :: "string \<Rightarrow> (string \<times> json) option" where
  "log_row line =
     (case split_once TAB line of
        None \<Rightarrow> None
      | Some (path, rest) \<Rightarrow>
          (case split_once TAB rest of
             None \<Rightarrow> None
           | Some (len, t) \<Rightarrow>
               (let name = unwrap_or [] (path_file_name (components path))
                in if \<not> is_log_file name then None
                   else Some (path, JObj
                     [(''path'', JStr path), (''name'', JStr name),
                      (''size_bytes'', JInt (int (unwrap_or 0 (parse_uint U64_MAX len)))),
                      (''modified'', JInt (int (unwrap_or 0 (parse_uint U64_MAX (hd (split_on (CHR ''.'') t))))))]))))"

definition find_args :: "string list" where
  "find_args =
     [''find'', log_base, ''-maxdepth'', ''5'', ''-type'', ''f'', ''-printf'',
      ''%p'' @ [BSL] @ ''t%s'' @ [BSL] @ ''t%T@'' @ [BSL] @ ''n'']"

definition list_log_files :: "'w agent_host \<Rightarrow> string \<Rightarrow> string \<Rightarrow> ('w, json) act" where
  "list_log_files h user password = do {
     r \<leftarrow> broker_output h user password find_args;
     ret (case r of
            LogNoAccount \<Rightarrow> no_account [(''files'', JArr [])]
          | LogFailed e \<Rightarrow> JObj [(''files'', JArr []), (''error'', JStr e)]
          | LogRan _ _ out _ \<Rightarrow>
              JObj [(''files'', JArr (map snd (sort_key fst (List.map_filter log_row (lines (from_utf8_lossy out))))))]) }"

definition validate_log_path :: "string \<Rightarrow> string + string" where
  "validate_log_path path =
     (if path = [] \<or> \<not> starts_with ''/'' path \<or> contains_str ''..'' path then Inl ''invalid path''
      else if path \<noteq> log_base \<and> \<not> starts_with ''/var/log/'' path then Inl ''path must be under /var/log''
      else Inr path)"

section \<open>Times of log lines\<close>

text \<open>The readers of the \<open>chrono\<close> crate: a text by a format, as seconds; a date as those of its
  midnight. \<open>dl_year\<close> is the current year.\<close>

record 'w date_lib =
  dl_datetime :: "string \<Rightarrow> string \<Rightarrow> int option"
  dl_date :: "string \<Rightarrow> string \<Rightarrow> int option"
  dl_year :: "'w \<Rightarrow> string"

definition parse_filter_date :: "'w date_lib \<Rightarrow> bool \<Rightarrow> string \<Rightarrow> int option" where
  "parse_filter_date dl is_start s =
     (case dl_datetime dl s ''%Y-%m-%d %H:%M:%S'' of
        Some t \<Rightarrow> Some t
      | None \<Rightarrow> map_option (\<lambda>d. if is_start then d else d + 86399) (dl_date dl s ''%Y-%m-%d''))"

text \<open>The outer None is the panic of a slice inside a character.\<close>

definition first_format :: "'w date_lib \<Rightarrow> string \<Rightarrow> string list \<Rightarrow> int option" where
  "first_format dl s fmts = (case List.map_filter (dl_datetime dl s) fmts of [] \<Rightarrow> None | t # _ \<Rightarrow> Some t)"

definition iso_time :: "'w date_lib \<Rightarrow> string \<Rightarrow> int option option" where
  "iso_time dl line =
     (if line ! 4 = CHR ''-'' \<and> line ! 7 = CHR ''-''
      then Option.bind (str_slice line 0 (if length line \<ge> 19 then 19 else 10)) (\<lambda>candidate.
        case first_format dl candidate [''%Y-%m-%dT%H:%M:%S'', ''%Y-%m-%d %H:%M:%S''] of
          Some t \<Rightarrow> Some (Some t)
        | None \<Rightarrow> map_option (\<lambda>day. dl_date dl day ''%Y-%m-%d'') (str_slice line 0 10))
      else Some None)"

definition syslog_time :: "'w date_lib \<Rightarrow> string \<Rightarrow> string \<Rightarrow> int option option" where
  "syslog_time dl year line =
     (if length line \<ge> 15
      then map_option (\<lambda>s. first_format dl (year @ '' '' @ s) [''%Y %b %d %H:%M:%S'', ''%Y %b  %d %H:%M:%S''])
             (str_slice line 0 15)
      else Some None)"

definition apache_time :: "'w date_lib \<Rightarrow> string \<Rightarrow> int option" where
  "apache_time dl line =
     (case split_once (CHR ''['') line of
        None \<Rightarrow> None
      | Some (_, rest) \<Rightarrow>
          (case split_once (CHR '']'') rest of
             None \<Rightarrow> None
           | Some (inside, _) \<Rightarrow>
               dl_datetime dl (case split_whitespace inside of [] \<Rightarrow> [] | w # _ \<Rightarrow> w) ''%d/%b/%Y:%H:%M:%S''))"

definition numeric_time :: "'w date_lib \<Rightarrow> string \<Rightarrow> int option option" where
  "numeric_time dl line =
     (if line ! 4 = CHR ''/'' \<and> length line \<ge> 19
      then map_option (\<lambda>s. dl_datetime dl s ''%Y/%m/%d %H:%M:%S'') (str_slice line 0 19)
      else Some None)"

definition or_time :: "int option option \<Rightarrow> int option option \<Rightarrow> int option option" where
  "or_time a b = (case a of None \<Rightarrow> None | Some (Some t) \<Rightarrow> Some (Some t) | Some None \<Rightarrow> b)"

definition extract_timestamp :: "'w date_lib \<Rightarrow> string \<Rightarrow> string \<Rightarrow> int option option" where
  "extract_timestamp dl year raw =
     (let line = trim raw
      in if length line < 10 then Some None
         else or_time (iso_time dl line) (or_time (syslog_time dl year line)
                (or_time (Some (apache_time dl line)) (numeric_time dl line))))"

definition outside :: "int option \<Rightarrow> int option \<Rightarrow> int \<Rightarrow> bool" where
  "outside from to t \<longleftrightarrow>
     (case from of None \<Rightarrow> False | Some f \<Rightarrow> t < f) \<or> (case to of None \<Rightarrow> False | Some u \<Rightarrow> t > u)"

definition current_year :: "'w date_lib \<Rightarrow> ('w, string) act" where
  "current_year dl = State (\<lambda>w. (dl_year dl (w_os w), w))"

section \<open>Reading\<close>

definition tail_log :: "'w agent_host \<Rightarrow> string \<Rightarrow> nat \<Rightarrow> string \<Rightarrow> string \<Rightarrow> ('w, json) act" where
  "tail_log h path n user password =
     (case validate_log_path path of
        Inl e \<Rightarrow> ret (not_ok e)
      | Inr p \<Rightarrow> do {
          r \<leftarrow> broker_output h user password [''tail'', ''-n'', show_nat (min n 10000), ''--'', p];
          ret (case r of
                 LogNoAccount \<Rightarrow> no_account_error
               | LogFailed e \<Rightarrow> not_ok e
               | LogRan ok _ out err \<Rightarrow>
                   if ok then
                     (let ls = lines (from_utf8_lossy out)
                      in JObj [(''ok'', JBool True), (''path'', JStr p), (''total_lines'', JInt (int (length ls))),
                           (''lines'', JArr (map JStr ls))])
                   else not_ok (log_read_error err)) })"

definition parse_grep_line :: "string \<Rightarrow> nat \<times> bool \<times> string" where
  "parse_grep_line line =
     (let numbered = (\<lambda>c. case split_once c line of
                            None \<Rightarrow> None
                          | Some (n, rest) \<Rightarrow> map_option (\<lambda>k. (k, rest)) (parse_uint U64_MAX n))
      in case numbered (CHR '':'') of
           Some (k, rest) \<Rightarrow> (k, True, rest)
         | None \<Rightarrow> (case numbered (CHR ''-'') of
               Some (k, rest) \<Rightarrow> (k, False, rest)
             | None \<Rightarrow> (0, False, line)))"

definition grep_json :: "nat \<times> bool \<times> string \<Rightarrow> json" where
  "grep_json r = JObj [(''num'', JInt (int (fst r))), (''match'', JBool (fst (snd r))), (''text'', JStr (snd (snd r)))]"

text \<open>Groups end at a line \<open>--\<close>; a line outside the range of dates is left out.\<close>

fun grep_groups ::
  "(string \<Rightarrow> int option option) \<Rightarrow> int option \<Rightarrow> int option \<Rightarrow> json list \<Rightarrow> string list \<Rightarrow> json list list option" where
  "grep_groups time from to cur [] = Some (if cur = [] then [] else [cur])"
| "grep_groups time from to cur (line # ls) =
     (if line = ''--'' then
        map_option (\<lambda>gs. (if cur = [] then [] else [cur]) @ gs) (grep_groups time from to [] ls)
      else (let r = parse_grep_line line
            in Option.bind (if from \<noteq> None \<or> to \<noteq> None then time (snd (snd r)) else Some None) (\<lambda>t.
              if (case t of None \<Rightarrow> False | Some x \<Rightarrow> outside from to x)
              then grep_groups time from to cur ls
              else grep_groups time from to (cur @ [grep_json r]) ls)))"

definition parse_grep_output ::
  "'w date_lib \<Rightarrow> string \<Rightarrow> string option \<Rightarrow> string option \<Rightarrow> string \<Rightarrow> json list option" where
  "parse_grep_output dl year date_from date_to out =
     map_option (map (\<lambda>g. JObj [(''lines'', JArr g)]))
       (grep_groups (extract_timestamp dl year) (Option.bind date_from (parse_filter_date dl True))
          (Option.bind date_to (parse_filter_date dl False)) [] (lines out))"

definition grep_args :: "nat \<Rightarrow> nat \<Rightarrow> nat \<Rightarrow> string \<Rightarrow> string \<Rightarrow> string list" where
  "grep_args before after n query path =
     [''grep'', ''-n'', ''-i'']
     @ (if before > 0 \<or> after > 0 then [''-B'' @ show_nat before, ''-A'' @ show_nat after] else [])
     @ (if n > 0 then [''-m'' @ show_nat n] else [])
     @ [''-F'', ''--'', query, path]"

definition search_log ::
  "'w agent_host \<Rightarrow> 'w date_lib \<Rightarrow> json \<Rightarrow> string \<Rightarrow> string \<Rightarrow> ('w, json option) act" where
  "search_log h dl data user password =
     (let query = str_field data ''query'';
          date_from = jget_str data ''date_from''; date_to = jget_str data ''date_to'';
          n = (if date_from \<noteq> None \<or> date_to \<noteq> None then 0 else min (unwrap_or 100 (nat_field data ''lines'')) 10000);
          before = min (unwrap_or 0 (nat_field data ''before'')) 50;
          after = min (unwrap_or 0 (nat_field data ''after'')) 50
      in case validate_log_path (str_field data ''path'') of
           Inl e \<Rightarrow> ret (Some (not_ok e))
         | Inr p \<Rightarrow>
             if query = [] then ret (Some (not_ok ''query is empty''))
             else do {
               r \<leftarrow> broker_output h user password (grep_args before after n query p);
               year \<leftarrow> current_year dl;
               ret (case r of
                      LogNoAccount \<Rightarrow> Some no_account_error
                    | LogFailed e \<Rightarrow> Some (not_ok e)
                    | LogRan ok code out err \<Rightarrow>
                        if ok \<or> code = Some 1 then
                          map_option (\<lambda>ms. JObj
                            [(''ok'', JBool True), (''path'', JStr p), (''query'', JStr query),
                             (''match_count'', JInt (int (length ms))), (''matches'', JArr ms)])
                            (parse_grep_output dl year date_from date_to (from_utf8_lossy out))
                        else Some (not_ok (log_read_error err))) })"

text \<open>A line without a time follows the line before it, once one is kept.\<close>

fun filter_lines ::
  "(string \<Rightarrow> int option option) \<Rightarrow> int option \<Rightarrow> int option \<Rightarrow> nat \<Rightarrow> json list \<Rightarrow> string list \<Rightarrow> json list option" where
  "filter_lines time from to i acc [] = Some acc"
| "filter_lines time from to i acc (line # ls) =
     (let kept = acc @ [JObj [(''num'', JInt (int (i + 1))), (''text'', JStr line)]]
      in case time line of
           None \<Rightarrow> None
         | Some (Some t) \<Rightarrow> filter_lines time from to (i + 1) (if outside from to t then acc else kept) ls
         | Some None \<Rightarrow> filter_lines time from to (i + 1) (if acc = [] then acc else kept) ls)"

definition filtered_json :: "string \<Rightarrow> json list \<Rightarrow> json" where
  "filtered_json path ls =
     JObj [(''ok'', JBool True), (''path'', JStr path), (''total_lines'', JInt (int (length ls))), (''lines'', JArr ls)]"

definition filter_by_date ::
  "'w agent_host \<Rightarrow> 'w date_lib \<Rightarrow> json \<Rightarrow> string \<Rightarrow> string \<Rightarrow> ('w, json option) act" where
  "filter_by_date h dl data user password =
     (let from = Option.bind (jget_str data ''date_from'') (parse_filter_date dl True);
          to = Option.bind (jget_str data ''date_to'') (parse_filter_date dl False)
      in case validate_log_path (str_field data ''path'') of
           Inl e \<Rightarrow> ret (Some (not_ok e))
         | Inr p \<Rightarrow>
             if from = None \<and> to = None then ret (Some (not_ok ''no date range specified''))
             else do {
               r \<leftarrow> broker_output h user password [''cat'', ''--'', p];
               year \<leftarrow> current_year dl;
               ret (case r of
                      LogNoAccount \<Rightarrow> Some no_account_error
                    | LogFailed e \<Rightarrow> Some (not_ok e)
                    | LogRan ok _ out err \<Rightarrow>
                        if ok then
                          map_option (filtered_json p)
                            (filter_lines (extract_timestamp dl year) from to 0 [] (lines (from_utf8_lossy out)))
                        else Some (not_ok (log_read_error err))) })"

section \<open>The handler\<close>

definition always :: "('w, 'a) act \<Rightarrow> ('w, 'a option) act" where
  "always m = do { x \<leftarrow> m; ret (Some x) }"

definition log_result :: "'w agent_host \<Rightarrow> 'w date_lib \<Rightarrow> json \<Rightarrow> ('w, json option) act" where
  "log_result h dl data =
     (let action = str_field data ''action''; user = str_field data ''_user''; password = str_field data ''password''
      in if action \<in> {''list'', ''refresh''} then always (list_log_files h user password)
         else if action = ''tail'' then
           always (tail_log h (str_field data ''path'') (unwrap_or 100 (nat_field data ''lines'')) user password)
         else if action = ''search'' then search_log h dl data user password
         else if action = ''filter'' then filter_by_date h dl data user password
         else ret (Some (not_ok (''unknown action: '' @ action))))"

definition log_answer :: "'w agent_host \<Rightarrow> 'w date_lib \<Rightarrow> json \<Rightarrow> ('w, json option) act" where
  "log_answer h dl data = do {
     r \<leftarrow> log_result h dl data;
     ret (map_option (\<lambda>d. JObj
       [(''type'', JStr ''response''), (''action'', JStr (str_field data ''action'')), (''data'', d)]) r) }"

definition log_files :: "'w agent_host \<Rightarrow> 'w date_lib \<Rightarrow> 'w agent_state handler" where
  "log_files h dl = conversing_or_panic ''log.files'' (log_answer h dl)"

section \<open>What it may run\<close>

definition log_reading :: "string list \<Rightarrow> bool" where
  "log_reading args \<longleftrightarrow> args = find_args \<or>
     (\<exists>p. validate_log_path p = Inr p \<and>
        (args = [''cat'', ''--'', p] \<or> (\<exists>n. args = [''tail'', ''-n'', n, ''--'', p]) \<or>
         (\<exists>before after n query. args = grep_args before after n query p)))"

definition log_confined :: "string \<Rightarrow> string \<Rightarrow> effect \<Rightarrow> bool" where
  "log_confined user password e \<longleftrightarrow> (\<exists>pw args. e = Ran (brokered_command user pw password args) \<and> log_reading args)"

text \<open>A program that starts at most one command.\<close>

definition one_read :: "(effect \<Rightarrow> bool) \<Rightarrow> ('w, 'a) act \<Rightarrow> bool" where
  "one_read P m \<longleftrightarrow> yields m (\<lambda>_ es. es = [] \<or> (\<exists>e. es = [e] \<and> P e))"

lemma one_read_ret: "one_read P (ret x)"
  by (simp add: one_read_def yields_ret)

lemma one_read_bind:
  assumes "one_read P m" and "\<And>x. emits (\<lambda>_. False) (f x)"
  shows "one_read P (m \<bind> f)"
proof -
  have "yields (f x) (\<lambda>_ es. es = [])" for x
    using assms(2) [of x] by (simp add: emits_def) (erule yields_mono, simp add: list_all_iff)
  then have "yields (f x) (\<lambda>_ es'. es @ es' = [] \<or> (\<exists>e. es @ es' = [e] \<and> P e))"
    if "es = [] \<or> (\<exists>e. es = [e] \<and> P e)" for x es
    by (rule yields_mono) (use that in auto)
  then show ?thesis unfolding one_read_def by (rule yields_bind [OF assms(1) [unfolded one_read_def]])
qed

lemma one_read_if: "(b \<Longrightarrow> one_read P m) \<Longrightarrow> (\<not> b \<Longrightarrow> one_read P m') \<Longrightarrow> one_read P (if b then m else m')"
  by simp

lemma one_read_sum:
  "(\<And>y. x = Inl y \<Longrightarrow> one_read P (f y)) \<Longrightarrow> (\<And>y. x = Inr y \<Longrightarrow> one_read P (g y)) \<Longrightarrow>
   one_read P (case x of Inl y \<Rightarrow> f y | Inr y \<Rightarrow> g y)"
  by (cases x) auto

lemma one_read_broker:
  "log_reading args \<Longrightarrow> one_read (log_confined user password) (broker_output h user password args)"
  unfolding one_read_def
  by (rule yieldsI)
     (auto simp: broker_output_def log_confined_def dest: spawn_log split: option.split prod.split sum.split)

lemma validated_path: "validate_log_path p = Inr q \<Longrightarrow> q = p \<and> validate_log_path p = Inr p"
  by (auto simp: validate_log_path_def split: if_splits)

lemma log_reading_intros:
  "log_reading find_args"
  "validate_log_path p = Inr q \<Longrightarrow> log_reading [''cat'', ''--'', q]"
  "validate_log_path p = Inr q \<Longrightarrow> log_reading [''tail'', ''-n'', n, ''--'', q]"
  "validate_log_path p = Inr q \<Longrightarrow> log_reading (grep_args before after k query q)"
proof -
  show "log_reading find_args" by (simp add: log_reading_def)
  show "log_reading [''cat'', ''--'', q]" "log_reading [''tail'', ''-n'', n, ''--'', q]"
      "log_reading (grep_args before after k query q)" if "validate_log_path p = Inr q"
    unfolding log_reading_def using validated_path [OF that] by blast+
qed

lemma one_read_answer:
  "one_read (log_confined (str_field d ''_user'') (str_field d ''password'')) (log_answer h dl d)"
proof -
  have quiet: "emits (\<lambda>_. False) (ret x)" "emits (\<lambda>_. False) (current_year dl)" for x and dl :: "'w date_lib"
    by (simp_all add: emits_ret current_year_def emits_pure)
  show ?thesis
    unfolding log_answer_def log_result_def always_def list_log_files_def tail_log_def search_log_def
      filter_by_date_def Let_def
    by (intro one_read_bind one_read_if one_read_sum one_read_ret one_read_broker emits_bind quiet;
        rule log_reading_intros; assumption)
qed

text \<open>
  The log viewer reads as the session's user only: a message starts at most one command,
  which takes the identity of the user the message is for, goes through \<open>sudo\<close> with the given
  password or not at all, and is one of four readers, whose file is a path under \<open>/var/log\<close> without
  two dots in a row and stands where no option can stand.
\<close>

theorem log_reads_confined:
  assumes "hd_data (log_files h dl) ch d s = (out, s')"
  shows "w_log (st_world s') = w_log (st_world s) \<or>
    (\<exists>e. w_log (st_world s') = w_log (st_world s) @ [e] \<and>
       log_confined (str_field d ''_user'') (str_field d ''password'') e)"
proof -
  obtain es where es: "w_log (snd (run_state (log_answer h dl d) (st_world s))) = w_log (st_world s) @ es"
      "es = [] \<or> (\<exists>e. es = [e] \<and> log_confined (str_field d ''_user'') (str_field d ''password'') e)"
    using one_read_answer [of d h dl] unfolding one_read_def yields_def by blast
  have "st_world s' = snd (run_state (log_answer h dl d) (st_world s))"
    using assms by (auto simp: log_files_def conversing_or_panic_data split: option.splits)
  with es show ?thesis by auto
qed

lemma log_confined_acts_as: "log_confined user password e \<Longrightarrow> acts_as B user e"
  by (auto simp: log_confined_def acts_as_def brokered_command_def)

lemma one_read_emits: "one_read P m \<Longrightarrow> emits P m"
  unfolding one_read_def emits_def by (erule yields_mono) auto

interpretation log_files: bounded_handler "log_files h dl" log_confined
  unfolding log_files_def by (intro bounded_conversing_or_panic one_read_emits one_read_answer)

section \<open>A line that stops the agent\<close>

lemma filter_lines_panic: "l \<in> set ls \<Longrightarrow> time l = None \<Longrightarrow> filter_lines time from to i acc ls = None"
  by (induction ls arbitrary: i acc) (auto simp: Let_def split: option.split)

lemma split_character_panics:
  assumes "15 \<le> length (trim l)" and "\<not> char_boundary (trim l) 15" and "trim l ! 4 \<noteq> CHR ''-''"
  shows "extract_timestamp dl year l = None"
  using assms by (simp add: extract_timestamp_def iso_time_def syslog_time_def or_time_def str_slice_def)

text \<open>
  One line of a log can stop the agent: when a line of fifteen bytes or more has a character
  across its fifteenth byte, asking for the lines of that file in a range of dates panics in the
  agent's main task, and nothing is answered.
\<close>

theorem log_line_crashes_agent:
  assumes "str_field d ''action'' = ''filter''" and "validate_log_path (str_field d ''path'') = Inr p"
    and "jget_str d ''date_from'' = Some from" and "parse_filter_date dl True from \<noteq> None"
    and "is_valid_username h (str_field d ''_user'')" and "lookup_user h (str_field d ''_user'') = Some pw"
    and "ah_spawn h (brokered_command (str_field d ''_user'') pw (str_field d ''password'') [''cat'', ''--'', p])
       (w_os (st_world s)) = (Inr child, os)"
    and "ch_in_time child" and "ch_wait child = Inr True"
    and "l \<in> set (lines (from_utf8_lossy (take OUT_CAP (stream (ch_out child)))))"
    and "15 \<le> length (trim l)" and "\<not> char_boundary (trim l) 15" and "trim l ! 4 \<noteq> CHR ''-''"
  shows "fst (hd_data (log_files h dl) ch d s) = [] \<and> st_crashed (snd (hd_data (log_files h dl) ch d s))"
proof -
  have panic: "filter_lines (extract_timestamp dl year) a b i acc
      (lines (from_utf8_lossy (take OUT_CAP (stream (ch_out child))))) = None" for year a b i acc
    using assms(10) split_character_panics [OF assms(11-13)] by (rule filter_lines_panic)
  have "fst (run_state (log_answer h dl d) (st_world s)) = None"
    using assms(1-9) panic
    by (auto simp: log_answer_def log_result_def filter_by_date_def broker_output_def spawn_def brokered_result_def
        current_year_def run_simps Let_def)
  then show ?thesis by (simp add: log_files_def conversing_or_panic_data)
qed

definition bad_line :: string where
  "bad_line = replicate 14 (CHR ''A'') @ bytes [195, 169]"

definition bad_log_host :: "nat agent_host" where
  "bad_log_host = toy_host\<lparr>ah_spawn := (\<lambda>c n. (Inr \<lparr>ch_out = [Some bad_line], ch_err = [], ch_in_time = True,
     ch_wait = Inr True, ch_code = Some 0\<rparr>, n + 1))\<rparr>"

definition toy_dates :: "nat date_lib" where
  "toy_dates = \<lparr>dl_datetime = (\<lambda>_ _. None), dl_date = (\<lambda>_ _. Some 0), dl_year = (\<lambda>_. ''2026'')\<rparr>"

definition log_request :: json where
  "log_request = JObj
     [(''action'', JStr ''filter''), (''path'', JStr ''/var/log/syslog''), (''date_from'', JStr ''1970-01-01''),
      (''_user'', JStr ''alice'')]"

lemma bad_line_facts:
  "trim bad_line = bad_line" "lines bad_line = [bad_line]" "from_utf8_lossy bad_line = bad_line"
  "\<not> char_boundary bad_line 15" "length bad_line = 16" "bad_line ! 4 = CHR ''A''"
proof -
  have A: "\<not> is_ws_char ''A''" "is_ascii CHR ''A''" by (simp_all add: is_ws_char_single is_ascii_def byte_def)
  have e: "\<not> is_ws_char (bytes [195, 169])" by (simp add: is_ws_char_def ws_chars_def bytes_def)
  have chars: "chars_of bad_line = map (\<lambda>c. [c]) (replicate 14 (CHR ''A'')) @ [bytes [195, 169]]"
    using A by (simp add: bad_line_def chars_of_plain_append list_all_iff)
               (simp add: bytes_def is_ascii_def is_cont_def byte_def)
  show "trim bad_line = bad_line" by (rule trim_solid) (use A e in \<open>auto simp: chars\<close>)
  have "NL \<notin> set (bytes [195, 169])" by code_simp
  then have "NL \<notin> set bad_line" by (simp add: bad_line_def)
  then show "lines bad_line = [bad_line]" by (simp add: lines_of_NL_free) (simp add: bad_line_def)
  show "from_utf8_lossy bad_line = bad_line"
    by code_simp
  show "\<not> char_boundary bad_line 15" "length bad_line = 16" "bad_line ! 4 = CHR ''A''"
    by (simp_all add: char_boundary_def bad_line_def bytes_def is_cont_def byte_def nth_append)
qed

theorem log_line_crashes_agent_witness:
  "st_crashed (snd (hd_data (log_files bad_log_host toy_dates) ''c'' log_request toy_state))"
proof -
  have fields: "str_field log_request ''action'' = ''filter''" "str_field log_request ''path'' = ''/var/log/syslog''"
      "jget_str log_request ''date_from'' = Some ''1970-01-01''" "str_field log_request ''_user'' = ''alice''"
      "str_field log_request ''password'' = []"
    by (simp_all add: log_request_def str_field_def map_str_def)
  have path: "validate_log_path ''/var/log/syslog'' = Inr ''/var/log/syslog''"
    by (simp add: validate_log_path_def log_base_def starts_with_def contains_str_def)
  have user: "is_valid_username bad_log_host ''alice''" "lookup_user bad_log_host ''alice'' = Some toy_alice"
  proof -
    have "is_alphanumeric bad_log_host = is_alphanumeric toy_host"
      by (rule ext) (simp add: is_alphanumeric_def bad_log_host_def split: list.split)
    note eq = this
    show "is_valid_username bad_log_host ''alice''"
      using alice_valid unfolding is_valid_username_def eq .
    show "lookup_user bad_log_host ''alice'' = Some toy_alice"
      using toy_lookup by (simp add: bad_log_host_def lookup_user_def)
  qed
  have "bad_line \<in> set (lines (from_utf8_lossy (take OUT_CAP (stream [Some bad_line]))))"
    using bad_line_facts by (auto simp: OUT_CAP_def)
  with log_line_crashes_agent [of log_request "''/var/log/syslog''" "''1970-01-01''" toy_dates bad_log_host toy_alice
      toy_state _ _ bad_line "''c''"] fields path user bad_line_facts
  show ?thesis by (simp add: bad_log_host_def parse_filter_date_def toy_dates_def)
qed

theorem log_reads_confined_witness:
  "w_log (st_world (snd (hd_data (log_files toy_host toy_dates) ''c'' log_request toy_state))) = w_log (st_world toy_state) \<or>
    (\<exists>e. w_log (st_world (snd (hd_data (log_files toy_host toy_dates) ''c'' log_request toy_state))) =
         w_log (st_world toy_state) @ [e] \<and>
       log_confined (str_field log_request ''_user'') (str_field log_request ''password'') e)"
  by (rule log_reads_confined [OF surjective_pairing])

end
