(* ===== verification/Certs.thy ===== *)
theory Certs
  imports Handlers TextFacts Paths
begin

text \<open>
  \<open>certs.list\<close>, \<open>certs.manage\<close>, \<open>certs.selfsigned\<close> and \<open>certs.letsencrypt\<close>
  (\<open>agent/src/handlers/certs.rs\<close>): certificates read as the session's user, the trust store,
  and the temporary files the agent works with itself.

  What the code takes from the system and from libraries is a record: eight random bytes, the
  exclusive creation of a file (an error, or the file with mode 600), whether a directory entry
  is a directory itself, the base64 decoder, the days until a date in the format of \<open>openssl\<close>, and
  the process number.
\<close>

record 'w cert_env =
  ce_random :: "'w \<Rightarrow> nat \<Rightarrow> string"
  ce_create :: "string \<Rightarrow> 'w \<Rightarrow> string option \<times> 'w"
  ce_entry_dir :: "'w \<Rightarrow> string \<Rightarrow> bool"
  ce_decode :: "string \<Rightarrow> string option"
  ce_days :: "'w \<Rightarrow> string \<Rightarrow> int option"
  ce_pid :: nat

section \<open>Temporary files\<close>

text \<open>The \<open>n\<close>th name a request asks for; the names of one request differ by their random part.\<close>

definition tmp_name :: "string \<Rightarrow> string \<Rightarrow> string \<Rightarrow> string" where
  "tmp_name tag rand ext = ''/tmp/tenodera-'' @ tag @ ''-'' @ concat (map hex2 rand) @ ''.'' @ ext"

definition tmp_path :: "'w cert_env \<Rightarrow> nat \<Rightarrow> string \<Rightarrow> string \<Rightarrow> ('w, string) act" where
  "tmp_path ce n tag ext = State (\<lambda>w. (tmp_name tag (ce_random ce (w_os w) n) ext, w))"

definition create_new :: "'w cert_env \<Rightarrow> string \<Rightarrow> ('w, string option) act" where
  "create_new ce path = State (\<lambda>w. case ce_create ce path (w_os w) of
     (r, os) \<Rightarrow> (r, w\<lparr>w_os := os, w_log := w_log w @ (if r = None then [Wrote path []] else [])\<rparr>))"

section \<open>Parsing a certificate\<close>

definition extract_field :: "string \<Rightarrow> string \<Rightarrow> string" where
  "extract_field line fld =
     (let val = (\<lambda>part. case strip_prefix (fld @ '' ='') (trim part) of
                          Some rest \<Rightarrow> Some (trim rest)
                        | None \<Rightarrow> map_option trim (strip_prefix (fld @ ''='') (trim part)))
      in case List.map_filter val (split_on (CHR '','') line) of [] \<Rightarrow> [] | v # _ \<Rightarrow> v)"

record cert_text =
  ct_cn :: string
  ct_issuer_cn :: string
  ct_issuer_org :: string
  ct_before :: string
  ct_after :: string
  ct_sans :: "string list"
  ct_ca :: bool
  ct_in_san :: bool
  ct_in_bc :: bool

definition san_of :: "string \<Rightarrow> string option" where
  "san_of part =
     (case strip_prefix ''DNS:'' (trim part) of Some v \<Rightarrow> Some v | None \<Rightarrow>
     (case strip_prefix ''IP Address:'' (trim part) of Some v \<Rightarrow> Some v | None \<Rightarrow> strip_prefix ''IP:'' (trim part)))"

definition cert_line :: "cert_text \<Rightarrow> string \<Rightarrow> cert_text" where
  "cert_line c raw =
     (let l = trim raw
      in if starts_with ''subject='' l then c\<lparr>ct_cn := extract_field l ''CN''\<rparr>
         else if starts_with ''issuer='' l then
           c\<lparr>ct_issuer_cn := extract_field l ''CN'', ct_issuer_org := extract_field l ''O''\<rparr>
         else if starts_with ''notBefore='' l then c\<lparr>ct_before := trim_start_str ''notBefore='' l\<rparr>
         else if starts_with ''notAfter='' l then c\<lparr>ct_after := trim_start_str ''notAfter='' l\<rparr>
         else if contains_str ''Subject Alternative Name'' l then c\<lparr>ct_in_san := True, ct_in_bc := False\<rparr>
         else if contains_str ''Basic Constraints'' l then c\<lparr>ct_in_bc := True, ct_in_san := False\<rparr>
         else if ct_in_san c \<and> l \<noteq> [] then
           c\<lparr>ct_sans := ct_sans c @ List.map_filter san_of (split_on (CHR '','') l), ct_in_san := False\<rparr>
         else if ct_in_bc c \<and> l \<noteq> [] then
           c\<lparr>ct_ca := ct_ca c \<or> contains_str ''CA:TRUE'' l, ct_in_bc := False\<rparr>
         else c\<lparr>ct_in_san := False, ct_in_bc := False\<rparr>)"

definition cert_text_of :: "string \<Rightarrow> cert_text" where
  "cert_text_of out =
     foldl cert_line
       \<lparr>ct_cn = [], ct_issuer_cn = [], ct_issuer_org = [], ct_before = [], ct_after = [], ct_sans = [],
        ct_ca = False, ct_in_san = False, ct_in_bc = False\<rparr> (lines out)"

definition openssl_date :: "string \<Rightarrow> string" where
  "openssl_date s = trim (trim_end_str '' UTC'' (trim_end_str '' GMT'' (trim s)))"

definition path_name :: "string \<Rightarrow> string" where
  "path_name path = unwrap_or [] (path_file_name (components path))"

definition cert_json :: "string \<Rightarrow> string \<Rightarrow> cert_text \<Rightarrow> int \<Rightarrow> (string \<times> json) list" where
  "cert_json path source c days =
     [(''path'', JStr path), (''filename'', JStr (path_name path)),
      (''cn'', JStr (if ct_cn c = [] then path_name path else ct_cn c)),
      (''issuer_cn'', JStr (ct_issuer_cn c)), (''issuer_org'', JStr (ct_issuer_org c)),
      (''not_before'', JStr (ct_before c)), (''not_after'', JStr (ct_after c)), (''days_remaining'', JInt days),
      (''sans'', JArr (map JStr (ct_sans c))), (''is_ca'', JBool (ct_ca c)), (''source'', JStr source)]"

definition x509_args :: "string \<Rightarrow> string list" where
  "x509_args path =
     [''openssl'', ''x509'', ''-in'', path, ''-noout'', ''-subject'', ''-issuer'', ''-startdate'', ''-enddate'',
      ''-ext'', ''subjectAltName'', ''-ext'', ''basicConstraints'']"

text \<open>Run as the user, with \<open>sudo\<close>, or, for the empty name, by the agent itself.\<close>

definition openssl_out :: "'w agent_host \<Rightarrow> string \<Rightarrow> string \<Rightarrow> string \<Rightarrow> ('w, string) act" where
  "openssl_out h path user password =
     (if user = [] then run h (x509_args path)
      else do { r \<leftarrow> as_reader h user password (x509_args path); ret (unwrap_or [] r) })"

text \<open>The certificate with its days, by which the list is sorted.\<close>

type_synonym cert_row = "int \<times> (string \<times> json) list"

definition parse_cert ::
  "'w agent_host \<Rightarrow> 'w cert_env \<Rightarrow> string \<Rightarrow> string \<Rightarrow> string \<Rightarrow> string \<Rightarrow> ('w, cert_row option) act" where
  "parse_cert h ce path source user password = do {
     out \<leftarrow> openssl_out h path user password;
     if contains_str ''unable to load'' out \<or> starts_with ''error:'' out \<or> out = [] then ret None
     else (let c = cert_text_of out
           in State (\<lambda>w. (let days = unwrap_or 0 (ce_days ce (w_os w) (openssl_date (ct_after c)))
                         in Some (days, cert_json path source c days), w))) }"

section \<open>Scanning\<close>

definition CERT_DIRS :: "(string \<times> string) list" where
  "CERT_DIRS =
     [(''/usr/local/share/ca-certificates'', ''trusted''), (''/etc/pki/ca-trust/source/anchors'', ''trusted''),
      (''/etc/ca-certificates/trust-source/anchors'', ''trusted''), (''/etc/nginx/ssl'', ''nginx''),
      (''/etc/nginx/certs'', ''nginx''), (''/etc/apache2/ssl'', ''apache''), (''/etc/httpd/conf/ssl'', ''apache'')]"

text \<open>\<open>Path::extension\<close> of a file name.\<close>

definition extension :: "string \<Rightarrow> string" where
  "extension name = (case rsplit_once (CHR ''.'') name of None \<Rightarrow> [] | Some (a, b) \<Rightarrow> if a = [] then [] else b)"

definition cert_exts :: "string list" where
  "cert_exts = [''pem'', ''crt'', ''cer'']"

definition is_entry_dir :: "'w cert_env \<Rightarrow> string \<Rightarrow> ('w, bool) act" where
  "is_entry_dir ce path = State (\<lambda>w. (ce_entry_dir ce (w_os w) path, w))"

text \<open>The entries of one directory: the directories to visit, pushed in order, and the certificates.\<close>

fun cert_entries ::
  "'w agent_host \<Rightarrow> 'w cert_env \<Rightarrow> string list \<Rightarrow> string \<Rightarrow> string \<Rightarrow> string \<Rightarrow> string \<Rightarrow> string list \<Rightarrow>
   ('w, string list \<times> cert_row list) act" where
  "cert_entries h ce skip source user password dir [] = ret ([], [])"
| "cert_entries h ce skip source user password dir (name # names) =
     (let path = dir @ ''/'' @ name
      in do {
        is_dir \<leftarrow> is_entry_dir ce path;
        row \<leftarrow> (if \<not> is_dir \<and> extension name \<in> set cert_exts then parse_cert h ce path source user password else ret None);
        rest \<leftarrow> cert_entries h ce skip source user password dir names;
        ret ((if is_dir \<and> name \<notin> set skip then [path] else []) @ fst rest,
             (case row of None \<Rightarrow> [] | Some r \<Rightarrow> [r]) @ snd rest) })"

text \<open>The loop over the stack, whose top is the head here. It ends when the stack is empty; how often
  it turns depends on the directories found, so the model has a bound, and None when it runs out.\<close>

fun scan_stack ::
  "'w agent_host \<Rightarrow> 'w cert_env \<Rightarrow> nat \<Rightarrow> string list \<Rightarrow> string \<Rightarrow> string \<Rightarrow> string \<Rightarrow> string list \<Rightarrow>
   ('w, cert_row list option) act" where
  "scan_stack h ce fuel skip source user password [] = ret (Some [])"
| "scan_stack h ce 0 skip source user password (d # ds) = ret None"
| "scan_stack h ce (Suc fuel) skip source user password (d # ds) = do {
     names \<leftarrow> read_dir h d;
     found \<leftarrow> cert_entries h ce skip source user password d (unwrap_or [] names);
     rest \<leftarrow> scan_stack h ce fuel skip source user password (rev (fst found) @ ds);
     ret (map_option (\<lambda>rs. snd found @ rs) rest) }"

definition scan_dir_recursive ::
  "'w agent_host \<Rightarrow> 'w cert_env \<Rightarrow> nat \<Rightarrow> string \<Rightarrow> string list \<Rightarrow> string \<Rightarrow> string \<Rightarrow> string \<Rightarrow>
   ('w, cert_row list option) act" where
  "scan_dir_recursive h ce fuel dir skip source user password = do {
     there \<leftarrow> path_exists h dir;
     if there then scan_stack h ce fuel skip source user password [dir] else ret (Some []) }"

definition flat_entry ::
  "'w agent_host \<Rightarrow> 'w cert_env \<Rightarrow> string \<Rightarrow> string \<Rightarrow> string \<Rightarrow> string \<Rightarrow> string \<Rightarrow> ('w, cert_row option) act" where
  "flat_entry h ce source user password dir name =
     (let path = dir @ ''/'' @ name
      in if extension name \<notin> set cert_exts \<or> starts_with ''/etc/ssl/'' path then ret None
         else parse_cert h ce path source user password)"

definition flat_dir ::
  "'w agent_host \<Rightarrow> 'w cert_env \<Rightarrow> string \<Rightarrow> string \<Rightarrow> string \<times> string \<Rightarrow> ('w, cert_row list) act" where
  "flat_dir h ce user password ds = do {
     there \<leftarrow> path_exists h (fst ds);
     if there then do {
       names \<leftarrow> read_dir h (fst ds);
       rows \<leftarrow> act_map (flat_entry h ce (snd ds) user password (fst ds)) (unwrap_or [] names);
       ret (List.map_filter (\<lambda>r. r) rows) }
     else ret [] }"

definition le_base :: string where
  "le_base = ''/etc/letsencrypt/live''"

definition le_entry ::
  "'w agent_host \<Rightarrow> 'w cert_env \<Rightarrow> string \<Rightarrow> string \<Rightarrow> string \<Rightarrow> ('w, cert_row option) act" where
  "le_entry h ce user password name =
     (let path = le_base @ ''/'' @ name @ ''/fullchain.pem''
      in do {
        there \<leftarrow> path_exists h path;
        if there then parse_cert h ce path ''letsencrypt'' user password else ret None })"

definition le_certs :: "'w agent_host \<Rightarrow> 'w cert_env \<Rightarrow> string \<Rightarrow> string \<Rightarrow> ('w, cert_row list) act" where
  "le_certs h ce user password = do {
     there \<leftarrow> path_exists h le_base;
     if there then do {
       names \<leftarrow> read_dir h le_base;
       rows \<leftarrow> act_map (le_entry h ce user password) (unwrap_or [] names);
       ret (List.map_filter (\<lambda>r. r) rows) }
     else ret [] }"

definition scan_all_certs ::
  "'w agent_host \<Rightarrow> 'w cert_env \<Rightarrow> nat \<Rightarrow> string \<Rightarrow> string \<Rightarrow> ('w, json option) act" where
  "scan_all_certs h ce fuel user password = do {
     there \<leftarrow> installed h ''openssl'';
     if \<not> there then ret (Some (JObj [(''error'', JStr ''openssl not found''), (''certs'', JArr [])]))
     else do {
       le \<leftarrow> le_certs h ce user password;
       ssl \<leftarrow> scan_dir_recursive h ce fuel ''/etc/ssl'' [''certs''] ''ssl'' user password;
       case ssl of
         None \<Rightarrow> ret None
       | Some rows \<Rightarrow> do {
           flat \<leftarrow> act_map (flat_dir h ce user password) CERT_DIRS;
           ret (Some (JObj [(''certs'',
             JArr (map (\<lambda>r. JObj (snd r)) (sort_key fst (le @ rows @ concat flat))))])) } } }"

section \<open>Reading and editing a certificate\<close>

definition cert_path_ok :: "string \<Rightarrow> bool" where
  "cert_path_ok path \<longleftrightarrow> path \<noteq> [] \<and> \<not> contains_str ''..'' path \<and> starts_with ''/'' path"

definition cert_file :: "string \<Rightarrow> bool" where
  "cert_file path \<longleftrightarrow> list_ex (\<lambda>e. ends_with e path) cert_exts"

definition restricted :: json where
  "restricted =
     JObj [(''ok'', JBool False), (''restricted'', JBool True),
       (''error'', JStr (''cannot read this certificate '' @ em_dash @ '' enable superuser mode if you lack access''))]"

definition read_cert_pem :: "'w agent_host \<Rightarrow> string \<Rightarrow> string \<Rightarrow> string \<Rightarrow> ('w, json) act" where
  "read_cert_pem h path user password =
     (if \<not> cert_path_ok path then ret (not_ok ''invalid path'')
      else if \<not> cert_file path then ret (not_ok ''not a certificate file'')
      else do {
        out \<leftarrow> as_reader h user password [''cat'', ''--'', path];
        ret (case out of
               Some pem \<Rightarrow>
                 if trim pem \<noteq> [] then
                   JObj [(''ok'', JBool True), (''path'', JStr path),
                     (''pem'', JStr (concat (take 262144 (chars_of pem))))]
                 else restricted
             | None \<Rightarrow> restricted) })"

text \<open>The file is staged under a random name, parsed by the agent itself, and removed again; only then
  it is written with \<open>sudo\<close>.\<close>

definition save_pem :: "'w agent_host \<Rightarrow> 'w cert_env \<Rightarrow> open_options \<Rightarrow> string \<Rightarrow> string \<Rightarrow> ('w, json) act" where
  "save_pem h ce o' user password =
     (let path = opt_str o' ''path''; pem = opt_str o' ''pem''
      in ensure (cert_path_ok path \<and> cert_file path) ''invalid certificate path''
         (ensure (contains_str ''-----BEGIN CERTIFICATE-----'' pem) ''content is not a PEM certificate''
         (do {
            tmp \<leftarrow> tmp_path ce 0 ''edit'' ''pem'';
            e \<leftarrow> put_file h tmp pem;
            ensure (e = None) ''could not stage certificate for validation''
            (do {
               row \<leftarrow> parse_cert h ce tmp ''edit'' [] [];
               delete_file h tmp;
               ensure (row \<noteq> None) ''not a valid certificate (openssl could not parse it)''
               (do {
                  r \<leftarrow> sudo_write h user password [''tee'', path] pem;
                  record_audit user ''cert.save_pem'' path (\<not> has_error r) [];
                  ret (if has_error r then r else JObj [(''ok'', JBool True), (''path'', JStr path)]) }) }) })))"

definition certs_list_answer ::
  "'w agent_host \<Rightarrow> 'w cert_env \<Rightarrow> nat \<Rightarrow> open_options \<Rightarrow> ('w, json option) act" where
  "certs_list_answer h ce fuel o' =
     (let user = opt_str o' ''_user''; password = opt_str o' ''password''; action = map_str (extra o') ''action''
      in if action = Some ''read_pem'' then
           do { d \<leftarrow> read_cert_pem h (opt_str o' ''path'') user password; ret (Some d) }
         else if action = Some ''save_pem'' then
           do { d \<leftarrow> admin_only (options_json o') (save_pem h ce o' user password); ret (Some d) }
         else scan_all_certs h ce fuel user password)"

text \<open>No answer (None) stands for a scan that does not end within the bound.\<close>

definition certs_list :: "'w agent_host \<Rightarrow> 'w cert_env \<Rightarrow> nat \<Rightarrow> 'w agent_state handler" where
  "certs_list h ce fuel =
     \<lparr>hd_payload = ''certs.list'', hd_streaming = False,
      hd_open = (\<lambda>ch o' s. case in_world (certs_list_answer h ce fuel o') s of
                   (Some d, s1) \<Rightarrow> (one_shot ch d, s1) | (None, s1) \<Rightarrow> ([], s1)),
      hd_data = no_data\<rparr>"

section \<open>The trust store\<close>

datatype distro = Debian | Fedora | Arch | Unknown

definition os_field :: "(string \<Rightarrow> string) \<Rightarrow> string \<Rightarrow> string \<Rightarrow> string" where
  "os_field lower key content =
     lower (case List.find (starts_with key) (lines content) of
              None \<Rightarrow> [] | Some l \<Rightarrow> replace_char DQ [] (trim_start_str key l))"

definition distro_of :: "(string \<Rightarrow> string) \<Rightarrow> string \<Rightarrow> distro" where
  "distro_of lower content =
     (let like = os_field lower ''ID_LIKE='' content; i = os_field lower ''ID='' content
      in if i = ''debian'' \<or> i = ''ubuntu'' \<or> contains_str ''debian'' like \<or> contains_str ''ubuntu'' like then Debian
         else if i = ''fedora'' \<or> i = ''rhel'' \<or> i = ''centos'' \<or> contains_str ''fedora'' like \<or> contains_str ''rhel'' like
         then Fedora
         else if i = ''arch'' \<or> contains_str ''arch'' like then Arch
         else Unknown)"

definition detect_distro :: "'w agent_host \<Rightarrow> ('w, distro) act" where
  "detect_distro h = do { f \<leftarrow> read_file h ''/etc/os-release''; ret (distro_of (ah_lower h) (unwrap_or [] f)) }"

definition safe_name :: "'w agent_host \<Rightarrow> string \<Rightarrow> string" where
  "safe_name h name =
     concat (map (\<lambda>ch. if is_alphanumeric h ch \<or> ch \<in> {''-'', ''_'', ''.''} then ch else ''_'') (chars_of name))"

definition store_and_update ::
  "'w agent_host \<Rightarrow> string \<Rightarrow> string \<Rightarrow> string \<Rightarrow> string \<Rightarrow> string list \<Rightarrow> ('w, json) act" where
  "store_and_update h user password dest pem update = do {
     r \<leftarrow> sudo_write h user password [''tee'', dest] pem;
     if has_error r then ret r else sudo h user password update }"

definition trust_anchor :: "'w agent_host \<Rightarrow> string \<Rightarrow> string \<Rightarrow> string \<Rightarrow> string \<Rightarrow> ('w, json) act" where
  "trust_anchor h user password tmp pem = do {
     r \<leftarrow> sudo_write h user password [''tee'', tmp] pem;
     if has_error r then ret r
     else do {
       res \<leftarrow> sudo h user password [''trust'', ''anchor'', ''--store'', tmp];
       _ \<leftarrow> sudo h user password [''rm'', ''-f'', tmp];
       ret res } }"

definition trust_add :: "'w agent_host \<Rightarrow> 'w cert_env \<Rightarrow> json \<Rightarrow> string \<Rightarrow> string \<Rightarrow> ('w, json) act" where
  "trust_add h ce data user password =
     (let pem = str_field data ''pem''; name = safe_name h (unwrap_or ''custom'' (jget_str data ''name''))
      in ensure (pem \<noteq> []) ''missing pem''
         (do {
            d \<leftarrow> detect_distro h;
            case d of
              Debian \<Rightarrow> store_and_update h user password (''/usr/local/share/ca-certificates/'' @ name @ ''.crt'') pem
                [''update-ca-certificates'']
            | Fedora \<Rightarrow> store_and_update h user password (''/etc/pki/ca-trust/source/anchors/'' @ name @ ''.crt'') pem
                [''update-ca-trust'', ''extract'']
            | Arch \<Rightarrow> do { tmp \<leftarrow> tmp_path ce 0 ''trust'' ''crt''; trust_anchor h user password tmp pem }
            | Unknown \<Rightarrow> ret (jerror (''unsupported distro '' @ em_dash @ '' cannot determine trust store path'')) }))"

definition trust_dirs :: "string list" where
  "trust_dirs =
     [''/usr/local/share/ca-certificates/'', ''/etc/pki/ca-trust/source/anchors/'',
      ''/etc/ca-certificates/trust-source/anchors/'']"

definition update_after_removal :: "'w agent_host \<Rightarrow> string \<Rightarrow> string \<Rightarrow> ('w, json) act" where
  "update_after_removal h user password = do {
     d \<leftarrow> detect_distro h;
     case d of
       Debian \<Rightarrow> sudo h user password [''update-ca-certificates'', ''--fresh'']
     | Fedora \<Rightarrow> sudo h user password [''update-ca-trust'']
     | Arch \<Rightarrow> sudo h user password [''trust'', ''extract-compat'']
     | Unknown \<Rightarrow> ret (JObj [(''ok'', JBool True), (''output'', JStr ''removed file (update trust manually)'')]) }"

definition trust_remove :: "'w agent_host \<Rightarrow> json \<Rightarrow> string \<Rightarrow> string \<Rightarrow> ('w, json) act" where
  "trust_remove h data user password =
     (let path = str_field data ''path''
      in ensure (path \<noteq> []) ''missing path''
         (do {
            c \<leftarrow> canonical h path;
            case c of
              Inl _ \<Rightarrow> ret (jerror ''path not found or not accessible'')
            | Inr real \<Rightarrow>
                ensure (list_ex (\<lambda>d. starts_with d real) trust_dirs) ''path not in a known trust store directory''
                (do {
                   rm \<leftarrow> sudo h user password [''rm'', ''-f'', real];
                   if has_error rm then ret rm else update_after_removal h user password }) }))"

section \<open>Parsing what was pasted\<close>

definition create_failed :: "string \<Rightarrow> json" where
  "create_failed e = jerror (''failed to create temp file: '' @ e)"

text \<open>From base64 DER to PEM through two files; an error or the text.\<close>

definition der_to_pem :: "'w agent_host \<Rightarrow> 'w cert_env \<Rightarrow> string \<Rightarrow> ('w, json + string) act" where
  "der_to_pem h ce raw = do {
     der \<leftarrow> tmp_path ce 0 ''import'' ''der'';
     pem \<leftarrow> tmp_path ce 1 ''import'' ''pem'';
     e1 \<leftarrow> create_new ce der;
     case e1 of Some e \<Rightarrow> ret (Inl (create_failed e)) | None \<Rightarrow> do {
       e2 \<leftarrow> create_new ce pem;
       case e2 of Some e \<Rightarrow> ret (Inl (create_failed e)) | None \<Rightarrow>
         (case ce_decode ce (filter (\<lambda>c. c \<noteq> NL \<and> c \<noteq> CR \<and> c \<noteq> CHR '' '') raw) of
            None \<Rightarrow> ret (Inl (jerror ''not valid PEM or base64-encoded DER''))
          | Some body \<Rightarrow> do {
              e3 \<leftarrow> put_file h der body;
              if e3 \<noteq> None then ret (Inl (jerror ''failed to write temp file''))
              else do {
                out \<leftarrow> run h [''openssl'', ''x509'', ''-inform'', ''DER'', ''-in'', der, ''-out'', pem];
                delete_file h der;
                if contains_str ''error'' out then do {
                  delete_file h pem;
                  ret (Inl (jerror (''DER conversion failed: '' @ out))) }
                else do {
                  f \<leftarrow> read_file h pem;
                  delete_file h pem;
                  ret (Inr (unwrap_or [] f)) } } }) } }"

definition parse_pem_text :: "'w agent_host \<Rightarrow> 'w cert_env \<Rightarrow> string \<Rightarrow> ('w, json) act" where
  "parse_pem_text h ce pem =
     ensure (pem \<noteq> []) ''empty certificate after conversion''
     (do {
        tmp \<leftarrow> tmp_path ce 2 ''parse'' ''pem'';
        e1 \<leftarrow> create_new ce tmp;
        case e1 of
          Some e \<Rightarrow> ret (create_failed e)
        | None \<Rightarrow> do {
            e2 \<leftarrow> put_file h tmp pem;
            ensure (e2 = None) ''failed to write temp file''
            (do {
               row \<leftarrow> parse_cert h ce tmp ''import'' [] [];
               delete_file h tmp;
               ret (case row of
                      Some (_, info) \<Rightarrow>
                        JObj [(''ok'', JBool True), (''cert'', JObj (hm_put ''pem'' (JStr pem) info))]
                    | None \<Rightarrow> jerror (''failed to parse certificate '' @ em_dash @ '' not a valid X.509 cert'')) }) } })"

definition parse_pem_input :: "'w agent_host \<Rightarrow> 'w cert_env \<Rightarrow> json \<Rightarrow> ('w, json) act" where
  "parse_pem_input h ce data =
     (let raw = trim (str_field data ''pem'')
      in ensure (str_field data ''pem'' \<noteq> []) ''missing certificate data''
         (do {
            there \<leftarrow> installed h ''openssl'';
            ensure there ''openssl not found''
            (do {
               r \<leftarrow> (if starts_with ''-----BEGIN'' raw then ret (Inr raw) else der_to_pem h ce raw);
               case r of Inl e \<Rightarrow> ret e | Inr pem \<Rightarrow> parse_pem_text h ce pem }) }))"

section \<open>Checking a host\<close>

definition host_char :: "char \<Rightarrow> bool" where
  "host_char c \<longleftrightarrow> is_ascii_alphanumeric c \<or> c \<in> set ''.-[]:''"

definition checked_host :: "string \<Rightarrow> string" where
  "checked_host raw =
     trim_end_matches (CHR ''/'') (trim_start_str ''http://'' (trim_start_str ''https://'' raw))"

definition host_and_port :: "string \<Rightarrow> string \<times> string" where
  "host_and_port host = (case rsplit_once (CHR '':'') host of None \<Rightarrow> (host, ''443'') | Some (a, p) \<Rightarrow> (a, p))"

definition verify_verdict_json :: "string \<Rightarrow> string \<Rightarrow> json" where
  "verify_verdict_json host out =
     (let trusted = contains_str ''Verification: OK'' out \<or> contains_str ''verify return:1'' out \<or>
                    contains_str ''SSL handshake has read'' out;
          failed = contains_str ''verify error'' out \<or> contains_str ''certificate verify failed'' out \<or>
                   contains_str ''Verification error'' out
      in JObj [(''ok'', JBool (trusted \<and> \<not> failed)), (''trusted'', JBool (trusted \<and> \<not> failed)),
           (''output'', JStr (trim out)), (''host'', JStr host)])"

definition verify_host :: "'w agent_host \<Rightarrow> json \<Rightarrow> ('w, json) act" where
  "verify_host h data =
     (let raw = str_field data ''host''; host = checked_host raw; name = fst (host_and_port host);
          port = parse_uint U16_MAX (snd (host_and_port host))
      in ensure (raw \<noteq> []) ''missing host''
         (ensure (name \<noteq> [] \<and> list_all host_char name) ''invalid hostname''
         (case port of
            None \<Rightarrow> ret (jerror ''invalid port'')
          | Some p \<Rightarrow>
              ensure (p > 0) ''invalid port''
              (do {
                 r \<leftarrow> run_raw h ''openssl''
                   [''s_client'', ''-connect'', name @ '':'' @ show_nat p, ''-verify_return_error'', ''-brief''] None;
                 ret (case r of
                        Inl e \<Rightarrow> jerror e
                      | Inr out \<Rightarrow> verify_verdict_json host (join [NL] (take 30 (lines
                          (from_utf8_lossy (out_stdout out) @ from_utf8_lossy (out_stderr out)))))) }))))"

section \<open>Self-signed certificates\<close>

definition subject_of :: "string \<Rightarrow> string \<Rightarrow> string \<Rightarrow> string" where
  "subject_of cn org country =
     ''/CN='' @ cn @ (if org = [] then [] else ''/O='' @ org) @ (if country = [] then [] else ''/C='' @ country)"

definition san_part :: "string \<Rightarrow> string \<Rightarrow> string option" where
  "san_part cn raw =
     (let p = trim raw
      in if p = [] \<or> p = cn then None
         else if CHR '':'' \<in> set p then Some p
         else if is_ascii_digit (hd p) then Some (''IP:'' @ p)
         else Some (''DNS:'' @ p))"

definition san_ext :: "string \<Rightarrow> string \<Rightarrow> string" where
  "san_ext cn raw =
     ''subjectAltName='' @ join '','' ((''DNS:'' @ cn) # List.map_filter (san_part cn) (split_chars ('', '' @ [NL]) raw))"

definition selfsigned_args :: "json \<Rightarrow> string \<Rightarrow> string \<Rightarrow> string list" where
  "selfsigned_args data key cert =
     (let cn = unwrap_or ''localhost'' (jget_str data ''cn'')
      in [''req'', ''-x509'', ''-newkey'', ''rsa:'' @ show_nat (unwrap_or 2048 (nat_field data ''key_size'')),
          ''-keyout'', key, ''-out'', cert, ''-days'', show_nat (unwrap_or 365 (nat_field data ''days'')), ''-nodes'',
          ''-subj'', subject_of cn (str_field data ''org'') (str_field data ''country''),
          ''-addext'', san_ext cn (str_field data ''san'')])"

definition run_selfsigned :: "'w agent_host \<Rightarrow> json \<Rightarrow> string \<Rightarrow> string \<Rightarrow> ('w, json) act" where
  "run_selfsigned h data key_path cert_path = do {
     r \<leftarrow> run_raw h ''openssl'' (selfsigned_args data key_path cert_path) None;
     case r of
       Inl e \<Rightarrow> ret (jerror e)
     | Inr out \<Rightarrow>
         if out_ok out then do {
           cert \<leftarrow> read_file h cert_path;
           key \<leftarrow> read_file h key_path;
           delete_file h cert_path;
           delete_file h key_path;
           ret (JObj [(''ok'', JBool True), (''cert'', JStr (unwrap_or [] cert)), (''key'', JStr (unwrap_or [] key))]) }
         else do {
           delete_file h cert_path;
           delete_file h key_path;
           ret (jerror (from_utf8_lossy (out_stderr out))) } }"

definition generate_selfsigned :: "'w agent_host \<Rightarrow> 'w cert_env \<Rightarrow> json \<Rightarrow> ('w, json) act" where
  "generate_selfsigned h ce data = do {
     there \<leftarrow> installed h ''openssl'';
     ensure there ''openssl not installed''
     (do {
        key \<leftarrow> tmp_path ce 0 ''selfsigned'' ''key'';
        cert \<leftarrow> tmp_path ce 1 ''selfsigned'' ''crt'';
        e1 \<leftarrow> create_new ce key;
        case e1 of Some e \<Rightarrow> ret (create_failed e) | None \<Rightarrow> do {
          e2 \<leftarrow> create_new ce cert;
          case e2 of Some e \<Rightarrow> ret (create_failed e) | None \<Rightarrow> run_selfsigned h data key cert } }) }"

section \<open>Let's Encrypt\<close>

definition install_hint :: "distro \<Rightarrow> string" where
  "install_hint d =
     (case d of Debian \<Rightarrow> ''sudo apt install certbot'' | Fedora \<Rightarrow> ''sudo dnf install certbot''
      | Arch \<Rightarrow> ''sudo pacman -S certbot'' | Unknown \<Rightarrow> ''install certbot from https://certbot.eff.org'')"

definition certbot_labels :: "(string \<times> string) list" where
  "certbot_labels =
     [(''Domains:'', ''domains''), (''Expiry Date:'', ''expiry''), (''Certificate Path:'', ''cert_path''),
      (''Private Key Path:'', ''key_path'')]"

definition certbot_days :: "string \<Rightarrow> int" where
  "certbot_days expiry =
     (if contains_str ''EXPIRED'' expiry then - 1
      else (case drop 1 (split_str ''VALID:'' expiry) of
              [] \<Rightarrow> 0
            | s # _ \<Rightarrow> (case split_whitespace s of [] \<Rightarrow> 0 | w # _ \<Rightarrow> unwrap_or 0 (parse_i64 w))))"

definition certbot_entry_to_json :: "(string, string) hmap \<Rightarrow> json" where
  "certbot_entry_to_json m =
     (let val = (\<lambda>k. unwrap_or [] (hm_get m k))
      in JObj
        [(''name'', JStr (val ''name'')), (''domains'', JStr (val ''domains'')), (''expiry'', JStr (val ''expiry'')),
         (''days_remaining'', JInt (certbot_days (val ''expiry''))), (''cert_path'', JStr (val ''cert_path'')),
         (''key_path'', JStr (val ''key_path''))])"

definition certbot_line ::
  "json list \<times> (string, string) hmap \<Rightarrow> string \<Rightarrow> json list \<times> (string, string) hmap" where
  "certbot_line acc raw =
     (let l = trim raw; done = fst acc; cur = snd acc
      in if starts_with ''Certificate Name:'' l then
           (if cur = [] then done else done @ [certbot_entry_to_json cur],
            [(''name'', trim (trim_start_str ''Certificate Name:'' l))])
         else (case List.find (\<lambda>(label, _). starts_with label l) certbot_labels of
                 None \<Rightarrow> acc
               | Some (label, k) \<Rightarrow> (done, hm_put k (trim (trim_start_str label l)) cur)))"

definition parse_certbot_certificates :: "string \<Rightarrow> json list" where
  "parse_certbot_certificates out =
     (case foldl certbot_line ([], []) (lines out) of
        (done, cur) \<Rightarrow> done @ (if cur = [] then [] else [certbot_entry_to_json cur]))"

definition letsencrypt_info :: "'w agent_host \<Rightarrow> ('w, json) act" where
  "letsencrypt_info h = do {
     certbot \<leftarrow> installed h ''certbot'';
     if \<not> certbot then do {
       d \<leftarrow> detect_distro h;
       ret (JObj [(''available'', JBool False), (''install_hint'', JStr (install_hint d)), (''certs'', JArr [])]) }
     else do {
       version \<leftarrow> run h [''certbot'', ''--version''];
       out \<leftarrow> run h [''certbot'', ''certificates'', ''--non-interactive''];
       ret (JObj [(''available'', JBool True), (''version'', JStr (trim version)),
         (''certs'', JArr (parse_certbot_certificates out))]) } }"

definition letsencrypt_named :: "'w agent_host \<Rightarrow> string \<Rightarrow> json \<Rightarrow> string \<Rightarrow> string \<Rightarrow> ('w, json) act" where
  "letsencrypt_named h op data user password =
     (let name = str_field data ''name''
      in ensure (name \<noteq> []) ''missing cert name''
         (ensure (CHR ''/'' \<notin> set name \<and> \<not> contains_str ''..'' name) ''invalid cert name''
         (sudo h user password [''certbot'', op, ''--cert-name'', name, ''--non-interactive''])))"

definition letsencrypt_change :: "'w agent_host \<Rightarrow> json \<Rightarrow> ('w, json) act" where
  "letsencrypt_change h data =
     (let action = str_field data ''action''; user = str_field data ''_user''; password = str_field data ''password''
      in if action = ''renew_all'' then sudo h user password [''certbot'', ''renew'', ''--non-interactive'']
         else if action \<in> {''renew'', ''delete''} then letsencrypt_named h action data user password
         else ret (jerror (''unknown action: '' @ action)))"

section \<open>Importing a certificate and its key\<close>

definition cert_md5_script :: "string \<Rightarrow> string" where
  "cert_md5_script path = ''openssl x509 -noout -modulus -in '' @ path @ '' 2>&1 | openssl md5''"

definition key_md5_script :: "string \<Rightarrow> string" where
  "key_md5_script path =
     ''openssl rsa -noout -modulus -in '' @ path @ '' 2>&1 | openssl md5 || openssl ec  -noout -pubout  -in '' @ path
     @ '' 2>&1 | openssl md5''"

definition modulus_text :: "string + cmd_output \<Rightarrow> string" where
  "modulus_text r = (case r of Inl _ \<Rightarrow> [] | Inr out \<Rightarrow> trim (from_utf8_lossy (out_stdout out)))"

definition bad_modulus :: "string \<Rightarrow> bool" where
  "bad_modulus m \<longleftrightarrow> m = [] \<or> contains_str ''unable to'' m \<or> contains_str ''error'' m"

definition check_verdict :: "string \<Rightarrow> string \<Rightarrow> cert_row option \<Rightarrow> json" where
  "check_verdict cert_mod key_mod row =
     (if bad_modulus cert_mod then jerror (''invalid certificate: '' @ cert_mod)
      else if bad_modulus key_mod then jerror (''invalid private key: '' @ key_mod)
      else if cert_mod \<noteq> key_mod then not_ok ''certificate and private key do NOT match (modulus mismatch)''
      else (case row of
              Some (_, info) \<Rightarrow> JObj [(''ok'', JBool True), (''cert'', JObj info)]
            | None \<Rightarrow> jerror ''certificate is valid but could not extract details''))"

definition check_path :: "'w cert_env \<Rightarrow> string \<Rightarrow> string" where
  "check_path ce ext = ''/tmp/tenodera-certchk-'' @ show_nat (ce_pid ce) @ ''.'' @ ext"

definition cert_check :: "'w agent_host \<Rightarrow> 'w cert_env \<Rightarrow> json \<Rightarrow> ('w, json) act" where
  "cert_check h ce data =
     (let cert = trim (str_field data ''cert''); key = trim (str_field data ''key'');
          cert_tmp = check_path ce ''crt''; key_tmp = check_path ce ''key''
      in ensure (cert \<noteq> []) ''missing certificate''
         (ensure (key \<noteq> []) ''missing private key''
         (do {
            there \<leftarrow> installed h ''openssl'';
            ensure there ''openssl not found''
            (do {
               e1 \<leftarrow> put_file h cert_tmp cert;
               ensure (e1 = None) ''failed to write temp cert file''
               (do {
                  e2 \<leftarrow> put_file h key_tmp key;
                  if e2 \<noteq> None then do { delete_file h cert_tmp; ret (jerror ''failed to write temp key file'') }
                  else do {
                    a \<leftarrow> run_raw h ''sh'' [''-c'', cert_md5_script cert_tmp] None;
                    b \<leftarrow> run_raw h ''sh'' [''-c'', key_md5_script key_tmp] None;
                    row \<leftarrow> parse_cert h ce cert_tmp ''import'' [] [];
                    delete_file h cert_tmp;
                    delete_file h key_tmp;
                    ret (check_verdict (modulus_text a) (modulus_text b) row) } }) }) })))"

text \<open>The directory and the base of the two files.\<close>

definition save_base :: "'w agent_host \<Rightarrow> json \<Rightarrow> string" where
  "save_base h data =
     (let name = safe_name h (trim (str_field data ''name''))
      in if bool_field False data ''subdir'' then ''/etc/ssl/'' @ name @ ''/'' @ name else ''/etc/ssl/'' @ name)"

definition write_pair :: "'w agent_host \<Rightarrow> string \<Rightarrow> string \<Rightarrow> string \<Rightarrow> string \<Rightarrow> string \<Rightarrow> ('w, json) act" where
  "write_pair h base cert key user password = do {
     c \<leftarrow> sudo_write h user password [''tee'', base @ ''.crt''] cert;
     if has_error c then ret c
     else do {
       k \<leftarrow> sudo_write h user password [''tee'', base @ ''.key''] key;
       if has_error k then do { _ \<leftarrow> sudo h user password [''rm'', ''-f'', base @ ''.crt'']; ret k }
       else do {
         m \<leftarrow> sudo h user password [''chmod'', ''600'', base @ ''.key''];
         ret (if has_error m then m
              else JObj [(''ok'', JBool True), (''cert_path'', JStr (base @ ''.crt'')),
                         (''key_path'', JStr (base @ ''.key''))]) } } }"

definition cert_save :: "'w agent_host \<Rightarrow> json \<Rightarrow> string \<Rightarrow> string \<Rightarrow> ('w, json) act" where
  "cert_save h data user password =
     (let name = trim (str_field data ''name''); cert = trim (str_field data ''cert''); key = trim (str_field data ''key'')
      in ensure (name \<noteq> []) ''missing name''
         (ensure (cert \<noteq> []) ''missing certificate''
         (ensure (key \<noteq> []) ''missing private key''
         (if bool_field False data ''subdir'' then do {
            mk \<leftarrow> sudo h user password [''mkdir'', ''-p'', ''/etc/ssl/'' @ safe_name h name];
            if has_error mk then ret mk else write_pair h (save_base h data) cert key user password }
          else write_pair h (save_base h data) cert key user password))))"

section \<open>The handlers\<close>

definition certs_change :: "'w agent_host \<Rightarrow> 'w cert_env \<Rightarrow> json \<Rightarrow> ('w, json) act" where
  "certs_change h ce data =
     (let action = str_field data ''action''; user = str_field data ''_user''; password = str_field data ''password''
      in if action = ''parse'' then parse_pem_input h ce data
         else if action = ''trust_add'' then trust_add h ce data user password
         else if action = ''trust_remove'' then trust_remove h data user password
         else if action = ''verify_host'' then verify_host h data
         else if action = ''cert_check'' then cert_check h ce data
         else if action = ''cert_save'' then cert_save h data user password
         else ret (jerror (''unknown action: '' @ action)))"

definition certs_manage :: "'w agent_host \<Rightarrow> 'w cert_env \<Rightarrow> 'w agent_state handler" where
  "certs_manage h ce =
     closing ''certs.manage'' (\<lambda>_. ret None) (\<lambda>data. admin_only data (certs_change h ce data))"

definition certs_selfsigned :: "'w agent_host \<Rightarrow> 'w cert_env \<Rightarrow> 'w agent_state handler" where
  "certs_selfsigned h ce =
     closing ''certs.selfsigned'' (\<lambda>_. ret None) (\<lambda>data. admin_only data (generate_selfsigned h ce data))"

definition certs_letsencrypt :: "'w agent_host \<Rightarrow> 'w agent_state handler" where
  "certs_letsencrypt h =
     closing ''certs.letsencrypt'' (\<lambda>_. do { d \<leftarrow> letsencrypt_info h; ret (Some d) })
       (\<lambda>data. admin_only data (letsencrypt_change h data))"

section \<open>What they may run and write\<close>

text \<open>The agent's own temporary files.\<close>

definition own_temp :: "string \<Rightarrow> bool" where
  "own_temp p \<longleftrightarrow> starts_with ''/tmp/tenodera-'' p"

definition certs_reader :: "string list \<Rightarrow> bool" where
  "certs_reader args \<longleftrightarrow>
     (\<exists>p. args = x509_args p) \<or> (\<exists>p. args = [''cat'', ''--'', p] \<and> cert_path_ok p \<and> cert_file p)"

text \<open>The files written with \<open>sudo\<close>: certificates at a checked path, and files with a cleaned name in
  the trust store and in \<open>/etc/ssl\<close>.\<close>

definition slash_free :: "string \<Rightarrow> bool" where
  "slash_free s \<longleftrightarrow> CHR ''/'' \<notin> set s"

definition ssl_base :: "string \<Rightarrow> bool" where
  "ssl_base b \<longleftrightarrow> (\<exists>n. slash_free n \<and> (b = ''/etc/ssl/'' @ n \<or> b = ''/etc/ssl/'' @ n @ ''/'' @ n))"

definition certs_target :: "string \<Rightarrow> bool" where
  "certs_target p \<longleftrightarrow>
     (cert_path_ok p \<and> cert_file p) \<or> own_temp p \<or>
     (\<exists>d n. d \<in> set trust_dirs \<and> slash_free n \<and> p = d @ n @ ''.crt'') \<or>
     (\<exists>b. ssl_base b \<and> (p = b @ ''.crt'' \<or> p = b @ ''.key''))"

inductive certs_sudo :: "(string \<Rightarrow> string) \<Rightarrow> string list \<Rightarrow> bool" for b64 where
  reader: "certs_reader args \<Longrightarrow> certs_sudo b64 args"
| tee: "certs_target p \<Longrightarrow> certs_sudo b64 [''sh'', ''-c'', write_script b64 [''tee'', p] content]"
| anchor: "own_temp p \<Longrightarrow> certs_sudo b64 [''trust'', ''anchor'', ''--store'', p]"
| rm_temp: "own_temp p \<Longrightarrow> certs_sudo b64 [''rm'', ''-f'', p]"
| rm_trust: "list_ex (\<lambda>d. starts_with d p) trust_dirs \<Longrightarrow> certs_sudo b64 [''rm'', ''-f'', p]"
| rm_cert: "ssl_base b \<Longrightarrow> certs_sudo b64 [''rm'', ''-f'', b @ ''.crt'']"
| chmod: "ssl_base b \<Longrightarrow> certs_sudo b64 [''chmod'', ''600'', b @ ''.key'']"
| mkdir: "slash_free n \<Longrightarrow> certs_sudo b64 [''mkdir'', ''-p'', ''/etc/ssl/'' @ n]"
| certbot: "slash_free n \<Longrightarrow> certs_sudo b64 [''certbot'', op, ''--cert-name'', n, ''--non-interactive'']"
| renew: "certs_sudo b64 [''certbot'', ''renew'', ''--non-interactive'']"
| update: "certs_sudo b64 [''update-ca-certificates'']"
| fresh: "certs_sudo b64 [''update-ca-certificates'', ''--fresh'']"
| update_trust: "certs_sudo b64 [''update-ca-trust'']"
| trust_extract: "certs_sudo b64 [''update-ca-trust'', ''extract'']"
| compat: "certs_sudo b64 [''trust'', ''extract-compat'']"

text \<open>The programs run directly, as the agent's own user.\<close>

inductive certs_plain :: "string \<Rightarrow> string list \<Rightarrow> bool" for user where
  which_openssl: "certs_plain user [''which'', ''openssl'']"
| which_certbot: "certs_plain user [''which'', ''certbot'']"
| certbot_version: "certs_plain user [''certbot'', ''--version'']"
| certbot_list: "certs_plain user [''certbot'', ''certificates'', ''--non-interactive'']"
| x509_local: "user = [] \<Longrightarrow> certs_plain user (x509_args p)"
| x509_temp: "own_temp p \<Longrightarrow> certs_plain user (x509_args p)"
| convert: "own_temp der \<Longrightarrow> own_temp pem \<Longrightarrow>
    certs_plain user [''openssl'', ''x509'', ''-inform'', ''DER'', ''-in'', der, ''-out'', pem]"
| s_client: "list_all host_char name \<Longrightarrow>
    certs_plain user [''openssl'', ''s_client'', ''-connect'', name @ '':'' @ show_nat n, ''-verify_return_error'', ''-brief'']"
| selfsigned: "own_temp key \<Longrightarrow> own_temp cert \<Longrightarrow> certs_plain user (''openssl'' # selfsigned_args data key cert)"
| cert_md5: "certs_plain user [''sh'', ''-c'', cert_md5_script (''/tmp/tenodera-certchk-'' @ show_nat n @ ''.crt'')]"
| key_md5: "certs_plain user [''sh'', ''-c'', key_md5_script (''/tmp/tenodera-certchk-'' @ show_nat n @ ''.key'')]"

definition certs_confined :: "'w agent_host \<Rightarrow> string \<Rightarrow> string \<Rightarrow> effect \<Rightarrow> bool" where
  "certs_confined h user password e \<longleftrightarrow>
     touches {p. own_temp p} e \<or> confined (certs_sudo (ah_b64 h)) certs_reader (certs_plain user) user password e"

lemma certs_confined_sudo:
  "certs_sudo (ah_b64 h) args \<Longrightarrow> emits (certs_confined h user password) (sudo h user password args)"
  by (rule emits_sudo) (simp add: certs_confined_def confined_sudo)

lemma certs_confined_write:
  "certs_target p \<Longrightarrow> emits (certs_confined h user password) (sudo_write h user password [''tee'', p] content)"
  by (rule emits_sudo_write) (simp add: certs_confined_def confined_sudo certs_sudo.tee)

lemma certs_confined_reader:
  "certs_reader args \<Longrightarrow> args \<noteq> [] \<Longrightarrow> emits (certs_confined h user password) (as_reader h user password args)"
  by (rule emits_as_reader) (simp_all add: certs_confined_def certs_sudo.reader confined_sudo confined_user)

lemma certs_confined_plain:
  "certs_plain user (prog # args) \<Longrightarrow> emits (certs_confined h user password) (run h (prog # args))"
  "certs_plain user (prog # args) \<Longrightarrow> emits (certs_confined h user password) (run_raw h prog args input)"
  "certs_plain user [''which'', tool] \<Longrightarrow> emits (certs_confined h user password) (installed h tool)"
  by (rule emits_run emits_run_raw emits_installed, simp add: certs_confined_def confined_plain confined_raw)+

lemma certs_confined_files:
  "own_temp p \<Longrightarrow> emits (certs_confined h user password) (put_file h p content)"
  "own_temp p \<Longrightarrow> emits (certs_confined h user password) (delete_file h p)"
  by (rule emits_put_file emits_delete_file, simp add: certs_confined_def)+

lemma certs_confined_create: "own_temp p \<Longrightarrow> emits (certs_confined h user password) (create_new ce p)"
  unfolding emits_def create_new_def
  by (rule yieldsI, rule_tac x = "if fst (ce_create ce p (w_os w)) = None then [Wrote p []] else []" in exI)
     (simp add: certs_confined_def split_beta)

lemma certs_confined_audit:
  "emits (certs_confined h user password) (record_audit user action target ok details)"
  by (rule emits_record_audit) (simp add: certs_confined_def confined_audit)

lemma emits_bind_tmp:
  assumes "\<And>p. own_temp p \<Longrightarrow> emits P (k p)"
  shows "emits P (tmp_path ce n tag ext \<bind> k)"
  by (rule emits_bind_result [where R = own_temp])
     (simp_all add: tmp_path_def emits_pure tmp_name_def own_temp_def starts_with_def assms [unfolded own_temp_def])

lemma emits_parse_cert:
  "emits (certs_confined h user password) (parse_cert h ce p source user password)"
  "own_temp p \<Longrightarrow> emits (certs_confined h user password) (parse_cert h ce p source [] [])"
proof -
  have x: "certs_reader (x509_args q)" "x509_args q \<noteq> []" for q
    by (auto simp: certs_reader_def x509_args_def)
  have run: "emits (certs_confined h user password) (run h (x509_args q))" if "user = [] \<or> own_temp q" for q
    using that certs_confined_plain(1) [of user "''openssl''" "tl (x509_args q)"]
      certs_plain.x509_local [of user q] certs_plain.x509_temp [of q user]
    by (auto simp: x509_args_def)
  have out: "emits (certs_confined h user password) (openssl_out h p user password)"
    unfolding openssl_out_def by (intro emits_if run emits_bind certs_confined_reader x emits_ret) simp
  show "emits (certs_confined h user password) (parse_cert h ce p source user password)"
    unfolding parse_cert_def Let_def by (intro emits_bind out emits_if emits_ret emits_pure)
  show "emits (certs_confined h user password) (parse_cert h ce p source [] [])" if "own_temp p"
    unfolding parse_cert_def openssl_out_def Let_def using that
    by (simp, intro emits_bind run emits_if emits_ret emits_pure) simp
qed

lemma emits_cert_entries:
  "emits (certs_confined h user password) (cert_entries h ce skip source user password dir names)"
  by (induction names)
     (auto simp: Let_def is_entry_dir_def intro!: emits_ret emits_bind emits_pure emits_parse_cert(1))

lemma emits_scan_stack:
  "emits (certs_confined h user password) (scan_stack h ce fuel skip source user password dirs)"
  by (induction h ce fuel skip source user password dirs rule: scan_stack.induct)
     (auto intro!: emits_ret emits_bind emits_reads emits_cert_entries)

lemma emits_scan_all: "emits (certs_confined h user password) (scan_all_certs h ce fuel user password)"
  unfolding scan_all_certs_def le_certs_def le_entry_def scan_dir_recursive_def flat_dir_def flat_entry_def Let_def
  by (intro emits_bind emits_if emits_ret emits_option emits_reads emits_act_map emits_parse_cert(1) emits_scan_stack
        certs_confined_plain(3) certs_plain.which_openssl certs_plain.which_certbot)

lemma emits_read_pem: "emits (certs_confined h user password) (read_cert_pem h path user password)"
  unfolding read_cert_pem_def
  by (intro emits_if emits_ret emits_bind certs_confined_reader) (simp_all add: certs_reader_def)

lemma emits_save_pem: "emits (certs_confined h user password) (save_pem h ce o' user password)"
  unfolding save_pem_def Let_def
  by (intro emits_ensure emits_bind_tmp emits_bind emits_ret certs_confined_files emits_parse_cert(2)
        certs_confined_write certs_confined_audit; (assumption | simp add: certs_target_def)?)

lemma slash_free_safe_name: "slash_free (safe_name h name)"
proof -
  have "CHR ''/'' \<notin> set ch" if c: "ch \<in> set (chars_of name)" and a: "is_alphanumeric h ch" for ch
  proof -
    obtain c cs where ch: "ch = c # cs" "list_all is_cont cs" "is_ascii c \<longrightarrow> cs = []"
      using chars_of_shape [OF c] by blast
    have "\<not> is_cont CHR ''/''" "is_ascii CHR ''/''" "\<not> is_ascii_alphanumeric CHR ''/''"
      by (simp_all add: is_cont_def is_ascii_def is_ascii_alphanumeric_def is_ascii_digit_def is_ascii_upper_def
          is_ascii_lower_def byte_def)
    with ch a show ?thesis by (cases cs) (auto simp: is_alphanumeric_def list_all_iff)
  qed
  then show ?thesis by (auto simp: slash_free_def safe_name_def split: if_splits)
qed

lemma ssl_base_save: "ssl_base (save_base h data)"
  unfolding ssl_base_def save_base_def Let_def using slash_free_safe_name by auto

lemma certs_target_intros:
  "own_temp p \<Longrightarrow> certs_target p" "ssl_base b \<Longrightarrow> certs_target (b @ ''.crt'')" "ssl_base b \<Longrightarrow> certs_target (b @ ''.key'')"
  "slash_free n \<Longrightarrow> certs_target (''/usr/local/share/ca-certificates/'' @ n @ ''.crt'')"
  "slash_free n \<Longrightarrow> certs_target (''/etc/pki/ca-trust/source/anchors/'' @ n @ ''.crt'')"
  unfolding certs_target_def trust_dirs_def by (blast, blast, blast, force, force)

lemma emits_detect_distro: "emits P (detect_distro h)"
  unfolding detect_distro_def by (intro emits_bind emits_reads emits_ret)

lemma emits_store_and_update:
  "certs_target dest \<Longrightarrow> certs_sudo (ah_b64 h) update \<Longrightarrow>
   emits (certs_confined h user password) (store_and_update h user password dest pem update)"
  unfolding store_and_update_def
  by (intro emits_bind emits_if emits_ret certs_confined_write certs_confined_sudo)

lemma emits_trust_anchor: "own_temp tmp \<Longrightarrow> emits (certs_confined h user password) (trust_anchor h user password tmp pem)"
  unfolding trust_anchor_def
  by (intro emits_bind emits_if emits_ret certs_confined_write certs_confined_sudo certs_target_intros certs_sudo.intros)

lemma emits_trust_add: "emits (certs_confined h user password) (trust_add h ce data user password)"
proof -
  have "emits (certs_confined h user password) (case d of
      Debian \<Rightarrow> store_and_update h user password (''/usr/local/share/ca-certificates/'' @ safe_name h n @ ''.crt'') pem
        [''update-ca-certificates'']
    | Fedora \<Rightarrow> store_and_update h user password (''/etc/pki/ca-trust/source/anchors/'' @ safe_name h n @ ''.crt'') pem
        [''update-ca-trust'', ''extract'']
    | Arch \<Rightarrow> do { tmp \<leftarrow> tmp_path ce 0 ''trust'' ''crt''; trust_anchor h user password tmp pem }
    | Unknown \<Rightarrow> ret (jerror e))" for d n pem e
    by (cases d; simp only: distro.case)
      (intro emits_store_and_update certs_target_intros slash_free_safe_name certs_sudo.intros emits_bind_tmp
        emits_trust_anchor emits_ret; assumption)+
  then show ?thesis unfolding trust_add_def Let_def by (intro emits_ensure emits_bind emits_detect_distro)
qed

lemma emits_trust_remove: "emits (certs_confined h user password) (trust_remove h data user password)"
proof -
  have "emits (certs_confined h user password) (update_after_removal h user password)"
    unfolding update_after_removal_def
    by (intro emits_bind emits_detect_distro)
      (auto split: distro.split intro!: certs_confined_sudo certs_sudo.intros emits_ret)
  then show ?thesis unfolding trust_remove_def Let_def
    by (intro emits_ensure emits_bind emits_reads emits_sum emits_ret emits_if certs_confined_sudo certs_sudo.rm_trust)
qed

lemma emits_parse_input: "emits (certs_confined h user password) (parse_pem_input h ce data)"
proof -
  have der: "emits (certs_confined h user password) (der_to_pem h ce raw)" for raw
    unfolding der_to_pem_def
    by (intro emits_bind_tmp emits_bind emits_option emits_if emits_ret emits_reads certs_confined_create
        certs_confined_files certs_confined_plain certs_plain.convert)
  have pem: "emits (certs_confined h user password) (parse_pem_text h ce pem)" for pem
    unfolding parse_pem_text_def
    by (intro emits_ensure emits_bind_tmp emits_bind emits_option emits_ret certs_confined_create
        certs_confined_files emits_parse_cert(2))
  show ?thesis unfolding parse_pem_input_def Let_def
    by (intro emits_ensure emits_bind emits_if emits_sum emits_ret der pem certs_confined_plain(3) certs_plain.which_openssl)
qed

lemma emits_verify_host: "emits (certs_confined h user password) (verify_host h data)"
  unfolding verify_host_def Let_def
  by (intro emits_ensure emits_option emits_bind emits_ret certs_confined_plain(2) certs_plain.s_client) simp

lemma own_temp_check: "own_temp (check_path ce ext)"
  by (simp add: own_temp_def check_path_def starts_with_def)

lemma emits_cert_check: "emits (certs_confined h user password) (cert_check h ce data)"
proof -
  have md5: "certs_plain user (''sh'' # [''-c'', cert_md5_script (check_path ce ''crt'')])"
    "certs_plain user (''sh'' # [''-c'', key_md5_script (check_path ce ''key'')])"
    using certs_plain.cert_md5 [of user "ce_pid ce"] certs_plain.key_md5 [of user "ce_pid ce"]
    by (simp_all add: check_path_def)
  show ?thesis unfolding cert_check_def Let_def
    by (intro emits_ensure emits_bind emits_if emits_ret own_temp_check certs_confined_files emits_parse_cert(2)
        certs_confined_plain(2,3) md5 certs_plain.which_openssl)
qed

lemma emits_cert_save: "emits (certs_confined h user password) (cert_save h data user password)"
proof -
  have "emits (certs_confined h user password) (write_pair h b cert key user password)" if "ssl_base b" for b cert key
    unfolding write_pair_def using that
    by (intro emits_bind emits_if emits_ret certs_confined_write certs_confined_sudo certs_target_intros
        certs_sudo.rm_cert certs_sudo.chmod)
  note pair = this [OF ssl_base_save]
  show ?thesis unfolding cert_save_def Let_def
    by (intro emits_ensure emits_bind emits_if emits_ret pair certs_confined_sudo certs_sudo.mkdir slash_free_safe_name)
qed

lemma emits_selfsigned: "emits (certs_confined h user password) (generate_selfsigned h ce data)"
  unfolding generate_selfsigned_def run_selfsigned_def
  by (intro emits_ensure emits_bind_tmp emits_bind emits_option emits_sum emits_if emits_ret emits_reads
      certs_confined_create certs_confined_files certs_confined_plain(2,3) certs_plain.which_openssl
      certs_plain.selfsigned)

lemma emits_letsencrypt_info: "emits (certs_confined h user password) (letsencrypt_info h)"
  unfolding letsencrypt_info_def
  by (intro emits_bind emits_if emits_ret emits_detect_distro certs_confined_plain certs_plain.which_certbot
      certs_plain.certbot_version certs_plain.certbot_list)

lemma emits_letsencrypt_change:
  "emits (certs_confined h (str_field data ''_user'') (str_field data ''password'')) (letsencrypt_change h data)"
  unfolding letsencrypt_change_def letsencrypt_named_def Let_def
  by (intro emits_if emits_ensure emits_ret certs_confined_sudo certs_sudo.renew certs_sudo.certbot)
    (simp_all add: slash_free_def)

lemma certs_list_open:
  "hd_open (certs_list h ce fuel) ch o' s =
     (case fst (run_state (certs_list_answer h ce fuel o') (st_world s)) of None \<Rightarrow> [] | Some d \<Rightarrow> one_shot ch d,
      s\<lparr>st_world := snd (run_state (certs_list_answer h ce fuel o') (st_world s))\<rparr>)"
  by (simp add: certs_list_def run_simps split: option.split)

lemma emits_certs_list:
  "emits (certs_confined h (opt_str o' ''_user'') (opt_str o' ''password'')) (certs_list_answer h ce fuel o')"
  unfolding certs_list_answer_def Let_def
  by (intro emits_if emits_bind emits_ret emits_read_pem emits_admin_only emits_save_pem emits_scan_all)

interpretation certs_list: bounded_handler "certs_list h ce fuel" "certs_confined h"
proof (unfold_locales, goal_cases)
  case (1 ch o' s out s')
  then have "s' = s\<lparr>st_world := snd (run_state (certs_list_answer h ce fuel o') (st_world s))\<rparr>"
    by (simp add: certs_list_open)
  then show ?case using emits_log [OF emits_certs_list, of h ce fuel o' "st_world s"] by simp
qed (simp add: certs_list_def no_data_def)

interpretation certs_manage: bounded_handler "certs_manage h ce" "certs_confined h"
  unfolding certs_manage_def certs_change_def Let_def
  by (intro bounded_closing emits_ret emits_admin_only emits_if emits_parse_input emits_trust_add emits_trust_remove
      emits_verify_host emits_cert_check emits_cert_save)

interpretation certs_selfsigned: bounded_handler "certs_selfsigned h ce" "certs_confined h"
  unfolding certs_selfsigned_def by (intro bounded_closing emits_ret emits_admin_only emits_selfsigned)

interpretation certs_letsencrypt: bounded_handler "certs_letsencrypt h" "certs_confined h"
  unfolding certs_letsencrypt_def
  by (intro bounded_closing emits_bind emits_ret emits_admin_only emits_letsencrypt_info emits_letsencrypt_change)

interpretation letsencrypt_opening: oneshot_handler "certs_letsencrypt h"
  by unfold_locales (auto simp: certs_letsencrypt_def closing_open run_simps split: prod.split)

text \<open>
  A certificate of Let's Encrypt is never renewed or deleted: the handler answers every open
  with the list of certificates and closes the channel, so that in no reachable state of the
  router a data message gets to it, and its administrator actions, which only data reaches, do
  not run, whatever handlers the router has.
\<close>

theorem letsencrypt_actions_unreachable:
  assumes "router_reach hs who r"
  shows "data_handler r ch \<noteq> Some (certs_letsencrypt h) \<and>
    (\<exists>d. fst (hd_open (certs_letsencrypt h) ch (o'\<lparr>extra := [(''action'', JStr ''renew_all'')]\<rparr>) s) = one_shot ch d \<and>
       fst (hd_open (certs_letsencrypt h) ch (o'\<lparr>extra := []\<rparr>) s) = one_shot ch d)"
  using letsencrypt_opening.never_told [OF assms]
  by (auto simp: certs_letsencrypt_def closing_open run_simps split: prod.split)

theorem letsencrypt_actions_unreachable_witness:
  "data_handler (register_all [certs_letsencrypt toy_host]) ''c'' \<noteq> Some (certs_letsencrypt toy_host)"
  using letsencrypt_actions_unreachable [OF router_reach.start, of "[certs_letsencrypt toy_host]" "''c''" toy_host]
  by blast

text \<open>For a session without the admin role only the questions about certbot remain.\<close>

definition certbot_plain :: "string list \<Rightarrow> bool" where
  "certbot_plain args \<longleftrightarrow>
     args \<in> {[''which'', ''certbot''], [''certbot'', ''--version''],
             [''certbot'', ''certificates'', ''--non-interactive'']}"

interpretation certs_manage: reading_handler "certs_manage h ce" "\<lambda>_. False"
  unfolding certs_manage_def by (intro reading_closing emits_ret emits_refused)

interpretation certs_selfsigned: reading_handler "certs_selfsigned h ce" "\<lambda>_. False"
  unfolding certs_selfsigned_def by (intro reading_closing emits_ret emits_refused)

interpretation certs_letsencrypt: reading_handler "certs_letsencrypt h" "queries certbot_plain"
proof -
  have "emits (queries certbot_plain) (letsencrypt_info h)"
    unfolding letsencrypt_info_def
    by (intro emits_bind emits_if emits_ret emits_detect_distro emits_installed emits_run)
      (simp_all add: queries_plain certbot_plain_def)
  then show "reading_handler (certs_letsencrypt h) (queries certbot_plain)"
    unfolding certs_letsencrypt_def by (intro reading_closing emits_bind emits_ret emits_refused)
qed

section \<open>The scan ends\<close>

text \<open>A weight of the directories: each weighs more than the directories in it that are visited.\<close>

definition tree_weight ::
  "'w agent_host \<Rightarrow> 'w cert_env \<Rightarrow> string list \<Rightarrow> (string \<Rightarrow> bool) \<Rightarrow> (string \<Rightarrow> nat) \<Rightarrow> bool" where
  "tree_weight h ce skip is_dir weight \<longleftrightarrow>
     (\<forall>w p. ce_entry_dir ce w p \<longrightarrow> is_dir p) \<and>
     (\<forall>w d. sum_list (map weight (filter is_dir (map (\<lambda>x. d @ ''/'' @ x)
        (filter (\<lambda>x. x \<notin> set skip) (unwrap_or [] (ah_dir h w d)))))) < weight d)"

lemma cert_entries_weight:
  fixes weight :: "string \<Rightarrow> nat"
  assumes "\<And>w p. ce_entry_dir ce w p \<Longrightarrow> is_dir p"
  shows "sum_list (map weight (fst (fst (run_state (cert_entries h ce skip source user password d names) w)))) \<le>
    sum_list (map weight (filter is_dir (map (\<lambda>x. d @ ''/'' @ x) (filter (\<lambda>x. x \<notin> set skip) names))))"
proof (induction names arbitrary: w)
  case (Cons x names)
  let ?path = "d @ ''/'' @ x" and ?sub = "ce_entry_dir ce (w_os w) (d @ ''/'' @ x)"
  define w1 where "w1 = snd (run_state (if \<not> ?sub \<and> extension x \<in> set cert_exts
      then parse_cert h ce ?path source user password else ret None) w)"
  have eq: "fst (fst (run_state (cert_entries h ce skip source user password d (x # names)) w)) =
      (if ?sub \<and> x \<notin> set skip then [?path] else []) @
      fst (fst (run_state (cert_entries h ce skip source user password d names) w1))"
    by (simp only: cert_entries.simps Let_def run_simps is_entry_dir_def state.sel split_beta fst_conv snd_conv w1_def)
  show ?case unfolding eq using Cons [of w1] assms [of "w_os w" ?path] by auto
qed (simp add: run_simps)

lemma scan_stack_ends:
  assumes "tree_weight h ce skip is_dir weight" and "sum_list (map weight ds) \<le> fuel"
  shows "\<exists>rows. fst (run_state (scan_stack h ce fuel skip source user password ds) w) = Some rows"
  using assms(2)
proof (induction fuel arbitrary: ds w)
  case 0
  have pos: "weight d \<noteq> 0" for d using assms(1) unfolding tree_weight_def by (metis not_less0)
  from 0 show ?case by (cases ds) (simp_all add: run_simps pos)
next
  case (Suc fuel)
  show ?case
  proof (cases ds)
    case (Cons d rest)
    let ?names = "unwrap_or [] (ah_dir h (w_os w) d)"
    let ?found = "run_state (cert_entries h ce skip source user password d ?names) w"
    have "sum_list (map weight (fst (fst ?found))) < weight d"
      using cert_entries_weight [of ce is_dir weight h skip source user password d ?names w] assms(1)
      unfolding tree_weight_def by (meson order_le_less_trans)
    then have "sum_list (map weight (rev (fst (fst ?found)) @ rest)) \<le> fuel"
      using Suc.prems by (simp add: Cons rev_map [symmetric])
    from Suc.IH [OF this, of "snd ?found"] show ?thesis
      by (auto simp: Cons run_simps split_beta)
  qed (simp add: run_simps)
qed

text \<open>A program that returns, with Some, whatever the world.\<close>

definition answers :: "('w, 'a option) act \<Rightarrow> bool" where
  "answers m \<longleftrightarrow> (\<forall>w. \<exists>d. fst (run_state m w) = Some d)"

lemma answers_ret: "answers (ret (Some d))"
  by (simp add: answers_def run_simps)

lemma answers_if: "answers m \<Longrightarrow> answers m' \<Longrightarrow> answers (if b then m else m')"
  by simp

lemma answers_bind: "(\<And>x. answers (f x)) \<Longrightarrow> answers (m \<bind> f)"
  by (simp add: answers_def run_simps split_beta)

lemma answers_bind_some: "answers m \<Longrightarrow> (\<And>x. answers (f (Some x))) \<Longrightarrow> answers (m \<bind> f)"
  unfolding answers_def run_bind split_beta by metis

lemma answers_scan_stack:
  assumes "tree_weight h ce skip is_dir weight" and "sum_list (map weight ds) \<le> fuel"
  shows "answers (scan_stack h ce fuel skip source user password ds)"
  using scan_stack_ends [OF assms] by (simp add: answers_def)

text \<open>
  C36. Listing the certificates ends: when the directories below \<open>/etc/ssl\<close> form a finite tree (each
  has a weight above the sum of those in it), the loop over the stack of directories empties it
  within the weight of \<open>/etc/ssl\<close> many turns, whatever else happens on the host meanwhile, and the
  request is answered.
\<close>

theorem certs_list_answers:
  assumes "tree_weight h ce [''certs''] is_dir weight" and "weight ''/etc/ssl'' \<le> fuel"
  shows "\<exists>d. fst (hd_open (certs_list h ce fuel) ch o' s) = one_shot ch d"
proof -
  have stack: "answers (scan_stack h ce fuel [''certs''] ''ssl'' user password [''/etc/ssl''])" for user password
    using assms(2) by (intro answers_scan_stack [OF assms(1)]) simp
  have dir: "answers (scan_dir_recursive h ce fuel ''/etc/ssl'' [''certs''] ''ssl'' user password)" for user password
    unfolding scan_dir_recursive_def by (intro answers_bind answers_if answers_ret stack)
  have "answers (scan_all_certs h ce fuel user password)" for user password
    unfolding scan_all_certs_def
    by (rule answers_bind, rule answers_if, rule answers_ret, rule answers_bind, rule answers_bind_some, rule dir)
      (simp only: option.case, intro answers_bind answers_ret)
  then have "answers (certs_list_answer h ce fuel o')"
    unfolding certs_list_answer_def Let_def by (intro answers_if answers_bind answers_ret)
  then obtain d where "fst (run_state (certs_list_answer h ce fuel o') (st_world s)) = Some d"
    unfolding answers_def by blast
  then have "fst (hd_open (certs_list h ce fuel) ch o' s) = one_shot ch d" by (simp add: certs_list_open)
  then show ?thesis by (rule exI)
qed

definition toy_certs :: "nat cert_env" where
  "toy_certs = \<lparr>ce_random = (\<lambda>_ _. ''12345678''), ce_create = (\<lambda>_ os. (None, os)),
     ce_entry_dir = (\<lambda>_ p. p = ''/etc/ssl/site''), ce_decode = (\<lambda>_. None), ce_days = (\<lambda>_ _. None), ce_pid = 1\<rparr>"

definition ssl_host :: "nat agent_host" where
  "ssl_host = toy_host\<lparr>ah_dir := \<lambda>_ p. if p = ''/etc/ssl'' then Some [''site'', ''a.pem''] else Some [''b.crt'']\<rparr>"

theorem certs_list_answers_witness:
  "\<exists>d. fst (hd_open (certs_list ssl_host toy_certs 2) ''c'' \<lparr>payload = ''certs.list'', superuser = None, extra = []\<rparr> toy_state) = one_shot ''c'' d"
proof (rule certs_list_answers [where is_dir = "\<lambda>p. p = ''/etc/ssl/site''"
      and weight = "\<lambda>p. if p = ''/etc/ssl'' then 2 else 1"])
  have "d @ ''/b.crt'' \<noteq> ''/etc/ssl/site''" for d :: string
  proof
    assume "d @ ''/b.crt'' = ''/etc/ssl/site''"
    then have "last (d @ ''/b.crt'') = last ''/etc/ssl/site''" by simp
    then show False by simp
  qed
  then show "tree_weight ssl_host toy_certs [''certs''] (\<lambda>p. p = ''/etc/ssl/site'')
      (\<lambda>p. if p = ''/etc/ssl'' then 2 else 1)"
    by (simp add: tree_weight_def toy_certs_def ssl_host_def)
qed simp

end
