(* ===== verification/Networking.thy ===== *)
theory Networking
  imports Handlers TextFacts NetAddr
begin

text \<open>
  \<open>networking.manage\<close> and the samples of \<open>networking.stream\<close>
  (\<open>agent/src/handlers/networking.rs\<close>): firewalls behind four front ends, interfaces, VPN
  connections, listening ports and their processes.
\<close>

section \<open>Traffic\<close>

text \<open>Received and sent bytes of each interface.\<close>

type_synonym net_dev = "(string, nat \<times> nat) hmap"

definition net_dev_row :: "string \<Rightarrow> (string \<times> nat \<times> nat) option" where
  "net_dev_row raw =
     (case split_once (CHR '':'') (trim raw) of
        None \<Rightarrow> None
      | Some (iface, rest) \<Rightarrow>
          (let vals = List.map_filter (parse_uint U64_MAX) (split_whitespace rest)
           in if trim iface = ''lo'' \<or> length vals < 10 then None
              else Some (trim iface, vals ! 0, vals ! 8)))"

definition net_dev_of :: "string \<Rightarrow> net_dev" where
  "net_dev_of content =
     foldl (\<lambda>m l. case net_dev_row l of None \<Rightarrow> m | Some (i, r) \<Rightarrow> hm_put i r m) [] (drop 2 (lines content))"

definition read_proc_net_dev :: "'w agent_host \<Rightarrow> ('w, net_dev) act" where
  "read_proc_net_dev h = do {
     f \<leftarrow> read_file h ''/proc/net/dev'';
     ret (case f of None \<Rightarrow> [] | Some c \<Rightarrow> net_dev_of c) }"

text \<open>The interval in milliseconds, and the bytes since the last sample of those interfaces that were
  there then; the division by the interval is floating point.\<close>

definition stream_interval :: "open_options \<Rightarrow> nat" where
  "stream_interval o' = max 500 (unwrap_or 1000 (Option.bind (hm_get (extra o') ''interval'') as_u64))"

definition traffic_since :: "net_dev \<Rightarrow> net_dev \<Rightarrow> (string \<times> nat \<times> nat) list" where
  "traffic_since prev cur =
     List.map_filter (\<lambda>(i, r, t). case hm_get prev i of None \<Rightarrow> None | Some (r0, t0) \<Rightarrow> Some (i, r - r0, t - t0)) cur"

section \<open>Firewalls\<close>

datatype firewall_backend = Ufw | Firewalld | Nftables | Iptables | NoFirewall

definition detect_firewall :: "'w agent_host \<Rightarrow> ('w, firewall_backend) act" where
  "detect_firewall h = do {
     u \<leftarrow> installed h ''ufw'';
     if u then ret Ufw
     else do {
       f \<leftarrow> installed h ''firewall-cmd'';
       if f then ret Firewalld
       else do {
         n \<leftarrow> installed h ''nft'';
         if n then ret Nftables
         else do { i \<leftarrow> installed h ''iptables''; ret (if i then Iptables else NoFirewall) } } } }"

definition detect_all_firewalls :: "'w agent_host \<Rightarrow> ('w, firewall_backend list) act" where
  "detect_all_firewalls h = do {
     u \<leftarrow> installed h ''ufw'';
     f \<leftarrow> installed h ''firewall-cmd'';
     n \<leftarrow> installed h ''nft'';
     i \<leftarrow> installed h ''iptables'';
     ret ((if u then [Ufw] else []) @ (if f then [Firewalld] else []) @ (if n then [Nftables] else []) @
          (if i then [Iptables] else [])) }"

definition backend_str :: "firewall_backend \<Rightarrow> string" where
  "backend_str b =
     (case b of Ufw \<Rightarrow> ''ufw'' | Firewalld \<Rightarrow> ''firewalld'' | Nftables \<Rightarrow> ''nftables''
      | Iptables \<Rightarrow> ''iptables'' | NoFirewall \<Rightarrow> ''none'')"

definition parse_backend :: "string \<Rightarrow> firewall_backend option" where
  "parse_backend s = List.find (\<lambda>b. backend_str b = s) [Ufw, Firewalld, Nftables, Iptables]"

text \<open>A query with \<open>sudo\<close> of the agent's own when there is a password.\<close>

definition sudo_run_cmd :: "'w agent_host \<Rightarrow> string \<Rightarrow> string list \<Rightarrow> ('w, string) act" where
  "sudo_run_cmd h password args =
     (if password = [] then run h args
      else do {
        r \<leftarrow> run_raw h ''sudo'' (''-S'' # args) (Some (password @ [NL]));
        ret (case r of
               Inl e \<Rightarrow> ''error: '' @ e
             | Inr out \<Rightarrow>
                 (let so = from_utf8_lossy (out_stdout out)
                  in if so = [] then no_prompts (from_utf8_lossy (out_stderr out)) else so)) })"

definition iptables_list :: "string list" where
  "iptables_list = [''iptables'', ''-L'', ''-n'', ''--line-numbers'']"

definition nft_list :: "string list" where
  "nft_list = [''nft'', ''list'', ''ruleset'']"

definition firewall_status_single :: "'w agent_host \<Rightarrow> string \<Rightarrow> firewall_backend \<Rightarrow> ('w, bool \<times> string) act" where
  "firewall_status_single h password be =
     (case be of
        Ufw \<Rightarrow> do {
          out \<leftarrow> sudo_run_cmd h password [''ufw'', ''status''];
          ret (contains_str ''Status: active'' out,
               trim (unwrap_or [] (List.find (starts_with ''Status:'') (lines out)))) }
      | Firewalld \<Rightarrow> do {
          out \<leftarrow> run h [''firewall-cmd'', ''--state''];
          ret (trim out = ''running'', out) }
      | Nftables \<Rightarrow> do {
          out \<leftarrow> sudo_run_cmd h password nft_list;
          (let active = out \<noteq> [] \<and> \<not> starts_with ''error:'' out
           in ret (active, if active then ''nftables active'' else ''no rules loaded'')) }
      | Iptables \<Rightarrow> do {
          out \<leftarrow> sudo_run_cmd h password iptables_list;
          ret (contains_str ''Chain'' out, ''iptables loaded'') }
      | NoFirewall \<Rightarrow> ret (False, ''no firewall detected''))"

definition status_json :: "firewall_backend \<Rightarrow> bool \<times> string \<Rightarrow> json" where
  "status_json be r =
     JObj [(''backend'', JStr (backend_str be)), (''active'', JBool (fst r)), (''details'', JStr (snd r))]"

definition firewall_status_all :: "'w agent_host \<Rightarrow> string \<Rightarrow> ('w, json) act" where
  "firewall_status_all h password = do {
     backends \<leftarrow> detect_all_firewalls h;
     primary \<leftarrow> detect_firewall h;
     rows \<leftarrow> act_map (\<lambda>be. do { r \<leftarrow> firewall_status_single h password be; ret (status_json be r) }) backends;
     ret (JObj [(''primary'', JStr (backend_str primary)),
       (''backends'', JArr (if rows = [] then [status_json NoFirewall (False, ''no firewall detected'')] else rows))]) }"

section \<open>Rules\<close>

type_synonym rule_row = "(string \<times> json) list"

definition number_of :: "string \<Rightarrow> json" where
  "number_of s = JInt (int (unwrap_or 0 (parse_uint U32_MAX s)))"

definition ufw_rule :: "string \<Rightarrow> rule_row option" where
  "ufw_rule raw =
     (let l = trim raw
      in if \<not> starts_with ''['' l then None
         else (case split_once (CHR '']'') l of
                 None \<Rightarrow> None
               | Some (a, b) \<Rightarrow>
                   Some [(''number'', number_of (trim (trim_start_matches (CHR ''['') a))), (''rule'', JStr (trim b))]))"

definition parse_ufw_rules :: "'w agent_host \<Rightarrow> string \<Rightarrow> ('w, rule_row list) act" where
  "parse_ufw_rules h password = do {
     out \<leftarrow> sudo_run_cmd h password [''ufw'', ''status'', ''numbered''];
     ret (List.map_filter ufw_rule (lines out)) }"

definition zone_rule :: "string \<Rightarrow> string \<Rightarrow> string \<Rightarrow> rule_row" where
  "zone_rule zone kind v = [(''type'', JStr kind), (''value'', JStr v), (''zone'', JStr zone)]"

definition parse_firewalld_rules :: "'w agent_host \<Rightarrow> ('w, rule_row list) act" where
  "parse_firewalld_rules h = do {
     z \<leftarrow> run h [''firewall-cmd'', ''--get-default-zone''];
     (let zone = trim z in do {
        services \<leftarrow> run h [''firewall-cmd'', ''--zone'', zone, ''--list-services''];
        ports \<leftarrow> run h [''firewall-cmd'', ''--zone'', zone, ''--list-ports''];
        rich \<leftarrow> run h [''firewall-cmd'', ''--zone'', zone, ''--list-rich-rules''];
        ret (map (zone_rule zone ''service'') (split_whitespace services) @
             map (zone_rule zone ''port'') (split_whitespace ports) @
             map (zone_rule zone ''rich-rule'') (filter (\<lambda>l. l \<noteq> []) (map trim (lines rich)))) }) }"

definition nft_rule_line :: "string \<Rightarrow> bool" where
  "nft_rule_line l \<longleftrightarrow> list_ex (\<lambda>w. contains_str w l) [''counter'', ''accept'', ''drop'', ''reject'']"

text \<open>The lines that look like rules, numbered from one.\<close>

definition nft_rules :: "string \<Rightarrow> rule_row list" where
  "nft_rules out =
     map (\<lambda>(i, l). [(''number'', JInt (int (i + 1))), (''rule'', JStr (trim l))])
       (List.enumerate 0 (filter nft_rule_line (lines out)))"

definition iptables_line :: "rule_row list \<times> string \<Rightarrow> string \<Rightarrow> rule_row list \<times> string" where
  "iptables_line acc raw =
     (let l = trim raw
      in if starts_with ''Chain '' l then (fst acc, l)
         else if starts_with ''num'' l \<or> l = [] then acc
         else (case split_once (CHR '' '') l of
                 None \<Rightarrow> acc
               | Some (n, r) \<Rightarrow>
                   (fst acc @ [[(''chain'', JStr (snd acc)), (''number'', number_of (trim n)), (''rule'', JStr (trim r))]],
                    snd acc)))"

definition parse_iptables_rules :: "'w agent_host \<Rightarrow> string \<Rightarrow> ('w, rule_row list) act" where
  "parse_iptables_rules h password = do {
     out \<leftarrow> sudo_run_cmd h password iptables_list;
     ret (fst (foldl iptables_line ([], []) (lines out))) }"

definition firewall_rules_for :: "'w agent_host \<Rightarrow> string \<Rightarrow> firewall_backend \<Rightarrow> ('w, rule_row list) act" where
  "firewall_rules_for h password be = do {
     rules \<leftarrow> (case be of
                 Ufw \<Rightarrow> parse_ufw_rules h password
               | Firewalld \<Rightarrow> parse_firewalld_rules h
               | Nftables \<Rightarrow> do {
                   out \<leftarrow> sudo_run_cmd h password nft_list;
                   ret (if trim out = [] \<or> starts_with ''error:'' out then [] else nft_rules out) }
               | Iptables \<Rightarrow> parse_iptables_rules h password
               | NoFirewall \<Rightarrow> ret []);
     ret (map (hm_put ''backend'' (JStr (backend_str be))) rules) }"

definition internal_rule :: "'w agent_host \<Rightarrow> rule_row \<Rightarrow> bool" where
  "internal_rule h r \<longleftrightarrow>
     (let combined = ah_lower h (unwrap_or [] (map_str r ''chain'') @ '' '' @ unwrap_or [] (map_str r ''rule''))
      in list_ex (\<lambda>w. contains_str w combined) [''ufw'', ''fwd_'', ''inp_'', ''docker'', ''in_'', ''out_''])"

definition firewall_rules_all :: "'w agent_host \<Rightarrow> string \<Rightarrow> ('w, json) act" where
  "firewall_rules_all h password = do {
     backends \<leftarrow> detect_all_firewalls h;
     rows \<leftarrow> act_map (\<lambda>be. do {
         rules \<leftarrow> firewall_rules_for h password be;
         ret (if be \<in> {Nftables, Iptables} \<and> (Ufw \<in> set backends \<or> Firewalld \<in> set backends)
              then filter (\<lambda>r. \<not> internal_rule h r) rules else rules) }) backends;
     ret (JObj [(''backends'', JArr (map (\<lambda>b. JStr (backend_str b)) backends)),
       (''rules'', JArr (map JObj (concat rows)))]) }"

section \<open>Changing the firewall\<close>

abbreviation net_sudo :: "'w agent_host \<Rightarrow> string \<Rightarrow> string \<Rightarrow> string list \<Rightarrow> ('w, json) act" where
  "net_sudo \<equiv> sudo"

definition firewall_enable_cmd_for :: "firewall_backend \<Rightarrow> string list" where
  "firewall_enable_cmd_for be =
     (case be of
        Ufw \<Rightarrow> [''ufw'', ''--force'', ''enable'']
      | Firewalld \<Rightarrow> [''systemctl'', ''start'', ''firewalld'']
      | Nftables \<Rightarrow> [''systemctl'', ''start'', ''nftables'']
      | _ \<Rightarrow> [''true''])"

definition firewall_disable_cmd_for :: "firewall_backend \<Rightarrow> string list" where
  "firewall_disable_cmd_for be =
     (case be of
        Ufw \<Rightarrow> [''ufw'', ''disable'']
      | Firewalld \<Rightarrow> [''systemctl'', ''stop'', ''firewalld'']
      | Nftables \<Rightarrow> [''systemctl'', ''stop'', ''nftables'']
      | _ \<Rightarrow> [''true''])"

text \<open>The closures of \<open>firewall_add_rule\<close>.\<close>

definition validate_port :: "string \<Rightarrow> bool" where
  "validate_port p \<longleftrightarrow> list_all (\<lambda>part. parse_uint U16_MAX part \<noteq> None) (split_on (CHR '':'') p)"

definition validate_proto :: "string \<Rightarrow> bool" where
  "validate_proto p \<longleftrightarrow> p \<in> {''tcp'', ''udp'', ''icmp''}"

definition validate_ip_or_cidr :: "string \<Rightarrow> bool" where
  "validate_ip_or_cidr s \<longleftrightarrow>
     s = ''any'' \<or>
     (case rsplit_once (CHR ''/'') s of
        None \<Rightarrow> parse_ip s \<noteq> None
      | Some (a, p) \<Rightarrow>
          (case parse_uint U32_MAX p of None \<Rightarrow> False | Some n \<Rightarrow> n \<le> 128 \<and> parse_ip a \<noteq> None))"

definition validate_service_name :: "string \<Rightarrow> bool" where
  "validate_service_name s \<longleftrightarrow>
     s \<noteq> [] \<and> length s \<le> 128 \<and> list_all (\<lambda>c. is_ascii_alphanumeric c \<or> c \<in> set ''-_.'') s"

definition ufw_add_args :: "string \<Rightarrow> string \<Rightarrow> string \<Rightarrow> string \<Rightarrow> string list" where
  "ufw_add_args action src port proto =
     (if src = ''any'' then [''ufw'', action, port @ ''/'' @ proto]
      else [''ufw'', action, ''from'', src, ''to'', ''any'', ''port'', port, ''proto'', proto])"

definition bad_port :: string where "bad_port = ''invalid port number''"
definition bad_proto :: string where "bad_proto = ''invalid protocol (tcp, udp, icmp)''"

definition verdict_of :: "string \<Rightarrow> string \<Rightarrow> string \<Rightarrow> string \<Rightarrow> string" where
  "verdict_of action drop' reject' accept' =
     (if action \<in> {''drop'', ''deny''} then drop' else if action = ''reject'' then reject' else accept')"

definition low_level_add :: "firewall_backend \<Rightarrow> string \<Rightarrow> string \<Rightarrow> string \<Rightarrow> string list option" where
  "low_level_add be action port proto =
     (case be of
        Iptables \<Rightarrow> Some [''iptables'', ''-A'', ''INPUT'', ''-p'', proto, ''--dport'', port, ''-j'',
                          verdict_of action ''DROP'' ''REJECT'' ''ACCEPT'']
      | Nftables \<Rightarrow> Some [''nft'', ''add'', ''rule'', ''inet'', ''filter'', ''input'', proto, ''dport'', port,
                          verdict_of action ''drop'' ''reject'' ''accept'']
      | _ \<Rightarrow> None)"

definition chosen_backend :: "'w agent_host \<Rightarrow> firewall_backend option \<Rightarrow> ('w, firewall_backend) act" where
  "chosen_backend h target = (case target of Some b \<Rightarrow> ret b | None \<Rightarrow> detect_firewall h)"

definition add_rule_on ::
  "'w agent_host \<Rightarrow> string \<Rightarrow> string \<Rightarrow> json \<Rightarrow> firewall_backend \<Rightarrow> ('w, json) act" where
  "add_rule_on h user password rule be =
     (let port = str_field rule ''port''; proto = unwrap_or ''tcp'' (jget_str rule ''proto'')
      in case be of
           Ufw \<Rightarrow>
             (let action = unwrap_or ''allow'' (jget_str rule ''action''); src = unwrap_or ''any'' (jget_str rule ''from'')
              in ensure (port \<noteq> []) ''port required''
                 (ensure (validate_port port) bad_port
                 (ensure (validate_proto proto) bad_proto
                 (ensure (action \<in> {''allow'', ''deny'', ''reject'', ''limit''}) ''invalid action''
                 (ensure (validate_ip_or_cidr src) (''invalid source address (expected IP, CIDR, or '' @ [DQ] @ ''any'' @ [DQ] @ '')'')
                 (net_sudo h user password (ufw_add_args action src port proto)))))))
         | Firewalld \<Rightarrow>
             (case jget_str rule ''service'' of
                Some svc \<Rightarrow>
                  ensure (validate_service_name svc) ''invalid service name (alphanumeric, hyphens, underscores, dots only)''
                    (net_sudo h user password [''firewall-cmd'', ''--permanent'', ''--add-service'', svc])
              | None \<Rightarrow>
                  ensure (port \<noteq> []) ''port or service required''
                    (ensure (validate_port port) bad_port
                    (ensure (validate_proto proto) bad_proto
                    (net_sudo h user password [''firewall-cmd'', ''--permanent'', ''--add-port'', port @ ''/'' @ proto]))))
         | _ \<Rightarrow>
             ensure (port \<noteq> []) ''port required''
               (ensure (validate_port port) bad_port
               (ensure (validate_proto proto) bad_proto
               (case low_level_add be (unwrap_or ''accept'' (jget_str rule ''action'')) port proto of
                  Some args \<Rightarrow> net_sudo h user password args
                | None \<Rightarrow> ret (jerror ''no firewall backend available'')))))"

definition firewall_add_rule ::
  "'w agent_host \<Rightarrow> string \<Rightarrow> string \<Rightarrow> json \<Rightarrow> firewall_backend option \<Rightarrow> ('w, json) act" where
  "firewall_add_rule h user password rule target = do {
     be \<leftarrow> chosen_backend h target;
     add_rule_on h user password rule be }"

text \<open>The second word of the line that names the chain.\<close>

definition chain_name :: "string \<Rightarrow> string" where
  "chain_name chain = (case split_whitespace chain of _ # w # _ \<Rightarrow> w | _ \<Rightarrow> ''INPUT'')"

definition remove_rule_on ::
  "'w agent_host \<Rightarrow> string \<Rightarrow> string \<Rightarrow> json \<Rightarrow> firewall_backend \<Rightarrow> ('w, json) act" where
  "remove_rule_on h user password rule be =
     (let number = map_option show_nat (nat_field rule ''number'')
      in case be of
           Ufw \<Rightarrow>
             (case number of
                Some n \<Rightarrow> net_sudo h user password [''ufw'', ''--force'', ''delete'', n]
              | None \<Rightarrow> ret (jerror ''rule number required for ufw delete''))
         | Firewalld \<Rightarrow>
             (case jget_str rule ''service'' of
                Some svc \<Rightarrow>
                  ensure (validate_service_name svc) ''invalid service name''
                    (net_sudo h user password [''firewall-cmd'', ''--permanent'', ''--remove-service'', svc])
              | None \<Rightarrow>
                  ensure (str_field rule ''port'' \<noteq> []) ''port/service or rule number required''
                    (net_sudo h user password [''firewall-cmd'', ''--permanent'', ''--remove-port'',
                       str_field rule ''port'' @ ''/'' @ unwrap_or ''tcp'' (jget_str rule ''proto'')]))
         | Iptables \<Rightarrow>
             (case number of
                Some n \<Rightarrow> net_sudo h user password [''iptables'', ''-D'', chain_name (str_field rule ''chain''), n]
              | None \<Rightarrow> ret (jerror ''rule number required for iptables delete''))
         | Nftables \<Rightarrow>
             (case number of
                Some n \<Rightarrow> net_sudo h user password
                  [''nft'', ''delete'', ''rule'', unwrap_or ''inet'' (jget_str rule ''family''),
                   unwrap_or ''filter'' (jget_str rule ''table''), unwrap_or ''input'' (jget_str rule ''chain''), ''handle'', n]
              | None \<Rightarrow> ret (jerror ''rule handle required for nftables delete''))
         | NoFirewall \<Rightarrow> ret (jerror ''no firewall backend available''))"

text \<open>The front end in use is looked up even when the rule names one.\<close>

definition firewall_remove_rule ::
  "'w agent_host \<Rightarrow> string \<Rightarrow> string \<Rightarrow> json \<Rightarrow> firewall_backend option \<Rightarrow> ('w, json) act" where
  "firewall_remove_rule h user password rule target = do {
     be \<leftarrow> (case target of
              Some b \<Rightarrow> ret b
            | None \<Rightarrow> do {
                found \<leftarrow> detect_firewall h;
                ret (unwrap_or found (Option.bind (jget_str rule ''backend'') parse_backend)) });
     remove_rule_on h user password rule be }"

section \<open>Interfaces\<close>

definition iface_path :: "string \<Rightarrow> string \<Rightarrow> string" where
  "iface_path name f = ''/sys/class/net/'' @ name @ ''/'' @ f"

definition type_by_name :: "string \<Rightarrow> string option" where
  "type_by_name name =
     (let named = (\<lambda>ps. list_ex (\<lambda>p. starts_with p name) ps)
      in if CHR ''.'' \<in> set name then Some ''vlan''
         else if named [''tun'', ''tap'', ''wg''] then Some ''vpn''
         else if named [''veth'', ''docker'', ''br-''] then Some ''container''
         else if named [''bond''] then Some ''bond''
         else if named [''wl'', ''wlan''] then Some ''wireless''
         else None)"

definition detect_iface_type :: "'w agent_host \<Rightarrow> string \<Rightarrow> ('w, string) act" where
  "detect_iface_type h name = do {
     bridge \<leftarrow> path_exists h (iface_path name ''bridge'');
     if bridge then ret ''bridge''
     else (case type_by_name name of
             Some t \<Rightarrow> ret t
           | None \<Rightarrow> do {
               wireless \<leftarrow> path_exists h (iface_path name ''wireless'');
               if wireless then ret ''wireless''
               else do {
                 t \<leftarrow> read_file h (iface_path name ''type'');
                 ret (if map_option trim t = Some ''772'' then ''loopback'' else ''ethernet'') } }) }"

definition addresses_of :: "string \<Rightarrow> json list \<Rightarrow> json list" where
  "addresses_of family addrs =
     List.map_filter (\<lambda>ai.
       if str_field ai ''local'' = [] \<or> str_field ai ''family'' \<noteq> family then None
       else Some (JStr (str_field ai ''local'' @ ''/'' @ show_nat (unwrap_or 0 (nat_field ai ''prefixlen''))))) addrs"

definition iface_json :: "'w agent_host \<Rightarrow> json \<Rightarrow> string \<Rightarrow> json" where
  "iface_json h entry iface_type =
     JObj [(''name'', JStr (str_field entry ''ifname'')),
       (''state'', JStr (ah_lower h (unwrap_or ''unknown'' (jget_str entry ''operstate'')))),
       (''mac'', JStr (str_field entry ''address'')), (''mtu'', JInt (int (unwrap_or 0 (nat_field entry ''mtu'')))),
       (''link_type'', JStr (unwrap_or ''unknown'' (jget_str entry ''link_type''))), (''iface_type'', JStr iface_type),
       (''flags'', JArr (map JStr (extract_string_array entry ''flags''))),
       (''ipv4'', JArr (addresses_of ''inet'' (array_field entry ''addr_info''))),
       (''ipv6'', JArr (addresses_of ''inet6'' (array_field entry ''addr_info'')))]"

definition ip_addr_args :: "string list" where
  "ip_addr_args = [''-j'', ''addr'', ''show'']"

definition list_interfaces_detailed :: "'w agent_host \<Rightarrow> ('w, json) act" where
  "list_interfaces_detailed h = do {
     r \<leftarrow> run_raw h ''ip'' ip_addr_args None;
     case r of
       Inl _ \<Rightarrow> ret (JObj [(''interfaces'', JArr [])])
     | Inr out \<Rightarrow>
         if \<not> out_ok out then ret (JObj [(''interfaces'', JArr [])])
         else (let entries = unwrap_or [] (Option.bind (ah_parse h (out_stdout out)) as_array) in do {
             rows \<leftarrow> act_map (\<lambda>e. do { t \<leftarrow> detect_iface_type h (str_field e ''ifname''); ret (iface_json h e t) })
               (filter (\<lambda>e. str_field e ''ifname'' \<noteq> ''lo'') entries);
             ret (JObj [(''interfaces'', JArr rows)]) }) }"

definition said_ok :: "json \<Rightarrow> bool" where
  "said_ok r \<longleftrightarrow> jget_bool r ''ok'' = Some True"

definition link_set :: "string \<Rightarrow> string \<Rightarrow> string list" where
  "link_set name st = [''ip'', ''link'', ''set'', ''dev'', name, st]"

definition add_bridge :: "'w agent_host \<Rightarrow> string \<Rightarrow> string \<Rightarrow> string \<Rightarrow> ('w, json) act" where
  "add_bridge h user password name =
     ensure (name \<noteq> [] \<and> chars_within h ''-_'' name) ''invalid bridge name''
       (do {
          nm \<leftarrow> installed h ''nmcli'';
          if nm then net_sudo h user password
            [''nmcli'', ''connection'', ''add'', ''type'', ''bridge'', ''ifname'', name, ''con-name'', name]
          else do {
            r1 \<leftarrow> net_sudo h user password [''ip'', ''link'', ''add'', ''name'', name, ''type'', ''bridge''];
            if said_ok r1 then net_sudo h user password (link_set name ''up'') else ret r1 } })"

definition add_vlan :: "'w agent_host \<Rightarrow> string \<Rightarrow> string \<Rightarrow> string \<Rightarrow> nat \<Rightarrow> ('w, json) act" where
  "add_vlan h user password parent vlan =
     (let name = parent @ ''.'' @ show_nat vlan; i = show_nat vlan
      in ensure (parent \<noteq> [] \<and> vlan \<noteq> 0 \<and> vlan \<le> 4094) ''invalid parent or VLAN ID (1-4094)''
         (ensure (chars_within h ''-_'' parent) ''invalid parent interface name''
         (do {
            nm \<leftarrow> installed h ''nmcli'';
            if nm then net_sudo h user password
              [''nmcli'', ''connection'', ''add'', ''type'', ''vlan'', ''ifname'', name, ''dev'', parent, ''id'', i]
            else net_sudo h user password
              [''ip'', ''link'', ''add'', ''link'', parent, ''name'', name, ''type'', ''vlan'', ''id'', i] })))"

definition remove_interface :: "'w agent_host \<Rightarrow> string \<Rightarrow> string \<Rightarrow> string \<Rightarrow> ('w, json) act" where
  "remove_interface h user password name =
     ensure (name \<noteq> [] \<and> chars_within h ''-_.'' name) ''invalid interface name''
       (do {
          nm \<leftarrow> installed h ''nmcli'';
          r \<leftarrow> (if nm then net_sudo h user password [''nmcli'', ''connection'', ''delete'', ''--'', name] else ret JNull);
          if said_ok r then ret r else net_sudo h user password [''ip'', ''link'', ''delete'', ''dev'', name] })"

definition set_iface :: "'w agent_host \<Rightarrow> string \<Rightarrow> string \<Rightarrow> string \<Rightarrow> string \<Rightarrow> ('w, json) act" where
  "set_iface h st user password name =
     ensure (name \<noteq> [] \<and> chars_within h ''-_.'' name) ''invalid interface name''
       (net_sudo h user password (link_set name st))"

section \<open>VPN connections and logs\<close>

definition vpn_row :: "string \<Rightarrow> json option" where
  "vpn_row l =
     (case split_on (CHR '':'') l of
        a # b # c # d # _ \<Rightarrow>
          if contains_str ''vpn'' b \<or> contains_str ''wireguard'' b \<or> contains_str ''tun'' b
          then Some (JObj [(''name'', JStr a), (''type'', JStr b), (''device'', JStr c), (''state'', JStr d)])
          else None
      | _ \<Rightarrow> None)"

definition nmcli_list :: "string list" where
  "nmcli_list = [''nmcli'', ''-t'', ''-f'', ''NAME,TYPE,DEVICE,STATE'', ''connection'', ''show'']"

definition vpn_list :: "'w agent_host \<Rightarrow> ('w, json) act" where
  "vpn_list h = do {
     nm \<leftarrow> installed h ''nmcli'';
     if \<not> nm then ret (JObj [(''vpns'', JArr []), (''note'', JStr ''NetworkManager not available'')])
     else do {
       out \<leftarrow> run h nmcli_list;
       ret (JObj [(''vpns'', JArr (List.map_filter vpn_row (lines out)))]) } }"

definition vpn_switch :: "'w agent_host \<Rightarrow> string \<Rightarrow> string \<Rightarrow> string \<Rightarrow> string \<Rightarrow> ('w, json) act" where
  "vpn_switch h st user password name =
     ensure (name \<noteq> [] \<and> chars_within h ''-_ '' name) ''invalid connection name''
       (net_sudo h user password [''nmcli'', ''connection'', st, ''--'', name])"

definition unit_logs :: "string \<Rightarrow> nat \<Rightarrow> string list" where
  "unit_logs unit n = [''journalctl'', ''-u'', unit, ''-n'', show_nat n, ''--no-pager'', ''--output=short-iso'']"

definition firewall_logs :: "string list" where
  "firewall_logs =
     [''journalctl'', ''-t'', ''kernel'', ''--grep'', ''UFW'' @ [BSL] @ ''|FIREWALL'' @ [BSL] @ ''|nft'' @ [BSL] @ ''|iptables'',
      ''-n'', ''50'', ''--no-pager'', ''--output=short-iso'']"

definition network_logs :: "'w agent_host \<Rightarrow> nat \<Rightarrow> ('w, json) act" where
  "network_logs h n = do {
     nm \<leftarrow> installed h ''nmcli'';
     out \<leftarrow> run h (unit_logs (if nm then ''NetworkManager'' else ''systemd-networkd'') (min n 500));
     fw \<leftarrow> run h firewall_logs;
     ret (JObj [(''network_logs'', JArr (map JStr (lines out))),
       (''firewall_logs'', JArr (map JStr (filter (\<lambda>l. l \<noteq> []) (lines fw))))]) }"

section \<open>Listening ports\<close>

definition split_hostport :: "string \<Rightarrow> string \<times> nat" where
  "split_hostport s =
     (case rsplit_once (CHR '':'') s of
        None \<Rightarrow> (s, 0)
      | Some (a, p) \<Rightarrow>
          (let br = (\<lambda>c. c = CHR ''['' \<or> c = CHR '']'')
           in (rev (dropWhile br (rev (dropWhile br a))), unwrap_or 0 (parse_uint U32_MAX p))))"

definition quoted :: "string \<Rightarrow> string" where
  "quoted s =
     (case split_once DQ s of
        None \<Rightarrow> []
      | Some (_, r) \<Rightarrow> (case split_once DQ r of None \<Rightarrow> [] | Some (name, _) \<Rightarrow> name))"

definition parse_proc :: "string \<Rightarrow> string \<times> nat" where
  "parse_proc s =
     (quoted s,
      case split_once_str ''pid='' s of
        None \<Rightarrow> 0
      | Some (_, r) \<Rightarrow> unwrap_or 0 (parse_uint U64_MAX (takeWhile is_ascii_digit r)))"

definition parse_ss_line :: "string \<Rightarrow> json option" where
  "parse_ss_line raw =
     (let t = trim raw
      in case split_whitespace t of
           proto # st # _ # _ # local # _ \<Rightarrow>
             (let (address, port) = split_hostport local;
                  (process, pid) = (case find_str ''users:(('' t of Some i \<Rightarrow> parse_proc (drop i t) | None \<Rightarrow> ([], 0))
              in Some (JObj
                [(''proto'', JStr proto), (''state'', JStr st), (''local'', JStr local), (''address'', JStr address),
                 (''port'', JInt (int port)), (''process'', JStr process), (''pid'', JInt (int pid))]))
         | _ \<Rightarrow> None)"

definition ports_json :: "string \<Rightarrow> json" where
  "ports_json out =
     (let ports = List.map_filter parse_ss_line (lines out)
      in JObj [(''ports'', JArr ports), (''count'', JInt (int (length ports)))])"

definition no_ports :: "(string \<times> json) list \<Rightarrow> json" where
  "no_ports rest = JObj ((''ports'', JArr []) # rest)"

definition ss_args :: "string list" where
  "ss_args = [''ss'', ''-tulpnH'']"

definition list_ports :: "'w agent_host \<Rightarrow> string \<Rightarrow> string \<Rightarrow> ('w, json) act" where
  "list_ports h user password = do {
     ss \<leftarrow> installed h ''ss'';
     if \<not> ss then ret (no_ports [(''error'', JStr ''ss (iproute2) is not available'')])
     else if \<not> is_valid_username h user then ret (no_ports [(''error'', JStr ''no session user'')])
     else if password \<noteq> [] then do {
       r \<leftarrow> sudo h user password ss_args;
       ret (case jget_str r ''output'' of
              Some out \<Rightarrow> ports_json out
            | None \<Rightarrow> no_ports [(''error'', JStr (unwrap_or ''command failed'' (jget_str r ''error'')))]) }
     else do {
       r \<leftarrow> run_user h user ss_args;
       ret (case r of
              NoAccount \<Rightarrow> no_ports [(''restricted'', JBool True), (''reason'', JStr ''no-account'')]
            | SpawnFailed e \<Rightarrow> no_ports [(''error'', JStr e)]
            | RanOut _ so _ \<Rightarrow> ports_json (from_utf8_lossy so)) } }"

definition kill_signal :: "string \<Rightarrow> string" where
  "kill_signal s = (if s \<in> {''KILL'', ''TERM'', ''HUP'', ''INT''} then s else ''TERM'')"

definition kill_process :: "'w agent_host \<Rightarrow> string \<Rightarrow> string \<Rightarrow> nat \<Rightarrow> string \<Rightarrow> ('w, json) act" where
  "kill_process h user password pid signal =
     ensure (pid > 1) ''refusing to signal this pid''
       (do {
          r \<leftarrow> net_sudo h user password [''kill'', ''-'' @ kill_signal signal, show_nat pid];
          record_audit user ''net.kill_process'' (show_nat pid) (\<not> has_error r) (kill_signal signal);
          ret (if has_error r then r else ok_json) })"

section \<open>The handler\<close>

definition net_reads :: "string list" where
  "net_reads = [''list_interfaces'', ''firewall_status'', ''firewall_rules'', ''list_ports'']"

text \<open>The actions with an audit record of their own, and the others.\<close>

definition rule_of :: "json \<Rightarrow> json" where
  "rule_of data = unwrap_or JNull (jget data ''rule'')"

definition rule_backend :: "json \<Rightarrow> firewall_backend option" where
  "rule_backend data =
     parse_backend (unwrap_or [] (case jget_str data ''backend'' of
        Some b \<Rightarrow> Some b | None \<Rightarrow> jget_str (rule_of data) ''backend''))"

definition switch_firewall ::
  "'w agent_host \<Rightarrow> (firewall_backend \<Rightarrow> string list) \<Rightarrow> json \<Rightarrow> string \<Rightarrow> string \<Rightarrow> ('w, json) act" where
  "switch_firewall h cmd data user password = do {
     found \<leftarrow> detect_firewall h;
     net_sudo h user password (cmd (unwrap_or found (parse_backend (str_field data ''backend'')))) }"

definition net_audited :: "'w agent_host \<Rightarrow> string \<Rightarrow> json \<Rightarrow> string \<Rightarrow> string \<Rightarrow> ('w, json) act option" where
  "net_audited h action data user password =
     (let name = str_field data ''name''
      in map_of
        [(''firewall_enable'', switch_firewall h firewall_enable_cmd_for data user password),
         (''firewall_disable'', switch_firewall h firewall_disable_cmd_for data user password),
         (''firewall_add_rule'', firewall_add_rule h user password (rule_of data) (rule_backend data)),
         (''firewall_remove_rule'', firewall_remove_rule h user password (rule_of data) (rule_backend data)),
         (''add_bridge'', add_bridge h user password name),
         (''add_vlan'', add_vlan h user password (str_field data ''parent'')
            (unwrap_or 0 (nat_field data ''vlan_id'') mod 2 ^ 32)),
         (''remove_interface'', remove_interface h user password name),
         (''iface_up'', set_iface h ''up'' user password name),
         (''iface_down'', set_iface h ''down'' user password name),
         (''vpn_connect'', vpn_switch h ''up'' user password name),
         (''vpn_disconnect'', vpn_switch h ''down'' user password name)] action)"

definition net_plain_action :: "'w agent_host \<Rightarrow> string \<Rightarrow> json \<Rightarrow> string \<Rightarrow> string \<Rightarrow> ('w, json) act option" where
  "net_plain_action h action data user password =
     map_of
        [(''list_interfaces'', list_interfaces_detailed h),
         (''firewall_status'', firewall_status_all h password),
         (''firewall_rules'', firewall_rules_all h password),
         (''list_ports'', list_ports h user password),
         (''vpn_list'', vpn_list h),
         (''network_logs'', network_logs h (unwrap_or 100 (nat_field data ''lines''))),
         (''kill_process'', kill_process h user password (unwrap_or 0 (nat_field data ''pid''))
            (unwrap_or ''TERM'' (jget_str data ''signal'')))] action"

definition net_target :: "json \<Rightarrow> string" where
  "net_target data = first_text [''name'', ''parent''] data"

definition net_action :: "'w agent_host \<Rightarrow> json \<Rightarrow> ('w, json) act" where
  "net_action h data =
     (let action = str_field data ''action''; user = str_field data ''_user''; password = str_field data ''password''
      in case net_audited h action data user password of
           Some m \<Rightarrow> do {
             r \<leftarrow> m;
             record_audit user (''net.'' @ action) (net_target data) (\<not> has_error r) [];
             ret (echo_action action r) }
         | None \<Rightarrow>
             (case net_plain_action h action data user password of
                Some m \<Rightarrow> do { r \<leftarrow> m; ret (echo_action action r) }
              | None \<Rightarrow> ret (echo_action action (jerror (''unknown action: '' @ action)))))"

definition net_answer :: "'w agent_host \<Rightarrow> json \<Rightarrow> ('w, json) act" where
  "net_answer h data =
     (if str_field data ''action'' \<in> set net_reads then net_action h data else admin_only data (net_action h data))"

definition networking_manage :: "'w agent_host \<Rightarrow> 'w agent_state handler" where
  "networking_manage h = conversing ''networking.manage'' (net_answer h)"

section \<open>What it may run\<close>

definition checked_name :: "'w agent_host \<Rightarrow> string \<Rightarrow> string \<Rightarrow> bool" where
  "checked_name h others s \<longleftrightarrow> s \<noteq> [] \<and> chars_within h others s"

definition checked_rule :: "string \<Rightarrow> string \<Rightarrow> bool" where
  "checked_rule port proto \<longleftrightarrow> validate_port port \<and> validate_proto proto"

inductive net_change :: "'w agent_host \<Rightarrow> string list \<Rightarrow> bool" for h where
  enable: "net_change h (firewall_enable_cmd_for be)"
| disable: "net_change h (firewall_disable_cmd_for be)"
| ufw: "checked_rule port proto \<Longrightarrow> action \<in> {''allow'', ''deny'', ''reject'', ''limit''} \<Longrightarrow> validate_ip_or_cidr src \<Longrightarrow>
    net_change h (ufw_add_args action src port proto)"
| service: "op \<in> {''--add-service'', ''--remove-service''} \<Longrightarrow> validate_service_name svc \<Longrightarrow>
    net_change h [''firewall-cmd'', ''--permanent'', op, svc]"
| add_port: "checked_rule port proto \<Longrightarrow> net_change h [''firewall-cmd'', ''--permanent'', ''--add-port'', port @ ''/'' @ proto]"
| remove_port: "net_change h [''firewall-cmd'', ''--permanent'', ''--remove-port'', port @ ''/'' @ proto]"
| low_level: "checked_rule port proto \<Longrightarrow> low_level_add be action port proto = Some args \<Longrightarrow> net_change h args"
| ufw_delete: "net_change h [''ufw'', ''--force'', ''delete'', show_nat n]"
| iptables_delete: "net_change h [''iptables'', ''-D'', chain_name chain, show_nat n]"
| nft_delete: "net_change h [''nft'', ''delete'', ''rule'', family, table, chain, ''handle'', show_nat n]"
| nm_bridge: "checked_name h ''-_'' name \<Longrightarrow>
    net_change h [''nmcli'', ''connection'', ''add'', ''type'', ''bridge'', ''ifname'', name, ''con-name'', name]"
| ip_bridge: "checked_name h ''-_'' name \<Longrightarrow> net_change h [''ip'', ''link'', ''add'', ''name'', name, ''type'', ''bridge'']"
| nm_vlan: "checked_name h ''-_'' parent \<Longrightarrow> vlan \<noteq> 0 \<Longrightarrow> vlan \<le> 4094 \<Longrightarrow>
    net_change h [''nmcli'', ''connection'', ''add'', ''type'', ''vlan'', ''ifname'', parent @ ''.'' @ show_nat vlan, ''dev'',
      parent, ''id'', show_nat vlan]"
| ip_vlan: "checked_name h ''-_'' parent \<Longrightarrow> vlan \<noteq> 0 \<Longrightarrow> vlan \<le> 4094 \<Longrightarrow>
    net_change h [''ip'', ''link'', ''add'', ''link'', parent, ''name'', parent @ ''.'' @ show_nat vlan, ''type'', ''vlan'', ''id'',
      show_nat vlan]"
| nm_delete: "checked_name h ''-_.'' name \<Longrightarrow> net_change h [''nmcli'', ''connection'', ''delete'', ''--'', name]"
| ip_delete: "checked_name h ''-_.'' name \<Longrightarrow> net_change h [''ip'', ''link'', ''delete'', ''dev'', name]"
| link_name: "checked_name h ''-_'' name \<Longrightarrow> net_change h (link_set name st)"
| link_dotted: "checked_name h ''-_.'' name \<Longrightarrow> net_change h (link_set name st)"
| vpn: "checked_name h ''-_ '' name \<Longrightarrow> net_change h [''nmcli'', ''connection'', st, ''--'', name]"
| kill: "pid > 1 \<Longrightarrow> net_change h [''kill'', ''-'' @ kill_signal signal, show_nat pid]"

definition net_ss :: "string list \<Rightarrow> bool" where
  "net_ss args \<longleftrightarrow> args = ss_args"

definition net_sudo_args :: "'w agent_host \<Rightarrow> string list \<Rightarrow> bool" where
  "net_sudo_args h args \<longleftrightarrow> net_change h args \<or> net_ss args"

text \<open>The questions, the agent's own: with its own \<open>sudo\<close> where a password is given.\<close>

definition sudo_queries :: "string list list" where
  "sudo_queries = [[''ufw'', ''status''], [''ufw'', ''status'', ''numbered''], nft_list, iptables_list]"

inductive net_query :: "string list \<Rightarrow> bool" where
  which: "tool \<in> {''ufw'', ''firewall-cmd'', ''nft'', ''iptables'', ''nmcli'', ''ss''} \<Longrightarrow> net_query [''which'', tool]"
| asked: "args \<in> set sudo_queries \<Longrightarrow> net_query args"
| asked_sudo: "args \<in> set sudo_queries \<Longrightarrow> net_query (''sudo'' # ''-S'' # args)"
| state: "net_query [''firewall-cmd'', ''--state'']"
| zone: "net_query [''firewall-cmd'', ''--get-default-zone'']"
| rules: "op \<in> {''--list-services'', ''--list-ports'', ''--list-rich-rules''} \<Longrightarrow>
    net_query [''firewall-cmd'', ''--zone'', zone, op]"
| interfaces: "net_query (''ip'' # ip_addr_args)"
| vpns: "net_query nmcli_list"
| logs: "unit \<in> {''NetworkManager'', ''systemd-networkd''} \<Longrightarrow> n \<le> 500 \<Longrightarrow> net_query (unit_logs unit n)"
| fw_logs: "net_query firewall_logs"

abbreviation net_confined :: "'w agent_host \<Rightarrow> string \<Rightarrow> string \<Rightarrow> effect \<Rightarrow> bool" where
  "net_confined h \<equiv> confined (net_sudo_args h) net_ss net_query"

lemma net_emits_run: "net_query args \<Longrightarrow> args \<noteq> [] \<Longrightarrow> emits (queries net_query) (run h args)"
  by (rule emits_run) (simp add: queries_plain)

lemma net_emits_sudo_run: "args \<in> set sudo_queries \<Longrightarrow> emits (queries net_query) (sudo_run_cmd h password args)"
  unfolding sudo_run_cmd_def
  by (intro emits_if net_emits_run emits_bind emits_ret emits_run_raw queries_plain net_query.asked net_query.asked_sudo)
    (auto simp: sudo_queries_def nft_list_def iptables_list_def)

lemma net_emits_installed:
  "tool \<in> {''ufw'', ''firewall-cmd'', ''nft'', ''iptables'', ''nmcli'', ''ss''} \<Longrightarrow> emits (queries net_query) (installed h tool)"
  by (rule emits_installed) (rule queries_plain, rule net_query.which)

lemma net_emits_detect:
  "emits (queries net_query) (detect_firewall h)" "emits (queries net_query) (detect_all_firewalls h)"
  unfolding detect_firewall_def detect_all_firewalls_def
  by (intro emits_bind emits_if emits_ret net_emits_installed; simp)+

lemma sudo_queries_in:
  "[''ufw'', ''status''] \<in> set sudo_queries" "[''ufw'', ''status'', ''numbered''] \<in> set sudo_queries"
  "nft_list \<in> set sudo_queries" "iptables_list \<in> set sudo_queries"
  by (simp_all add: sudo_queries_def)

lemma net_emits_status: "emits (queries net_query) (firewall_status_all h password)"
proof -
  have "emits (queries net_query) (firewall_status_single h password be)" for be
    unfolding firewall_status_single_def Let_def
    by (cases be; simp only: firewall_backend.case)
      (intro emits_bind emits_ret net_emits_sudo_run sudo_queries_in net_emits_run net_query.state; simp)+
  then show ?thesis unfolding firewall_status_all_def
    by (intro emits_bind emits_ret net_emits_detect emits_act_map)
qed

lemma net_emits_rules: "emits (queries net_query) (firewall_rules_all h password)"
proof -
  have fw: "emits (queries net_query) (parse_firewalld_rules h)"
    unfolding parse_firewalld_rules_def Let_def
    by (intro emits_bind emits_ret net_emits_run net_query.zone net_query.rules; simp)
  have "emits (queries net_query) (firewall_rules_for h password be)" for be
    unfolding firewall_rules_for_def parse_ufw_rules_def parse_iptables_rules_def
    by (cases be; simp only: firewall_backend.case)
      (intro emits_bind emits_ret net_emits_sudo_run sudo_queries_in fw)+
  then show ?thesis unfolding firewall_rules_all_def
    by (intro emits_bind emits_ret net_emits_detect emits_act_map)
qed

lemma net_emits_interfaces: "emits (queries net_query) (list_interfaces_detailed h)"
proof -
  have "emits (queries net_query) (detect_iface_type h name)" for name
    unfolding detect_iface_type_def by (intro emits_bind emits_if emits_ret emits_reads emits_option)
  then show ?thesis unfolding list_interfaces_detailed_def Let_def
    by (intro emits_bind emits_sum emits_if emits_ret emits_act_map emits_run_raw queries_plain net_query.interfaces)
qed

lemma net_emits_vpn_list: "emits (queries net_query) (vpn_list h)"
  unfolding vpn_list_def
  by (intro emits_bind emits_if emits_ret net_emits_installed net_emits_run net_query.vpns; simp add: nmcli_list_def)

lemma net_emits_logs: "emits (queries net_query) (network_logs h n)"
  unfolding network_logs_def
  by (intro emits_bind emits_ret net_emits_installed net_emits_run net_query.logs net_query.fw_logs;
      simp add: unit_logs_def firewall_logs_def)

lemma net_emits_sudo: "net_change h args \<Longrightarrow> emits (net_confined h user password) (sudo h user password args)"
  by (rule emits_sudo) (simp add: confined_sudo net_sudo_args_def)

lemma net_emits_ports: "emits (net_confined h user password) (list_ports h user password)"
  unfolding list_ports_def
  by (intro emits_bind emits_if emits_ret emits_sudo emits_run_user confined_sudo confined_user
      emits_queries [OF net_emits_installed]; simp add: net_sudo_args_def net_ss_def ss_args_def)

text \<open>The changes.\<close>

lemma net_emits_add: "emits (net_confined h user password) (add_rule_on h user password rule be)"
proof (cases be)
  case Ufw
  then show ?thesis unfolding add_rule_on_def Let_def
    by (simp only: firewall_backend.case)
      (intro emits_ensure net_emits_sudo net_change.ufw; simp add: checked_rule_def)
next
  case Firewalld
  then show ?thesis unfolding add_rule_on_def Let_def
    by (simp only: firewall_backend.case)
      (intro emits_option emits_ensure net_emits_sudo net_change.service net_change.add_port; simp add: checked_rule_def)
qed (simp only: add_rule_on_def Let_def firewall_backend.case,
    intro emits_ensure emits_option emits_ret net_emits_sudo, rule net_change.low_level, simp_all add: checked_rule_def)+

lemma net_emits_remove: "emits (net_confined h user password) (remove_rule_on h user password rule be)"
proof -
  have num: "emits (net_confined h user password) (case map_option show_nat n of None \<Rightarrow> ret (jerror e) | Some x \<Rightarrow> sudo h user password (c x))"
    if "\<And>k. net_change h (c (show_nat k))" for n e and c :: "string \<Rightarrow> string list"
    using that by (cases n) (auto intro: emits_ret net_emits_sudo)
  show ?thesis unfolding remove_rule_on_def Let_def
    by (cases be; simp only: firewall_backend.case)
      (intro num emits_option emits_ensure emits_ret net_emits_sudo net_change.ufw_delete net_change.iptables_delete
        net_change.nft_delete net_change.service net_change.remove_port; simp)+
qed

lemma net_emits_q: "emits (queries net_query) m \<Longrightarrow> emits (net_confined h user password) m"
  by (rule emits_queries)

lemma net_emits_rule_changes:
  "emits (net_confined h user password) (firewall_add_rule h user password rule target)"
  "emits (net_confined h user password) (firewall_remove_rule h user password rule target)"
  "(\<And>be. net_change h (cmd be)) \<Longrightarrow> emits (net_confined h user password) (switch_firewall h cmd data user password)"
  unfolding firewall_add_rule_def firewall_remove_rule_def chosen_backend_def switch_firewall_def
  by (intro emits_bind emits_option emits_ret net_emits_q net_emits_detect net_emits_add net_emits_remove
      net_emits_sudo; assumption)+

lemma net_emits_links:
  "emits (net_confined h user password) (add_bridge h user password name)"
  "emits (net_confined h user password) (add_vlan h user password parent vlan)"
  "emits (net_confined h user password) (remove_interface h user password name)"
  "emits (net_confined h user password) (set_iface h st user password name)"
  "emits (net_confined h user password) (vpn_switch h st user password name)"
  unfolding add_bridge_def add_vlan_def remove_interface_def set_iface_def vpn_switch_def Let_def
  by (intro emits_ensure emits_bind emits_if emits_ret net_emits_q net_emits_installed net_emits_sudo
      net_change.nm_bridge net_change.ip_bridge net_change.nm_vlan net_change.ip_vlan net_change.nm_delete
      net_change.ip_delete net_change.link_name net_change.link_dotted net_change.vpn;
      simp add: checked_name_def)+

lemma net_emits_kill: "emits (net_confined h user password) (kill_process h user password pid signal)"
  unfolding kill_process_def
  by (intro emits_ensure emits_bind emits_ret emits_record_audit confined_audit net_emits_sudo net_change.kill)

lemma net_emits_audited: "net_audited h action data user password = Some m \<Longrightarrow> emits (net_confined h user password) m"
  unfolding net_audited_def Let_def
  by (erule map_of_all, simp only: list.pred_inject prod.case)
    (intro conjI TrueI net_emits_rule_changes net_emits_links net_change.enable net_change.disable)

lemma net_emits_plain: "net_plain_action h action data user password = Some m \<Longrightarrow> emits (net_confined h user password) m"
  unfolding net_plain_action_def
  by (erule map_of_all, simp only: list.pred_inject prod.case)
    (intro conjI TrueI net_emits_ports net_emits_kill net_emits_q net_emits_interfaces net_emits_status
      net_emits_rules net_emits_vpn_list net_emits_logs)

interpretation networking_manage: bounded_handler "networking_manage h" "net_confined h"
  unfolding networking_manage_def net_answer_def net_action_def Let_def
  by (intro bounded_conversing emits_if emits_admin_only emits_option emits_bind emits_ret emits_record_audit
      confined_audit net_emits_audited net_emits_plain)

text \<open>A session without the admin role asks, and lists ports as its own user.\<close>

definition net_reading :: "effect \<Rightarrow> bool" where
  "net_reading e \<longleftrightarrow>
     queries net_query e \<or>
     (\<exists>u pw p. e = Ran (sudo_command u pw p ss_args)) \<or>
     (\<exists>u pw. e = Ran (user_command u pw (hd ss_args) (tl ss_args)))"

lemma net_reading_queries: "emits (queries net_query) m \<Longrightarrow> emits net_reading m"
  by (erule emits_mono) (simp add: net_reading_def)

lemma net_reading_ports: "emits net_reading (list_ports h user password)"
proof -
  have "net_reading (Ran (sudo_command user pw password ss_args))"
    "net_reading (Ran (user_command user pw (hd ss_args) (tl ss_args)))" for pw
    by (auto simp: net_reading_def)
  then show ?thesis unfolding list_ports_def
    by (intro emits_bind emits_if emits_ret emits_sudo emits_run_user net_reading_queries net_emits_installed) simp_all
qed

lemma net_reading_action:
  assumes "str_field d ''action'' \<in> set net_reads"
  shows "emits net_reading (net_action h d)"
proof -
  have a: "str_field d ''action'' = ''list_interfaces'' \<or> str_field d ''action'' = ''firewall_status'' \<or>
      str_field d ''action'' = ''firewall_rules'' \<or> str_field d ''action'' = ''list_ports''"
    using assms by (simp add: net_reads_def)
  then have "net_audited h (str_field d ''action'') d u p = None" for u p
    by (elim disjE) (simp_all add: net_audited_def Let_def)
  moreover from a have "\<exists>m. net_plain_action h (str_field d ''action'') d u p = Some m \<and> emits net_reading m" for u p
    by (elim disjE) (simp_all add: net_plain_action_def net_reading_queries net_emits_interfaces net_emits_status
        net_emits_rules net_reading_ports)
  then obtain m where "\<And>u p. net_plain_action h (str_field d ''action'') d u p = Some (m u p)" "\<And>u p. emits net_reading (m u p)"
    by metis
  ultimately show ?thesis unfolding net_action_def Let_def by (simp add: emits_bind emits_ret)
qed

interpretation networking_manage: reading_handler "networking_manage h" net_reading
  unfolding networking_manage_def net_answer_def
  by (intro reading_conversing emits_if net_reading_action emits_refused)

section \<open>Rules of nftables\<close>

text \<open>
  A rule of nftables is not removed by its own number: the number the list shows for a rule is its
  place among the lines that look like rules, and removing that very rule asks \<open>nft\<close> to delete
  the rule of the table \<open>inet filter\<close> whose handle is that number, whatever rule that is and
  whatever table and chain the rule shown was in.
\<close>

theorem nft_rule_removed_by_position:
  assumes "i < length (nft_rules out)" and "i + 1 < 2 ^ 64"
  shows "firewall_remove_rule h user password (JObj (hm_put ''backend'' (JStr ''nftables'') (nft_rules out ! i))) (Some Nftables) =
    sudo h user password [''nft'', ''delete'', ''rule'', ''inet'', ''filter'', ''input'', ''handle'', show_nat (i + 1)]"
proof -
  obtain l where row: "nft_rules out ! i = [(''number'', JInt (int (i + 1))), (''rule'', JStr l)]"
    using assms(1) by (simp add: nft_rules_def nth_enumerate_eq)
  let ?rule = "JObj (hm_put ''backend'' (JStr ''nftables'') (nft_rules out ! i))"
  have "jget_str ?rule ''family'' = None" "jget_str ?rule ''table'' = None" "jget_str ?rule ''chain'' = None"
    by (simp_all add: row map_str_def hm_get_put)
  moreover have "nat_field ?rule ''number'' = Some (i + 1)"
    using assms(2) by (simp add: nat_field_def row hm_get_put nat_add_distrib)
  ultimately have "remove_rule_on h user password ?rule Nftables =
      sudo h user password [''nft'', ''delete'', ''rule'', ''inet'', ''filter'', ''input'', ''handle'', show_nat (i + 1)]"
    by (simp add: remove_rule_on_def del: show_nat.simps)
  then show ?thesis by (simp add: firewall_remove_rule_def)
qed

definition nft_text :: string where
  "nft_text = ''tcp dport 22 accept''"

theorem nft_rule_removed_by_position_witness:
  "firewall_remove_rule toy_host ''alice'' ''pw'' (JObj (hm_put ''backend'' (JStr ''nftables'') (nft_rules nft_text ! 0))) (Some Nftables) =
    sudo toy_host ''alice'' ''pw'' [''nft'', ''delete'', ''rule'', ''inet'', ''filter'', ''input'', ''handle'', show_nat (0 + 1)]"
proof (rule nft_rule_removed_by_position)
  have "NL \<notin> set nft_text" by code_simp
  then have "lines nft_text = [nft_text]" by (simp add: lines_of_NL_free) (simp add: nft_text_def)
  moreover have "nft_rule_line nft_text" by code_simp
  ultimately show "0 < length (nft_rules nft_text)" by (simp add: nft_rules_def)
qed simp

end
