(* ===== verification/Containers.thy ===== *)
theory Containers
  imports Handlers TextFacts
begin

text \<open>
  \<open>container.manage\<close> (\<open>agent/src/handlers/containers.rs\<close>): docker and podman. What the
  code calls the user's tier reads as the session's user but changes through the runtime started
  by the agent itself; what it calls root's tier reads through the agent's own \<open>sudo\<close> and changes
  through the session user's.
\<close>

section \<open>Validation\<close>

definition is_valid_container_ref :: "'w agent_host \<Rightarrow> string \<Rightarrow> bool" where
  "is_valid_container_ref h i \<longleftrightarrow>
     i \<noteq> [] \<and> length i \<le> 256 \<and> \<not> starts_with ''-'' i \<and> chars_within h ''-_.'' i"

definition is_valid_image_ref :: "'w agent_host \<Rightarrow> string \<Rightarrow> bool" where
  "is_valid_image_ref h img \<longleftrightarrow>
     img \<noteq> [] \<and> length img \<le> 512 \<and> \<not> starts_with ''-'' img \<and> chars_within h ''-_./: '' img \<and>
     \<not> contains_str ''..'' img"

definition qualify_image :: "string \<Rightarrow> string" where
  "qualify_image raw =
     (let img = trim raw;
          first = (case split_on (CHR ''/'') img of [] \<Rightarrow> [] | f # _ \<Rightarrow> f)
      in if CHR ''/'' \<in> set img \<and> (CHR ''.'' \<in> set first \<or> CHR '':'' \<in> set first \<or> first = ''localhost'')
         then img
         else if CHR ''/'' \<in> set img then ''docker.io/'' @ img
         else ''docker.io/library/'' @ img)"

definition is_valid_restart_policy :: "string \<Rightarrow> bool" where
  "is_valid_restart_policy policy \<longleftrightarrow>
     policy \<in> {''no'', ''always'', ''unless-stopped'', ''on-failure''} \<or>
     (case strip_prefix ''on-failure:'' policy of None \<Rightarrow> False | Some n \<Rightarrow> parse_uint (2 ^ 32 - 1) n \<noteq> None)"

definition is_valid_network_driver :: "string \<Rightarrow> bool" where
  "is_valid_network_driver driver \<longleftrightarrow>
     driver \<in> {''bridge'', ''overlay'', ''host'', ''none'', ''macvlan'', ''ipvlan'', ''null''}"

definition is_valid_cidr :: "string \<Rightarrow> bool" where
  "is_valid_cidr cidr \<longleftrightarrow>
     cidr \<noteq> [] \<and> length cidr \<le> 43 \<and> list_all (\<lambda>c. is_ascii_alphanumeric c \<or> c \<in> set ''.:/%'') cidr \<and>
     CHR ''/'' \<in> set cidr \<and> \<not> starts_with ''/'' cidr"

definition is_valid_ip :: "string \<Rightarrow> bool" where
  "is_valid_ip ip \<longleftrightarrow>
     ip \<noteq> [] \<and> length ip \<le> 39 \<and> list_all (\<lambda>c. is_ascii_alphanumeric c \<or> c \<in> set ''.:'') ip"

definition is_valid_label_key :: "'w agent_host \<Rightarrow> string \<Rightarrow> bool" where
  "is_valid_label_key h key \<longleftrightarrow>
     key \<noteq> [] \<and> length key \<le> 128 \<and> \<not> starts_with ''-'' key \<and> chars_within h ''-_./'' key"

definition is_valid_volume_driver_name :: "'w agent_host \<Rightarrow> string \<Rightarrow> bool" where
  "is_valid_volume_driver_name h driver \<longleftrightarrow>
     driver \<noteq> [] \<and> length driver \<le> 64 \<and> \<not> starts_with ''-'' driver \<and> chars_within h ''-_.'' driver"

section \<open>Running the runtime\<close>

definition runtimes :: "string list" where
  "runtimes = [''docker'', ''podman'']"

text \<open>The first that succeeds, in order.\<close>

fun first_working :: "(string \<Rightarrow> ('w, bool) act) \<Rightarrow> string list \<Rightarrow> ('w, string option) act" where
  "first_working try [] = ret None"
| "first_working try (rt # rts) = do { ok \<leftarrow> try rt; if ok then ret (Some rt) else first_working try rts }"

definition succeeds :: "'w agent_host \<Rightarrow> string \<Rightarrow> string list \<Rightarrow> ('w, bool) act" where
  "succeeds h prog args = do { c \<leftarrow> run_status h prog args; ret (c = Some 0) }"

definition info_args :: "string list" where
  "info_args = [''info'', ''--format'', ''{{.ID}}'']"

definition detect_runtime :: "'w agent_host \<Rightarrow> ('w, string option) act" where
  "detect_runtime h = do {
     a \<leftarrow> first_working (\<lambda>rt. succeeds h rt info_args) runtimes;
     case a of Some rt \<Rightarrow> ret (Some rt) | None \<Rightarrow> first_working (\<lambda>rt. succeeds h rt [''--version'']) runtimes }"

definition detect_runtime_sudo :: "'w agent_host \<Rightarrow> string \<Rightarrow> ('w, string option) act" where
  "detect_runtime_sudo h password =
     first_working (\<lambda>rt. spawned h (own_sudo password (rt # info_args)) (\<lambda>_. False) (\<lambda>ch. ch_wait ch = Inr True)) runtimes"

section \<open>Reading its output\<close>

definition parsed_lines :: "'w agent_host \<Rightarrow> string \<Rightarrow> json list" where
  "parsed_lines h t = List.map_filter (\<lambda>l. if trim l = [] then None else ah_parse h (trim l)) (lines t)"

definition parse_json_output :: "'w agent_host \<Rightarrow> string \<Rightarrow> json" where
  "parse_json_output h out =
     (let t = trim (from_utf8_lossy out); raw = JObj [(''raw'', JStr t)]
      in if t = [] then JArr []
         else if starts_with ''['' t \<or> starts_with ''{'' t then
           (case ah_parse h t of
              Some v \<Rightarrow> (case v of JObj m \<Rightarrow> JArr [v] | _ \<Rightarrow> v)
            | None \<Rightarrow> (if parsed_lines h t = [] then raw else JArr (parsed_lines h t)))
         else raw)"

definition parse_json_array :: "'w agent_host \<Rightarrow> string \<Rightarrow> json list" where
  "parse_json_array h out =
     (let t = trim (from_utf8_lossy out)
      in if t = [] then []
         else (case ah_parse h t of
                 Some (JArr xs) \<Rightarrow> xs
               | Some (JObj m) \<Rightarrow> [JObj m]
               | _ \<Rightarrow> parsed_lines h t))"

definition or_failed :: "string \<Rightarrow> string" where
  "or_failed e = (if e = [] then ''command failed'' else e)"

text \<open>\<open>run_cmd\<close> and \<open>run_cmd_result\<close> start the runtime as the agent's own user.\<close>

definition ct_run_cmd :: "'w agent_host \<Rightarrow> string \<Rightarrow> string list \<Rightarrow> ('w, json) act" where
  "ct_run_cmd h rt args = do {
     r \<leftarrow> run_raw h rt args None;
     ret (case r of
            Inl e \<Rightarrow> jerror e
          | Inr out \<Rightarrow> if out_ok out then parse_json_output h (out_stdout out)
                       else jerror (trim (from_utf8_lossy (out_stderr out)))) }"

definition run_cmd_result :: "'w agent_host \<Rightarrow> string \<Rightarrow> string list \<Rightarrow> ('w, json) act" where
  "run_cmd_result h rt args = do {
     r \<leftarrow> run_raw h rt args None;
     ret (case r of
            Inl e \<Rightarrow> jerror e
          | Inr out \<Rightarrow> if out_ok out then ok_json
                       else jerror (or_failed (trim (from_utf8_lossy (out_stderr out))))) }"

definition run_sudo_cmd :: "'w agent_host \<Rightarrow> string \<Rightarrow> string \<Rightarrow> string list \<Rightarrow> ('w, json) act" where
  "run_sudo_cmd h password rt args = do {
     r \<leftarrow> run_raw h ''sudo'' (''-S'' # rt # args) (Some (password @ [NL]));
     ret (case r of
            Inl e \<Rightarrow> jerror e
          | Inr out \<Rightarrow> if out_ok out then parse_json_output h (out_stdout out)
                       else jerror (or_failed (no_prompts (trim (from_utf8_lossy (out_stderr out)))))) }"

definition run_sudo_cmd_raw ::
  "'w agent_host \<Rightarrow> string \<Rightarrow> string \<Rightarrow> string list \<Rightarrow> ('w, string + string \<times> string) act" where
  "run_sudo_cmd_raw h password rt args = do {
     r \<leftarrow> run_raw h ''sudo'' (''-S'' # rt # args) (Some (password @ [NL]));
     ret (case r of
            Inl e \<Rightarrow> Inl e
          | Inr out \<Rightarrow> Inr (from_utf8_lossy (out_stdout out), no_prompts (from_utf8_lossy (out_stderr out)))) }"

definition run_sudo_cmd_parsed :: "'w agent_host \<Rightarrow> string \<Rightarrow> string \<Rightarrow> string list \<Rightarrow> ('w, json list) act" where
  "run_sudo_cmd_parsed h password rt args =
     spawned h (own_sudo password (rt # args)) (\<lambda>_. [])
       (\<lambda>ch. if ch_wait ch = Inr True \<and> \<not> pipe_failed (ch_out ch) then parse_json_array h (stream (ch_out ch)) else [])"

definition run_user_parsed :: "'w agent_host \<Rightarrow> string \<Rightarrow> string \<Rightarrow> string list \<Rightarrow> ('w, json list) act" where
  "run_user_parsed h user rt args = do {
     r \<leftarrow> run_user h user (rt # args);
     ret (case r of RanOut ok so _ \<Rightarrow> if ok then parse_json_array h so else [] | _ \<Rightarrow> []) }"

definition ct_no_account :: string where
  "ct_no_account = ''no account on this host''"

definition run_user_json :: "'w agent_host \<Rightarrow> string \<Rightarrow> string \<Rightarrow> string list \<Rightarrow> ('w, json) act" where
  "run_user_json h user rt args = do {
     r \<leftarrow> run_user h user (rt # args);
     ret (case r of
            RanOut ok so se \<Rightarrow> if ok then parse_json_output h so else jerror (trim (from_utf8_lossy se))
          | NoAccount \<Rightarrow> jerror ct_no_account
          | SpawnFailed e \<Rightarrow> jerror e) }"

definition run_user_raw :: "'w agent_host \<Rightarrow> string \<Rightarrow> string \<Rightarrow> string list \<Rightarrow> ('w, string \<times> string) act" where
  "run_user_raw h user rt args = do {
     r \<leftarrow> run_user h user (rt # args);
     ret (case r of
            RanOut _ so se \<Rightarrow> (from_utf8_lossy so, from_utf8_lossy se)
          | NoAccount \<Rightarrow> ([], ct_no_account)
          | SpawnFailed e \<Rightarrow> ([], e)) }"

section \<open>Listing\<close>

definition container_id :: "json \<Rightarrow> string" where
  "container_id c = first_text [''Id'', ''ID''] c"

definition tag_owner :: "string \<Rightarrow> json \<Rightarrow> json" where
  "tag_owner owner c = (case c of JObj m \<Rightarrow> JObj (hm_put ''_owner'' (JStr owner) m) | _ \<Rightarrow> c)"

text \<open>Root's entries, without those whose id was seen already.\<close>

fun merge_root :: "(json \<Rightarrow> string) \<Rightarrow> string list \<Rightarrow> json list \<Rightarrow> json list" where
  "merge_root key seen [] = []"
| "merge_root key seen (c # cs) =
     (if key c \<noteq> [] \<and> key c \<in> set seen then merge_root key seen cs
      else tag_owner ''root'' c # merge_root key (if key c = [] then seen else key c # seen) cs)"

definition merge_owners :: "(json \<Rightarrow> string) \<Rightarrow> json list \<Rightarrow> json list \<Rightarrow> json list" where
  "merge_owners key mine roots =
     map (tag_owner ''user'') mine @ merge_root key (filter (\<lambda>i. i \<noteq> []) (map key mine)) roots"

definition list_merged ::
  "'w agent_host \<Rightarrow> (json \<Rightarrow> string) \<Rightarrow> string list \<Rightarrow> string \<Rightarrow> string \<Rightarrow> string \<Rightarrow> ('w, json) act" where
  "list_merged h key args rt user password = do {
     mine \<leftarrow> run_user_parsed h user rt args;
     roots \<leftarrow> (if password = [] then ret [] else run_sudo_cmd_parsed h password rt args);
     ret (JArr (merge_owners key mine roots)) }"

definition ps_args :: "string list" where
  "ps_args = [''ps'', ''-a'', ''--format'', ''{{json .}}'', ''--no-trunc'']"

definition images_args :: "string list" where
  "images_args = [''images'', ''--format'', ''{{json .}}'', ''--no-trunc'']"

definition ls_of :: "string \<Rightarrow> string list" where
  "ls_of what = [what, ''ls'', ''--format'', ''{{json .}}'']"

definition list_containers_merged :: "'w agent_host \<Rightarrow> string \<Rightarrow> string \<Rightarrow> string \<Rightarrow> ('w, json) act" where
  "list_containers_merged h = list_merged h container_id ps_args"

definition list_images_merged :: "'w agent_host \<Rightarrow> string \<Rightarrow> string \<Rightarrow> string \<Rightarrow> ('w, json) act" where
  "list_images_merged h = list_merged h container_id images_args"

definition volumes_list :: "'w agent_host \<Rightarrow> string \<Rightarrow> string \<Rightarrow> string \<Rightarrow> ('w, json) act" where
  "volumes_list h = list_merged h (first_text [''Name'']) (ls_of ''volume'')"

definition networks_list :: "'w agent_host \<Rightarrow> string \<Rightarrow> string \<Rightarrow> string \<Rightarrow> ('w, json) act" where
  "networks_list h = list_merged h (first_text [''ID'', ''Id'', ''id'']) (ls_of ''network'')"

definition stats_args :: "string list" where
  "stats_args = [''stats'', ''--no-stream'', ''--format'', ''{{json .}}'']"

definition stats_all :: "'w agent_host \<Rightarrow> string \<Rightarrow> string \<Rightarrow> string \<Rightarrow> ('w, json) act" where
  "stats_all h rt user password = do {
     items \<leftarrow> (if password \<noteq> [] then run_sudo_cmd_parsed h password rt stats_args
               else run_user_parsed h user rt stats_args);
     ret (JArr items) }"

section \<open>Reading one\<close>

text \<open>Root's tier by the agent's \<open>sudo\<close>, anything else as the user.\<close>

definition inspected ::
  "'w agent_host \<Rightarrow> string list \<Rightarrow> string \<Rightarrow> string \<Rightarrow> string \<Rightarrow> string \<Rightarrow> string \<Rightarrow> string \<Rightarrow> ('w, json) act" where
  "inspected h args what rt i owner user password =
     ensure (i \<noteq> []) (''no '' @ what)
       (ensure (is_valid_container_ref h i) (''invalid '' @ what)
       (if owner = ''root'' \<and> password \<noteq> [] then run_sudo_cmd h password rt (args @ [''--'', i])
        else run_user_json h user rt (args @ [''--'', i])))"

definition inspect_container ::
  "'w agent_host \<Rightarrow> string \<Rightarrow> string \<Rightarrow> string \<Rightarrow> string \<Rightarrow> string \<Rightarrow> ('w, json) act" where
  "inspect_container h = inspected h [''inspect''] ''container id''"

definition network_inspect ::
  "'w agent_host \<Rightarrow> string \<Rightarrow> string \<Rightarrow> string \<Rightarrow> string \<Rightarrow> string \<Rightarrow> ('w, json) act" where
  "network_inspect h = inspected h [''network'', ''inspect''] ''network id''"

definition volume_inspect ::
  "'w agent_host \<Rightarrow> string \<Rightarrow> string \<Rightarrow> string \<Rightarrow> string \<Rightarrow> string \<Rightarrow> ('w, json) act" where
  "volume_inspect h = inspected h [''volume'', ''inspect''] ''volume name''"

definition both_streams :: "string \<Rightarrow> string \<times> string \<Rightarrow> json" where
  "both_streams i so_se =
     (case so_se of (so, se) \<Rightarrow>
        JObj [(''logs'', JStr (if se = [] then so else if so = [] then se else so @ [NL] @ se)), (''id'', JStr i)])"

definition logs_args :: "nat \<Rightarrow> string \<Rightarrow> string list" where
  "logs_args tail i = [''logs'', ''--tail'', show_nat tail, ''--timestamps'', ''--'', i]"

definition container_logs ::
  "'w agent_host \<Rightarrow> string \<Rightarrow> string \<Rightarrow> nat \<Rightarrow> string \<Rightarrow> string \<Rightarrow> string \<Rightarrow> ('w, json) act" where
  "container_logs h rt i tail owner user password =
     ensure (i \<noteq> []) ''no container id''
       (ensure (is_valid_container_ref h i) ''invalid container id''
       (if owner = ''root'' \<and> password \<noteq> [] then do {
          r \<leftarrow> run_sudo_cmd_raw h password rt (logs_args tail i);
          ret (case r of Inl e \<Rightarrow> jerror e | Inr x \<Rightarrow> both_streams i x) }
        else do { x \<leftarrow> run_user_raw h user rt (logs_args tail i); ret (both_streams i x) }))"

section \<open>Changing one\<close>

text \<open>Root's tier by the session user's \<open>sudo\<close>; the user's tier by the agent itself.\<close>

definition owned_change ::
  "'w agent_host \<Rightarrow> string \<Rightarrow> string list \<Rightarrow> string \<Rightarrow> string \<Rightarrow> string \<Rightarrow> string \<Rightarrow> ('w, json) act" where
  "owned_change h what args rt owner user password =
     (if owner = ''root'' then
        ensure (password \<noteq> []) (''password required for root '' @ what) (sudo h user password (rt # args))
      else run_cmd_result h rt args)"

definition container_action ::
  "'w agent_host \<Rightarrow> string \<Rightarrow> string \<Rightarrow> string \<Rightarrow> string \<Rightarrow> string \<Rightarrow> string \<Rightarrow> ('w, json) act" where
  "container_action h rt action i owner user password =
     ensure (i \<noteq> []) ''no container id''
       (ensure (is_valid_container_ref h i) ''invalid container id''
       (owned_change h ''containers'' [action, ''--'', i] rt owner user password))"

definition forced :: "bool \<Rightarrow> string list" where
  "forced force = (if force then [''-f''] else [])"

definition remove_container ::
  "'w agent_host \<Rightarrow> string \<Rightarrow> string \<Rightarrow> bool \<Rightarrow> string \<Rightarrow> string \<Rightarrow> string \<Rightarrow> ('w, json) act" where
  "remove_container h rt i force owner user password =
     ensure (i \<noteq> []) ''no container id''
       (ensure (is_valid_container_ref h i) ''invalid container id''
       (owned_change h ''containers'' ([''rm''] @ forced force @ [''--'', i]) rt owner user password))"

definition remove_image ::
  "'w agent_host \<Rightarrow> string \<Rightarrow> string \<Rightarrow> bool \<Rightarrow> string \<Rightarrow> string \<Rightarrow> string \<Rightarrow> ('w, json) act" where
  "remove_image h rt i force owner user password =
     ensure (i \<noteq> []) ''no image id''
       (ensure (is_valid_image_ref h i) ''invalid image reference''
       (owned_change h ''images'' ([''rmi''] @ forced force @ [''--'', i]) rt owner user password))"

definition volume_remove ::
  "'w agent_host \<Rightarrow> string \<Rightarrow> string \<Rightarrow> string \<Rightarrow> string \<Rightarrow> string \<Rightarrow> ('w, json) act" where
  "volume_remove h rt name owner user password =
     ensure (name \<noteq> []) ''no volume name''
       (ensure (is_valid_container_ref h name) ''invalid volume name''
       (owned_change h ''volumes'' [''volume'', ''rm'', ''--'', name] rt owner user password))"

definition network_remove ::
  "'w agent_host \<Rightarrow> string \<Rightarrow> string \<Rightarrow> string \<Rightarrow> string \<Rightarrow> string \<Rightarrow> ('w, json) act" where
  "network_remove h rt i owner user password =
     ensure (i \<noteq> []) ''no network id''
       (ensure (is_valid_container_ref h i) ''invalid network id''
       (owned_change h ''networks'' [''network'', ''rm'', ''--'', i] rt owner user password))"

text \<open>The others are the agent's own without a password, and the user's \<open>sudo\<close> with one.\<close>

definition either_way :: "'w agent_host \<Rightarrow> string \<Rightarrow> string list \<Rightarrow> string \<Rightarrow> string \<Rightarrow> ('w, json) act" where
  "either_way h rt args user password =
     (if password = [] then run_cmd_result h rt args else sudo h user password (rt # args))"

definition prune_of :: "'w agent_host \<Rightarrow> string \<Rightarrow> string \<Rightarrow> string \<Rightarrow> string \<Rightarrow> string \<Rightarrow> ('w, json) act" where
  "prune_of h what option rt user password = either_way h rt [what, ''prune'', option] user password"

definition volume_prune :: "'w agent_host \<Rightarrow> string \<Rightarrow> string \<Rightarrow> string \<Rightarrow> ('w, json) act" where
  "volume_prune h = prune_of h ''volume'' ''-f''"

definition container_prune :: "'w agent_host \<Rightarrow> string \<Rightarrow> string \<Rightarrow> string \<Rightarrow> ('w, json) act" where
  "container_prune h = prune_of h ''container'' ''-f''"

definition image_prune :: "'w agent_host \<Rightarrow> string \<Rightarrow> string \<Rightarrow> string \<Rightarrow> ('w, json) act" where
  "image_prune h = prune_of h ''image'' ''-f''"

definition network_prune :: "'w agent_host \<Rightarrow> string \<Rightarrow> string \<Rightarrow> string \<Rightarrow> ('w, json) act" where
  "network_prune h = prune_of h ''network'' ''--force''"

definition system_prune :: "'w agent_host \<Rightarrow> string \<Rightarrow> string \<Rightarrow> string \<Rightarrow> ('w, json) act" where
  "system_prune h rt user password =
     ensure (password \<noteq> []) ''password required'' (sudo h user password [rt, ''system'', ''prune'', ''-f''])"

definition network_link ::
  "'w agent_host \<Rightarrow> string \<Rightarrow> string \<Rightarrow> string \<Rightarrow> string \<Rightarrow> string \<Rightarrow> string \<Rightarrow> ('w, json) act" where
  "network_link h op rt network container user password =
     ensure (is_valid_container_ref h network) ''invalid network name''
       (ensure (is_valid_container_ref h container) ''invalid container id''
       (either_way h rt [''network'', op, ''--'', network, container] user password))"

definition network_connect ::
  "'w agent_host \<Rightarrow> string \<Rightarrow> string \<Rightarrow> string \<Rightarrow> string \<Rightarrow> string \<Rightarrow> ('w, json) act" where
  "network_connect h = network_link h ''connect''"

definition network_disconnect ::
  "'w agent_host \<Rightarrow> string \<Rightarrow> string \<Rightarrow> string \<Rightarrow> string \<Rightarrow> string \<Rightarrow> ('w, json) act" where
  "network_disconnect h = network_link h ''disconnect''"

definition pull_late :: json where
  "pull_late =
     JObj [(''ok'', JBool False), (''error'', JStr ''pull timed out after 5 minutes''), (''action'', JStr ''pull'')]"

definition pull_image :: "'w agent_host \<Rightarrow> string \<Rightarrow> string \<Rightarrow> string \<Rightarrow> string \<Rightarrow> ('w, json) act" where
  "pull_image h rt raw user password =
     ensure (raw \<noteq> []) ''no image specified''
       (ensure (is_valid_image_ref h (qualify_image raw)) ''invalid image reference''
       (ensure (password \<noteq> []) ''password required''
       (do {
          r \<leftarrow> timed h 300 (sudo h user password [rt, ''pull'', ''--'', qualify_image raw]);
          ret (unwrap_or pull_late r) })))"

section \<open>Creating\<close>

definition DENIED_VOLUME_PATHS :: "string list" where
  "DENIED_VOLUME_PATHS =
     [''/'', ''/etc'', ''/proc'', ''/sys'', ''/dev'', ''/boot'', ''/root'', ''/var/run/docker.sock'',
      ''/run/docker.sock'', ''/var/run/podman'', ''/run/podman'', ''/var/lib/docker'', ''/var/lib/containers'']"

definition path_denied :: "string \<Rightarrow> string \<Rightarrow> bool" where
  "path_denied resolved d \<longleftrightarrow>
     (let normalized = trim_end_matches (CHR ''/'') resolved; norm = trim_end_matches (CHR ''/'') d
      in eq_ignore_ascii_case normalized norm \<or>
         (norm \<noteq> [] \<and> starts_with (map ascii_lower norm @ ''/'') (map ascii_lower normalized)))"

definition is_safe_volume_path :: "'w agent_host \<Rightarrow> string \<Rightarrow> ('w, bool) act" where
  "is_safe_volume_path h path =
     (if path = [] \<or> \<not> starts_with ''/'' path \<or> contains_str ''..'' path then ret False
      else do {
        c \<leftarrow> canonical h path;
        ret (\<not> list_ex (path_denied (case c of Inr p \<Rightarrow> p | Inl _ \<Rightarrow> path)) DENIED_VOLUME_PATHS) })"

definition filled :: "json \<Rightarrow> string \<Rightarrow> string option" where
  "filled data k = (case jget_str data k of Some s \<Rightarrow> if s = [] then None else Some s | None \<Rightarrow> None)"

text \<open>Two members of an entry joined by a character, when both are given.\<close>

definition pair_of :: "json \<Rightarrow> (string \<times> string) option" where
  "pair_of p =
     (if str_field p ''host'' \<noteq> [] \<and> str_field p ''container'' \<noteq> []
      then Some (str_field p ''host'', str_field p ''container'') else None)"

fun port_args :: "json list \<Rightarrow> string + string list" where
  "port_args [] = Inr []"
| "port_args (p # ps) =
     (case pair_of p of
        None \<Rightarrow> port_args ps
      | Some (a, b) \<Rightarrow>
          if parse_uint U16_MAX a = None \<or> parse_uint U16_MAX b = None
          then Inl (''invalid port: '' @ a @ '':'' @ b)
          else map_sum id (\<lambda>r. [''-p'', a @ '':'' @ b] @ r) (port_args ps))"

definition env_args :: "json list \<Rightarrow> string list" where
  "env_args es =
     concat (map (\<lambda>e. if str_field e ''key'' = [] then []
                      else [''-e'', str_field e ''key'' @ ''='' @ str_field e ''value'']) es)"

fun volume_args :: "'w agent_host \<Rightarrow> json list \<Rightarrow> ('w, string + string list) act" where
  "volume_args h [] = ret (Inr [])"
| "volume_args h (v # vs) =
     (case pair_of v of
        None \<Rightarrow> volume_args h vs
      | Some (a, b) \<Rightarrow> do {
          safe \<leftarrow> is_safe_volume_path h a;
          if \<not> safe then ret (Inl (''volume path denied: '' @ a))
          else do { rest \<leftarrow> volume_args h vs; ret (map_sum id (\<lambda>r. [''-v'', a @ '':'' @ b] @ r) rest) } })"

definition restart_args :: "json \<Rightarrow> string list" where
  "restart_args data = (case filled data ''restart'' of None \<Rightarrow> [] | Some r \<Rightarrow> [''--restart'', r])"

definition command_args :: "json \<Rightarrow> string list" where
  "command_args data =
     (case Option.bind (jget data ''command'') as_array of
        Some xs \<Rightarrow> filter (\<lambda>s. s \<noteq> []) (List.map_filter as_str xs)
      | None \<Rightarrow> split_whitespace (str_field data ''command''))"

definition named_args :: "json \<Rightarrow> string list" where
  "named_args data = (case filled data ''name'' of None \<Rightarrow> [] | Some n \<Rightarrow> [''--name'', n])"

definition filled_ok :: "json \<Rightarrow> string \<Rightarrow> (string \<Rightarrow> bool) \<Rightarrow> bool" where
  "filled_ok data k P \<longleftrightarrow> (case filled data k of None \<Rightarrow> True | Some s \<Rightarrow> P s)"

definition create_container :: "'w agent_host \<Rightarrow> string \<Rightarrow> json \<Rightarrow> string \<Rightarrow> string \<Rightarrow> ('w, json) act" where
  "create_container h rt data user password =
     (let raw = str_field data ''image''; img = qualify_image raw
      in ensure (raw \<noteq> []) ''no image specified''
         (ensure (is_valid_image_ref h img) ''invalid image reference''
         (ensure (password \<noteq> []) ''password required''
         (ensure (filled_ok data ''name'' (is_valid_container_ref h)) ''invalid container name''
         (case port_args (array_field data ''ports'') of
            Inl e \<Rightarrow> ret (jerror e)
          | Inr ports \<Rightarrow> do {
              v \<leftarrow> volume_args h (array_field data ''volumes'');
              case v of
                Inl e \<Rightarrow> ret (jerror e)
              | Inr vols \<Rightarrow>
                  ensure (filled_ok data ''restart'' is_valid_restart_policy)
                    (''invalid restart policy: '' @ str_field data ''restart'')
                    (sudo h user password
                      ([rt, ''run'', ''-d''] @ named_args data @ ports @ env_args (array_field data ''env'') @ vols @
                       restart_args data @ [''--'', img] @ command_args data)) })))))"

definition option_args :: "json \<Rightarrow> string \<Rightarrow> string \<Rightarrow> string list" where
  "option_args data k option = (case filled data k of None \<Rightarrow> [] | Some s \<Rightarrow> [option, s])"

definition network_create :: "'w agent_host \<Rightarrow> string \<Rightarrow> json \<Rightarrow> string \<Rightarrow> string \<Rightarrow> ('w, json) act" where
  "network_create h rt data user password =
     (let name = str_field data ''name''
      in ensure (name \<noteq> []) ''no network name''
         (ensure (is_valid_container_ref h name) ''invalid network name''
         (ensure (filled_ok data ''driver'' is_valid_network_driver) ''invalid network driver''
         (ensure (filled_ok data ''subnet'' is_valid_cidr)
           (''invalid subnet '' @ em_dash @ '' use CIDR, e.g. 192.168.1.0/24'')
         (ensure (filled_ok data ''gateway'' is_valid_ip) ''invalid gateway IP address''
         (either_way h rt
           ([''network'', ''create''] @ option_args data ''driver'' ''--driver'' @ option_args data ''subnet'' ''--subnet'' @
            option_args data ''gateway'' ''--gateway'' @ (if bool_field False data ''internal'' then [''--internal''] else []) @
            (if bool_field False data ''ipv6'' then [''--ipv6''] else []) @ [name]) user password))))))"

fun label_args :: "'w agent_host \<Rightarrow> json list \<Rightarrow> string + string list" where
  "label_args h [] = Inr []"
| "label_args h (l # ls) =
     (let k = str_field l ''key''
      in if k = [] then label_args h ls
         else if \<not> is_valid_label_key h k then Inl (''invalid label key: '' @ k)
         else map_sum id (\<lambda>r. [''--label'', k @ ''='' @ str_field l ''value''] @ r) (label_args h ls))"

definition volume_create :: "'w agent_host \<Rightarrow> string \<Rightarrow> json \<Rightarrow> string \<Rightarrow> string \<Rightarrow> ('w, json) act" where
  "volume_create h rt data user password =
     (let name = str_field data ''name''
      in ensure (name \<noteq> []) ''no volume name''
         (ensure (is_valid_container_ref h name) ''invalid volume name''
         (ensure (filled_ok data ''driver'' (is_valid_volume_driver_name h)) ''invalid volume driver name''
         (case label_args h (array_field data ''labels'') of
            Inl e \<Rightarrow> ret (jerror e)
          | Inr labels \<Rightarrow>
              either_way h rt ([''volume'', ''create''] @ option_args data ''driver'' ''--driver'' @ labels @
                [''--name'', name]) user password))))"

section \<open>The service\<close>

definition service_name :: "string \<Rightarrow> string" where
  "service_name rt = (if rt = ''podman'' then ''podman.socket'' else ''docker.service'')"

definition systemctl_word :: "'w agent_host \<Rightarrow> string \<Rightarrow> string \<Rightarrow> ('w, string) act" where
  "systemctl_word h op service = do {
     r \<leftarrow> run_raw h ''systemctl'' [op, service] None;
     ret (case r of Inl _ \<Rightarrow> ''unknown'' | Inr out \<Rightarrow> trim (from_utf8_lossy (out_stdout out))) }"

definition service_status :: "'w agent_host \<Rightarrow> string \<Rightarrow> ('w, json) act" where
  "service_status h rt = do {
     active \<leftarrow> systemctl_word h ''is-active'' (service_name rt);
     enabled \<leftarrow> systemctl_word h ''is-enabled'' (service_name rt);
     ret (JObj [(''service'', JStr (service_name rt)), (''active'', JStr active), (''enabled'', JStr enabled)]) }"

definition service_action_sudo :: "'w agent_host \<Rightarrow> string \<Rightarrow> string \<Rightarrow> string \<Rightarrow> string \<Rightarrow> ('w, json) act" where
  "service_action_sudo h rt action user password =
     ensure (password \<noteq> []) ''password required'' (sudo h user password [''systemctl'', action, service_name rt])"

definition get_info :: "'w agent_host \<Rightarrow> string \<Rightarrow> ('w, json) act" where
  "get_info h rt = do {
     version \<leftarrow> ct_run_cmd h rt [''version'', ''--format'', ''json''];
     service \<leftarrow> service_status h rt;
     ret (JObj [(''available'', JBool True), (''version'', version), (''service'', service)]) }"

section \<open>The handler\<close>

definition ct_owner :: "json \<Rightarrow> string \<Rightarrow> string" where
  "ct_owner data d = unwrap_or d (jget_str data ''owner'')"

definition ct_reads :: "'w agent_host \<Rightarrow> string \<Rightarrow> string \<Rightarrow> json \<Rightarrow> string \<Rightarrow> string \<Rightarrow> ('w, json) act option" where
  "ct_reads h rt action data user password =
     (let i = str_field data ''id''; name = str_field data ''name''; owner = ct_owner data ''user''
      in map_of
        [(''list_containers'', list_containers_merged h rt user password),
         (''list_images'', list_images_merged h rt user password),
         (''inspect'', inspect_container h rt i owner user password),
         (''logs'', container_logs h rt i (unwrap_or 100 (nat_field data ''tail'')) owner user password),
         (''service_status'', service_status h rt),
         (''stats_all'', stats_all h rt user password),
         (''volumes_list'', volumes_list h rt user password),
         (''volume_inspect'', volume_inspect h rt name owner user password),
         (''networks_list'', networks_list h rt user password),
         (''network_inspect'', network_inspect h rt i owner user password)] action)"

definition ct_changes :: "'w agent_host \<Rightarrow> string \<Rightarrow> string \<Rightarrow> json \<Rightarrow> string \<Rightarrow> string \<Rightarrow> ('w, json) act option" where
  "ct_changes h rt action data user password =
     (let i = str_field data ''id''; name = str_field data ''name'';
          root = ct_owner data ''root''; mine = ct_owner data ''user''; force = bool_field False data ''force'';
          network = str_field data ''network''; container = str_field data ''container''
      in map_of
        [(''start'', container_action h rt ''start'' i root user password),
         (''stop'', container_action h rt ''stop'' i root user password),
         (''restart'', container_action h rt ''restart'' i root user password),
         (''remove'', remove_container h rt i force root user password),
         (''remove_image'', remove_image h rt i force root user password),
         (''pull'', pull_image h rt (str_field data ''image'') user password),
         (''create'', create_container h rt data user password),
         (''service_start'', service_action_sudo h rt ''start'' user password),
         (''service_stop'', service_action_sudo h rt ''stop'' user password),
         (''service_restart'', service_action_sudo h rt ''restart'' user password),
         (''volume_create'', volume_create h rt data user password),
         (''volume_remove'', volume_remove h rt name mine user password),
         (''volume_prune'', volume_prune h rt user password),
         (''network_create'', network_create h rt data user password),
         (''network_connect'', network_connect h rt network container user password),
         (''network_disconnect'', network_disconnect h rt network container user password),
         (''network_remove'', network_remove h rt i mine user password),
         (''network_prune'', network_prune h rt user password),
         (''container_prune'', container_prune h rt user password),
         (''image_prune'', image_prune h rt user password),
         (''system_prune'', system_prune h rt user password)] action)"

definition ct_response :: "string \<Rightarrow> json \<Rightarrow> json" where
  "ct_response action result =
     JObj [(''type'', JStr ''response''), (''action'', JStr action), (''data'', result)]"

text \<open>Only the changes are audited.\<close>

definition ct_action :: "'w agent_host \<Rightarrow> string \<Rightarrow> json \<Rightarrow> ('w, json) act" where
  "ct_action h rt data =
     (let action = str_field data ''action''; user = str_field data ''_user''; password = str_field data ''password''
      in case ct_changes h rt action data user password of
           Some m \<Rightarrow> do {
             r \<leftarrow> m;
             record_audit user (''container.'' @ action) (first_text [''id'', ''name'', ''image''] data) (\<not> has_error r) [];
             ret (ct_response action r) }
         | None \<Rightarrow>
             (case ct_reads h rt action data user password of
                Some m \<Rightarrow> do { r \<leftarrow> m; ret (ct_response action r) }
              | None \<Rightarrow> ret (ct_response action
                  (JObj [(''type'', JStr ''error''), (''error'', JStr (''unknown action: '' @ action))]))))"

definition ct_answer :: "'w agent_host \<Rightarrow> json \<Rightarrow> ('w, json) act" where
  "ct_answer h data = do {
     user_rt \<leftarrow> detect_runtime h;
     sudo_rt \<leftarrow> (if str_field data ''password'' \<noteq> [] then detect_runtime_sudo h (str_field data ''password'') else ret None);
     case (case user_rt of Some rt \<Rightarrow> Some rt | None \<Rightarrow> sudo_rt) of
       Some rt \<Rightarrow> ct_action h rt data
     | None \<Rightarrow> ret (JObj [(''type'', JStr ''error''), (''action'', JStr (str_field data ''action'')),
                         (''error'', JStr ''No container runtime found'')]) }"

definition ct_greeting :: "'w agent_host \<Rightarrow> ('w, json) act" where
  "ct_greeting h = do {
     rt \<leftarrow> detect_runtime h;
     info \<leftarrow> (case rt of Some r \<Rightarrow> get_info h r | None \<Rightarrow> ret (JObj [(''available'', JBool False)]));
     ret (JObj [(''type'', JStr ''init''), (''runtime'', jopt_str rt), (''info'', info)]) }"

definition container_manage :: "'w agent_host \<Rightarrow> 'w agent_state handler" where
  "container_manage h = greeting ''container.manage'' (ct_greeting h) (ct_answer h)"

section \<open>What it may run\<close>

text \<open>The changes, after the name of the runtime: whatever names come from the request are checked, and
  no name is read as an option.\<close>

inductive ct_change :: "'w agent_host \<Rightarrow> string list \<Rightarrow> bool" for h where
  action: "op \<in> {''start'', ''stop'', ''restart''} \<Longrightarrow> is_valid_container_ref h i \<Longrightarrow> ct_change h [op, ''--'', i]"
| rm: "is_valid_container_ref h i \<Longrightarrow> ct_change h ([''rm''] @ forced f @ [''--'', i])"
| rmi: "is_valid_image_ref h i \<Longrightarrow> ct_change h ([''rmi''] @ forced f @ [''--'', i])"
| rm_other: "what \<in> {''volume'', ''network''} \<Longrightarrow> is_valid_container_ref h i \<Longrightarrow> ct_change h [what, ''rm'', ''--'', i]"
| prune: "ct_change h [what, ''prune'', option]"
| link: "op \<in> {''connect'', ''disconnect''} \<Longrightarrow> is_valid_container_ref h n \<Longrightarrow> is_valid_container_ref h c \<Longrightarrow>
    ct_change h [''network'', op, ''--'', n, c]"
| new_network: "is_valid_container_ref h n \<Longrightarrow> ct_change h ([''network'', ''create''] @ options @ [n])"
| new_volume: "is_valid_container_ref h n \<Longrightarrow> ct_change h ([''volume'', ''create''] @ options @ [''--name'', n])"

inductive ct_read :: "'w agent_host \<Rightarrow> string list \<Rightarrow> bool" for h where
  ps: "ct_read h ps_args"
| images: "ct_read h images_args"
| stats: "ct_read h stats_args"
| ls: "ct_read h (ls_of what)"
| logs: "is_valid_container_ref h i \<Longrightarrow> ct_read h (logs_args n i)"
| inspect: "is_valid_container_ref h i \<Longrightarrow> args \<in> {[''inspect''], [''network'', ''inspect''], [''volume'', ''inspect'']} \<Longrightarrow>
    ct_read h (args @ [''--'', i])"

inductive ct_sudo :: "'w agent_host \<Rightarrow> string list \<Rightarrow> bool" for h where
  change: "rt \<in> set runtimes \<Longrightarrow> ct_change h args \<Longrightarrow> ct_sudo h (rt # args)"
| pull: "rt \<in> set runtimes \<Longrightarrow> is_valid_image_ref h i \<Longrightarrow> ct_sudo h [rt, ''pull'', ''--'', i]"
| create: "rt \<in> set runtimes \<Longrightarrow> is_valid_image_ref h i \<Longrightarrow>
    ct_sudo h ([rt, ''run'', ''-d''] @ options @ [''--'', i] @ command)"
| prune: "rt \<in> set runtimes \<Longrightarrow> ct_sudo h [rt, ''system'', ''prune'', ''-f'']"
| service: "op \<in> {''start'', ''stop'', ''restart''} \<Longrightarrow> ct_sudo h [''systemctl'', op, service_name rt]"

inductive ct_user :: "'w agent_host \<Rightarrow> string list \<Rightarrow> bool" for h where
  read: "rt \<in> set runtimes \<Longrightarrow> ct_read h args \<Longrightarrow> ct_user h (rt # args)"

text \<open>What the agent runs as itself, that is as root: also the changes of the user's tier, and
  \<open>sudo\<close> for the reads of root's.\<close>

inductive ct_own :: "'w agent_host \<Rightarrow> string list \<Rightarrow> bool" for h where
  probe: "rt \<in> set runtimes \<Longrightarrow> args \<in> {info_args, [''--version''], [''version'', ''--format'', ''json'']} \<Longrightarrow>
    ct_own h (rt # args)"
| sudo_probe: "rt \<in> set runtimes \<Longrightarrow> ct_own h (''sudo'' # ''-S'' # rt # info_args)"
| sudo_read: "rt \<in> set runtimes \<Longrightarrow> ct_read h args \<Longrightarrow> ct_own h (''sudo'' # ''-S'' # rt # args)"
| change: "rt \<in> set runtimes \<Longrightarrow> ct_change h args \<Longrightarrow> ct_own h (rt # args)"
| service: "op \<in> {''is-active'', ''is-enabled''} \<Longrightarrow> ct_own h [''systemctl'', op, service_name rt]"

abbreviation ct_confined :: "'w agent_host \<Rightarrow> string \<Rightarrow> string \<Rightarrow> effect \<Rightarrow> bool" where
  "ct_confined h \<equiv> confined (ct_sudo h) (ct_user h) (ct_own h)"

text \<open>The helpers.\<close>

lemma ct_emits_own:
  "ct_own h (rt # args) \<Longrightarrow> emits (ct_confined h user password) (ct_run_cmd h rt args)"
  "ct_own h (rt # args) \<Longrightarrow> emits (ct_confined h user password) (run_cmd_result h rt args)"
  "ct_own h (rt # args) \<Longrightarrow> emits (ct_confined h user password) (succeeds h rt args)"
  "ct_own h (''sudo'' # ''-S'' # rt # args) \<Longrightarrow> emits (ct_confined h user password) (run_sudo_cmd h pw rt args)"
  "ct_own h (''sudo'' # ''-S'' # rt # args) \<Longrightarrow> emits (ct_confined h user password) (run_sudo_cmd_raw h pw rt args)"
  "ct_own h (''sudo'' # ''-S'' # rt # args) \<Longrightarrow> emits (ct_confined h user password) (run_sudo_cmd_parsed h pw rt args)"
  "ct_own h (''sudo'' # ''-S'' # rt # args) \<Longrightarrow>
     emits (ct_confined h user password) (spawned h (own_sudo pw (rt # args)) failed done)"
  unfolding ct_run_cmd_def run_cmd_result_def succeeds_def run_sudo_cmd_def run_sudo_cmd_raw_def run_sudo_cmd_parsed_def
    own_sudo_def
  by (intro emits_bind emits_ret emits_run_raw emits_run_status emits_spawned confined_raw; assumption)+

lemma ct_emits_user:
  assumes "ct_user h (rt # args)"
  shows "emits (ct_confined h user password) (run_user_parsed h user rt args)"
    and "emits (ct_confined h user password) (run_user_json h user rt args)"
    and "emits (ct_confined h user password) (run_user_raw h user rt args)"
  unfolding run_user_parsed_def run_user_json_def run_user_raw_def
  by (intro emits_bind emits_ret emits_run_user confined_user; simp add: assms)+

lemma ct_emits_sudo: "ct_sudo h args \<Longrightarrow> emits (ct_confined h user password) (sudo h user password args)"
  by (rule emits_sudo) (rule confined_sudo)

lemma ct_emits_either:
  assumes "rt \<in> set runtimes" and "ct_change h args"
  shows "emits (ct_confined h user password) (either_way h rt args user password)"
    and "emits (ct_confined h user password) (owned_change h what args rt owner user password)"
  unfolding either_way_def owned_change_def
  by (intro emits_if emits_ensure ct_emits_own ct_emits_sudo ct_sudo.change ct_own.change assms)+

lemma emits_first_working: "(\<And>rt. rt \<in> set rts \<Longrightarrow> emits P (try rt)) \<Longrightarrow> emits P (first_working try rts)"
  by (induction rts) (auto intro!: emits_ret emits_bind)

lemma first_working_in: "fst (run_state (first_working try rts) w) = Some rt \<Longrightarrow> rt \<in> set rts"
  by (induction rts arbitrary: w) (auto simp: run_simps split: prod.splits if_splits)

lemma ct_emits_detect:
  "emits (ct_confined h user password) (detect_runtime h)"
  "emits (ct_confined h user password) (detect_runtime_sudo h pw)"
  unfolding detect_runtime_def detect_runtime_sudo_def
  by (intro emits_bind emits_option emits_ret emits_first_working ct_emits_own ct_own.probe ct_own.sudo_probe;
      simp)+

lemma detect_runtime_in:
  "fst (run_state (detect_runtime h) w) = Some rt \<Longrightarrow> rt \<in> set runtimes"
  "fst (run_state (detect_runtime_sudo h pw) w) = Some rt \<Longrightarrow> rt \<in> set runtimes"
  unfolding detect_runtime_def detect_runtime_sudo_def
  by (auto simp: run_simps split_beta split: option.splits dest: first_working_in)

text \<open>The operations.\<close>

lemma ct_emits_list:
  assumes "rt \<in> set runtimes" and "ct_read h args"
  shows "emits (ct_confined h user password) (list_merged h key args rt user password)"
  unfolding list_merged_def
  by (intro emits_bind emits_if emits_ret ct_emits_user ct_emits_own ct_user.read ct_own.sudo_read assms)

lemma ct_emits_inspected:
  assumes "rt \<in> set runtimes" and "args \<in> {[''inspect''], [''network'', ''inspect''], [''volume'', ''inspect'']}"
  shows "emits (ct_confined h user password) (inspected h args what rt i owner user password)"
  unfolding inspected_def
  by (intro emits_ensure emits_if ct_emits_user ct_emits_own ct_user.read ct_own.sudo_read ct_read.inspect assms)

lemma ct_emits_logs:
  "rt \<in> set runtimes \<Longrightarrow> emits (ct_confined h user password) (container_logs h rt i n owner user password)"
  unfolding container_logs_def
  by (intro emits_ensure emits_if emits_bind emits_ret ct_emits_user ct_emits_own ct_user.read ct_own.sudo_read
      ct_read.logs)

lemma ct_emits_stats: "rt \<in> set runtimes \<Longrightarrow> emits (ct_confined h user password) (stats_all h rt user password)"
  unfolding stats_all_def
  by (intro emits_if emits_bind emits_ret ct_emits_user ct_emits_own ct_user.read ct_own.sudo_read ct_read.stats)

lemma ct_emits_status: "emits (ct_confined h user password) (service_status h rt)"
  unfolding service_status_def systemctl_word_def
  by (intro emits_bind emits_ret emits_run_raw confined_raw ct_own.service) simp_all

lemma ct_emits_reads:
  assumes "rt \<in> set runtimes" and "ct_reads h rt action data user password = Some m"
  shows "emits (ct_confined h user password) m"
  using assms(2) unfolding ct_reads_def Let_def list_containers_merged_def list_images_merged_def volumes_list_def
    networks_list_def inspect_container_def network_inspect_def volume_inspect_def
  by (rule map_of_all)
    (simp only: list.pred_inject prod.case, intro conjI TrueI ct_emits_list ct_emits_inspected ct_emits_logs
      ct_emits_stats ct_emits_status ct_read.ps ct_read.images ct_read.ls assms(1); simp)

lemma ct_emits_named:
  assumes "rt \<in> set runtimes"
  shows "op \<in> {''start'', ''stop'', ''restart''} \<Longrightarrow>
      emits (ct_confined h user password) (container_action h rt op i owner user password)"
    and "emits (ct_confined h user password) (remove_container h rt i force owner user password)"
    and "emits (ct_confined h user password) (remove_image h rt i force owner user password)"
    and "emits (ct_confined h user password) (volume_remove h rt i owner user password)"
    and "emits (ct_confined h user password) (network_remove h rt i owner user password)"
  unfolding container_action_def remove_container_def remove_image_def volume_remove_def network_remove_def
  by (intro emits_ensure ct_emits_either(2) ct_change.intros assms; simp)+

lemma ct_emits_other:
  assumes "rt \<in> set runtimes"
  shows "emits (ct_confined h user password) (prune_of h what option rt user password)"
    and "emits (ct_confined h user password) (system_prune h rt user password)"
    and "op \<in> {''connect'', ''disconnect''} \<Longrightarrow>
      emits (ct_confined h user password) (network_link h op rt n c user password)"
    and "emits (ct_confined h user password) (pull_image h rt raw user password)"
  unfolding prune_of_def system_prune_def network_link_def pull_image_def
  by (intro emits_ensure emits_bind emits_ret emits_timed ct_emits_either(1) ct_emits_sudo ct_change.prune
      ct_change.link ct_sudo.pull ct_sudo.prune assms; assumption?)+

lemma emits_volume_args: "emits P (volume_args h vs)"
  by (induction h vs rule: volume_args.induct)
     (auto simp: is_safe_volume_path_def intro!: emits_ret emits_bind emits_reads split: option.split)

lemma ct_emits_create:
  assumes "rt \<in> set runtimes"
  shows "emits (ct_confined h user password) (create_container h rt data user password)"
proof -
  have "ct_sudo h ([rt, ''run'', ''-d''] @ a @ b @ c @ d @ e @ [''--'', i] @ cmd)"
    if "is_valid_image_ref h i" for a b c d e i cmd
    using ct_sudo.create [OF assms that, of "a @ b @ c @ d @ e" cmd] by simp
  then show ?thesis unfolding create_container_def Let_def
    by (intro emits_ensure emits_sum emits_bind emits_ret emits_volume_args ct_emits_sudo)
qed

lemma ct_emits_new:
  assumes "rt \<in> set runtimes"
  shows "emits (ct_confined h user password) (network_create h rt data user password)"
    and "emits (ct_confined h user password) (volume_create h rt data user password)"
proof -
  have n: "ct_change h ([''network'', ''create''] @ a @ b @ c @ d @ e @ [i])" if "is_valid_container_ref h i" for a b c d e i
    using ct_change.new_network [OF that, of "a @ b @ c @ d @ e"] by simp
  have v: "ct_change h ([''volume'', ''create''] @ a @ b @ [''--name'', i])" if "is_valid_container_ref h i" for a b i
    using ct_change.new_volume [OF that, of "a @ b"] by simp
  show "emits (ct_confined h user password) (network_create h rt data user password)"
    unfolding network_create_def Let_def by (intro emits_ensure ct_emits_either(1) assms n)
  show "emits (ct_confined h user password) (volume_create h rt data user password)"
    unfolding volume_create_def Let_def by (intro emits_ensure emits_sum emits_ret ct_emits_either(1) assms v)
qed

lemma ct_emits_service:
  "op \<in> {''start'', ''stop'', ''restart''} \<Longrightarrow> emits (ct_confined h user password) (service_action_sudo h rt op user password)"
  unfolding service_action_sudo_def by (intro emits_ensure ct_emits_sudo ct_sudo.service)

lemma ct_emits_changes:
  assumes "rt \<in> set runtimes" and "ct_changes h rt action data user password = Some m"
  shows "emits (ct_confined h user password) m"
  using assms(2) unfolding ct_changes_def Let_def volume_prune_def container_prune_def image_prune_def network_prune_def
    network_connect_def network_disconnect_def
  by (rule map_of_all)
    (simp only: list.pred_inject prod.case, intro conjI TrueI ct_emits_named ct_emits_other ct_emits_create ct_emits_new
      ct_emits_service assms(1); simp)

lemma ct_emits_answer:
  "emits (ct_confined h (str_field d ''_user'') (str_field d ''password'')) (ct_answer h d)"
proof -
  let ?P = "ct_confined h (str_field d ''_user'') (str_field d ''password'')"
  have act: "emits ?P (ct_action h rt d)" if "rt \<in> set runtimes" for rt
    unfolding ct_action_def Let_def
    by (intro emits_option emits_bind emits_ret emits_record_audit confined_audit ct_emits_changes [OF that]
        ct_emits_reads [OF that])
  have known: "emits ?P (if b then detect_runtime_sudo h p else ret None)" for b p
    by (intro emits_if ct_emits_detect emits_ret)
  show ?thesis unfolding ct_answer_def
  proof (rule emits_bind_result [OF ct_emits_detect(1), where R = "\<lambda>x. set_option x \<subseteq> set runtimes"], goal_cases)
    case (1 w)
    then show ?case using detect_runtime_in(1) [of h w] by (cases "fst (run_state (detect_runtime h) w)") auto
  next
    case (2 x)
    show ?case
    proof (rule emits_bind_result [OF known, where R = "\<lambda>y. set_option y \<subseteq> set runtimes"], goal_cases)
      case (1 w)
      then show ?case using detect_runtime_in(2) [of h "str_field d ''password''" w]
        by (cases "fst (run_state (detect_runtime_sudo h (str_field d ''password'')) w)") (auto simp: run_simps)
    next
      case (2 y)
      then show ?case using \<open>set_option x \<subseteq> set runtimes\<close>
        by (intro emits_option emits_ret act) (auto split: option.splits)
    qed
  qed
qed

lemma ct_emits_greeting: "emits (ct_confined h user password) (ct_greeting h)"
  unfolding ct_greeting_def get_info_def
proof (rule emits_bind_result [OF ct_emits_detect(1), where R = "\<lambda>x. set_option x \<subseteq> set runtimes"], goal_cases)
  case (1 w)
  then show ?case using detect_runtime_in(1) [of h w] by (cases "fst (run_state (detect_runtime h) w)") auto
next
  case (2 x)
  then show ?case by (intro emits_bind emits_option emits_ret ct_emits_status ct_emits_own ct_own.probe) auto
qed

interpretation container_manage: bounded_handler "container_manage h" "ct_confined h"
  unfolding container_manage_def by (intro bounded_greeting ct_emits_greeting ct_emits_answer)

section \<open>Whose rights\<close>

lemma run_cmd_result_log:
  "w_log (snd (run_state (run_cmd_result h rt args) w)) = w_log w @ [Ran (raw_command rt args None)]"
  by (auto simp: run_cmd_result_def run_raw_def spawn_def run_simps split: prod.splits sum.splits)

lemma run_sudo_cmd_log:
  "w_log (snd (run_state (run_sudo_cmd h pw rt args) w)) = w_log w @ [Ran (own_sudo pw (rt # args))]"
  by (auto simp: run_sudo_cmd_def own_sudo_def run_raw_def spawn_def run_simps split: prod.splits sum.splits)

lemma container_manage_world:
  "st_world (snd (hd_data (container_manage h) ch d s)) = snd (run_state (ct_answer h d) (st_world s))"
  by (simp add: container_manage_def greeting_data)

text \<open>With a runtime found, the answer ends as the action does.\<close>

lemma ct_answer_found:
  assumes "fst (run_state (detect_runtime h) w) = Some rt"
  shows "\<exists>w1 es. snd (run_state (ct_answer h d) w) = snd (run_state (ct_action h rt d) w1) \<and> w_log w1 = w_log w @ es"
proof -
  let ?P = "\<lambda>_. True" and ?m = "if str_field d ''password'' \<noteq> [] then detect_runtime_sudo h (str_field d ''password'') else ret None"
  define w0 where "w0 = snd (run_state (detect_runtime h) w)"
  define w1 where "w1 = snd (run_state ?m w0)"
  have "emits ?P (detect_runtime h)" "emits ?P ?m"
    by (intro emits_mono [OF ct_emits_detect(1)], simp)
      (intro emits_if emits_ret emits_mono [OF ct_emits_detect(2)], simp_all)
  then obtain es es' where "w_log w0 = w_log w @ es" "w_log w1 = w_log w0 @ es'"
    unfolding w0_def w1_def using emits_log by blast
  moreover have "snd (run_state (ct_answer h d) w) = snd (run_state (ct_action h rt d) w1)"
    unfolding ct_answer_def w1_def w0_def using assms by (simp add: run_simps split_beta)
  ultimately show ?thesis by auto
qed

text \<open>
  C37. Any session can remove any container, root's too, without a password and without the admin
  role: when it names the container's owner as anything but root, the agent runs the runtime
  itself, as root, with the id of the request, and records the removal in the session's name.
\<close>

theorem container_removed_without_rights:
  assumes "fst (run_state (detect_runtime h) (st_world s)) = Some rt"
    and "str_field d ''action'' = ''remove''" and "str_field d ''id'' = i" and "is_valid_container_ref h i"
    and "jget_str d ''owner'' = Some owner" and "owner \<noteq> ''root''"
  shows "\<exists>es ok. w_log (st_world (snd (hd_data (container_manage h) ch d s))) =
    w_log (st_world s) @ es @
      [Ran (raw_command rt ([''rm''] @ forced (bool_field False d ''force'') @ [''--'', i]) None),
       Audited (str_field d ''_user'') ''container.remove'' i ok []]"
proof -
  obtain w1 es where w1: "snd (run_state (ct_answer h d) (st_world s)) = snd (run_state (ct_action h rt d) w1)"
    "w_log w1 = w_log (st_world s) @ es"
    using ct_answer_found [OF assms(1)] by blast
  let ?args = "[''rm''] @ forced (bool_field False d ''force'') @ [''--'', i]"
  have i: "i \<noteq> []" using assms(4) by (simp add: is_valid_container_ref_def)
  then have "jget_str d ''id'' = Some i" using assms(3) by (cases "jget_str d ''id''") (auto simp: str_field_def)
  then have name: "first_text [''id'', ''name'', ''image''] d = i"
    by (auto simp: first_text_def jget_str_def bind_eq_Some_conv List.map_filter_simps)
  have "ct_changes h rt ''remove'' d u p = Some (run_cmd_result h rt ?args)" for u p
    using assms(3-6) i
    by (simp add: ct_changes_def Let_def remove_container_def owned_change_def ct_owner_def ensure_def)
  then obtain ok where "w_log (snd (run_state (ct_action h rt d) w1)) = w_log w1 @ [Ran (raw_command rt ?args None),
      Audited (str_field d ''_user'') ''container.remove'' i ok []]"
    using run_cmd_result_log [of h rt ?args w1] name assms(2)
    by (simp add: ct_action_def Let_def run_simps audit_def split_beta)
  then show ?thesis unfolding container_manage_world w1(1)
    by (intro exI [of _ es] exI [of _ ok]) (simp add: w1(2))
qed

definition remove_request :: json where
  "remove_request = JObj [(''action'', JStr ''remove''), (''id'', JStr ''db''), (''owner'', JStr ''user''),
     (''_user'', JStr ''alice''), (''_role'', JStr ''readonly'')]"

lemma db_valid: "is_valid_container_ref toy_host ''db''"
  by code_simp

theorem container_removed_without_rights_witness:
  "\<exists>es ok. w_log (st_world (snd (hd_data (container_manage toy_host) ''c'' remove_request toy_state))) =
    w_log (st_world toy_state) @ es @
      [Ran (raw_command ''docker'' ([''rm''] @ forced (bool_field False remove_request ''force'') @ [''--'', ''db'']) None),
       Audited (str_field remove_request ''_user'') ''container.remove'' ''db'' ok []]"
proof (rule container_removed_without_rights [where owner = "''user''"])
  show "fst (run_state (detect_runtime toy_host) (st_world toy_state)) = Some ''docker''"
    by (simp add: detect_runtime_def runtimes_def succeeds_def run_status_def spawn_def run_simps toy_host_def)
qed (simp_all add: remove_request_def str_field_def map_str_def db_valid)

text \<open>
  Any password opens root's containers: given a password that is not empty, whatever it is,
  the agent, which is root, runs \<open>sudo\<close> itself to show a container of root to the session, for
  any user and role.
\<close>

theorem root_container_any_password:
  assumes "fst (run_state (detect_runtime h) (st_world s)) = Some rt"
    and "str_field d ''action'' = ''inspect''" and "is_valid_container_ref h (str_field d ''id'')"
    and "jget_str d ''owner'' = Some ''root''" and "str_field d ''password'' \<noteq> []"
  shows "\<exists>es. w_log (st_world (snd (hd_data (container_manage h) ch d s))) =
    w_log (st_world s) @ es @
      [Ran (raw_command ''sudo'' [''-S'', rt, ''inspect'', ''--'', str_field d ''id'']
         (Some (str_field d ''password'' @ [NL])))]"
proof -
  obtain w1 es where w1: "snd (run_state (ct_answer h d) (st_world s)) = snd (run_state (ct_action h rt d) w1)"
    "w_log w1 = w_log (st_world s) @ es"
    using ct_answer_found [OF assms(1)] by blast
  let ?m = "run_sudo_cmd h (str_field d ''password'') rt [''inspect'', ''--'', str_field d ''id'']"
  have "str_field d ''id'' \<noteq> []" using assms(3) by (auto simp: is_valid_container_ref_def)
  then have "ct_reads h rt ''inspect'' d u (str_field d ''password'') = Some ?m" for u
    using assms(3-5) by (simp add: ct_reads_def Let_def inspect_container_def inspected_def ct_owner_def ensure_def)
  moreover have "ct_changes h rt ''inspect'' d u p = None" for u p
    by (simp add: ct_changes_def Let_def)
  ultimately have "w_log (snd (run_state (ct_action h rt d) w1)) =
      w_log w1 @ [Ran (own_sudo (str_field d ''password'') [rt, ''inspect'', ''--'', str_field d ''id''])]"
    using run_sudo_cmd_log [of h "str_field d ''password''" rt "[''inspect'', ''--'', str_field d ''id'']" w1] assms(2)
    by (simp add: ct_action_def Let_def run_simps split_beta)
  with w1 show ?thesis by (simp add: container_manage_world own_sudo_def)
qed

definition inspect_request :: json where
  "inspect_request = JObj [(''action'', JStr ''inspect''), (''id'', JStr ''db''), (''owner'', JStr ''root''),
     (''password'', JStr ''x''), (''_user'', JStr ''alice''), (''_role'', JStr ''readonly'')]"

theorem root_container_any_password_witness:
  "\<exists>es. w_log (st_world (snd (hd_data (container_manage toy_host) ''c'' inspect_request toy_state))) =
    w_log (st_world toy_state) @ es @
      [Ran (raw_command ''sudo'' [''-S'', ''docker'', ''inspect'', ''--'', str_field inspect_request ''id'']
         (Some (str_field inspect_request ''password'' @ [NL])))]"
proof (rule root_container_any_password)
  show "fst (run_state (detect_runtime toy_host) (st_world toy_state)) = Some ''docker''"
    by (simp add: detect_runtime_def runtimes_def succeeds_def run_status_def spawn_def run_simps toy_host_def)
qed (simp_all add: inspect_request_def str_field_def map_str_def db_valid)

section \<open>Lists of two owners\<close>

lemma first_text_tag: "''_owner'' \<notin> set ks \<Longrightarrow> first_text ks (tag_owner owner c) = first_text ks c"
proof -
  assume k: "''_owner'' \<notin> set ks"
  have get: "''_owner'' \<noteq> k \<Longrightarrow> jget (tag_owner owner c) k = jget c k" for k
    by (cases c) (auto simp: tag_owner_def hm_get_put)
  have "List.map_filter (jget (tag_owner owner c)) ks = List.map_filter (jget c) ks"
    using k by (induction ks) (simp_all add: List.map_filter_simps get split: option.split)
  then show ?thesis by (simp add: first_text_def)
qed

lemma container_id_tag [simp]: "container_id (tag_owner owner c) = container_id c"
  by (simp add: container_id_def first_text_tag)

definition ids_of :: "json list \<Rightarrow> string list" where
  "ids_of cs = filter (\<lambda>i. i \<noteq> []) (map container_id cs)"

lemma ids_of_simps [simp]:
  "ids_of [] = []" "ids_of (c # cs) = (if container_id c = [] then [] else [container_id c]) @ ids_of cs"
  "ids_of (xs @ ys) = ids_of xs @ ids_of ys" "ids_of (map (tag_owner owner) xs) = ids_of xs"
  by (simp_all add: ids_of_def comp_def)

lemma merge_root_ids:
  "set (ids_of (merge_root container_id seen cs)) = set (ids_of cs) - set seen \<and>
   distinct (ids_of (merge_root container_id seen cs))"
proof (induction cs arbitrary: seen)
  case (Cons c cs)
  let ?i = "container_id c"
  consider (skip) "?i \<noteq> []" "?i \<in> set seen" | (none) "?i = []" | (new) "?i \<noteq> []" "?i \<notin> set seen" by blast
  then show ?case
  proof cases
    case skip
    then show ?thesis using Cons.IH [of seen] by auto
  next
    case none
    then show ?thesis using Cons.IH [of seen] by simp
  next
    case new
    then show ?thesis using Cons.IH [of "?i # seen"] by auto
  qed
qed simp

text \<open>
  The list of containers shows each once: with the user's and root's lists merged, the ids shown
  are those of the two, and none is shown twice, provided the user's own list has no id twice,
  whatever entries have no id.
\<close>

theorem containers_listed_once:
  assumes "distinct (ids_of mine)"
  shows "set (ids_of (merge_owners container_id mine roots)) = set (ids_of mine) \<union> set (ids_of roots) \<and>
    distinct (ids_of (merge_owners container_id mine roots))"
proof -
  let ?seen = "filter (\<lambda>i. i \<noteq> []) (map container_id mine)"
  have "ids_of (merge_owners container_id mine roots) = ids_of mine @ ids_of (merge_root container_id (ids_of mine) roots)"
    by (simp only: merge_owners_def ids_of_simps ids_of_def [of mine, symmetric])
  then show ?thesis using assms merge_root_ids [of "ids_of mine" roots] by auto
qed

theorem containers_listed_once_witness:
  "distinct (ids_of (merge_owners container_id [JObj [(''Id'', JStr ''a'')]] [JObj [(''ID'', JStr ''a'')], JObj [(''Id'', JStr ''b'')]]))"
  using containers_listed_once [of "[JObj [(''Id'', JStr ''a'')]]" "[JObj [(''ID'', JStr ''a'')], JObj [(''Id'', JStr ''b'')]]"]
  by (simp add: container_id_def first_text_def List.map_filter_simps)

text \<open>
  C38. The loop that merges root's entries into the list keeps what its specification says: with the
  ids already seen, it yields, in order and tagged as root's, exactly those entries that have no
  id, or whose id was not seen and does not occur at an earlier entry.
\<close>

theorem merge_root_spec:
  "merge_root key seen cs =
     map (\<lambda>(i, c). tag_owner ''root'' c)
       (filter (\<lambda>(i, c). key c = [] \<or> key c \<notin> set seen \<and> key c \<notin> key ` set (take i cs)) (List.enumerate 0 cs))"
proof (induction cs arbitrary: seen)
  case (Cons c cs)
  let ?P = "\<lambda>seen cs (i, c'). key c' = [] \<or> key c' \<notin> set seen \<and> key c' \<notin> key ` set (take i cs)"
  let ?tag = "\<lambda>(i::nat, c'). tag_owner ''root'' c'"
  have later: "filter (?P seen (c # cs)) (List.enumerate (Suc 0) cs) =
      map (apfst Suc) (filter (?P (key c # seen) cs) (List.enumerate 0 cs))"
    by (simp add: enumerate_Suc_eq filter_map comp_def split_beta, intro filter_cong refl) auto
  have "map ?tag (filter (?P seen (c # cs)) (List.enumerate (Suc 0) cs)) = merge_root key (key c # seen) cs"
    unfolding later Cons.IH [of "key c # seen"] by (simp add: split_beta comp_def)
  then have all: "map ?tag (filter (?P seen (c # cs)) (List.enumerate 0 (c # cs))) =
      (if ?P seen (c # cs) (0, c) then [tag_owner ''root'' c] else []) @ merge_root key (key c # seen) cs"
    by simp
  have same: "merge_root key (key c # seen) cs = merge_root key seen cs" if "key c = [] \<or> key c \<in> set seen"
    unfolding Cons.IH using that by (intro arg_cong [where f = "map ?tag"] filter_cong refl) auto
  show ?case unfolding all using same by auto
qed simp

end
