(* ===== verification/Packages.thy ===== *)
theory Packages
  imports Handlers TextFacts Paths
begin

text \<open>
  \<open>packages.manage\<close> (\<open>agent/src/handlers/packages.rs\<close>) over pacman, apt and dnf: what is
  installed, searched and upgradable, and how packages and repositories are changed. Automatic
  updates are in \<open>AutoUpdates\<close>.
\<close>

section \<open>The package manager\<close>

datatype pkg_backend = Pacman | Apt | Dnf | NoBackend

definition detect_backend :: "'w agent_host \<Rightarrow> ('w, pkg_backend) act" where
  "detect_backend h = do {
     p \<leftarrow> installed h ''pacman'';
     if p then ret Pacman
     else do {
       a \<leftarrow> installed h ''apt'';
       if a then ret Apt else do { d \<leftarrow> installed h ''dnf''; ret (if d then Dnf else NoBackend) } } }"

definition backend_name :: "pkg_backend \<Rightarrow> string" where
  "backend_name b = (case b of Pacman \<Rightarrow> ''pacman'' | Apt \<Rightarrow> ''apt'' | Dnf \<Rightarrow> ''dnf'' | NoBackend \<Rightarrow> ''none'')"

definition no_manager :: json where
  "no_manager = jerror ''no package manager''"

definition os_field_of :: "string \<Rightarrow> string \<Rightarrow> string option" where
  "os_field_of field content =
     (case List.map_filter (strip_prefix (field @ ''='')) (lines content) of
        [] \<Rightarrow> None | v # _ \<Rightarrow> Some (trim_matches DQ v))"

definition read_os_field :: "'w agent_host \<Rightarrow> string \<Rightarrow> ('w, string option) act" where
  "read_os_field h field = do {
     f \<leftarrow> read_file h ''/etc/os-release'';
     ret (Option.bind f (os_field_of field)) }"

definition detect_info :: "'w agent_host \<Rightarrow> ('w, json) act" where
  "detect_info h = do {
     b \<leftarrow> detect_backend h;
     i \<leftarrow> read_os_field h ''ID'';
     name \<leftarrow> read_os_field h ''PRETTY_NAME'';
     ret (JObj [(''backend'', JStr (backend_name b)), (''distro_id'', JStr (unwrap_or [] i)),
       (''distro_name'', JStr (unwrap_or [] name))]) }"

definition is_valid_package_name :: "'w agent_host \<Rightarrow> string \<Rightarrow> bool" where
  "is_valid_package_name h name \<longleftrightarrow>
     name \<noteq> [] \<and> \<not> starts_with ''-'' name \<and> length name \<le> 256 \<and> chars_within h ''-._+:'' name"

definition is_valid_repo_url :: "string \<Rightarrow> bool" where
  "is_valid_repo_url url \<longleftrightarrow>
     list_ex (\<lambda>p. starts_with p url) [''http://'', ''https://'', ''ftp://'', ''file://''] \<and>
     list_all (\<lambda>c. c \<notin> set url) ([CHR 0x60, CHR ''$'', NL, CR] @ '';|&'')"

section \<open>What is installed\<close>

definition name_version :: "string \<times> string \<Rightarrow> json" where
  "name_version nv = JObj [(''name'', JStr (fst nv)), (''version'', JStr (snd nv))]"

definition list_installed_pacman :: "'w agent_host \<Rightarrow> ('w, json list) act" where
  "list_installed_pacman h = do {
     out \<leftarrow> run h [''pacman'', ''-Q''];
     ret (map name_version (List.map_filter (split_once (CHR '' '')) (lines out))) }"

definition apt_installed_row :: "string \<Rightarrow> json option" where
  "apt_installed_row l =
     (case split_on TAB l of
        name # version # status # _ \<Rightarrow>
          if contains_str ''installed'' status then Some (name_version (name, version)) else None
      | _ \<Rightarrow> None)"

text \<open>The formats of the queries hold backslashes of Rust strings: a tabulator and a line break.\<close>

definition list_installed_apt :: "'w agent_host \<Rightarrow> ('w, json list) act" where
  "list_installed_apt h = do {
     out \<leftarrow> run h [''dpkg-query'', ''-W'', ''-f'', ''${Package}'' @ [TAB] @ ''${Version}'' @ [TAB] @ ''${Status}'' @ [NL]];
     ret (List.map_filter apt_installed_row (lines out)) }"

definition rpm_row :: "string \<Rightarrow> json option" where
  "rpm_row l = (case split_on TAB l of [name, version] \<Rightarrow> Some (name_version (name, version)) | _ \<Rightarrow> None)"

definition list_installed_dnf :: "'w agent_host \<Rightarrow> ('w, json list) act" where
  "list_installed_dnf h = do {
     out \<leftarrow> run h [''rpm'', ''-qa'', ''--queryformat'', ''%{NAME}'' @ [TAB] @ ''%{VERSION}-%{RELEASE}'' @ [NL]];
     ret (List.map_filter rpm_row (lines out)) }"

definition list_installed :: "'w agent_host \<Rightarrow> ('w, json) act" where
  "list_installed h = do {
     b \<leftarrow> detect_backend h;
     rows \<leftarrow> (case b of
                Pacman \<Rightarrow> list_installed_pacman h
              | Apt \<Rightarrow> list_installed_apt h
              | Dnf \<Rightarrow> list_installed_dnf h
              | NoBackend \<Rightarrow> ret []);
     ret (JObj [(''backend'', JStr (backend_name b)), (''packages'', JArr rows), (''count'', JInt (int (length rows)))]) }"

section \<open>Searching\<close>

definition second :: "(string \<times> string) option \<Rightarrow> string" where
  "second x = (case x of None \<Rightarrow> [] | Some (_, b) \<Rightarrow> b)"

definition first_of :: "char \<Rightarrow> string \<Rightarrow> string" where
  "first_of c s = (case split_once c s of None \<Rightarrow> s | Some (a, _) \<Rightarrow> a)"

definition word_of :: "string \<Rightarrow> string" where
  "word_of s = (case split_whitespace s of [] \<Rightarrow> [] | w # _ \<Rightarrow> w)"

definition pacman_row :: "string \<Rightarrow> string \<Rightarrow> string \<Rightarrow> json" where
  "pacman_row repo rest desc =
     (let version_part = second (split_once (CHR '' '') rest)
      in JObj [(''name'', JStr (first_of (CHR '' '') rest)), (''version'', JStr (word_of version_part)), (''repo'', JStr repo),
           (''installed'', JBool (contains_str ''[installed'' version_part)), (''description'', JStr desc)])"

text \<open>A line with a slash is a package; an indented line after it is its description.\<close>

function pacman_hits :: "string list \<Rightarrow> json list" where
  "pacman_hits [] = []"
| "pacman_hits (l # ls) =
     (case split_once (CHR ''/'') (trim l) of
        None \<Rightarrow> pacman_hits ls
      | Some (repo, rest) \<Rightarrow>
          (case ls of
             [] \<Rightarrow> [pacman_row repo rest []]
           | d # ds \<Rightarrow>
               if starts_with '' '' d then pacman_row repo rest (trim d) # pacman_hits ds
               else pacman_row repo rest [] # pacman_hits (d # ds)))"
  by pat_completeness auto
termination by (relation "measure length") auto

definition search_pacman :: "'w agent_host \<Rightarrow> string \<Rightarrow> ('w, json list) act" where
  "search_pacman h query = do {
     out \<leftarrow> run h [''pacman'', ''-Ss'', ''--'', query];
     ret (pacman_hits (lines out)) }"

definition found_row :: "string \<Rightarrow> string \<Rightarrow> bool \<Rightarrow> string \<Rightarrow> json" where
  "found_row name version inst desc =
     JObj [(''name'', JStr name), (''version'', JStr version), (''installed'', JBool inst), (''description'', JStr desc)]"

definition apt_hits :: "string \<Rightarrow> (string \<times> string) list" where
  "apt_hits out =
     take 200 (List.map_filter (\<lambda>l. map_option (\<lambda>(a, b). (trim a, trim b)) (split_once_str '' - '' l)) (lines out))"

definition dpkg_row :: "string \<Rightarrow> (string \<times> bool \<times> string) option" where
  "dpkg_row l =
     (case split_on TAB l of
        p # status # version # _ \<Rightarrow> Some (trim p, contains_str ''install ok installed'' (trim status), trim version)
      | _ \<Rightarrow> None)"

definition dpkg_map :: "string \<Rightarrow> (string, bool \<times> string) hmap" where
  "dpkg_map out = foldl (\<lambda>m l. case dpkg_row l of None \<Rightarrow> m | Some (p, r) \<Rightarrow> hm_put p r m) [] (lines out)"

definition dpkg_args :: "string list \<Rightarrow> string list" where
  "dpkg_args names =
     [''dpkg-query'', ''-W'', ''-f'', ''${Package}'' @ [TAB] @ ''${Status}'' @ [TAB] @ ''${Version}'' @ [NL], ''--''] @ names"

definition search_apt :: "'w agent_host \<Rightarrow> string \<Rightarrow> ('w, json list) act" where
  "search_apt h query = do {
     out \<leftarrow> run h [''apt-cache'', ''search'', ''--'', query];
     (let hits = apt_hits out
      in if hits = [] then ret []
         else do {
           known \<leftarrow> run h (dpkg_args (map fst hits));
           ret (map (\<lambda>(name, desc).
             (let r = unwrap_or (False, []) (hm_get (dpkg_map known) name) in found_row name (snd r) (fst r) desc)) hits) }) }"

text \<open>A command whose standard error is dropped: what it wrote, if it could be waited for and read.\<close>

definition quiet_output :: "'w agent_host \<Rightarrow> string \<Rightarrow> string list \<Rightarrow> ('w, string option) act" where
  "quiet_output h prog args =
     spawned h (raw_command prog args None) (\<lambda>_. None)
       (\<lambda>ch. case ch_wait ch of
               Inl _ \<Rightarrow> None
             | Inr _ \<Rightarrow> if pipe_failed (ch_out ch) then None else Some (from_utf8_lossy (stream (ch_out ch))))"

definition is_apt_installed :: "'w agent_host \<Rightarrow> string \<Rightarrow> ('w, bool) act" where
  "is_apt_installed h name = do {
     r \<leftarrow> quiet_output h ''dpkg-query'' [''-W'', ''-f'', ''${Status}'', ''--'', name];
     ret (case r of None \<Rightarrow> False | Some out \<Rightarrow> contains_str ''install ok installed'' out) }"

text \<open>The name without what follows its last dot.\<close>

definition without_arch :: "string \<Rightarrow> string" where
  "without_arch s = (case rsplit_once (CHR ''.'') s of None \<Rightarrow> s | Some (a, _) \<Rightarrow> a)"

definition dnf_hit :: "string \<Rightarrow> (string \<times> string) option" where
  "dnf_hit raw =
     (let l = trim raw
      in if l = [] \<or> list_ex (\<lambda>p. starts_with p l) [''='', ''Last metadata'', ''Matched fields''] then None
         else (case (case split_once_str '' : '' l of Some x \<Rightarrow> Some x | None \<Rightarrow> split_once TAB l) of
                 None \<Rightarrow> None
               | Some (a, b) \<Rightarrow> if trim a = [] then None else Some (without_arch (trim a), trim b)))"

definition rpm_args :: "string list \<Rightarrow> string list" where
  "rpm_args names = [''-q'', ''--qf'', ''%{NAME}'' @ [NL], ''--''] @ names"

definition search_dnf :: "'w agent_host \<Rightarrow> string \<Rightarrow> ('w, json list) act" where
  "search_dnf h query = do {
     out \<leftarrow> run h [''dnf'', ''search'', ''--quiet'', query];
     (let hits = take 200 (List.map_filter dnf_hit (lines out))
      in if hits = [] then ret []
         else do {
           r \<leftarrow> quiet_output h ''rpm'' (rpm_args (map fst hits));
           (let there = filter (\<lambda>l. l \<noteq> []) (map trim (lines (unwrap_or [] r)))
            in ret (map (\<lambda>(name, desc). found_row name [] (name \<in> set there) desc) hits)) }) }"

definition search_packages :: "'w agent_host \<Rightarrow> string \<Rightarrow> ('w, json) act" where
  "search_packages h query =
     ensure (query \<noteq> []) ''query required''
       (ensure (is_valid_package_name h query) ''invalid search query''
       (do {
          b \<leftarrow> detect_backend h;
          rows \<leftarrow> (case b of
                     Pacman \<Rightarrow> search_pacman h query
                   | Apt \<Rightarrow> search_apt h query
                   | Dnf \<Rightarrow> search_dnf h query
                   | NoBackend \<Rightarrow> ret []);
          ret (JObj [(''backend'', JStr (backend_name b)), (''packages'', JArr rows)]) }))"

definition info_json :: "string \<Rightarrow> bool \<Rightarrow> json" where
  "info_json out there = JObj [(''info'', JStr out), (''installed'', JBool there)]"

definition package_info :: "'w agent_host \<Rightarrow> string \<Rightarrow> ('w, json) act" where
  "package_info h name =
     ensure (name \<noteq> []) ''package name required''
       (ensure (is_valid_package_name h name) ''invalid package name''
       (do {
          b \<leftarrow> detect_backend h;
          case b of
            Pacman \<Rightarrow> do {
              out \<leftarrow> run h [''pacman'', ''-Qi'', ''--'', name];
              if contains_str ''was not found'' out then do {
                out2 \<leftarrow> run h [''pacman'', ''-Si'', ''--'', name];
                ret (info_json out2 False) }
              else ret (info_json out True) }
          | Apt \<Rightarrow> do {
              out \<leftarrow> run h [''apt-cache'', ''show'', ''--'', name];
              there \<leftarrow> is_apt_installed h name;
              ret (info_json out there) }
          | Dnf \<Rightarrow> do {
              out \<leftarrow> run h [''dnf'', ''info'', ''--quiet'', name];
              ret (info_json out (contains_str ''installed packages'' (map ascii_lower out))) }
          | NoBackend \<Rightarrow> ret no_manager }))"

section \<open>Installing and removing\<close>

abbreviation pkg_sudo :: "'w agent_host \<Rightarrow> string \<Rightarrow> string \<Rightarrow> string list \<Rightarrow> ('w, json) act" where
  "pkg_sudo \<equiv> sudo"

definition install_args :: "pkg_backend \<Rightarrow> string list \<Rightarrow> string list option" where
  "install_args b names =
     (case b of
        Pacman \<Rightarrow> Some ([''pacman'', ''-S'', ''--noconfirm'', ''--''] @ names)
      | Apt \<Rightarrow> Some ([''apt-get'', ''install'', ''-y'', ''--''] @ names)
      | Dnf \<Rightarrow> Some ([''dnf'', ''install'', ''-y''] @ names)
      | NoBackend \<Rightarrow> None)"

definition remove_args :: "pkg_backend \<Rightarrow> string list \<Rightarrow> string list option" where
  "remove_args b names =
     (case b of
        Pacman \<Rightarrow> Some ([''pacman'', ''-Rns'', ''--noconfirm'', ''--''] @ names)
      | Apt \<Rightarrow> Some ([''apt-get'', ''remove'', ''-y'', ''--''] @ names)
      | Dnf \<Rightarrow> Some ([''dnf'', ''remove'', ''-y''] @ names)
      | NoBackend \<Rightarrow> None)"

text \<open>A command the package manager may not have.\<close>

definition sudo_some :: "'w agent_host \<Rightarrow> string \<Rightarrow> string \<Rightarrow> string list option \<Rightarrow> ('w, json) act" where
  "sudo_some h user password args = (case args of None \<Rightarrow> ret no_manager | Some a \<Rightarrow> pkg_sudo h user password a)"

definition change_packages ::
  "'w agent_host \<Rightarrow> (pkg_backend \<Rightarrow> string list \<Rightarrow> string list option) \<Rightarrow> string \<Rightarrow> string \<Rightarrow> string list \<Rightarrow> ('w, json) act" where
  "change_packages h args user password names =
     ensure (names \<noteq> []) ''no packages specified''
       (case List.find (\<lambda>n. \<not> is_valid_package_name h n) names of
          Some n \<Rightarrow> ret (jerror (''invalid package name: '' @ n))
        | None \<Rightarrow> do { b \<leftarrow> detect_backend h; sudo_some h user password (args b names) })"

definition install_packages :: "'w agent_host \<Rightarrow> string \<Rightarrow> string \<Rightarrow> string list \<Rightarrow> ('w, json) act" where
  "install_packages h = change_packages h install_args"

definition remove_packages :: "'w agent_host \<Rightarrow> string \<Rightarrow> string \<Rightarrow> string list \<Rightarrow> ('w, json) act" where
  "remove_packages h = change_packages h remove_args"

section \<open>Updates\<close>

text \<open>\<open>str::splitn\<close> with a character.\<close>

fun splitn :: "nat \<Rightarrow> char \<Rightarrow> string \<Rightarrow> string list" where
  "splitn 0 c s = []"
| "splitn (Suc 0) c s = [s]"
| "splitn (Suc n) c s = (case split_once c s of None \<Rightarrow> [s] | Some (a, b) \<Rightarrow> a # splitn n c b)"

definition update_json :: "string \<Rightarrow> string \<Rightarrow> string \<Rightarrow> json" where
  "update_json name current available =
     JObj [(''name'', JStr name), (''current'', JStr current), (''available'', JStr available)]"

definition pacman_update :: "string \<Rightarrow> json option" where
  "pacman_update raw =
     (if trim raw = [] then None
      else (case splitn 4 (CHR '' '') (trim raw) of
              a # b # c # d # _ \<Rightarrow> Some (update_json a b d)
            | a # b # _ \<Rightarrow> Some (update_json a [] b)
            | _ \<Rightarrow> None))"

definition apt_update :: "string \<Rightarrow> json option" where
  "apt_update raw =
     (let l = trim raw
      in if l = [] \<or> starts_with ''Listing'' l then None
         else (case split_once (CHR ''/'') l of
                 None \<Rightarrow> None
               | Some (name, rest) \<Rightarrow>
                   Some (update_json name
                     (if contains_str ''upgradable from:'' rest
                      then trim (trim_end_matches (CHR '']'') (last (split_str ''upgradable from: '' rest))) else [])
                     (case split_whitespace rest of _ # v # _ \<Rightarrow> v | _ \<Rightarrow> []))))"

definition dnf_update :: "string \<Rightarrow> json option" where
  "dnf_update raw =
     (let l = trim raw
      in if l = [] \<or> starts_with ''Last metadata'' l then None
         else (case split_whitespace l of
                 a # b # _ # _ \<Rightarrow> Some (update_json (without_arch a) [] b)
               | _ \<Rightarrow> None))"

definition updates_json :: "pkg_backend \<Rightarrow> json list \<Rightarrow> json" where
  "updates_json b rows =
     JObj [(''backend'', JStr (backend_name b)), (''updates'', JArr rows), (''count'', JInt (int (length rows)))]"

definition check_updates :: "'w agent_host \<Rightarrow> ('w, json) act" where
  "check_updates h = do {
     b \<leftarrow> detect_backend h;
     case b of
       Pacman \<Rightarrow> do {
         c \<leftarrow> installed h ''checkupdates'';
         out \<leftarrow> run h (if c then [''checkupdates''] else [''pacman'', ''-Qu'']);
         ret (updates_json b (List.map_filter pacman_update (lines out))) }
     | Apt \<Rightarrow> do {
         out \<leftarrow> run h [''apt'', ''list'', ''--upgradable''];
         ret (updates_json b (List.map_filter apt_update (lines out))) }
     | Dnf \<Rightarrow> do {
         out \<leftarrow> run h [''dnf'', ''check-update'', ''--quiet''];
         ret (updates_json b (List.map_filter dnf_update (lines out))) }
     | NoBackend \<Rightarrow> ret no_manager }"

definition apt_refresh :: "string list" where
  "apt_refresh = [''apt-get'', ''update'']"

definition update_system :: "'w agent_host \<Rightarrow> string \<Rightarrow> string \<Rightarrow> ('w, json) act" where
  "update_system h user password = do {
     b \<leftarrow> detect_backend h;
     case b of
       Pacman \<Rightarrow> pkg_sudo h user password [''pacman'', ''-Syu'', ''--noconfirm'']
     | Apt \<Rightarrow> do {
         r \<leftarrow> pkg_sudo h user password apt_refresh;
         if has_error r then ret r else pkg_sudo h user password [''apt-get'', ''dist-upgrade'', ''-y''] }
     | Dnf \<Rightarrow> pkg_sudo h user password [''dnf'', ''upgrade'', ''--refresh'', ''-y'']
     | NoBackend \<Rightarrow> ret no_manager }"

definition cleanup_args :: "pkg_backend \<Rightarrow> string \<Rightarrow> string list option" where
  "cleanup_args b kind =
     (case b of
        Apt \<Rightarrow> map_of [(''clean'', [''apt-get'', ''clean'']), (''autoclean'', [''apt-get'', ''autoclean'']),
                     (''autoremove'', [''apt-get'', ''autoremove'', ''-y''])] kind
      | Dnf \<Rightarrow> map_of [(''clean'', [''dnf'', ''clean'', ''all'']), (''autoremove'', [''dnf'', ''autoremove'', ''-y''])] kind
      | Pacman \<Rightarrow> map_of [(''clean'', [''pacman'', ''-Sc'', ''--noconfirm''])] kind
      | NoBackend \<Rightarrow> None)"

definition cleanup_packages :: "'w agent_host \<Rightarrow> string \<Rightarrow> string \<Rightarrow> string \<Rightarrow> ('w, json) act" where
  "cleanup_packages h user password kind = do {
     b \<leftarrow> detect_backend h;
     case cleanup_args b kind of
       Some args \<Rightarrow> pkg_sudo h user password args
     | None \<Rightarrow> ret (if b = NoBackend then no_manager
                  else jerror (''cleanup '' @ [CHR 0x27] @ kind @ [CHR 0x27] @ '' is not supported for this package manager'')) }"

section \<open>Listing repositories\<close>

text \<open>The text of a failed read is the operating system's; the host does not tell it, and the model has
  the most common one.\<close>

definition read_failure :: json where
  "read_failure = jerror ''No such file or directory (os error 2)''"

record pacman_state =
  pc_repos :: "json list"
  pc_repo :: "string option"
  pc_server :: string
  pc_include :: string
  pc_sig :: string

definition pacman_section :: "pacman_state \<Rightarrow> json list" where
  "pacman_section st =
     (case pc_repo st of
        None \<Rightarrow> []
      | Some name \<Rightarrow>
          if name = ''options'' then []
          else [JObj [(''name'', JStr name), (''server'', JStr (pc_server st)), (''include'', JStr (pc_include st)),
                      (''sig_level'', JStr (pc_sig st)), (''enabled'', JBool True)]])"

definition after_equals :: "string \<Rightarrow> string" where
  "after_equals v = concat (dropWhile (\<lambda>ch. ch = ''='' \<or> is_ws_char ch) (chars_of v))"

definition in_brackets :: "string \<Rightarrow> bool" where
  "in_brackets l \<longleftrightarrow> starts_with ''['' l \<and> ends_with '']'' l"

definition trim_brackets :: "string \<Rightarrow> string" where
  "trim_brackets l =
     (let br = (\<lambda>c. c = CHR ''['' \<or> c = CHR '']'') in rev (dropWhile br (rev (dropWhile br l))))"

definition pacman_line :: "pacman_state \<Rightarrow> string \<Rightarrow> pacman_state" where
  "pacman_line st raw =
     (let l = trim raw
      in if starts_with ''#'' l \<or> l = [] then st
         else if in_brackets l then
           \<lparr>pc_repos = pc_repos st @ pacman_section st, pc_repo = Some (trim_brackets l), pc_server = [], pc_include = [],
            pc_sig = []\<rparr>
         else (case strip_prefix ''Server'' l of
                 Some v \<Rightarrow> st\<lparr>pc_server := after_equals v\<rparr>
               | None \<Rightarrow>
                   (case strip_prefix ''Include'' l of
                      Some v \<Rightarrow> st\<lparr>pc_include := after_equals v\<rparr>
                    | None \<Rightarrow>
                        (case strip_prefix ''SigLevel'' l of
                           Some v \<Rightarrow> st\<lparr>pc_sig := after_equals v\<rparr>
                         | None \<Rightarrow> st))))"

definition pacman_conf :: string where
  "pacman_conf = ''/etc/pacman.conf''"

definition repos_json :: "pkg_backend \<Rightarrow> json list \<Rightarrow> json" where
  "repos_json b rows = JObj [(''backend'', JStr (backend_name b)), (''repos'', JArr rows)]"

definition list_repos_pacman :: "'w agent_host \<Rightarrow> ('w, json) act" where
  "list_repos_pacman h = do {
     f \<leftarrow> read_file h pacman_conf;
     ret (case f of
            None \<Rightarrow> read_failure
          | Some c \<Rightarrow>
              (let st = foldl pacman_line \<lparr>pc_repos = [], pc_repo = None, pc_server = [], pc_include = [], pc_sig = []\<rparr> (lines c)
               in repos_json Pacman (pc_repos st @ pacman_section st))) }"

definition apt_line_json :: "string \<Rightarrow> string \<Rightarrow> string \<Rightarrow> bool \<Rightarrow> json" where
  "apt_line_json other l fname enabled =
     JObj [(''name'', JStr (case split_whitespace l of _ # w # _ \<Rightarrow> w | _ \<Rightarrow> other)), (''line'', JStr l),
       (''file'', JStr fname), (''enabled'', JBool enabled), (''format'', JStr ''oneline'')]"

definition sources_list :: string where
  "sources_list = ''/etc/apt/sources.list''"

definition classic_row :: "string \<Rightarrow> json option" where
  "classic_row raw =
     (let l = trim raw in if starts_with ''#'' l \<or> l = [] then None else Some (apt_line_json [] l sources_list True))"

definition list_file_row :: "string \<Rightarrow> string \<Rightarrow> json option" where
  "list_file_row fname raw =
     (let l = trim raw
      in if l = [] then None
         else Some (apt_line_json fname (trim (trim_start_matches (CHR ''#'') l)) fname (\<not> starts_with ''#'' l)))"

text \<open>The blocks of a file in the format deb822.\<close>

definition deb822_start :: "string \<Rightarrow> jmap" where
  "deb822_start fname = [(''file'', JStr fname), (''format'', JStr ''deb822'')]"

definition deb822_block :: "jmap \<Rightarrow> json list" where
  "deb822_block m =
     (if hm_has m ''Types'' then
        [JObj (hm_put ''enabled'' (JBool (case map_str m ''Enabled'' of None \<Rightarrow> True | Some v \<Rightarrow> v \<noteq> ''no'')) m)]
      else [])"

definition deb822_line :: "string \<Rightarrow> json list \<times> jmap \<Rightarrow> string \<Rightarrow> json list \<times> jmap" where
  "deb822_line fname acc raw =
     (let l = trim raw
      in if l = [] then (fst acc @ deb822_block (snd acc), deb822_start fname)
         else (case split_once (CHR '':'') l of
                 None \<Rightarrow> acc
               | Some (k, v) \<Rightarrow> (fst acc, hm_put (trim k) (JStr (trim v)) (snd acc))))"

definition deb822_repos :: "string \<Rightarrow> string \<Rightarrow> json list" where
  "deb822_repos fname content =
     (case foldl (deb822_line fname) ([], deb822_start fname) (lines content) of (rows, m) \<Rightarrow> rows @ deb822_block m)"

definition apt_dir :: string where
  "apt_dir = ''/etc/apt/sources.list.d/''"

definition apt_file_repos :: "'w agent_host \<Rightarrow> string \<Rightarrow> ('w, json list) act" where
  "apt_file_repos h name =
     (let fname = apt_dir @ name
      in if ends_with ''.list'' fname then do {
           f \<leftarrow> read_file h fname;
           ret (List.map_filter (list_file_row fname) (lines (unwrap_or [] f))) }
         else if ends_with ''.sources'' fname then do {
           f \<leftarrow> read_file h fname;
           ret (case f of None \<Rightarrow> [] | Some c \<Rightarrow> deb822_repos fname c) }
         else ret [])"

definition list_repos_apt :: "'w agent_host \<Rightarrow> ('w, json) act" where
  "list_repos_apt h = do {
     f \<leftarrow> read_file h sources_list;
     names \<leftarrow> read_dir h apt_dir;
     rows \<leftarrow> act_map (apt_file_repos h) (unwrap_or [] names);
     ret (repos_json Apt (List.map_filter classic_row (lines (unwrap_or [] f)) @ concat rows)) }"

definition dnf_repo_row :: "string \<Rightarrow> json option" where
  "dnf_repo_row raw =
     (let l = trim raw; words = split_whitespace l; i = hd words; status = last words;
          said = eq_ignore_ascii_case status ''enabled'' \<or> eq_ignore_ascii_case status ''disabled''
      in if l = [] \<or> starts_with ''repo id'' l \<or> starts_with ''Last metadata'' l \<or> length words < 2 then None
         else Some (JObj [(''name'', JStr (trim_end_str ''*disabled'' i)),
           (''description'', JStr (join '' '' (if said then butlast (tl words) else tl words))),
           (''enabled'', JBool (if said then eq_ignore_ascii_case status ''enabled'' else \<not> ends_with ''*disabled'' i))]))"

definition list_repos_dnf :: "'w agent_host \<Rightarrow> ('w, json) act" where
  "list_repos_dnf h = do {
     out \<leftarrow> run h [''dnf'', ''repolist'', ''--all'', ''--quiet''];
     ret (repos_json Dnf (List.map_filter dnf_repo_row (lines out))) }"

definition list_repos :: "'w agent_host \<Rightarrow> ('w, json) act" where
  "list_repos h = do {
     b \<leftarrow> detect_backend h;
     case b of
       Pacman \<Rightarrow> list_repos_pacman h
     | Apt \<Rightarrow> list_repos_apt h
     | Dnf \<Rightarrow> list_repos_dnf h
     | NoBackend \<Rightarrow> ret no_manager }"

section \<open>Changing repositories\<close>

definition add_repo_pacman :: "'w agent_host \<Rightarrow> string \<Rightarrow> string \<Rightarrow> string \<Rightarrow> string \<Rightarrow> ('w, json) act" where
  "add_repo_pacman h user password repo name =
     ensure (name \<noteq> []) ''repository name required for pacman''
       (ensure (chars_within h ''-_'' name) ''invalid repository name''
       (ensure (is_valid_repo_url repo) ''invalid repository URL''
       (sudo_write h user password [''tee'', ''-a'', pacman_conf] ([NL] @ ''['' @ name @ '']'' @ [NL] @ ''Server = '' @ repo @ [NL]))))"

definition add_repo_apt :: "'w agent_host \<Rightarrow> string \<Rightarrow> string \<Rightarrow> string \<Rightarrow> string \<Rightarrow> ('w, json) act" where
  "add_repo_apt h user password repo name =
     (let fname = (if name = [] then ''custom'' else name)
      in if starts_with ''ppa:'' repo then pkg_sudo h user password [''add-apt-repository'', ''-y'', repo]
         else ensure (chars_within h ''-_'' fname) ''invalid repository name''
           (ensure (NL \<notin> set repo \<and> CR \<notin> set repo) ''invalid repository line''
           (sudo_write h user password [''tee'', apt_dir @ fname @ ''.list''] (repo @ [NL]))))"

definition add_repo_dnf :: "'w agent_host \<Rightarrow> string \<Rightarrow> string \<Rightarrow> string \<Rightarrow> ('w, json) act" where
  "add_repo_dnf h user password repo = do {
     d3 \<leftarrow> installed h ''dnf-3'';
     d \<leftarrow> (if d3 then ret True else installed h ''dnf'');
     ensure d ''dnf config-manager not available''
       (pkg_sudo h user password [''dnf'', ''config-manager'', ''--add-repo'', repo]) }"

definition add_repo :: "'w agent_host \<Rightarrow> string \<Rightarrow> string \<Rightarrow> string \<Rightarrow> string \<Rightarrow> ('w, json) act" where
  "add_repo h user password repo name =
     ensure (repo \<noteq> []) ''repository URL/name required''
       (do {
          b \<leftarrow> detect_backend h;
          case b of
            Pacman \<Rightarrow> add_repo_pacman h user password repo name
          | Apt \<Rightarrow> add_repo_apt h user password repo name
          | Dnf \<Rightarrow> add_repo_dnf h user password repo
          | NoBackend \<Rightarrow> ret no_manager })"

text \<open>The lines of \<open>pacman.conf\<close> without the section of a header; the flag tells whether the loop is
  inside it.\<close>

fun without_section :: "string \<Rightarrow> bool \<Rightarrow> string list \<Rightarrow> string list" where
  "without_section header skipping [] = []"
| "without_section header skipping (l # ls) =
     (if trim l = header then without_section header True ls
      else if skipping \<and> \<not> in_brackets (trim l) then without_section header True ls
      else l # without_section header False ls)"

definition pacman_without :: "string \<Rightarrow> string \<Rightarrow> string" where
  "pacman_without repo content = join [NL] (without_section (''['' @ repo @ '']'') False (lines content)) @ [NL]"

definition remove_repo_pacman :: "'w agent_host \<Rightarrow> string \<Rightarrow> string \<Rightarrow> string \<Rightarrow> ('w, json) act" where
  "remove_repo_pacman h user password repo =
     ensure (chars_within h ''-_'' repo) ''invalid repository name''
       (do {
          f \<leftarrow> read_file h pacman_conf;
          case f of
            None \<Rightarrow> ret read_failure
          | Some c \<Rightarrow> sudo_write h user password [''tee'', pacman_conf] (pacman_without repo c) })"

text \<open>A file given by its path must lie, resolved, in the resolved directory.\<close>

definition resolved_in :: "'w agent_host \<Rightarrow> string \<Rightarrow> string \<Rightarrow> ('w, string option) act" where
  "resolved_in h dir path = do {
     d \<leftarrow> canonical h dir;
     case d of
       Inl _ \<Rightarrow> ret None
     | Inr base \<Rightarrow> do {
         f \<leftarrow> canonical h path;
         ret (case f of Inr p \<Rightarrow> if path_starts_with base p then Some p else None | Inl _ \<Rightarrow> None) } }"

definition rm_file :: "string \<Rightarrow> string list" where
  "rm_file path = [''rm'', ''-f'', ''--'', path]"

definition remove_repo_apt :: "'w agent_host \<Rightarrow> string \<Rightarrow> string \<Rightarrow> string \<Rightarrow> ('w, json) act" where
  "remove_repo_apt h user password repo =
     (let list_path = apt_dir @ repo @ ''.list''; sources_path = apt_dir @ repo @ ''.sources''
      in if starts_with ''ppa:'' repo then pkg_sudo h user password [''add-apt-repository'', ''--remove'', ''-y'', repo]
         else if starts_with ''/'' repo then do {
           p \<leftarrow> resolved_in h ''/etc/apt/sources.list.d'' repo;
           case p of
             Some path \<Rightarrow> pkg_sudo h user password (rm_file path)
           | None \<Rightarrow> ret (jerror ''can only remove files in /etc/apt/sources.list.d/'') }
         else ensure (chars_within h ''-_.'' repo) ''invalid repository name''
           (do {
              l \<leftarrow> metadata h list_path;
              s \<leftarrow> (if l = None then metadata h sources_path else ret None);
              pkg_sudo h user password (rm_file (if s \<noteq> None then sources_path else list_path)) }))"

definition remove_repo_dnf :: "'w agent_host \<Rightarrow> string \<Rightarrow> string \<Rightarrow> string \<Rightarrow> ('w, json) act" where
  "remove_repo_dnf h user password repo =
     (if starts_with ''/'' repo then do {
        p \<leftarrow> resolved_in h ''/etc/yum.repos.d'' repo;
        case p of
          Some path \<Rightarrow> pkg_sudo h user password (rm_file path)
        | None \<Rightarrow> ret (jerror ''can only remove repo files in /etc/yum.repos.d/'') }
      else ensure (chars_within h ''-_.'' repo) ''invalid repository name''
        (pkg_sudo h user password (rm_file (''/etc/yum.repos.d/'' @ repo @ ''.repo''))))"

definition remove_repo :: "'w agent_host \<Rightarrow> string \<Rightarrow> string \<Rightarrow> string \<Rightarrow> ('w, json) act" where
  "remove_repo h user password repo =
     ensure (repo \<noteq> []) ''repository identifier required''
       (do {
          b \<leftarrow> detect_backend h;
          case b of
            Pacman \<Rightarrow> remove_repo_pacman h user password repo
          | Apt \<Rightarrow> remove_repo_apt h user password repo
          | Dnf \<Rightarrow> remove_repo_dnf h user password repo
          | NoBackend \<Rightarrow> ret no_manager })"

definition refresh_repos :: "'w agent_host \<Rightarrow> string \<Rightarrow> string \<Rightarrow> ('w, json) act" where
  "refresh_repos h user password = do {
     b \<leftarrow> detect_backend h;
     case b of
       Pacman \<Rightarrow> pkg_sudo h user password [''pacman'', ''-Sy'', ''--noconfirm'']
     | Apt \<Rightarrow> pkg_sudo h user password apt_refresh
     | Dnf \<Rightarrow> pkg_sudo h user password [''dnf'', ''makecache'', ''--quiet'']
     | NoBackend \<Rightarrow> ret no_manager }"

section \<open>The sections of pacman.conf\<close>

text \<open>The header a line belongs to: the last one at or before it, or the one before all lines.\<close>

definition header_at :: "string option \<Rightarrow> string list \<Rightarrow> nat \<Rightarrow> string option" where
  "header_at cur ls i =
     (case rev (filter in_brackets (map trim (take (Suc i) ls))) of [] \<Rightarrow> cur | hd' # _ \<Rightarrow> Some hd')"

definition outside_section :: "string \<Rightarrow> string option \<Rightarrow> string list \<Rightarrow> string list" where
  "outside_section header cur ls =
     map snd (filter (\<lambda>(i, _). header_at cur ls i \<noteq> Some header) (List.enumerate 0 ls))"

lemma header_at_Cons:
  "header_at cur (l # ls) 0 = (if in_brackets (trim l) then Some (trim l) else cur)"
  "header_at cur (l # ls) (Suc i) = header_at (if in_brackets (trim l) then Some (trim l) else cur) ls i"
  by (auto simp: header_at_def split: list.split)

lemma outside_section_Cons:
  "outside_section header cur (l # ls) =
     (let cur' = if in_brackets (trim l) then Some (trim l) else cur
      in (if cur' = Some header then [] else [l]) @ outside_section header cur' ls)"
proof -
  let ?cur = "if in_brackets (trim l) then Some (trim l) else cur"
  have "map snd (filter (\<lambda>(i, _). header_at cur (l # ls) i \<noteq> Some header) (List.enumerate (Suc 0) ls)) =
      outside_section header ?cur ls"
    unfolding outside_section_def enumerate_Suc_eq filter_map
    by (simp add: comp_def case_prod_unfold header_at_Cons)
  then show ?thesis
    by (simp add: outside_section_def header_at_Cons(1) Let_def)
qed

lemma without_section_outside:
  "in_brackets header \<Longrightarrow> without_section header (cur = Some header) ls = outside_section header cur ls"
proof (induction ls arbitrary: cur)
  case (Cons l ls)
  note IH = Cons.IH [OF Cons.prems]
  consider (here) "trim l = header" | (other) "trim l \<noteq> header" "in_brackets (trim l)" | (plain) "trim l \<noteq> header" "\<not> in_brackets (trim l)"
    by blast
  then show ?case
  proof cases
    case here
    then show ?thesis using IH [of "Some header"] Cons.prems by (simp add: outside_section_Cons)
  next
    case other
    then show ?thesis using IH [of "Some (trim l)"] by (simp add: outside_section_Cons)
  next
    case plain
    then show ?thesis using IH [of cur] by (auto simp: outside_section_Cons)
  qed
qed (simp add: outside_section_def)

text \<open>
  Removing a repository from \<open>pacman.conf\<close> is a filter of its lines: the loop with its flag leaves,
  in order, exactly the lines that do not belong to the header of that name, where a line belongs
  to the last header at or before it; so it removes every section of the name, whole, and no
  line of another, for every name, \<open>options\<close> included.
\<close>

theorem pacman_without_spec:
  "pacman_without repo content =
     join [NL] (outside_section (''['' @ repo @ '']'') None (lines content)) @ [NL]"
proof -
  have "in_brackets (''['' @ repo @ '']'')" by (simp add: in_brackets_def starts_with_def ends_with_def)
  from without_section_outside [OF this, of None] show ?thesis by (simp add: pacman_without_def)
qed

end
