(* ===== verification/AutoUpdates.thy ===== *)
theory AutoUpdates
  imports Packages
begin

text \<open>
  Automatic updates (the second half of \<open>agent/src/handlers/packages.rs\<close>): what the agent
  writes for \<open>unattended-upgrades\<close> and \<open>dnf-automatic\<close>, how it reads it back, the timers, and the
  whole handler \<open>packages.manage\<close>.
\<close>

section \<open>The files of unattended-upgrades\<close>

definition APT_AUTO_CONF :: string where "APT_AUTO_CONF = ''/etc/apt/apt.conf.d/20auto-upgrades''"
definition APT_TENODERA_CONF :: string where "APT_TENODERA_CONF = ''/etc/apt/apt.conf.d/51tenodera-unattended''"
definition DNF_AUTO_CONF :: string where "DNF_AUTO_CONF = ''/etc/dnf/automatic.conf''"
definition APT_TIMER :: string where "APT_TIMER = ''apt-daily-upgrade.timer''"
definition DNF_TIMER :: string where "DNF_TIMER = ''dnf-automatic.timer''"

text \<open>A directive with its quoted value, and a line of each kind.\<close>

definition directive :: "string \<Rightarrow> string \<Rightarrow> string" where
  "directive name v = name @ '' '' @ [DQ] @ v @ [DQ] @ '';''"

definition periodic_lines :: "bool \<Rightarrow> string \<Rightarrow> string list" where
  "periodic_lines enabled mode =
     [''// Managed by Tenodera'', directive ''APT::Periodic::Update-Package-Lists'' ''1'',
      directive ''APT::Periodic::Download-Upgradeable-Packages'' (if enabled then ''1'' else ''0''),
      directive ''APT::Periodic::Unattended-Upgrade'' (if enabled \<and> mode = ''install'' then ''1'' else ''0'')]"

definition with_breaks :: "string list \<Rightarrow> string" where
  "with_breaks ls = concat (map (\<lambda>l. l @ [NL]) ls)"

definition build_apt_periodic :: "bool \<Rightarrow> string \<Rightarrow> string" where
  "build_apt_periodic enabled mode = with_breaks (periodic_lines enabled mode)"

definition origin :: "string \<Rightarrow> string" where
  "origin s = ''    '' @ [DQ] @ s @ [DQ] @ '';''"

definition truth :: "bool \<Rightarrow> string" where
  "truth b = (if b then ''true'' else ''false'')"

definition tenodera_lines :: "string \<Rightarrow> bool \<Rightarrow> string \<Rightarrow> bool \<Rightarrow> string list" where
  "tenodera_lines scope reboot reboot_time remove_unused =
     [''// Managed by Tenodera '' @ em_dash @ '' do not edit by hand'',
      ''Unattended-Upgrade::Allowed-Origins { };'', ''Unattended-Upgrade::Origins-Pattern {'',
      origin ''origin=${distro_id},codename=${distro_codename}-security,label=*'',
      origin ''origin=${distro_id}ESMApps,codename=${distro_codename}-apps-security'',
      origin ''origin=${distro_id}ESM,codename=${distro_codename}-infra-security''] @
     (if scope = ''all''
      then [origin ''origin=${distro_id},codename=${distro_codename}-updates'',
            origin ''origin=${distro_id},codename=${distro_codename}''] else []) @
     [''};'', directive ''Unattended-Upgrade::Automatic-Reboot'' (truth reboot),
      directive ''Unattended-Upgrade::Automatic-Reboot-Time'' reboot_time,
      directive ''Unattended-Upgrade::Remove-Unused-Dependencies'' (truth remove_unused)]"

definition build_apt_tenodera :: "string \<Rightarrow> bool \<Rightarrow> string \<Rightarrow> bool \<Rightarrow> string" where
  "build_apt_tenodera scope reboot reboot_time remove_unused =
     with_breaks (tenodera_lines scope reboot reboot_time remove_unused)"

text \<open>The text after a directive's name in a line that is no comment.\<close>

definition after_name :: "string \<Rightarrow> string \<Rightarrow> string option" where
  "after_name needle raw =
     (let l = trim raw in if starts_with ''//'' l \<or> starts_with ''#'' l then None else strip_prefix needle l)"

definition digits_of :: "string \<Rightarrow> string option" where
  "digits_of rest = (case filter is_ascii_digit rest of [] \<Rightarrow> None | v \<Rightarrow> Some v)"

text \<open>The first such line with a digit in it.\<close>

definition apt_periodic_value :: "string \<Rightarrow> string \<Rightarrow> string option" where
  "apt_periodic_value conf key =
     (case List.map_filter (\<lambda>l. Option.bind (after_name (''APT::Periodic::'' @ key) l) digits_of) (lines conf) of
        [] \<Rightarrow> None | v # _ \<Rightarrow> Some v)"

definition quoted_value :: "string \<Rightarrow> string option" where
  "quoted_value rest =
     Option.bind (split_once DQ rest) (\<lambda>(_, r). map_option fst (split_once DQ r))"

text \<open>The first such line decides, whether it has a quoted value or not.\<close>

definition apt_uu_raw :: "string \<Rightarrow> string \<Rightarrow> string option" where
  "apt_uu_raw conf opt =
     (case List.map_filter (after_name (''Unattended-Upgrade::'' @ opt)) (lines conf) of
        [] \<Rightarrow> None | rest # _ \<Rightarrow> quoted_value rest)"

definition apt_uu_bool :: "string \<Rightarrow> string \<Rightarrow> bool option" where
  "apt_uu_bool conf opt = map_option (\<lambda>v. eq_ignore_ascii_case v ''true'' \<or> v = ''1'') (apt_uu_raw conf opt)"

section \<open>Timers\<close>

definition timer_show :: "string \<Rightarrow> string \<Rightarrow> string list" where
  "timer_show unit prop = [''systemctl'', ''show'', unit, ''-p'', prop, ''--value'']"

definition timer_state :: "'w agent_host \<Rightarrow> string \<Rightarrow> ('w, bool \<times> bool \<times> string option) act" where
  "timer_state h unit = do {
     a \<leftarrow> run h [''systemctl'', ''is-active'', unit];
     e \<leftarrow> run h [''systemctl'', ''is-enabled'', unit];
     s \<leftarrow> run h (timer_show unit ''NextElapseUSecRealtime'');
     ret (trim a = ''active'', trim e = ''enabled'',
          if trim s = [] \<or> trim s = ''0'' then None else Some (trim s)) }"

definition parse_oncalendar :: "string \<Rightarrow> string" where
  "parse_oncalendar s =
     (case split_once_str ''OnCalendar='' s of
        None \<Rightarrow> []
      | Some (_, rest) \<Rightarrow>
          (case split_once_str '' ; '' rest of
             Some (a, _) \<Rightarrow> trim a
           | None \<Rightarrow> (case split_once (CHR ''}'') rest of Some (a, _) \<Rightarrow> trim a | None \<Rightarrow> trim rest)))"

definition timer_oncalendar :: "'w agent_host \<Rightarrow> string \<Rightarrow> ('w, string) act" where
  "timer_oncalendar h unit = do {
     out \<leftarrow> run h (timer_show unit ''TimersCalendar'');
     ret (parse_oncalendar out) }"

definition is_valid_oncalendar :: "string \<Rightarrow> bool" where
  "is_valid_oncalendar s \<longleftrightarrow>
     s \<noteq> [] \<and> length s \<le> 100 \<and> list_all (\<lambda>c. is_ascii_alphanumeric c \<or> c \<in> set '' :,-*/.'') s"

definition schedule_content :: "string \<Rightarrow> string" where
  "schedule_content oncalendar =
     with_breaks [''[Timer]'', ''OnCalendar='', ''OnCalendar='' @ oncalendar, ''RandomizedDelaySec=30m'']"

definition timer_dir :: "string \<Rightarrow> string" where
  "timer_dir unit = ''/etc/systemd/system/'' @ unit @ ''.d''"

definition set_timer_schedule :: "'w agent_host \<Rightarrow> string \<Rightarrow> string \<Rightarrow> string \<Rightarrow> string \<Rightarrow> ('w, json) act" where
  "set_timer_schedule h unit oncalendar user password =
     ensure (is_valid_oncalendar oncalendar) ''invalid schedule''
       (do {
          mk \<leftarrow> sudo h user password [''mkdir'', ''-p'', timer_dir unit];
          if has_error mk then ret mk
          else do {
            w \<leftarrow> sudo_write h user password [''tee'', timer_dir unit @ ''/50-tenodera.conf''] (schedule_content oncalendar);
            if has_error w then ret w
            else do {
              _ \<leftarrow> sudo h user password [''systemctl'', ''daemon-reload''];
              _ \<leftarrow> sudo h user password [''systemctl'', ''restart'', unit];
              ret ok_json } } })"

text \<open>The slices of the code stand at character bounds, since the third byte is a colon.\<close>

definition is_valid_hhmm :: "string \<Rightarrow> bool" where
  "is_valid_hhmm s \<longleftrightarrow>
     length s = 5 \<and> s ! 2 = CHR '':'' \<and> list_all is_ascii_digit (take 2 s) \<and> list_all is_ascii_digit (drop 3 s)"

section \<open>Settings\<close>

text \<open>What the request says, what holds now, or the default.\<close>

definition setting_str :: "json \<Rightarrow> json \<Rightarrow> string \<Rightarrow> string \<Rightarrow> string" where
  "setting_str data cs k d = (case jget_str data k of Some v \<Rightarrow> v | None \<Rightarrow> unwrap_or d (jget_str cs k))"

definition setting_bool :: "json \<Rightarrow> json \<Rightarrow> string \<Rightarrow> bool \<Rightarrow> bool" where
  "setting_bool data cs k d = (case jget_bool data k of Some v \<Rightarrow> v | None \<Rightarrow> unwrap_or d (jget_bool cs k))"

definition caps_json :: "bool \<Rightarrow> json" where
  "caps_json apt =
     JObj [(''mode'', JBool True), (''scope'', JBool True), (''schedule'', JBool True), (''reboot'', JBool True),
       (''reboot_time'', JBool apt), (''remove_unused'', JBool apt)]"

definition status_of ::
  "bool \<Rightarrow> string \<Rightarrow> string \<Rightarrow> bool \<Rightarrow> bool \<Rightarrow> bool \<times> bool \<times> string option \<Rightarrow> (string \<times> json) list \<Rightarrow> json" where
  "status_of apt tool timer inst enabled ts settings =
     (case ts of (ta, te, nxt) \<Rightarrow>
        JObj [(''backend'', JStr (backend_name (if apt then Apt else Dnf))), (''supported'', JBool True), (''tool'', JStr tool),
          (''installed'', JBool inst), (''enabled'', JBool enabled), (''timer'', JStr timer), (''timer_active'', JBool ta),
          (''timer_enabled'', JBool te), (''next_run'', jopt_str nxt), (''caps'', caps_json apt),
          (''settings'', JObj settings)])"

text \<open>What the two files say.\<close>

definition apt_settings :: "string \<Rightarrow> string \<Rightarrow> string \<Rightarrow> (string \<times> json) list" where
  "apt_settings periodic managed schedule =
     [(''mode'', JStr (if apt_periodic_value periodic ''Unattended-Upgrade'' = Some ''1'' then ''install'' else ''download'')),
      (''scope'', JStr (if contains_str ''-updates'' managed then ''all'' else ''security'')), (''schedule'', JStr schedule),
      (''reboot'', JBool (unwrap_or False (apt_uu_bool managed ''Automatic-Reboot''))),
      (''reboot_time'', JStr (unwrap_or ''02:00'' (apt_uu_raw managed ''Automatic-Reboot-Time''))),
      (''remove_unused'', JBool (unwrap_or False (apt_uu_bool managed ''Remove-Unused-Dependencies'')))]"

definition apt_on :: "string \<Rightarrow> bool" where
  "apt_on periodic \<longleftrightarrow>
     apt_periodic_value periodic ''Unattended-Upgrade'' = Some ''1'' \<or>
     apt_periodic_value periodic ''Download-Upgradeable-Packages'' = Some ''1''"

definition apt_status :: "'w agent_host \<Rightarrow> ('w, json) act" where
  "apt_status h = do {
     inst \<leftarrow> installed h ''unattended-upgrade'';
     p \<leftarrow> read_file h APT_AUTO_CONF;
     m \<leftarrow> read_file h APT_TENODERA_CONF;
     ts \<leftarrow> timer_state h APT_TIMER;
     schedule \<leftarrow> timer_oncalendar h APT_TIMER;
     ret (status_of True ''unattended-upgrades'' APT_TIMER inst (inst \<and> apt_on (unwrap_or [] p)) ts
       (apt_settings (unwrap_or [] p) (unwrap_or [] m) schedule)) }"

text \<open>A step whose error ends the request.\<close>

definition or_stop :: "('w, json) act \<Rightarrow> ('w, json) act \<Rightarrow> ('w, json) act" where
  "or_stop m k = do { r \<leftarrow> m; if has_error r then ret r else k }"

definition optional :: "bool \<Rightarrow> ('w, json) act \<Rightarrow> ('w, json) act" where
  "optional b m = (if b then m else ret ok_json)"

definition apt_set :: "'w agent_host \<Rightarrow> json \<Rightarrow> string \<Rightarrow> string \<Rightarrow> ('w, json) act" where
  "apt_set h data user password = do {
     cur \<leftarrow> apt_status h;
     (let cs = unwrap_or JNull (jget cur ''settings'');
          enabled = setting_bool data cur ''enabled'' False;
          mode = setting_str data cs ''mode'' ''install''; scope = setting_str data cs ''scope'' ''security'';
          schedule = setting_str data cs ''schedule'' []; reboot = setting_bool data cs ''reboot'' False;
          reboot_time = setting_str data cs ''reboot_time'' ''02:00'';
          remove_unused = setting_bool data cs ''remove_unused'' False
      in ensure (mode \<in> {''install'', ''download''}) ''invalid mode''
         (ensure (scope \<in> {''all'', ''security''}) ''invalid scope''
         (ensure (is_valid_hhmm reboot_time) ''invalid reboot time (expected HH:MM)''
         (do {
            inst \<leftarrow> (if enabled then installed h ''unattended-upgrade'' else ret True);
            or_stop (optional (\<not> inst) (install_packages h user password [''unattended-upgrades'']))
            (or_stop (sudo_write h user password [''tee'', APT_AUTO_CONF] (build_apt_periodic enabled mode))
            (or_stop (sudo_write h user password [''tee'', APT_TENODERA_CONF]
                        (build_apt_tenodera scope reboot reboot_time remove_unused))
            (or_stop (optional (trim schedule \<noteq> []) (set_timer_schedule h APT_TIMER schedule user password))
            (do {
               _ \<leftarrow> optional enabled
                 (sudo h user password [''systemctl'', ''enable'', ''--now'', ''apt-daily.timer'', APT_TIMER]);
               ret ok_json })))) })))) }"

section \<open>The file of dnf-automatic\<close>

definition section_name :: "string \<Rightarrow> string" where
  "section_name l = butlast (tl l)"

fun ini_lookup :: "string \<Rightarrow> string \<Rightarrow> bool \<Rightarrow> string list \<Rightarrow> string option" where
  "ini_lookup section key inside [] = None"
| "ini_lookup section key inside (raw # ls) =
     (let l = trim raw
      in if in_brackets l then ini_lookup section key (section_name l = section) ls
         else (case split_once (CHR ''='') l of
                 Some (k, v) \<Rightarrow> if inside \<and> trim k = key then Some (trim v) else ini_lookup section key inside ls
               | None \<Rightarrow> ini_lookup section key inside ls))"

definition ini_get :: "string \<Rightarrow> string \<Rightarrow> string \<Rightarrow> string option" where
  "ini_get content section key = ini_lookup section key False (lines content)"

type_synonym ini_values = "(string \<times> string) list"

definition ini_row :: "string \<times> string \<Rightarrow> string" where
  "ini_row kv = fst kv @ '' = '' @ snd kv"

definition ini_append_missing :: "ini_values \<Rightarrow> string list \<Rightarrow> string list" where
  "ini_append_missing kv done = map ini_row (filter (\<lambda>(k, _). k \<notin> set done) kv)"

text \<open>The loop: whether it is in the section, and the keys set so far.\<close>

fun ini_rewrite :: "string \<Rightarrow> ini_values \<Rightarrow> bool \<Rightarrow> string list \<Rightarrow> string list \<Rightarrow> string list" where
  "ini_rewrite section kv inside done [] = (if inside then ini_append_missing kv done else [])"
| "ini_rewrite section kv inside done (raw # ls) =
     (let l = trim raw
      in if in_brackets l then
           (if inside then ini_append_missing kv done else []) @ raw # ini_rewrite section kv (section_name l = section) done ls
         else (case (if inside then split_once (CHR ''='') l else None) of
                 None \<Rightarrow> raw # ini_rewrite section kv inside done ls
               | Some (k, _) \<Rightarrow>
                   (case map_of kv (trim k) of
                      None \<Rightarrow> raw # ini_rewrite section kv inside done ls
                    | Some v \<Rightarrow> ini_row (trim k, v) # ini_rewrite section kv inside (trim k # done) ls)))"

definition has_section :: "string \<Rightarrow> string list \<Rightarrow> bool" where
  "has_section section ls \<longleftrightarrow> list_ex (\<lambda>l. in_brackets (trim l) \<and> section_name (trim l) = section) ls"

definition ini_lines :: "string \<Rightarrow> string \<Rightarrow> ini_values \<Rightarrow> string list" where
  "ini_lines content section kv =
     ini_rewrite section kv False [] (lines content) @
     (if has_section section (lines content) then [] else (''['' @ section @ '']'') # map ini_row kv)"

definition ini_set :: "string \<Rightarrow> string \<Rightarrow> ini_values \<Rightarrow> string" where
  "ini_set content section kv = join [NL] (ini_lines content section kv) @ [NL]"

section \<open>dnf\<close>

definition dnf_settings :: "string \<Rightarrow> string \<Rightarrow> (string \<times> json) list" where
  "dnf_settings conf schedule =
     (let val = (\<lambda>k d. unwrap_or d (ini_get conf ''commands'' k))
      in [(''mode'', JStr (if eq_ignore_ascii_case (val ''apply_updates'' []) ''yes'' then ''install'' else ''download'')),
          (''scope'', JStr (if eq_ignore_ascii_case (val ''upgrade_type'' ''default'') ''security'' then ''security'' else ''all'')),
          (''schedule'', JStr schedule),
          (''reboot'', JBool (\<not> eq_ignore_ascii_case (val ''reboot'' ''never'') ''never'')),
          (''reboot_time'', JStr []), (''remove_unused'', JBool False)])"

definition dnf_automatic_there :: "'w agent_host \<Rightarrow> ('w, bool) act" where
  "dnf_automatic_there h = do {
     t \<leftarrow> installed h ''dnf-automatic'';
     if t then ret True else path_exists h DNF_AUTO_CONF }"

definition dnf_status :: "'w agent_host \<Rightarrow> ('w, json) act" where
  "dnf_status h = do {
     inst \<leftarrow> dnf_automatic_there h;
     c \<leftarrow> read_file h DNF_AUTO_CONF;
     ts \<leftarrow> timer_state h DNF_TIMER;
     schedule \<leftarrow> timer_oncalendar h DNF_TIMER;
     ret (status_of False ''dnf-automatic'' DNF_TIMER inst (fst (snd ts) \<or> fst ts) ts
       (dnf_settings (unwrap_or [] c) schedule)) }"

definition dnf_values :: "string \<Rightarrow> string \<Rightarrow> bool \<Rightarrow> ini_values" where
  "dnf_values mode scope reboot =
     [(''download_updates'', ''yes''), (''apply_updates'', if mode = ''install'' then ''yes'' else ''no''),
      (''upgrade_type'', if scope = ''security'' then ''security'' else ''default''),
      (''reboot'', if reboot then ''when-needed'' else ''never'')]"

definition ok_or_error :: "json \<Rightarrow> json" where
  "ok_or_error r = (if has_error r then r else ok_json)"

definition dnf_set :: "'w agent_host \<Rightarrow> json \<Rightarrow> string \<Rightarrow> string \<Rightarrow> ('w, json) act" where
  "dnf_set h data user password = do {
     cur \<leftarrow> dnf_status h;
     (let cs = unwrap_or JNull (jget cur ''settings'');
          enabled = setting_bool data cur ''enabled'' False;
          mode = setting_str data cs ''mode'' ''install''; scope = setting_str data cs ''scope'' ''security'';
          schedule = setting_str data cs ''schedule'' []; reboot = setting_bool data cs ''reboot'' False
      in ensure (mode \<in> {''install'', ''download''}) ''invalid mode''
         (ensure (scope \<in> {''all'', ''security''}) ''invalid scope''
         (if \<not> enabled then do {
            r \<leftarrow> sudo h user password [''systemctl'', ''disable'', ''--now'', DNF_TIMER];
            ret (ok_or_error r) }
          else do {
            inst \<leftarrow> dnf_automatic_there h;
            or_stop (optional (\<not> inst) (install_packages h user password [''dnf-automatic'']))
            (do {
               c \<leftarrow> read_file h DNF_AUTO_CONF;
               or_stop (sudo_write h user password [''tee'', DNF_AUTO_CONF]
                          (ini_set (unwrap_or [] c) ''commands'' (dnf_values mode scope reboot)))
               (or_stop (optional (trim schedule \<noteq> []) (set_timer_schedule h DNF_TIMER schedule user password))
               (do {
                  r \<leftarrow> sudo h user password [''systemctl'', ''enable'', ''--now'', DNF_TIMER];
                  ret (ok_or_error r) })) }) }))) }"

definition autoupdate_status :: "'w agent_host \<Rightarrow> ('w, json) act" where
  "autoupdate_status h = do {
     b \<leftarrow> detect_backend h;
     (if b = Apt then apt_status h else if b = Dnf then dnf_status h
      else ret (JObj [(''backend'', JStr (backend_name b)), (''supported'', JBool False)])) }"

definition autoupdate_set :: "'w agent_host \<Rightarrow> json \<Rightarrow> string \<Rightarrow> string \<Rightarrow> ('w, json) act" where
  "autoupdate_set h data user password = do {
     b \<leftarrow> detect_backend h;
     (if b = Apt then apt_set h data user password else if b = Dnf then dnf_set h data user password
      else ret (jerror ''automatic updates are not supported for this package manager'')) }"

section \<open>The handler\<close>

definition pkg_reads :: "string list" where
  "pkg_reads = [''detect'', ''list_installed'', ''search'', ''package_info'', ''list_updates'', ''autoupdate_status'']"

text \<open>An action followed by its audit record.\<close>

definition pkg_audited :: "string \<Rightarrow> string \<Rightarrow> string \<Rightarrow> ('w, json) act \<Rightarrow> ('w, json) act" where
  "pkg_audited user action target m = do {
     r \<leftarrow> m;
     record_audit user action target (\<not> has_error r) [];
     ret r }"

definition pkg_action :: "'w agent_host \<Rightarrow> string \<Rightarrow> json \<Rightarrow> string \<Rightarrow> string \<Rightarrow> ('w, json) act option" where
  "pkg_action h action data user password =
     (let names = extract_string_array data ''names''; kind = str_field data ''kind'';
          repo = str_field data ''repo''; name = str_field data ''name''
      in map_of
        [(''detect'', detect_info h), (''list_installed'', list_installed h),
         (''search'', search_packages h (str_field data ''query'')), (''package_info'', package_info h name),
         (''install'', pkg_audited user ''pkg.install'' (join '','' names) (install_packages h user password names)),
         (''remove'', pkg_audited user ''pkg.remove'' (join '','' names) (remove_packages h user password names)),
         (''check_updates'', check_updates h),
         (''update_system'', pkg_audited user ''pkg.update_system'' [] (update_system h user password)),
         (''cleanup'', pkg_audited user ''pkg.cleanup'' kind (cleanup_packages h user password kind)),
         (''list_repos'', list_repos h),
         (''add_repo'', add_repo h user password repo name), (''remove_repo'', remove_repo h user password repo),
         (''refresh_repos'', refresh_repos h user password),
         (''autoupdate_status'', autoupdate_status h),
         (''autoupdate_set'', pkg_audited user ''pkg.autoupdate_set''
            (if bool_field False data ''enabled'' then ''enable'' else ''disable'') (autoupdate_set h data user password))] action)"

definition pkg_result :: "'w agent_host \<Rightarrow> json \<Rightarrow> ('w, json) act" where
  "pkg_result h data =
     (let action = str_field data ''action''
      in do {
        r \<leftarrow> (case pkg_action h action data (str_field data ''_user'') (str_field data ''password'') of
                Some m \<Rightarrow> m
              | None \<Rightarrow> ret (jerror (''unknown action: '' @ action)));
        ret (echo_action action r) })"

definition pkg_answer :: "'w agent_host \<Rightarrow> json \<Rightarrow> ('w, json) act" where
  "pkg_answer h data =
     (if str_field data ''action'' \<in> set pkg_reads then pkg_result h data else admin_only data (pkg_result h data))"

definition packages_manage :: "'w agent_host \<Rightarrow> 'w agent_state handler" where
  "packages_manage h = conversing ''packages.manage'' (pkg_answer h)"

section \<open>What it may run\<close>

definition repo_dirs :: "string set" where
  "repo_dirs = {''/etc/apt/sources.list.d'', ''/etc/yum.repos.d''}"

text \<open>Packages whose names are checked, and the repositories and files of the package manager.\<close>

inductive pkg_change :: "'w agent_host \<Rightarrow> string list \<Rightarrow> bool" for h where
  install: "list_all (is_valid_package_name h) names \<Longrightarrow> install_args b names = Some args \<Longrightarrow> pkg_change h args"
| remove: "list_all (is_valid_package_name h) names \<Longrightarrow> remove_args b names = Some args \<Longrightarrow> pkg_change h args"
| update: "args \<in> {[''pacman'', ''-Syu'', ''--noconfirm''], apt_refresh, [''apt-get'', ''dist-upgrade'', ''-y''],
    [''dnf'', ''upgrade'', ''--refresh'', ''-y''], [''pacman'', ''-Sy'', ''--noconfirm''], [''dnf'', ''makecache'', ''--quiet'']} \<Longrightarrow>
    pkg_change h args"
| cleanup: "cleanup_args b kind = Some args \<Longrightarrow> pkg_change h args"
| ppa: "starts_with ''ppa:'' repo \<Longrightarrow>
    args \<in> {[''add-apt-repository'', ''-y'', repo], [''add-apt-repository'', ''--remove'', ''-y'', repo]} \<Longrightarrow> pkg_change h args"
| dnf_repo: "pkg_change h [''dnf'', ''config-manager'', ''--add-repo'', repo]"
| rm_in: "dir \<in> repo_dirs \<Longrightarrow> fst (run_state (canonical h dir) w) = Inr base \<Longrightarrow> path_starts_with base p \<Longrightarrow>
    pkg_change h (rm_file p)"
| rm_apt: "chars_within h ''-_.'' repo \<Longrightarrow> ext \<in> {''.list'', ''.sources''} \<Longrightarrow> pkg_change h (rm_file (apt_dir @ repo @ ext))"
| rm_dnf: "chars_within h ''-_.'' repo \<Longrightarrow> pkg_change h (rm_file (''/etc/yum.repos.d/'' @ repo @ ''.repo''))"
| mkdir: "unit \<in> {APT_TIMER, DNF_TIMER} \<Longrightarrow> pkg_change h [''mkdir'', ''-p'', timer_dir unit]"
| reload: "pkg_change h [''systemctl'', ''daemon-reload'']"
| restart: "unit \<in> {APT_TIMER, DNF_TIMER} \<Longrightarrow> pkg_change h [''systemctl'', ''restart'', unit]"
| enable_apt: "pkg_change h [''systemctl'', ''enable'', ''--now'', ''apt-daily.timer'', APT_TIMER]"
| switch_dnf: "op \<in> {''enable'', ''disable''} \<Longrightarrow> pkg_change h [''systemctl'', op, ''--now'', DNF_TIMER]"

text \<open>The files written with \<open>tee\<close>.\<close>

inductive pkg_file :: "'w agent_host \<Rightarrow> string list \<Rightarrow> bool" for h where
  pacman_add: "pkg_file h [''tee'', ''-a'', pacman_conf]"
| pacman: "pkg_file h [''tee'', pacman_conf]"
| apt: "chars_within h ''-_'' name \<Longrightarrow> pkg_file h [''tee'', apt_dir @ name @ ''.list'']"
| conf: "p \<in> {APT_AUTO_CONF, APT_TENODERA_CONF, DNF_AUTO_CONF} \<Longrightarrow> pkg_file h [''tee'', p]"
| schedule: "unit \<in> {APT_TIMER, DNF_TIMER} \<Longrightarrow> pkg_file h [''tee'', timer_dir unit @ ''/50-tenodera.conf'']"

inductive pkg_sudo_args :: "'w agent_host \<Rightarrow> string list \<Rightarrow> bool" for h where
  change: "pkg_change h args \<Longrightarrow> pkg_sudo_args h args"
| written: "pkg_file h args \<Longrightarrow> pkg_sudo_args h [''sh'', ''-c'', write_script (ah_b64 h) args content]"

text \<open>The questions, the agent's own.\<close>

definition pkg_listings :: "string list list" where
  "pkg_listings =
     [[''pacman'', ''-Q''], [''pacman'', ''-Qu''], [''checkupdates''], [''apt'', ''list'', ''--upgradable''],
      [''dnf'', ''check-update'', ''--quiet''], [''dnf'', ''repolist'', ''--all'', ''--quiet''],
      [''dpkg-query'', ''-W'', ''-f'', ''${Package}'' @ [TAB] @ ''${Version}'' @ [TAB] @ ''${Status}'' @ [NL]],
      [''rpm'', ''-qa'', ''--queryformat'', ''%{NAME}'' @ [TAB] @ ''%{VERSION}-%{RELEASE}'' @ [NL]]]"

definition pkg_lookups :: "string \<Rightarrow> string list list" where
  "pkg_lookups q =
     [[''pacman'', ''-Ss'', ''--'', q], [''pacman'', ''-Qi'', ''--'', q], [''pacman'', ''-Si'', ''--'', q],
      [''apt-cache'', ''search'', ''--'', q], [''apt-cache'', ''show'', ''--'', q], [''dnf'', ''search'', ''--quiet'', q],
      [''dnf'', ''info'', ''--quiet'', q], [''dpkg-query'', ''-W'', ''-f'', ''${Status}'', ''--'', q]]"

inductive pkg_query :: "'w agent_host \<Rightarrow> string list \<Rightarrow> bool" for h where
  which: "tool \<in> {''pacman'', ''apt'', ''dnf'', ''dnf-3'', ''checkupdates'', ''unattended-upgrade'', ''dnf-automatic''} \<Longrightarrow>
    pkg_query h [''which'', tool]"
| listing: "args \<in> set pkg_listings \<Longrightarrow> pkg_query h args"
| asked: "is_valid_package_name h q \<Longrightarrow> args \<in> set (pkg_lookups q) \<Longrightarrow> pkg_query h args"
| found_apt: "pkg_query h (dpkg_args names)"
| found_dnf: "pkg_query h (''rpm'' # rpm_args names)"
| timer: "unit \<in> {APT_TIMER, DNF_TIMER} \<Longrightarrow> op \<in> {''is-active'', ''is-enabled''} \<Longrightarrow> pkg_query h [''systemctl'', op, unit]"
| shown: "unit \<in> {APT_TIMER, DNF_TIMER} \<Longrightarrow> pkg_query h (timer_show unit prop)"

abbreviation pkg_confined :: "'w agent_host \<Rightarrow> string \<Rightarrow> string \<Rightarrow> effect \<Rightarrow> bool" where
  "pkg_confined h \<equiv> confined (pkg_sudo_args h) (\<lambda>_. False) (pkg_query h)"

lemma pkg_emits_run: "pkg_query h (prog # args) \<Longrightarrow> emits (queries (pkg_query h)) (run h (prog # args))"
  and pkg_emits_quiet: "pkg_query h (prog # args) \<Longrightarrow> emits (queries (pkg_query h)) (quiet_output h prog args)"
  unfolding quiet_output_def by (auto intro!: emits_run emits_spawned queries_plain)

lemma pkg_emits_installed:
  "tool \<in> {''pacman'', ''apt'', ''dnf'', ''dnf-3'', ''checkupdates'', ''unattended-upgrade'', ''dnf-automatic''} \<Longrightarrow>
   emits (queries (pkg_query h)) (installed h tool)"
  by (rule emits_installed) (rule queries_plain, rule pkg_query.which)

lemma emits_by_backend:
  "emits P p \<Longrightarrow> emits P a \<Longrightarrow> emits P d \<Longrightarrow> emits P n \<Longrightarrow>
   emits P (case b of Pacman \<Rightarrow> p | Apt \<Rightarrow> a | Dnf \<Rightarrow> d | NoBackend \<Rightarrow> n)"
  by (cases b) simp_all

lemma pkg_emits_detect: "emits (queries (pkg_query h)) (detect_backend h)"
  unfolding detect_backend_def by (intro emits_bind emits_if emits_ret pkg_emits_installed; simp)

lemma pkg_emits_detect_info: "emits (queries (pkg_query h)) (detect_info h)"
  unfolding detect_info_def read_os_field_def by (intro emits_bind emits_ret emits_reads pkg_emits_detect)

lemma pkg_listing: "args \<in> set pkg_listings \<Longrightarrow> emits (queries (pkg_query h)) (run h args)"
  by (cases args) (auto simp: pkg_listings_def intro!: pkg_emits_run pkg_query.listing)

lemma pkg_lookup: "is_valid_package_name h q \<Longrightarrow> args \<in> set (pkg_lookups q) \<Longrightarrow> emits (queries (pkg_query h)) (run h args)"
  by (cases args) (auto simp: pkg_lookups_def intro!: pkg_emits_run pkg_query.asked)

lemma pkg_emits_lists:
  "emits (queries (pkg_query h)) (list_installed h)"
  "emits (queries (pkg_query h)) (check_updates h)"
  "emits (queries (pkg_query h)) (list_repos h)"
  unfolding list_installed_def list_installed_pacman_def list_installed_apt_def list_installed_dnf_def check_updates_def
    list_repos_def list_repos_pacman_def list_repos_apt_def list_repos_dnf_def apt_file_repos_def Let_def
  by (intro emits_bind emits_by_backend emits_ret emits_reads emits_act_map emits_if pkg_emits_detect pkg_emits_installed
      pkg_listing; simp add: pkg_listings_def)+

lemma pkg_emits_dpkg: "emits (queries (pkg_query h)) (run h (dpkg_args names))"
  unfolding dpkg_args_def append.simps by (rule pkg_emits_run) (rule pkg_query.found_apt [unfolded dpkg_args_def append.simps])

lemma pkg_emits_lookups:
  "emits (queries (pkg_query h)) (search_packages h q)"
  "emits (queries (pkg_query h)) (package_info h q)"
  unfolding search_packages_def search_pacman_def search_apt_def search_dnf_def package_info_def is_apt_installed_def Let_def
  by (intro emits_ensure emits_bind emits_by_backend emits_if emits_ret pkg_emits_detect pkg_emits_dpkg pkg_lookup pkg_emits_quiet
      pkg_query.found_dnf pkg_query.asked; simp add: pkg_lookups_def)+

lemma pkg_emits_timers:
  assumes "unit \<in> {APT_TIMER, DNF_TIMER}"
  shows "emits (queries (pkg_query h)) (timer_state h unit)" "emits (queries (pkg_query h)) (timer_oncalendar h unit)"
  unfolding timer_state_def timer_oncalendar_def timer_show_def
  using assms
  by (intro emits_bind emits_ret pkg_emits_run pkg_query.timer pkg_query.shown [unfolded timer_show_def]; simp)+

lemma pkg_emits_status:
  "emits (queries (pkg_query h)) (apt_status h)" "emits (queries (pkg_query h)) (dnf_status h)"
  "emits (queries (pkg_query h)) (dnf_automatic_there h)" "emits (queries (pkg_query h)) (autoupdate_status h)"
  unfolding apt_status_def dnf_status_def dnf_automatic_there_def autoupdate_status_def
  by (intro emits_bind emits_if emits_ret emits_reads pkg_emits_detect pkg_emits_timers pkg_emits_installed; simp)+


text \<open>The changes.\<close>

lemma pkg_emits_q: "emits (queries (pkg_query h)) m \<Longrightarrow> emits (pkg_confined h user password) m"
  by (rule emits_queries)

lemmas pkg_asked = pkg_emits_detect [THEN pkg_emits_q] pkg_emits_installed [THEN pkg_emits_q]
  pkg_emits_status [THEN pkg_emits_q] pkg_emits_detect_info [THEN pkg_emits_q] pkg_emits_lists [THEN pkg_emits_q]
  pkg_emits_lookups [THEN pkg_emits_q]

lemma pkg_emits_sudo: "pkg_change h args \<Longrightarrow> emits (pkg_confined h user password) (sudo h user password args)"
  by (rule emits_sudo) (simp add: confined_sudo pkg_sudo_args.change)

lemma pkg_emits_write: "pkg_file h args \<Longrightarrow> emits (pkg_confined h user password) (sudo_write h user password args content)"
  by (rule emits_sudo_write) (simp add: confined_sudo pkg_sudo_args.written)

lemma find_bad_name: "List.find (\<lambda>n. \<not> p n) names = None \<Longrightarrow> list_all p names"
  by (simp add: find_None_iff list_all_iff)

lemma pkg_emits_install: "emits (pkg_confined h user password) (install_packages h user password names)"
  and pkg_emits_remove: "emits (pkg_confined h user password) (remove_packages h user password names)"
  unfolding install_packages_def remove_packages_def change_packages_def sudo_some_def
  by (intro emits_ensure emits_option emits_bind emits_ret pkg_asked pkg_emits_sudo
      pkg_change.install pkg_change.remove find_bad_name; assumption)+

lemma pkg_emits_cleanup: "emits (pkg_confined h user password) (cleanup_packages h user password kind)"
  unfolding cleanup_packages_def
  by (intro emits_bind emits_option emits_ret pkg_asked pkg_emits_sudo) (rule pkg_change.cleanup, assumption)

lemma pkg_emits_system:
  "emits (pkg_confined h user password) (update_system h user password)"
  "emits (pkg_confined h user password) (refresh_repos h user password)"
  unfolding update_system_def refresh_repos_def
  by (intro emits_bind emits_by_backend emits_if emits_ret pkg_asked pkg_emits_sudo pkg_change.update; simp add: apt_refresh_def)+

lemma pkg_emits_add_repo: "emits (pkg_confined h user password) (add_repo h user password repo name)"
  unfolding add_repo_def add_repo_pacman_def add_repo_apt_def add_repo_dnf_def Let_def
  by (intro emits_ensure emits_bind emits_by_backend emits_if emits_ret pkg_asked
      pkg_emits_write pkg_file.pacman_add pkg_file.apt pkg_emits_sudo pkg_change.ppa pkg_change.dnf_repo; simp)

lemma pkg_emits_resolved:
  assumes "dir \<in> repo_dirs"
  shows "emits (pkg_confined h user password)
    (resolved_in h dir repo \<bind> (\<lambda>p. case p of Some path \<Rightarrow> sudo h user password (rm_file path) | None \<Rightarrow> ret (jerror e)))"
proof (rule emits_bind_result [where R = "\<lambda>p. case p of Some path \<Rightarrow> pkg_change h (rm_file path) | None \<Rightarrow> True"])
  show "emits (pkg_confined h user password) (resolved_in h dir repo)"
    unfolding resolved_in_def by (intro emits_bind emits_sum emits_ret emits_reads)
  show "case fst (run_state (resolved_in h dir repo) w) of None \<Rightarrow> True | Some path \<Rightarrow> pkg_change h (rm_file path)" for w
    unfolding resolved_in_def
    by (auto simp: run_simps split: sum.split option.split intro: pkg_change.rm_in [OF assms, of _ w])
  show "emits (pkg_confined h user password) (case x of Some path \<Rightarrow> sudo h user password (rm_file path) | None \<Rightarrow> ret (jerror e))"
    if "case x of Some path \<Rightarrow> pkg_change h (rm_file path) | None \<Rightarrow> True" for x
    using that by (auto split: option.split intro: emits_ret pkg_emits_sudo)
qed

lemma pkg_emits_remove_repo: "emits (pkg_confined h user password) (remove_repo h user password repo)"
proof -
  have "emits (pkg_confined h user password) (remove_repo_pacman h user password repo)"
    unfolding remove_repo_pacman_def
    by (intro emits_ensure emits_bind emits_option emits_ret emits_reads pkg_emits_write pkg_file.pacman)
  moreover have "emits (pkg_confined h user password) (remove_repo_apt h user password repo)"
  proof -
    have rm: "pkg_change h (rm_file (if b then apt_dir @ repo @ ''.sources'' else apt_dir @ repo @ ''.list''))"
      if "chars_within h ''-_.'' repo" for b
      using that by (auto intro: pkg_change.rm_apt)
    show ?thesis unfolding remove_repo_apt_def Let_def
      by (intro emits_if pkg_emits_resolved emits_ensure emits_bind emits_ret emits_reads pkg_emits_sudo rm
          pkg_change.ppa; simp add: repo_dirs_def)
  qed
  moreover have "emits (pkg_confined h user password) (remove_repo_dnf h user password repo)"
    unfolding remove_repo_dnf_def
    by (intro emits_if pkg_emits_resolved emits_ensure pkg_emits_sudo pkg_change.rm_dnf; simp add: repo_dirs_def)
  ultimately show ?thesis unfolding remove_repo_def
    by (intro emits_ensure emits_bind emits_by_backend emits_ret pkg_asked)
qed

lemma pkg_emits_schedule:
  "unit \<in> {APT_TIMER, DNF_TIMER} \<Longrightarrow> emits (pkg_confined h user password) (set_timer_schedule h unit oncalendar user password)"
  unfolding set_timer_schedule_def
  by (intro emits_ensure emits_bind emits_if emits_ret pkg_emits_sudo pkg_emits_write pkg_file.schedule
      pkg_change.mkdir pkg_change.reload pkg_change.restart)

lemma emits_or_stop: "emits P m \<Longrightarrow> emits P k \<Longrightarrow> emits P (or_stop m k)"
  and emits_optional: "emits P m \<Longrightarrow> emits P (optional b m)"
  unfolding or_stop_def optional_def by (simp_all add: emits_bind emits_ret)

lemma pkg_emits_autoupdate: "emits (pkg_confined h user password) (autoupdate_set h data user password)"
proof -
  have "emits (pkg_confined h user password) (apt_set h data user password)"
    unfolding apt_set_def Let_def
    by (intro emits_bind emits_ensure emits_or_stop emits_optional emits_if emits_ret pkg_asked
        pkg_emits_install pkg_emits_write pkg_file.conf pkg_emits_schedule pkg_emits_sudo
        pkg_change.enable_apt; simp)
  moreover have "emits (pkg_confined h user password) (dnf_set h data user password)"
    unfolding dnf_set_def Let_def
    by (intro emits_bind emits_ensure emits_or_stop emits_optional emits_if emits_ret emits_reads pkg_asked
        pkg_emits_install pkg_emits_write pkg_file.conf pkg_emits_schedule pkg_emits_sudo
        pkg_change.switch_dnf; simp)
  ultimately show ?thesis unfolding autoupdate_set_def
    by (intro emits_bind emits_if emits_ret pkg_asked)
qed

lemma pkg_emits_action:
  "pkg_action h action data user password = Some m \<Longrightarrow> emits (pkg_confined h user password) m"
  unfolding pkg_action_def pkg_audited_def Let_def
  by (erule map_of_all, simp only: list.pred_inject prod.case)
    (intro conjI TrueI emits_bind emits_ret emits_record_audit confined_audit pkg_emits_install pkg_emits_remove
      pkg_emits_system pkg_emits_cleanup pkg_emits_add_repo pkg_emits_remove_repo pkg_emits_autoupdate
      pkg_asked)

interpretation packages_manage: bounded_handler "packages_manage h" "pkg_confined h"
  unfolding packages_manage_def pkg_answer_def pkg_result_def Let_def
  by (intro bounded_conversing emits_if emits_admin_only emits_option emits_bind emits_ret pkg_emits_action)

text \<open>A session without the admin role only asks.\<close>

lemma pkg_reading:
  assumes "action \<in> set pkg_reads" and "pkg_action h action data user password = Some m"
  shows "emits (queries (pkg_query h)) m"
proof -
  have "action = ''detect'' \<or> action = ''list_installed'' \<or> action = ''search'' \<or> action = ''package_info'' \<or>
      action = ''list_updates'' \<or> action = ''autoupdate_status''"
    using assms(1) by (simp add: pkg_reads_def)
  then show ?thesis using assms(2)
    by (elim disjE) (auto simp: pkg_action_def Let_def pkg_emits_detect_info pkg_emits_lists pkg_emits_lookups pkg_emits_status)
qed

interpretation packages_manage: reading_handler "packages_manage h" "queries (pkg_query h)"
  unfolding packages_manage_def
proof (rule reading_conversing)
  show "emits (queries (pkg_query h)) (pkg_answer h d)" if "jget_str d ''_role'' \<noteq> Some ''admin''" for d
    unfolding pkg_answer_def pkg_result_def Let_def
    using that by (auto intro!: emits_if emits_refused emits_bind emits_option emits_ret intro: pkg_reading)
qed

section \<open>Reading back what was written\<close>

lemma trimmed_append:
  "\<forall>x \<in> set ys. p x \<Longrightarrow> rev (dropWhile p (rev (dropWhile p (xs @ ys)))) = rev (dropWhile p (rev (dropWhile p xs)))"
proof (induction ys rule: rev_induct)
  case (snoc y ys)
  then show ?case using trimmed_snoc [of p y "xs @ ys"] by simp
qed simp

lemma trim_trim_end: "trim (trim_end s) = trim s"
proof -
  let ?ws = "rev (takeWhile is_ws_char (rev (chars_of s)))"
  have "chars_of s = chars_of (trim_end s) @ ?ws"
    unfolding chars_of_trim_end by (metis rev_append rev_rev_ident takeWhile_dropWhile_id)
  moreover have "\<forall>ch \<in> set ?ws. is_ws_char ch" by (auto dest: set_takeWhileD)
  moreover have "trim t = concat (rev (dropWhile is_ws_char (rev (dropWhile is_ws_char (chars_of t)))))" for t
    by (simp add: trim_def trim_end_def chars_of_trim_start)
  ultimately show ?thesis by (metis trimmed_append)
qed

lemma trim_blank: "trim (CHR '' '' # s) = trim s"
proof -
  have "is_ascii CHR '' ''" "is_ws_char '' ''" by (simp_all add: is_ascii_def is_ws_char_single byte_def)
  then show ?thesis using chars_of_append_ascii [of "CHR '' ''" "[]" s] by (simp add: trim_def trim_start_def)
qed

text \<open>The keys the agent writes.\<close>

definition ini_key :: "string \<Rightarrow> bool" where
  "ini_key k \<longleftrightarrow> plain_word k \<and> hd k \<noteq> CHR ''['' \<and> CHR ''='' \<notin> set k"

lemma ini_row_parsed:
  assumes "ini_key k"
  shows "\<not> in_brackets (trim (ini_row (k, v)))"
    and "\<exists>a b. split_once (CHR ''='') (trim (ini_row (k, v))) = Some (a, b) \<and> trim a = k \<and> trim b = trim v"
proof -
  obtain c k' where k: "k = c # k'" "is_ascii c" "\<not> is_ws_char [c]" "c \<noteq> CHR ''[''"
    using assms by (cases k) (auto simp: ini_key_def plain_word_def)
  have eq: "is_ascii CHR ''=''" "\<not> is_ws_char ''=''" by (simp_all add: is_ascii_def is_ws_char_single byte_def)
  have row: "trim (ini_row (k, v)) = (k @ '' '') @ CHR ''='' # trim_end (CHR '' '' # v)"
    using trim_Cons [OF k(2,3), of "(k' @ '' '') @ CHR ''='' # CHR '' '' # v"] trim_end_append [OF eq, of "k' @ '' ''" "CHR '' '' # v"]
    by (simp add: ini_row_def k(1))
  then show "\<not> in_brackets (trim (ini_row (k, v)))" by (simp add: in_brackets_def starts_with_def k(1) k(4) [symmetric])
  have "trim (k @ '' '') = trim k"
    using k trim_Cons [OF k(2,3), of "k' @ '' ''"] trim_Cons [OF k(2,3), of k'] trim_end_blank [of "[]" k']
    by (simp add: trim_end_def)
  then have "trim (k @ '' '') = k" using assms by (simp add: ini_key_def plain_word_trim)
  moreover have "trim (trim_end (CHR '' '' # v)) = trim v" by (simp add: trim_trim_end trim_blank)
  moreover have "split_once (CHR ''='') (trim (ini_row (k, v))) = Some (k @ '' '', trim_end (CHR '' '' # v))"
    unfolding split_once_Some_iff row using assms by (simp add: ini_key_def)
  ultimately show "\<exists>a b. split_once (CHR ''='') (trim (ini_row (k, v))) = Some (a, b) \<and> trim a = k \<and> trim b = trim v"
    by blast
qed

lemma ini_lookup_row:
  assumes "ini_key k"
  shows "ini_lookup s key inside (ini_row (k, v) # ls) =
    (if inside \<and> k = key then Some (trim v) else ini_lookup s key inside ls)"
  using ini_row_parsed [OF assms, of v] by (auto simp: Let_def)

definition ini_keys :: "ini_values \<Rightarrow> bool" where
  "ini_keys kv \<longleftrightarrow> list_all (\<lambda>(k, v). ini_key k \<and> NL \<notin> set v) kv"

lemma ini_lookup_rows:
  "ini_keys kv \<Longrightarrow> ini_lookup s key inside (map ini_row kv @ ls) =
     (case if inside then map_of kv key else None of Some v \<Rightarrow> Some (trim v) | None \<Rightarrow> ini_lookup s key inside ls)"
  by (induction kv) (auto simp: ini_keys_def ini_lookup_row simp del: ini_lookup.simps)

lemma ini_keys_filter: "ini_keys kv \<Longrightarrow> ini_keys (filter P kv)"
  by (auto simp: ini_keys_def list_all_iff)

lemma map_of_missing: "k \<notin> set seen \<Longrightarrow> map_of (filter (\<lambda>(k, _). k \<notin> set seen) kv) k = map_of kv k"
  by (induction kv) auto

lemma ini_lookup_missing:
  assumes "ini_keys kv"
  shows "inside \<Longrightarrow> k \<notin> set seen \<Longrightarrow> map_of kv k = Some v \<Longrightarrow>
      ini_lookup s k inside (ini_append_missing kv seen @ ls) = Some (trim v)"
    and "inside \<longrightarrow> k \<notin> fst ` set kv \<Longrightarrow>
      ini_lookup s k inside (ini_append_missing kv seen @ ls) = ini_lookup s k inside ls"
proof -
  note rows = ini_lookup_rows [OF ini_keys_filter [OF assms], of s k]
  show "ini_lookup s k inside (ini_append_missing kv seen @ ls) = Some (trim v)"
    if "inside" "k \<notin> set seen" "map_of kv k = Some v"
    using that by (simp add: ini_append_missing_def rows map_of_missing)
  have "map_of (filter P kv) k = None" if "k \<notin> fst ` set kv" for P
    using that by (auto simp: map_of_eq_None_iff)
  then show "ini_lookup s k inside (ini_append_missing kv seen @ ls) = ini_lookup s k inside ls"
    if "inside \<longrightarrow> k \<notin> fst ` set kv"
    using that by (simp add: ini_append_missing_def rows split: option.split)
qed

text \<open>A key that is not written, or of another section.\<close>

lemma ini_lookup_unwritten:
  assumes "ini_keys kv" and "s' = s \<longrightarrow> k \<notin> fst ` set kv"
  shows "inside \<and> inside' \<longrightarrow> k \<notin> fst ` set kv \<Longrightarrow>
    ini_lookup s' k inside' (ini_rewrite s kv inside seen ls @ rest) = ini_lookup s' k inside' (ls @ rest)"
proof (induction ls arbitrary: inside inside' seen)
  case Nil
  then show ?case using assms(1) by (simp add: ini_lookup_missing(2))
next
  case (Cons raw ls)
  have key: "ini_key c" if "map_of kv c = Some v" for c v
    using assms(1) that by (auto simp: ini_keys_def list_all_iff dest!: map_of_SomeD)
  have known: "c \<in> fst ` set kv" if "map_of kv c = Some v" for c v
    using that by (auto dest: map_of_SomeD intro: rev_image_eqI)
  show ?case
  proof (cases "in_brackets (trim raw)")
    case True
    have "section_name (trim raw) = s \<and> section_name (trim raw) = s' \<longrightarrow> k \<notin> fst ` set kv" using assms(2) by auto
    from Cons.IH [OF this] True Cons.prems assms(1) show ?thesis by (simp add: Let_def ini_lookup_missing(2))
  next
    case False
    show ?thesis
      using False Cons key known
      by (auto simp: Let_def ini_lookup_row simp del: ini_lookup.simps(2) split: option.split prod.split)
         (auto simp: Let_def split: option.split prod.split)
  qed
qed

text \<open>A key that is written.\<close>

lemma ini_lookup_written:
  assumes "ini_keys kv" and "hm_get kv k = Some v" and "k \<notin> set seen"
  shows "ini_lookup s k True (ini_rewrite s kv True seen ls @ rest) = Some (trim v)"
  using assms(3)
proof (induction ls arbitrary: seen)
  case Nil
  then show ?case using assms(1,2) by (simp add: ini_lookup_missing(1))
next
  case (Cons raw ls)
  have key: "ini_key c" if "hm_get kv c = Some v'" for c v'
    using assms(1) that by (auto simp: ini_keys_def list_all_iff dest!: map_of_SomeD)
  show ?case
  proof (cases "in_brackets (trim raw)")
    case True
    then show ?thesis using Cons.prems assms(1,2) by (simp add: Let_def ini_lookup_missing(1))
  next
    case False
    show ?thesis
      using False Cons key assms(2)
      by (auto simp: Let_def ini_lookup_row simp del: ini_lookup.simps(2) split: option.split prod.split)
         (auto simp: Let_def split: option.split prod.split)
  qed
qed

lemma ini_lookup_section:
  assumes "ini_keys kv" and "hm_get kv k = Some v"
  shows "ini_lookup s k False (ini_rewrite s kv False [] ls @ rest) =
    (if has_section s ls then Some (trim v) else ini_lookup s k False rest)"
proof (induction ls)
  case (Cons raw ls)
  have "ini_lookup s k True (ini_rewrite s kv True [] ls @ rest) = Some (trim v)" by (rule ini_lookup_written [OF assms]) simp
  with Cons show ?case
    by (cases "section_name (trim raw) = s") (auto simp: Let_def has_section_def split: option.split prod.split)
qed (simp add: has_section_def)

lemma section_header:
  "trim (''['' @ s @ '']'') = ''['' @ s @ '']''" "in_brackets (''['' @ s @ '']'')" "section_name (''['' @ s @ '']'') = s"
proof -
  have a: "is_ascii CHR ''[''" "\<not> is_ws_char ''[''" "is_ascii CHR '']''" "\<not> is_ws_char '']''"
    by (simp_all add: is_ascii_def is_ws_char_single byte_def)
  show "trim (''['' @ s @ '']'') = ''['' @ s @ '']''"
    using trim_Cons [OF a(1,2), of "s @ '']''"] trim_end_append [OF a(3,4), of s "[]"] by (simp add: trim_end_def)
  show "in_brackets (''['' @ s @ '']'')" by (simp add: in_brackets_def starts_with_def ends_with_def)
  show "section_name (''['' @ s @ '']'') = s" by (simp add: section_name_def butlast_append)
qed

lemma ini_lookup_header:
  "ini_lookup s' k inside ((''['' @ s @ '']'') # ls) = ini_lookup s' k (s = s') ls"
  by (simp only: ini_lookup.simps Let_def section_header if_True)

lemma ini_lookup_strip_cr: "ini_lookup s k inside (map strip_cr ls) = ini_lookup s k inside ls"
  by (induction ls arbitrary: inside) (auto simp: Let_def split: option.split prod.split)

lemma ini_rewrite_lines:
  "l \<in> set (ini_rewrite s kv inside seen ls) \<Longrightarrow> l \<in> set ls \<or> (\<exists>k v. l = ini_row (k, v) \<and> (k, v) \<in> set kv)"
proof (induction ls arbitrary: inside seen)
  case Nil
  then show ?case by (auto simp: ini_append_missing_def split: if_splits)
next
  case (Cons raw ls)
  have "\<exists>k v. ini_row (c, y) = ini_row (k, v) \<and> (k, v) \<in> set kv" if "hm_get kv c = Some y" for c y
    using map_of_SomeD [OF that] by blast
  with Cons show ?case
    by (auto simp: Let_def ini_append_missing_def split: if_splits option.splits)
qed

lemma ini_lines_free:
  assumes "ini_keys kv" and "NL \<notin> set s" and "l \<in> set (ini_lines content s kv)"
  shows "NL \<notin> set l"
proof -
  have row: "NL \<notin> set (ini_row (k, v))" if "(k, v) \<in> set kv" for k v
  proof -
    have "plain_word k" "NL \<notin> set v" using assms(1) that by (auto simp: ini_keys_def ini_key_def list_all_iff)
    moreover have "is_ws_char [NL]" by (simp add: is_ws_char_single byte_def)
    ultimately show ?thesis by (auto simp: ini_row_def plain_word_def list_all_iff)
  qed
  have "l \<in> set (lines content) \<or> (\<exists>k v. l = ini_row (k, v) \<and> (k, v) \<in> set kv) \<or> l = ''['' @ s @ '']''"
    using assms(3) ini_rewrite_lines [of l s kv False "[]" "lines content"]
    by (auto simp: ini_lines_def split: if_splits)
  then show ?thesis using row assms(2) lines_NL_free by auto
qed

lemma ini_rewrite_empty: "has_section s ls \<Longrightarrow> ini_rewrite s kv inside seen ls \<noteq> []"
  by (cases ls) (auto simp: has_section_def Let_def split: option.split)

theorem ini_set_lookup:
  assumes "ini_keys kv" and "NL \<notin> set s"
  shows "ini_get (ini_set content s kv) s' k =
    (case if s' = s then hm_get kv k else None of Some v \<Rightarrow> Some (trim v) | None \<Rightarrow> ini_get content s' k)"
proof -
  let ?ls = "lines content"
  let ?rest = "if has_section s ?ls then [] else (''['' @ s @ '']'') # map ini_row kv"
  have "ini_lines content s kv \<noteq> []" using ini_rewrite_empty [of s ?ls] by (simp add: ini_lines_def)
  with ini_lines_free [OF assms] have "lines (ini_set content s kv) = map strip_cr (ini_lines content s kv)"
    unfolding ini_set_def by (intro lines_of_joined) auto
  then have get: "ini_get (ini_set content s kv) s' k = ini_lookup s' k False (ini_rewrite s kv False [] ?ls @ ?rest)"
    by (simp only: ini_get_def ini_lookup_strip_cr ini_lines_def)
  show ?thesis
  proof (cases "if s' = s then hm_get kv k else None")
    case (Some v)
    then have s: "s' = s" "hm_get kv k = Some v" by (auto split: if_splits)
    have "ini_lookup s k True (map ini_row kv) = Some (trim v)"
      using ini_lookup_rows [OF assms(1), of s k True "[]"] s(2) by simp
    then have "ini_lookup s' k False (ini_rewrite s kv False [] ?ls @ ?rest) = Some (trim v)"
      using s(1) ini_lookup_section [OF assms(1) s(2), of s ?ls ?rest] by (simp add: ini_lookup_header [simplified])
    with Some s show ?thesis unfolding get by simp
  next
    case None
    then have new: "s' = s \<longrightarrow> k \<notin> fst ` set kv" by (metis map_of_eq_None_iff)
    have rest: "ini_lookup s' k inside ?rest = None" for inside
      using ini_lookup_rows [OF assms(1), of s' k "s = s'" "[]"] None
      by (cases "s' = s") (simp_all add: ini_lookup_header [simplified])
    have "ini_lookup s' k inside (ls @ ?rest) = ini_lookup s' k inside ls" for inside ls
      by (induction ls arbitrary: inside) (auto simp: rest Let_def split: option.split prod.split)
    then show ?thesis unfolding get ini_lookup_unwritten [OF assms(1) new, of False False, simplified] None
      by (simp add: ini_get_def)
  qed
qed


text \<open>
  C40. What the agent sets for \<open>dnf-automatic\<close> is what it shows afterwards, whatever the file held before
  and whether or not it had the section: written over any content, mode, scope and reboot are read
  back as they were asked for, and every other key of every section reads as it did.
\<close>

theorem dnf_settings_roundtrip:
  assumes "mode \<in> {''install'', ''download''}" and "scope \<in> {''all'', ''security''}"
  shows "dnf_settings (ini_set content ''commands'' (dnf_values mode scope reboot)) schedule =
      [(''mode'', JStr mode), (''scope'', JStr scope), (''schedule'', JStr schedule), (''reboot'', JBool reboot),
       (''reboot_time'', JStr []), (''remove_unused'', JBool False)] \<and>
    (\<forall>s k. s \<noteq> ''commands'' \<or> k \<notin> {''download_updates'', ''apply_updates'', ''upgrade_type'', ''reboot''} \<longrightarrow>
       ini_get (ini_set content ''commands'' (dnf_values mode scope reboot)) s k = ini_get content s k)"
proof -
  let ?kv = "dnf_values mode scope reboot"
  have ws: "plain_word k \<Longrightarrow> trim k = k" for k by (rule plain_word_trim)
  have k: "ini_keys ?kv" "NL \<notin> set ''commands''"
    using assms by (auto simp: ini_keys_def dnf_values_def ini_key_def plain_word_def is_ascii_def is_ws_char_single byte_def)
  note get = ini_set_lookup [OF k, of content]
  have "trim ''yes'' = ''yes''" "trim ''no'' = ''no''" "trim ''security'' = ''security''" "trim ''default'' = ''default''"
    "trim ''when-needed'' = ''when-needed''" "trim ''never'' = ''never''"
    by (rule ws, simp add: plain_word_def is_ascii_def is_ws_char_single byte_def)+
  then have "dnf_settings (ini_set content ''commands'' ?kv) schedule =
      [(''mode'', JStr mode), (''scope'', JStr scope), (''schedule'', JStr schedule), (''reboot'', JBool reboot),
       (''reboot_time'', JStr []), (''remove_unused'', JBool False)]"
    using assms unfolding dnf_settings_def Let_def get
    by (auto simp: dnf_values_def eq_ignore_ascii_case_def ascii_lower_def)
  moreover have "hm_get ?kv k = None" if "k \<notin> {''download_updates'', ''apply_updates'', ''upgrade_type'', ''reboot''}" for k
    using that by (simp add: dnf_values_def)
  ultimately show ?thesis unfolding get by (auto split: option.split)
qed

theorem dnf_settings_roundtrip_witness:
  "dnf_settings (ini_set [] ''commands'' (dnf_values ''install'' ''security'' True)) ''daily'' =
     [(''mode'', JStr ''install''), (''scope'', JStr ''security''), (''schedule'', JStr ''daily''), (''reboot'', JBool True),
      (''reboot_time'', JStr []), (''remove_unused'', JBool False)]"
  using dnf_settings_roundtrip [of "''install''" "''security''" "[]" True "''daily''"] by simp

end
