(* ===== verification/Floats.thy ===== *)
theory Floats
  imports RustStr "HOL-Library.Log_Nat"
begin

text \<open>
  The floating point numbers of the agent's reports: Rust's \<open>f64\<close> as rational numbers with every
  result rounded to 53 binary digits, ties to even, as IEEE 754 prescribes. The reports divide and
  multiply numbers between 0 and 2 ^ 75 and at least 2 ^ -75 when not zero, so neither infinities nor
  subnormal numbers arise in them.
\<close>

section \<open>Rounding\<close>

text \<open>The exponent of the leading binary digit.\<close>

definition elog :: "rat \<Rightarrow> int" where
  "elog r = (case quotient_of r of (a, b) \<Rightarrow> let e = bitlen a - bitlen b in if 2 powi e \<le> r then e else e - 1)"

definition round_even :: "rat \<Rightarrow> int" where
  "round_even x =
     (let f = \<lfloor>x\<rfloor>; d = x - of_int f
      in if d < 1 / 2 then f else if d > 1 / 2 then f + 1 else if even f then f else f + 1)"

definition last_place :: "rat \<Rightarrow> rat" where
  "last_place r = 2 powi (elog r - 52)"

definition fl :: "rat \<Rightarrow> rat" where
  "fl r = (if r = 0 then 0 else of_int (round_even (r / last_place r)) * last_place r)"

text \<open>\<open>as f64\<close>, division, multiplication, \<open>f64::round\<close> (halves away from zero) and \<open>as u64\<close>, on numbers that
  are not negative.\<close>

definition f64_of :: "nat \<Rightarrow> rat" where
  "f64_of n = fl (of_nat n)"

definition f64_div :: "rat \<Rightarrow> rat \<Rightarrow> rat" where
  "f64_div x y = fl (x / y)"

definition f64_mul :: "rat \<Rightarrow> rat \<Rightarrow> rat" where
  "f64_mul x y = fl (x * y)"

definition round_u64 :: "rat \<Rightarrow> nat" where
  "round_u64 x = min U64_MAX (nat \<lfloor>x + 1 / 2\<rfloor>)"

text \<open>\<open>((part as f64 / whole as f64) * 100.0).round() as u64\<close>\<close>

definition percent :: "nat \<Rightarrow> nat \<Rightarrow> nat" where
  "percent part whole = round_u64 (f64_mul (f64_div (f64_of part) (f64_of whole)) 100)"

section \<open>Facts of rounding\<close>

lemma elog_bounds:
  assumes "r > 0"
  shows "2 powi elog r \<le> r" and "r < 2 powi (elog r + 1)"
proof -
  obtain a b where q: "quotient_of r = (a, b)" by (cases "quotient_of r")
  then have b: "b > 0" by (rule quotient_of_denom_pos)
  have r: "r = of_int a / of_int b" using q by (rule quotient_of_div)
  with b assms have a: "a > 0" by (simp add: zero_less_divide_iff)
  have two: "(2::rat) powi x > 0" for x by simp
  have bits: "(2::rat) powi (bitlen x - 1) \<le> of_int x \<and> of_int x < (2::rat) powi (bitlen x)" if "x > 0" for x :: int
  proof -
    have l: "bitlen x > 0" using that bitlen_eq_zero_iff [of x] bitlen_nonneg [of x] by linarith
    then have "bitlen x - 1 = int (nat (bitlen x - 1))" "bitlen x = int (nat (bitlen x))" by simp_all
    moreover have "2 ^ nat (bitlen x - 1) \<le> x" "x < 2 ^ nat (bitlen x)" using bitlen_bounds [OF that] by simp_all
    ultimately show ?thesis
      by (metis of_int_le_iff of_int_less_iff of_int_numeral of_int_power power_int_of_nat)
  qed
  let ?e = "bitlen a - bitlen b"
  have "r < 2 powi (bitlen a) / 2 powi (bitlen b - 1)" unfolding r
    using bits [OF a] bits [OF b] a b two by (intro frac_less) auto
  then have up: "r < 2 powi (?e + 1)" by (simp add: power_int_diff power_int_add)
  have "2 powi (bitlen a - 1) / 2 powi (bitlen b) < r" unfolding r
    using bits [OF a] bits [OF b] a b two by (intro frac_less2) auto
  then have low: "2 powi (?e - 1) \<le> r" by (simp add: power_int_diff power_int_add field_simps)
  have "elog r = (if 2 powi ?e \<le> r then ?e else ?e - 1)" by (simp add: elog_def q)
  with up low show "2 powi elog r \<le> r" "r < 2 powi (elog r + 1)" by (simp_all split: if_splits)
qed

lemma round_even_of_int [simp]: "round_even (of_int n) = n"
  by (simp add: round_even_def)

lemma round_even_numeral [simp]: "round_even (numeral k) = numeral k" "round_even 0 = 0" "round_even 1 = 1"
  using round_even_of_int [of "numeral k"] round_even_of_int [of 0] round_even_of_int [of 1] by simp_all

lemma round_even_mono:
  assumes "x \<le> y"
  shows "round_even x \<le> round_even y"
proof (cases "\<lfloor>x\<rfloor> = \<lfloor>y\<rfloor>")
  case True
  with assms show ?thesis by (auto simp: round_even_def Let_def)
next
  case False
  with floor_mono [OF assms] have "\<lfloor>x\<rfloor> + 1 \<le> \<lfloor>y\<rfloor>" by linarith
  moreover have "round_even x \<le> \<lfloor>x\<rfloor> + 1" "\<lfloor>y\<rfloor> \<le> round_even y" by (auto simp: round_even_def Let_def)
  ultimately show ?thesis by linarith
qed

lemma last_place_pos [simp]: "last_place r > 0" "last_place r \<noteq> 0" "last_place r \<ge> 0"
  by (simp_all add: last_place_def)

lemma fl_exact:
  assumes "r / last_place r = of_int n"
  shows "fl r = r"
proof (cases "r = 0")
  case False
  have "fl r = of_int n * last_place r" using False by (simp add: fl_def assms)
  also have "\<dots> = r" unfolding assms [symmetric] by simp
  finally show ?thesis .
qed (simp add: fl_def)

text \<open>A positive number lies between the powers of two around it, and so does its rounding.\<close>

lemma fl_between:
  assumes "r > 0"
  shows "2 powi elog r \<le> fl r" and "fl r \<le> 2 powi (elog r + 1)"
proof -
  have p: "(2::rat) powi (elog r + k) = 2 powi (52 + k) * last_place r" for k
    by (simp add: last_place_def add.commute flip: power_int_add)
  have "of_int (2 ^ 52) \<le> r / last_place r"
    using elog_bounds(1) [OF assms] p [of 0] by (simp add: pos_le_divide_eq)
  from round_even_mono [OF this] have "2 ^ 52 \<le> round_even (r / last_place r)" by simp
  then have "(2::rat) ^ 52 \<le> of_int (round_even (r / last_place r))" by (metis of_int_le_iff of_int_numeral of_int_power)
  then show "2 powi elog r \<le> fl r" using p [of 0] assms by (simp add: fl_def mult_right_mono)
  have "r / last_place r \<le> of_int (2 ^ 53)"
    using elog_bounds(2) [OF assms] p [of 1] by (simp add: pos_divide_le_eq)
  from round_even_mono [OF this] have "round_even (r / last_place r) \<le> 2 ^ 53" by simp
  then have "of_int (round_even (r / last_place r)) \<le> (2::rat) ^ 53" by (metis of_int_le_iff of_int_numeral of_int_power)
  then show "fl r \<le> 2 powi (elog r + 1)" using p [of 1] assms by (simp add: fl_def mult_right_mono)
qed

lemma elog_mono:
  assumes "0 < x" and "x \<le> y"
  shows "elog x \<le> elog y"
proof (rule ccontr)
  assume "\<not> elog x \<le> elog y"
  then have "(2::rat) powi (elog y + 1) \<le> 2 powi elog x" by (intro power_int_increasing) simp_all
  with elog_bounds [OF assms(1)] elog_bounds [of y] assms show False by linarith
qed

theorem fl_mono:
  assumes "0 \<le> x" and "x \<le> y"
  shows "fl x \<le> fl y"
proof (cases "x = 0")
  case True
  show ?thesis
  proof (cases "y = 0")
    case False
    with True assms have "0 < y" by simp
    have "(0::rat) < 2 powi elog y" by simp
    with fl_between(1) [OF \<open>0 < y\<close>] have "0 \<le> fl y" by linarith
    with True show ?thesis by (simp add: fl_def)
  qed (simp add: True)
next
  case False
  with assms have x: "0 < x" "0 < y" by simp_all
  show ?thesis
  proof (cases "elog x = elog y")
    case True
    then have "last_place x = last_place y" by (simp add: last_place_def)
    moreover have "x / last_place y \<le> y / last_place y" using assms(2) by (simp add: divide_right_mono)
    ultimately show ?thesis using round_even_mono x by (simp add: fl_def mult_right_mono)
  next
    case False
    with elog_mono [OF x(1) assms(2)] have "elog x + 1 \<le> elog y" by simp
    then have "(2::rat) powi (elog x + 1) \<le> 2 powi elog y" by (intro power_int_increasing) simp_all
    with fl_between(2) [OF x(1)] fl_between(1) [OF x(2)] show ?thesis by linarith
  qed
qed

lemma fl_0 [simp]: "fl 0 = 0"
  by (simp add: fl_def)

lemma fl_nonneg: "0 \<le> x \<Longrightarrow> 0 \<le> fl x"
  using fl_mono [of 0 x] by simp

lemma elog_unique:
  assumes "r > 0" and "2 powi e \<le> r" and "r < 2 powi (e + 1)"
  shows "elog r = e"
proof -
  have less: "a < b" if "(2::rat) powi a < 2 powi b" for a b
    using that power_int_increasing [of b a "2::rat"] by (cases "a < b") simp_all
  have "(2::rat) powi elog r < 2 powi (e + 1)" "(2::rat) powi e < 2 powi (elog r + 1)"
    using elog_bounds [OF assms(1)] assms(2,3) by linarith+
  from this [THEN less] show ?thesis by linarith
qed

text \<open>Natural numbers of up to 53 binary digits are floating point numbers.\<close>

theorem f64_of_exact:
  assumes "n \<le> 2 ^ 53"
  shows "f64_of n = of_nat n"
proof (cases "n = 0")
  case False
  then have r: "(0::rat) < of_nat n" by simp
  have "elog (of_nat n) \<le> 53"
  proof (rule ccontr)
    assume "\<not> elog (of_nat n) \<le> 53"
    then have "(2::rat) powi 54 \<le> 2 powi elog (of_nat n)" by (intro power_int_increasing) simp_all
    with elog_bounds(1) [OF r] have "(2::rat) ^ 54 \<le> of_nat n" by simp
    moreover have "of_nat n \<le> (2::rat) ^ 53" using assms by (metis of_nat_le_iff of_nat_numeral of_nat_power)
    ultimately show False by simp
  qed
  show ?thesis
  proof (cases "elog (of_nat n) = 53")
    case True
    with elog_bounds(1) [OF r] have "(2::rat) ^ 53 \<le> of_nat n" by simp
    then have "2 ^ 53 \<le> n" by (metis of_nat_le_iff of_nat_numeral of_nat_power)
    with assms have "n = 2 ^ 53" by simp
    then have "of_nat n / last_place (of_nat n) = (of_int (2 ^ 52) :: rat)"
      using True by (simp add: last_place_def)
    then show ?thesis unfolding f64_of_def by (rule fl_exact)
  next
    case False
    with \<open>elog (of_nat n) \<le> 53\<close> have "elog (of_nat n) - 52 = - int (nat (52 - elog (of_nat n)))" by simp
    then obtain k where k: "elog (of_nat n) - 52 = - int k" by blast
    have "of_nat n / last_place (of_nat n) = (of_int (int n * 2 ^ k) :: rat)"
      by (simp add: last_place_def k power_int_minus field_simps)
    then show ?thesis unfolding f64_of_def by (rule fl_exact)
  qed
qed (simp add: f64_of_def)

lemma fl_numbers: "fl 1 = 1" "fl 100 = 100"
  using f64_of_exact [of 1] f64_of_exact [of 100] by (simp_all add: f64_of_def)

lemma f64_of_pos: "n > 0 \<Longrightarrow> f64_of n \<ge> 1"
  using fl_mono [of 1 "of_nat n"] by (simp add: f64_of_def fl_numbers)

lemma f64_of_mono: "m \<le> n \<Longrightarrow> f64_of m \<le> f64_of n"
  by (simp add: f64_of_def fl_mono)

theorem percent_mono:
  assumes "part \<le> part'"
  shows "percent part whole \<le> percent part' whole"
proof -
  have n: "0 \<le> f64_of k" for k using fl_nonneg [of "of_nat k"] by (simp add: f64_of_def)
  have "f64_of part / f64_of whole \<le> f64_of part' / f64_of whole"
    using f64_of_mono [OF assms] n by (simp add: divide_right_mono)
  then have "f64_div (f64_of part) (f64_of whole) \<le> f64_div (f64_of part') (f64_of whole)"
    unfolding f64_div_def using n by (intro fl_mono) simp_all
  then have "f64_mul (f64_div (f64_of part) (f64_of whole)) 100 \<le> f64_mul (f64_div (f64_of part') (f64_of whole)) 100"
    unfolding f64_mul_def using n fl_nonneg by (intro fl_mono) (simp_all add: f64_div_def)
  then show ?thesis unfolding percent_def round_u64_def by (intro min.mono nat_mono floor_mono) simp_all
qed

theorem percent_whole: "whole > 0 \<Longrightarrow> percent whole whole = 100"
proof -
  have "\<lfloor>(201::rat) / 2\<rfloor> = 100" by (simp add: floor_eq_iff)
  then show "whole > 0 \<Longrightarrow> percent whole whole = 100"
    using f64_of_pos [of whole] by (simp add: percent_def f64_div_def f64_mul_def fl_numbers round_u64_def)
qed

theorem percent_bounded: "part \<le> whole \<Longrightarrow> whole > 0 \<Longrightarrow> percent part whole \<le> 100"
  using percent_mono [of part whole whole] percent_whole by simp

section \<open>Reading and comparing\<close>

text \<open>The values of \<open>str::parse::<f64>\<close>: sign and magnitude, an infinity, or not a number.\<close>

datatype f64 = Finite bool rat | Infinite bool | NotANumber

text \<open>The number nearest to a decimal; below 2 ^ -1022 the last place stays at 2 ^ -1074.\<close>

definition nearest_f64 :: "bool \<Rightarrow> rat \<Rightarrow> f64" where
  "nearest_f64 neg v =
     (if v = 0 then Finite neg 0
      else (let place = 2 powi (max (elog v - 52) (- 1074)); r = of_int (round_even (v / place)) * place
            in if r \<ge> 2 powi 1024 then Infinite neg else Finite neg r))"

text \<open>An exponent: empty, or \<open>e\<close>, a sign and digits.\<close>

definition parse_exponent :: "string \<Rightarrow> int option" where
  "parse_exponent s =
     (case s of
        [] \<Rightarrow> Some 0
      | c # t \<Rightarrow>
          (let neg = (t \<noteq> [] \<and> hd t = CHR ''-''); ds = (if t \<noteq> [] \<and> hd t \<in> {CHR ''-'', CHR ''+''} then tl t else t)
           in if ascii_lower c = CHR ''e'' \<and> ds \<noteq> [] \<and> list_all is_ascii_digit ds
              then Some (if neg then - int (digits_val ds) else int (digits_val ds)) else None))"

definition parse_decimal :: "string \<Rightarrow> rat option" where
  "parse_decimal s =
     (let whole = takeWhile is_ascii_digit s; r1 = dropWhile is_ascii_digit s;
          dot = (r1 \<noteq> [] \<and> hd r1 = CHR ''.''); part = (if dot then takeWhile is_ascii_digit (tl r1) else []);
          r2 = (if dot then dropWhile is_ascii_digit (tl r1) else r1)
      in if whole = [] \<and> part = [] then None
         else map_option (\<lambda>e. of_nat (digits_val (whole @ part)) * 10 powi (e - int (length part))) (parse_exponent r2))"

definition parse_f64 :: "string \<Rightarrow> f64 option" where
  "parse_f64 s =
     (let neg = (s \<noteq> [] \<and> hd s = CHR ''-''); t = (if s \<noteq> [] \<and> hd s \<in> {CHR ''-'', CHR ''+''} then tl s else s);
          l = map ascii_lower t
      in if l = ''inf'' \<or> l = ''infinity'' then Some (Infinite neg)
         else if l = ''nan'' then Some NotANumber
         else map_option (nearest_f64 neg) (parse_decimal t))"

fun f64_less :: "f64 \<Rightarrow> f64 \<Rightarrow> bool" where
  "f64_less (Finite n x) (Finite m y) \<longleftrightarrow> (if n then - x else x) < (if m then - y else y)"
| "f64_less (Infinite n) (Finite m y) \<longleftrightarrow> n"
| "f64_less (Finite n x) (Infinite m) \<longleftrightarrow> \<not> m"
| "f64_less (Infinite n) (Infinite m) \<longleftrightarrow> n \<and> \<not> m"
| "f64_less NotANumber _ \<longleftrightarrow> False"
| "f64_less _ NotANumber \<longleftrightarrow> False"

end
