(* ===== verification/Reports.thy ===== *)
theory Reports
  imports Networking Floats
begin

text \<open>
  The agent's reports on the host: \<open>disk.usage\<close>, \<open>network.stats\<close>, \<open>hardware.info\<close>, \<open>top.processes\<close>,
  \<open>metrics.snapshot\<close> and \<open>networking.snapshot\<close>. Counters are \<open>u64\<close>: sums and products wrap, as they do in
  a release build (a debug build panics); differences saturate.
\<close>

section \<open>What the reports take from outside\<close>

text \<open>\<open>statvfs\<close>, the passing of a second, \<open>uname\<close>, and the text \<open>serde_json\<close> writes for a finite \<open>f64\<close> given by sign and
  magnitude.\<close>

record statvfs =
  sv_frsize :: nat
  sv_blocks :: nat
  sv_bfree :: nat
  sv_bavail :: nat
  sv_files :: nat
  sv_ffree :: nat

record 'w report_env =
  re_statvfs :: "'w \<Rightarrow> string \<Rightarrow> statvfs option"
  re_second :: "'w \<Rightarrow> 'w"
  re_uname :: "'w \<Rightarrow> (string \<times> string) option"
  re_f64 :: "bool \<Rightarrow> rat \<Rightarrow> string"

definition sleep_second :: "'w report_env \<Rightarrow> ('w, unit) act" where
  "sleep_second e = State (\<lambda>w. ((), w\<lparr>w_os := re_second e (w_os w)\<rparr>))"

definition time_stamp :: "'w agent_host \<Rightarrow> ('w, json) act" where
  "time_stamp h = State (\<lambda>w. (JStr (ah_now h (w_os w)), w))"

definition jf64 :: "'w report_env \<Rightarrow> f64 \<Rightarrow> json" where
  "jf64 e x = (case x of Finite neg r \<Rightarrow> JFloat (re_f64 e neg r) | _ \<Rightarrow> JNull)"

definition jnat :: "nat \<Rightarrow> json" where
  "jnat n = JInt (int n)"

definition u64_mul :: "nat \<Rightarrow> nat \<Rightarrow> nat" where
  "u64_mul a b = (a * b) mod 2 ^ 64"

definition u64_add :: "nat \<Rightarrow> nat \<Rightarrow> nat" where
  "u64_add a b = (a + b) mod 2 ^ 64"

definition parse_u64 :: "string \<Rightarrow> nat" where
  "parse_u64 s = unwrap_or 0 (parse_uint U64_MAX s)"

section \<open>disk.usage\<close>

definition partition_row :: "string \<Rightarrow> string \<Rightarrow> string \<Rightarrow> statvfs \<Rightarrow> json option" where
  "partition_row device mount fstype st =
     (let total = u64_mul (sv_blocks st) (sv_frsize st); free = u64_mul (sv_bfree st) (sv_frsize st);
          avail = u64_mul (sv_bavail st) (sv_frsize st); used = total - free
      in if total = 0 then None
         else Some (JObj [(''device'', JStr device), (''mount'', JStr mount), (''fstype'', JStr fstype), (''total'', jnat total),
           (''used'', jnat used), (''free'', jnat free), (''avail'', jnat avail), (''use_pct'', jnat (percent used total))]))"

text \<open>The mounts, with the devices seen so far; a mount point is a C string up to its first zero byte, and one with
  such a byte is the empty path.\<close>

definition mount_path :: "string \<Rightarrow> string" where
  "mount_path m = (if NUL \<in> set m then [] else m)"

definition disk_line :: "(string \<Rightarrow> statvfs option) \<Rightarrow> string list \<Rightarrow> string \<Rightarrow> string list \<times> json list" where
  "disk_line stat seen l =
     (case split_whitespace l of
        device # mount # fstype # _ \<Rightarrow>
          if \<not> starts_with ''/'' device \<or> device \<in> set seen then (seen, [])
          else if contains_str ''/loop'' device \<or> starts_with ''/snap/'' mount then (device # seen, [])
          else (case stat (mount_path mount) of
                  None \<Rightarrow> (device # seen, [])
                | Some st \<Rightarrow>
                    (device # seen, case partition_row device mount fstype st of None \<Rightarrow> [] | Some row \<Rightarrow> [row]))
      | _ \<Rightarrow> (seen, []))"

fun disk_rows :: "(string \<Rightarrow> statvfs option) \<Rightarrow> string list \<Rightarrow> string list \<Rightarrow> json list" where
  "disk_rows stat seen [] = []"
| "disk_rows stat seen (l # ls) = (case disk_line stat seen l of (seen', rows) \<Rightarrow> rows @ disk_rows stat seen' ls)"

definition get_disk_usage :: "'w agent_host \<Rightarrow> 'w report_env \<Rightarrow> ('w, json list) act" where
  "get_disk_usage h e =
     State (\<lambda>w. (case ah_read h (w_os w) ''/proc/mounts'' of
                   None \<Rightarrow> []
                 | Some c \<Rightarrow> disk_rows (re_statvfs e (w_os w)) [] (lines c), w))"

definition disk_usage_answer :: "'w agent_host \<Rightarrow> 'w report_env \<Rightarrow> open_options \<Rightarrow> ('w, json) act" where
  "disk_usage_answer h e o' = do { rows \<leftarrow> get_disk_usage h e; ret (JObj [(''partitions'', JArr rows)]) }"

definition disk_usage :: "'w agent_host \<Rightarrow> 'w report_env \<Rightarrow> 'w agent_state handler" where
  "disk_usage h e = answering ''disk.usage'' (disk_usage_answer h e)"

section \<open>network.stats\<close>

definition ip_show_args :: "string \<Rightarrow> string list" where
  "ip_show_args iface = [''-j'', ''addr'', ''show'', iface]"

definition get_ip_addresses :: "'w agent_host \<Rightarrow> string \<Rightarrow> ('w, json \<times> json) act" where
  "get_ip_addresses h iface = do {
     r \<leftarrow> run_raw h ''ip'' (ip_show_args iface) None;
     (let entries = (case r of
            Inl _ \<Rightarrow> []
          | Inr out \<Rightarrow> if out_ok out then unwrap_or [] (Option.bind (ah_parse h (out_stdout out)) as_array) else []);
          addrs = concat (map (\<lambda>x. unwrap_or [] (Option.bind (jget x ''addr_info'') as_array)) entries)
      in ret (JArr (addresses_of ''inet'' addrs), JArr (addresses_of ''inet6'' addrs))) }"

definition sys_net :: "string \<Rightarrow> string \<Rightarrow> string" where
  "sys_net iface what = ''/sys/class/net/'' @ iface @ ''/'' @ what"

text \<open>An interface of \<open>/proc/net/dev\<close> with its numbers.\<close>

definition stats_row :: "string \<Rightarrow> (string \<times> nat list) option" where
  "stats_row raw =
     (case split_once (CHR '':'') (trim raw) of
        None \<Rightarrow> None
      | Some (iface, rest) \<Rightarrow>
          (let vals = List.map_filter (parse_uint U64_MAX) (split_whitespace rest)
           in if trim iface = ''lo'' \<or> length vals < 10 then None else Some (trim iface, vals)))"

text \<open>The eleventh number is read after a check for ten: with exactly ten the code panics (None).\<close>

definition interface_stats :: "'w agent_host \<Rightarrow> string \<Rightarrow> nat list \<Rightarrow> ('w, json option) act" where
  "interface_stats h iface vals =
     (if length vals = 10 then ret None
      else do {
        state \<leftarrow> read_file h (sys_net iface ''operstate'');
        mac \<leftarrow> read_file h (sys_net iface ''address'');
        speed \<leftarrow> read_file h (sys_net iface ''speed'');
        (v4, v6) \<leftarrow> get_ip_addresses h iface;
        ret (Some (JObj [(''name'', JStr iface), (''state'', JStr (case state of None \<Rightarrow> ''unknown'' | Some s \<Rightarrow> trim s)),
          (''mac'', JStr (case mac of None \<Rightarrow> [] | Some s \<Rightarrow> trim s)),
          (''speed_mbps'', jopt_nat (Option.bind speed (\<lambda>s. parse_uint U64_MAX (trim s)))), (''ipv4'', v4), (''ipv6'', v6),
          (''rx_bytes'', jnat (vals ! 0)), (''rx_packets'', jnat (vals ! 1)), (''rx_errors'', jnat (vals ! 2)),
          (''tx_bytes'', jnat (vals ! 8)), (''tx_packets'', jnat (vals ! 9)), (''tx_errors'', jnat (vals ! 10))])) })"

fun interfaces_stats :: "'w agent_host \<Rightarrow> string list \<Rightarrow> ('w, json list option) act" where
  "interfaces_stats h [] = ret (Some [])"
| "interfaces_stats h (l # ls) =
     (case stats_row l of
        None \<Rightarrow> interfaces_stats h ls
      | Some (iface, vals) \<Rightarrow> do {
          r \<leftarrow> interface_stats h iface vals;
          case r of
            None \<Rightarrow> ret None
          | Some row \<Rightarrow> do { rows \<leftarrow> interfaces_stats h ls; ret (map_option ((#) row) rows) } })"

definition network_stats_answer :: "'w agent_host \<Rightarrow> open_options \<Rightarrow> ('w, json option) act" where
  "network_stats_answer h o' = do {
     f \<leftarrow> read_file h ''/proc/net/dev'';
     rows \<leftarrow> (case f of None \<Rightarrow> ret (Some []) | Some c \<Rightarrow> interfaces_stats h (drop 2 (lines c)));
     ret (map_option (\<lambda>r. JObj [(''interfaces'', JArr r)]) rows) }"

definition network_stats :: "'w agent_host \<Rightarrow> 'w agent_state handler" where
  "network_stats h = answering_or_panic ''network.stats'' (network_stats_answer h)"

section \<open>hardware.info\<close>

text \<open>The fold over \<open>/proc/cpuinfo\<close>; the sets of core ids and of processors are kept as lists without duplicates.\<close>

record cpu_info =
  ci_model :: string
  ci_mhz :: f64
  ci_logical :: nat
  ci_cores :: "string list"
  ci_physical :: string

definition cpu_info_empty :: cpu_info where
  "cpu_info_empty = \<lparr>ci_model = [], ci_mhz = Finite False 0, ci_logical = 0, ci_cores = [], ci_physical = []\<rparr>"

definition cpu_info_line :: "cpu_info \<Rightarrow> string \<Rightarrow> cpu_info" where
  "cpu_info_line c l =
     (case split_once (CHR '':'') l of
        None \<Rightarrow> c
      | Some (k, v) \<Rightarrow>
          (let key = trim k; val = trim v
           in if key = ''model name'' then (if ci_model c = [] then c\<lparr>ci_model := val\<rparr> else c)
              else if key = ''cpu MHz'' then
                (case parse_f64 val of
                   Some mhz \<Rightarrow> if f64_less (ci_mhz c) mhz then c\<lparr>ci_mhz := mhz\<rparr> else c
                 | None \<Rightarrow> c)
              else if key = ''processor'' then c\<lparr>ci_logical := (ci_logical c + 1) mod 2 ^ 32\<rparr>
              else if key = ''physical id'' then c\<lparr>ci_physical := val\<rparr>
              else if key = ''core id'' then c\<lparr>ci_cores := List.insert (ci_physical c @ '':'' @ val) (ci_cores c)\<rparr>
              else c))"

definition cpu_info_of :: "string \<Rightarrow> cpu_info" where
  "cpu_info_of content = foldl cpu_info_line cpu_info_empty (lines content)"

definition physical_cores :: "cpu_info \<Rightarrow> nat" where
  "physical_cores c = (if ci_cores c = [] then ci_logical c else length (ci_cores c) mod 2 ^ 32)"

definition get_kernel_info :: "'w report_env \<Rightarrow> 'w \<Rightarrow> string \<times> string" where
  "get_kernel_info e w = unwrap_or (''unknown'', ''unknown'') (re_uname e w)"

text \<open>A sensor's number in thousandths of a degree, and the sensors \<open>temp1\<close> to \<open>temp20\<close> of one device.\<close>

definition degrees :: "string \<Rightarrow> f64 option" where
  "degrees raw = map_option (\<lambda>m. Finite (m < 0) (f64_div (f64_of (nat \<bar>m\<bar>)) 1000)) (parse_i64 (trim raw))"

definition temperature_row :: "'w report_env \<Rightarrow> (string \<Rightarrow> string option) \<Rightarrow> string \<Rightarrow> nat \<Rightarrow> json option" where
  "temperature_row e rd name i =
     (let temp = ''temp'' @ show_nat i
      in case Option.bind (rd (temp @ ''_input'')) degrees of
           None \<Rightarrow> None
         | Some t \<Rightarrow>
             Some (JObj [
               (''label'', JStr (case rd (temp @ ''_label'') of Some s \<Rightarrow> trim s | None \<Rightarrow> name @ '' #'' @ show_nat i)),
               (''sensor'', JStr name), (''temp_c'', jf64 e t),
               (''crit_c'', case Option.bind (rd (temp @ ''_crit'')) degrees of None \<Rightarrow> JNull | Some c \<Rightarrow> jf64 e c)]))"

definition hwmon_rows :: "'w report_env \<Rightarrow> (string \<Rightarrow> string option) \<Rightarrow> json list" where
  "hwmon_rows e rd =
     (let name = (case rd ''name'' of Some s \<Rightarrow> trim s | None \<Rightarrow> [])
      in List.map_filter (temperature_row e rd name) [1..<21])"

definition hwmon_dir :: string where
  "hwmon_dir = ''/sys/class/hwmon''"

definition get_temperatures :: "'w agent_host \<Rightarrow> 'w report_env \<Rightarrow> 'w \<Rightarrow> json list" where
  "get_temperatures h e w =
     concat (map (\<lambda>d. hwmon_rows e (\<lambda>f. ah_read h w (hwmon_dir @ ''/'' @ d @ ''/'' @ f))) (unwrap_or [] (ah_dir h w hwmon_dir)))"

definition hardware_info_answer :: "'w agent_host \<Rightarrow> 'w report_env \<Rightarrow> open_options \<Rightarrow> ('w, json) act" where
  "hardware_info_answer h e o' = do {
     f \<leftarrow> read_file h ''/proc/cpuinfo'';
     State (\<lambda>w. (let cpu = cpu_info_of (unwrap_or [] f); (arch, kernel) = get_kernel_info e (w_os w)
                 in JObj [(''cpu_model'', JStr (ci_model cpu)), (''cpu_cores'', jnat (physical_cores cpu)),
                      (''cpu_threads'', jnat (ci_logical cpu)), (''cpu_mhz'', jf64 e (ci_mhz cpu)),
                      (''architecture'', JStr arch), (''kernel'', JStr kernel),
                      (''temperatures'', JArr (get_temperatures h e (w_os w)))], w)) }"

definition hardware_info :: "'w agent_host \<Rightarrow> 'w report_env \<Rightarrow> 'w agent_state handler" where
  "hardware_info h e = answering ''hardware.info'' (hardware_info_answer h e)"

section \<open>top.processes\<close>

definition ps_args :: "string list" where
  "ps_args = [''ps'', ''--no-headers'', ''-eo'', ''pid,user,%cpu,%mem,rss,comm'', ''--sort=-%cpu'']"

definition f64_or_zero :: "string \<Rightarrow> f64" where
  "f64_or_zero s = unwrap_or (Finite False 0) (parse_f64 s)"

definition ps_row :: "'w report_env \<Rightarrow> string \<Rightarrow> json option" where
  "ps_row e l =
     (case split_whitespace l of
        pid # user # cpu # mem # rss # c # cs \<Rightarrow>
          Some (JObj [(''pid'', jnat (unwrap_or 0 (parse_uint U32_MAX pid))), (''user'', JStr user),
            (''cpu_pct'', jf64 e (f64_or_zero cpu)), (''mem_pct'', jf64 e (f64_or_zero mem)), (''rss_kb'', jnat (parse_u64 rss)),
            (''command'', JStr (join '' '' (c # cs)))])
      | _ \<Rightarrow> None)"

definition parse_ps :: "'w report_env \<Rightarrow> string \<Rightarrow> json" where
  "parse_ps e out = JArr (List.map_filter (ps_row e) (take 15 (lines out)))"

definition processes :: "json \<Rightarrow> (string \<times> json) list \<Rightarrow> json" where
  "processes procs rest = JObj ((''processes'', procs) # rest)"

definition get_top_processes :: "'w agent_host \<Rightarrow> 'w report_env \<Rightarrow> string \<Rightarrow> string \<Rightarrow> ('w, json) act" where
  "get_top_processes h e user password =
     (if \<not> is_valid_username h user then ret (processes (JArr []) [(''error'', JStr ''no session user'')])
      else if password \<noteq> [] then do {
        r \<leftarrow> sudo h user password ps_args;
        ret (case jget_str r ''output'' of
               Some out \<Rightarrow> processes (parse_ps e out) []
             | None \<Rightarrow> processes (JArr []) [(''error'', JStr (unwrap_or ''command failed'' (jget_str r ''error'')))]) }
      else do {
        r \<leftarrow> run_user h user ps_args;
        ret (case r of
               NoAccount \<Rightarrow> processes (JArr []) [(''restricted'', JBool True), (''reason'', JStr ''no-account'')]
             | SpawnFailed err \<Rightarrow> processes (JArr []) [(''error'', JStr err)]
             | RanOut ok so se \<Rightarrow>
                 processes (parse_ps e (from_utf8_lossy so))
                   (if ok then [] else [(''error'', JStr (trim (from_utf8_lossy se)))])) })"

definition top_processes_answer :: "'w agent_host \<Rightarrow> 'w report_env \<Rightarrow> open_options \<Rightarrow> ('w, json) act" where
  "top_processes_answer h e o' =
     get_top_processes h e (opt_str o' ''_user'') (opt_str o' ''password'')"

definition top_processes :: "'w agent_host \<Rightarrow> 'w report_env \<Rightarrow> 'w agent_state handler" where
  "top_processes h e = answering ''top.processes'' (top_processes_answer h e)"

section \<open>metrics.snapshot\<close>

definition contents :: "'w agent_host \<Rightarrow> string \<Rightarrow> ('w, string) act" where
  "contents h path = do { f \<leftarrow> read_file h path; ret (unwrap_or [] f) }"

definition replace_all :: "string \<Rightarrow> string \<Rightarrow> string \<Rightarrow> string" where
  "replace_all pat with' s = join with' (split_str pat s)"

record cpu_jiffies =
  cj_user :: nat
  cj_nice :: nat
  cj_system :: nat
  cj_idle :: nat

definition cpu_jiffies_of :: "string \<Rightarrow> cpu_jiffies" where
  "cpu_jiffies_of content =
     (case map split_whitespace (take 1 (lines content)) of
        [_ # user # nice # system # idle # _] \<Rightarrow>
          \<lparr>cj_user = parse_u64 user, cj_nice = parse_u64 nice, cj_system = parse_u64 system, cj_idle = parse_u64 idle\<rparr>
      | _ \<Rightarrow> \<lparr>cj_user = 0, cj_nice = 0, cj_system = 0, cj_idle = 0\<rparr>)"

definition compute_cpu_pct :: "cpu_jiffies \<Rightarrow> cpu_jiffies \<Rightarrow> json" where
  "compute_cpu_pct a b =
     (let user = u64_add (cj_user b - cj_user a) (cj_nice b - cj_nice a); sys = cj_system b - cj_system a;
          idle = cj_idle b - cj_idle a; total = u64_add (u64_add user sys) idle
      in if total = 0 then JObj [(''user_pct'', jnat 0), (''system_pct'', jnat 0), (''idle_pct'', jnat 100)]
         else JObj [(''user_pct'', jnat (percent user total)), (''system_pct'', jnat (percent sys total)),
                (''idle_pct'', jnat (percent idle total))])"

record core_jiffies =
  co_core :: string
  co_user :: nat
  co_system :: nat
  co_idle :: nat

definition core_line :: "string \<Rightarrow> core_jiffies option" where
  "core_line l =
     (if starts_with ''cpu'' l \<and> length l > 3 \<and> is_ascii_digit (l ! 3) then
        (case split_whitespace l of
           core # user # _ # system # idle # _ \<Rightarrow>
             Some \<lparr>co_core = core, co_user = parse_u64 user, co_system = parse_u64 system, co_idle = parse_u64 idle\<rparr>
         | _ \<Rightarrow> None)
      else None)"

definition core_jiffies_of :: "string \<Rightarrow> core_jiffies list" where
  "core_jiffies_of content = List.map_filter core_line (lines content)"

definition core_usage :: "core_jiffies \<Rightarrow> core_jiffies \<Rightarrow> nat" where
  "core_usage a b =
     (let busy = u64_add (co_user b - co_user a) (co_system b - co_system a); t = u64_add busy (co_idle b - co_idle a)
      in if t > 0 then percent busy t else 0)"

definition compute_cores_pct :: "core_jiffies list \<Rightarrow> core_jiffies list \<Rightarrow> json" where
  "compute_cores_pct a b =
     JArr (List.map_filter (\<lambda>bc. case find (\<lambda>c. co_core c = co_core bc) a of
        None \<Rightarrow> None
      | Some ac \<Rightarrow> Some (JObj [(''core'', JStr (co_core bc)), (''usage_pct'', jnat (core_usage ac bc))])) b)"

definition memory_info_of :: "'w agent_host \<Rightarrow> string \<Rightarrow> json" where
  "memory_info_of h content =
     JObj (foldl (\<lambda>m l. case split_once (CHR '':'') l of
        None \<Rightarrow> m
      | Some (k, v) \<Rightarrow>
          (case parse_uint U64_MAX (replace_all '' kB'' [] (trim v)) of
             None \<Rightarrow> m
           | Some n \<Rightarrow> hm_put (replace_char (CHR '' '') ''_'' (ah_lower h (trim k))) (jnat n) m)) [] (take 5 (lines content)))"

text \<open>The totals of swap in \<open>/proc/meminfo\<close>: the last line of each name counts.\<close>

definition swap_line :: "(string \<Rightarrow> nat) \<Rightarrow> nat \<times> nat \<Rightarrow> string \<Rightarrow> nat \<times> nat" where
  "swap_line num s l =
     (case strip_prefix ''SwapTotal:'' l of
        Some rest \<Rightarrow> (num rest, snd s)
      | None \<Rightarrow> (case strip_prefix ''SwapFree:'' l of Some rest \<Rightarrow> (fst s, num rest) | None \<Rightarrow> s))"

definition swap_info_of :: "string \<Rightarrow> json" where
  "swap_info_of content =
     (let (total, free) = foldl (swap_line (\<lambda>rest. parse_u64 (replace_all '' kB'' [] (trim rest)))) (0, 0) (lines content)
      in JObj [(''total'', jnat total), (''free'', jnat free), (''used'', jnat (total - free))])"

definition loadavg_of :: "'w report_env \<Rightarrow> string \<Rightarrow> json" where
  "loadavg_of e content =
     (case split_whitespace content of
        a # b # c # _ \<Rightarrow> JObj [(''1min'', jf64 e (f64_or_zero a)), (''5min'', jf64 e (f64_or_zero b)),
                           (''15min'', jf64 e (f64_or_zero c))]
      | _ \<Rightarrow> JNull)"

definition is_disk :: "string \<Rightarrow> bool" where
  "is_disk name \<longleftrightarrow>
     starts_with ''sd'' name \<and> length name = 3 \<or>
     starts_with ''nvme'' name \<and> contains_str ''n'' name \<and> \<not> contains_str ''p'' name \<or>
     starts_with ''vd'' name \<and> length name = 3"

definition disk_sectors_line :: "nat \<times> nat \<Rightarrow> string \<Rightarrow> nat \<times> nat" where
  "disk_sectors_line s l =
     (let parts = split_whitespace l
      in if length parts < 14 \<or> \<not> is_disk (parts ! 2) then s
         else (u64_add (fst s) (parse_u64 (parts ! 5)), u64_add (snd s) (parse_u64 (parts ! 9))))"

definition disk_sectors_of :: "string \<Rightarrow> nat \<times> nat" where
  "disk_sectors_of content = foldl disk_sectors_line (0, 0) (lines content)"

text \<open>\<open>(n as f64 / dt).round() as u64\<close>\<close>

definition per_sec :: "rat \<Rightarrow> nat \<Rightarrow> nat" where
  "per_sec dt n = round_u64 (f64_div (f64_of n) dt)"

definition compute_disk_rate :: "nat \<times> nat \<Rightarrow> nat \<times> nat \<Rightarrow> rat \<Rightarrow> json" where
  "compute_disk_rate a b dt =
     JObj [(''read_bytes_sec'', jnat (per_sec dt (u64_mul (fst b - fst a) 512))),
       (''write_bytes_sec'', jnat (per_sec dt (u64_mul (snd b - snd a) 512)))]"

definition net_bytes_of :: "string \<Rightarrow> nat \<times> nat" where
  "net_bytes_of content =
     foldl (\<lambda>s l. case net_dev_row l of None \<Rightarrow> s | Some (_, r, t) \<Rightarrow> (u64_add (fst s) r, u64_add (snd s) t)) (0, 0)
       (drop 2 (lines content))"

definition compute_net_rate :: "nat \<times> nat \<Rightarrow> nat \<times> nat \<Rightarrow> rat \<Rightarrow> json" where
  "compute_net_rate a b dt =
     JObj [(''rx_bytes_sec'', jnat (per_sec dt (fst b - fst a))), (''tx_bytes_sec'', jnat (per_sec dt (snd b - snd a)))]"

definition metrics_json ::
  "'w agent_host \<Rightarrow> 'w report_env \<Rightarrow> string \<times> string \<times> string \<times> string \<Rightarrow> string \<times> string \<times> string \<times> string \<Rightarrow> string \<Rightarrow> string \<Rightarrow>
     string \<Rightarrow> json \<Rightarrow> json" where
  "metrics_json h e before after mem1 mem2 load now =
     (case (before, after) of
        ((cpu1, cores1, disk1, net1), (cpu2, cores2, disk2, net2)) \<Rightarrow>
          JObj [(''timestamp'', now), (''cpu'', compute_cpu_pct (cpu_jiffies_of cpu1) (cpu_jiffies_of cpu2)),
            (''cpu_cores'', compute_cores_pct (core_jiffies_of cores1) (core_jiffies_of cores2)),
            (''memory'', memory_info_of h mem1), (''swap'', swap_info_of mem2), (''loadavg'', loadavg_of e load),
            (''disk_io'', compute_disk_rate (disk_sectors_of disk1) (disk_sectors_of disk2) 1),
            (''net_io'', compute_net_rate (net_bytes_of net1) (net_bytes_of net2) 1)])"

definition read_counters :: "'w agent_host \<Rightarrow> ('w, string \<times> string \<times> string \<times> string) act" where
  "read_counters h = do {
     cpu \<leftarrow> contents h ''/proc/stat''; cores \<leftarrow> contents h ''/proc/stat'';
     disk \<leftarrow> contents h ''/proc/diskstats''; net \<leftarrow> contents h ''/proc/net/dev'';
     ret (cpu, cores, disk, net) }"

definition collect_metrics :: "'w agent_host \<Rightarrow> 'w report_env \<Rightarrow> ('w, json) act" where
  "collect_metrics h e = do {
     before \<leftarrow> read_counters h;
     sleep_second e;
     after \<leftarrow> read_counters h;
     mem1 \<leftarrow> contents h ''/proc/meminfo'';
     mem2 \<leftarrow> contents h ''/proc/meminfo'';
     load \<leftarrow> contents h ''/proc/loadavg'';
     now \<leftarrow> time_stamp h;
     ret (metrics_json h e before after mem1 mem2 load now) }"

definition metrics_snapshot :: "'w agent_host \<Rightarrow> 'w report_env \<Rightarrow> 'w agent_state handler" where
  "metrics_snapshot h e = answering ''metrics.snapshot'' (\<lambda>o'. collect_metrics h e)"

section \<open>networking.snapshot and networking.stream\<close>

definition traffic_json :: "'w report_env \<Rightarrow> (nat \<Rightarrow> rat) \<Rightarrow> (string \<times> nat \<times> nat) list \<Rightarrow> json" where
  "traffic_json e rate rows =
     JArr (map (\<lambda>(name, rx, tx). JObj [(''name'', JStr name), (''rx_bps'', jf64 e (Finite False (rate rx))),
       (''tx_bps'', jf64 e (Finite False (rate tx)))]) rows)"

definition stamped :: "json \<Rightarrow> (string \<times> json) list \<Rightarrow> json" where
  "stamped now rest = JObj ((''timestamp'', now) # rest)"

definition collect_traffic :: "'w agent_host \<Rightarrow> 'w report_env \<Rightarrow> ('w, json) act" where
  "collect_traffic h e = do {
     prev \<leftarrow> read_proc_net_dev h;
     sleep_second e;
     cur \<leftarrow> read_proc_net_dev h;
     now \<leftarrow> time_stamp h;
     ret (stamped now [(''interfaces'', traffic_json e f64_of (traffic_since prev cur))]) }"

definition networking_snapshot :: "'w agent_host \<Rightarrow> 'w report_env \<Rightarrow> 'w agent_state handler" where
  "networking_snapshot h e = answering ''networking.snapshot'' (\<lambda>o'. collect_traffic h e)"

section \<open>Streams\<close>

text \<open>What a stream's \<open>select\<close> wakes for: its ticker, with whether the message it sends is still received; or a change of
  the stop signal, with its value. A stream is its first state, the sample it takes at each tick, and those events;
  it yields the samples sent and how it ended.\<close>

datatype stream_event = Ticked bool | Signalled bool

datatype stream_end = Running | Stopped | Disconnected

fun stream_loop :: "('p \<Rightarrow> ('w, json \<times> 'p) act) \<Rightarrow> 'p \<Rightarrow> stream_event list \<Rightarrow> ('w, json list \<times> stream_end) act" where
  "stream_loop sample p [] = ret ([], Running)"
| "stream_loop sample p (Ticked received # evs) = do {
     (d, p') \<leftarrow> sample p;
     if received then do { (ds, how) \<leftarrow> stream_loop sample p' evs; ret (d # ds, how) }
     else ret ([], Disconnected) }"
| "stream_loop sample p (Signalled stop # evs) = (if stop then ret ([], Stopped) else stream_loop sample p evs)"

text \<open>The messages of the stream: the router says \<open>Ready\<close> first, and the loop's end says \<open>Close\<close>.\<close>

definition stream_messages :: "string \<Rightarrow> json list \<times> stream_end \<Rightarrow> message list" where
  "stream_messages ch r =
     Ready ch # map (Data ch) (fst r) @ (if snd r = Stopped then [Close ch None] else [])"

definition traffic_sample :: "'w agent_host \<Rightarrow> 'w report_env \<Rightarrow> nat \<Rightarrow> net_dev \<Rightarrow> ('w, json \<times> net_dev) act" where
  "traffic_sample h e interval prev = do {
     cur \<leftarrow> read_proc_net_dev h;
     now \<leftarrow> time_stamp h;
     (let seconds = f64_div (f64_of interval) 1000
      in ret (stamped now [(''interfaces'', traffic_json e (\<lambda>n. f64_div (f64_of n) seconds) (traffic_since prev cur))], cur)) }"

definition networking_stream ::
  "'w agent_host \<Rightarrow> 'w report_env \<Rightarrow> open_options \<Rightarrow> stream_event list \<Rightarrow> ('w, json list \<times> stream_end) act" where
  "networking_stream h e o' evs = do {
     prev \<leftarrow> read_proc_net_dev h;
     stream_loop (traffic_sample h e (stream_interval o')) prev evs }"

section \<open>What the reports do to the host\<close>

lemma emits_report_reads:
  "emits P (sleep_second e)" "emits P (time_stamp h)" "emits P (contents h path)" "emits P (read_proc_net_dev h)"
proof -
  show "emits P (sleep_second e)" by (auto simp: emits_def sleep_second_def intro!: yieldsI exI [of _ "[]"])
qed (simp_all add: time_stamp_def contents_def read_proc_net_dev_def emits_pure emits_bind emits_ret emits_reads)

lemma emits_pure_reports:
  "emits P (disk_usage_answer h e o')" "emits P (hardware_info_answer h e o')" "emits P (collect_metrics h e)"
  "emits P (collect_traffic h e)"
  unfolding disk_usage_answer_def get_disk_usage_def hardware_info_answer_def collect_metrics_def read_counters_def
    collect_traffic_def
  by (intro emits_bind emits_ret emits_pure emits_reads emits_prod emits_report_reads)+

lemma emits_interfaces_stats:
  assumes "\<And>iface. P (Ran (raw_command ''ip'' (ip_show_args iface) None))"
  shows "emits P (interfaces_stats h ls)"
proof (induction ls)
  case (Cons l ls)
  have "emits P (interface_stats h iface vals)" for iface vals
    unfolding interface_stats_def get_ip_addresses_def Let_def
    by (intro emits_if emits_bind emits_ret emits_reads emits_prod emits_run_raw assms)
  with Cons show ?case by (simp add: emits_option emits_prod emits_bind emits_ret)
qed (simp add: emits_ret)

lemma emits_network_stats:
  assumes "\<And>iface. P (Ran (raw_command ''ip'' (ip_show_args iface) None))"
  shows "emits P (network_stats_answer h o')"
  unfolding network_stats_answer_def
  by (intro emits_bind emits_ret emits_reads emits_option emits_interfaces_stats assms)

lemma emits_top_processes:
  assumes "\<And>pw. P (Ran (sudo_command user pw password ps_args))" "\<And>pw. P (Ran (user_command user pw (hd ps_args) (tl ps_args)))"
  shows "emits P (get_top_processes h e user password)"
  unfolding get_top_processes_def by (intro emits_if emits_bind emits_ret emits_sudo emits_run_user assms)

section \<open>What the reports say\<close>

text \<open>A row of the report: the numbers of one device that was not seen before.\<close>

definition device_row :: "string \<Rightarrow> json \<Rightarrow> bool" where
  "device_row device row \<longleftrightarrow> (\<exists>mount fstype st. partition_row device mount fstype st = Some row)"

lemma disk_line_cases:
  assumes "disk_line stat seen l = (seen', rows)"
  shows "rows = [] \<and> set seen \<subseteq> set seen' \<or>
    (\<exists>device row. rows = [row] \<and> device_row device row \<and> device \<notin> set seen \<and> seen' = device # seen)"
  using assms unfolding disk_line_def device_row_def
  by (simp split: list.splits if_splits option.splits) (blast | force)+

lemma disk_rows_row: "row \<in> set (disk_rows stat seen ls) \<Longrightarrow> \<exists>device. device_row device row \<and> device \<notin> set seen"
proof (induction ls arbitrary: seen)
  case (Cons l ls)
  obtain seen' rows where d: "disk_line stat seen l = (seen', rows)" by (cases "disk_line stat seen l")
  then consider "row \<in> set rows" | "row \<in> set (disk_rows stat seen' ls)" using Cons.prems by auto
  then show ?case
  proof cases
    case 1
    with disk_line_cases [OF d] show ?thesis by auto
  next
    case 2
    with disk_line_cases [OF d] Cons.IH [OF 2] show ?thesis by auto
  qed
qed simp

lemma device_row_device: "device_row device row \<Longrightarrow> jget_str row ''device'' = Some device"
  by (auto simp: device_row_def partition_row_def Let_def jget_str_def split: if_splits)

lemma disk_rows_distinct: "distinct (map (\<lambda>r. jget_str r ''device'') (disk_rows stat seen ls))"
proof (induction ls arbitrary: seen)
  case (Cons l ls)
  obtain seen' rows where d: "disk_line stat seen l = (seen', rows)" by (cases "disk_line stat seen l")
  have IH: "distinct (map (\<lambda>r. jget_str r ''device'') (disk_rows stat seen' ls))" by (rule Cons)
  from disk_line_cases [OF d] show ?case
  proof (elim disjE exE conjE)
    fix device row
    assume row: "rows = [row]" "device_row device row" "seen' = device # seen"
    have "Some device \<notin> (\<lambda>r. jget_str r ''device'') ` set (disk_rows stat seen' ls)"
      using disk_rows_row device_row_device row(3) by fastforce
    with IH row d device_row_device [OF row(2)] show ?thesis by simp
  qed (use IH d in simp)
qed simp


definition demo_statvfs :: statvfs where
  "demo_statvfs =
     \<lparr>sv_frsize = 4096, sv_blocks = 1000, sv_bfree = 250, sv_bavail = 200, sv_files = 64, sv_ffree = 60\<rparr>"

definition demo_rows :: "json list" where
  "demo_rows = disk_rows (\<lambda>_. Some demo_statvfs) [] [''/d / e'']"


text \<open>A line of \<open>/proc/net/dev\<close> with ten numbers, and no eleventh, ends the agent.\<close>

lemma interfaces_stats_panic:
  assumes "stats_row l = Some (iface, vals)" and "length vals = 10"
  shows "run_state (interfaces_stats h (l # ls)) w = (None, w)"
  using assms by (simp add: interface_stats_def run_simps)

theorem network_stats_panics:
  assumes "ah_read h (w_os (st_world s)) ''/proc/net/dev'' = Some content" and "drop 2 (lines content) = l # ls"
    and "stats_row l = Some (iface, vals)" and "length vals = 10"
  shows "st_crashed (snd (hd_open (network_stats h) ch o' s))" and "fst (hd_open (network_stats h) ch o' s) = []"
  using assms interfaces_stats_panic [OF assms(3,4), of h ls]
  by (simp_all add: network_stats_def shape_simps network_stats_answer_def run_simps del: interfaces_stats.simps)

section \<open>What the streams say\<close>

lemma stream_loop_append:
  "snd (fst (run_state (stream_loop sample p evs) w)) \<noteq> Running \<Longrightarrow>
   run_state (stream_loop sample p (evs @ rest)) w = run_state (stream_loop sample p evs) w"
  by (induction sample p evs arbitrary: w rule: stream_loop.induct) (auto simp: run_simps split: prod.splits if_splits)

text \<open>After its stop signal a stream sends nothing but \<open>Close\<close>, whatever its ticker does.\<close>

theorem stream_stops:
  "run_state (stream_loop sample p (evs @ Signalled True # rest)) w = run_state (stream_loop sample p (evs @ [Signalled True])) w"
proof -
  have "snd (fst (run_state (stream_loop sample p (evs @ [Signalled True])) w)) \<noteq> Running"
    by (induction sample p evs arbitrary: w rule: stream_loop.induct) (simp_all add: run_simps split_beta)
  from stream_loop_append [OF this, of rest] show ?thesis by simp
qed

text \<open>A signal that is not the stop, such as that of a sender that was dropped, does not end it: when the router is
  dropped the loop turns until its next tick fails to send.\<close>

theorem stream_ignores_dropped_signal:
  "stream_loop sample p (replicate n (Signalled False) @ evs) = stream_loop sample p evs"
  by (induction n) simp_all

end
