(* ===== verification/StorageReports.thy ===== *)
theory StorageReports
  imports Reports StorageManage Paths "HOL-Library.Multiset"
begin

text \<open>
  What the agent reports of its disks: \<open>storage.snapshot\<close> (\<open>storage_snapshot.rs\<close>), \<open>storage.stream\<close> (\<open>storage.rs\<close>, whose
  helper functions are the same text) and \<open>storage.du\<close> (\<open>storage_du.rs\<close>), with the flag that allows one scan at a time.
\<close>

section \<open>Counters and rates\<close>

record vmstat_swap =
  vs_in :: nat
  vs_out :: nat

definition vmstat_line :: "vmstat_swap \<Rightarrow> string \<Rightarrow> vmstat_swap" where
  "vmstat_line v l =
     (case strip_prefix ''pswpin '' l of
        Some rest \<Rightarrow> v\<lparr>vs_in := parse_u64 (trim rest)\<rparr>
      | None \<Rightarrow> (case strip_prefix ''pswpout '' l of Some rest \<Rightarrow> v\<lparr>vs_out := parse_u64 (trim rest)\<rparr> | None \<Rightarrow> v))"

definition vmstat_swap_of :: "string \<Rightarrow> vmstat_swap" where
  "vmstat_swap_of content = foldl vmstat_line \<lparr>vs_in = 0, vs_out = 0\<rparr> (lines content)"

definition PAGE_BYTES :: nat where
  "PAGE_BYTES = 4096"

definition compute_swap_io_rates :: "vmstat_swap \<Rightarrow> vmstat_swap \<Rightarrow> rat \<Rightarrow> json" where
  "compute_swap_io_rates prev cur dt =
     JObj [(''bytes_in_sec'', jnat (per_sec dt (u64_mul (vs_in cur - vs_in prev) PAGE_BYTES))),
       (''bytes_out_sec'', jnat (per_sec dt (u64_mul (vs_out cur - vs_out prev) PAGE_BYTES)))]"

record disk_stat =
  ds_name :: string
  ds_read :: nat
  ds_written :: nat

definition diskstats_line :: "string \<Rightarrow> disk_stat option" where
  "diskstats_line l =
     (let parts = split_whitespace l
      in if length parts < 14 then None
         else if list_ex (\<lambda>p. starts_with p (parts ! 2)) [''loop'', ''dm-'', ''ram''] then None
         else Some \<lparr>ds_name = parts ! 2, ds_read = parse_u64 (parts ! 5), ds_written = parse_u64 (parts ! 9)\<rparr>)"

definition diskstats_of :: "string \<Rightarrow> disk_stat list" where
  "diskstats_of content = List.map_filter diskstats_line (lines content)"

definition byte_rates :: "rat \<Rightarrow> nat \<Rightarrow> nat \<Rightarrow> (string \<times> json) list" where
  "byte_rates dt r w =
     [(''read_bytes_sec'', jnat (per_sec dt (u64_mul r 512))), (''write_bytes_sec'', jnat (per_sec dt (u64_mul w 512)))]"

definition add_disk :: "disk_stat list \<Rightarrow> rat \<Rightarrow> nat \<times> nat \<times> jmap \<Rightarrow> disk_stat \<Rightarrow> nat \<times> nat \<times> jmap" where
  "add_disk prev dt s c =
     (case (s, find (\<lambda>p. ds_name p = ds_name c) prev) of
        (_, None) \<Rightarrow> s
      | ((tr, tw, disks), Some p) \<Rightarrow>
          (let r = ds_read c - ds_read p; w = ds_written c - ds_written p
           in (u64_add tr r, u64_add tw w, hm_put (ds_name c) (JObj (byte_rates dt r w)) disks)))"

definition compute_io_rates :: "disk_stat list \<Rightarrow> disk_stat list \<Rightarrow> rat \<Rightarrow> json" where
  "compute_io_rates prev cur dt =
     (let (tr, tw, disks) = foldl (add_disk prev dt) (0, 0, []) cur
      in JObj (byte_rates dt tr tw @ [(''disks'', JObj disks)]))"

text \<open>\<open>(part as f64 / whole as f64 * 100.0).round()\<close>, 0 of nothing.\<close>

definition use_percent :: "nat \<Rightarrow> nat \<Rightarrow> nat" where
  "use_percent part base = (if base > 0 then percent part base else 0)"

definition swap_kib :: "string \<Rightarrow> nat" where
  "swap_kib rest = u64_mul (case split_whitespace rest of [] \<Rightarrow> 0 | v # _ \<Rightarrow> parse_u64 v) 1024"

definition swap_usage_of :: "string \<Rightarrow> json" where
  "swap_usage_of content =
     (let (total, free) = foldl (swap_line swap_kib) (0, 0) (lines content); used = total - free
      in JObj [(''total'', jnat total), (''free'', jnat free), (''used'', jnat used),
           (''use_pct'', jnat (use_percent used total))])"

section \<open>Block devices\<close>

text \<open>Older versions of \<open>lsblk\<close> name one mount point: it becomes a list.\<close>

definition list_mountpoint :: "jmap \<Rightarrow> jmap" where
  "list_mountpoint m =
     (case hm_get m ''mountpoint'' of
        None \<Rightarrow> m
      | Some mp \<Rightarrow>
          hm_put ''mountpoints'' (JArr (case mp of JStr s \<Rightarrow> if s \<noteq> [] then [JStr s] else [] | _ \<Rightarrow> []))
            (hm_del ''mountpoint'' m))"

text \<open>The arrays of an object's members, its text for the recursion.\<close>

definition array_member :: "json \<Rightarrow> string \<Rightarrow> json list" where
  "array_member v k = unwrap_or [] (Option.bind (jget v k) as_array)"

lemma array_member_size:
  assumes "x \<in> set (array_member v k)"
  shows "size x < size v"
proof -
  from assms obtain w xs where "jget v k = Some w" "as_array w = Some xs" "x \<in> set xs"
    by (cases "Option.bind (jget v k) as_array") (auto simp: array_member_def unwrap_or_def bind_eq_Some_conv)
  moreover have "size x \<le> size_list size xs"
    using \<open>x \<in> set xs\<close> by (simp add: size_list_estimation')
  ultimately show ?thesis using jget_size as_array_size by fastforce
qed

definition put_array :: "string \<Rightarrow> json list \<Rightarrow> jmap \<Rightarrow> jmap" where
  "put_array k xs m = (if Option.bind (hm_get m k) as_array \<noteq> None then hm_put k (JArr xs) m else m)"

function normalize_mountpoints :: "json \<Rightarrow> json" where
  "normalize_mountpoints v =
     (case v of
        JObj m \<Rightarrow>
          JObj (put_array ''blockdevices'' (map normalize_mountpoints (array_member v ''blockdevices''))
            (put_array ''children'' (map normalize_mountpoints (array_member v ''children'')) (list_mountpoint m)))
      | _ \<Rightarrow> v)"
  by pat_completeness auto
termination
  by (relation "measure size") (auto dest: array_member_size)

declare normalize_mountpoints.simps [simp del]

definition mountpoints_of :: "json \<Rightarrow> string list" where
  "mountpoints_of dev = List.map_filter as_str (array_member dev ''mountpoints'')"

text \<open>The usage of a file system, its blocks and its inodes.\<close>

definition fs_usage :: "statvfs \<Rightarrow> nat \<times> nat \<times> nat \<times> nat \<times> nat \<times> nat" where
  "fs_usage st =
     (let total = u64_mul (sv_blocks st) (sv_frsize st); free = u64_mul (sv_bfree st) (sv_frsize st); used = total - free;
          inodes = sv_files st; inodes_used = inodes - sv_ffree st
      in (used, free, use_percent used total, inodes, inodes_used, use_percent inodes_used inodes))"

definition device_usage :: "(string \<Rightarrow> statvfs option) \<Rightarrow> string list \<Rightarrow> nat \<times> nat \<times> nat \<times> nat \<times> nat \<times> nat" where
  "device_usage stat mounts =
     (case find (\<lambda>m. \<not> starts_with ''['' m) mounts of
        None \<Rightarrow> (0, 0, 0, 0, 0, 0)
      | Some m \<Rightarrow> if NUL \<in> set m then (0, 0, 0, 0, 0, 0)
                  else (case stat m of None \<Rightarrow> (0, 0, 0, 0, 0, 0) | Some st \<Rightarrow> fs_usage st))"

function enrich_device :: "(string \<Rightarrow> statvfs option) \<Rightarrow> json \<Rightarrow> json" where
  "enrich_device stat dev =
     (case device_usage stat (mountpoints_of dev) of
        (used, free, pct, inodes, inodes_used, inodes_pct) \<Rightarrow>
          JObj ([(''name'', JStr (unwrap_or [] (jget_str dev ''name''))),
              (''size'', jnat (unwrap_or 0 (Option.bind (jget dev ''size'') as_u64))),
              (''type'', JStr (unwrap_or [] (jget_str dev ''type''))), (''mountpoints'', JArr (map JStr (mountpoints_of dev))),
              (''used'', jnat used), (''free'', jnat free), (''use_pct'', jnat pct), (''inodes_total'', jnat inodes),
              (''inodes_used'', jnat inodes_used), (''inodes_pct'', jnat inodes_pct)]
            @ (if Option.bind (jget dev ''children'') as_array = None then []
               else [(''children'', JArr (map (enrich_device stat) (array_member dev ''children'')))])))"
  by pat_completeness auto
termination
  by (relation "measure (\<lambda>(_, d). size d)") (auto dest: array_member_size)

declare enrich_device.simps [simp del]

definition lsblk_args :: "string \<Rightarrow> string list" where
  "lsblk_args mounts = [''-J'', ''-b'', ''-o'', ''NAME,SIZE,TYPE,'' @ mounts]"

definition succeeded :: "string + cmd_output \<Rightarrow> string option" where
  "succeeded r = (case r of Inl _ \<Rightarrow> None | Inr out \<Rightarrow> if out_ok out then Some (out_stdout out) else None)"

definition block_devices_of :: "(string \<Rightarrow> json option) \<Rightarrow> (string \<Rightarrow> statvfs option) \<Rightarrow> bool \<Rightarrow> string \<Rightarrow> json list" where
  "block_devices_of parse stat legacy out =
     (case parse out of
        None \<Rightarrow> []
      | Some v \<Rightarrow>
          map (enrich_device stat) (array_member (if legacy then normalize_mountpoints v else v) ''blockdevices''))"

definition get_block_devices :: "'w agent_host \<Rightarrow> 'w report_env \<Rightarrow> ('w, json list) act" where
  "get_block_devices h e = do {
     r \<leftarrow> run_raw h ''lsblk'' (lsblk_args ''MOUNTPOINTS'') None;
     case succeeded r of
       Some out \<Rightarrow> State (\<lambda>w. (block_devices_of (ah_parse h) (re_statvfs e (w_os w)) False out, w))
     | None \<Rightarrow> do {
         r2 \<leftarrow> run_raw h ''lsblk'' (lsblk_args ''MOUNTPOINT'') None;
         case succeeded r2 of
           Some out \<Rightarrow> State (\<lambda>w. (block_devices_of (ah_parse h) (re_statvfs e (w_os w)) True out, w))
         | None \<Rightarrow> ret [] } }"

section \<open>storage.snapshot\<close>

text \<open>Where the code joins two reads, the model does the first one first; they do not depend on each other.\<close>

definition read_storage_counters :: "'w agent_host \<Rightarrow> ('w, disk_stat list \<times> vmstat_swap) act" where
  "read_storage_counters h = do {
     d \<leftarrow> contents h ''/proc/diskstats'';
     v \<leftarrow> contents h ''/proc/vmstat'';
     ret (diskstats_of d, vmstat_swap_of v) }"

definition storage_json :: "json \<Rightarrow> json \<Rightarrow> json list \<Rightarrow> json \<Rightarrow> json \<Rightarrow> json" where
  "storage_json now io devices swap swap_io =
     stamped now [(''io'', io), (''block_devices'', JArr devices), (''swap'', swap), (''swap_io'', swap_io)]"

definition collect_storage :: "'w agent_host \<Rightarrow> 'w report_env \<Rightarrow> ('w, json) act" where
  "collect_storage h e = do {
     (stats1, vm1) \<leftarrow> read_storage_counters h;
     sleep_second e;
     (stats2, vm2) \<leftarrow> read_storage_counters h;
     devices \<leftarrow> get_block_devices h e;
     mem \<leftarrow> contents h ''/proc/meminfo'';
     now \<leftarrow> time_stamp h;
     ret (storage_json now (compute_io_rates stats1 stats2 1) devices (swap_usage_of mem) (compute_swap_io_rates vm1 vm2 1)) }"

definition storage_snapshot :: "'w agent_host \<Rightarrow> 'w report_env \<Rightarrow> 'w agent_state handler" where
  "storage_snapshot h e = answering ''storage.snapshot'' (\<lambda>o'. collect_storage h e)"

section \<open>storage.stream\<close>

definition as_secs_f64 :: "nat \<Rightarrow> rat" where
  "as_secs_f64 d = fl (f64_of (d div NANOS) + f64_div (f64_of (d mod NANOS)) (f64_of NANOS))"

text \<open>The time since the last sample, at least a thousandth of a second.\<close>

definition since :: "instant \<Rightarrow> instant \<Rightarrow> rat" where
  "since before now = max (as_secs_f64 (now - before)) (fl (1 / 1000))"

definition io_zero :: json where
  "io_zero = JObj [(''read_bytes_sec'', jnat 0), (''write_bytes_sec'', jnat 0), (''disks'', JObj [])]"

definition swap_io_zero :: json where
  "swap_io_zero = JObj [(''bytes_in_sec'', jnat 0), (''bytes_out_sec'', jnat 0)]"

type_synonym storage_prev = "(disk_stat list \<times> vmstat_swap \<times> instant) option"

definition storage_sample :: "'w agent_host \<Rightarrow> 'w report_env \<Rightarrow> storage_prev \<Rightarrow> ('w, json \<times> storage_prev) act" where
  "storage_sample h e prev = do {
     now \<leftarrow> State (\<lambda>w. (ah_clock h (w_os w), w));
     (stats, vm) \<leftarrow> read_storage_counters h;
     devices \<leftarrow> get_block_devices h e;
     mem \<leftarrow> contents h ''/proc/meminfo'';
     stamp \<leftarrow> time_stamp h;
     (let (io, swap_io) = (case prev of
            None \<Rightarrow> (io_zero, swap_io_zero)
          | Some (stats0, vm0, t0) \<Rightarrow>
              (compute_io_rates stats0 stats (since t0 now), compute_swap_io_rates vm0 vm (since t0 now)))
      in ret (storage_json stamp io devices (swap_usage_of mem) swap_io, Some (stats, vm, now))) }"

definition storage_interval :: "open_options \<Rightarrow> nat" where
  "storage_interval o' = max 500 (unwrap_or 2000 (Option.bind (hm_get (extra o') ''interval'') as_u64))"

definition storage_stream :: "'w agent_host \<Rightarrow> 'w report_env \<Rightarrow> stream_event list \<Rightarrow> ('w, json list \<times> stream_end) act" where
  "storage_stream h e evs = stream_loop (storage_sample h e) None evs"

section \<open>storage.du: what is answered\<close>

text \<open>An entry of a directory: its name, whether it is a regular file, the blocks it takes; None is a failing call.\<close>

record dir_entry =
  de_name :: string
  de_file :: "bool option"
  de_blocks :: "nat option"

record 'w du_env =
  du_dir :: "'w \<Rightarrow> string \<Rightarrow> dir_entry list option"
  du_is_dir :: "'w \<Rightarrow> string \<Rightarrow> string + bool"

definition MAX_ENTRIES :: nat where
  "MAX_ENTRIES = 300"

definition MAX_DIR_READ :: nat where
  "MAX_DIR_READ = 200000"

definition validate_dir :: "'w agent_host \<Rightarrow> 'w du_env \<Rightarrow> 'w \<Rightarrow> string \<Rightarrow> string + string" where
  "validate_dir h d w raw =
     (if \<not> starts_with ''/'' raw then Inl ''path must be absolute''
      else (case ah_canonical h w raw of
              Inl _ \<Rightarrow> Inl ''path not found''
            | Inr canon \<Rightarrow>
                (case du_is_dir d w canon of
                   Inl e \<Rightarrow> Inl e
                 | Inr dir \<Rightarrow> if dir then Inr (from_utf8_lossy canon) else Inl ''not a directory'')))"

type_synonym du_entry = "string \<times> nat \<times> bool"

definition du_line :: "string \<Rightarrow> nat \<times> du_entry list \<Rightarrow> string \<Rightarrow> nat \<times> du_entry list" where
  "du_line path s l =
     (case split_once (CHR 0x09) l of
        None \<Rightarrow> s
      | Some (size_s, p) \<Rightarrow>
          (let size = parse_u64 (trim size_s)
           in if p = path then (size, snd s)
              else (fst s, snd s @ [(last (split_on (CHR ''/'') p), size, True)])))"

definition file_entry :: "dir_entry \<Rightarrow> du_entry option" where
  "file_entry x =
     (case (de_file x, de_blocks x) of
        (Some True, Some blocks) \<Rightarrow> Some (from_utf8_lossy (de_name x), u64_mul blocks 512, False)
      | _ \<Rightarrow> None)"

definition direct_files :: "dir_entry list option \<Rightarrow> du_entry list \<times> bool" where
  "direct_files rd =
     (case rd of
        None \<Rightarrow> ([], False)
      | Some es \<Rightarrow> (List.map_filter file_entry (take MAX_DIR_READ es), MAX_DIR_READ < length es))"

definition by_size :: "du_entry list \<Rightarrow> du_entry list" where
  "by_size = sort_key (\<lambda>x. - int (fst (snd x)))"

definition du_entries :: "dir_entry list option \<Rightarrow> string \<Rightarrow> string \<Rightarrow> du_entry list" where
  "du_entries rd path out = by_size (snd (foldl (du_line path) (0, []) (lines out)) @ fst (direct_files rd))"

definition entry_json :: "du_entry \<Rightarrow> json" where
  "entry_json x = (case x of (name, bytes', dir) \<Rightarrow>
     JObj [(''name'', JStr name), (''size'', jnat bytes'), (''is_dir'', JBool dir)])"

definition parent_json :: "string \<Rightarrow> json" where
  "parent_json path =
     (if path = ''/'' then JNull
      else (case path_parent (components path) of None \<Rightarrow> JNull | Some p \<Rightarrow> JStr (path_text p)))"

definition build_result :: "dir_entry list option \<Rightarrow> string \<Rightarrow> string \<Rightarrow> json" where
  "build_result rd path out =
     (let entries = du_entries rd path out
      in JObj [(''path'', JStr path), (''parent'', parent_json path),
           (''total'', jnat (fst (foldl (du_line path) (0, []) (lines out)))),
           (''entries'', JArr (map entry_json (take MAX_ENTRIES entries))),
           (''truncated'', JBool (MAX_ENTRIES < length entries \<or> snd (direct_files rd)))])"

section \<open>storage.du: one scan at a time\<close>

text \<open>The scans of one agent: the flag, the scans that run, each by its channel, with its path, and the commands that
  were run. \<open>du\<close> runs as a child of the agent; a scan ends with what \<open>du\<close> wrote, or when its 60 seconds are over or the
  channel's stop signal comes.\<close>

record du_state =
  du_scanning :: bool
  du_running :: "(string \<times> string) list"
  du_log :: "command list"

definition du_start :: du_state where
  "du_start = \<lparr>du_scanning = False, du_running = [], du_log = []\<rparr>"

definition du_args :: "string \<Rightarrow> string list" where
  "du_args path =
     [''-n'', ''19'', ''ionice'', ''-c'', ''3'', ''du'', ''-x'', ''--block-size=1'', ''--max-depth=1'', ''--'', path]"

datatype du_event =
    Begin string open_options "string option"
  | Done string string
  | TimedOut string
  | Cancelled string

definition du_send :: "string \<Rightarrow> json \<Rightarrow> message list" where
  "du_send ch d = [Data ch d, Close ch None]"

definition du_path :: "open_options \<Rightarrow> string" where
  "du_path o' = unwrap_or ''/'' (map_str (extra o') ''path'')"

text \<open>A scan that begins, with the error of the spawn if it fails; and the end of one.\<close>

definition du_begin ::
  "'w agent_host \<Rightarrow> 'w du_env \<Rightarrow> 'w \<Rightarrow> string \<Rightarrow> open_options \<Rightarrow> string option \<Rightarrow> du_state \<Rightarrow> message list \<times> du_state" where
  "du_begin h d w ch o' failed s =
     (case validate_dir h d w (du_path o') of
        Inl e \<Rightarrow> (du_send ch (jerror e), s)
      | Inr path \<Rightarrow>
          if du_scanning s then (du_send ch (jerror ''another scan is already running on this host''), s)
          else (let s1 = s\<lparr>du_log := du_log s @ [raw_command ''nice'' (du_args path) None]\<rparr>
                in case failed of
                     Some e \<Rightarrow> (du_send ch (jerror (''failed to start du: '' @ e)), s1\<lparr>du_scanning := False\<rparr>)
                   | None \<Rightarrow> ([], s1\<lparr>du_scanning := True, du_running := du_running s @ [(ch, path)]\<rparr>)))"

definition du_finish ::
  "'w du_env \<Rightarrow> 'w \<Rightarrow> string \<Rightarrow> string option \<Rightarrow> du_state \<Rightarrow> message list \<times> du_state" where
  "du_finish d w ch out s =
     (case hm_get (du_running s) ch of
        None \<Rightarrow> ([], s)
      | Some path \<Rightarrow>
          ((case out of None \<Rightarrow> [] | Some o' \<Rightarrow> du_send ch (build_result (du_dir d w path) path (from_utf8_lossy o'))),
           s\<lparr>du_scanning := False, du_running := hm_del ch (du_running s)\<rparr>))"

definition du_step :: "'w agent_host \<Rightarrow> 'w du_env \<Rightarrow> 'w \<Rightarrow> du_event \<Rightarrow> du_state \<Rightarrow> message list \<times> du_state" where
  "du_step h d w ev s =
     (case ev of
        Begin ch o' failed \<Rightarrow> du_begin h d w ch o' failed s
      | Done ch out \<Rightarrow> du_finish d w ch (Some out) s
      | TimedOut ch \<Rightarrow> du_finish d w ch None s
      | Cancelled ch \<Rightarrow> du_finish d w ch None s)"

text \<open>The states a run of events reaches, the host changing freely in between.\<close>

inductive du_reach :: "'w agent_host \<Rightarrow> 'w du_env \<Rightarrow> du_state \<Rightarrow> bool" for h d where
  idle: "du_reach h d du_start"
| step: "du_reach h d s \<Longrightarrow> du_reach h d (snd (du_step h d w ev s))"

section \<open>What the disk reports do to the host\<close>

text \<open>The commands the agent runs itself for its reports.\<close>

inductive report_plain :: "string list \<Rightarrow> bool" where
  addresses: "report_plain (''ip'' # ip_show_args iface)"
| devices: "report_plain (''lsblk'' # lsblk_args mounts)"

definition is_ps :: "string list \<Rightarrow> bool" where
  "is_ps args \<longleftrightarrow> args = ps_args"

abbreviation report_confined :: "string \<Rightarrow> string \<Rightarrow> effect \<Rightarrow> bool" where
  "report_confined \<equiv> confined is_ps is_ps report_plain"

lemma emits_get_block_devices: "emits (queries report_plain) (get_block_devices h e)"
  unfolding get_block_devices_def
  by (intro emits_bind emits_option emits_ret emits_pure emits_run_raw queries_plain report_plain.devices)

lemma emits_read_storage_counters: "emits P (read_storage_counters h)"
  unfolding read_storage_counters_def by (intro emits_bind emits_ret emits_report_reads)

lemma emits_collect_storage: "emits (queries report_plain) (collect_storage h e)"
  unfolding collect_storage_def
  by (intro emits_bind emits_prod emits_ret emits_report_reads emits_read_storage_counters emits_get_block_devices)

lemma emits_storage_sample: "emits (queries report_plain) (storage_sample h e prev)"
  unfolding storage_sample_def Let_def
  by (intro emits_bind emits_prod emits_ret emits_pure emits_report_reads emits_read_storage_counters emits_get_block_devices)

lemma emits_stream_loop: "(\<And>p. emits P (sample p)) \<Longrightarrow> emits P (stream_loop sample p evs)"
  by (induction sample p evs rule: stream_loop.induct) (auto intro!: emits_bind emits_prod emits_ret emits_if)

text \<open>The streams only ask the host.\<close>

theorem streams_only_ask:
  "emits (queries report_plain) (storage_stream h e evs)" "emits (\<lambda>_. False) (networking_stream h e o' evs)"
  unfolding storage_stream_def networking_stream_def traffic_sample_def Let_def
  by (intro emits_stream_loop emits_storage_sample emits_bind emits_ret emits_report_reads)+

interpretation disk_usage: bounded_handler "disk_usage h e" report_confined
  unfolding disk_usage_def by (rule bounded_answering) (rule emits_pure_reports)

interpretation hardware_info: bounded_handler "hardware_info h e" report_confined
  unfolding hardware_info_def by (rule bounded_answering) (rule emits_pure_reports)

interpretation metrics_snapshot: bounded_handler "metrics_snapshot h e" report_confined
  unfolding metrics_snapshot_def by (rule bounded_answering) (rule emits_pure_reports)

interpretation networking_snapshot: bounded_handler "networking_snapshot h e" report_confined
  unfolding networking_snapshot_def by (rule bounded_answering) (rule emits_pure_reports)

interpretation storage_snapshot: bounded_handler "storage_snapshot h e" report_confined
  unfolding storage_snapshot_def by (rule bounded_answering) (rule emits_queries [OF emits_collect_storage])

interpretation network_stats: bounded_handler "network_stats h" report_confined
  unfolding network_stats_def
  by (rule bounded_answering_or_panic) (intro emits_network_stats confined_raw report_plain.addresses)

interpretation top_processes: bounded_handler "top_processes h e" report_confined
  unfolding top_processes_def top_processes_answer_def
  by (rule bounded_answering)
     (intro emits_top_processes confined_sudo confined_user; simp add: is_ps_def ps_args_def)

section \<open>What the disk reports say\<close>

lemma use_percent_bounded: "use_percent (b - f) b \<le> 100"
  by (simp add: use_percent_def percent_bounded)

lemma fs_usage_bounded:
  "fs_usage st = (used, free, pct, inodes, inodes_used, inodes_pct) \<Longrightarrow> pct \<le> 100 \<and> inodes_pct \<le> 100 \<and> inodes_used \<le> inodes"
  by (auto simp: fs_usage_def Let_def use_percent_bounded)

lemma device_usage_bounded:
  "device_usage stat ms = (used, free, pct, inodes, inodes_used, inodes_pct) \<Longrightarrow> pct \<le> 100 \<and> inodes_pct \<le> 100 \<and> inodes_used \<le> inodes"
  unfolding device_usage_def by (auto split: option.splits if_splits dest: fs_usage_bounded)

text \<open>Every device of the tree, at any depth, is reported with percentages up to 100.\<close>

inductive node_of :: "json \<Rightarrow> json \<Rightarrow> bool" for root where
  root: "node_of root root"
| child: "node_of root v \<Longrightarrow> x \<in> set (array_member v ''children'') \<Longrightarrow> node_of root x"

definition fair_percents :: "json \<Rightarrow> bool" where
  "fair_percents v \<longleftrightarrow>
     (\<exists>p q. jget v ''use_pct'' = Some (jnat p) \<and> jget v ''inodes_pct'' = Some (jnat q) \<and> p \<le> 100 \<and> q \<le> 100)"

lemma enrich_device_children:
  "array_member (enrich_device stat dev) ''children'' = map (enrich_device stat) (array_member dev ''children'')"
  by (subst enrich_device.simps)
     (auto simp: array_member_def unwrap_or_def split: prod.split option.splits)

lemma enrich_device_fair: "fair_percents (enrich_device stat dev)"
  by (subst enrich_device.simps)
     (auto simp: fair_percents_def split: prod.split dest: device_usage_bounded)

text \<open>
  The tree of block devices keeps its shape and every node of it, at any depth, says percentages of blocks and
  of inodes that are at most 100, whatever \<open>lsblk\<close> printed and the file systems count.
\<close>

theorem device_tree_percents:
  "node_of (enrich_device stat dev) v \<Longrightarrow> fair_percents v \<and> (\<exists>d. node_of dev d \<and> v = enrich_device stat d)"
proof (induction rule: node_of.induct)
  case root
  then show ?case using enrich_device_fair node_of.root by blast
next
  case (child v x)
  then obtain d where "node_of dev d" "v = enrich_device stat d" by blast
  with child.hyps(2) obtain c where "c \<in> set (array_member d ''children'')" "x = enrich_device stat c"
    by (auto simp: enrich_device_children)
  with \<open>node_of dev d\<close> show ?case using enrich_device_fair node_of.child by blast
qed

section \<open>What a scan answers\<close>

lemma by_size_sorted: "sorted_wrt (\<lambda>x y. fst (snd y) \<le> fst (snd x)) (by_size es)"
proof -
  have "sorted (map (\<lambda>x. - int (fst (snd x))) (by_size es))" by (simp add: by_size_def)
  then show ?thesis unfolding sorted_map by (rule sorted_wrt_mono_rel [rotated]) simp
qed

text \<open>
  A scan shows the largest entries: the list it answers with has at most 300 entries, the largest first; nothing
  left out is larger than anything shown; what is shown and what is left out are together the subdirectories \<open>du\<close>
  listed and the regular files of the directory, each once; and the answer says when something was left out.
\<close>

theorem scan_shows_largest:
  fixes rd path out
  defines "found \<equiv> snd (foldl (du_line path) (0, []) (lines out)) @ fst (direct_files rd)"
  shows "\<exists>shown omitted. jget (build_result rd path out) ''entries'' = Some (JArr (map entry_json shown)) \<and>
    length shown \<le> 300 \<and> sorted_wrt (\<lambda>x y. fst (snd y) \<le> fst (snd x)) shown \<and>
    (\<forall>x \<in> set shown. \<forall>y \<in> set omitted. fst (snd y) \<le> fst (snd x)) \<and>
    mset (shown @ omitted) = mset found \<and>
    jget (build_result rd path out) ''truncated'' = Some (JBool (omitted \<noteq> [] \<or> snd (direct_files rd)))"
proof (intro exI conjI)
  let ?es = "du_entries rd path out"
  have sorted: "sorted_wrt (\<lambda>x y. fst (snd y) \<le> fst (snd x)) (take MAX_ENTRIES ?es @ drop MAX_ENTRIES ?es)"
    by (simp add: du_entries_def by_size_sorted)
  show "jget (build_result rd path out) ''entries'' = Some (JArr (map entry_json (take MAX_ENTRIES ?es)))"
    by (simp add: build_result_def Let_def)
  show "length (take MAX_ENTRIES ?es) \<le> 300" by (simp add: MAX_ENTRIES_def)
  from sorted show "sorted_wrt (\<lambda>x y. fst (snd y) \<le> fst (snd x)) (take MAX_ENTRIES ?es)"
    and "\<forall>x \<in> set (take MAX_ENTRIES ?es). \<forall>y \<in> set (drop MAX_ENTRIES ?es). fst (snd y) \<le> fst (snd x)"
    unfolding sorted_wrt_append by blast+
  show "mset (take MAX_ENTRIES ?es @ drop MAX_ENTRIES ?es) = mset found"
    unfolding append_take_drop_id du_entries_def by_size_def found_def by (rule mset_sort)
  show "jget (build_result rd path out) ''truncated'' = Some (JBool (drop MAX_ENTRIES ?es \<noteq> [] \<or> snd (direct_files rd)))"
    by (simp add: build_result_def Let_def not_le)
qed

section \<open>One scan at a time\<close>

lemma du_begin_next:
  assumes "snd (du_begin h d w ch o' failed s) = s'"
  shows "s' = s \<or> \<not> du_scanning s \<and>
    (\<not> du_scanning s' \<and> du_running s' = du_running s \<or> (\<exists>path. du_scanning s' \<and> du_running s' = du_running s @ [(ch, path)]))"
  using assms by (auto simp: du_begin_def Let_def split: sum.splits option.splits if_splits)

lemma du_finish_next:
  "snd (du_finish d w ch out s) =
     (if hm_get (du_running s) ch = None then s else s\<lparr>du_scanning := False, du_running := hm_del ch (du_running s)\<rparr>)"
  by (simp add: du_finish_def split: option.split)

definition one_scan :: "du_state \<Rightarrow> bool" where
  "one_scan s \<longleftrightarrow> (\<exists>x. du_running s = [x] \<and> du_scanning s) \<or> du_running s = [] \<and> \<not> du_scanning s"

lemma one_scan_begin: "one_scan s \<Longrightarrow> one_scan (snd (du_begin h d w ch o' failed s))"
  using du_begin_next [of h d w ch o' failed s, OF refl] by (auto simp: one_scan_def)

lemma one_scan_finish: "one_scan s \<Longrightarrow> one_scan (snd (du_finish d w ch out s))"
  by (auto simp: du_finish_next one_scan_def split: if_splits)

text \<open>
  C35. One scan at a time, and the flag that ensures it is never left behind: in every state the scans of an agent can
  reach, however they begin, fail to begin, end, time out and are cancelled, at most one is running, and the flag is
  set exactly while one is, so that the next request is never refused for a scan that is over.
\<close>

theorem scan_flag_tells_running:
  assumes "du_reach h d s"
  shows "(\<exists>x. du_running s = [x] \<and> du_scanning s) \<or> du_running s = [] \<and> \<not> du_scanning s"
  using assms
  unfolding one_scan_def [symmetric]
proof (induction rule: du_reach.induct)
  case (step s w ev)
  then show ?case by (cases ev) (simp_all add: du_step_def one_scan_begin one_scan_finish)
qed (simp add: one_scan_def du_start_def)

theorem scan_flag_tells_running_witness:
  "du_running (snd (du_step toy_host \<lparr>du_dir = \<lambda>_ _. None, du_is_dir = \<lambda>_ _. Inr True\<rparr> 0
      (Begin ''ch'' \<lparr>payload = ''storage.du'', superuser = None, extra = []\<rparr> None) du_start)) =
   [(''ch'', ''/'')] \<and>
   du_scanning (snd (du_step toy_host \<lparr>du_dir = \<lambda>_ _. None, du_is_dir = \<lambda>_ _. Inr True\<rparr> 0
      (Begin ''ch'' \<lparr>payload = ''storage.du'', superuser = None, extra = []\<rparr> None) du_start))"
  (is "du_running (snd (du_step ?h ?d ?w ?ev ?s)) = _ \<and> _")
proof -
  have "du_running (snd (du_step ?h ?d ?w ?ev ?s)) = [(''ch'', ''/'')]" by code_simp
  with scan_flag_tells_running [OF du_reach.step [OF du_reach.idle, of ?h ?d ?w ?ev]] show ?thesis by auto
qed

text \<open>A scan whose time is up says nothing, not even that the channel is closed.\<close>

theorem scan_timeout_is_silent: "fst (du_step h d w (TimedOut ch) s) = []"
  by (simp add: du_step_def du_finish_def split: option.split)

definition demo_device :: json where
  "demo_device = JObj [(''name'', JStr ''sda''), (''children'', JArr [JObj [(''name'', JStr ''sda1''), (''mountpoints'', JArr [JStr ''/''])]])]"

theorem device_tree_percents_witness:
  "fair_percents (enrich_device (\<lambda>_. Some demo_statvfs) (JObj [(''name'', JStr ''sda1''), (''mountpoints'', JArr [JStr ''/''])]))"
proof -
  let ?e = "enrich_device (\<lambda>_. Some demo_statvfs)"
  let ?c = "JObj [(''name'', JStr ''sda1''), (''mountpoints'', JArr [JStr ''/''])]"
  have "array_member (?e demo_device) ''children'' = [?e ?c]"
    by (simp only: enrich_device_children) (simp add: demo_device_def array_member_def unwrap_or_def)
  then have "node_of (?e demo_device) (?e ?c)" by (intro node_of.child [OF node_of.root]) simp
  from device_tree_percents [OF this] show ?thesis by blast
qed

theorem scan_shows_largest_witness:
  "\<exists>(shown :: du_entry list) (omitted :: du_entry list). jget (build_result None ''/'' (''5'' @ [CHR 0x09] @ ''/etc'')) ''entries'' = Some (JArr (map entry_json shown)) \<and>
     (\<forall>x \<in> set shown. \<forall>y \<in> set omitted. fst (snd y) \<le> fst (snd x))"
  using scan_shows_largest [of None "''/''" "''5'' @ [CHR 0x09] @ ''/etc''"] by blast

end
