(* ===== verification/AgentPolicy.thy ===== *)
theory AgentPolicy
  imports Cron Users Files Services HostActions SshHosts TimeSync SshManage StorageManage Security Kdump Dns LogFiles Certs
    Networking Containers AutoUpdates StorageReports
begin

text \<open>
  The agent as a whole: the router with the handlers of the other theories, and in whose name
  anything happens on the host. Each handler's own bound, proved in its theory, gives the bound
  of the router; the identity it acts for is the one the gateway attached to the channel.
\<close>

section \<open>The whole router\<close>

text \<open>The commands the agent runs as itself, by what they are for.\<close>

inductive agent_queries :: "'w agent_host \<Rightarrow> string \<Rightarrow> string list \<Rightarrow> bool" for h user where
  files: "limited h user args \<Longrightarrow> agent_queries h user args"
| services: "services_plain args \<Longrightarrow> agent_queries h user args"
| host: "host_plain args \<Longrightarrow> agent_queries h user args"
| settings: "settings_plain args \<Longrightarrow> agent_queries h user args"
| users: "users_plain args \<Longrightarrow> agent_queries h user args"
| hosts: "hosts_plain args \<Longrightarrow> agent_queries h user args"
| time: "time_plain args \<Longrightarrow> agent_queries h user args"
| ssh: "ssh_plain args \<Longrightarrow> agent_queries h user args"
| storage: "storage_plain args \<Longrightarrow> agent_queries h user args"
| security: "security_plain args \<Longrightarrow> agent_queries h user args"
| kdump: "kdump_plain args \<Longrightarrow> agent_queries h user args"
| dns: "dns_plain args \<Longrightarrow> agent_queries h user args"
| certs: "certs_plain user args \<Longrightarrow> agent_queries h user args"
| network: "net_query args \<Longrightarrow> agent_queries h user args"
| packages: "pkg_query h args \<Longrightarrow> agent_queries h user args"
| containers: "ct_own h args \<Longrightarrow> agent_queries h user args"
| reports: "report_plain args \<Longrightarrow> agent_queries h user args"

text \<open>The files the agent writes or removes itself.\<close>

definition agent_files :: "string set" where
  "agent_files = {hosts_path, sshd_check} \<union> {p. own_temp p}"

definition agent_effect :: "'w agent_host \<Rightarrow> string \<Rightarrow> effect \<Rightarrow> bool" where
  "agent_effect h user e \<longleftrightarrow> acts_as (agent_queries h) user e \<or> touches agent_files e"

text \<open>What the handlers take from outside: the serialisation of their files, the clock, the file system, dates,
  the certificate tools and the numbers of the reports; and how deep certificates are searched.\<close>

record 'w agent_env =
  ae_codec :: codec
  ae_root :: bool
  ae_now :: "'w \<Rightarrow> nat"
  ae_hostname :: "string option"
  ae_dumps :: "'w dump_fs"
  ae_dates :: "'w date_lib"
  ae_certs :: "'w cert_env"
  ae_fuel :: nat
  ae_reports :: "'w report_env"

text \<open>The modelled handlers that the router runs itself.\<close>

definition agent_handlers :: "'w agent_host \<Rightarrow> 'w agent_env \<Rightarrow> 'w agent_state handler list" where
  "agent_handlers h e =
     [system_info h (ae_now e) (ae_hostname e), audit_query h, system_pubkey h, host_config h, host_action h, system_settings h,
      chrony_manage h, timesync_manage h, systemd_units h, systemd_manage h, file_list h, file_read h, file_write h,
      file_delete h, file_mkdir h, journal_query h, superuser_verify h, hosts_manage h (ae_codec e) (ae_root e), users_manage h,
      cron_list h, cron_manage h, systemd_timers h, ssh_manage h, storage_manage h, security_status h, security_manage h,
      kdump_info h (ae_dumps e), dns_info h, dns_lookup h, dns_resolved_info h, dns_manage h, dns_resolved_manage h,
      log_files h (ae_dates e), certs_list h (ae_certs e) (ae_fuel e), certs_manage h (ae_certs e),
      certs_selfsigned h (ae_certs e), certs_letsencrypt h, networking_manage h, packages_manage h, container_manage h,
      disk_usage h (ae_reports e), network_stats h, hardware_info h (ae_reports e), top_processes h (ae_reports e),
      metrics_snapshot h (ae_reports e), networking_snapshot h (ae_reports e), storage_snapshot h (ae_reports e)]"

lemma agent_effect_acts: "acts_as B user e \<Longrightarrow> (\<And>a. B user a \<Longrightarrow> agent_queries h user a) \<Longrightarrow> agent_effect h user e"
  unfolding agent_effect_def by (blast intro: acts_as_mono)

lemma agent_effect_confined:
  "confined A U B user password e \<Longrightarrow> (\<And>a. B a \<Longrightarrow> agent_queries h user a) \<Longrightarrow> agent_effect h user e"
  by (rule agent_effect_acts [OF confined_acts_as [where B = "\<lambda>_. B"]])

lemma agent_effect_runs_as: "runs_as user e \<Longrightarrow> agent_effect h user e"
  by (cases e) (auto simp: agent_effect_def acts_as_def)

lemma agent_effect_log: "log_confined user password e \<Longrightarrow> agent_effect h user e"
  unfolding agent_effect_def by (blast intro: log_confined_acts_as)

lemma agent_effect_touching:
  "touches F e \<or> confined A U B user password e \<Longrightarrow> F \<subseteq> agent_files \<Longrightarrow> (\<And>a. B a \<Longrightarrow> agent_queries h user a) \<Longrightarrow>
   agent_effect h user e"
  unfolding agent_effect_def by (metis touches_mono confined_acts_as [where B = "\<lambda>_. B"] acts_as_mono)

lemma agent_effect_hosts: "hosts_confined user password e \<Longrightarrow> agent_effect h user e"
proof (rule agent_effect_touching)
  show "hosts_confined user password e \<Longrightarrow> touches {hosts_path} e \<or> confined nothing nothing hosts_plain user password e"
    by (cases e) (simp_all add: hosts_confined_def)
qed (auto simp: agent_files_def intro: agent_queries.hosts)

text \<open>A bound of a handler is a bound of the agent.\<close>

lemma agent_bound:
  assumes "bounded_handler f (\<lambda>u p. confined (A u p) (U u p) (B u p) u p)" and "\<And>u p a. B u p a \<Longrightarrow> agent_queries h u a"
  shows "bounded_handler f (\<lambda>u _. agent_effect h u)"
  by (rule bounded_mono [OF assms(1)]) (erule agent_effect_confined, rule assms(2))

lemma agent_bound_own: "bounded_handler f (\<lambda>u _. runs_as u) \<Longrightarrow> bounded_handler f (\<lambda>u _. agent_effect h u)"
  and agent_bound_hosts: "bounded_handler f hosts_confined \<Longrightarrow> bounded_handler f (\<lambda>u _. agent_effect h u)"
  and agent_bound_log: "bounded_handler f log_confined \<Longrightarrow> bounded_handler f (\<lambda>u _. agent_effect h u)"
  by (erule bounded_mono, erule agent_effect_runs_as agent_effect_hosts agent_effect_log)+

lemma agent_bound_ssh: "bounded_handler f (ssh_confined h) \<Longrightarrow> bounded_handler f (\<lambda>u _. agent_effect h u)"
  unfolding ssh_confined_def
  by (erule bounded_mono, erule agent_effect_touching) (auto simp: agent_files_def intro: agent_queries.ssh)

lemma agent_bound_certs: "bounded_handler f (certs_confined h) \<Longrightarrow> bounded_handler f (\<lambda>u _. agent_effect h u)"
  unfolding certs_confined_def
  by (erule bounded_mono, erule agent_effect_touching) (auto simp: agent_files_def intro: agent_queries.certs)

lemma agent_handlers_bounded:
  assumes "f \<in> set (agent_handlers h env)"
  shows "bounded_handler f (\<lambda>user _. agent_effect h user)"
proof -
  note files = agent_bound [of _ _ _ _ h, OF _ agent_queries.files]
  note services = agent_bound [of _ _ _ _ h, OF _ agent_queries.services]
  note host = agent_bound [of _ _ _ _ h, OF _ agent_queries.host]
  note settings = agent_bound [of _ _ _ _ h, OF _ agent_queries.settings]
  note time = agent_bound [of _ _ _ _ h, OF _ agent_queries.time]
  note users = agent_bound [of _ _ _ _ h, OF _ agent_queries.users]
  note storage = agent_bound [of _ _ _ _ h, OF _ agent_queries.storage]
  note security = agent_bound [of _ _ _ _ h, OF _ agent_queries.security]
  note kdump = agent_bound [of _ _ _ _ h, OF _ agent_queries.kdump]
  note dns = agent_bound [of _ _ _ _ h, OF _ agent_queries.dns]
  note network = agent_bound [of _ _ _ _ h, OF _ agent_queries.network]
  note packages = agent_bound [of _ _ _ _ h, OF _ agent_queries.packages]
  note containers = agent_bound [of _ _ _ _ h, OF _ agent_queries.containers]
  note reports = agent_bound [of _ _ _ _ h, OF _ agent_queries.reports]
  note bounds =
    files [OF file_read.bounded_handler_axioms]
    files [OF file_write.bounded_handler_axioms]
    files [OF file_mkdir.bounded_handler_axioms]
    files [OF file_delete.bounded_handler_axioms]
    files [OF file_list.bounded_handler_axioms]
    services [OF systemd_units.bounded_handler_axioms]
    services [OF systemd_manage.bounded_handler_axioms]
    services [OF systemd_timers.bounded_handler_axioms]
    services [OF journal_query.bounded_handler_axioms]
    host [OF host_action_bounded.bounded_handler_axioms]
    host [OF host_config.bounded_handler_axioms]
    host [OF system_pubkey.bounded_handler_axioms]
    host [OF system_info.bounded_handler_axioms]
    host [OF audit_query_bounded.bounded_handler_axioms]
    settings [OF system_settings.bounded_handler_axioms]
    time [OF chrony_manage.bounded_handler_axioms]
    time [OF timesync_manage.bounded_handler_axioms]
    users [OF users_manage_bounded.bounded_handler_axioms]
    storage [OF storage_manage.bounded_handler_axioms]
    security [OF security_status.bounded_handler_axioms]
    security [OF security_manage.bounded_handler_axioms]
    kdump [OF kdump_info.bounded_handler_axioms]
    dns [OF dns_info.bounded_handler_axioms]
    dns [OF dns_lookup.bounded_handler_axioms]
    dns [OF dns_resolved_info.bounded_handler_axioms]
    dns [OF dns_manage.bounded_handler_axioms]
    dns [OF dns_resolved_manage.bounded_handler_axioms]
    network [OF networking_manage.bounded_handler_axioms]
    packages [OF packages_manage.bounded_handler_axioms]
    containers [OF container_manage.bounded_handler_axioms]
    reports [OF disk_usage.bounded_handler_axioms]
    reports [OF network_stats.bounded_handler_axioms]
    reports [OF hardware_info.bounded_handler_axioms]
    reports [OF top_processes.bounded_handler_axioms]
    reports [OF metrics_snapshot.bounded_handler_axioms]
    reports [OF networking_snapshot.bounded_handler_axioms]
    reports [OF storage_snapshot.bounded_handler_axioms]
    agent_bound_own [OF cron_list.bounded_handler_axioms]
    agent_bound_own [OF cron_manage.bounded_handler_axioms]
    agent_bound_own [OF superuser_verify.bounded_handler_axioms]
    agent_bound_hosts [OF hosts_manage_bounded.bounded_handler_axioms]
    agent_bound_log [OF log_files.bounded_handler_axioms]
    agent_bound_ssh [OF ssh_manage.bounded_handler_axioms]
    agent_bound_certs [OF certs_list.bounded_handler_axioms]
    agent_bound_certs [OF certs_manage.bounded_handler_axioms]
    agent_bound_certs [OF certs_selfsigned.bounded_handler_axioms]
    agent_bound_certs [OF certs_letsencrypt.bounded_handler_axioms]
  from assms show ?thesis
    unfolding agent_handlers_def by (simp only: set_simps insert_iff empty_iff) (elim disjE FalseE; simp only: bounds)
qed

section \<open>All payloads\<close>

lemma payload_shapes:
  "hd_payload (answering n f) = n" "hd_payload (conversing n g) = n" "hd_payload (answering_or_panic n f') = n"
  "hd_payload (conversing_or_panic n g') = n" "hd_payload (closing n fo g) = n" "hd_payload (greeting n m g) = n"
  by (simp_all add: answering_def conversing_def answering_or_panic_def conversing_or_panic_def closing_def greeting_def)

lemma agent_payloads:
  "map hd_payload (agent_handlers h e) =
     [''system.info'', ''audit.query'', ''system.pubkey'', ''host.config'', ''host.action'', ''system.settings'',
      ''chrony.manage'', ''timesync.manage'', ''systemd.units'', ''systemd.manage'', ''file.list'', ''file.read'', ''file.write'',
      ''file.delete'', ''file.mkdir'', ''journal.query'', ''superuser.verify'', ''hosts.manage'', ''users.manage'',
      ''cron.list'', ''cron.manage'', ''systemd.timers'', ''ssh.manage'', ''storage.manage'', ''security.status'', ''security.manage'',
      ''kdump.info'', ''dns.info'', ''dns.lookup'', ''dns.resolved.info'', ''dns.manage'', ''dns.resolved.manage'',
      ''log.files'', ''certs.list'', ''certs.manage'', ''certs.selfsigned'', ''certs.letsencrypt'', ''networking.manage'',
      ''packages.manage'', ''container.manage'', ''disk.usage'', ''network.stats'', ''hardware.info'', ''top.processes'',
      ''metrics.snapshot'', ''networking.snapshot'', ''storage.snapshot'']"
  by (simp add: agent_handlers_def payload_shapes system_info_def audit_query_def system_pubkey_def host_config_def host_action_def
      system_settings_def chrony_manage_def timesync_manage_def systemd_units_def systemd_manage_def file_list_def
      file_read_def file_write_def file_delete_def file_mkdir_def journal_query_def hosts_manage_def
      users_manage_def systemd_timers_def ssh_manage_def storage_manage_def
      security_status_def security_manage_def kdump_info_def dns_info_def dns_lookup_def dns_resolved_info_def
      dns_manage_def dns_resolved_manage_def log_files_def certs_manage_def certs_selfsigned_def
      certs_letsencrypt_def networking_manage_def packages_manage_def container_manage_def
      disk_usage_def network_stats_def hardware_info_def top_processes_def metrics_snapshot_def networking_snapshot_def
      storage_snapshot_def certs_list_def cron_list_def cron_manage_def superuser_verify_def)

text \<open>Every payload the agent registers has its handler here or is one of the four streams.\<close>

theorem agent_handlers_complete:
  "distinct (map hd_payload (agent_handlers h e))"
  "set default_payloads = hd_payload ` set (agent_handlers h e) \<union> {''terminal.pty'', ''storage.stream'', ''storage.du'', ''networking.stream''}"
proof -
  have img: "hd_payload ` set (agent_handlers h e) = set (map hd_payload (agent_handlers h e))" by simp
  show "distinct (map hd_payload (agent_handlers h e))" unfolding agent_payloads by simp
  show "set default_payloads = hd_payload ` set (agent_handlers h e) \<union> {''terminal.pty'', ''storage.stream'', ''storage.du'', ''networking.stream''}"
    unfolding img agent_payloads default_payloads_def by auto
qed

text \<open>So a channel opened with a registered payload that is no stream reaches its handler.\<close>

theorem payload_served:
  assumes "p \<in> set default_payloads" and "p \<notin> {''terminal.pty'', ''storage.stream'', ''storage.du'', ''networking.stream''}"
  shows "\<exists>f \<in> set (agent_handlers h e). hd_payload f = p \<and> hm_get (rt_handlers (register_all (agent_handlers h e))) p = Some f"
proof -
  from assms have "p \<in> hd_payload ` set (agent_handlers h e)" by (simp only: agent_handlers_complete(2) [of h e] Un_iff simp_thms)
  then obtain f where f: "f \<in> set (agent_handlers h e)" "p = hd_payload f" by (rule imageE)
  show ?thesis by (rule bexI [OF _ f(1)]) (simp only: f(2) register_all_get [OF agent_handlers_complete(1) f(1)] simp_thms)
qed

section \<open>In whose name\<close>

definition knows :: "'s handler list \<Rightarrow> 's router \<Rightarrow> bool" where
  "knows hs r \<longleftrightarrow>
     (\<forall>p f. hm_get (rt_handlers r) p = Some f \<longrightarrow> f \<in> set hs) \<and>
     (\<forall>ch f. hm_get (rt_active r) ch = Some f \<longrightarrow> f \<in> set hs) \<and>
     (\<forall>ch f. hm_get (rt_channels r) ch = Some f \<longrightarrow> f \<in> set hs)"

lemma register_all_knows: "knows hs (register_all hs)"
proof -
  have "\<forall>p f. hm_get (rt_handlers (register_all hs)) p = Some f \<longrightarrow> f \<in> set hs"
    by (induction hs rule: rev_induct) (auto simp: register_all_def router_new_def router_register_def split: if_splits)
  then show ?thesis by (simp add: knows_def register_all_empty)
qed

lemma knows_step:
  assumes "knows hs r" and "handle m r s = (out, tasks, r', s')"
  shows "knows hs r'"
  using assms(2)
proof (cases rule: handle_cases)
  case (opened ch o')
  from opened(2) show ?thesis
    by (cases rule: handle_open_cases) (use assms(1) in \<open>auto simp: knows_def split: if_splits\<close>)
next
  case (closed ch p)
  with assms(1) show ?thesis by (auto simp: knows_def handle_close_def split: if_splits)
qed (use assms(1) in simp)

lemma router_reach_knows: "router_reach hs who r \<Longrightarrow> knows hs r"
  by (induction rule: router_reach.induct) (auto intro: register_all_knows knows_step)

lemma data_handler_known: "knows hs r \<Longrightarrow> data_handler r ch = Some f \<Longrightarrow> f \<in> set hs"
  by (auto simp: knows_def data_handler_def split: option.splits)

text \<open>What a handler is told: the channel's identity, or nothing when the data is no object.\<close>

lemma told_data:
  assumes "router_reach hs who r" and "data_handler r ch = Some f"
    and "e = enrich_data (hm_get (rt_options r) ch) d"
  shows "jget_str e ''_user'' = Some (fst (who ch)) \<and> jget_str e ''_role'' = Some (snd (who ch)) \<or>
    as_object d = None \<and> jget_str e ''_user'' = None \<and> jget_str e ''_role'' = None"
proof -
  from router_reach_inv [OF assms(1)] have "row_ok who r ch" by (simp add: router_inv_def)
  with assms(2) obtain o' where o': "hm_get (rt_options r) ch = Some o'"
    "told o' = (Some (fst (who ch)), Some (snd (who ch)))"
    by (auto simp: row_ok_def)
  from enrich_data_told [OF o'(2), of d] not_object_no_member [of d] show ?thesis
    by (auto simp: assms(3) o'(1))
qed

text \<open>The names a message may act under: the user of its channel, or nobody.\<close>

definition acts_for :: "(string \<Rightarrow> string \<times> string) \<Rightarrow> message \<Rightarrow> string \<Rightarrow> bool" where
  "acts_for who m u \<longleftrightarrow>
     (case m of
        Open ch _ \<Rightarrow> u = fst (who ch)
      | Data ch d \<Rightarrow> u = fst (who ch) \<or> (as_object d = None \<and> u = [])
      | _ \<Rightarrow> False)"

lemma bounded_router:
  assumes "\<And>f. f \<in> set hs \<Longrightarrow> bounded_handler f (\<lambda>u _. P u)"
    and "router_reach hs who r" and "fair_message who r m" and "handle m r s = (out, tasks, r', s')"
  shows "\<exists>es. w_log (st_world s') = w_log (st_world s) @ es \<and> (es = [] \<or> (\<exists>u. acts_for who m u \<and> list_all (P u) es))"
proof -
  have known: "knows hs r" using assms(2) by (rule router_reach_knows)
  consider (opened) ch o' f where "m = Open ch o'" "hm_get (rt_handlers r) (payload o') = Some f"
    | (told) ch d f where "m = Data ch d" "data_handler r ch = Some f"
    | (quiet) "s' = s"
    using assms(4)
    by (cases m) (auto simp: handle_def handle_open_def handle_data_def handle_close_def split: option.splits prod.splits)
  then show ?thesis
  proof cases
    case opened
    then have "bounded_handler f (\<lambda>u _. P u)" using known assms(1) by (auto simp: knows_def)
    then obtain es where es: "w_log (st_world s') = w_log (st_world s) @ es" "list_all (P (opt_str o' ''_user'')) es"
      using bounded_handler.handled_open [of f "\<lambda>u _. P u" r o' ch s] opened assms(4) by blast
    have "opt_str o' ''_user'' = fst (who ch)"
      using assms(3) opened(1) by (simp add: fair_message_def told_def opt_str_def)
    with es opened(1) show ?thesis by (auto simp: acts_for_def)
  next
    case told
    let ?e = "enrich_data (hm_get (rt_options r) ch) d"
    have "bounded_handler f (\<lambda>u _. P u)" using data_handler_known [OF known told(2)] assms(1) by blast
    then obtain es where es: "w_log (st_world s') = w_log (st_world s) @ es" "list_all (P (str_field ?e ''_user'')) es"
      using bounded_handler.handled_data [of f "\<lambda>u _. P u" r ch d s] told assms(4) by blast
    have "acts_for who m (str_field ?e ''_user'')"
      using told_data [OF assms(2) told(2) refl, of d] told(1) by (auto simp: acts_for_def str_field_def)
    with es show ?thesis by blast
  next
    case quiet
    then show ?thesis by simp
  qed
qed


section \<open>Sessions without the admin role\<close>

text \<open>The handlers whose changes are for administrators.\<close>

definition guarded_handlers :: "'w agent_host \<Rightarrow> 'w agent_env \<Rightarrow> 'w agent_state handler list" where
  "guarded_handlers h e =
     [audit_query h, host_action h, system_settings h, chrony_manage h, timesync_manage h, systemd_manage h,
      hosts_manage h (ae_codec e) (ae_root e), users_manage h, cron_manage h, ssh_manage h, storage_manage h, security_manage h,
      dns_manage h, dns_resolved_manage h, certs_manage h (ae_certs e), certs_selfsigned h (ae_certs e), certs_letsencrypt h,
      networking_manage h, packages_manage h]"

inductive reader_commands :: "'w agent_host \<Rightarrow> string list \<Rightarrow> bool" for h where
  services: "services_plain args \<Longrightarrow> reader_commands h args"
| settings: "settings_plain args \<Longrightarrow> reader_commands h args"
| users: "users_plain args \<Longrightarrow> reader_commands h args"
| time: "time_plain args \<Longrightarrow> reader_commands h args"
| scan: "scan_plain args \<Longrightarrow> reader_commands h args"
| ssh: "ssh_plain args \<Longrightarrow> reader_commands h args"
| storage: "storage_plain args \<Longrightarrow> reader_commands h args"
| certbot: "certbot_plain args \<Longrightarrow> reader_commands h args"
| packages: "pkg_query h args \<Longrightarrow> reader_commands h args"

text \<open>Queries, or the list of sockets, which may be asked for with the user's own \<open>sudo\<close>.\<close>

definition reader_effect :: "'w agent_host \<Rightarrow> effect \<Rightarrow> bool" where
  "reader_effect h e \<longleftrightarrow> queries (reader_commands h) e \<or> net_reading e"

lemma queries_mono: "queries B e \<Longrightarrow> (\<And>a. B a \<Longrightarrow> B' a) \<Longrightarrow> queries B' e"
  by (auto simp: queries_def intro: as_agent_mono)

lemma reader_asks:
  assumes "reading_handler f (queries B)" and "\<And>a. B a \<Longrightarrow> reader_commands h a"
  shows "reading_handler f (reader_effect h)"
  by (rule reading_mono [OF assms(1)]) (auto simp: reader_effect_def intro: assms(2) elim!: queries_mono)

lemma reader_silent: "reading_handler f (\<lambda>_. False) \<Longrightarrow> reading_handler f (reader_effect h)"
  and reader_network: "reading_handler f net_reading \<Longrightarrow> reading_handler f (reader_effect h)"
  by (erule reading_mono, simp add: reader_effect_def)+

lemma guarded_handlers_read:
  assumes "f \<in> set (guarded_handlers h env)"
  shows "reading_handler f (reader_effect h)"
proof -
  note facts =
    reader_asks [OF systemd_manage.reading_handler_axioms reader_commands.services]
    reader_asks [OF system_settings.reading_handler_axioms reader_commands.settings]
    reader_asks [OF users_manage.reading_handler_axioms reader_commands.users]
    reader_asks [OF chrony_manage.reading_handler_axioms reader_commands.time]
    reader_asks [OF timesync_manage.reading_handler_axioms reader_commands.time]
    reader_asks [OF hosts_manage.reading_handler_axioms reader_commands.scan]
    reader_asks [OF ssh_manage.reading_handler_axioms reader_commands.ssh]
    reader_asks [OF storage_manage.reading_handler_axioms reader_commands.storage]
    reader_asks [OF certs_letsencrypt.reading_handler_axioms reader_commands.certbot]
    reader_asks [OF packages_manage.reading_handler_axioms reader_commands.packages]
    reader_silent [OF audit_query.reading_handler_axioms]
    reader_silent [OF host_action.reading_handler_axioms]
    reader_silent [OF cron_manage.reading_handler_axioms]
    reader_silent [OF security_manage.reading_handler_axioms]
    reader_silent [OF dns_manage.reading_handler_axioms]
    reader_silent [OF dns_resolved_manage.reading_handler_axioms]
    reader_silent [OF certs_manage.reading_handler_axioms]
    reader_silent [OF certs_selfsigned.reading_handler_axioms]
    reader_network [OF networking_manage.reading_handler_axioms]
  from assms show ?thesis
    unfolding guarded_handlers_def by (simp only: set_simps insert_iff empty_iff) (elim disjE FalseE; simp only: facts)
qed

text \<open>The handler a message reaches.\<close>

definition reaches :: "'s router \<Rightarrow> message \<Rightarrow> 's handler \<Rightarrow> bool" where
  "reaches r m f \<longleftrightarrow>
     (case m of
        Open ch o' \<Rightarrow> hm_get (rt_handlers r) (payload o') = Some f
      | Data ch _ \<Rightarrow> data_handler r ch = Some f
      | _ \<Rightarrow> False)"

lemma readonly_effects:
  assumes "router_reach hs who r" and "fair_message who r m" and "handle m r s = (out, tasks, r', s')"
    and "reaches r m f" and "f \<in> set (guarded_handlers h env)"
    and "msg_channel m = Some ch" and "snd (who ch) \<noteq> ''admin''"
  shows "\<exists>es. w_log (st_world s') = w_log (st_world s) @ es \<and> list_all (reader_effect h) es"
proof -
  have rd: "reading_handler f (reader_effect h)" using assms(5) by (rule guarded_handlers_read)
  consider (opened) o' where "m = Open ch o'" "hm_get (rt_handlers r) (payload o') = Some f"
    | (told) d where "m = Data ch d" "data_handler r ch = Some f"
    using assms(4,6) by (cases m) (auto simp: reaches_def)
  then show ?thesis
  proof cases
    case opened
    then have "map_str (extra o') ''_role'' \<noteq> Some ''admin''"
      using assms(2,7) by (auto simp: fair_message_def told_def)
    with opened assms(3) show ?thesis using reading_handler.read_open [OF rd] by blast
  next
    case told
    have "jget_str (enrich_data (hm_get (rt_options r) ch) d) ''_role'' \<noteq> Some ''admin''"
      using told_data [OF assms(1) told(2) refl, of d] assms(7) by auto
    with told assms(3) show ?thesis using reading_handler.read_data [OF rd] by blast
  qed
qed


section \<open>A concrete agent\<close>

definition reader_options :: "string \<Rightarrow> open_options" where
  "reader_options p = \<lparr>payload = p, superuser = None,
     extra = [(''_user'', JStr ''alice''), (''_role'', JStr ''readonly''), (''action'', JStr ''reboot'')]\<rparr>"

definition reader_open :: message where
  "reader_open = Open ''c'' (reader_options ''host.action'')"

lemma reader_open_fair: "fair_message (\<lambda>_. (''alice'', ''readonly'')) (register_all hs) reader_open"
  by (simp add: reader_open_def reader_options_def fair_message_def told_def map_str_def hm_has_def register_all_empty)

definition toy_env :: "nat agent_env" where
  "toy_env = \<lparr>ae_codec = bob_codec, ae_root = True, ae_now = (\<lambda>n. n), ae_hostname = None,
     ae_dumps = \<lparr>df_entry = \<lambda>_ _. None, df_format = \<lambda>_. None\<rparr>, ae_dates = toy_dates, ae_certs = toy_certs, ae_fuel = 10,
     ae_reports = \<lparr>re_statvfs = \<lambda>_ _. None, re_second = \<lambda>n. n + 1, re_uname = \<lambda>_. None, re_f64 = \<lambda>_ _. ''0.0''\<rparr>\<rparr>"



end
