(* ===== verification/Conversations.thy ===== *)
theory Conversations
  imports AgentPolicy
begin

text \<open>
  What the agent says on the wire: every answer of the modelled handlers has one of a few forms,
  on the channel of the frame it answers, and a channel that was closed with the answer to its
  open is no longer served.
\<close>

section \<open>Forms of answers\<close>

text \<open>The answer to an open: one-shot, a greeting, ready for data, or nothing when the handler panicked.\<close>

inductive opening_answer :: "string \<Rightarrow> message list \<Rightarrow> bool" for ch where
  one_shot: "opening_answer ch (one_shot ch d)"
| greeting: "opening_answer ch [Ready ch, Data ch d]"
| ready: "opening_answer ch [Ready ch]"
| panic: "opening_answer ch []"

text \<open>The answer to data: one message, and possibly the end; or nothing.\<close>

inductive data_answer :: "string \<Rightarrow> message list \<Rightarrow> bool" for ch where
  answer: "data_answer ch [Data ch d]"
| last: "data_answer ch [Data ch d, Close ch None]"
| silent: "data_answer ch []"

definition speaks :: "'s handler \<Rightarrow> bool" where
  "speaks f \<longleftrightarrow>
     \<not> hd_streaming f \<and> (\<forall>ch o' s. opening_answer ch (fst (hd_open f ch o' s))) \<and>
     (\<forall>ch d s. data_answer ch (fst (hd_data f ch d s)))"

definition well_typed :: "message \<Rightarrow> message list \<Rightarrow> bool" where
  "well_typed m out \<longleftrightarrow>
     (case m of
        Open ch o' \<Rightarrow> opening_answer ch out \<or> out = [Close ch (Some (''unknown-payload: '' @ payload o'))]
      | Data ch d \<Rightarrow> data_answer ch out
      | Ping \<Rightarrow> out = [Pong]
      | _ \<Rightarrow> out = [])"

lemma speaks_shapes:
  "speaks (answering n f)" "speaks (conversing n g)" "speaks (answering_or_panic n f')" "speaks (conversing_or_panic n g')"
  "speaks (closing n fo g)" "speaks (greeting n m' g)"
  by (auto simp: speaks_def shape_simps intro: opening_answer.intros data_answer.intros split: option.splits)

lemma speaks_one_shot:
  assumes "\<And>ch o' s. fst (hd_open f ch o' s) = [] \<or> (\<exists>d. fst (hd_open f ch o' s) = one_shot ch d)"
    and "hd_data f = no_data" and "\<not> hd_streaming f"
  shows "speaks f"
  using assms unfolding speaks_def no_data_def by (metis fst_conv opening_answer.intros data_answer.intros)

lemma speaks_others:
  "speaks (certs_list h ce fuel)" "speaks (cron_list h)" "speaks (cron_manage h)" "speaks (superuser_verify h)"
  by (rule speaks_one_shot;
      auto simp: certs_list_def cron_list_def cron_manage_def superuser_verify_def split: prod.splits option.splits)+

lemma agent_handlers_speak: "f \<in> set (agent_handlers h env) \<Longrightarrow> speaks f"
  unfolding agent_handlers_def set_simps insert_iff empty_iff
  by (elim disjE FalseE; hypsubst; (rule speaks_others)?;
      (simp only: system_info_def audit_query_def system_pubkey_def host_config_def host_action_def
      system_settings_def chrony_manage_def timesync_manage_def systemd_units_def systemd_manage_def file_list_def
      file_read_def file_write_def file_delete_def file_mkdir_def journal_query_def hosts_manage_def
      users_manage_def systemd_timers_def ssh_manage_def storage_manage_def
      security_status_def security_manage_def kdump_info_def dns_info_def dns_lookup_def dns_resolved_info_def
      dns_manage_def dns_resolved_manage_def log_files_def certs_manage_def certs_selfsigned_def
      certs_letsencrypt_def networking_manage_def packages_manage_def container_manage_def
      disk_usage_def network_stats_def hardware_info_def top_processes_def metrics_snapshot_def networking_snapshot_def
      storage_snapshot_def speaks_shapes)?)

section \<open>The router\<close>

lemma router_never_streams:
  assumes "\<And>f. f \<in> set hs \<Longrightarrow> \<not> hd_streaming f"
  shows "router_reach hs who r \<Longrightarrow> rt_active r = []"
proof (induction rule: router_reach.induct)
  case start
  then show ?case by (simp add: register_all_empty)
next
  case (step r m s out tasks r' s')
  have known: "knows hs r" using step.hyps(1) by (rule router_reach_knows)
  show ?case using step.hyps(3)
  proof (cases rule: handle_cases)
    case (opened ch o')
    from opened(2) show ?thesis
      by (cases rule: handle_open_cases) (use step.IH assms known in \<open>auto simp: knows_def\<close>)
  next
    case (closed ch p)
    with step.IH show ?thesis by (simp add: handle_close_def)
  qed (use step.IH in simp)
qed

lemma agent_never_streams: "router_reach (agent_handlers h env) who r \<Longrightarrow> rt_active r = []"
  by (rule router_never_streams) (auto dest: agent_handlers_speak simp: speaks_def)



end
