(* ===== verification/SystemWhole.thy ===== *)
theory SystemWhole
  imports WsClient Conversations
begin

text \<open>
  The gateway and one agent together: any number of browser sockets of any number of sessions,
  the frames the gateway has put on the agent's connection and the agent has not read yet, and
  the agent's router with its handlers. What the gateway keeps beside the sockets (the registry,
  the session store, whether a send succeeds) may be anything at every turn.
\<close>

section \<open>The composed system\<close>

record 'w system =
  sy_sockets :: "nat \<Rightarrow> ws_state option"
  sy_wire :: "message list"
  sy_router :: "'w agent_state router"
  sy_agent :: "'w agent_state"

text \<open>The frames for one connection.\<close>

definition frames_for :: "nat \<Rightarrow> ws_effect list \<Rightarrow> message list" where
  "frames_for cid out = List.map_filter (\<lambda>e. case e of ToAgent c m \<Rightarrow> if c = cid then Some m else None | _ \<Rightarrow> None) out"

lemma frames_for_sent: "m \<in> set (frames_for cid out) \<Longrightarrow> ToAgent cid m \<in> set out"
  by (auto simp: frames_for_def List.map_filter_def split: ws_effect.splits if_splits)

lemma sent_frames_for: "ToAgent cid m \<in> set out \<Longrightarrow> m \<in> set (frames_for cid out)"
  by (force simp: frames_for_def List.map_filter_def)

text \<open>A socket of a session opens; a socket takes a turn; the agent reads a frame, and handles it when it decodes.\<close>

inductive system_reach ::
  "'w agent_state handler list \<Rightarrow> (string \<Rightarrow> session option) \<Rightarrow> nat \<Rightarrow> 'w agent_state \<Rightarrow> 'w system \<Rightarrow> bool"
  for hs sess cid s0 where
  start: "system_reach hs sess cid s0 \<lparr>sy_sockets = \<lambda>_. None, sy_wire = [], sy_router = register_all hs, sy_agent = s0\<rparr>"
| accept: "system_reach hs sess cid s0 y \<Longrightarrow> sess tok = Some s \<Longrightarrow>
    system_reach hs sess cid s0 (y\<lparr>sy_sockets := (sy_sockets y)(n \<mapsto> ws_init tok s)\<rparr>)"
| socket: "system_reach hs sess cid s0 y \<Longrightarrow> sy_sockets y n = Some w \<Longrightarrow>
    ws_turn send_ok now sub i (w, rg, ss) = (out, w', rest) \<Longrightarrow>
    system_reach hs sess cid s0
      (y\<lparr>sy_sockets := (sy_sockets y)(n := w'), sy_wire := sy_wire y @ frames_for cid out\<rparr>)"
| handled: "system_reach hs sess cid s0 y \<Longrightarrow> sy_wire y = m # q \<Longrightarrow> decode_message m = Some m' \<Longrightarrow>
    handle m' (sy_router y) (sy_agent y) = (out, tasks, r', s') \<Longrightarrow>
    system_reach hs sess cid s0 (y\<lparr>sy_wire := q, sy_router := r', sy_agent := s'\<rparr>)"
| dropped: "system_reach hs sess cid s0 y \<Longrightarrow> sy_wire y = m # q \<Longrightarrow> decode_message m = None \<Longrightarrow>
    system_reach hs sess cid s0 (y\<lparr>sy_wire := q\<rparr>)"

text \<open>Session ids are those of the \<open>uuid\<close> crate, and their first eight digits tell sessions of different
  identity apart.\<close>

definition sessions_apart :: "(string \<Rightarrow> session option) \<Rightarrow> bool" where
  "sessions_apart sess \<longleftrightarrow>
     (\<forall>tok s. sess tok = Some s \<longrightarrow> uuid_text tok) \<and>
     (\<forall>tok s tok' s'. sess tok = Some s \<longrightarrow> sess tok' = Some s' \<longrightarrow> session_prefix tok = session_prefix tok' \<longrightarrow>
        sess_user s = sess_user s' \<and> sess_role s = sess_role s')"

text \<open>The identity of a channel on the wire.\<close>

definition owns :: "(string \<Rightarrow> session option) \<Rightarrow> (string \<Rightarrow> string \<times> string) \<Rightarrow> bool" where
  "owns sess who \<longleftrightarrow>
     (\<forall>tok s ch. sess tok = Some s \<longrightarrow> who (prefixed (session_prefix tok) ch) = (sess_user s, role_str (sess_role s)))"

lemma owner_exists:
  assumes "sessions_apart sess"
  shows "\<exists>who. owns sess who"
proof -
  let ?P = "\<lambda>ch x. \<forall>tok s. sess tok = Some s \<longrightarrow> session_prefix tok = take SESSION_PREFIX_LEN ch \<longrightarrow>
      x = (sess_user s, role_str (sess_role s))"
  have "\<exists>x. ?P ch x" for ch
  proof (cases "\<exists>tok s. sess tok = Some s \<and> session_prefix tok = take SESSION_PREFIX_LEN ch")
    case True
    then obtain tok s where "sess tok = Some s" "session_prefix tok = take SESSION_PREFIX_LEN ch" by blast
    then show ?thesis using assms unfolding sessions_apart_def
      by (intro exI [of _ "(sess_user s, role_str (sess_role s))"]) metis
  qed blast
  then obtain who where who: "\<And>ch. ?P ch (who ch)" by metis
  have "take SESSION_PREFIX_LEN (prefixed (session_prefix tok) ch) = session_prefix tok" if "sess tok = Some s" for tok s ch
    using assms that uuid_prefix_ok [of tok] by (auto simp: sessions_apart_def prefixed_def prefix_ok_def)
  then show ?thesis using who unfolding owns_def by (intro exI [of _ who]) metis
qed

section \<open>What holds in every reachable state\<close>

definition system_inv ::
  "'w agent_state handler list \<Rightarrow> (string \<Rightarrow> session option) \<Rightarrow> (string \<Rightarrow> string \<times> string) \<Rightarrow> 'w system \<Rightarrow> bool" where
  "system_inv hs sess who y \<longleftrightarrow>
     (\<forall>n w. sy_sockets y n = Some w \<longrightarrow> (\<exists>tok s. sess tok = Some s \<and> ws_reach tok s w)) \<and>
     (\<forall>m \<in> set (sy_wire y). \<exists>tok s. sess tok = Some s \<and> sent_ok tok s m) \<and>
     router_reach hs who (sy_router y)"

lemma sent_is_fair:
  assumes "owns sess who" and "sess tok = Some s" and "sent_ok tok s m" and "rt_active r = []"
  shows "fair_message who r m"
proof -
  obtain m0 where m: "m = prefix_message m0 (session_prefix tok)"
    and c: "case m0 of Open _ o' \<Rightarrow> map_str (extra o') ''_user'' = Some (sess_user s) \<and>
        map_str (extra o') ''_role'' = Some (role_str (sess_role s)) \<and> hm_get (extra o') ''host'' = None
      | Ready _ \<Rightarrow> False | _ \<Rightarrow> True"
    using assms(3) unfolding sent_ok_def by blast
  show ?thesis
    using m c assms(1,2,4) by (cases m0) (auto simp: fair_message_def told_def owns_def hm_has_def)
qed

lemma system_reach_inv:
  assumes "owns sess who" and "\<And>f. f \<in> set hs \<Longrightarrow> \<not> hd_streaming f"
  shows "system_reach hs sess cid s0 y \<Longrightarrow> system_inv hs sess who y"
proof (induction rule: system_reach.induct)
  case start
  then show ?case by (simp add: system_inv_def router_reach.start)
next
  case (accept y tok s n)
  then show ?case by (auto simp: system_inv_def intro: ws_reach.start)
next
  case (socket y n w send_ok now sub i rg ss out w' rest)
  have "\<exists>tok s. sess tok = Some s \<and> ws_reach tok s w" using socket.IH socket.hyps(2) by (simp add: system_inv_def)
  then obtain tok s where w: "sess tok = Some s" "ws_reach tok s w" by blast
  have "sent_ok tok s m" if "m \<in> set (frames_for cid out)" for m
    by (rule turn_sends [OF w(2) socket.hyps(3) frames_for_sent [OF that]])
  moreover have "ws_reach tok s v" if "w' = Some v" for v
    using ws_reach.turn [OF w(2)] socket.hyps(3) that by blast
  ultimately show ?case using socket.IH w(1) unfolding system_inv_def by (auto split: if_splits; blast)
next
  case (handled y m q m' out tasks r' s')
  then obtain tok s where m: "sess tok = Some s" "sent_ok tok s m" by (auto simp: system_inv_def)
  have r: "router_reach hs who (sy_router y)" using handled.IH by (simp add: system_inv_def)
  then have "rt_active (sy_router y) = []" using assms(2) by (rule router_never_streams [rotated])
  with sent_is_fair [OF assms(1) m] decode_message_wf [OF handled.hyps(3)] have "fair_message who (sy_router y) m'" by simp
  with handled r show ?case by (auto simp: system_inv_def intro: router_reach.step)
next
  case (dropped y m q)
  then show ?case by (auto simp: system_inv_def)
qed

section \<open>Whose session, whose account\<close>


section \<open>A concrete system\<close>

definition demo_sessions :: "string \<Rightarrow> session option" where
  "demo_sessions tok = (if tok = demo_uuid then Some demo_sess else None)"


end
