(* ===== verification/Spec2Isabelle.thy ===== *)
theory Spec2Isabelle
  imports Protocol NetAddr RateLimit Sessions HostsConfig AgentCrypto Tokens PendingQueue Routing
    Registry Enrollment AuditLog Http Pam GwAuth GwConfig GwRest WsClient
    AgentSession Terminal TerminalStream Cron Users Files Services HostActions SshHosts Settings TimeSync SshManage StorageManage Security Kdump
    Dns LogFiles Certs Networking Containers Packages AutoUpdates Floats Reports StorageReports AgentPolicy Conversations
    SystemWhole
begin

text \<open>
  A verification library of Tenodera, a web panel for Linux hosts.

  \<^bold>\<open>The program.\<close> A gateway (\<open>src/panel/crates/gateway\<close>, paths below it are written \<open>gateway/\<close>) serves the browsers
  over HTTP and WebSockets and keeps one WebSocket for each host on which an agent (\<open>src/agent\<close>) runs as root. A browser
  logs in with a password that a helper process (\<open>src/panel/crates/pam-helper\<close>) checks against PAM, gets a session, and opens
  channels; the gateway attaches the session's user and role to each channel, prefixes its id with the session's and forwards it to the
  agent of the host; the agent routes the channel to one of its handlers, which answers once, stays open for data, or
  streams. An agent enrols with a bootstrap token or by an administrator's approval, and proves its key at every connection.
  The messages are those of \<open>src/protocol\<close>.

  \<^bold>\<open>Theories and code.\<close>

  \<^item> Shared vocabulary: \<open>Prelude\<close> (collections of rewrite rules, time, hash maps as association lists), \<open>RustStr\<close> and
    \<open>TextFacts\<close> (the functions of \<open>str\<close> on UTF-8 bytes, and facts on them), \<open>Json\<close> (\<open>serde_json::Value\<close>), \<open>NetAddr\<close> (the parser and printer of
    \<open>std::net\<close>), \<open>Paths\<close> (\<open>std::path\<close>), \<open>Floats\<close> (\<open>f64\<close>), \<open>ExpiringStore\<close> (a locale: stores whose entries die of age).
  \<^item> The wire: \<open>Protocol\<close> (\<open>protocol/src/message.rs\<close>, \<open>channel.rs\<close>, \<open>auth.rs\<close>).
  \<^item> The gateway's state: \<open>Sessions\<close> (\<open>session.rs\<close>), \<open>RateLimit\<close> (\<open>rate_limit.rs\<close>), \<open>HostsConfig\<close> (\<open>hosts_config.rs\<close>),
    \<open>AgentCrypto\<close>, \<open>Tokens\<close>, \<open>PendingQueue\<close> (\<open>agent_auth.rs\<close>), \<open>Routing\<close> and \<open>Registry\<close> (\<open>agent_registry.rs\<close>), \<open>AuditLog\<close> (\<open>audit.rs\<close> of the gateway and of
    the agent).
  \<^item> The gateway's protocols: \<open>Enrollment\<close> (\<open>agent_ws.rs\<close> and the approval in \<open>main.rs\<close>) is a step function over the phases of a connection;
    \<open>WsClient\<close> (\<open>ws.rs\<close>) one turn of a browser's select loop; \<open>Http\<close> (\<open>security_headers.rs\<close>), \<open>Pam\<close> (\<open>pam.rs\<close> and the helper's \<open>main.rs\<close>), \<open>GwAuth\<close>
    (\<open>auth.rs\<close>), \<open>GwConfig\<close> (\<open>config.rs\<close>, \<open>tls.rs\<close>, the start in \<open>main.rs\<close>), \<open>GwRest\<close> (the REST handlers of \<open>main.rs\<close>).
  \<^item> The agent: \<open>AgentConfig\<close> and \<open>AgentSession\<close> (\<open>config.rs\<close>, \<open>identity.rs\<close>, \<open>main.rs\<close>), \<open>AgentRouter\<close> (\<open>router.rs\<close>, \<open>handler.rs\<close>), \<open>AgentUtil\<close> (\<open>util.rs\<close>),
    \<open>Superuser\<close> (\<open>superuser_verify.rs\<close>). \<open>Host\<close> and \<open>Handlers\<close> hold the state monad in which the handlers are written, the shapes of
    handlers and the locales for their effects.
  \<^item> The agent's handlers, by files of \<open>agent/src/handlers\<close>: \<open>Cron\<close> (\<open>cron.rs\<close>), \<open>Users\<close> (\<open>users.rs\<close>), \<open>Files\<close> (\<open>file_ops.rs\<close>, \<open>file_list.rs\<close>), \<open>Services\<close>
    (\<open>systemd_units.rs\<close>, \<open>systemd_timers.rs\<close>, \<open>journal_query.rs\<close>), \<open>HostActions\<close> (\<open>host_config.rs\<close>, \<open>audit_query.rs\<close>, \<open>system_pubkey.rs\<close>,
    \<open>system_info.rs\<close>), \<open>SshHosts\<close> (\<open>hosts.rs\<close>), \<open>Settings\<close> (\<open>system_settings.rs\<close>), \<open>TimeSync\<close> (\<open>chrony.rs\<close>, \<open>timesync.rs\<close>), \<open>SshManage\<close>,
    \<open>StorageManage\<close>, \<open>Security\<close>, \<open>Kdump\<close>, \<open>Dns\<close>, \<open>LogFiles\<close>, \<open>Certs\<close>, \<open>Networking\<close>, \<open>Containers\<close> (the files of their names), \<open>Packages\<close> and
    \<open>AutoUpdates\<close> (\<open>packages.rs\<close>), \<open>Reports\<close> (\<open>disk_usage.rs\<close>, \<open>network_stats.rs\<close>, \<open>hardware_info.rs\<close>, \<open>top_processes.rs\<close>, \<open>metrics_snapshot.rs\<close>,
    \<open>networking_snapshot.rs\<close>, the stream of \<open>networking.rs\<close>), \<open>StorageReports\<close> (\<open>storage.rs\<close>, \<open>storage_snapshot.rs\<close>, \<open>storage_du.rs\<close>), \<open>Terminal\<close> and
    \<open>TerminalStream\<close> (\<open>terminal_pty.rs\<close>).
  \<^item> The parts together: \<open>AgentPolicy\<close> (the router with all handlers that answer), \<open>Conversations\<close> (what it says on the wire), \<open>SystemWhole\<close> (browsers,
    gateway and agent as one transition system).

  \<^bold>\<open>How the code is rendered.\<close> A struct is a record with the code's members, an enum a datatype. A \<open>HashMap\<close> is an association list
  read through \<open>hm_get\<close>; nothing depends on its order, and an invariant says its keys are distinct where that matters. Strings are lists of bytes. \<open>u32\<close>
  fields of tokens are words; other counters are natural numbers with the bounds written out; sums of \<open>u64\<close> in the reports are taken modulo
  2 ^ 64 as a release build takes them, and \<open>saturating_sub\<close> is subtraction on natural numbers. An instant is a number of nanoseconds. Errors are sums and options, and a panic is
  \<open>None\<close> that sets \<open>st_crashed\<close>, since the agent awaits its handlers in its main task. A method that locks a store is one step on the store. The agent's
  handlers are programs of the state monad over a \<open>world\<close>: the host, of any type \<open>'w\<close>, and the log of effects (each command with its identity
  and arguments, each file written or removed, each audit record).

  \<^bold>\<open>Parameters.\<close> What is not code of the repository is an argument: \<open>crypto\<close> (Ed25519, SHA-256, base64), \<open>pam_backend\<close>, \<open>nss\<close>, \<open>agent_host\<close> (spawning a command,
  reading and writing a file, the clock, \<open>canonicalize\<close>, \<open>serde_json\<close>'s parser and printer), \<open>codec\<close>, \<open>cert_env\<close>, \<open>date_lib\<close>, \<open>dump_fs\<close>, \<open>report_env\<close>, \<open>du_env\<close>. Only where a
  property needs one of their documented laws is it a hypothesis, and the property has a witness at a concrete host.

  \<^bold>\<open>What the lemmas show.\<close> Stores: invariants of every operation, their bounds, that expired entries are never used, and that no run can tell whether
  or when the session reaper ran. The rate limiter refines the
  history of failures in its window. Enrolment: an agent is registered only with a proof of a key that an administrator or a token admitted. Routing: prefix and strip are inverse and
  sessions cannot reach each other's channels. Authentication: a password is accepted exactly when PAM accepts it; the REST operations and the WebSocket
  require a live session, changes an administrator's. Agent: data carries the identity of its channel; each handler is \<^emph>\<open>bounded\<close>: an interpretation of the
  locale \<open>bounded_handler\<close> of \<open>Handlers\<close> says which commands it can run under which identity, and \<open>AgentPolicy\<close> joins them into one bound for every
  reachable state of the router, whose payloads are all those of the code but its four streams; \<open>reading_handler\<close> says what remains for sessions that are no administrators; \<open>SystemWhole\<close> follows a command
  on the host back to a session of the user it runs as. Conversations: the form and the channel of every answer. Handlers: parsers and printers are inverse, edits of files change
  what they should and keep the rest, listings are complete, percentages are at most 100. Theorems that end in a crash or a change without rights show what the code does not prevent; they
  are listed as findings.

  \<^bold>\<open>Termination, bounds and fuel.\<close> Loops over lists are structural; recursion over JSON trees (\<open>flatten\<close>, \<open>normalize_mountpoints\<close>, \<open>enrich_device\<close>) has a measure on the size of the
  value. The scan of certificate directories keeps a stack as the code does; it takes a fuel, and \<open>Certs\<close> proves
  that a fuel of the weight of the start directory is enough, where a weight gives each directory more than its subdirectories together (\<open>tree_weight\<close>), such as
  the number of directories below it, itself included, in a finite tree. A stream runs over the list of the events its \<open>select\<close> wakes for, in any order and number.

  \<^bold>\<open>Not modelled.\<close> The bytes of TLS and HTTP (\<open>tokio\<close>, \<open>axum\<close>, \<open>rustls\<close>) and the text of JSON; when timers fire, reads return and
  what a write takes, which are events of the models; the interleaving of the agent's streams with its
  handlers, which share only the host; the files of the browser's panel, which are TypeScript. The functions that \<open>storage_snapshot.rs\<close> and \<open>storage.rs\<close>, \<open>networking_snapshot.rs\<close> and
  \<open>networking.rs\<close> repeat word for word are modelled once.
\<close>

end
